(* ===== verification/Prelude.thy ===== *)
theory Prelude
  imports Main
begin

text \<open>
  Shared vocabulary of the development: the results of fallible operations, rows of a
  database table kept as lists, JSON values, clock arithmetic, and the generic lemmas the
  component theories use through the collections \<open>tx_simps\<close> (fallible steps) and
  \<open>row_simps\<close> (table reads after table writes).

  Conventions. A timestamp is an \<open>int\<close>, in milliseconds since the epoch, as
  \<open>Date.valueOf\<close> gives it; an amount of money is an \<open>int\<close> in minor units, as the
  source's unbounded \<open>bigint\<close>; a UUID is a \<open>nat\<close>. A string is a list of
  characters read as ASCII.
\<close>

named_theorems tx_simps \<open>inversion of successful and failed steps\<close>
named_theorems row_simps \<open>reads of a table after a write\<close>

text \<open>Quantified tuples (account keys, journal sources) are kept whole in simplification.\<close>

declare split_paired_All [simp del] split_paired_Ex [simp del]

type_synonym id = nat
type_synonym time = int
type_synonym money = int

section \<open>Fallible steps\<close>

text \<open>
  The source raises \<open>ApiException(code, message, status)\<close> for the failures a client
  sees and \<open>Error\<close> for broken internal rules. A transaction that raises is rolled
  back, so a failed step has no successor state.
\<close>

datatype api_error =
    ApiError string nat
  | RuntimeError string

type_synonym 'a outcome = "api_error + 'a"

definition and_then :: "'e + 'a \<Rightarrow> ('a \<Rightarrow> 'e + 'b) \<Rightarrow> 'e + 'b" where
  "and_then m f = (case m of Inl e \<Rightarrow> Inl e | Inr x \<Rightarrow> f x)"

lemma and_then_simps [simp]:
  "and_then (Inl e) f = Inl e"
  "and_then (Inr x) f = f x"
  by (simp_all add: and_then_def)

lemma and_then_Inr_iff [tx_simps]:
  "and_then m f = Inr y \<longleftrightarrow> (\<exists>x. m = Inr x \<and> f x = Inr y)"
  by (cases m) simp_all

lemma and_then_Inl_iff [tx_simps]:
  "and_then m f = Inl e \<longleftrightarrow> m = Inl e \<or> (\<exists>x. m = Inr x \<and> f x = Inl e)"
  by (cases m) simp_all

lemma and_then_assoc: "and_then (and_then m f) g = and_then m (\<lambda>x. and_then (f x) g)"
  by (cases m) simp_all

definition map_outcome :: "('a \<Rightarrow> 'b) \<Rightarrow> 'e + 'a \<Rightarrow> 'e + 'b" where
  "map_outcome f m = and_then m (\<lambda>x. Inr (f x))"

lemma map_outcome_simps [simp]:
  "map_outcome f (Inl e) = Inl e"
  "map_outcome f (Inr x) = Inr (f x)"
  by (simp_all add: map_outcome_def)

lemma map_outcome_Inr_iff [tx_simps]:
  "map_outcome f m = Inr y \<longleftrightarrow> (\<exists>x. m = Inr x \<and> y = f x)"
  by (cases m) auto

text \<open>A \<open>for\<close> loop whose body may raise.\<close>

fun foldM :: "('a \<Rightarrow> 's \<Rightarrow> 'e + 's) \<Rightarrow> 'a list \<Rightarrow> 's \<Rightarrow> 'e + 's" where
  "foldM f [] s = Inr s"
| "foldM f (x # xs) s = and_then (f x s) (foldM f xs)"

lemma foldM_append: "foldM f (xs @ ys) s = and_then (foldM f xs s) (foldM f ys)"
proof (induction xs arbitrary: s)
  case Nil
  then show ?case by simp
next
  case (Cons x xs)
  then show ?case by (cases "f x s") simp_all
qed

lemma foldM_invariant:
  assumes step: "\<And>x s s'. x \<in> set xs \<Longrightarrow> P s \<Longrightarrow> f x s = Inr s' \<Longrightarrow> P s'"
    and "P s" and "foldM f xs s = Inr s'"
  shows "P s'"
  using assms
proof (induction xs arbitrary: s)
  case Nil
  then show ?case by simp
next
  case (Cons x xs)
  from Cons.prems(3) obtain s1 where s1: "f x s = Inr s1" "foldM f xs s1 = Inr s'"
    by (auto simp: tx_simps)
  from Cons.prems(1)[OF _ Cons.prems(2) s1(1)] have "P s1" by simp
  with Cons.prems(1) s1(2) show ?case by (auto intro: Cons.IH)
qed

lemma fold_invariant:
  assumes "\<And>x s. x \<in> set xs \<Longrightarrow> P s \<Longrightarrow> P (f x s)" and "P s"
  shows "P (fold f xs s)"
  using assms by (induction xs arbitrary: s) auto

lemma fold_frame:
  assumes "\<And>x s. g (f x s) = g s"
  shows "g (fold f xs s) = g s"
  using assms by (induction xs arbitrary: s) auto

section \<open>Rows of a table\<close>

text \<open>
  A table is the list of its rows in insertion order. \<open>update_where\<close> is both
  \<open>update\<close> (a predicate on a unique column) and \<open>updateMany\<close>.
\<close>

definition update_where :: "('r \<Rightarrow> bool) \<Rightarrow> ('r \<Rightarrow> 'r) \<Rightarrow> 'r list \<Rightarrow> 'r list" where
  "update_where p f rs = map (\<lambda>r. if p r then f r else r) rs"

lemma update_where_simps [simp]:
  "update_where p f [] = []"
  "update_where p f (r # rs) = (if p r then f r else r) # update_where p f rs"
  by (simp_all add: update_where_def)

lemma update_where_append [simp]:
  "update_where p f (rs @ rs') = update_where p f rs @ update_where p f rs'"
  by (simp add: update_where_def)

lemma length_update_where [simp]: "length (update_where p f rs) = length rs"
  by (simp add: update_where_def)

lemma set_update_where: "set (update_where p f rs) = (\<lambda>r. if p r then f r else r) ` set rs"
  by (simp add: update_where_def)

lemma map_update_where_frame [row_simps]:
  assumes "\<And>r. g (f r) = g r"
  shows "map g (update_where p f rs) = map g rs"
  using assms by (simp add: update_where_def)

lemma update_where_idle: "(\<And>r. r \<in> set rs \<Longrightarrow> \<not> p r) \<Longrightarrow> update_where p f rs = rs"
  by (induction rs) auto

lemma list_all_update_where: "list_all P xs \<Longrightarrow> (\<And>x. P x \<Longrightarrow> P (f x)) \<Longrightarrow> list_all P (update_where q f xs)"
  by (induction xs) auto

lemma distinct_map_eq: "distinct (map f xs) \<Longrightarrow> x \<in> set xs \<Longrightarrow> y \<in> set xs \<Longrightarrow> f x = f y \<Longrightarrow> x = y"
  by (induction xs) (auto simp: image_iff)

lemma find_update_where:
  assumes "\<And>r. q (f r) = q r"
  shows "find q (update_where p f rs) =
    map_option (\<lambda>r. if p r then f r else r) (find q rs)"
  using assms by (induction rs) auto

lemma find_SomeD: "find p xs = Some x \<Longrightarrow> x \<in> set xs \<and> p x"
  by (induction xs) (auto split: if_splits)

lemma find_NoneD: "find p xs = None \<Longrightarrow> x \<in> set xs \<Longrightarrow> \<not> p x"
  by (induction xs) (auto split: if_splits)

lemma find_append:
  "find p (xs @ ys) = (case find p xs of Some x \<Rightarrow> Some x | None \<Rightarrow> find p ys)"
  by (induction xs) auto

lemma find_key_unique:
  "distinct (map k rs) \<Longrightarrow> r \<in> set rs \<Longrightarrow> find (\<lambda>x. k x = k r) rs = Some r"
  by (induction rs) force+

lemma sum_update_where_key:
  fixes g :: "'r \<Rightarrow> int"
  assumes "distinct (map k rs)" and "r \<in> set rs"
  shows "sum_list (map g (update_where (\<lambda>x. k x = k r) f rs)) =
    sum_list (map g rs) - g r + g (f r)"
  using assms
proof (induction rs)
  case Nil
  then show ?case by simp
next
  case (Cons a rs)
  show ?case
  proof (cases "k a = k r")
    case True
    with Cons.prems have "a = r" by (auto simp: image_iff)
    moreover have "k r \<notin> k ` set rs" using True Cons.prems(1) by simp
    then have "update_where (\<lambda>x. k x = k r) f rs = rs"
      by (intro update_where_idle) (metis image_eqI)
    ultimately show ?thesis by simp
  next
    case False
    with Cons show ?thesis by auto
  qed
qed

lemma sum_list_filter_append [simp]:
  "sum_list (map g (filter p (xs @ ys))) =
   (sum_list (map g (filter p xs)) + sum_list (map g (filter p ys)) :: int)"
  by simp

text \<open>
  \<open>orderBy\<close> with \<open>findFirst\<close>: the row with the least key, the earliest inserted of
  several; \<open>desc\<close> negates an integer key.
\<close>

definition first_by :: "('r \<Rightarrow> 'k::linorder) \<Rightarrow> 'r list \<Rightarrow> 'r option" where
  "first_by k rs = (case sort_key k rs of [] \<Rightarrow> None | r # _ \<Rightarrow> Some r)"

lemma first_by_None_iff: "first_by k rs = None \<longleftrightarrow> rs = []"
  by (cases "sort_key k rs") (auto simp: first_by_def dest: arg_cong [where f = length])

lemma first_by_SomeD:
  assumes "first_by k rs = Some r"
  shows "r \<in> set rs" and "\<forall>r' \<in> set rs. k r \<le> k r'"
proof -
  from assms obtain rest where s: "sort_key k rs = r # rest"
    by (auto simp: first_by_def split: list.splits)
  then have "set rs = set (r # rest)" by (metis set_sort)
  moreover have "sorted (map k (r # rest))"
    using s by (metis sorted_sort_key)
  ultimately show "r \<in> set rs" and "\<forall>r' \<in> set rs. k r \<le> k r'" by auto
qed

section \<open>Options\<close>

text \<open>The source's nullish coalescing \<open>a ?? b\<close>.\<close>

definition or_else :: "'a option \<Rightarrow> 'a \<Rightarrow> 'a" where
  "or_else x y = (case x of None \<Rightarrow> y | Some v \<Rightarrow> v)"

lemma or_else_simps [simp]: "or_else None y = y" "or_else (Some v) y = v"
  by (simp_all add: or_else_def)

definition or_else_opt :: "'a option \<Rightarrow> 'a option \<Rightarrow> 'a option" where
  "or_else_opt x y = (case x of None \<Rightarrow> y | Some v \<Rightarrow> Some v)"

lemma or_else_opt_simps [simp]: "or_else_opt None y = y" "or_else_opt (Some v) y = Some v"
  by (simp_all add: or_else_opt_def)

text \<open>A comparison of a nullable column in a \<open>where\<close> clause is false on null.\<close>

definition opt_holds :: "('a \<Rightarrow> bool) \<Rightarrow> 'a option \<Rightarrow> bool" where
  "opt_holds p x = (case x of None \<Rightarrow> False | Some v \<Rightarrow> p v)"

lemma opt_holds_simps [simp]: "\<not> opt_holds p None" "opt_holds p (Some v) = p v"
  by (simp_all add: opt_holds_def)

section \<open>JSON values\<close>

datatype json =
    JNull
  | JBool bool
  | JInt int
  | JDec int nat \<comment> \<open>a number that is no integer: a mantissa and its decimals\<close>
  | JBig int \<comment> \<open>a native bigint, printed as a decimal string\<close>
  | JStr string
  | JId id \<comment> \<open>a UUID, printed as a string\<close>
  | JDate time \<comment> \<open>a Date, printed as an ISO string\<close>
  | JArr "json list"
  | JObj "(string \<times> json) list"

type_synonym json_object = "(string \<times> json) list"

definition json_field :: "string \<Rightarrow> json_object \<Rightarrow> json option" where
  "json_field k fs = map_option snd (find (\<lambda>f. fst f = k) fs)"

section \<open>Text\<close>

fun starts_with :: "string \<Rightarrow> string \<Rightarrow> bool" where
  "starts_with s [] = True"
| "starts_with [] (p # ps) = False"
| "starts_with (c # cs) (p # ps) = (c = p \<and> starts_with cs ps)"

definition ends_with :: "string \<Rightarrow> string \<Rightarrow> bool" where
  "ends_with s p = starts_with (rev s) (rev p)"

lemma starts_with_iff: "starts_with s p \<longleftrightarrow> (\<exists>t. s = p @ t)"
  by (induction s p rule: starts_with.induct) auto

lemma ends_with_iff: "ends_with s p \<longleftrightarrow> (\<exists>t. s = t @ p)"
proof -
  have "ends_with s p \<longleftrightarrow> (\<exists>t. rev s = rev p @ t)"
    by (simp add: ends_with_def starts_with_iff)
  also have "\<dots> \<longleftrightarrow> (\<exists>t. s = t @ p)"
    by (metis rev_append rev_rev_ident)
  finally show ?thesis .
qed

text \<open>\<open>slice(-n)\<close>: the last \<open>n\<close> characters.\<close>

definition last_n :: "nat \<Rightarrow> 'a list \<Rightarrow> 'a list" where
  "last_n n s = drop (length s - n) s"

definition is_digit :: "char \<Rightarrow> bool" where
  "is_digit c = (48 \<le> (of_char c :: nat) \<and> (of_char c :: nat) \<le> 57)"

definition is_lower :: "char \<Rightarrow> bool" where
  "is_lower c = (97 \<le> (of_char c :: nat) \<and> (of_char c :: nat) \<le> 122)"

definition is_upper :: "char \<Rightarrow> bool" where
  "is_upper c = (65 \<le> (of_char c :: nat) \<and> (of_char c :: nat) \<le> 90)"

definition to_lower :: "char \<Rightarrow> char" where
  "to_lower c = (if is_upper c then char_of ((of_char c :: nat) + 32) else c)"

definition to_upper :: "char \<Rightarrow> char" where
  "to_upper c = (if is_lower c then char_of ((of_char c :: nat) - 32) else c)"

text \<open>The ASCII part of \<open>\\s\<close>: space, tab, line feed, vertical tab, form feed, return.\<close>

definition is_space :: "char \<Rightarrow> bool" where
  "is_space c = ((of_char c :: nat) \<in> {9, 10, 11, 12, 13, 32})"

definition trim :: "string \<Rightarrow> string" where
  "trim s = rev (dropWhile is_space (rev (dropWhile is_space s)))"

text \<open>\<open>replace(/\\s+/g, ' ')\<close>.\<close>

function collapse_spaces :: "string \<Rightarrow> string" where
  "collapse_spaces [] = []"
| "collapse_spaces (c # cs) =
     (if is_space c then
        CHR '' '' # collapse_spaces (dropWhile is_space cs)
      else c # collapse_spaces cs)"
  by pat_completeness auto
termination
  by (relation "measure length") (auto simp: le_imp_less_Suc length_dropWhile_le)

text \<open>\<open>replaceAll(from, to)\<close> with a non-empty pattern: leftmost, non-overlapping.\<close>

function replace_all :: "string \<Rightarrow> string \<Rightarrow> string \<Rightarrow> string" where
  "replace_all from to s =
     (if from = [] \<or> s = [] then s
      else if starts_with s from then to @ replace_all from to (drop (length from) s)
      else hd s # replace_all from to (tl s))"
  by pat_completeness auto
termination
  by (relation "measure (\<lambda>(from, to, s). length s)") (auto simp: neq_Nil_conv)

declare replace_all.simps [simp del]

text \<open>\<open>split(sep)\<close> on a one-character separator, and \<open>join\<close>.\<close>

fun split_on :: "char \<Rightarrow> string \<Rightarrow> string list" where
  "split_on c [] = [[]]"
| "split_on c (x # xs) =
     (if x = c then [] # split_on c xs
      else (case split_on c xs of [] \<Rightarrow> [[x]] | w # ws \<Rightarrow> (x # w) # ws))"

lemma split_on_nonempty [simp]: "split_on c s \<noteq> []"
  by (cases s) (auto split: list.splits)

lemma split_on_no_sep: "w \<in> set (split_on c s) \<Longrightarrow> c \<notin> set w"
proof (induction s arbitrary: w)
  case Nil
  then show ?case by simp
next
  case (Cons x xs)
  then show ?case by (auto split: if_splits list.splits)
qed

fun join_with :: "string \<Rightarrow> string list \<Rightarrow> string" where
  "join_with sep [] = []"
| "join_with sep [w] = w"
| "join_with sep (w # ws) = w @ sep @ join_with sep ws"

section \<open>Decimal digits\<close>

definition digit_char :: "nat \<Rightarrow> char" where
  "digit_char n = char_of (48 + n)"

definition digit_value :: "char \<Rightarrow> nat" where
  "digit_value c = of_char c - 48"

text \<open>\<open>BigInt(s)\<close> on a string of digits, and \<open>toString\<close> of a natural number.\<close>

definition nat_of_digits :: "string \<Rightarrow> nat" where
  "nat_of_digits s = fold (\<lambda>c acc. 10 * acc + digit_value c) s 0"

fun nat_to_digits :: "nat \<Rightarrow> string" where
  "nat_to_digits n =
     (if n < 10 then [digit_char n] else nat_to_digits (n div 10) @ [digit_char (n mod 10)])"

declare nat_to_digits.simps [simp del]

text \<open>The two equations under their guards, for evaluation on numerals.\<close>

lemma nat_to_digits_eval:
  "n < 10 \<Longrightarrow> nat_to_digits n = [digit_char n]"
  "10 \<le> n \<Longrightarrow> nat_to_digits n = nat_to_digits (n div 10) @ [digit_char (n mod 10)]"
  by (simp_all add: nat_to_digits.simps [of n])

lemma is_digit_value: "is_digit c \<Longrightarrow> digit_value c < 10 \<and> digit_char (digit_value c) = c"
  by (auto simp: is_digit_def digit_value_def digit_char_def)

lemma digit_value_char: "n < 10 \<Longrightarrow> digit_value (digit_char n) = n"
  by (simp add: digit_value_def digit_char_def)

lemma is_digit_char: "n < 10 \<Longrightarrow> is_digit (digit_char n)"
  by (simp add: digit_char_def is_digit_def)

lemma digit_char_table [simp]:
  "digit_char 0 = CHR ''0''" "digit_char (Suc 0) = CHR ''1''" "digit_char 1 = CHR ''1''"
  "digit_char 2 = CHR ''2''" "digit_char 3 = CHR ''3''" "digit_char 4 = CHR ''4''"
  "digit_char 5 = CHR ''5''" "digit_char 6 = CHR ''6''" "digit_char 7 = CHR ''7''"
  "digit_char 8 = CHR ''8''" "digit_char 9 = CHR ''9''"
  by code_simp+

lemma digit_char_zero_iff: "n < 10 \<Longrightarrow> digit_char n = CHR ''0'' \<longleftrightarrow> n = 0"
  by (metis digit_char_table(1) digit_value_char zero_less_numeral)

lemma nat_of_digits_snoc: "nat_of_digits (s @ [c]) = 10 * nat_of_digits s + digit_value c"
  by (simp add: nat_of_digits_def)

lemma nat_of_digits_Nil [simp]: "nat_of_digits [] = 0"
  by (simp add: nat_of_digits_def)

lemma nat_of_to_digits [simp]: "nat_of_digits (nat_to_digits n) = n"
proof (induction n rule: nat_to_digits.induct)
  case (1 n)
  show ?case
  proof (cases "n < 10")
    case True
    then show ?thesis
      using nat_of_digits_snoc [of "[]" "digit_char n"]
      by (simp add: nat_to_digits.simps [of n] digit_value_char)
  next
    case False
    with 1 show ?thesis
      by (simp add: nat_to_digits.simps [of n] nat_of_digits_snoc digit_value_char)
  qed
qed

lemma nat_to_digits_digits: "\<forall>c \<in> set (nat_to_digits n). is_digit c"
proof (induction n rule: nat_to_digits.induct)
  case (1 n)
  then show ?case
    by (subst nat_to_digits.simps) (auto simp: is_digit_char)
qed

lemma nat_to_digits_nonempty [simp]: "nat_to_digits n \<noteq> []"
  by (subst nat_to_digits.simps) simp

lemma nat_to_digits_leading: "0 < n \<Longrightarrow> hd (nat_to_digits n) \<noteq> CHR ''0''"
proof (induction n rule: nat_to_digits.induct)
  case (1 n)
  show ?case
  proof (cases "n < 10")
    case True
    with 1 show ?thesis by (subst nat_to_digits.simps) (simp add: digit_char_zero_iff)
  next
    case False
    with 1 have "hd (nat_to_digits (n div 10)) \<noteq> CHR ''0''" by (simp add: div_greater_zero_iff)
    with False show ?thesis by (subst nat_to_digits.simps) simp
  qed
qed

lemma length_nat_to_digits_small: "n < 10 \<Longrightarrow> length (nat_to_digits n) = 1"
  by (subst nat_to_digits.simps) simp

end
