(* ===== verification/Contracts.thy ===== *)
theory Contracts
  imports Prelude
begin

text \<open>
  The contracts several components rely on, as locales. A component that provides one
  interprets the locale on its own operations, in its theory; what follows from the contract
  alone is proved here once.

  \<^item> \<open>exactly_once\<close>: an operation with a source key whose effect shows once, however
    often it is repeated (ledger postings, SMS events, job reports, idempotent requests).
  \<^item> \<open>guarded_system\<close>: fallible steps that keep an invariant.
  \<^item> \<open>monotone_system\<close>: such steps that only add to the state, in a given order.
\<close>

section \<open>Repeating an operation\<close>

definition repeat_op :: "nat \<Rightarrow> ('s \<Rightarrow> 'e + 's) \<Rightarrow> 's \<Rightarrow> 'e + 's" where
  "repeat_op n f s = foldM (\<lambda>_. f) (replicate n ()) s"

lemma repeat_op_simps [simp]:
  "repeat_op 0 f s = Inr s"
  "repeat_op (Suc n) f s = and_then (f s) (repeat_op n f)"
  by (simp_all add: repeat_op_def [abs_def])

locale exactly_once =
  fixes run :: "'s \<Rightarrow> 'e + 's" and settled :: "'s \<Rightarrow> bool" and view :: "'s \<Rightarrow> 'v"
    and inv :: "'s \<Rightarrow> bool"
  assumes run_inv: "inv s \<Longrightarrow> run s = Inr s' \<Longrightarrow> inv s'"
    and run_settles: "inv s \<Longrightarrow> run s = Inr s' \<Longrightarrow> settled s'"
    and run_settled: "inv s \<Longrightarrow> settled s \<Longrightarrow> run s = Inr s' \<Longrightarrow> view s' = view s"
begin

lemma repeat_keeps_view:
  "inv s \<Longrightarrow> settled s \<Longrightarrow> repeat_op n run s = Inr s' \<Longrightarrow> view s' = view s"
proof (induction n arbitrary: s)
  case 0
  then show ?case by simp
next
  case (Suc n)
  from Suc.prems(3) obtain s1 where s1: "run s = Inr s1" "repeat_op n run s1 = Inr s'"
    by (auto simp: tx_simps)
  have "view s' = view s1"
    using Suc.prems(1) s1 by (intro Suc.IH) (auto intro: run_inv run_settles)
  also have "\<dots> = view s" using Suc.prems(1,2) s1(1) by (rule run_settled)
  finally show ?case .
qed

lemma retries_show_once:
  assumes "inv s" and "run s = Inr s1" and "repeat_op n run s1 = Inr s'"
  shows "view s' = view s1"
  using assms by (auto intro: repeat_keeps_view run_inv run_settles)

end

section \<open>Steps that keep an invariant\<close>

text \<open>A step in a transaction of its own: when it raises, its writes are rolled back.\<close>

definition attempt :: "('a \<Rightarrow> 's \<Rightarrow> 'e + 's) \<Rightarrow> 'a \<Rightarrow> 's \<Rightarrow> 's" where
  "attempt step a s = (case step a s of Inl e \<Rightarrow> s | Inr s' \<Rightarrow> s')"

definition run_all :: "('a \<Rightarrow> 's \<Rightarrow> 'e + 's) \<Rightarrow> 'a list \<Rightarrow> 's \<Rightarrow> 's" where
  "run_all step as s = fold (attempt step) as s"

lemma run_all_simps [simp]:
  "run_all step [] s = s" "run_all step (a # as) s = run_all step as (attempt step a s)"
  by (simp_all add: run_all_def)

lemma run_all_append: "run_all step (as @ bs) s = run_all step bs (run_all step as s)"
  by (simp add: run_all_def)

locale guarded_system =
  fixes step :: "'a \<Rightarrow> 's \<Rightarrow> 'e + 's" and inv :: "'s \<Rightarrow> bool"
  assumes step_inv: "inv s \<Longrightarrow> step a s = Inr s' \<Longrightarrow> inv s'"
begin

lemma run_inv: "inv s \<Longrightarrow> foldM step as s = Inr s' \<Longrightarrow> inv s'"
  by (rule foldM_invariant [where P = inv and f = step]) (auto intro: step_inv)

lemma attempt_inv: "inv s \<Longrightarrow> inv (attempt step a s)"
  by (auto simp: attempt_def intro: step_inv split: sum.split)

lemma run_all_inv: "inv s \<Longrightarrow> inv (run_all step as s)"
  by (induction as arbitrary: s) (auto intro: attempt_inv)

end

locale monotone_system = guarded_system +
  fixes le :: "'s \<Rightarrow> 's \<Rightarrow> bool"
  assumes le_refl: "le s s" and le_trans: "le s s1 \<Longrightarrow> le s1 s2 \<Longrightarrow> le s s2"
    and step_le: "inv s \<Longrightarrow> step a s = Inr s' \<Longrightarrow> le s s'"
begin

lemma run_le: "inv s \<Longrightarrow> foldM step as s = Inr s' \<Longrightarrow> le s s'"
proof (induction as arbitrary: s)
  case Nil
  then show ?case by (simp add: le_refl)
next
  case (Cons a as)
  from Cons.prems(2) obtain s1 where s1: "step a s = Inr s1" "foldM step as s1 = Inr s'"
    by (auto simp: tx_simps)
  from Cons.prems(1) s1(1) have "le s s1" and "inv s1" by (auto intro: step_le step_inv)
  with Cons.IH [OF _ s1(2)] show ?case by (auto intro: le_trans)
qed

lemma attempt_le: "inv s \<Longrightarrow> le s (attempt step a s)"
  by (auto simp: attempt_def le_refl intro: step_le split: sum.split)

lemma run_all_le: "inv s \<Longrightarrow> le s (run_all step as s)"
proof (induction as arbitrary: s)
  case Nil
  then show ?case by (simp add: le_refl)
next
  case (Cons a as)
  then show ?case using le_trans [OF attempt_le Cons.IH] attempt_inv by simp
qed

end

end
