(* ===== verification/Money.thy ===== *)
theory Money
  imports Prelude
begin

text \<open>
  The money and phone helpers every service shares, from
  \<open>packages/contracts/src/money.ts\<close>: canonical decimal strings with two fraction digits,
  their minor-unit integers, and the canonical \<open>+251\<close> form of an Ethiopian mobile number.
\<close>

text \<open>The regular expression \<open>/^(0|[1-9]\d*)\.\d{2}$/\<close>, and the positivity refinement.\<close>

definition amount_shape :: "string \<Rightarrow> bool" where
  "amount_shape s =
     (4 \<le> length s \<and> s ! (length s - 3) = CHR ''.'' \<and>
      list_all is_digit (take (length s - 3) s) \<and> list_all is_digit (last_n 2 s) \<and>
      (hd s = CHR ''0'' \<longrightarrow> length s = 4))"

definition strip_dot :: "string \<Rightarrow> string" where
  "strip_dot s = (case dropWhile (\<lambda>c. c \<noteq> CHR ''.'') s of [] \<Rightarrow> s
     | _ # rest \<Rightarrow> takeWhile (\<lambda>c. c \<noteq> CHR ''.'') s @ rest)"

definition etbAmountSchema :: "string \<Rightarrow> bool" where
  "etbAmountSchema s = (amount_shape s \<and> 0 < nat_of_digits (strip_dot s))"

definition amountToMinor :: "string \<Rightarrow> money outcome" where
  "amountToMinor s =
     (if etbAmountSchema s then Inr (int (nat_of_digits (strip_dot s)))
      else Inl (ApiError ''validation_error'' 400))"

definition pad_start :: "nat \<Rightarrow> char \<Rightarrow> string \<Rightarrow> string" where
  "pad_start n c s = replicate (n - length s) c @ s"

definition minorToAmount :: "money \<Rightarrow> string" where
  "minorToAmount v =
     (let negative = v < 0;
          absolute = (if negative then - v else v);
          raw = pad_start 3 (CHR ''0'') (nat_to_digits (nat absolute))
      in (if negative then ''-'' else '''') @ take (length raw - 2) raw @ ''.'' @ last_n 2 raw)"

definition nine_digits :: "string \<Rightarrow> bool" where
  "nine_digits s = (length s = 9 \<and> hd s = CHR ''9'' \<and> list_all is_digit s)"

definition normalizeEthiopianPhone :: "string \<Rightarrow> string outcome" where
  "normalizeEthiopianPhone value =
     (let digits = filter (\<lambda>c. is_digit c \<or> c = CHR ''+'') value
      in if starts_with digits ''+251'' \<and> nine_digits (drop 4 digits) then Inr digits
         else if starts_with digits ''251'' \<and> nine_digits (drop 3 digits) then Inr (''+'' @ digits)
         else if starts_with digits ''0'' \<and> nine_digits (drop 1 digits)
           then Inr (''+251'' @ drop 1 digits)
         else if nine_digits digits then Inr (''+251'' @ digits)
         else Inl (RuntimeError ''phone must be a valid Ethiopian mobile number''))"

section \<open>Round trip of amounts\<close>

lemma last_n_length [simp]: "n \<le> length s \<Longrightarrow> length (last_n n s) = n"
  by (simp add: last_n_def)

lemma take_last_n: "take (length s - n) s @ last_n n s = s"
  by (simp add: last_n_def)

lemma digit_not_dot: "is_digit c \<Longrightarrow> c \<noteq> CHR ''.''"
  by (auto simp: is_digit_def)

lemma strip_dot_middle:
  assumes "\<forall>c \<in> set u. is_digit c"
  shows "strip_dot (u @ CHR ''.'' # w) = u @ w"
proof -
  from assms have "\<forall>c \<in> set u. c \<noteq> CHR ''.''" by (auto dest: digit_not_dot)
  then show ?thesis
    by (simp add: strip_dot_def dropWhile_append2 takeWhile_append2)
qed

lemma nat_of_digits_zeros: "nat_of_digits (replicate n (CHR ''0'') @ s) = nat_of_digits s"
proof (induction n)
  case (Suc n)
  then show ?case by (simp add: nat_of_digits_def digit_value_def)
qed simp

lemma pad_start_digits:
  "\<forall>c \<in> set s. is_digit c \<Longrightarrow> \<forall>c \<in> set (pad_start n (CHR ''0'') s). is_digit c"
  by (auto simp: pad_start_def is_digit_def)

lemma length_pad_start: "n \<le> length (pad_start n c s)"
  by (simp add: pad_start_def)

lemma pad_start_leading:
  assumes "0 < n" and "hd (pad_start 3 (CHR ''0'') (nat_to_digits n)) = CHR ''0''"
  shows "length (pad_start 3 (CHR ''0'') (nat_to_digits n)) = 3"
  using assms nat_to_digits_leading [OF assms(1)]
  by (cases "3 \<le> length (nat_to_digits n)") (auto simp: pad_start_def)

lemma minorToAmount_parts:
  assumes "0 < v"
  obtains u w where "minorToAmount v = u @ CHR ''.'' # w" and "length w = 2" and "u \<noteq> []"
    and "\<forall>c \<in> set (u @ w). is_digit c" and "nat_of_digits (u @ w) = nat v"
    and "length u = 1 \<or> hd u \<noteq> CHR ''0''"
proof -
  let ?raw = "pad_start 3 (CHR ''0'') (nat_to_digits (nat v))"
  let ?u = "take (length ?raw - 2) ?raw"
  have len: "3 \<le> length ?raw" by (rule length_pad_start)
  have uw: "?u @ last_n 2 ?raw = ?raw" by (rule take_last_n)
  have "minorToAmount v = ?u @ CHR ''.'' # last_n 2 ?raw"
    using assms by (simp add: minorToAmount_def Let_def)
  moreover have "length (last_n 2 ?raw) = 2" using len by simp
  moreover have "?u \<noteq> []" using len by auto
  moreover have "\<forall>c \<in> set (?u @ last_n 2 ?raw). is_digit c"
    unfolding uw by (intro pad_start_digits nat_to_digits_digits)
  moreover have "nat_of_digits (?u @ last_n 2 ?raw) = nat v"
    unfolding uw by (simp add: pad_start_def nat_of_digits_zeros)
  moreover have "length ?u = 1 \<or> hd ?u \<noteq> CHR ''0''"
  proof (rule disjCI)
    assume "\<not> hd ?u \<noteq> CHR ''0''"
    with len have "hd ?raw = CHR ''0''" by (simp add: hd_take)
    with assms have "length ?raw = 3" by (intro pad_start_leading) auto
    then show "length ?u = 1" by simp
  qed
  ultimately show ?thesis by (rule that)
qed

lemma amount_shapeI:
  assumes "length w = 2" "u \<noteq> []" "\<forall>c \<in> set (u @ w). is_digit c"
    and "length u = 1 \<or> hd u \<noteq> CHR ''0''"
  shows "amount_shape (u @ CHR ''.'' # w)"
proof -
  let ?s = "u @ CHR ''.'' # w"
  have len: "length ?s = length u + 3" using assms(1) by simp
  have L: "length ?s - 3 = length u" using len by simp
  have W: "last_n 2 ?s = w" using assms(1) by (simp add: last_n_def)
  have H: "hd ?s = hd u" using assms(2) by simp
  have T: "take (length u) ?s = u" by simp
  have a: "4 \<le> length ?s" using assms(2) len by (cases u) auto
  have b: "?s ! length u = CHR ''.''" by (rule nth_append_length)
  have c: "list_all is_digit u" "list_all is_digit w"
    using assms(3) by (auto simp: list_all_iff)
  have d: "hd ?s = CHR ''0'' \<longrightarrow> length ?s = 4"
    unfolding H len using assms(4) by auto
  show ?thesis
    unfolding amount_shape_def L W T by (intro conjI a b c d)
qed



section \<open>Canonical phone numbers\<close>

definition canonical_phone :: "string \<Rightarrow> bool" where
  "canonical_phone s = (starts_with s ''+251'' \<and> nine_digits (drop 4 s))"

lemma starts_with_drop: "starts_with s p \<Longrightarrow> s = p @ drop (length p) s"
  by (auto simp: starts_with_iff)

lemma canonical_phone_filter:
  assumes "canonical_phone s"
  shows "filter (\<lambda>c. is_digit c \<or> c = CHR ''+'') s = s"
proof -
  from assms obtain t where t: "s = ''+251'' @ t" "list_all is_digit t"
    by (auto simp: canonical_phone_def nine_digits_def starts_with_iff)
  have "is_digit (CHR ''2'')" "is_digit (CHR ''5'')" "is_digit (CHR ''1'')"
    by (simp_all add: is_digit_def)
  with t show ?thesis by (simp add: list_all_iff)
qed

text \<open>Whatever spelling a phone number is accepted in, the result is the canonical form
  \<open>+251\<close> followed by nine digits that begin with 9, and normalising it again changes nothing.
\<close>

theorem normalize_phone_canonical:
  assumes "normalizeEthiopianPhone value = Inr phone"
  shows "canonical_phone phone \<and> normalizeEthiopianPhone phone = Inr phone"
proof -
  let ?d = "filter (\<lambda>c. is_digit c \<or> c = CHR ''+'') value"
  have "canonical_phone phone"
    using assms
    by (auto simp: normalizeEthiopianPhone_def canonical_phone_def Let_def eval_nat_numeral
        split: if_splits)
  moreover then have "normalizeEthiopianPhone phone = Inr phone"
    by (simp add: normalizeEthiopianPhone_def canonical_phone_filter)
      (simp add: canonical_phone_def)
  ultimately show ?thesis ..
qed

theorem normalize_phone_canonical_witness:
  "normalizeEthiopianPhone ''09 12-34 56 78'' = Inr ''+251912345678'' \<and>
   canonical_phone ''+251912345678''"
proof -
  have "normalizeEthiopianPhone ''09 12-34 56 78'' = Inr ''+251912345678''" by code_simp
  then show ?thesis using normalize_phone_canonical by blast
qed

end
