(* ===== verification/Schema.thy ===== *)
theory Schema
  imports Prelude
begin

text \<open>
  The rows the services read and write, as \<open>apps/api/prisma/schema.prisma\<close> declares
  them, and the database state the transactions pass along. An enum is a datatype with the
  source's constructors behind a letter for the enum, a model is a record whose fields carry
  a prefix for the model, a table is the list of its rows in insertion order. Columns no
  modelled operation reads or writes (labels, currency, callback URLs, user agents) are left
  out. A created row takes the next unused number as its id, standing for a fresh UUID.
\<close>

section \<open>Enums\<close>

datatype environment = Test | Live

datatype device_status =
  Dev_pending | Dev_qualifying | Dev_online | Dev_degraded | Dev_offline | Dev_quarantined | Dev_retired

datatype sim_status = Sim_pending | Sim_active | Sim_payout_stale | Sim_quarantined | Sim_disabled

datatype deposit_status =
  D_awaiting_payment | D_late_grace | D_matching | D_manual_review | D_success | D_expired | D_failed

datatype transfer_status =
  T_accepted | T_queued | T_device_assigned | T_device_started | T_committed | T_provider_pending
| T_success | T_failed | T_unknown | T_manual_review | T_cancelled

datatype job_type =
  Customer_withdrawal | Unknown_reconciliation | Merchant_settlement | Emergency_liquidity_move
| Automatic_sweep | Balance_query

datatype job_state =
  J_queued | J_leased | J_device_started | J_committed | J_provider_pending | J_succeeded | J_failed
| J_unknown | J_cancelled

datatype account_type = Asset | Liability | Revenue | Expense | Suspense_type

datatype recon_status = R_open | R_proposed | R_resolved | R_rejected

datatype financial_mode = Merchant_debit | Internal_move

datatype settlement_status =
  S_requested | S_approved | S_rejected | S_dispatched | S_success | S_failed | S_unknown | S_manual_review

datatype sweep_rule_status = SR_pending | SR_approved | SR_rejected | SR_disabled

datatype sweep_destination = Platform_treasury | Merchant_owned

datatype sweep_status =
  X_queued | X_device_started | X_committed | X_provider_pending | X_success | X_failed | X_unknown
| X_manual_review

datatype treasury_status = TW_pending | TW_active | TW_disabled | TW_quarantined

datatype run_status = Q_pending | Q_running | Q_passed | Q_failed | Q_approved | Q_rejected

datatype check_status = K_pending | K_passed | K_failed

datatype coarse_status = Pending | Success | Failed

section \<open>Ledger tables\<close>

text \<open>
  An account is identified by its unique key (merchant, environment, code), which stands for
  its UUID. The codes are those of \<open>LEDGER_CODES\<close>.
\<close>

datatype ledger_code =
  Available | Reserved | Custody | TreasuryCustody | ProviderFees | PlatformFees | Suspense

type_synonym auth = "id \<times> environment"
type_synonym account_key = "id \<times> environment \<times> ledger_code"

record ledger_account =
  acc_key :: account_key
  acc_type :: account_type
  acc_balance :: money

record ledger_journal =
  jr_id :: id
  jr_env :: environment
  jr_sourceType :: string
  jr_sourceId :: id
  jr_description :: string

datatype direction = D | C

record ledger_entry =
  en_journal :: id
  en_account :: account_key
  en_amount :: money
  en_direction :: direction

section \<open>Merchants and fleet\<close>

record merchant_config =
  cfg_merchant :: id
  cfg_allowAlternate :: bool
  cfg_depositMin :: money
  cfg_depositMax :: money
  cfg_tolerance :: money
  cfg_countdownSeconds :: int
  cfg_lateGraceSeconds :: int
  cfg_reserveFee :: money
  cfg_gatewayFee :: money
  cfg_message :: string

record group_policy =
  gp_merchant :: id
  gp_dedicated :: bool
  gp_priority :: int

record device_group =
  g_id :: id
  g_location :: id
  g_name :: string
  g_code :: string
  g_dailyLimit :: money
  g_ceiling :: money
  g_safetyBalance :: money
  g_safetyHeadroom :: money
  g_merchants :: "group_policy list"

record device =
  dv_id :: id
  dv_group :: id
  dv_name :: string
  dv_model :: "string option"
  dv_serial :: "string option"
  dv_status :: device_status
  dv_authTokenHash :: "string option"
  dv_certFingerprint :: "string option"
  dv_lastHeartbeatAt :: "time option"
  dv_permissionsOk :: bool
  dv_accessibilityOk :: bool
  dv_activeJob :: "id option"

record sim_wallet =
  sim_id :: id
  sim_device :: id
  sim_slot :: int
  sim_subscription :: "int option"
  sim_iccid :: string
  sim_phone :: string
  sim_accountName :: string
  sim_status :: sim_status
  sim_main :: money
  sim_incentive :: money
  sim_fuel :: money
  sim_pocket :: money
  sim_reserved :: money
  sim_sentToday :: money
  sim_receivedToday :: money
  sim_financialDay :: "time option"
  sim_lastBalanceAt :: "time option"
  sim_lastBalanceSource :: "string option"
  sim_lastSmsAt :: "time option"
  sim_nextFence :: int

record balance_snapshot =
  bs_sim :: id
  bs_main :: money
  bs_incentive :: money
  bs_fuel :: money
  bs_pocket :: money
  bs_observedAt :: time

record treasury_wallet =
  tw_id :: id
  tw_merchant :: "id option"
  tw_env :: environment
  tw_phone :: string
  tw_accountName :: string
  tw_status :: treasury_status
  tw_predicted :: money
  tw_confirmed :: "money option"
  tw_lastConfirmedAt :: "time option"
  tw_approvedBy :: "string option"
  tw_approvedAt :: "time option"

section \<open>Money movement\<close>

record deposit_intent =
  dp_id :: id
  dp_merchant :: id
  dp_env :: environment
  dp_sim :: id
  dp_txRef :: string
  dp_customerId :: string
  dp_customerName :: string
  dp_customerPhone :: string
  dp_amount :: money
  dp_credited :: "money option"
  dp_status :: deposit_status
  dp_topup :: bool \<comment> \<open>\<open>metadata._p2p_intent_kind = 'merchant_topup'\<close>\<close>
  dp_expiresAt :: time
  dp_graceEndsAt :: time
  dp_receipt :: "id option"
  dp_providerTx :: "string option"
  dp_createdAt :: time

record sms_receipt =
  rc_id :: id
  rc_eventId :: string
  rc_sim :: id
  rc_direction :: string
  rc_type :: string
  rc_providerTx :: "string option"
  rc_amount :: "money option"
  rc_name :: "string option"
  rc_suffix :: "string option"
  rc_prefix :: "string option"
  rc_occurredAt :: "time option"
  rc_receivedAt :: time

record transfer =
  tr_id :: id
  tr_merchant :: id
  tr_env :: environment
  tr_sim :: "id option"
  tr_reference :: string
  tr_customerId :: string
  tr_phone :: string
  tr_expectedName :: string
  tr_resolvedName :: "string option"
  tr_amount :: money
  tr_reserveFee :: money
  tr_providerFee :: "money option"
  tr_providerVat :: "money option"
  tr_gatewayFee :: money
  tr_mode :: financial_mode
  tr_kind :: job_type
  tr_status :: transfer_status
  tr_providerTx :: "string option"
  tr_committedAt :: "time option"
  tr_estimatedAt :: "time option"
  tr_completedAt :: "time option"
  tr_createdAt :: time

record settlement_request =
  st_id :: id
  st_merchant :: id
  st_env :: environment
  st_reference :: string
  st_phone :: string
  st_expectedName :: string
  st_amount :: money
  st_status :: settlement_status
  st_transfer :: "id option"
  st_requestedBy :: string
  st_reviewedBy :: "string option"
  st_reviewReason :: "string option"
  st_reviewedAt :: "time option"
  st_createdAt :: time

record sweep_rule =
  sr_id :: id
  sr_merchant :: id
  sr_group :: id
  sr_env :: environment
  sr_name :: string
  sr_status :: sweep_rule_status
  sr_destination :: sweep_destination
  sr_phone :: string
  sr_destName :: string
  sr_highWater :: money
  sr_target :: money
  sr_maxPerRun :: money
  sr_interval :: int
  sr_enabled :: bool
  sr_version :: int
  sr_proposedBy :: string
  sr_approvedBy :: "string option"
  sr_approvalReason :: "string option"
  sr_approvedAt :: "time option"
  sr_lastExecutedAt :: "time option"
  sr_createdAt :: time

record sweep_execution =
  sx_id :: id
  sx_rule :: id
  sx_sim :: id
  sx_transfer :: id
  sx_key :: "id \<times> id \<times> int \<times> int" \<comment> \<open>\<open>sweep:rule:sim:version:bucket\<close>\<close>
  sx_amount :: money
  sx_status :: sweep_status
  sx_createdAt :: time
  sx_completedAt :: "time option"

record transfer_attempt =
  at_id :: id
  at_transfer :: id
  at_number :: int
  at_fence :: int
  at_job :: "id option"
  at_startedAt :: "time option"
  at_committedAt :: "time option"
  at_completedAt :: "time option"
  at_outcome :: "string option"
  at_errorCode :: "string option"

text \<open>The JSON payload of a job, with the keys the services write and read.\<close>

record job_payload =
  pl_transfer :: "id option"
  pl_reference :: "string option"
  pl_phone :: "string option"
  pl_expectedName :: "string option"
  pl_amount :: "string option"
  pl_iccid :: "string option"
  pl_approvedName :: "string option"
  pl_notBefore :: "time option"

record device_job =
  jb_id :: id
  jb_type :: job_type
  jb_state :: job_state
  jb_priority :: int
  jb_device :: "id option"
  jb_sim :: id
  jb_profile :: string
  jb_payload :: job_payload
  jb_attempt :: int
  jb_fence :: int
  jb_leaseOwner :: "id option"
  jb_leaseExpiresAt :: "time option"
  jb_expiresAt :: time
  jb_startedAt :: "time option"
  jb_committedAt :: "time option"
  jb_completedAt :: "time option"
  jb_errorCode :: "string option"
  jb_screen :: "string option"
  jb_createdAt :: time

section \<open>Enrolment and qualification\<close>

record activation_code =
  ac_id :: id
  ac_device :: id
  ac_codeHash :: string
  ac_expiresAt :: time
  ac_consumedAt :: "time option"

record qualification_run =
  qr_id :: id
  qr_device :: id
  qr_status :: run_status
  qr_startedAt :: "time option"
  qr_completedAt :: "time option"
  qr_approvedAt :: "time option"
  qr_approvedBy :: "string option"
  qr_reason :: "string option"
  qr_createdAt :: time

record qualification_check =
  qc_id :: id
  qc_run :: id
  qc_sim :: "id option"
  qc_key :: string
  qc_status :: check_status
  qc_evidence :: json_object
  qc_observedAt :: "time option"
  qc_recordedBy :: "string option"

section \<open>Records of what happened\<close>

record outbox_event =
  ob_id :: id
  ob_aggregateType :: string
  ob_aggregateId :: id
  ob_eventType :: string
  ob_payload :: json_object
  ob_publishedAt :: "time option"
  ob_createdAt :: time

record inbox_event =
  ib_source :: string
  ib_externalId :: string
  ib_hash :: string

record recon_case =
  rn_id :: id
  rn_merchant :: "id option"
  rn_type :: string
  rn_status :: recon_status
  rn_refType :: string
  rn_refId :: id
  rn_evidence :: json_object
  rn_resolution :: json_object
  rn_createdAt :: time

record audit_entry =
  au_merchant :: "id option"
  au_actorType :: string
  au_actorId :: string
  au_action :: string
  au_targetType :: string
  au_targetId :: string
  au_reason :: "string option"

text \<open>The stored answer of an idempotent request, under its key or its reference.\<close>

record idem_record =
  im_auth :: auth
  im_operation :: string
  im_key :: string
  im_hash :: string
  im_body :: json
  im_createdAt :: time

section \<open>Settings\<close>

record platform_setting =
  pt_key :: string
  pt_value :: json
  pt_version :: int
  pt_updatedBy :: string

datatype change_status = CH_pending | CH_approved | CH_rejected

record config_change =
  cc_id :: id
  cc_scopeType :: string
  cc_scopeId :: string
  cc_version :: int
  cc_proposed :: json_object
  cc_status :: change_status
  cc_proposedBy :: string
  cc_reviewedBy :: "string option"
  cc_reviewReason :: "string option"
  cc_reviewedAt :: "time option"
  cc_createdAt :: time

section \<open>Merchants, staff and their sessions\<close>

datatype merchant_status = M_active | M_suspended | M_disabled

datatype user_role = Role_owner | Role_admin | Role_support

datatype staff_role = Staff_admin | Staff_operator | Staff_support | Staff_auditor

datatype human_status = H_active | H_disabled

record merchant =
  me_id :: id
  me_slug :: string
  me_name :: string
  me_status :: merchant_status
  me_createdAt :: time

record merchant_user =
  us_id :: id
  us_merchant :: id
  us_email :: string
  us_name :: string
  us_passwordHash :: string
  us_role :: user_role
  us_status :: human_status
  us_lastLoginAt :: "time option"
  us_createdAt :: time

record merchant_invitation =
  iv_id :: id
  iv_merchant :: id
  iv_email :: string
  iv_role :: user_role
  iv_tokenHash :: string
  iv_invitedBy :: "id option"
  iv_expiresAt :: time
  iv_acceptedAt :: "time option"
  iv_revokedAt :: "time option"
  iv_createdAt :: time

record merchant_session =
  se_id :: id
  se_user :: id
  se_tokenHash :: string
  se_expiresAt :: time
  se_lastSeenAt :: time
  se_revokedAt :: "time option"

record api_key =
  ak_id :: id
  ak_merchant :: id
  ak_env :: environment
  ak_label :: string
  ak_prefix :: string
  ak_secretHash :: string
  ak_lastUsedAt :: "time option"
  ak_revokedAt :: "time option"
  ak_createdAt :: time

record platform_staff =
  sf_id :: id
  sf_email :: string
  sf_name :: string
  sf_passwordHash :: string
  sf_role :: staff_role
  sf_status :: human_status
  sf_lastLoginAt :: "time option"

record platform_session =
  ps_id :: id
  ps_staff :: id
  ps_tokenHash :: string
  ps_expiresAt :: time
  ps_lastSeenAt :: time
  ps_revokedAt :: "time option"

record reauth_token =
  rt_session :: id
  rt_tokenHash :: string
  rt_expiresAt :: time
  rt_usedAt :: "time option"

record fleet_location =
  fl_id :: id
  fl_code :: string
  fl_name :: string

section \<open>Webhooks and alerts\<close>

datatype delivery_status = W_pending | W_processing | W_delivered | W_dead

record webhook_endpoint =
  we_id :: id
  we_merchant :: id
  we_env :: environment
  we_url :: string
  we_secretHash :: string
  we_encryptedSecret :: string
  we_enabled :: bool
  we_createdAt :: time
  we_updatedAt :: time

record webhook_delivery =
  wd_id :: id
  wd_event :: id
  wd_endpoint :: id
  wd_attempt :: int
  wd_status :: delivery_status
  wd_nextAttemptAt :: time
  wd_leaseToken :: "string option"
  wd_leaseExpiresAt :: "time option"
  wd_responseCode :: "int option"
  wd_responseBody :: "string option"
  wd_deliveredAt :: "time option"
  wd_createdAt :: time

datatype alert_status = AL_open | AL_acknowledged | AL_resolved

datatype alert_delivery_status = AD_pending | AD_processing | AD_delivered | AD_failed

record operational_alert =
  oa_id :: id
  oa_type :: string
  oa_severity :: string
  oa_status :: alert_status
  oa_message :: string
  oa_dedupeKey :: string
  oa_metadata :: json_object
  oa_acknowledgedBy :: "string option"
  oa_acknowledgedAt :: "time option"
  oa_resolvedBy :: "string option"
  oa_resolvedAt :: "time option"
  oa_createdAt :: time

record alert_delivery =
  ad_id :: id
  ad_alert :: id
  ad_channel :: string
  ad_destination :: string
  ad_status :: alert_delivery_status
  ad_attempt :: nat
  ad_nextAttemptAt :: time
  ad_leaseToken :: "string option"
  ad_leaseExpiresAt :: "time option"
  ad_lastError :: "string option"
  ad_deliveredAt :: "time option"
  ad_createdAt :: time

section \<open>Support cases\<close>

datatype support_status = SC_open | SC_investigating | SC_awaiting_merchant | SC_resolved | SC_closed

datatype support_category =
  Cat_transaction_match | Cat_withdrawal_outcome | Cat_topup | Cat_settlement | Cat_webhook | Cat_api | Cat_other

record support_case =
  sp_id :: id
  sp_merchant :: id
  sp_env :: environment
  sp_category :: support_category
  sp_status :: support_status
  sp_subject :: string
  sp_reference :: "string option"
  sp_createdBy :: "id option"
  sp_assigned :: "id option"
  sp_note :: "string option"
  sp_createdAt :: time
  sp_updatedAt :: time
  sp_resolvedAt :: "time option"

record support_message =
  sm_id :: id
  sm_case :: id
  sm_user :: "id option"
  sm_staff :: "id option"
  sm_body :: string
  sm_evidence :: "string option"
  sm_proposal :: json
  sm_createdAt :: time

section \<open>The database\<close>

record db =
  accounts :: "ledger_account list"
  journals :: "ledger_journal list"
  entries :: "ledger_entry list"
  configs :: "merchant_config list"
  groups :: "device_group list"
  devices :: "device list"
  sims :: "sim_wallet list"
  snapshots :: "balance_snapshot list"
  treasuries :: "treasury_wallet list"
  deposits :: "deposit_intent list"
  receipts :: "sms_receipt list"
  transfers :: "transfer list"
  settlements :: "settlement_request list"
  sweepRules :: "sweep_rule list"
  sweepExecutions :: "sweep_execution list"
  attempts :: "transfer_attempt list"
  jobs :: "device_job list"
  outbox :: "outbox_event list"
  inbox :: "inbox_event list"
  cases :: "recon_case list"
  audit :: "audit_entry list"
  activations :: "activation_code list"
  qualRuns :: "qualification_run list"
  qualChecks :: "qualification_check list"
  idempotency :: "idem_record list"
  settings :: "platform_setting list"
  configChanges :: "config_change list"
  merchants :: "merchant list"
  merchantUsers :: "merchant_user list"
  invitations :: "merchant_invitation list"
  merchantSessions :: "merchant_session list"
  apiKeys :: "api_key list"
  staff :: "platform_staff list"
  staffSessions :: "platform_session list"
  reauthTokens :: "reauth_token list"
  locations :: "fleet_location list"
  endpoints :: "webhook_endpoint list"
  deliveries :: "webhook_delivery list"
  alerts :: "operational_alert list"
  alertDeliveries :: "alert_delivery list"
  supportCases :: "support_case list"
  supportMessages :: "support_message list"
  next_id :: id

definition empty_db :: db where
  "empty_db = \<lparr>accounts = [], journals = [], entries = [], configs = [], groups = [],
     devices = [], sims = [], snapshots = [], treasuries = [], deposits = [], receipts = [],
     transfers = [], settlements = [], sweepRules = [], sweepExecutions = [], attempts = [],
     jobs = [], outbox = [], inbox = [], cases = [], audit = [], activations = [],
     qualRuns = [], qualChecks = [], idempotency = [], settings = [], configChanges = [],
     merchants = [], merchantUsers = [], invitations = [], merchantSessions = [], apiKeys = [],
     staff = [], staffSessions = [], reauthTokens = [], locations = [], endpoints = [], deliveries = [],
     alerts = [], alertDeliveries = [], supportCases = [], supportMessages = [], next_id = 0\<rparr>"

text \<open>The writes every service makes: an outbox event, a reconciliation case, an audit row.\<close>

definition emit :: "time \<Rightarrow> string \<Rightarrow> id \<Rightarrow> string \<Rightarrow> json_object \<Rightarrow> db \<Rightarrow> db" where
  "emit now aggregateType aggregateId eventType payload d =
     d\<lparr>outbox := outbox d @ [\<lparr>ob_id = next_id d, ob_aggregateType = aggregateType,
         ob_aggregateId = aggregateId, ob_eventType = eventType, ob_payload = payload,
         ob_publishedAt = None, ob_createdAt = now\<rparr>],
       next_id := Suc (next_id d)\<rparr>"

definition open_case ::
  "time \<Rightarrow> id option \<Rightarrow> string \<Rightarrow> recon_status \<Rightarrow> string \<Rightarrow> id \<Rightarrow> json_object \<Rightarrow> db \<Rightarrow> db" where
  "open_case now merchant ctype status refType refId evidence d =
     d\<lparr>cases := cases d @ [\<lparr>rn_id = next_id d, rn_merchant = merchant, rn_type = ctype,
         rn_status = status, rn_refType = refType, rn_refId = refId, rn_evidence = evidence,
         rn_resolution = [], rn_createdAt = now\<rparr>],
       next_id := Suc (next_id d)\<rparr>"

definition log_audit ::
  "id option \<Rightarrow> string \<Rightarrow> string \<Rightarrow> string \<Rightarrow> string \<Rightarrow> id \<Rightarrow> string option \<Rightarrow> db \<Rightarrow> db" where
  "log_audit merchant actorType actorId action targetType targetId reason d =
     d\<lparr>audit := audit d @ [\<lparr>au_merchant = merchant, au_actorType = actorType,
         au_actorId = actorId, au_action = action, au_targetType = targetType,
         au_targetId = nat_to_digits targetId, au_reason = reason\<rparr>]\<rparr>"

definition empty_payload :: job_payload where
  "empty_payload = \<lparr>pl_transfer = None, pl_reference = None, pl_phone = None,
     pl_expectedName = None, pl_amount = None, pl_iccid = None, pl_approvedName = None,
     pl_notBefore = None\<rparr>"

text \<open>\<open>deviceJob.create\<close>: a queued first attempt, with the columns the callers set.\<close>

definition CURRENT_DEVICE_PROFILE_VERSION_TEXT :: string where
  "CURRENT_DEVICE_PROFILE_VERSION_TEXT = ''2''"

definition new_job ::
  "time \<Rightarrow> job_type \<Rightarrow> int \<Rightarrow> id \<Rightarrow> id \<Rightarrow> job_payload \<Rightarrow> int \<Rightarrow> int \<Rightarrow> id \<Rightarrow> device_job" where
  "new_job now jtype priority device sim payload attemptNo fence jid =
     \<lparr>jb_id = jid, jb_type = jtype, jb_state = J_queued, jb_priority = priority,
      jb_device = Some device, jb_sim = sim, jb_profile = CURRENT_DEVICE_PROFILE_VERSION_TEXT,
      jb_payload = payload, jb_attempt = attemptNo, jb_fence = fence, jb_leaseOwner = None,
      jb_leaseExpiresAt = None, jb_expiresAt = now + 15 * 60000, jb_startedAt = None,
      jb_committedAt = None, jb_completedAt = None, jb_errorCode = None, jb_screen = None,
      jb_createdAt = now\<rparr>"

text \<open>
  \<open>merchantConfig.upsert\<close> with the schema's defaults: the row of the merchant, created
  when missing.
\<close>

definition default_config :: "id \<Rightarrow> merchant_config" where
  "default_config m = \<lparr>cfg_merchant = m, cfg_allowAlternate = False, cfg_depositMin = 1000,
     cfg_depositMax = 500000000, cfg_tolerance = 0, cfg_countdownSeconds = 600,
     cfg_lateGraceSeconds = 1800, cfg_reserveFee = 10000, cfg_gatewayFee = 0,
     cfg_message = ''We are experiencing technical difficulties. Please try again shortly.''\<rparr>"

definition upsert_config :: "id \<Rightarrow> db \<Rightarrow> merchant_config \<times> db" where
  "upsert_config m d = (case find (\<lambda>c. cfg_merchant c = m) (configs d) of
       Some c \<Rightarrow> (c, d)
     | None \<Rightarrow> (default_config m, d\<lparr>configs := configs d @ [default_config m]\<rparr>))"

definition group_of :: "db \<Rightarrow> device \<Rightarrow> device_group option" where
  "group_of d dv = find (\<lambda>g. g_id g = dv_group dv) (groups d)"

definition device_of :: "db \<Rightarrow> sim_wallet \<Rightarrow> device option" where
  "device_of d s = find (\<lambda>dv. dv_id dv = sim_device s) (devices d)"

section \<open>The ledger part of the database\<close>

text \<open>
  What the ledger invariant of the theory \<open>Ledger\<close> depends on. An operation that leaves
  these tables alone and only allocates ids keeps it; \<open>same_ledger\<close> states that.
\<close>

definition same_ledger :: "db \<Rightarrow> db \<Rightarrow> bool" where
  "same_ledger d d' \<longleftrightarrow> accounts d' = accounts d \<and> journals d' = journals d \<and>
     entries d' = entries d \<and> next_id d \<le> next_id d'"

named_theorems frame_simps \<open>fields an auxiliary write leaves alone\<close>

lemma emit_frame [frame_simps]:
  "accounts (emit now at ai et p d) = accounts d" "journals (emit now at ai et p d) = journals d"
  "entries (emit now at ai et p d) = entries d" "sims (emit now at ai et p d) = sims d"
  "transfers (emit now at ai et p d) = transfers d" "jobs (emit now at ai et p d) = jobs d"
  "attempts (emit now at ai et p d) = attempts d" "devices (emit now at ai et p d) = devices d"
  "deposits (emit now at ai et p d) = deposits d" "receipts (emit now at ai et p d) = receipts d"
  "inbox (emit now at ai et p d) = inbox d" "cases (emit now at ai et p d) = cases d"
  "configs (emit now at ai et p d) = configs d" "groups (emit now at ai et p d) = groups d"
  "settlements (emit now at ai et p d) = settlements d"
  "sweepExecutions (emit now at ai et p d) = sweepExecutions d"
  "sweepRules (emit now at ai et p d) = sweepRules d" "treasuries (emit now at ai et p d) = treasuries d"
  "settings (emit now at ai et p d) = settings d" "idempotency (emit now at ai et p d) = idempotency d"
  "activations (emit now at ai et p d) = activations d"
  "qualRuns (emit now at ai et p d) = qualRuns d" "qualChecks (emit now at ai et p d) = qualChecks d"
  "snapshots (emit now at ai et p d) = snapshots d" "audit (emit now at ai et p d) = audit d"
  "next_id (emit now at ai et p d) = Suc (next_id d)"
  by (simp_all add: emit_def)

lemma open_case_frame [frame_simps]:
  "accounts (open_case now m t s rt ri e d) = accounts d"
  "journals (open_case now m t s rt ri e d) = journals d"
  "entries (open_case now m t s rt ri e d) = entries d" "sims (open_case now m t s rt ri e d) = sims d"
  "transfers (open_case now m t s rt ri e d) = transfers d" "jobs (open_case now m t s rt ri e d) = jobs d"
  "attempts (open_case now m t s rt ri e d) = attempts d"
  "devices (open_case now m t s rt ri e d) = devices d"
  "deposits (open_case now m t s rt ri e d) = deposits d"
  "receipts (open_case now m t s rt ri e d) = receipts d"
  "inbox (open_case now m t s rt ri e d) = inbox d" "outbox (open_case now m t s rt ri e d) = outbox d"
  "configs (open_case now m t s rt ri e d) = configs d" "groups (open_case now m t s rt ri e d) = groups d"
  "settlements (open_case now m t s rt ri e d) = settlements d"
  "sweepExecutions (open_case now m t s rt ri e d) = sweepExecutions d"
  "sweepRules (open_case now m t s rt ri e d) = sweepRules d"
  "treasuries (open_case now m t s rt ri e d) = treasuries d"
  "settings (open_case now m t s rt ri e d) = settings d"
  "idempotency (open_case now m t s rt ri e d) = idempotency d"
  "activations (open_case now m t s rt ri e d) = activations d"
  "qualRuns (open_case now m t s rt ri e d) = qualRuns d" "qualChecks (open_case now m t s rt ri e d) = qualChecks d"
  "snapshots (open_case now m t s rt ri e d) = snapshots d" "audit (open_case now m t s rt ri e d) = audit d"
  "next_id (open_case now m t s rt ri e d) = Suc (next_id d)"
  by (simp_all add: open_case_def)

lemma log_audit_frame [frame_simps]:
  "accounts (log_audit m a b c t i r d) = accounts d" "journals (log_audit m a b c t i r d) = journals d"
  "entries (log_audit m a b c t i r d) = entries d" "sims (log_audit m a b c t i r d) = sims d"
  "transfers (log_audit m a b c t i r d) = transfers d" "jobs (log_audit m a b c t i r d) = jobs d"
  "attempts (log_audit m a b c t i r d) = attempts d" "devices (log_audit m a b c t i r d) = devices d"
  "deposits (log_audit m a b c t i r d) = deposits d" "receipts (log_audit m a b c t i r d) = receipts d"
  "inbox (log_audit m a b c t i r d) = inbox d" "outbox (log_audit m a b c t i r d) = outbox d"
  "cases (log_audit m a b c t i r d) = cases d" "configs (log_audit m a b c t i r d) = configs d"
  "groups (log_audit m a b c t i r d) = groups d" "settlements (log_audit m a b c t i r d) = settlements d"
  "sweepExecutions (log_audit m a b c t i r d) = sweepExecutions d"
  "sweepRules (log_audit m a b c t i r d) = sweepRules d"
  "treasuries (log_audit m a b c t i r d) = treasuries d"
  "settings (log_audit m a b c t i r d) = settings d"
  "idempotency (log_audit m a b c t i r d) = idempotency d"
  "activations (log_audit m a b c t i r d) = activations d"
  "qualRuns (log_audit m a b c t i r d) = qualRuns d" "qualChecks (log_audit m a b c t i r d) = qualChecks d"
  "snapshots (log_audit m a b c t i r d) = snapshots d" "next_id (log_audit m a b c t i r d) = next_id d"
  by (simp_all add: log_audit_def)

lemma same_ledger_refl [simp]: "same_ledger d d"
  by (simp add: same_ledger_def)

lemma same_ledger_trans: "same_ledger d d' \<Longrightarrow> same_ledger d' d'' \<Longrightarrow> same_ledger d d''"
  by (auto simp: same_ledger_def)

lemma same_ledger_aux [simp]:
  "same_ledger d d' \<Longrightarrow> same_ledger d (emit now at ai et p d')"
  "same_ledger d d' \<Longrightarrow> same_ledger d (open_case now m t s rt ri e d')"
  "same_ledger d d' \<Longrightarrow> same_ledger d (log_audit mm a b c t i r d')"
  by (auto simp: same_ledger_def frame_simps)

lemma upsert_config_frame:
  assumes "upsert_config m d = (c, d')"
  shows "same_ledger d d'" and "\<exists>cs. d' = d\<lparr>configs := cs\<rparr>" and "cfg_merchant c = m"
  using assms
  by (auto simp: upsert_config_def same_ledger_def default_config_def split: option.splits
      dest: find_SomeD intro: exI [where x = "configs d"])

end
