(* ===== verification/Ledger.thy ===== *)
theory Ledger
  imports Schema
begin

text \<open>
  The double-entry ledger, \<open>apps/api/src/ledger/ledger.service.ts\<close>. Every operation
  ensures the seven accounts of a merchant and environment and posts one journal: a list of
  debits and credits, identified by its source. The section on the invariant shows that every
  operation keeps each journal balanced and each account balance equal to the sum of its
  entries; the section on effects gives the exact balance change of each operation, and that
  a second call for the same source moves nothing. The advisory lock taken by some operations
  serialises transactions and has no other effect; the transactions here are already serial.
\<close>

section \<open>The account table\<close>

text \<open>\<open>definitions\<close>: the accounts and their types, in the order of the literal.\<close>

definition ledger_codes :: "ledger_code list" where
  "ledger_codes =
     [Available, Reserved, Custody, TreasuryCustody, ProviderFees, PlatformFees, Suspense]"

fun account_type_of :: "ledger_code \<Rightarrow> account_type" where
  "account_type_of Available = Liability"
| "account_type_of Reserved = Liability"
| "account_type_of Custody = Asset"
| "account_type_of TreasuryCustody = Asset"
| "account_type_of ProviderFees = Expense"
| "account_type_of PlatformFees = Revenue"
| "account_type_of Suspense = Liability"

definition key_of :: "auth \<Rightarrow> ledger_code \<Rightarrow> account_key" where
  "key_of auth code = (fst auth, snd auth, code)"

lemma key_of_code [simp]: "snd (snd (key_of auth code)) = code"
  by (simp add: key_of_def)

lemma key_of_eq [simp]: "key_of a c = key_of a' c' \<longleftrightarrow> a = a' \<and> c = c'"
  by (auto simp: key_of_def prod_eq_iff)

definition find_account :: "db \<Rightarrow> account_key \<Rightarrow> ledger_account option" where
  "find_account d k = find (\<lambda>a. acc_key a = k) (accounts d)"

definition upsert_account :: "auth \<Rightarrow> ledger_code \<Rightarrow> db \<Rightarrow> db" where
  "upsert_account auth code d = (case find_account d (key_of auth code) of
       Some a \<Rightarrow> d
     | None \<Rightarrow> d\<lparr>accounts := accounts d @
         [\<lparr>acc_key = key_of auth code, acc_type = account_type_of code, acc_balance = 0\<rparr>]\<rparr>)"

text \<open>The row an upsert returns is the row the table then holds under that key.\<close>

definition account_row :: "db \<Rightarrow> auth \<Rightarrow> ledger_code \<Rightarrow> ledger_account" where
  "account_row d auth code = (case find_account d (key_of auth code) of
       Some a \<Rightarrow> a
     | None \<Rightarrow> \<lparr>acc_key = key_of auth code, acc_type = account_type_of code, acc_balance = 0\<rparr>)"

definition ensureAccounts :: "auth \<Rightarrow> db \<Rightarrow> (ledger_code \<Rightarrow> ledger_account) \<times> db" where
  "ensureAccounts auth d =
     (let d' = fold (upsert_account auth) ledger_codes d in (account_row d' auth, d'))"

definition availableMinor :: "auth \<Rightarrow> db \<Rightarrow> money" where
  "availableMinor auth d =
     (case find_account d (key_of auth Available) of None \<Rightarrow> 0 | Some a \<Rightarrow> acc_balance a)"

section \<open>Posting a journal\<close>

record posting =
  p_account :: ledger_account
  p_direction :: direction
  p_amount :: money

definition sum_direction :: "direction \<Rightarrow> posting list \<Rightarrow> money" where
  "sum_direction dir ps = sum_list (map p_amount (filter (\<lambda>p. p_direction p = dir) ps))"

definition naturalDebit :: "account_type \<Rightarrow> bool" where
  "naturalDebit t = (t = Asset \<or> t = Expense)"

definition increment_of :: "posting \<Rightarrow> money" where
  "increment_of p =
     (let nd = naturalDebit (acc_type (p_account p));
          increase = (nd \<and> p_direction p = D) \<or> (\<not> nd \<and> p_direction p = C)
      in if increase then p_amount p else - p_amount p)"

definition post_entry :: "id \<Rightarrow> posting \<Rightarrow> db \<Rightarrow> db" where
  "post_entry jid p d = d\<lparr>
     entries := entries d @ [\<lparr>en_journal = jid, en_account = acc_key (p_account p),
       en_amount = p_amount p, en_direction = p_direction p\<rparr>],
     accounts := update_where (\<lambda>a. acc_key a = acc_key (p_account p))
       (\<lambda>a. a\<lparr>acc_balance := acc_balance a + increment_of p\<rparr>) (accounts d)\<rparr>"

definition find_journal :: "db \<Rightarrow> string \<Rightarrow> id \<Rightarrow> ledger_journal option" where
  "find_journal d sourceType sourceId =
     find (\<lambda>j. jr_sourceType j = sourceType \<and> jr_sourceId j = sourceId) (journals d)"

definition post :: "auth \<Rightarrow> string \<Rightarrow> id \<Rightarrow> string \<Rightarrow> posting list \<Rightarrow> db \<Rightarrow> db outcome" where
  "post auth sourceType sourceId description postings d =
     (if list_ex (\<lambda>p. p_amount p < 0) postings then
        Inl (RuntimeError ''Ledger postings cannot be negative'')
      else if sum_direction D postings \<noteq> sum_direction C postings then
        Inl (RuntimeError ''Unbalanced journal'')
      else if find_journal d sourceType sourceId \<noteq> None then Inr d
      else
        let jid = next_id d;
            d1 = d\<lparr>journals := journals d @ [\<lparr>jr_id = jid, jr_env = snd auth,
                     jr_sourceType = sourceType, jr_sourceId = sourceId,
                     jr_description = description\<rparr>],
                   next_id := Suc jid\<rparr>
        in Inr (fold (post_entry jid) postings d1))"

section \<open>The operations\<close>

definition providerFeeAdjustment :: "money \<Rightarrow> money \<Rightarrow> money \<times> money" where
  "providerFeeAdjustment reservedTotal actualTotal =
     (if actualTotal \<le> reservedTotal then (reservedTotal - actualTotal, 0)
      else (0, actualTotal - reservedTotal))"

definition creditDeposit :: "auth \<Rightarrow> id \<Rightarrow> money \<Rightarrow> db \<Rightarrow> db outcome" where
  "creditDeposit auth depositId amountMinor d =
     (let (acct, d1) = ensureAccounts auth d in
      post auth ''deposit'' depositId ''Telebirr customer deposit''
        [\<lparr>p_account = acct Custody, p_direction = D, p_amount = amountMinor\<rparr>,
         \<lparr>p_account = acct Available, p_direction = C, p_amount = amountMinor\<rparr>] d1)"

definition moveReceiptToSuspense :: "auth \<Rightarrow> id \<Rightarrow> money \<Rightarrow> db \<Rightarrow> db outcome" where
  "moveReceiptToSuspense auth receiptId amountMinor d =
     (let (acct, d1) = ensureAccounts auth d in
      post auth ''receipt_suspense'' receiptId ''Unmatched Telebirr receipt''
        [\<lparr>p_account = acct Custody, p_direction = D, p_amount = amountMinor\<rparr>,
         \<lparr>p_account = acct Suspense, p_direction = C, p_amount = amountMinor\<rparr>] d1)"

definition releaseSuspenseToMerchant :: "auth \<Rightarrow> auth \<Rightarrow> id \<Rightarrow> money \<Rightarrow> db \<Rightarrow> db outcome" where
  "releaseSuspenseToMerchant source target resolutionId amountMinor d =
     (if snd source \<noteq> snd target then
        Inl (RuntimeError ''Suspense cannot cross runtime environments'')
      else
        let (sourceAcct, d1) = ensureAccounts source d;
            (targetAcct, d2) = ensureAccounts target d1
        in post target ''suspense_resolution'' resolutionId ''Resolve unmatched Telebirr receipt''
          [\<lparr>p_account = sourceAcct Suspense, p_direction = D, p_amount = amountMinor\<rparr>,
           \<lparr>p_account = targetAcct Available, p_direction = C, p_amount = amountMinor\<rparr>,
           \<lparr>p_account = sourceAcct Custody, p_direction = C, p_amount = amountMinor\<rparr>,
           \<lparr>p_account = targetAcct Custody, p_direction = D, p_amount = amountMinor\<rparr>] d2)"

definition reserveWithdrawal :: "auth \<Rightarrow> id \<Rightarrow> money \<Rightarrow> db \<Rightarrow> db outcome" where
  "reserveWithdrawal auth transferId totalMinor d =
     (let (acct, d1) = ensureAccounts auth d in
      case find_account d1 (acc_key (acct Available)) of
        None \<Rightarrow> Inl (RuntimeError ''No LedgerAccount found'')
      | Some available \<Rightarrow>
          if acc_balance available < totalMinor then
            Inl (ApiError ''insufficient_merchant_balance'' 422)
          else post auth ''withdrawal_reservation'' transferId ''Reserve withdrawal funds''
            [\<lparr>p_account = available, p_direction = D, p_amount = totalMinor\<rparr>,
             \<lparr>p_account = acct Reserved, p_direction = C, p_amount = totalMinor\<rparr>] d1)"

definition reserveInternalMoveFee :: "auth \<Rightarrow> id \<Rightarrow> money \<Rightarrow> db \<Rightarrow> db outcome" where
  "reserveInternalMoveFee auth transferId reservedFee d =
     (let (acct, d1) = ensureAccounts auth d in
      case find_account d1 (acc_key (acct Available)) of
        None \<Rightarrow> Inl (RuntimeError ''No LedgerAccount found'')
      | Some available \<Rightarrow>
          if acc_balance available < reservedFee then
            Inl (ApiError ''insufficient_merchant_balance'' 422)
          else post auth ''internal_move_fee_reservation'' transferId
            ''Reserve internal liquidity-move provider fee''
            [\<lparr>p_account = available, p_direction = D, p_amount = reservedFee\<rparr>,
             \<lparr>p_account = acct Reserved, p_direction = C, p_amount = reservedFee\<rparr>] d1)"

definition recordFeeOverrun :: "time \<Rightarrow> auth \<Rightarrow> id \<Rightarrow> money \<Rightarrow> money \<Rightarrow> db \<Rightarrow> db" where
  "recordFeeOverrun now auth transferId reservedFee actualFee d =
     open_case now (Some (fst auth)) ''provider_fee_overrun'' R_open ''transfer'' transferId
       [(''reserved_provider_fee_minor'', JBig reservedFee),
        (''actual_provider_fee_minor'', JBig actualFee),
        (''overrun_minor'', JBig (actualFee - reservedFee))] d"

record settle_values =
  sv_amount :: money
  sv_reservedFee :: money
  sv_actualFee :: money
  sv_gatewayFee :: money

definition settleWithdrawal :: "time \<Rightarrow> auth \<Rightarrow> id \<Rightarrow> settle_values \<Rightarrow> db \<Rightarrow> db outcome" where
  "settleWithdrawal now auth transferId v d =
     (let (acct, d1) = ensureAccounts auth d;
          reservedTotal = sv_amount v + sv_reservedFee v + sv_gatewayFee v;
          actualTotal = sv_amount v + sv_actualFee v + sv_gatewayFee v;
          (refund, overrun) = providerFeeAdjustment reservedTotal actualTotal;
          postings =
            [\<lparr>p_account = acct Reserved, p_direction = D, p_amount = reservedTotal\<rparr>,
             \<lparr>p_account = acct Custody, p_direction = C, p_amount = sv_amount v\<rparr>,
             \<lparr>p_account = acct Custody, p_direction = C, p_amount = sv_actualFee v\<rparr>,
             \<lparr>p_account = acct PlatformFees, p_direction = C, p_amount = sv_gatewayFee v\<rparr>] @
            (if refund > 0 then
               [\<lparr>p_account = acct Available, p_direction = C, p_amount = refund\<rparr>] else []) @
            (if overrun > 0 then
               [\<lparr>p_account = acct Available, p_direction = D, p_amount = overrun\<rparr>] else [])
      in map_outcome
           (\<lambda>d2. if overrun > 0
                 then recordFeeOverrun now auth transferId (sv_reservedFee v) (sv_actualFee v) d2
                 else d2)
           (post auth ''withdrawal_settlement'' transferId ''Settle successful withdrawal''
              postings d1))"

definition settleInternalMoveFee ::
  "time \<Rightarrow> auth \<Rightarrow> id \<Rightarrow> money \<Rightarrow> money \<Rightarrow> money \<Rightarrow> db \<Rightarrow> db outcome" where
  "settleInternalMoveFee now auth transferId amountMinor reservedFee actualFee d =
     (let (acct, d1) = ensureAccounts auth d;
          (refund, overrun) = providerFeeAdjustment reservedFee actualFee;
          postings =
            [\<lparr>p_account = acct Reserved, p_direction = D, p_amount = reservedFee\<rparr>,
             \<lparr>p_account = acct Custody, p_direction = C, p_amount = amountMinor + actualFee\<rparr>,
             \<lparr>p_account = acct TreasuryCustody, p_direction = D, p_amount = amountMinor\<rparr>] @
            (if refund > 0 then
               [\<lparr>p_account = acct Available, p_direction = C, p_amount = refund\<rparr>] else []) @
            (if overrun > 0 then
               [\<lparr>p_account = acct Available, p_direction = D, p_amount = overrun\<rparr>] else [])
      in map_outcome
           (\<lambda>d2. if overrun > 0 then recordFeeOverrun now auth transferId reservedFee actualFee d2
                 else d2)
           (post auth ''internal_move_fee_settlement'' transferId
              ''Settle internal liquidity-move provider fee'' postings d1))"

definition releaseWithdrawalReservation :: "auth \<Rightarrow> id \<Rightarrow> money \<Rightarrow> db \<Rightarrow> db outcome" where
  "releaseWithdrawalReservation auth transferId totalMinor d =
     (let (acct, d1) = ensureAccounts auth d in
      post auth ''withdrawal_release'' transferId ''Release failed withdrawal reservation''
        [\<lparr>p_account = acct Reserved, p_direction = D, p_amount = totalMinor\<rparr>,
         \<lparr>p_account = acct Available, p_direction = C, p_amount = totalMinor\<rparr>] d1)"

definition restoreReleasedWithdrawalForLateSuccess ::
  "auth \<Rightarrow> id \<Rightarrow> money \<Rightarrow> db \<Rightarrow> db outcome" where
  "restoreReleasedWithdrawalForLateSuccess auth transferId totalMinor d =
     (let (acct, d1) = ensureAccounts auth d in
      post auth ''withdrawal_late_rereservation'' transferId
        ''Re-reserve after contradictory late provider success''
        [\<lparr>p_account = acct Available, p_direction = D, p_amount = totalMinor\<rparr>,
         \<lparr>p_account = acct Reserved, p_direction = C, p_amount = totalMinor\<rparr>] d1)"

definition releaseInternalMoveFee :: "auth \<Rightarrow> id \<Rightarrow> money \<Rightarrow> db \<Rightarrow> db outcome" where
  "releaseInternalMoveFee auth transferId reservedFee d =
     (let (acct, d1) = ensureAccounts auth d in
      post auth ''internal_move_fee_release'' transferId
        ''Release internal liquidity-move provider fee reserve''
        [\<lparr>p_account = acct Reserved, p_direction = D, p_amount = reservedFee\<rparr>,
         \<lparr>p_account = acct Available, p_direction = C, p_amount = reservedFee\<rparr>] d1)"

definition restoreReleasedInternalMoveFeeForLateSuccess ::
  "auth \<Rightarrow> id \<Rightarrow> money \<Rightarrow> db \<Rightarrow> db outcome" where
  "restoreReleasedInternalMoveFeeForLateSuccess auth transferId reservedFee d =
     (let (acct, d1) = ensureAccounts auth d in
      post auth ''internal_move_fee_late_rereservation'' transferId
        ''Re-reserve internal-move fee after contradictory late provider success''
        [\<lparr>p_account = acct Available, p_direction = D, p_amount = reservedFee\<rparr>,
         \<lparr>p_account = acct Reserved, p_direction = C, p_amount = reservedFee\<rparr>] d1)"

section \<open>The ledger invariant\<close>

definition signed :: "direction \<Rightarrow> money \<Rightarrow> money" where
  "signed dir m = (case dir of D \<Rightarrow> m | C \<Rightarrow> - m)"

definition journal_total :: "ledger_entry list \<Rightarrow> id \<Rightarrow> money" where
  "journal_total es j =
     sum_list (map (\<lambda>e. if en_journal e = j then signed (en_direction e) (en_amount e) else 0) es)"

definition account_total :: "ledger_entry list \<Rightarrow> account_key \<Rightarrow> money" where
  "account_total es k =
     sum_list (map (\<lambda>e. if en_account e = k then signed (en_direction e) (en_amount e) else 0) es)"

definition normal_sign :: "account_type \<Rightarrow> int" where
  "normal_sign t = (if naturalDebit t then 1 else -1)"

definition chart_ok :: "ledger_account list \<Rightarrow> bool" where
  "chart_ok as \<longleftrightarrow> distinct (map acc_key as) \<and>
     (\<forall>a \<in> set as. acc_type a = account_type_of (snd (snd (acc_key a))))"

definition journals_ok :: "db \<Rightarrow> bool" where
  "journals_ok d \<longleftrightarrow> distinct (map jr_id (journals d)) \<and>
     distinct (map (\<lambda>j. (jr_sourceType j, jr_sourceId j)) (journals d)) \<and>
     (\<forall>j \<in> set (journals d). jr_id j < next_id d \<and> journal_total (entries d) (jr_id j) = 0)"

definition entries_ok :: "db \<Rightarrow> bool" where
  "entries_ok d \<longleftrightarrow> (\<forall>e \<in> set (entries d). 0 \<le> en_amount e \<and>
     en_journal e \<in> jr_id ` set (journals d) \<and> en_account e \<in> acc_key ` set (accounts d))"

definition balances_ok :: "db \<Rightarrow> bool" where
  "balances_ok d \<longleftrightarrow> (\<forall>a \<in> set (accounts d).
     acc_balance a = normal_sign (acc_type a) * account_total (entries d) (acc_key a))"

definition ledger_ok :: "db \<Rightarrow> bool" where
  "ledger_ok d \<longleftrightarrow> chart_ok (accounts d) \<and> journals_ok d \<and> entries_ok d \<and> balances_ok d"

lemma ledger_ok_empty: "ledger_ok empty_db"
  by (simp add: ledger_ok_def chart_ok_def journals_ok_def entries_ok_def balances_ok_def
      empty_db_def)

lemma ledger_ok_same: "ledger_ok d \<Longrightarrow> same_ledger d d' \<Longrightarrow> ledger_ok d'"
  unfolding ledger_ok_def journals_ok_def entries_ok_def balances_ok_def same_ledger_def
  by (auto intro: order.strict_trans2)

lemma total_append [simp]:
  "journal_total (xs @ ys) j = journal_total xs j + journal_total ys j"
  "account_total (xs @ ys) k = account_total xs k + account_total ys k"
  "journal_total [] j = 0" "account_total [] k = 0"
  by (simp_all add: journal_total_def account_total_def)

lemma journal_total_other:
  "(\<And>e. e \<in> set es \<Longrightarrow> en_journal e \<noteq> j) \<Longrightarrow> journal_total es j = 0"
  by (induction es) (auto simp: journal_total_def)

lemma account_total_other:
  "(\<And>e. e \<in> set es \<Longrightarrow> en_account e \<noteq> k) \<Longrightarrow> account_total es k = 0"
  by (induction es) (auto simp: account_total_def)

subsection \<open>Ensuring the accounts\<close>

lemma find_account_mem:
  "chart_ok (accounts d) \<Longrightarrow> a \<in> set (accounts d) \<Longrightarrow> find_account d (acc_key a) = Some a"
  unfolding find_account_def chart_ok_def by (rule find_key_unique) simp_all

lemma upsert_account_frame:
  "\<exists>as. upsert_account auth c d = d\<lparr>accounts := as\<rparr>"
  by (auto simp: upsert_account_def split: option.splits intro: exI [where x = "accounts d"])

lemma upsert_account_keys:
  "acc_key ` set (accounts d) \<subseteq> acc_key ` set (accounts (upsert_account auth c d))"
  by (auto simp: upsert_account_def split: option.splits)

lemma upsert_account_ok:
  assumes "ledger_ok d"
  shows "ledger_ok (upsert_account auth c d)"
proof (cases "find_account d (key_of auth c)")
  case None
  have fresh: "key_of auth c \<notin> acc_key ` set (accounts d)"
    using find_NoneD [OF None [unfolded find_account_def]] by (metis (mono_tags) image_iff)
  then have "account_total (entries d) (key_of auth c) = 0"
    using assms
    by (intro account_total_other) (unfold ledger_ok_def entries_ok_def, metis)
  with fresh assms show ?thesis
    by (auto simp: upsert_account_def None ledger_ok_def chart_ok_def journals_ok_def
        entries_ok_def balances_ok_def)
qed (use assms in \<open>simp add: upsert_account_def\<close>)

lemma find_account_upsert:
  "find_account (upsert_account auth c d) k =
     (if k = key_of auth c \<and> find_account d k = None
      then Some \<lparr>acc_key = k, acc_type = account_type_of c, acc_balance = 0\<rparr>
      else find_account d k)"
  by (auto simp: upsert_account_def find_account_def find_append split: option.splits)

text \<open>A balance read that treats a missing account as empty, as \<open>availableMinor\<close> does.\<close>

definition balance_of :: "db \<Rightarrow> account_key \<Rightarrow> money" where
  "balance_of d k = (case find_account d k of None \<Rightarrow> 0 | Some a \<Rightarrow> acc_balance a)"

lemma balance_of_upsert [simp]: "balance_of (upsert_account auth c d) k = balance_of d k"
  by (auto simp: balance_of_def find_account_upsert)

lemma fold_upsert_frame:
  "\<exists>as. fold (upsert_account auth) cs d = d\<lparr>accounts := as\<rparr>"
proof (induction cs arbitrary: d)
  case Nil
  show ?case by (auto intro: exI [where x = "accounts d"])
next
  case (Cons c cs)
  obtain as where as: "upsert_account auth c d = d\<lparr>accounts := as\<rparr>"
    using upsert_account_frame by blast
  with Cons.IH [of "upsert_account auth c d"] show ?case by simp
qed

lemma fold_upsert_find:
  "find_account d k = Some a \<Longrightarrow> find_account (fold (upsert_account auth) cs d) k = Some a"
  by (induction cs arbitrary: d) (simp_all add: find_account_upsert)

lemma fold_upsert_ensures:
  "c \<in> set cs \<Longrightarrow> find_account (fold (upsert_account auth) cs d) (key_of auth c) \<noteq> None"
proof (induction cs arbitrary: d)
  case (Cons a cs)
  show ?case
  proof (cases "c = a")
    case True
    have "find_account (upsert_account auth a d) (key_of auth a) \<noteq> None"
      by (simp add: find_account_upsert)
    with True show ?thesis by (auto dest: fold_upsert_find)
  qed (use Cons in simp)
qed simp

lemma fold_upsert_balance [simp]:
  "balance_of (fold (upsert_account auth) cs d) k = balance_of d k"
  by (rule fold_frame) simp

lemma ledger_codes_all: "c \<in> set ledger_codes"
  by (cases c) (simp_all add: ledger_codes_def)

text \<open>What the callers of \<open>ensureAccounts\<close> rely on.\<close>

lemma ensureAccounts_result:
  assumes "ensureAccounts auth d = (acct, d1)"
  shows "\<exists>as. d1 = d\<lparr>accounts := as\<rparr>"
    and "find_account d1 (key_of auth c) = Some (acct c)"
    and "acc_key (acct c) = key_of auth c"
    and "balance_of d1 k = balance_of d k"
    and "ledger_ok d \<Longrightarrow> ledger_ok d1"
    and "find_account d k = Some a \<Longrightarrow> find_account d1 k = Some a"
proof -
  have d1: "d1 = fold (upsert_account auth) ledger_codes d" and acct: "acct = account_row d1 auth"
    using assms by (auto simp: ensureAccounts_def Let_def)
  show "\<exists>as. d1 = d\<lparr>accounts := as\<rparr>" unfolding d1 by (rule fold_upsert_frame)
  show row: "find_account d1 (key_of auth c) = Some (acct c)"
    using fold_upsert_ensures [OF ledger_codes_all, of auth d c] d1
    by (auto simp: acct account_row_def)
  show "acc_key (acct c) = key_of auth c"
    using row by (auto simp: find_account_def dest: find_SomeD)
  show "balance_of d1 k = balance_of d k" by (simp add: d1)
  show "ledger_ok d \<Longrightarrow> ledger_ok d1"
    unfolding d1 by (rule fold_invariant) (rule upsert_account_ok)
  show "find_account d k = Some a \<Longrightarrow> find_account d1 k = Some a"
    by (simp add: d1 fold_upsert_find)
qed

lemma ensured_type:
  assumes "ledger_ok d1" and "find_account d1 (key_of auth c) = Some a"
  shows "acc_type a = account_type_of c"
  using assms by (auto simp: ledger_ok_def chart_ok_def find_account_def key_of_def dest!: find_SomeD)

subsection \<open>The effect of a posting list\<close>

definition delta_of :: "posting list \<Rightarrow> account_key \<Rightarrow> money" where
  "delta_of ps k =
     sum_list (map (\<lambda>p. if acc_key (p_account p) = k then increment_of p else 0) ps)"

lemma delta_of_simps [simp]:
  "delta_of [] k = 0"
  "delta_of (p # ps) k = (if acc_key (p_account p) = k then increment_of p else 0) + delta_of ps k"
  "delta_of (ps @ qs) k = delta_of ps k + delta_of qs k"
  by (simp_all add: delta_of_def)

definition entry_of :: "id \<Rightarrow> posting \<Rightarrow> ledger_entry" where
  "entry_of j p = \<lparr>en_journal = j, en_account = acc_key (p_account p), en_amount = p_amount p,
     en_direction = p_direction p\<rparr>"

lemma fold_post_entry:
  "fold (post_entry j) ps d = d\<lparr>entries := entries d @ map (entry_of j) ps,
     accounts := map (\<lambda>a. a\<lparr>acc_balance := acc_balance a + delta_of ps (acc_key a)\<rparr>) (accounts d)\<rparr>"
proof (induction ps arbitrary: d)
  case Nil
  show ?case by simp
next
  case (Cons p ps)
  show ?case
    by (simp add: Cons.IH)
      (auto simp: post_entry_def entry_of_def update_where_def comp_def intro!: map_cong)
qed

lemma signed_simps [simp]: "signed D m = m" "signed C m = - m"
  by (simp_all add: signed_def)

lemma increment_of_signed:
  "increment_of p = normal_sign (acc_type (p_account p)) * signed (p_direction p) (p_amount p)"
  by (cases "p_direction p") (auto simp: increment_of_def normal_sign_def Let_def)

lemma journal_total_entries:
  "journal_total (map (entry_of j) ps) j' =
     (if j' = j then sum_direction D ps - sum_direction C ps else 0)"
proof (induction ps)
  case Nil
  show ?case by (simp add: sum_direction_def)
next
  case (Cons p ps)
  then show ?case
    by (cases "p_direction p")
      (auto simp: journal_total_def sum_direction_def entry_of_def split: if_splits)
qed

lemma account_total_entries:
  assumes "\<And>p. p \<in> set ps \<Longrightarrow> acc_key (p_account p) = k \<Longrightarrow> acc_type (p_account p) = t"
  shows "normal_sign t * account_total (map (entry_of j) ps) k = delta_of ps k"
  using assms
  by (induction ps)
    (auto simp: account_total_def entry_of_def increment_of_signed distrib_left)

text \<open>
  The postings name rows of the account table: the condition under which a journal is
  meaningful. All operations post on rows that \<open>ensureAccounts\<close> has just returned.
\<close>

definition rows_of :: "db \<Rightarrow> posting list \<Rightarrow> bool" where
  "rows_of d ps \<longleftrightarrow> (\<forall>p \<in> set ps. find_account d (acc_key (p_account p)) = Some (p_account p))"

lemma post_cases:
  assumes "post auth st sid desc ps d = Inr d'"
  shows "(find_journal d st sid \<noteq> None \<and> d' = d) \<or>
    (find_journal d st sid = None \<and> sum_direction D ps = sum_direction C ps \<and>
     (\<forall>p \<in> set ps. 0 \<le> p_amount p) \<and>
     d' = d\<lparr>journals := journals d @ [\<lparr>jr_id = next_id d, jr_env = snd auth, jr_sourceType = st,
              jr_sourceId = sid, jr_description = desc\<rparr>],
            next_id := Suc (next_id d),
            entries := entries d @ map (entry_of (next_id d)) ps,
            accounts := map (\<lambda>a. a\<lparr>acc_balance := acc_balance a + delta_of ps (acc_key a)\<rparr>)
              (accounts d)\<rparr>)"
  using assms
  by (auto simp: post_def fold_post_entry Let_def list_ex_iff not_less split: if_splits)

lemma post_succeeds:
  assumes "\<forall>p \<in> set ps. 0 \<le> p_amount p" and "sum_direction D ps = sum_direction C ps"
  shows "\<exists>d'. post auth st sid desc ps d = Inr d'"
  using assms by (auto simp: post_def list_ex_iff Let_def)

lemma post_ok:
  assumes ok: "ledger_ok d" and rows: "rows_of d ps" and run: "post auth st sid desc ps d = Inr d'"
  shows "ledger_ok d'"
  using post_cases [OF run]
proof (elim disjE conjE)
  assume "d' = d" with ok show ?thesis by simp
next
  assume new: "find_journal d st sid = None"
    and bal: "sum_direction D ps = sum_direction C ps" and nn: "\<forall>p \<in> set ps. 0 \<le> p_amount p"
    and d': "d' = d\<lparr>journals := journals d @ [\<lparr>jr_id = next_id d, jr_env = snd auth,
              jr_sourceType = st, jr_sourceId = sid, jr_description = desc\<rparr>],
            next_id := Suc (next_id d), entries := entries d @ map (entry_of (next_id d)) ps,
            accounts := map (\<lambda>a. a\<lparr>acc_balance := acc_balance a + delta_of ps (acc_key a)\<rparr>)
              (accounts d)\<rparr>"
  have fresh: "\<And>j. j \<in> set (journals d) \<Longrightarrow> jr_id j < next_id d"
    using ok by (auto simp: ledger_ok_def journals_ok_def)
  have next_new: "next_id d \<notin> jr_id ` set (journals d)"
    using fresh by fastforce
  have src: "\<And>j. j \<in> set (journals d) \<Longrightarrow> (jr_sourceType j, jr_sourceId j) \<noteq> (st, sid)"
    using find_NoneD [OF new [unfolded find_journal_def]] by auto
  have idle: "journal_total (entries d) (next_id d) = 0"
    using ok fresh
    by (intro journal_total_other) (fastforce simp: ledger_ok_def entries_ok_def)
  have chart: "chart_ok (accounts d')"
    using ok by (auto simp: d' ledger_ok_def chart_ok_def comp_def)
  have jours: "journals_ok d'"
    using ok src bal idle next_new
    by (auto simp: d' ledger_ok_def journals_ok_def journal_total_entries less_Suc_eq)
  have keys: "p_account p \<in> set (accounts d)" if "p \<in> set ps" for p
    using rows that unfolding rows_of_def find_account_def by (blast dest: find_SomeD)
  have "entries_ok d" using ok by (simp add: ledger_ok_def)
  then have ents: "entries_ok d'"
    using nn keys unfolding entries_ok_def
    by (simp add: d' entry_of_def image_image ball_Un)
  have "acc_balance a + delta_of ps (acc_key a) = normal_sign (acc_type a) *
      (account_total (entries d) (acc_key a) +
       account_total (map (entry_of (next_id d)) ps) (acc_key a))"
    if a: "a \<in> set (accounts d)" for a
  proof -
    have "find_account d (acc_key a) = Some a"
      using ok a by (intro find_account_mem) (simp_all add: ledger_ok_def)
    then have "normal_sign (acc_type a) * account_total (map (entry_of (next_id d)) ps) (acc_key a)
        = delta_of ps (acc_key a)"
      using rows by (intro account_total_entries) (metis rows_of_def option.inject)
    with ok a show ?thesis by (simp add: ledger_ok_def balances_ok_def distrib_left)
  qed
  then have "balances_ok d'" by (auto simp: d' balances_ok_def)
  with chart jours ents show ?thesis by (simp add: ledger_ok_def)
qed

subsection \<open>What an operation does to the ledger\<close>

text \<open>
  The tables an operation of the ledger leaves alone: all but its own three, the case table
  (a fee overrun opens a case) and the id counter.
\<close>

definition ledger_frame :: "db \<Rightarrow> db \<Rightarrow> bool" where
  "ledger_frame d d' \<longleftrightarrow> next_id d \<le> next_id d' \<and>
     d' = d\<lparr>accounts := accounts d', journals := journals d', entries := entries d',
       cases := cases d', next_id := next_id d'\<rparr>"

lemma ledger_frame_refl [simp]: "ledger_frame d d"
  by (simp add: ledger_frame_def)

lemma ledger_frame_trans: "ledger_frame d d' \<Longrightarrow> ledger_frame d' d'' \<Longrightarrow> ledger_frame d d''"
  unfolding ledger_frame_def by (cases d; cases d'; cases d'') auto

lemma ledger_frame_tables:
  assumes "ledger_frame d d'"
  shows "sims d' = sims d" "transfers d' = transfers d" "jobs d' = jobs d" "attempts d' = attempts d"
    "devices d' = devices d" "groups d' = groups d" "deposits d' = deposits d"
    "receipts d' = receipts d" "inbox d' = inbox d" "outbox d' = outbox d" "configs d' = configs d"
    "settlements d' = settlements d" "sweepRules d' = sweepRules d"
    "sweepExecutions d' = sweepExecutions d" "treasuries d' = treasuries d"
    "snapshots d' = snapshots d" "audit d' = audit d" "settings d' = settings d"
    "activations d' = activations d" "qualRuns d' = qualRuns d" "qualChecks d' = qualChecks d"
    "next_id d \<le> next_id d'"
  using assms unfolding ledger_frame_def by (cases d; cases d'; simp)+

text \<open>
  \<open>posted_as st sid \<delta> d d'\<close>: the step from \<open>d\<close> to \<open>d'\<close> is the one posting of
  the source (\<open>st\<close>, \<open>sid\<close>). It changes the balances by \<open>\<delta>\<close> the first time, by
  nothing when the source has been posted already, and never the journals of another source.
\<close>

definition posted_as :: "string \<Rightarrow> id \<Rightarrow> (account_key \<Rightarrow> money) \<Rightarrow> db \<Rightarrow> db \<Rightarrow> bool" where
  "posted_as st sid \<delta> d d' \<longleftrightarrow> ledger_ok d' \<and> ledger_frame d d' \<and>
     (\<forall>k. balance_of d' k = balance_of d k + (if find_journal d st sid = None then \<delta> k else 0)) \<and>
     (find_journal d st sid \<noteq> None \<longrightarrow> journals d' = journals d \<and> entries d' = entries d) \<and>
     (\<forall>st' sid'. find_journal d' st' sid' = None \<longleftrightarrow>
        find_journal d st' sid' = None \<and> (st', sid') \<noteq> (st, sid))"

definition ensures :: "db \<Rightarrow> db \<Rightarrow> bool" where
  "ensures d d1 \<longleftrightarrow> ledger_ok d1 \<and> (\<exists>as. d1 = d\<lparr>accounts := as\<rparr>) \<and>
     (\<forall>k. balance_of d1 k = balance_of d k) \<and>
     (\<forall>k a. find_account d k = Some a \<longrightarrow> find_account d1 k = Some a)"

lemma ensureAccounts_ensures:
  "ledger_ok d \<Longrightarrow> ensureAccounts auth d = (acct, d1) \<Longrightarrow> ensures d d1"
  unfolding ensures_def by (blast intro: ensureAccounts_result)

lemma ensures_trans: "ensures d d1 \<Longrightarrow> ensures d1 d2 \<Longrightarrow> ensures d d2"
  unfolding ensures_def by (cases d) auto

lemma find_map_rows: "find p (map f xs) = map_option f (find (\<lambda>x. p (f x)) xs)"
  by (induction xs) auto

lemma balance_of_posted:
  assumes "rows_of d ps" and "accounts d' =
    map (\<lambda>a. a\<lparr>acc_balance := acc_balance a + delta_of ps (acc_key a)\<rparr>) (accounts d)"
  shows "balance_of d' k = balance_of d k + delta_of ps k"
proof -
  have "find_account d' k =
      map_option (\<lambda>a. a\<lparr>acc_balance := acc_balance a + delta_of ps (acc_key a)\<rparr>) (find_account d k)"
    using assms(2) by (simp add: find_account_def find_map_rows comp_def)
  moreover have "delta_of ps k = 0" if "find_account d k = None"
    using assms(1) that by (induction ps) (auto simp: rows_of_def)
  moreover have "acc_key a = k" if "find_account d k = Some a" for a
    using that by (auto simp: find_account_def dest: find_SomeD)
  ultimately show ?thesis by (auto simp: balance_of_def split: option.splits)
qed

lemma posted_asI:
  assumes e: "ensures d d1" and rows: "rows_of d1 ps"
    and run: "post auth st sid desc ps d1 = Inr d'" and \<delta>: "\<And>k. delta_of ps k = \<delta> k"
  shows "posted_as st sid \<delta> d d'"
proof -
  obtain as where as: "d1 = d\<lparr>accounts := as\<rparr>" using e by (auto simp: ensures_def)
  have bal: "balance_of d1 k = balance_of d k" for k
    using e unfolding ensures_def by blast
  have ok: "ledger_ok d'" using e rows run by (auto simp: ensures_def intro: post_ok)
  show ?thesis
    using post_cases [OF run]
  proof (elim disjE conjE)
    assume "d' = d1" and "find_journal d1 st sid \<noteq> None"
    then show ?thesis
      using ok bal unfolding posted_as_def by (auto simp: ledger_frame_def as find_journal_def)
  next
    assume new: "find_journal d1 st sid = None"
      and d': "d' = d1\<lparr>journals := journals d1 @ [\<lparr>jr_id = next_id d1, jr_env = snd auth,
                jr_sourceType = st, jr_sourceId = sid, jr_description = desc\<rparr>],
              next_id := Suc (next_id d1), entries := entries d1 @ map (entry_of (next_id d1)) ps,
              accounts := map (\<lambda>a. a\<lparr>acc_balance := acc_balance a + delta_of ps (acc_key a)\<rparr>)
                (accounts d1)\<rparr>"
    have "balance_of d' k = balance_of d1 k + delta_of ps k" for k
      by (rule balance_of_posted [OF rows]) (simp add: d')
    with new ok bal \<delta> show ?thesis
      unfolding posted_as_def
      by (auto simp: d' ledger_frame_def as find_journal_def find_append split: option.splits)
  qed
qed

lemma posted_as_case:
  "posted_as st sid \<delta> d d' \<Longrightarrow> posted_as st sid \<delta> d (recordFeeOverrun now auth i m n d')"
proof -
  assume p: "posted_as st sid \<delta> d d'"
  have "same_ledger d' (recordFeeOverrun now auth i m n d')" by (simp add: recordFeeOverrun_def)
  then have "ledger_ok (recordFeeOverrun now auth i m n d')"
    using p by (auto simp: posted_as_def intro: ledger_ok_same)
  moreover have "ledger_frame d' (recordFeeOverrun now auth i m n d')"
    by (simp add: ledger_frame_def recordFeeOverrun_def open_case_def)
  ultimately show ?thesis
    using p unfolding posted_as_def
    by (auto simp: recordFeeOverrun_def balance_of_def find_account_def find_journal_def frame_simps
        intro: ledger_frame_trans)
qed

text \<open>\<open>at key m\<close>: the balance change that adds \<open>m\<close> to one account.\<close>

definition at :: "account_key \<Rightarrow> money \<Rightarrow> account_key \<Rightarrow> money" where
  "at key m k = (if k = key then m else 0)"

lemma ensured_row:
  assumes "ledger_ok d" and "ensureAccounts auth d = (acct, d1)"
  shows "find_account d1 (key_of auth c) = Some (acct c)" and "acc_key (acct c) = key_of auth c"
    and "acc_type (acct c) = account_type_of c"
  using ensureAccounts_result [OF assms(2)] assms(1) ensured_type by blast+

lemma rows_of_simps [simp]:
  "rows_of d []"
  "rows_of d (p # ps) \<longleftrightarrow>
     find_account d (acc_key (p_account p)) = Some (p_account p) \<and> rows_of d ps"
  "rows_of d (ps @ qs) \<longleftrightarrow> rows_of d ps \<and> rows_of d qs"
  by (auto simp: rows_of_def)

lemma sum_direction_simps [simp]:
  "sum_direction dir [] = 0"
  "sum_direction dir (p # ps) = (if p_direction p = dir then p_amount p else 0) + sum_direction dir ps"
  "sum_direction dir (ps @ qs) = sum_direction dir ps + sum_direction dir qs"
  by (simp_all add: sum_direction_def)

lemmas effect_simps = increment_of_def Let_def naturalDebit_def at_def

lemma creditDeposit_effect:
  assumes ok: "ledger_ok d" and run: "creditDeposit auth i m d = Inr d'"
  shows "posted_as ''deposit'' i
    (\<lambda>k. at (key_of auth Custody) m k + at (key_of auth Available) m k) d d'"
proof -
  obtain acct d1 where E: "ensureAccounts auth d = (acct, d1)" by fastforce
  note rows = ensured_row [OF ok E]
  show ?thesis
    by (rule posted_asI [OF ensureAccounts_ensures [OF ok E] _ run [unfolded creditDeposit_def E Let_def split]])
      (simp_all add: rows effect_simps)
qed

lemma moveReceiptToSuspense_effect:
  assumes ok: "ledger_ok d" and run: "moveReceiptToSuspense auth i m d = Inr d'"
  shows "posted_as ''receipt_suspense'' i
    (\<lambda>k. at (key_of auth Custody) m k + at (key_of auth Suspense) m k) d d'"
proof -
  obtain acct d1 where E: "ensureAccounts auth d = (acct, d1)" by fastforce
  note rows = ensured_row [OF ok E]
  show ?thesis
    by (rule posted_asI [OF ensureAccounts_ensures [OF ok E] _
          run [unfolded moveReceiptToSuspense_def E Let_def split]])
      (simp_all add: rows effect_simps)
qed

lemma releaseSuspenseToMerchant_effect:
  assumes ok: "ledger_ok d" and run: "releaseSuspenseToMerchant src tgt i m d = Inr d'"
  shows "posted_as ''suspense_resolution'' i
    (\<lambda>k. at (key_of src Suspense) (- m) k + at (key_of tgt Available) m k +
         at (key_of src Custody) (- m) k + at (key_of tgt Custody) m k) d d'"
proof -
  obtain a1 d1 where E1: "ensureAccounts src d = (a1, d1)" by fastforce
  obtain a2 d2 where E2: "ensureAccounts tgt d1 = (a2, d2)" by fastforce
  note e1 = ensureAccounts_ensures [OF ok E1]
  then have ok1: "ledger_ok d1" unfolding ensures_def by blast
  note e2 = ensureAccounts_ensures [OF ok1 E2]
  then have up: "\<And>k a. find_account d1 k = Some a \<Longrightarrow> find_account d2 k = Some a"
    unfolding ensures_def by blast
  note rows = ensured_row [OF ok E1] ensured_row [OF ok1 E2] up
  have run': "post tgt ''suspense_resolution'' i ''Resolve unmatched Telebirr receipt''
      [\<lparr>p_account = a1 Suspense, p_direction = D, p_amount = m\<rparr>,
       \<lparr>p_account = a2 Available, p_direction = C, p_amount = m\<rparr>,
       \<lparr>p_account = a1 Custody, p_direction = C, p_amount = m\<rparr>,
       \<lparr>p_account = a2 Custody, p_direction = D, p_amount = m\<rparr>] d2 = Inr d'"
    using run by (simp add: releaseSuspenseToMerchant_def E1 E2 split: if_splits)
  show ?thesis
    by (rule posted_asI [OF ensures_trans [OF e1 e2] _ run']) (simp_all add: rows effect_simps)
qed

text \<open>The two reservations share their shape: a check of the available balance, then a post.\<close>

lemma reserveWithdrawal_effect:
  assumes ok: "ledger_ok d" and run: "reserveWithdrawal auth i m d = Inr d'"
  shows "posted_as ''withdrawal_reservation'' i
    (\<lambda>k. at (key_of auth Available) (- m) k + at (key_of auth Reserved) m k) d d'"
    and "m \<le> balance_of d (key_of auth Available)"
proof -
  obtain acct d1 where E: "ensureAccounts auth d = (acct, d1)" by fastforce
  note rows = ensured_row [OF ok E]
  have run': "post auth ''withdrawal_reservation'' i ''Reserve withdrawal funds''
      [\<lparr>p_account = acct Available, p_direction = D, p_amount = m\<rparr>,
       \<lparr>p_account = acct Reserved, p_direction = C, p_amount = m\<rparr>] d1 = Inr d'"
    and le: "m \<le> acc_balance (acct Available)"
    using run by (simp_all add: reserveWithdrawal_def E rows split: if_splits)
  show "posted_as ''withdrawal_reservation'' i
    (\<lambda>k. at (key_of auth Available) (- m) k + at (key_of auth Reserved) m k) d d'"
    by (rule posted_asI [OF ensureAccounts_ensures [OF ok E] _ run']) (simp_all add: rows effect_simps)
  have "balance_of d1 (key_of auth Available) = balance_of d (key_of auth Available)"
    by (rule ensureAccounts_result(4) [OF E])
  with le show "m \<le> balance_of d (key_of auth Available)" by (simp add: balance_of_def rows)
qed

lemma reserveInternalMoveFee_effect:
  assumes ok: "ledger_ok d" and run: "reserveInternalMoveFee auth i m d = Inr d'"
  shows "posted_as ''internal_move_fee_reservation'' i
    (\<lambda>k. at (key_of auth Available) (- m) k + at (key_of auth Reserved) m k) d d'"
    and "m \<le> balance_of d (key_of auth Available)"
proof -
  obtain acct d1 where E: "ensureAccounts auth d = (acct, d1)" by fastforce
  note rows = ensured_row [OF ok E]
  have run': "post auth ''internal_move_fee_reservation'' i
      ''Reserve internal liquidity-move provider fee''
      [\<lparr>p_account = acct Available, p_direction = D, p_amount = m\<rparr>,
       \<lparr>p_account = acct Reserved, p_direction = C, p_amount = m\<rparr>] d1 = Inr d'"
    and le: "m \<le> acc_balance (acct Available)"
    using run by (simp_all add: reserveInternalMoveFee_def E rows split: if_splits)
  show "posted_as ''internal_move_fee_reservation'' i
    (\<lambda>k. at (key_of auth Available) (- m) k + at (key_of auth Reserved) m k) d d'"
    by (rule posted_asI [OF ensureAccounts_ensures [OF ok E] _ run']) (simp_all add: rows effect_simps)
  have "balance_of d1 (key_of auth Available) = balance_of d (key_of auth Available)"
    by (rule ensureAccounts_result(4) [OF E])
  with le show "m \<le> balance_of d (key_of auth Available)" by (simp add: balance_of_def rows)
qed

lemma settleWithdrawal_effect:
  assumes ok: "ledger_ok d" and run: "settleWithdrawal now auth i v d = Inr d'"
  shows "posted_as ''withdrawal_settlement'' i
    (\<lambda>k. at (key_of auth Reserved) (- (sv_amount v + sv_reservedFee v + sv_gatewayFee v)) k +
         at (key_of auth Custody) (- (sv_amount v + sv_actualFee v)) k +
         at (key_of auth PlatformFees) (sv_gatewayFee v) k +
         at (key_of auth Available) (sv_reservedFee v - sv_actualFee v) k) d d'"
proof -
  obtain acct d1 where E: "ensureAccounts auth d = (acct, d1)" by fastforce
  note rows = ensured_row [OF ok E]
  let ?\<delta> = "\<lambda>k. at (key_of auth Reserved) (- (sv_amount v + sv_reservedFee v + sv_gatewayFee v)) k +
         at (key_of auth Custody) (- (sv_amount v + sv_actualFee v)) k +
         at (key_of auth PlatformFees) (sv_gatewayFee v) k +
         at (key_of auth Available) (sv_reservedFee v - sv_actualFee v) k"
  obtain ps d2 where ps: "ps = [\<lparr>p_account = acct Reserved, p_direction = D,
        p_amount = sv_amount v + sv_reservedFee v + sv_gatewayFee v\<rparr>,
       \<lparr>p_account = acct Custody, p_direction = C, p_amount = sv_amount v\<rparr>,
       \<lparr>p_account = acct Custody, p_direction = C, p_amount = sv_actualFee v\<rparr>,
       \<lparr>p_account = acct PlatformFees, p_direction = C, p_amount = sv_gatewayFee v\<rparr>] @
      (if sv_actualFee v < sv_reservedFee v then [\<lparr>p_account = acct Available, p_direction = C,
         p_amount = sv_reservedFee v - sv_actualFee v\<rparr>] else []) @
      (if sv_reservedFee v < sv_actualFee v then [\<lparr>p_account = acct Available, p_direction = D,
         p_amount = sv_actualFee v - sv_reservedFee v\<rparr>] else [])"
    and run': "post auth ''withdrawal_settlement'' i ''Settle successful withdrawal'' ps d1 = Inr d2"
    and d': "d' = d2 \<or> d' = recordFeeOverrun now auth i (sv_reservedFee v) (sv_actualFee v) d2"
    using run
    by (cases "sv_actualFee v" "sv_reservedFee v" rule: linorder_cases)
      (auto simp: settleWithdrawal_def E providerFeeAdjustment_def Let_def tx_simps)
  have "posted_as ''withdrawal_settlement'' i ?\<delta> d d2"
    by (rule posted_asI [OF ensureAccounts_ensures [OF ok E] _ run'])
      (simp_all add: rows effect_simps ps)
  with d' show ?thesis by (auto intro: posted_as_case)
qed

lemma settleInternalMoveFee_effect:
  assumes ok: "ledger_ok d" and run: "settleInternalMoveFee now auth i m rf af d = Inr d'"
  shows "posted_as ''internal_move_fee_settlement'' i
    (\<lambda>k. at (key_of auth Reserved) (- rf) k + at (key_of auth Custody) (- (m + af)) k +
         at (key_of auth TreasuryCustody) m k + at (key_of auth Available) (rf - af) k) d d'"
proof -
  obtain acct d1 where E: "ensureAccounts auth d = (acct, d1)" by fastforce
  note rows = ensured_row [OF ok E]
  let ?\<delta> = "\<lambda>k. at (key_of auth Reserved) (- rf) k + at (key_of auth Custody) (- (m + af)) k +
         at (key_of auth TreasuryCustody) m k + at (key_of auth Available) (rf - af) k"
  obtain ps d2 where ps: "ps =
      [\<lparr>p_account = acct Reserved, p_direction = D, p_amount = rf\<rparr>,
       \<lparr>p_account = acct Custody, p_direction = C, p_amount = m + af\<rparr>,
       \<lparr>p_account = acct TreasuryCustody, p_direction = D, p_amount = m\<rparr>] @
      (if af < rf then [\<lparr>p_account = acct Available, p_direction = C, p_amount = rf - af\<rparr>] else []) @
      (if rf < af then [\<lparr>p_account = acct Available, p_direction = D, p_amount = af - rf\<rparr>] else [])"
    and run': "post auth ''internal_move_fee_settlement'' i
      ''Settle internal liquidity-move provider fee'' ps d1 = Inr d2"
    and d': "d' = d2 \<or> d' = recordFeeOverrun now auth i rf af d2"
    using run
    by (cases af rf rule: linorder_cases)
      (auto simp: settleInternalMoveFee_def E providerFeeAdjustment_def Let_def tx_simps)
  have "posted_as ''internal_move_fee_settlement'' i ?\<delta> d d2"
    by (rule posted_asI [OF ensureAccounts_ensures [OF ok E] _ run'])
      (simp_all add: rows effect_simps ps)
  with d' show ?thesis by (auto intro: posted_as_case)
qed

lemma release_effects:
  assumes ok: "ledger_ok d"
  shows "releaseWithdrawalReservation auth i m d = Inr d' \<Longrightarrow> posted_as ''withdrawal_release'' i
      (\<lambda>k. at (key_of auth Reserved) (- m) k + at (key_of auth Available) m k) d d'"
    and "releaseInternalMoveFee auth i m d = Inr d' \<Longrightarrow> posted_as ''internal_move_fee_release'' i
      (\<lambda>k. at (key_of auth Reserved) (- m) k + at (key_of auth Available) m k) d d'"
    and "restoreReleasedWithdrawalForLateSuccess auth i m d = Inr d' \<Longrightarrow>
      posted_as ''withdrawal_late_rereservation'' i
      (\<lambda>k. at (key_of auth Available) (- m) k + at (key_of auth Reserved) m k) d d'"
    and "restoreReleasedInternalMoveFeeForLateSuccess auth i m d = Inr d' \<Longrightarrow>
      posted_as ''internal_move_fee_late_rereservation'' i
      (\<lambda>k. at (key_of auth Available) (- m) k + at (key_of auth Reserved) m k) d d'"
proof -
  obtain acct d1 where E: "ensureAccounts auth d = (acct, d1)" by fastforce
  note rows = ensured_row [OF ok E] and start = ensureAccounts_ensures [OF ok E]
  show "releaseWithdrawalReservation auth i m d = Inr d' \<Longrightarrow> posted_as ''withdrawal_release'' i
      (\<lambda>k. at (key_of auth Reserved) (- m) k + at (key_of auth Available) m k) d d'"
    unfolding releaseWithdrawalReservation_def E Let_def split
    by (erule posted_asI [OF start, rotated]) (simp_all add: rows effect_simps)
  show "releaseInternalMoveFee auth i m d = Inr d' \<Longrightarrow> posted_as ''internal_move_fee_release'' i
      (\<lambda>k. at (key_of auth Reserved) (- m) k + at (key_of auth Available) m k) d d'"
    unfolding releaseInternalMoveFee_def E Let_def split
    by (erule posted_asI [OF start, rotated]) (simp_all add: rows effect_simps)
  show "restoreReleasedWithdrawalForLateSuccess auth i m d = Inr d' \<Longrightarrow>
      posted_as ''withdrawal_late_rereservation'' i
      (\<lambda>k. at (key_of auth Available) (- m) k + at (key_of auth Reserved) m k) d d'"
    unfolding restoreReleasedWithdrawalForLateSuccess_def E Let_def split
    by (erule posted_asI [OF start, rotated]) (simp_all add: rows effect_simps)
  show "restoreReleasedInternalMoveFeeForLateSuccess auth i m d = Inr d' \<Longrightarrow>
      posted_as ''internal_move_fee_late_rereservation'' i
      (\<lambda>k. at (key_of auth Available) (- m) k + at (key_of auth Reserved) m k) d d'"
    unfolding restoreReleasedInternalMoveFeeForLateSuccess_def E Let_def split
    by (erule posted_asI [OF start, rotated]) (simp_all add: rows effect_simps)
qed

end
