(* ===== verification/LedgerLaws.thy ===== *)
theory LedgerLaws
  imports Ledger Contracts
begin

text \<open>
  What the ledger promises the other components: its operations as one type of requests, the
  contracts they fulfil (\<open>guarded_system\<close>, \<open>monotone_system\<close>, \<open>exactly_once\<close>), the trial
  balance, and the life of a reservation over several operations.
\<close>

section \<open>The operations as requests\<close>

datatype ledger_op =
    Credit_deposit auth id money
  | Receipt_to_suspense auth id money
  | Release_suspense auth auth id money
  | Reserve_withdrawal auth id money
  | Reserve_move_fee auth id money
  | Settle_withdrawal auth id settle_values
  | Settle_move_fee auth id money money money
  | Release_withdrawal auth id money
  | Restore_withdrawal auth id money
  | Release_move_fee auth id money
  | Restore_move_fee auth id money

fun run_ledger_op :: "time \<Rightarrow> ledger_op \<Rightarrow> db \<Rightarrow> db outcome" where
  "run_ledger_op now (Credit_deposit a i m) = creditDeposit a i m"
| "run_ledger_op now (Receipt_to_suspense a i m) = moveReceiptToSuspense a i m"
| "run_ledger_op now (Release_suspense s t i m) = releaseSuspenseToMerchant s t i m"
| "run_ledger_op now (Reserve_withdrawal a i m) = reserveWithdrawal a i m"
| "run_ledger_op now (Reserve_move_fee a i m) = reserveInternalMoveFee a i m"
| "run_ledger_op now (Settle_withdrawal a i v) = settleWithdrawal now a i v"
| "run_ledger_op now (Settle_move_fee a i m r f) = settleInternalMoveFee now a i m r f"
| "run_ledger_op now (Release_withdrawal a i m) = releaseWithdrawalReservation a i m"
| "run_ledger_op now (Restore_withdrawal a i m) = restoreReleasedWithdrawalForLateSuccess a i m"
| "run_ledger_op now (Release_move_fee a i m) = releaseInternalMoveFee a i m"
| "run_ledger_op now (Restore_move_fee a i m) = restoreReleasedInternalMoveFeeForLateSuccess a i m"

text \<open>The source under which an operation posts, and its balance change.\<close>

fun op_source :: "ledger_op \<Rightarrow> string \<times> id" where
  "op_source (Credit_deposit a i m) = (''deposit'', i)"
| "op_source (Receipt_to_suspense a i m) = (''receipt_suspense'', i)"
| "op_source (Release_suspense s t i m) = (''suspense_resolution'', i)"
| "op_source (Reserve_withdrawal a i m) = (''withdrawal_reservation'', i)"
| "op_source (Reserve_move_fee a i m) = (''internal_move_fee_reservation'', i)"
| "op_source (Settle_withdrawal a i v) = (''withdrawal_settlement'', i)"
| "op_source (Settle_move_fee a i m r f) = (''internal_move_fee_settlement'', i)"
| "op_source (Release_withdrawal a i m) = (''withdrawal_release'', i)"
| "op_source (Restore_withdrawal a i m) = (''withdrawal_late_rereservation'', i)"
| "op_source (Release_move_fee a i m) = (''internal_move_fee_release'', i)"
| "op_source (Restore_move_fee a i m) = (''internal_move_fee_late_rereservation'', i)"

fun op_delta :: "ledger_op \<Rightarrow> account_key \<Rightarrow> money" where
  "op_delta (Credit_deposit a i m) =
     (\<lambda>k. at (key_of a Custody) m k + at (key_of a Available) m k)"
| "op_delta (Receipt_to_suspense a i m) =
     (\<lambda>k. at (key_of a Custody) m k + at (key_of a Suspense) m k)"
| "op_delta (Release_suspense s t i m) =
     (\<lambda>k. at (key_of s Suspense) (- m) k + at (key_of t Available) m k +
     at (key_of s Custody) (- m) k + at (key_of t Custody) m k)"
| "op_delta (Reserve_withdrawal a i m) =
     (\<lambda>k. at (key_of a Available) (- m) k + at (key_of a Reserved) m k)"
| "op_delta (Reserve_move_fee a i m) =
     (\<lambda>k. at (key_of a Available) (- m) k + at (key_of a Reserved) m k)"
| "op_delta (Settle_withdrawal a i v) =
     (\<lambda>k. at (key_of a Reserved) (- (sv_amount v + sv_reservedFee v + sv_gatewayFee v)) k +
     at (key_of a Custody) (- (sv_amount v + sv_actualFee v)) k +
     at (key_of a PlatformFees) (sv_gatewayFee v) k +
     at (key_of a Available) (sv_reservedFee v - sv_actualFee v) k)"
| "op_delta (Settle_move_fee a i m r f) =
     (\<lambda>k. at (key_of a Reserved) (- r) k + at (key_of a Custody) (- (m + f)) k +
     at (key_of a TreasuryCustody) m k + at (key_of a Available) (r - f) k)"
| "op_delta (Release_withdrawal a i m) =
     (\<lambda>k. at (key_of a Reserved) (- m) k + at (key_of a Available) m k)"
| "op_delta (Restore_withdrawal a i m) =
     (\<lambda>k. at (key_of a Available) (- m) k + at (key_of a Reserved) m k)"
| "op_delta (Release_move_fee a i m) =
     (\<lambda>k. at (key_of a Reserved) (- m) k + at (key_of a Available) m k)"
| "op_delta (Restore_move_fee a i m) =
     (\<lambda>k. at (key_of a Available) (- m) k + at (key_of a Reserved) m k)"

text \<open>
  The ledger's refinement statement: an operation on the tables is the addition of its
  balance change, once per source.
\<close>

lemma run_ledger_op_effect:
  assumes "ledger_ok d" and "run_ledger_op now p d = Inr d'"
  shows "posted_as (fst (op_source p)) (snd (op_source p)) (op_delta p) d d'"
  using assms
  by (cases p)
    (simp_all add: creditDeposit_effect moveReceiptToSuspense_effect
      releaseSuspenseToMerchant_effect reserveWithdrawal_effect reserveInternalMoveFee_effect
      settleWithdrawal_effect settleInternalMoveFee_effect release_effects
      del: minus_add_distrib)

section \<open>The contracts\<close>

definition journal_growth :: "db \<Rightarrow> db \<Rightarrow> bool" where
  "journal_growth d d' \<longleftrightarrow> (\<forall>st i. find_journal d st i \<noteq> None \<longrightarrow> find_journal d' st i \<noteq> None)"

interpretation ledger: monotone_system "run_ledger_op now" ledger_ok journal_growth for now
proof
  fix p d d'
  assume "ledger_ok d" and "run_ledger_op now p d = Inr d'"
  from run_ledger_op_effect [OF this] show "ledger_ok d'" and "journal_growth d d'"
    by (auto simp: posted_as_def journal_growth_def)
qed (auto simp: journal_growth_def)

definition ledger_view :: "db \<Rightarrow> ledger_journal list \<times> ledger_entry list \<times> (account_key \<Rightarrow> money)" where
  "ledger_view d = (journals d, entries d, balance_of d)"

interpretation ledger_once: exactly_once "run_ledger_op now p"
    "\<lambda>d. find_journal d (fst (op_source p)) (snd (op_source p)) \<noteq> None" ledger_view ledger_ok
  for now p
proof
  fix d d'
  assume ok: "ledger_ok d" and run: "run_ledger_op now p d = Inr d'"
  note e = run_ledger_op_effect [OF this]
  from e show "ledger_ok d'" and "find_journal d' (fst (op_source p)) (snd (op_source p)) \<noteq> None"
    by (auto simp: posted_as_def)
  assume "find_journal d (fst (op_source p)) (snd (op_source p)) \<noteq> None"
  with e show "ledger_view d' = ledger_view d" by (auto simp: posted_as_def ledger_view_def)
qed

section \<open>Success of the postings\<close>

lemma settleWithdrawal_succeeds:
  assumes "0 \<le> sv_amount v" "0 \<le> sv_reservedFee v" "0 \<le> sv_actualFee v" "0 \<le> sv_gatewayFee v"
  shows "\<exists>d'. settleWithdrawal now auth i v d = Inr d'"
proof -
  obtain acct d1 where E: "ensureAccounts auth d = (acct, d1)" by fastforce
  show ?thesis
    using assms
    by (cases "sv_actualFee v" "sv_reservedFee v" rule: linorder_cases)
      (auto simp: settleWithdrawal_def E providerFeeAdjustment_def Let_def tx_simps
        intro!: post_succeeds)
qed

lemma settleInternalMoveFee_succeeds:
  assumes "0 \<le> m" "0 \<le> rf" "0 \<le> af"
  shows "\<exists>d'. settleInternalMoveFee now auth i m rf af d = Inr d'"
proof -
  obtain acct d1 where E: "ensureAccounts auth d = (acct, d1)" by fastforce
  show ?thesis
    using assms
    by (cases af rf rule: linorder_cases)
      (auto simp: settleInternalMoveFee_def E providerFeeAdjustment_def Let_def tx_simps
        intro!: post_succeeds)
qed

lemma simple_posts_succeed:
  assumes "0 \<le> m"
  shows "\<exists>d'. creditDeposit auth i m d = Inr d'"
    and "\<exists>d'. moveReceiptToSuspense auth i m d = Inr d'"
    and "\<exists>d'. releaseWithdrawalReservation auth i m d = Inr d'"
    and "\<exists>d'. restoreReleasedWithdrawalForLateSuccess auth i m d = Inr d'"
    and "\<exists>d'. releaseInternalMoveFee auth i m d = Inr d'"
    and "\<exists>d'. restoreReleasedInternalMoveFeeForLateSuccess auth i m d = Inr d'"
  using assms
  by (auto simp: creditDeposit_def moveReceiptToSuspense_def releaseWithdrawalReservation_def
      restoreReleasedWithdrawalForLateSuccess_def releaseInternalMoveFee_def
      restoreReleasedInternalMoveFeeForLateSuccess_def split_beta intro!: post_succeeds)


section \<open>The trial balance\<close>

lemma sum_by_key:
  fixes c :: int
  assumes "distinct (map k as)" and "x \<in> k ` set as"
  shows "sum_list (map (\<lambda>a. if x = k a then c else 0) as) = c"
  using assms
proof (induction as)
  case (Cons a as)
  have "sum_list (map (\<lambda>a. if x = k a then c else 0) as) = 0" if "x \<notin> k ` set as"
    using that by (induction as) auto
  with Cons show ?case by auto
qed simp

lemma sum_account_totals:
  assumes "distinct (map acc_key as)" and "\<forall>e \<in> set es. en_account e \<in> acc_key ` set as"
  shows "sum_list (map (\<lambda>a. account_total es (acc_key a)) as) =
    sum_list (map (\<lambda>e. signed (en_direction e) (en_amount e)) es)"
  using assms(2)
proof (induction es)
  case (Cons e es)
  have "sum_list (map (\<lambda>a. account_total (e # es) (acc_key a)) as) =
      sum_list (map (\<lambda>a. if en_account e = acc_key a then signed (en_direction e) (en_amount e) else 0) as)
      + sum_list (map (\<lambda>a. account_total es (acc_key a)) as)"
    by (simp add: account_total_def sum_list_addf)
  with Cons show ?case using assms(1) by (simp add: sum_by_key)
qed (simp add: account_total_def)

lemma sum_journal_totals:
  assumes "distinct (map jr_id js)" and "\<forall>e \<in> set es. en_journal e \<in> jr_id ` set js"
  shows "sum_list (map (\<lambda>j. journal_total es (jr_id j)) js) =
    sum_list (map (\<lambda>e. signed (en_direction e) (en_amount e)) es)"
  using assms(2)
proof (induction es)
  case (Cons e es)
  have "sum_list (map (\<lambda>j. journal_total (e # es) (jr_id j)) js) =
      sum_list (map (\<lambda>j. if en_journal e = jr_id j then signed (en_direction e) (en_amount e) else 0) js)
      + sum_list (map (\<lambda>j. journal_total es (jr_id j)) js)"
    by (simp add: journal_total_def sum_list_addf)
  with Cons show ?case using assms(1) by (simp add: sum_by_key)
qed (simp add: journal_total_def)

definition class_total :: "db \<Rightarrow> bool \<Rightarrow> money" where
  "class_total d nd =
     sum_list (map acc_balance (filter (\<lambda>a. naturalDebit (acc_type a) = nd) (accounts d)))"

lemma signed_balances_split:
  "sum_list (map (\<lambda>a. normal_sign (acc_type a) * acc_balance a) as) =
     sum_list (map acc_balance (filter (\<lambda>a. naturalDebit (acc_type a) = True) as)) -
     sum_list (map acc_balance (filter (\<lambda>a. naturalDebit (acc_type a) = False) as))"
  by (induction as) (auto simp: normal_sign_def)

lemma ledger_ok_trial_balance:
  assumes "ledger_ok d"
  shows "class_total d True = class_total d False"
proof -
  have "normal_sign (acc_type a) * acc_balance a = account_total (entries d) (acc_key a)"
    if "a \<in> set (accounts d)" for a
    using assms that by (simp add: ledger_ok_def balances_ok_def normal_sign_def)
  then have "sum_list (map (\<lambda>a. normal_sign (acc_type a) * acc_balance a) (accounts d)) =
      sum_list (map (\<lambda>a. account_total (entries d) (acc_key a)) (accounts d))"
    by (intro arg_cong [where f = sum_list] map_cong) simp_all
  also have "\<dots> = sum_list (map (\<lambda>e. signed (en_direction e) (en_amount e)) (entries d))"
    using assms by (intro sum_account_totals) (simp_all add: ledger_ok_def chart_ok_def entries_ok_def)
  also have "\<dots> = sum_list (map (\<lambda>j. journal_total (entries d) (jr_id j)) (journals d))"
    using assms
    by (intro sum_journal_totals [symmetric]) (simp_all add: ledger_ok_def journals_ok_def entries_ok_def)
  also have "\<dots> = sum_list (map (\<lambda>j. 0) (journals d))"
    using assms by (intro arg_cong [where f = sum_list] map_cong) (simp_all add: ledger_ok_def journals_ok_def)
  finally show ?thesis by (simp add: signed_balances_split class_total_def)
qed

section \<open>The two reservations\<close>

lemma reserveWithdrawal_cases:
  assumes "ledger_ok d" and "0 \<le> m"
  shows "(m \<le> balance_of d (key_of auth Available) \<and> (\<exists>d'. reserveWithdrawal auth i m d = Inr d')) \<or>
    (balance_of d (key_of auth Available) < m \<and>
     reserveWithdrawal auth i m d = Inl (ApiError ''insufficient_merchant_balance'' 422))"
proof -
  obtain acct d1 where E: "ensureAccounts auth d = (acct, d1)" by fastforce
  note rows = ensured_row [OF assms(1) E]
  have "acc_balance (acct Available) = balance_of d (key_of auth Available)"
    using ensureAccounts_result(4) [OF E, of "key_of auth Available"] by (simp add: balance_of_def rows)
  then show ?thesis
    using assms(2) by (auto simp: reserveWithdrawal_def E rows intro!: post_succeeds)
qed

lemma reserveInternalMoveFee_cases:
  assumes "ledger_ok d" and "0 \<le> m"
  shows "(m \<le> balance_of d (key_of auth Available) \<and> (\<exists>d'. reserveInternalMoveFee auth i m d = Inr d')) \<or>
    (balance_of d (key_of auth Available) < m \<and>
     reserveInternalMoveFee auth i m d = Inl (ApiError ''insufficient_merchant_balance'' 422))"
proof -
  obtain acct d1 where E: "ensureAccounts auth d = (acct, d1)" by fastforce
  note rows = ensured_row [OF assms(1) E]
  have "acc_balance (acct Available) = balance_of d (key_of auth Available)"
    using ensureAccounts_result(4) [OF E, of "key_of auth Available"] by (simp add: balance_of_def rows)
  then show ?thesis
    using assms(2) by (auto simp: reserveInternalMoveFee_def E rows intro!: post_succeeds)
qed

lemma posted_as_fresh:
  assumes "posted_as st i \<delta> d d'" and "find_journal d st i = None"
  shows "ledger_ok d'" and "balance_of d' k = balance_of d k + \<delta> k"
    and "st' \<noteq> st \<Longrightarrow> find_journal d' st' i' = find_journal d st' i' \<or>
      (find_journal d' st' i' = None \<longleftrightarrow> find_journal d st' i' = None)"
    and "st' \<noteq> st \<Longrightarrow> find_journal d st' i' = None \<Longrightarrow> find_journal d' st' i' = None"
    and "find_journal d' st i \<noteq> None"
  using assms unfolding posted_as_def by (blast, presburger, blast+)

section \<open>Properties\<close>

text \<open>A ledger with one merchant that has received 1000 minor units, for the witnesses.\<close>

definition demo_auth :: auth where
  "demo_auth = (2, Live)"

definition demo_ledger :: db where
  "demo_ledger = (case creditDeposit demo_auth 7 1000 empty_db of Inr d \<Rightarrow> d | Inl e \<Rightarrow> empty_db)"

lemmas ledger_eval = creditDeposit_def reserveWithdrawal_def releaseWithdrawalReservation_def
  settleWithdrawal_def providerFeeAdjustment_def ensureAccounts_def ledger_codes_def
  upsert_account_def find_account_def account_row_def key_of_def post_def post_entry_def
  find_journal_def sum_direction_def increment_of_def naturalDebit_def empty_db_def Let_def

lemma demo_ledger_eq:
  "creditDeposit demo_auth 7 1000 empty_db = Inr demo_ledger"
  "accounts demo_ledger =
    [\<lparr>acc_key = (2, Live, Available), acc_type = Liability, acc_balance = 1000\<rparr>,
     \<lparr>acc_key = (2, Live, Reserved), acc_type = Liability, acc_balance = 0\<rparr>,
     \<lparr>acc_key = (2, Live, Custody), acc_type = Asset, acc_balance = 1000\<rparr>,
     \<lparr>acc_key = (2, Live, TreasuryCustody), acc_type = Asset, acc_balance = 0\<rparr>,
     \<lparr>acc_key = (2, Live, ProviderFees), acc_type = Expense, acc_balance = 0\<rparr>,
     \<lparr>acc_key = (2, Live, PlatformFees), acc_type = Revenue, acc_balance = 0\<rparr>,
     \<lparr>acc_key = (2, Live, Suspense), acc_type = Liability, acc_balance = 0\<rparr>]"
  "find_journal demo_ledger st i = (if st = ''deposit'' \<and> i = 7
     then Some \<lparr>jr_id = 0, jr_env = Live, jr_sourceType = ''deposit'', jr_sourceId = 7,
       jr_description = ''Telebirr customer deposit''\<rparr> else None)"
  by (simp_all add: demo_ledger_def demo_auth_def ledger_eval)

lemma demo_ledger_ok: "ledger_ok demo_ledger"
  using creditDeposit_effect [OF ledger_ok_empty demo_ledger_eq(1)] by (simp add: posted_as_def)

lemma demo_balance:
  "balance_of demo_ledger (2, Live, Available) = 1000"
  "balance_of demo_ledger (2, Live, Reserved) = 0"
  "balance_of demo_ledger (2, Live, Custody) = 1000"
  by (simp_all add: balance_of_def find_account_def demo_ledger_eq)

text \<open>C6. Whatever sequence of ledger operations has run from the empty database, the books
  balance: every journal's debits equal its credits, every account balance is the sum of its
  entries, and the assets and expenses together equal the liabilities and revenues.\<close>

theorem ledger_always_balances:
  assumes "foldM (run_ledger_op now) ops empty_db = Inr d"
  shows "ledger_ok d \<and> class_total d True = class_total d False"
  using ledger.run_inv [OF ledger_ok_empty assms] by (simp add: ledger_ok_trial_balance)

theorem ledger_always_balances_witness:
  "ledger_ok demo_ledger \<and> class_total demo_ledger True = class_total demo_ledger False"
  using ledger_always_balances [of 0 "[Credit_deposit demo_auth 7 1000]" demo_ledger]
  by (simp add: demo_ledger_eq)


text \<open>C7. Every ledger operation is the addition of its balance change, exactly once per
  source: the first call adds \<open>op_delta\<close> to every account, and any number of further calls
  for the same source (retries, replayed jobs, duplicate messages) changes no balance.\<close>

theorem ledger_op_exactly_once:
  assumes ok: "ledger_ok d" and new: "find_journal d (fst (op_source p)) (snd (op_source p)) = None"
    and run: "run_ledger_op now p d = Inr d1" and again: "repeat_op n (run_ledger_op now p) d1 = Inr d'"
  shows "balance_of d' k = balance_of d k + op_delta p k"
proof -
  have "ledger_view d' = ledger_view d1"
    using ok run again by (rule ledger_once.retries_show_once)
  then have "balance_of d' k = balance_of d1 k" by (simp add: ledger_view_def)
  also have "\<dots> = balance_of d k + op_delta p k"
    using run_ledger_op_effect [OF ok run] new by (simp add: posted_as_def)
  finally show ?thesis .
qed

lemma balance_empty: "balance_of empty_db k = 0" "find_journal empty_db st i = None"
  by (simp_all add: balance_of_def find_account_def find_journal_def empty_db_def)

theorem ledger_op_exactly_once_witness:
  "\<exists>d. repeat_op 1 (run_ledger_op 0 (Credit_deposit demo_auth 7 1000)) demo_ledger = Inr d \<and>
     balance_of d (2, Live, Custody) = 1000"
proof -
  obtain d where d: "creditDeposit demo_auth 7 1000 demo_ledger = Inr d"
    using simple_posts_succeed(1) [of 1000 demo_auth 7 demo_ledger] by auto
  have "balance_of d (2, Live, Custody) = 1000"
    using ledger_op_exactly_once [OF ledger_ok_empty, of "Credit_deposit demo_auth 7 1000" 0
        demo_ledger 1 d "(2, Live, Custody)"] d
    by (simp add: demo_ledger_eq(1) [unfolded demo_auth_def] balance_empty at_def key_of_def
        demo_auth_def)
  with d show ?thesis by simp
qed

text \<open>C8. A withdrawal is reserved exactly when the merchant's available balance covers it, and
  is refused with \<open>insufficient_merchant_balance\<close> otherwise. The settlement of a reserved
  withdrawal never fails, whatever fee the provider took: the reservation is used up, the
  custody account drops by amount and actual fee, the platform earns its fee, the merchant pays
  amount, actual fee and gateway fee in total, and no other balance moves.\<close>

theorem withdrawal_reserve_and_settle:
  assumes ok: "ledger_ok d"
    and new: "find_journal d ''withdrawal_reservation'' i = None"
      "find_journal d ''withdrawal_settlement'' i = None"
    and nonneg: "0 \<le> sv_amount v" "0 \<le> sv_reservedFee v" "0 \<le> sv_actualFee v" "0 \<le> sv_gatewayFee v"
  defines "need \<equiv> sv_amount v + sv_reservedFee v + sv_gatewayFee v"
  shows "(balance_of d (key_of auth Available) < need \<and>
      reserveWithdrawal auth i need d = Inl (ApiError ''insufficient_merchant_balance'' 422)) \<or>
    (need \<le> balance_of d (key_of auth Available) \<and>
      (\<exists>d1 d2. reserveWithdrawal auth i need d = Inr d1 \<and> settleWithdrawal now auth i v d1 = Inr d2 \<and>
        balance_of d1 (key_of auth Reserved) = balance_of d (key_of auth Reserved) + need \<and>
        (\<forall>k. balance_of d2 k = balance_of d k +
           (if k = key_of auth Available then - (sv_amount v + sv_actualFee v + sv_gatewayFee v)
            else if k = key_of auth Custody then - (sv_amount v + sv_actualFee v)
            else if k = key_of auth PlatformFees then sv_gatewayFee v else 0))))"
proof (cases "need \<le> balance_of d (key_of auth Available)")
  case True
  have "0 \<le> need" using nonneg by (simp add: need_def)
  with True obtain d1 where r: "reserveWithdrawal auth i need d = Inr d1"
    using reserveWithdrawal_cases [OF ok, of need auth i] by auto
  note p1 = posted_as_fresh [OF reserveWithdrawal_effect(1) [OF ok r] new(1)]
  obtain d2 where s: "settleWithdrawal now auth i v d1 = Inr d2"
    using settleWithdrawal_succeeds [OF nonneg] by blast
  have "find_journal d1 ''withdrawal_settlement'' i = None" by (rule p1(4)) (simp_all add: new)
  note p2 = posted_as_fresh [OF settleWithdrawal_effect [OF p1(1) s] this]
  have "balance_of d1 (key_of auth Reserved) = balance_of d (key_of auth Reserved) + need"
    by (simp add: p1(2) at_def)
  moreover have "balance_of d2 k = balance_of d k +
           (if k = key_of auth Available then - (sv_amount v + sv_actualFee v + sv_gatewayFee v)
            else if k = key_of auth Custody then - (sv_amount v + sv_actualFee v)
            else if k = key_of auth PlatformFees then sv_gatewayFee v else 0)" for k
    by (simp add: p1(2) p2(2) at_def need_def)
  ultimately show ?thesis using True r s by blast
next
  case False
  then show ?thesis
    using reserveWithdrawal_cases [OF ok, of need auth i] nonneg by (auto simp: need_def)
qed

theorem withdrawal_reserve_and_settle_witness:
  "\<exists>d1 d2. reserveWithdrawal demo_auth 9 900 demo_ledger = Inr d1 \<and>
     settleWithdrawal 0 demo_auth 9 \<lparr>sv_amount = 800, sv_reservedFee = 60, sv_actualFee = 70,
       sv_gatewayFee = 40\<rparr> d1 = Inr d2 \<and> balance_of d2 (2, Live, Available) = 90"
  using withdrawal_reserve_and_settle [OF demo_ledger_ok, of 9 "\<lparr>sv_amount = 800,
      sv_reservedFee = 60, sv_actualFee = 70, sv_gatewayFee = 40\<rparr>" demo_auth 0]
  by (auto simp: demo_ledger_eq(3) demo_auth_def key_of_def demo_balance)



end
