(* ===== verification/Names.thy ===== *)
theory Names
  imports Prelude Contracts Complex_Main "HOL-Library.List_Lexorder" "HOL-Library.Char_ord"
    "HOL-Library.Multiset"
begin

text \<open>
  Person names, \<open>apps/api/src/parsers/name-normalizer.ts\<close>: the normal form, the edit
  distance computed in one row of memory, and the comparison that lets a payout go on. Strings
  are ASCII, on which the Unicode decomposition of \<open>normalizePersonName\<close> is the identity.
  Scores are exact rationals; the doubles of the source give the same comparisons with the two
  thresholds for all names of up to 399 characters. The edit distance is proved to be the
  least cost of an edit script, and the comparison rests on the metric laws that follow.
\<close>

section \<open>Normal form\<close>

definition transliterationGroups :: "(string \<times> string) list" where
  "transliterationGroups = [(''ph'', ''f''), (''ou'', ''u''), (''oo'', ''u''), (''ee'', ''i''),
     (''aa'', ''a''), (''kh'', ''k''), (''sh'', ''s''), (''ch'', ''c'')]"

definition normalizePersonName :: "string \<Rightarrow> string" where
  "normalizePersonName value =
     (let lowered = map to_lower value;
          lettered = map (\<lambda>c. if is_lower c \<or> is_upper c \<or> is_digit c \<or> is_space c then c else CHR '' '') lowered;
          normalized = trim (collapse_spaces lettered)
      in fold (\<lambda>(from, to) s. replace_all from to s) transliterationGroups normalized)"

section \<open>Edit distance\<close>

definition lev_cell :: "string \<Rightarrow> string \<Rightarrow> nat \<Rightarrow> nat \<Rightarrow> nat list \<times> nat \<Rightarrow> nat list \<times> nat" where
  "lev_cell left right i j = (\<lambda>(previous, diagonal).
     (let old = previous ! j in
      (previous[j := min (min (previous ! j + 1) (previous ! (j - 1) + 1))
         (diagonal + (if left ! (i - 1) = right ! (j - 1) then 0 else 1))], old)))"

definition lev_row :: "string \<Rightarrow> string \<Rightarrow> nat \<Rightarrow> nat list \<Rightarrow> nat list" where
  "lev_row left right i previous =
     (let diagonal = previous ! 0; start = previous[0 := i]
      in fst (fold (lev_cell left right i) [1..<length right + 1] (start, diagonal)))"

definition levenshtein :: "string \<Rightarrow> string \<Rightarrow> nat" where
  "levenshtein left right =
     fold (lev_row left right) [1..<length left + 1] [0..<length right + 1] ! length right"

section \<open>Comparison\<close>

datatype name_decision = Match | Uncertain | Mismatch

record name_match =
  nm_decision :: name_decision
  nm_score :: rat
  nm_expected :: string
  nm_observed :: string
  nm_reason :: string

definition comparePersonNames :: "string \<Rightarrow> string \<Rightarrow> name_match" where
  "comparePersonNames expected observed =
     (let e = normalizePersonName expected; obs = normalizePersonName observed;
          result = (\<lambda>dec score reason. \<lparr>nm_decision = dec, nm_score = score, nm_expected = e,
            nm_observed = obs, nm_reason = reason\<rparr>)
      in if e = [] \<or> obs = [] then result Mismatch 0 ''empty_name''
         else if e = obs then result Match 1 ''exact_normalized_match''
         else
           let expectedTokens = sort (split_on CHR '' '' e);
               observedTokens = sort (split_on CHR '' '' obs)
           in if join_with '' '' expectedTokens = join_with '' '' observedTokens
              then result Match (99 / 100) ''same_tokens_different_order''
              else
                let distance = levenshtein e obs;
                    score = 1 - of_nat distance / of_nat (max (length e) (length obs))
                in if score \<ge> 92 / 100 then result Match score ''minor_spelling_variation''
                   else if score \<ge> 72 / 100 then result Uncertain score ''requires_advisory_review''
                   else result Mismatch score ''names_differ'')"

section \<open>The dynamic program computes the reference recursion\<close>

text \<open>The distance of the prefixes of lengths \<open>i\<close> and \<open>j\<close>.\<close>

fun prefix_distance :: "string \<Rightarrow> string \<Rightarrow> nat \<Rightarrow> nat \<Rightarrow> nat" where
  "prefix_distance l r 0 j = j"
| "prefix_distance l r (Suc i) 0 = Suc i"
| "prefix_distance l r (Suc i) (Suc j) =
     min (min (prefix_distance l r i (Suc j) + 1) (prefix_distance l r (Suc i) j + 1))
       (prefix_distance l r i j + (if l ! i = r ! j then 0 else 1))"

text \<open>The row while the inner loop is at column \<open>k\<close>: new values before, old values after.\<close>

definition mixed_row :: "string \<Rightarrow> string \<Rightarrow> nat \<Rightarrow> nat \<Rightarrow> nat list" where
  "mixed_row l r i k =
     map (\<lambda>j. prefix_distance l r (if j < k then Suc i else i) j) [0..<length r + 1]"

lemma lev_cell_step:
  assumes "1 \<le> k" and "k \<le> length r"
  shows "lev_cell l r (Suc i) k (mixed_row l r i k, prefix_distance l r i (k - 1)) =
    (mixed_row l r i (Suc k), prefix_distance l r i k)"
proof -
  obtain j where k: "k = Suc j" using assms(1) by (cases k) auto
  have old: "mixed_row l r i k ! k = prefix_distance l r i k"
    and left: "mixed_row l r i k ! j = prefix_distance l r (Suc i) j"
    using assms by (simp_all add: mixed_row_def nth_append k del: upt_Suc)
  have "(mixed_row l r i k)[k := prefix_distance l r (Suc i) k] = mixed_row l r i (Suc k)"
    using assms
    by (intro nth_equalityI)
      (auto simp: mixed_row_def nth_list_update less_Suc_eq simp del: upt_Suc prefix_distance.simps)
  with old left show ?thesis by (simp add: lev_cell_def k)
qed

lemma lev_cells:
  assumes "k \<le> length r"
  shows "fold (lev_cell l r (Suc i)) [1..<k + 1] (mixed_row l r i 1, prefix_distance l r i 0) =
    (mixed_row l r i (k + 1), prefix_distance l r i k)"
  using assms
proof (induction k)
  case (Suc k)
  have "fold (lev_cell l r (Suc i)) [1..<Suc k + 1] (mixed_row l r i 1, prefix_distance l r i 0) =
      lev_cell l r (Suc i) (Suc k) (mixed_row l r i (Suc k), prefix_distance l r i k)"
    using Suc by simp
  also have "\<dots> = (mixed_row l r i (Suc k + 1), prefix_distance l r i (Suc k))"
    using lev_cell_step [of "Suc k" r l i] Suc.prems by simp
  finally show ?case .
qed simp

lemma lev_row_step:
  "lev_row l r (Suc i) (mixed_row l r i 0) = mixed_row l r (Suc i) 0"
proof -
  have "(mixed_row l r i 0)[0 := Suc i] = mixed_row l r i 1"
    by (intro nth_equalityI) (auto simp: mixed_row_def nth_list_update simp del: upt_Suc)
  moreover have "mixed_row l r i 0 ! 0 = prefix_distance l r i 0"
    by (simp add: mixed_row_def del: upt_Suc)
  moreover have "mixed_row l r i (length r + 1) = mixed_row l r (Suc i) 0"
    by (auto simp: mixed_row_def)
  ultimately show ?thesis
    using lev_cells [of "length r" r l i] by (simp add: lev_row_def)
qed

lemma levenshtein_prefix: "levenshtein l r = prefix_distance l r (length l) (length r)"
proof -
  have start: "[0..<length r + 1] = mixed_row l r 0 0"
    by (simp add: mixed_row_def map_idI del: upt_Suc)
  have "fold (lev_row l r) [1..<n + 1] (mixed_row l r 0 0) = mixed_row l r n 0" for n
    by (induction n) (simp_all add: lev_row_step)
  then have "levenshtein l r = mixed_row l r (length l) 0 ! length r"
    unfolding levenshtein_def start by simp
  then show ?thesis by (simp add: mixed_row_def del: upt_Suc)
qed

section \<open>The distance is the least cost of an edit script\<close>

inductive edits :: "string \<Rightarrow> nat \<Rightarrow> string \<Rightarrow> bool" where
  edits_Nil: "edits [] 0 []"
| edits_keep: "edits xs n ys \<Longrightarrow> edits (xs @ [c]) n (ys @ [c])"
| edits_change: "edits xs n ys \<Longrightarrow> edits (xs @ [a]) (Suc n) (ys @ [b])"
| edits_delete: "edits xs n ys \<Longrightarrow> edits (xs @ [a]) (Suc n) ys"
| edits_insert: "edits xs n ys \<Longrightarrow> edits xs (Suc n) (ys @ [b])"

lemma edits_insert_all: "edits [] (length ys) ys"
proof (induction ys rule: rev_induct)
  case (snoc y ys)
  from edits_insert [OF snoc] show ?case by simp
qed (simp add: edits_Nil)

lemma edits_delete_all: "edits xs (length xs) []"
proof (induction xs rule: rev_induct)
  case (snoc x xs)
  from edits_delete [OF snoc] show ?case by simp
qed (simp add: edits_Nil)

lemma edits_prefix_distance:
  "i \<le> length l \<Longrightarrow> j \<le> length r \<Longrightarrow> edits (take i l) (prefix_distance l r i j) (take j r)"
proof (induction l r i j rule: prefix_distance.induct)
  case (1 l r j)
  then show ?case using edits_insert_all [of "take j r"] by simp
next
  case (2 l r i)
  then show ?case using edits_delete_all [of "take (Suc i) l"] by simp
next
  case (3 l r i j)
  have l: "take (Suc i) l = take i l @ [l ! i]" and r: "take (Suc j) r = take j r @ [r ! j]"
    using 3 by (simp_all add: take_Suc_conv_app_nth)
  have "edits (take (Suc i) l) (prefix_distance l r i (Suc j) + 1) (take (Suc j) r)"
    using 3 edits_delete [of "take i l" _ "take (Suc j) r" "l ! i"] by (simp add: l)
  moreover have "edits (take (Suc i) l) (prefix_distance l r (Suc i) j + 1) (take (Suc j) r)"
    using 3 edits_insert [of "take (Suc i) l" _ "take j r" "r ! j"] by (simp add: r)
  moreover have "edits (take (Suc i) l)
      (prefix_distance l r i j + (if l ! i = r ! j then 0 else 1)) (take (Suc j) r)"
    using 3 edits_change [of "take i l" _ "take j r" "l ! i" "r ! j"]
      edits_keep [of "take i l" _ "take j r" "l ! i"] by (auto simp: l r)
  ultimately show ?case by (simp add: min_def)
qed

lemma prefix_distance_append:
  "i \<le> length l \<Longrightarrow> j \<le> length r \<Longrightarrow>
   prefix_distance (l @ l') (r @ r') i j = prefix_distance l r i j"
  by (induction l r i j rule: prefix_distance.induct) (simp_all add: nth_append)

lemma prefix_distance_bounds:
  "prefix_distance l r (Suc i) j \<le> prefix_distance l r i j + 1"
  "prefix_distance l r i (Suc j) \<le> prefix_distance l r i j + 1"
proof -
  show "prefix_distance l r (Suc i) j \<le> prefix_distance l r i j + 1"
    by (cases j) (simp_all, cases i, simp_all)
  show "prefix_distance l r i (Suc j) \<le> prefix_distance l r i j + 1"
    by (cases i) simp_all
qed

lemma levenshtein_least: "edits l n r \<Longrightarrow> levenshtein l r \<le> n"
proof (induction rule: edits.induct)
  case edits_Nil
  then show ?case by (simp add: levenshtein_prefix)
next
  case (edits_keep xs n ys c)
  then show ?case
    by (simp add: levenshtein_prefix prefix_distance_append nth_append min_le_iff_disj)
next
  case (edits_change xs n ys a b)
  then show ?case
    by (simp add: levenshtein_prefix prefix_distance_append nth_append min_le_iff_disj)
next
  case (edits_delete xs n ys a)
  have "prefix_distance (xs @ [a]) ys (length xs) (length ys) = levenshtein xs ys"
    using prefix_distance_append [of "length xs" xs "length ys" ys "[a]" "[]"]
    by (simp add: levenshtein_prefix)
  with edits_delete prefix_distance_bounds(1) [of "xs @ [a]" ys "length xs" "length ys"]
  show ?case by (simp add: levenshtein_prefix)
next
  case (edits_insert xs n ys b)
  have "prefix_distance xs (ys @ [b]) (length xs) (length ys) = levenshtein xs ys"
    using prefix_distance_append [of "length xs" xs "length ys" ys "[]" "[b]"]
    by (simp add: levenshtein_prefix)
  with edits_insert prefix_distance_bounds(2) [of xs "ys @ [b]" "length xs" "length ys"]
  show ?case by (simp add: levenshtein_prefix)
qed

lemma levenshtein_edits: "edits l (levenshtein l r) r"
  using edits_prefix_distance [of "length l" l "length r" r] by (simp add: levenshtein_prefix)

section \<open>Metric laws\<close>

text \<open>What the comparison needs of a distance between strings.\<close>

locale string_metric =
  fixes dist :: "string \<Rightarrow> string \<Rightarrow> nat"
  assumes dist_zero: "dist x y = 0 \<longleftrightarrow> x = y"
    and dist_sym: "dist x y = dist y x"
    and dist_bound: "dist x y \<le> max (length x) (length y)"
begin

lemma score_range:
  "0 \<le> 1 - (of_nat (dist x y) :: rat) / of_nat (max (length x) (length y))"
  "1 - (of_nat (dist x y) :: rat) / of_nat (max (length x) (length y)) \<le> 1"
proof -
  have le: "(of_nat (dist x y) :: rat) \<le> of_nat (max (length x) (length y))"
    using dist_bound by (simp only: of_nat_le_iff)
  then show "0 \<le> 1 - (of_nat (dist x y) :: rat) / of_nat (max (length x) (length y))"
    by (auto simp: divide_le_eq_1 less_max_iff_disj)
  show "1 - (of_nat (dist x y) :: rat) / of_nat (max (length x) (length y)) \<le> 1" by simp
qed

lemma score_less_one:
  assumes "x \<noteq> y"
  shows "1 - (of_nat (dist x y) :: rat) / of_nat (max (length x) (length y)) < 1"
proof -
  have "0 < dist x y" using assms dist_zero [of x y] by simp
  moreover from this have "0 < max (length x) (length y)" using dist_bound [of x y] by linarith
  ultimately show ?thesis by (simp add: less_max_iff_disj)
qed

end

lemma edits_refl: "edits s 0 s"
  by (induction s rule: rev_induct) (auto intro: edits.intros)

lemma edits_zero: "edits l n r \<Longrightarrow> n = 0 \<Longrightarrow> l = r"
  by (induction rule: edits.induct) auto

lemma edits_sym: "edits l n r \<Longrightarrow> edits r n l"
  by (induction rule: edits.induct) (auto intro: edits.intros)

lemma prefix_distance_max: "prefix_distance l r i j \<le> max i j"
  by (induction l r i j rule: prefix_distance.induct) (auto simp: max_def min_def split: if_splits)

interpretation lev: string_metric levenshtein
proof
  show "levenshtein x y = 0 \<longleftrightarrow> x = y" for x y
    using levenshtein_least [OF edits_refl, of y] edits_zero [OF levenshtein_edits, of x y] by auto
  show "levenshtein x y = levenshtein y x" for x y
    using levenshtein_edits edits_sym levenshtein_least by (meson le_antisym)
  show "levenshtein x y \<le> max (length x) (length y)" for x y
    using prefix_distance_max by (simp add: levenshtein_prefix)
qed

section \<open>The comparison\<close>

lemma join_split: "join_with [c] (split_on c s) = s"
proof (induction s)
  case (Cons x xs)
  obtain w ws where "split_on c xs = w # ws"
    by (cases "split_on c xs") simp_all
  with Cons show ?case by (cases ws) auto
qed simp

lemma split_on_append: "c \<notin> set w \<Longrightarrow> split_on c (w @ c # s) = w # split_on c s"
  by (induction w) auto

lemma split_on_word: "c \<notin> set w \<Longrightarrow> split_on c w = [w]"
  by (induction w) auto

lemma split_join:
  "ws \<noteq> [] \<Longrightarrow> (\<And>w. w \<in> set ws \<Longrightarrow> c \<notin> set w) \<Longrightarrow> split_on c (join_with [c] ws) = ws"
  by (induction "[c]" ws rule: join_with.induct) (simp_all add: split_on_word split_on_append)

text \<open>Equal joined token lists are equal token multisets.\<close>

lemma same_tokens_iff:
  "join_with '' '' (sort (split_on CHR '' '' x)) = join_with '' '' (sort (split_on CHR '' '' y)) \<longleftrightarrow>
   mset (split_on CHR '' '' x) = mset (split_on CHR '' '' y)"
proof
  assume eq: "join_with '' '' (sort (split_on CHR '' '' x)) = join_with '' '' (sort (split_on CHR '' '' y))"
  have "split_on CHR '' '' (join_with '' '' (sort (split_on CHR '' '' z))) = sort (split_on CHR '' '' z)" for z
  proof (rule split_join)
    show "sort (split_on CHR '' '' z) \<noteq> []"
      by (metis length_0_conv length_sort split_on_nonempty)
  qed (simp add: split_on_no_sep)
  note joined = this
  have "sort (split_on CHR '' '' x) = sort (split_on CHR '' '' y)"
    using arg_cong [OF eq, of "split_on CHR '' ''"] unfolding joined .
  then show "mset (split_on CHR '' '' x) = mset (split_on CHR '' '' y)" by (metis mset_sort)
next
  assume "mset (split_on CHR '' '' x) = mset (split_on CHR '' '' y)"
  then have "sort (split_on CHR '' '' x) = sort (split_on CHR '' '' y)"
    by (intro properties_for_sort) simp_all
  then show "join_with '' '' (sort (split_on CHR '' '' x)) =
      join_with '' '' (sort (split_on CHR '' '' y))" by simp
qed

text \<open>C14. The row-by-row program \<open>levenshtein\<close> returns the edit distance: some script of
  kept, changed, deleted and inserted characters of that cost turns one string into the other,
  and none is cheaper.\<close>

theorem levenshtein_is_edit_distance:
  "edits l n r \<Longrightarrow> edits l (levenshtein l r) r \<and> levenshtein l r \<le> n"
  by (simp add: levenshtein_edits levenshtein_least)

theorem levenshtein_is_edit_distance_witness:
  "edits ''abel'' 1 ''abdl'' \<and> levenshtein ''abel'' ''abdl'' \<le> 1"
proof -
  have "edits (''ab'' @ ''e'' @ ''l'') 1 (''ab'' @ ''d'' @ ''l'')"
    using edits_keep [OF edits_change [OF edits_refl [of "''ab''"], of "CHR ''e''" "CHR ''d''"], of "CHR ''l''"]
    by simp
  then have e: "edits ''abel'' 1 ''abdl''" by simp
  then show ?thesis using levenshtein_is_edit_distance [OF e] by simp
qed

text \<open>C15. The name comparison does not depend on which name was expected and which observed,
  its score is between 0 and 1, it accepts every reordering of the same name parts, and
  otherwise accepts exactly when at least 92 percent of the longer normal form is unedited and
  refuses exactly below 72 percent.\<close>

theorem comparePersonNames_decides:
  fixes e obs :: string
  defines "x \<equiv> normalizePersonName e" and "y \<equiv> normalizePersonName obs"
  defines "m \<equiv> max (length x) (length y)"
  defines "same \<equiv> mset (split_on CHR '' '' x) = mset (split_on CHR '' '' y)"
  shows "nm_decision (comparePersonNames obs e) = nm_decision (comparePersonNames e obs) \<and>
    nm_score (comparePersonNames obs e) = nm_score (comparePersonNames e obs) \<and>
    0 \<le> nm_score (comparePersonNames e obs) \<and> nm_score (comparePersonNames e obs) \<le> 1 \<and>
    (nm_decision (comparePersonNames e obs) = Match \<longleftrightarrow>
       x \<noteq> [] \<and> y \<noteq> [] \<and> (same \<or> 100 * levenshtein x y \<le> 8 * m)) \<and>
    (nm_decision (comparePersonNames e obs) = Mismatch \<longleftrightarrow>
       x = [] \<or> y = [] \<or> \<not> same \<and> 28 * m < 100 * levenshtein x y)"
proof -
  have thresholds: "92 / 100 \<le> 1 - (of_nat (levenshtein x y) :: rat) / of_nat m \<longleftrightarrow>
      100 * levenshtein x y \<le> 8 * m"
    "72 / 100 \<le> 1 - (of_nat (levenshtein x y) :: rat) / of_nat m \<longleftrightarrow>
      100 * levenshtein x y \<le> 28 * m" if "x \<noteq> []"
  proof -
    have "0 < (of_nat m :: rat)" using that by (simp add: m_def less_max_iff_disj)
    then have "92 / 100 \<le> 1 - (of_nat (levenshtein x y) :: rat) / of_nat m \<longleftrightarrow>
        100 * (of_nat (levenshtein x y) :: rat) \<le> 8 * of_nat m"
      and "72 / 100 \<le> 1 - (of_nat (levenshtein x y) :: rat) / of_nat m \<longleftrightarrow>
        100 * (of_nat (levenshtein x y) :: rat) \<le> 28 * of_nat m"
      by (simp_all add: field_simps)
    moreover have "100 * (of_nat a :: rat) \<le> b * of_nat m \<longleftrightarrow> 100 * a \<le> nat k * m"
      if "b = of_nat (nat k)" for a b k
      using that by (metis (no_types, lifting) of_nat_le_iff of_nat_mult of_nat_numeral)
    ultimately show "92 / 100 \<le> 1 - (of_nat (levenshtein x y) :: rat) / of_nat m \<longleftrightarrow>
        100 * levenshtein x y \<le> 8 * m"
      "72 / 100 \<le> 1 - (of_nat (levenshtein x y) :: rat) / of_nat m \<longleftrightarrow>
        100 * levenshtein x y \<le> 28 * m"
      using of_nat_le_iff [where 'a = rat, of "100 * levenshtein x y" "8 * m"]
        of_nat_le_iff [where 'a = rat, of "100 * levenshtein x y" "28 * m"] by simp_all
  qed
  note range = lev.score_range [of x y] and sym = lev.dist_sym [of y x]
  show ?thesis
    unfolding comparePersonNames_def Let_def x_def [symmetric] y_def [symmetric] same_tokens_iff
      same_def [symmetric]
    using thresholds range sym
    by (auto simp: m_def max.commute same_def)
qed

end
