(* ===== verification/Patterns.thy ===== *)
theory Patterns
  imports Prelude
begin

text \<open>
  The regular expressions of the parsers, with JavaScript's backtracking semantics: a pattern
  is a list of items, an item with several ways to match tries them in the engine's order
  (greedy: the longest first, lazy: the shortest first), and the leftmost position of the text
  at which the whole pattern matches wins. Capture groups record the text they span. A pattern
  of the source with the flag \<open>i\<close> uses character tests up to case. The declarative reading
  \<open>matches\<close> says what a pattern accepts; the matcher is proved sound for it.
\<close>

datatype item =
    One "char \<Rightarrow> bool"              \<comment> \<open>a character or class\<close>
  | Greedy nat "char \<Rightarrow> bool"       \<comment> \<open>\<open>c{k,}\<close>: \<open>c+\<close> for 1, \<open>c*\<close> for 0\<close>
  | Lazy nat "char \<Rightarrow> bool"         \<comment> \<open>\<open>c{k,}?\<close>\<close>
  | Upto nat nat "char \<Rightarrow> bool"     \<comment> \<open>\<open>c{k,n}\<close>\<close>
  | Opt "item list"                 \<comment> \<open>\<open>(?:...)?\<close>\<close>
  | Alt "item list list"            \<comment> \<open>\<open>(?:...|...)\<close>\<close>
  | Open nat                        \<comment> \<open>start of capture group n\<close>
  | Close nat                       \<comment> \<open>end of capture group n\<close>
  | At_end                          \<comment> \<open>\<open>$\<close>\<close>

type_synonym captures = "nat \<Rightarrow> string"

fun item_size :: "item \<Rightarrow> nat" where
  "item_size (Opt g) = Suc (sum_list (map item_size g))"
| "item_size (Alt gs) = Suc (sum_list (map (\<lambda>g. Suc (sum_list (map item_size g))) gs))"
| "item_size (Upto k n p) = Suc n"
| "item_size i = 1"

definition first_some :: "'a option \<Rightarrow> (unit \<Rightarrow> 'a option) \<Rightarrow> 'a option" where
  "first_some x y = (case x of Some v \<Rightarrow> Some v | None \<Rightarrow> y ())"

lemma first_some_cong [fundef_cong]:
  "x = x' \<Longrightarrow> (x' = None \<Longrightarrow> y () = y' ()) \<Longrightarrow> first_some x y = first_some x' y'"
  by (auto simp: first_some_def split: option.splits)

lemma first_some_simps [simp]: "first_some None y = y ()" "first_some (Some v) y = Some v"
  by (simp_all add: first_some_def)

function match_at :: "item list \<Rightarrow> string \<Rightarrow> captures \<Rightarrow> captures \<Rightarrow> captures option" where
  "match_at [] s starts caps = Some caps"
| "match_at (One p # r) s starts caps =
     (case s of [] \<Rightarrow> None | c # cs \<Rightarrow> if p c then match_at r cs starts caps else None)"
| "match_at (Greedy k p # r) s starts caps =
     first_some
       (case s of [] \<Rightarrow> None
        | c # cs \<Rightarrow> if p c then match_at (Greedy (k - 1) p # r) cs starts caps else None)
       (\<lambda>_. if k = 0 then match_at r s starts caps else None)"
| "match_at (Lazy k p # r) s starts caps =
     first_some
       (if k = 0 then match_at r s starts caps else None)
       (\<lambda>_. case s of [] \<Rightarrow> None
         | c # cs \<Rightarrow> if p c then match_at (Lazy (k - 1) p # r) cs starts caps else None)"
| "match_at (Upto k n p # r) s starts caps =
     first_some
       (case s of [] \<Rightarrow> None
        | c # cs \<Rightarrow> if p c \<and> 0 < n then match_at (Upto (k - 1) (n - 1) p # r) cs starts caps else None)
       (\<lambda>_. if k = 0 then match_at r s starts caps else None)"
| "match_at (Opt g # r) s starts caps =
     first_some (match_at (g @ r) s starts caps) (\<lambda>_. match_at r s starts caps)"
| "match_at (Alt [] # r) s starts caps = None"
| "match_at (Alt (g # gs) # r) s starts caps =
     first_some (match_at (g @ r) s starts caps) (\<lambda>_. match_at (Alt gs # r) s starts caps)"
| "match_at (Open n # r) s starts caps = match_at r s (starts(n := s)) caps"
| "match_at (Close n # r) s starts caps =
     match_at r s starts (caps(n := take (length (starts n) - length s) (starts n)))"
| "match_at (At_end # r) s starts caps = (if s = [] then match_at r s starts caps else None)"
  by pat_completeness auto
termination
  by (relation "measures [\<lambda>(is, s, st, cp). sum_list (map item_size is), \<lambda>(is, s, st, cp). length s]")
    auto

declare match_at.simps [simp del]

text \<open>\<open>exec\<close>: the leftmost match; \<open>anchored\<close> is a pattern that starts with \<open>^\<close>.\<close>

definition exec_anchored :: "item list \<Rightarrow> string \<Rightarrow> captures option" where
  "exec_anchored pat s = match_at pat s (\<lambda>_. []) (\<lambda>_. [])"

fun exec :: "item list \<Rightarrow> string \<Rightarrow> captures option" where
  "exec pat [] = exec_anchored pat []"
| "exec pat (c # cs) = first_some (exec_anchored pat (c # cs)) (\<lambda>_. exec pat cs)"

definition re_test :: "item list \<Rightarrow> string \<Rightarrow> bool" where
  "re_test pat s = (case exec pat s of None \<Rightarrow> False | Some g \<Rightarrow> True)"

definition anchored_test :: "item list \<Rightarrow> string \<Rightarrow> bool" where
  "anchored_test pat s = (case exec_anchored pat s of None \<Rightarrow> False | Some g \<Rightarrow> True)"

section \<open>The classes the patterns use\<close>

definition ci :: "char \<Rightarrow> char \<Rightarrow> bool" where
  "ci a c = (to_lower a = to_lower c)"

definition lit :: "string \<Rightarrow> item list" where
  "lit w = map (\<lambda>a. One (ci a)) w"

definition dot :: "char \<Rightarrow> bool" where
  "dot c = (c \<noteq> CHR 0x0A \<and> c \<noteq> CHR 0x0D)"

definition amount_char :: "char \<Rightarrow> bool" where
  "amount_char c = (is_digit c \<or> c = CHR '','' \<or> c = CHR ''.'')"

definition alnum_ci :: "char \<Rightarrow> bool" where
  "alnum_ci c = (is_lower c \<or> is_upper c \<or> is_digit c)"

abbreviation sp :: item where "sp \<equiv> Greedy 1 is_space"
abbreviation osp :: item where "osp \<equiv> Greedy 0 is_space"
abbreviation any :: item where "any \<equiv> Lazy 0 dot"

definition group_of_items :: "nat \<Rightarrow> item list \<Rightarrow> item list" where
  "group_of_items n is = Open n # is @ [Close n]"

text \<open>Words of a sentence, separated by \<open>\\s+\<close>.\<close>

fun phrase :: "string list \<Rightarrow> item list" where
  "phrase [] = []"
| "phrase [w] = lit w"
| "phrase (w # ws) = lit w @ sp # phrase ws"

section \<open>What a pattern accepts\<close>

text \<open>
  \<open>matches is s t\<close>: the pattern spans the part of \<open>s\<close> before its suffix \<open>t\<close>,
  \<open>spans is s caps0 caps\<close> adds the captured groups.
\<close>

inductive spans :: "item list \<Rightarrow> string \<Rightarrow> captures \<Rightarrow> captures \<Rightarrow> captures \<Rightarrow> bool" where
  sp_Nil: "spans [] s st cp cp"
| sp_One: "p c \<Longrightarrow> spans r cs st cp cp' \<Longrightarrow> spans (One p # r) (c # cs) st cp cp'"
| sp_Greedy: "list_all p w \<Longrightarrow> k \<le> length w \<Longrightarrow> spans r s st cp cp' \<Longrightarrow>
    spans (Greedy k p # r) (w @ s) st cp cp'"
| sp_Lazy: "list_all p w \<Longrightarrow> k \<le> length w \<Longrightarrow> spans r s st cp cp' \<Longrightarrow>
    spans (Lazy k p # r) (w @ s) st cp cp'"
| sp_Upto: "list_all p w \<Longrightarrow> k \<le> length w \<Longrightarrow> length w \<le> n \<Longrightarrow> spans r s st cp cp' \<Longrightarrow>
    spans (Upto k n p # r) (w @ s) st cp cp'"
| sp_Opt_skip: "spans r s st cp cp' \<Longrightarrow> spans (Opt g # r) s st cp cp'"
| sp_Opt_take: "spans (g @ r) s st cp cp' \<Longrightarrow> spans (Opt g # r) s st cp cp'"
| sp_Alt: "g \<in> set gs \<Longrightarrow> spans (g @ r) s st cp cp' \<Longrightarrow> spans (Alt gs # r) s st cp cp'"
| sp_Open: "spans r s (st(n := s)) cp cp' \<Longrightarrow> spans (Open n # r) s st cp cp'"
| sp_Close: "spans r s st (cp(n := take (length (st n) - length s) (st n))) cp' \<Longrightarrow>
    spans (Close n # r) s st cp cp'"
| sp_End: "spans r [] st cp cp' \<Longrightarrow> spans (At_end # r) [] st cp cp'"

lemma spans_Greedy_step:
  "p c \<Longrightarrow> spans (Greedy (k - 1) p # r) cs st cp cp' \<Longrightarrow> spans (Greedy k p # r) (c # cs) st cp cp'"
proof -
  assume "p c" and "spans (Greedy (k - 1) p # r) cs st cp cp'"
  from this(2) obtain w s where "cs = w @ s" "list_all p w" "k - 1 \<le> length w" "spans r s st cp cp'"
    by (cases rule: spans.cases) auto
  then show ?thesis using \<open>p c\<close> sp_Greedy [of p "c # w" k r s] by simp
qed

lemma spans_Lazy_step:
  "p c \<Longrightarrow> spans (Lazy (k - 1) p # r) cs st cp cp' \<Longrightarrow> spans (Lazy k p # r) (c # cs) st cp cp'"
proof -
  assume "p c" and "spans (Lazy (k - 1) p # r) cs st cp cp'"
  from this(2) obtain w s where "cs = w @ s" "list_all p w" "k - 1 \<le> length w" "spans r s st cp cp'"
    by (cases rule: spans.cases) auto
  then show ?thesis using \<open>p c\<close> sp_Lazy [of p "c # w" k r s] by simp
qed

lemma spans_Upto_step:
  "p c \<Longrightarrow> 0 < n \<Longrightarrow> spans (Upto (k - 1) (n - 1) p # r) cs st cp cp' \<Longrightarrow>
   spans (Upto k n p # r) (c # cs) st cp cp'"
proof -
  assume "p c" and "0 < n" and "spans (Upto (k - 1) (n - 1) p # r) cs st cp cp'"
  from this(3) obtain w s where "cs = w @ s" "list_all p w" "k - 1 \<le> length w" "length w \<le> n - 1"
    "spans r s st cp cp'"
    by (cases rule: spans.cases) auto
  then show ?thesis using \<open>p c\<close> \<open>0 < n\<close> sp_Upto [of p "c # w" k n r s] by simp
qed

lemma spans_empty:
  "spans r s st cp cp' \<Longrightarrow> spans (Greedy 0 p # r) s st cp cp'"
  "spans r s st cp cp' \<Longrightarrow> spans (Lazy 0 p # r) s st cp cp'"
  "spans r s st cp cp' \<Longrightarrow> spans (Upto 0 n p # r) s st cp cp'"
  using sp_Greedy [of p "[]" 0] sp_Lazy [of p "[]" 0] sp_Upto [of p "[]" 0] by simp_all

lemma match_at_sound: "match_at is s st cp = Some cp' \<Longrightarrow> spans is s st cp cp'"
proof (induction "is" s st cp rule: match_at.induct)
  case (3 k p r s st cp)
  show ?case
  proof (cases s)
    case Nil
    with 3 show ?thesis
      by (auto simp: match_at.simps(3) [of k p r "[]"] spans_empty first_some_def split: if_splits)
  next
    case (Cons c cs)
    with 3 show ?thesis
      by (auto simp: match_at.simps(3) [of k p r "c # cs"] first_some_def
          intro: spans_empty spans_Greedy_step split: option.splits if_splits)
  qed
next
  case (4 k p r s st cp)
  show ?case
  proof (cases s)
    case Nil
    with 4 show ?thesis
      by (auto simp: match_at.simps(4) [of k p r "[]"] spans_empty first_some_def
          split: option.splits if_splits)
  next
    case (Cons c cs)
    with 4 show ?thesis
      by (auto simp: match_at.simps(4) [of k p r "c # cs"] first_some_def
          intro: spans_empty spans_Lazy_step split: option.splits if_splits)
  qed
next
  case (5 k n p r s st cp)
  show ?case
  proof (cases s)
    case Nil
    with 5 show ?thesis
      by (auto simp: match_at.simps(5) [of k n p r "[]"] spans_empty first_some_def split: if_splits)
  next
    case (Cons c cs)
    with 5 show ?thesis
      by (auto simp: match_at.simps(5) [of k n p r "c # cs"] first_some_def
          intro: spans_empty spans_Upto_step split: option.splits if_splits)
  qed
next
  case (6 g r s st cp)
  then show ?case
    by (auto simp: match_at.simps(6) [of g r s] first_some_def intro: sp_Opt_skip sp_Opt_take
        split: option.splits)
next
  case (8 g gs r s st cp)
  have "spans (Alt (g # gs) # r) s st cp cp'" if "spans (Alt gs # r) s st cp cp'"
    using that by (cases rule: spans.cases) (auto intro: sp_Alt)
  with 8 show ?case
    by (auto simp: match_at.simps(8) [of g gs r s] first_some_def intro: sp_Alt split: option.splits)
next
  case (2 p r s st cp)
  then show ?case
    by (auto simp: match_at.simps(2) [of p r s] intro: sp_One split: list.splits if_splits)
next
  case (11 r s st cp)
  then show ?case by (auto simp: match_at.simps(11) [of r s] intro: sp_End split: if_splits)
qed (auto simp: match_at.simps intro: spans.intros)

lemma exec_sound:
  "exec pat s = Some cp \<Longrightarrow> \<exists>pre t. s = pre @ t \<and> spans pat t (\<lambda>_. []) (\<lambda>_. []) cp"
proof (induction pat s rule: exec.induct)
  case (1 pat)
  then show ?case by (auto simp: exec_anchored_def dest: match_at_sound)
next
  case (2 pat c cs)
  show ?case
  proof (cases "exec_anchored pat (c # cs)")
    case None
    with 2 obtain pre t where "cs = pre @ t" "spans pat t (\<lambda>_. []) (\<lambda>_. []) cp" by auto
    then have "c # cs = (c # pre) @ t" by simp
    with \<open>spans pat t _ _ cp\<close> show ?thesis by blast
  next
    case (Some x)
    with 2(2) have "spans pat (c # cs) (\<lambda>_. []) (\<lambda>_. []) cp"
      by (simp add: exec_anchored_def match_at_sound)
    moreover have "c # cs = [] @ c # cs" by simp
    ultimately show ?thesis by blast
  qed
qed

section \<open>What the captures hold\<close>

fun closes_item :: "item \<Rightarrow> nat list" where
  "closes_item (Close n) = [n]"
| "closes_item (Opt g) = concat (map closes_item g)"
| "closes_item (Alt gs) = concat (map (\<lambda>g. concat (map closes_item g)) gs)"
| "closes_item i = []"

definition closes :: "item list \<Rightarrow> nat list" where
  "closes is = concat (map closes_item is)"

lemma closes_simps [simp]:
  "closes [] = []" "closes (i # is) = closes_item i @ closes is"
  "closes (is @ js) = closes is @ closes js" "closes (lit w) = []"
  by (auto simp: closes_def lit_def)

lemma closes_phrase [simp]: "closes (phrase ws) = []"
  by (induction ws rule: phrase.induct) auto

lemma spans_capture_kept:
  "spans is s st cp cp' \<Longrightarrow> n \<notin> set (closes is) \<Longrightarrow> cp' n = cp n"
  by (induction rule: spans.induct) (auto simp: closes_def)

lemma spans_split:
  "spans ps s st cp cp' \<Longrightarrow> ps = A @ B \<Longrightarrow>
   \<exists>v t st1 cp1. s = v @ t \<and> spans B t st1 cp1 cp'"
proof (induction arbitrary: A rule: spans.induct)
  case (sp_Nil s st cp)
  then have "B = []" and "s = [] @ s" by simp_all
  then show ?case by (blast intro: spans.sp_Nil)
next
  case (sp_One p c r cs st cp cp')
  show ?case
  proof (cases A)
    case Nil
    with sp_One have "spans B (c # cs) st cp cp'" by (auto intro: spans.sp_One)
    then show ?thesis by (metis append_Nil)
  next
    case (Cons i A')
    with sp_One obtain v t st1 cp1 where "cs = v @ t" "spans B t st1 cp1 cp'" by auto
    then show ?thesis by (metis append_Cons)
  qed
next
  case (sp_Greedy p w k r s st cp cp')
  show ?case
  proof (cases A)
    case Nil
    with sp_Greedy have "spans B (w @ s) st cp cp'" by (auto intro: spans.sp_Greedy)
    then show ?thesis by (metis append_Nil)
  next
    case (Cons i A')
    with sp_Greedy obtain v t st1 cp1 where "s = v @ t" "spans B t st1 cp1 cp'" by auto
    then show ?thesis by (metis append_assoc)
  qed
next
  case (sp_Lazy p w k r s st cp cp')
  show ?case
  proof (cases A)
    case Nil
    with sp_Lazy have "spans B (w @ s) st cp cp'" by (auto intro: spans.sp_Lazy)
    then show ?thesis by (metis append_Nil)
  next
    case (Cons i A')
    with sp_Lazy obtain v t st1 cp1 where "s = v @ t" "spans B t st1 cp1 cp'" by auto
    then show ?thesis by (metis append_assoc)
  qed
next
  case (sp_Upto p w k n r s st cp cp')
  show ?case
  proof (cases A)
    case Nil
    with sp_Upto have "spans B (w @ s) st cp cp'" by (auto intro: spans.sp_Upto)
    then show ?thesis by (metis append_Nil)
  next
    case (Cons i A')
    with sp_Upto obtain v t st1 cp1 where "s = v @ t" "spans B t st1 cp1 cp'" by auto
    then show ?thesis by (metis append_assoc)
  qed
next
  case (sp_Opt_skip r s st cp cp' g)
  show ?case
  proof (cases A)
    case Nil
    with sp_Opt_skip have "spans B s st cp cp'" by (auto intro: spans.sp_Opt_skip)
    then show ?thesis by (metis append_Nil)
  qed (use sp_Opt_skip in auto)
next
  case (sp_Opt_take g r s st cp cp')
  show ?case
  proof (cases A)
    case Nil
    with sp_Opt_take have "spans B s st cp cp'" by (auto intro: spans.sp_Opt_take)
    then show ?thesis by (metis append_Nil)
  next
    case (Cons i A')
    then have "g @ r = (g @ A') @ B" using sp_Opt_take by simp
    then show ?thesis by (rule sp_Opt_take.IH)
  qed
next
  case (sp_Alt g gs r s st cp cp')
  show ?case
  proof (cases A)
    case Nil
    with sp_Alt have "spans B s st cp cp'" by (auto intro: spans.sp_Alt)
    then show ?thesis by (metis append_Nil)
  next
    case (Cons i A')
    then have "g @ r = (g @ A') @ B" using sp_Alt by simp
    then show ?thesis by (rule sp_Alt.IH)
  qed
next
  case (sp_Open r s st n cp cp')
  show ?case
  proof (cases A)
    case Nil
    with sp_Open have "spans B s st cp cp'" by (auto intro: spans.sp_Open)
    then show ?thesis by (metis append_Nil)
  qed (use sp_Open in auto)
next
  case (sp_Close r s st cp n cp')
  show ?case
  proof (cases A)
    case Nil
    with sp_Close have "spans B s st cp cp'" by (auto intro: spans.sp_Close)
    then show ?thesis by (metis append_Nil)
  qed (use sp_Close in auto)
next
  case (sp_End r st cp cp')
  show ?case
  proof (cases A)
    case Nil
    with sp_End have "spans B [] st cp cp'" by (auto intro: spans.sp_End)
    then show ?thesis by (metis append_Nil)
  qed (use sp_End in auto)
qed

inductive_cases spans_OpenE: "spans (Open n # r) s st cp cp'"
inductive_cases spans_CloseE: "spans (Close n # r) s st cp cp'"
inductive_cases spans_GreedyE: "spans (Greedy k p # r) s st cp cp'"
inductive_cases spans_OneE: "spans (One p # r) s st cp cp'"

text \<open>A capture group around one greedy class holds characters of the class.\<close>

lemma capture_class:
  assumes "spans ps s st cp cp'" and ps: "ps = A @ group_of_items n [Greedy k p] @ B"
    and "n \<notin> set (closes B)"
  shows "list_all p (cp' n) \<and> k \<le> length (cp' n)"
proof -
  from spans_split [OF assms(1), of A "group_of_items n [Greedy k p] @ B"] obtain t st1 cp1
    where "spans (Open n # Greedy k p # Close n # B) t st1 cp1 cp'"
    by (auto simp: ps group_of_items_def)
  then have "spans (Greedy k p # Close n # B) t (st1(n := t)) cp1 cp'"
    by (rule spans_OpenE)
  then obtain w t' where t: "t = w @ t'" and w: "list_all p w" "k \<le> length w"
    and "spans (Close n # B) t' (st1(n := t)) cp1 cp'"
    by (rule spans_GreedyE)
  from this(4) have "spans B t' (st1(n := t)) (cp1(n := take (length t - length t') t)) cp'"
    by (auto elim: spans_CloseE)
  from spans_capture_kept [OF this assms(3)] have "cp' n = w" by (simp add: t)
  with w show ?thesis by simp
qed

inductive_cases spans_UptoE: "spans (Upto k m p # r) s st cp cp'"

lemma capture_upto:
  assumes "spans ps s st cp cp'" and ps: "ps = A @ group_of_items n [Upto k m p] @ B"
    and "n \<notin> set (closes B)"
  shows "list_all p (cp' n) \<and> k \<le> length (cp' n) \<and> length (cp' n) \<le> m"
proof -
  from spans_split [OF assms(1), of A "group_of_items n [Upto k m p] @ B"] obtain t st1 cp1
    where "spans (Open n # Upto k m p # Close n # B) t st1 cp1 cp'"
    by (auto simp: ps group_of_items_def)
  then have "spans (Upto k m p # Close n # B) t (st1(n := t)) cp1 cp'"
    by (rule spans_OpenE)
  then obtain w t' where t: "t = w @ t'" and w: "list_all p w" "k \<le> length w" "length w \<le> m"
    and "spans (Close n # B) t' (st1(n := t)) cp1 cp'"
    by (rule spans_UptoE)
  from this(5) have "spans B t' (st1(n := t)) (cp1(n := take (length t - length t') t)) cp'"
    by (auto elim: spans_CloseE)
  from spans_capture_kept [OF this assms(3)] have "cp' n = w" by (simp add: t)
  with w show ?thesis by simp
qed

text \<open>The words of a pattern occur in the text, up to case.\<close>

definition contains_ci :: "string \<Rightarrow> string \<Rightarrow> bool" where
  "contains_ci s w \<longleftrightarrow> (\<exists>v u t. s = v @ u @ t \<and> map to_lower u = map to_lower w)"

lemma spans_lit:
  "spans (lit w @ r) s st cp cp' \<Longrightarrow> \<exists>u t. s = u @ t \<and> map to_lower u = map to_lower w"
proof (induction w arbitrary: s)
  case (Cons a w)
  then have "spans (One (ci a) # (lit w @ r)) s st cp cp'" by (simp add: lit_def)
  then obtain c cs where s: "s = c # cs" "ci a c" and "spans (lit w @ r) cs st cp cp'"
    by (rule spans_OneE)
  from Cons.IH [OF this(3)] obtain u t where "cs = u @ t" "map to_lower u = map to_lower w" by auto
  with s have "s = (c # u) @ t \<and> map to_lower (c # u) = map to_lower (a # w)" by (simp add: ci_def)
  then show ?case by blast
qed simp

lemma exec_contains:
  assumes "exec ps s = Some cp" and ps: "ps = A @ lit w @ B"
  shows "contains_ci s w"
proof -
  obtain pre t where s: "s = pre @ t" and "spans ps t (\<lambda>_. []) (\<lambda>_. []) cp"
    using exec_sound [OF assms(1)] by auto
  from spans_split [OF this(2) ps] obtain v t' st1 cp1
    where t: "t = v @ t'" and "spans (lit w @ B) t' st1 cp1 cp" by auto
  from spans_lit [OF this(2)] obtain u t'' where "t' = u @ t''" "map to_lower u = map to_lower w"
    by auto
  then have "s = (pre @ v) @ u @ t'' \<and> map to_lower u = map to_lower w" using s t by simp
  then show ?thesis unfolding contains_ci_def by blast
qed

lemma exec_capture_class:
  assumes "exec ps s = Some cp" and "ps = A @ group_of_items n [Greedy k p] @ B"
    and "n \<notin> set (closes B)"
  shows "list_all p (cp n) \<and> k \<le> length (cp n)"
  using exec_sound [OF assms(1)] capture_class [OF _ assms(2,3)] by blast

end
