(* ===== verification/Parsers.thy ===== *)
theory Parsers
  imports Patterns
begin

text \<open>
  The provider parsers. SMS, \<open>apps/api/src/parsers/sms-parser.ts\<close>: the three patterns of
  Telebirr messages, amounts, provider times and masked phone numbers. USSD,
  \<open>apps/api/src/parsers/ussd-parser.ts\<close>: the numbered options of a screen, the prompt it
  shows and the choice of the option for a semantic action. The patterns are item lists of
  the theory \<open>Patterns\<close>, item by item those of the source.
\<close>

section \<open>SMS: fields\<close>

definition isTrustedTelebirrSmsSender :: "string \<Rightarrow> bool" where
  "isTrustedTelebirrSmsSender sender = (trim sender = ''127'')"

definition compact :: "string \<Rightarrow> string" where
  "compact value = trim (collapse_spaces value)"

definition etb_pattern :: "item list" where
  "etb_pattern = group_of_items 1 [Greedy 1 is_digit] @
     [Opt (One (\<lambda>c. c = CHR ''.'') # group_of_items 2 [Upto 1 2 is_digit]), At_end]"

definition pad_end :: "nat \<Rightarrow> char \<Rightarrow> string \<Rightarrow> string" where
  "pad_end n c s = s @ replicate (n - length s) c"

definition parseEtb :: "string \<Rightarrow> money outcome" where
  "parseEtb value =
     (let t = trim (filter (\<lambda>c. c \<noteq> CHR '','') value);
          normalized = (if t \<noteq> [] \<and> last t = CHR ''.'' then butlast t else t)
      in case exec_anchored etb_pattern normalized of
           None \<Rightarrow> Inl (RuntimeError ''Invalid ETB amount'')
         | Some g \<Rightarrow> Inr (int (nat_of_digits (g 1)) * 100 +
             int (nat_of_digits (pad_end 2 (CHR ''0'') (g 2)))))"

text \<open>
  \<open>Date\<close> on \<open>yyyy-mm-ddThh:mm:ss+03:00\<close>: the days of the proleptic Gregorian
  calendar since 1970; a month, day or time out of range is \<open>NaN\<close>, a day 29 to 31 past the
  end of its month rolls over (as in V8), and 24:00:00 is the next midnight.
\<close>

definition days_from_civil :: "int \<Rightarrow> int \<Rightarrow> int \<Rightarrow> int" where
  "days_from_civil y m d =
     (let y' = (if m \<le> 2 then y - 1 else y);
          era = y' div 400;
          yoe = y' - era * 400;
          doy = (153 * (if m > 2 then m - 3 else m + 9) + 2) div 5 + d - 1;
          doe = yoe * 365 + yoe div 4 - yoe div 100 + doy
      in era * 146097 + doe - 719468)"

definition parseProviderTime :: "string \<Rightarrow> string \<Rightarrow> time option" where
  "parseProviderTime date tm =
     (if date = [] \<or> tm = [] then None
      else
        let ds = map (\<lambda>w. int (nat_of_digits w)) (split_on (CHR ''/'') date);
            ts = map (\<lambda>w. int (nat_of_digits w)) (split_on (CHR '':'') tm)
        in case (ds, ts) of
             ([day, month, year], [h, mi, s]) \<Rightarrow>
               if day = 0 \<or> month = 0 \<or> year = 0 then None
               else if month \<le> 12 \<and> day \<le> 31 \<and>
                   ((h \<le> 23 \<and> mi \<le> 59 \<and> s \<le> 59) \<or> (h = 24 \<and> mi = 0 \<and> s = 0))
               then Some (days_from_civil year month day * 86400000 +
                      ((h * 60 + mi) * 60 + s) * 1000 - 10800000)
               else None
           | _ \<Rightarrow> None)"

definition is_mask :: "char \<Rightarrow> bool" where
  "is_mask c = (c = CHR ''x'' \<or> c = CHR ''X'' \<or> c = CHR ''*'')"

text \<open>The prefix and the suffix a masked number shows.\<close>

definition phoneMask :: "string \<Rightarrow> string \<times> string" where
  "phoneMask masked =
     (let cpt = filter (\<lambda>c. \<not> is_space c) masked in
      if list_ex is_mask cpt then
        (last_n 8 (filter is_digit (takeWhile (\<lambda>c. \<not> is_mask c) cpt)),
         last_n 8 (filter is_digit (rev (takeWhile (\<lambda>c. \<not> is_mask c) (rev cpt)))))
      else ([], last_n 4 (filter is_digit cpt)))"

definition phone_variants :: "string \<Rightarrow> string list" where
  "phone_variants phone =
     (let digits = filter is_digit phone;
          withoutCountry = (if starts_with digits ''251'' then drop 3 digits
            else if starts_with digits ''0'' then drop 1 digits else digits)
      in [digits, withoutCountry, CHR ''0'' # withoutCountry])"

definition matchesMaskedEthiopianPhone :: "string \<Rightarrow> string \<Rightarrow> string \<Rightarrow> bool" where
  "matchesMaskedEthiopianPhone phone prefix suffix =
     (if suffix = [] then False
      else list_ex (\<lambda>v. ends_with v suffix \<and> (prefix = [] \<or> starts_with v prefix))
        (phone_variants phone))"

section \<open>SMS: messages\<close>

record incoming_sms =
  in_amount :: money
  in_name :: string
  in_suffix :: string
  in_prefix :: string
  in_tx :: string
  in_occurredAt :: "time option"
  in_balance :: "money option"

record outgoing_sms =
  out_amount :: money
  out_name :: string
  out_suffix :: string
  out_prefix :: string
  out_tx :: string
  out_occurredAt :: "time option"
  out_fee :: money
  out_vat :: money
  out_balance :: "money option"

record balance_sms =
  bal_incentive :: money
  bal_main :: money
  bal_fuel :: money
  bal_pocket :: money

datatype parsed_sms =
    Incoming_transfer incoming_sms
  | Outgoing_transfer outgoing_sms
  | Balance_report balance_sms
  | Unknown_sms string

definition emoney :: "item list" where
  "emoney = lit ''E'' @ [Opt (lit ''-'')] @ lit ''Money''"

definition amount_group :: "nat \<Rightarrow> item list" where
  "amount_group n = group_of_items n [Greedy 1 amount_char]"

definition is_etb :: "nat \<Rightarrow> item list" where
  "is_etb n = [osp] @ lit '':'' @ [osp] @ lit ''ETB'' @ [osp] @ amount_group n"

definition balance_pattern :: "item list" where
  "balance_pattern =
     phrase [''Customer'', ''Incentive'', ''Account'', ''Balance'', ''is''] @ is_etb 1 @ [any] @
     lit ''Customer'' @ [sp] @ emoney @ [sp] @ phrase [''Account'', ''Balance'', ''is''] @ is_etb 2 @
     [any] @ lit ''Customer'' @ [sp] @ emoney @ [sp] @
     phrase [''Account'', ''for'', ''fuel'', ''payment'', ''Balance'', ''is''] @ is_etb 3 @
     [any] @ phrase [''PocketMoney'', ''Account'', ''Balance'', ''is''] @ is_etb 4"

definition digits_n :: "nat \<Rightarrow> item list" where
  "digits_n n = replicate n (One is_digit)"

definition date_items :: "item list" where
  "date_items = digits_n 2 @ lit ''/'' @ digits_n 2 @ lit ''/'' @ digits_n 4"

definition time_items :: "item list" where
  "time_items = digits_n 2 @ lit '':'' @ digits_n 2 @ lit '':'' @ digits_n 2"

definition paren_group :: "nat \<Rightarrow> item list" where
  "paren_group n = lit ''('' @ group_of_items n [Greedy 1 (\<lambda>c. c \<noteq> CHR '')'')] @ lit '')''"

definition tx_group :: "nat \<Rightarrow> item list" where
  "tx_group n = phrase [''transaction'', ''number'', ''is''] @ [sp] @ group_of_items n [Greedy 1 alnum_ci]"

definition incoming_pattern :: "item list" where
  "incoming_pattern =
     lit ''received'' @ [sp] @ lit ''ETB'' @ [osp] @ amount_group 1 @ [sp] @ lit ''from'' @ [sp] @
     group_of_items 2 [Lazy 1 dot] @ [osp] @ paren_group 3 @ [Opt [sp, Greedy 1 is_digit]] @
     [sp] @ lit ''on'' @ [sp] @ group_of_items 4 date_items @ [sp] @ group_of_items 5 time_items @
     [any] @ tx_group 6"

definition outgoing_pattern :: "item list" where
  "outgoing_pattern =
     lit ''transferred'' @ [sp] @ lit ''ETB'' @ [osp] @ amount_group 1 @ [sp] @ lit ''to'' @ [sp] @
     group_of_items 2 [Lazy 1 dot] @ [osp] @ paren_group 3 @
     [sp] @ lit ''on'' @ [sp] @ group_of_items 4 date_items @ [sp] @ group_of_items 5 time_items @
     [any] @ tx_group 6 @
     [any] @ phrase [''service'', ''fee'', ''is'', ''ETB''] @ [osp] @ amount_group 7 @
     [any] @ phrase [''VAT'', ''on'', ''the'', ''service'', ''fee'', ''is'', ''ETB''] @ [osp] @
     amount_group 8"

definition current_balance_pattern :: "item list" where
  "current_balance_pattern =
     lit ''current'' @ [sp] @ emoney @ [sp] @ phrase [''Account'', ''balance'', ''is''] @ [osp] @
     [Opt (lit '':'' @ [osp])] @ lit ''ETB'' @ [osp] @ amount_group 1"

definition optionalBalance :: "string \<Rightarrow> money option outcome" where
  "optionalBalance txt = (case exec current_balance_pattern txt of
       None \<Rightarrow> Inr None
     | Some g \<Rightarrow> map_outcome Some (parseEtb (g 1)))"

definition parse_balance :: "captures \<Rightarrow> parsed_sms outcome" where
  "parse_balance g =
     and_then (parseEtb (g 1)) (\<lambda>i. and_then (parseEtb (g 2)) (\<lambda>m.
     and_then (parseEtb (g 3)) (\<lambda>f. and_then (parseEtb (g 4)) (\<lambda>p.
       Inr (Balance_report \<lparr>bal_incentive = i, bal_main = m, bal_fuel = f, bal_pocket = p\<rparr>)))))"

definition parse_incoming :: "string \<Rightarrow> captures \<Rightarrow> parsed_sms outcome" where
  "parse_incoming txt g =
     (let (prefix, suffix) = phoneMask (g 3) in
      and_then (parseEtb (g 1)) (\<lambda>amount. and_then (optionalBalance txt) (\<lambda>balance.
        Inr (Incoming_transfer \<lparr>in_amount = amount, in_name = trim (g 2), in_suffix = suffix,
          in_prefix = prefix, in_tx = map to_upper (g 6),
          in_occurredAt = parseProviderTime (g 4) (g 5), in_balance = balance\<rparr>))))"

definition parse_outgoing :: "string \<Rightarrow> captures \<Rightarrow> parsed_sms outcome" where
  "parse_outgoing txt g =
     (let (prefix, suffix) = phoneMask (g 3) in
      and_then (parseEtb (g 1)) (\<lambda>amount. and_then (parseEtb (g 7)) (\<lambda>fee.
      and_then (parseEtb (g 8)) (\<lambda>vat. and_then (optionalBalance txt) (\<lambda>balance.
        Inr (Outgoing_transfer \<lparr>out_amount = amount, out_name = trim (g 2), out_suffix = suffix,
          out_prefix = prefix, out_tx = map to_upper (g 6),
          out_occurredAt = parseProviderTime (g 4) (g 5), out_fee = fee, out_vat = vat,
          out_balance = balance\<rparr>))))))"

definition parseTelebirrSms :: "string \<Rightarrow> parsed_sms outcome" where
  "parseTelebirrSms raw =
     (let txt = compact raw in
      case exec balance_pattern txt of
        Some g \<Rightarrow> parse_balance g
      | None \<Rightarrow> (case exec incoming_pattern txt of
          Some g \<Rightarrow> parse_incoming txt g
        | None \<Rightarrow> (case exec outgoing_pattern txt of
            Some g \<Rightarrow> parse_outgoing txt g
          | None \<Rightarrow> Inr (Unknown_sms ''no_known_deterministic_pattern''))))"

section \<open>USSD\<close>

datatype ussd_action =
  NEXT | MAIN_MENU | BACK | SEND_MONEY | TRANSFER_TO_BANK | TRANSFER_TO_WALLET | MY_ACCOUNT
| QUERY_BALANCE | CONFIRM | CANCEL

datatype ussd_prompt =
  P_MENU | P_ENTER_RECEIVER_NUMBER | P_CONFIRM_RECEIVER | P_ENTER_AMOUNT | P_ENTER_COMMENT
| P_CONFIRM_TRANSFER | P_ENTER_PIN | P_PROCESSING | P_UNKNOWN

record menu_option =
  mo_value :: string
  mo_label :: string
  mo_normalized :: string
  mo_semantic :: "ussd_action option"

record ussd_screen =
  us_raw :: string
  us_normalized :: string
  us_prompt :: ussd_prompt
  us_options :: "menu_option list"

definition aliases :: "(ussd_action \<times> item list list) list" where
  "aliases =
     [(NEXT, [lit ''next'' @ [At_end], lit ''more'' @ [At_end]]),
      (MAIN_MENU, [lit ''main'' @ [osp] @ lit ''menu'' @ [At_end]]),
      (BACK, [lit ''back'' @ [At_end]]),
      (SEND_MONEY, [lit ''send'' @ [osp] @ lit ''money'' @ [At_end]]),
      (TRANSFER_TO_BANK, [lit ''transfer'' @ [osp] @ lit ''to'' @ [osp] @ lit ''bank'' @ [At_end]]),
      (TRANSFER_TO_WALLET, [lit ''transfer'' @ [osp] @ lit ''to'' @ [osp] @ lit ''wallet'' @ [At_end]]),
      (MY_ACCOUNT, [lit ''my'' @ [osp] @ lit ''account'' @ [At_end]]),
      (QUERY_BALANCE, [[Alt [lit ''query'', lit ''check'', lit ''view''], osp,
         Opt (lit ''account'' @ [osp])] @ lit ''balance'' @ [At_end]]),
      (CONFIRM, [[Alt [lit ''ok'', lit ''confirm'', lit ''yes''], At_end]]),
      (CANCEL, [[Alt [lit ''cancel'', lit ''no''], At_end]])]"

definition is_separator :: "char \<Rightarrow> bool" where
  "is_separator c = (is_space c \<or> c = CHR ''.'' \<or> c = CHR '':'' \<or> c = CHR ''_'' \<or> c = CHR ''-'')"

function squeeze :: "(char \<Rightarrow> bool) \<Rightarrow> string \<Rightarrow> string" where
  "squeeze p [] = []"
| "squeeze p (c # cs) =
     (if p c then CHR '' '' # squeeze p (dropWhile p cs) else c # squeeze p cs)"
  by pat_completeness auto
termination
  by (relation "measure (\<lambda>(p, s). length s)") (auto simp: le_imp_less_Suc length_dropWhile_le)

definition normalize_label :: "string \<Rightarrow> string" where
  "normalize_label value = trim (squeeze is_separator value)"

definition semanticFor :: "string \<Rightarrow> ussd_action option" where
  "semanticFor label =
     (let normalized = normalize_label label in
      map_option fst
        (find (\<lambda>(act, pats). list_ex (\<lambda>p. anchored_test p normalized) pats) aliases))"

definition promptFor :: "string \<Rightarrow> menu_option list \<Rightarrow> ussd_prompt" where
  "promptFor normalized options =
     (if re_test (phrase [''request'', ''is'', ''being'', ''processed'']) normalized \<or>
         re_test (phrase [''wait'', ''for'', ''the'', ''confirmation'']) normalized then P_PROCESSING
      else if re_test (phrase [''enter'', ''pin'']) normalized then P_ENTER_PIN
      else if re_test (phrase [''you'', ''are'', ''sending'']) normalized then P_CONFIRM_TRANSFER
      else if re_test (phrase [''enter'', ''comment'']) normalized then P_ENTER_COMMENT
      else if re_test (phrase [''enter'', ''amount'']) normalized then P_ENTER_AMOUNT
      else if anchored_test (lit ''to'' @ [sp, Greedy 1 is_digit, Greedy 1 dot] @ lit ''confirm'')
          normalized then P_CONFIRM_RECEIVER
      else if re_test (lit ''enter'' @ [sp, Opt (lit ''the'' @ [sp])] @ lit ''receiver'' @
          [sp, Opt (lit ''mobile'' @ [sp])] @ lit ''number'') normalized then P_ENTER_RECEIVER_NUMBER
      else if options \<noteq> [] then P_MENU else P_UNKNOWN)"

text \<open>\<open>split(/\\r?\\n/)\<close>: a carriage return before a line feed belongs to the separator.\<close>

definition drop_cr :: "string \<Rightarrow> string" where
  "drop_cr l = (if l \<noteq> [] \<and> last l = CHR 0x0D then butlast l else l)"

definition split_lines :: "string \<Rightarrow> string list" where
  "split_lines raw = (let ls = split_on (CHR 0x0A) raw in map drop_cr (butlast ls) @ [last ls])"

definition option_pattern :: "item list" where
  "option_pattern = [osp] @ group_of_items 1 [Upto 1 2 is_digit] @
     [osp, Opt [One (\<lambda>c. c = CHR ''.'' \<or> c = CHR '')'' \<or> c = CHR ''-'')], osp] @
     group_of_items 2 [Lazy 1 dot] @ [osp, At_end]"

definition parse_option :: "string \<Rightarrow> menu_option list" where
  "parse_option line = (case exec_anchored option_pattern line of
       None \<Rightarrow> []
     | Some g \<Rightarrow>
         let normalizedLabel = normalize_label (g 2) in
         [\<lparr>mo_value = g 1, mo_label = trim (g 2), mo_normalized = normalizedLabel,
           mo_semantic = semanticFor normalizedLabel\<rparr>])"

definition parseUssdScreen :: "string \<Rightarrow> ussd_screen" where
  "parseUssdScreen raw =
     (let normalized = normalize_label raw;
          options = concat (map parse_option (split_lines raw))
      in \<lparr>us_raw = raw, us_normalized = normalized, us_prompt = promptFor normalized options,
          us_options = options\<rparr>)"

definition selectSemanticAction :: "ussd_screen \<Rightarrow> ussd_action \<Rightarrow> string outcome" where
  "selectSemanticAction screen action =
     (let found = filter (\<lambda>opt. mo_semantic opt = Some action) (us_options screen) in
      if length found \<noteq> 1 then
        Inl (RuntimeError (if found = [] then ''semantic_action_not_found'' else ''semantic_action_ambiguous''))
      else Inr (mo_value (hd found)))"

record flow_step =
  fs_expected :: ussd_prompt
  fs_action :: "ussd_action option"
  fs_sensitive :: bool

definition menu_step :: "ussd_action \<Rightarrow> flow_step" where
  "menu_step a = \<lparr>fs_expected = P_MENU, fs_action = Some a, fs_sensitive = False\<rparr>"

definition plain_step :: "ussd_prompt \<Rightarrow> flow_step" where
  "plain_step p = \<lparr>fs_expected = p, fs_action = None, fs_sensitive = False\<rparr>"

definition TELEBIRR_PROFILE_V1_balance_query :: "flow_step list" where
  "TELEBIRR_PROFILE_V1_balance_query =
     [menu_step NEXT, menu_step MY_ACCOUNT, menu_step QUERY_BALANCE,
      \<lparr>fs_expected = P_ENTER_PIN, fs_action = None, fs_sensitive = True\<rparr>, plain_step P_PROCESSING]"

definition TELEBIRR_PROFILE_V1_customer_withdrawal :: "flow_step list" where
  "TELEBIRR_PROFILE_V1_customer_withdrawal =
     [menu_step SEND_MONEY, menu_step SEND_MONEY, plain_step P_ENTER_RECEIVER_NUMBER,
      \<lparr>fs_expected = P_CONFIRM_RECEIVER, fs_action = Some CONFIRM, fs_sensitive = False\<rparr>,
      plain_step P_ENTER_AMOUNT, plain_step P_ENTER_COMMENT,
      \<lparr>fs_expected = P_CONFIRM_TRANSFER, fs_action = Some CONFIRM, fs_sensitive = False\<rparr>,
      \<lparr>fs_expected = P_ENTER_PIN, fs_action = None, fs_sensitive = True\<rparr>, plain_step P_PROCESSING]"

section \<open>What a parsed message proves\<close>

lemma parseEtb_nonneg: "parseEtb v = Inr m \<Longrightarrow> 0 \<le> m"
  by (auto simp: parseEtb_def Let_def split: option.splits)

lemma to_upper_alnum: "alnum_ci c \<Longrightarrow> is_upper (to_upper c) \<or> is_digit (to_upper c)"
  by (auto simp: alnum_ci_def to_upper_def is_lower_def is_upper_def is_digit_def)

lemma closes_blocks [simp]:
  "closes (amount_group n) = [n]" "closes (is_etb n) = [n]" "closes (paren_group n) = [n]"
  "closes (tx_group n) = [n]" "closes (digits_n k) = []" "closes date_items = []"
  "closes time_items = []" "closes emoney = []"
  by (auto simp: amount_group_def is_etb_def group_of_items_def paren_group_def tx_group_def
      digits_n_def date_items_def time_items_def emoney_def closes_def lit_def)

lemma tx_capture:
  assumes "exec ps s = Some g" and "ps = A @ tx_group 6 @ B" and "6 \<notin> set (closes B)"
  shows "g 6 \<noteq> [] \<and> (\<forall>c \<in> set (map to_upper (g 6)). is_upper c \<or> is_digit c) \<and>
    contains_ci s ''transaction''"
proof -
  have "ps = (A @ phrase [''transaction'', ''number'', ''is''] @ [sp]) @
      group_of_items 6 [Greedy 1 alnum_ci] @ B"
    using assms(2) by (simp add: tx_group_def)
  from exec_capture_class [OF assms(1) this assms(3)]
  have "list_all alnum_ci (g 6)" and "1 \<le> length (g 6)" by auto
  moreover have "ps = A @ lit ''transaction'' @ (sp # phrase [''number'', ''is''] @ [sp] @
      group_of_items 6 [Greedy 1 alnum_ci] @ B)"
    using assms(2) by (simp add: tx_group_def)
  then have "contains_ci s ''transaction''" by (rule exec_contains [OF assms(1)])
  ultimately show ?thesis by (auto simp: list_all_iff to_upper_alnum)
qed

lemma phoneMask_digits:
  "phoneMask w = (pre, suf) \<Longrightarrow> list_all is_digit pre \<and> list_all is_digit suf \<and>
     length pre \<le> 8 \<and> length suf \<le> 8"
  by (auto simp: phoneMask_def last_n_def Let_def list_all_iff split: if_splits
      dest!: in_set_dropD set_takeWhileD)


text \<open>A short message of the provider's form, for the witness.\<close>

definition sample_incoming :: string where
  "sample_incoming =
     ''received ETB 12.50 from A B (2519**34) on 10/07/2026 14:05:09. transaction number is cg1''"

lemma sample_incoming_parses:
  "parseTelebirrSms sample_incoming = Inr (Incoming_transfer \<lparr>in_amount = 1250, in_name = ''A B'',
     in_suffix = ''34'', in_prefix = ''2519'', in_tx = ''CG1'', in_occurredAt = Some 1783681509000,
     in_balance = None\<rparr>)"
  by code_simp


section \<open>Masked phone numbers\<close>

lemma mask_not_digit: "is_digit c \<Longrightarrow> \<not> is_mask c \<and> \<not> is_space c"
  by (auto simp: is_digit_def is_mask_def is_space_def)

lemma mask_not_space: "is_mask c \<Longrightarrow> \<not> is_space c \<and> \<not> is_digit c"
  by (auto simp: is_mask_def is_space_def is_digit_def)

lemma takeWhile_digits:
  assumes "list_all is_digit a" and "stars \<noteq> []" and "list_all is_mask stars"
  shows "takeWhile (\<lambda>c. \<not> is_mask c) (a @ stars @ b) = a"
  using assms by (cases stars) (auto simp: list_all_iff takeWhile_append mask_not_digit)

lemma filter_digits: "list_all is_digit a \<Longrightarrow> filter is_digit a = a"
  by (induction a) auto

lemma last_n_all: "length a \<le> n \<Longrightarrow> last_n n a = a"
  by (simp add: last_n_def)

lemma phoneMask_stars:
  assumes a: "list_all is_digit a" "length a \<le> 8" and b: "list_all is_digit b" "length b \<le> 8"
    and st: "stars \<noteq> []" "list_all is_mask stars"
  shows "phoneMask (a @ stars @ b) = (a, b)"
proof -
  have cpt: "filter (\<lambda>c. \<not> is_space c) (a @ stars @ b) = a @ stars @ b"
    using assms
    by (intro filter_True) (auto simp: list_all_iff mask_not_digit mask_not_space)
  have ex: "list_ex is_mask (a @ stars @ b)" using st by (cases stars) auto
  have "takeWhile (\<lambda>c. \<not> is_mask c) (rev b @ rev stars @ rev a) = rev b"
    by (rule takeWhile_digits) (use b st in \<open>auto simp: list_all_iff\<close>)
  then have tailed: "rev (takeWhile (\<lambda>c. \<not> is_mask c) (rev (a @ stars @ b))) = b" by simp
  show ?thesis
    unfolding phoneMask_def cpt Let_def tailed
      takeWhile_digits [OF a(1) st]
    using a b ex by (simp only: filter_digits last_n_all if_True)
qed

lemma list_all_drop: "list_all p xs \<Longrightarrow> list_all p (drop n xs)"
  by (auto simp: list_all_iff dest: in_set_dropD)

lemma list_all_filter: "list_all p (filter p xs)"
  by (simp add: list_all_iff)

lemma phone_variants_digits: "v \<in> set (phone_variants phone) \<Longrightarrow> list_all is_digit v"
proof -
  have "is_digit (CHR ''0'')" by code_simp
  then show "v \<in> set (phone_variants phone) \<Longrightarrow> list_all is_digit v"
    by (auto simp: phone_variants_def list_all_drop list_all_filter Let_def split: if_splits)
qed

text \<open>The provider's mask of a number always matches the number: whichever of the three
  spellings of a phone the provider masks (with the country code, without it, with a leading
  zero), the visible prefix and suffix that \<open>phoneMask\<close> reads off are accepted for that phone.\<close>

theorem masked_phone_matches:
  assumes "a @ mid @ b \<in> set (phone_variants phone)" and "b \<noteq> []"
    and "length a \<le> 8" and "length b \<le> 8" and "stars \<noteq> []" and "list_all is_mask stars"
  shows "matchesMaskedEthiopianPhone phone (fst (phoneMask (a @ stars @ b)))
    (snd (phoneMask (a @ stars @ b)))"
proof -
  have "list_all is_digit a" and "list_all is_digit b"
    using phone_variants_digits [OF assms(1)] by simp_all
  then have "phoneMask (a @ stars @ b) = (a, b)" using assms by (intro phoneMask_stars)
  moreover have "ends_with (a @ mid @ b) b" and "starts_with (a @ mid @ b) a"
    by (auto simp: ends_with_iff starts_with_iff intro: exI [of _ "a @ mid"])
  ultimately show ?thesis
    using assms(1,2) by (auto simp: matchesMaskedEthiopianPhone_def list_ex_iff)
qed

theorem masked_phone_matches_witness:
  "matchesMaskedEthiopianPhone ''+251911234567'' (fst (phoneMask ''2519****4567''))
     (snd (phoneMask ''2519****4567''))"
proof -
  have "''2519'' @ ''1123'' @ ''4567'' \<in> set (phone_variants ''+251911234567'')" by code_simp
  from masked_phone_matches [OF this, of "''****''"] show ?thesis
    by (simp add: is_mask_def)
qed

section \<open>Menu choice\<close>

lemma option_value_digits:
  assumes "opt \<in> set (parse_option line)"
  shows "list_all is_digit (mo_value opt) \<and> 1 \<le> length (mo_value opt) \<and> length (mo_value opt) \<le> 2"
proof -
  obtain g where g: "exec_anchored option_pattern line = Some g" and v: "mo_value opt = g 1"
    using assms
    by (cases "exec_anchored option_pattern line") (simp_all add: parse_option_def Let_def)
  have "spans option_pattern line (\<lambda>_. []) (\<lambda>_. []) g"
    using g by (simp add: exec_anchored_def match_at_sound)
  then have "list_all is_digit (g 1) \<and> 1 \<le> length (g 1) \<and> length (g 1) \<le> 2"
    by (rule capture_upto [where A = "[osp]" and B = "[osp, Opt [One (\<lambda>c. c = CHR ''.'' \<or>
          c = CHR '')'' \<or> c = CHR ''-'')], osp] @ group_of_items 2 [Lazy 1 dot] @ [osp, At_end]"])
      (simp_all add: option_pattern_def group_of_items_def)
  with v show ?thesis by simp
qed

text \<open>The phone is never told to press a key on a guess: a semantic action is answered with
  a key exactly when one and only one option of the screen carries it; a missing and an
  ambiguous action are told apart as errors, and the key is an option number of one or two
  digits.\<close>

theorem semantic_action_unique:
  fixes raw :: string and act :: ussd_action
  defines "opts \<equiv> filter (\<lambda>opt. mo_semantic opt = Some act) (us_options (parseUssdScreen raw))"
  shows "(case selectSemanticAction (parseUssdScreen raw) act of
      Inr v \<Rightarrow> list_all is_digit v \<and> 1 \<le> length v \<and> length v \<le> 2 \<and> map mo_value opts = [v]
    | Inl e \<Rightarrow> (opts = [] \<and> e = RuntimeError ''semantic_action_not_found'') \<or>
        (2 \<le> length opts \<and> e = RuntimeError ''semantic_action_ambiguous''))"
proof (cases "length opts = 1")
  case True
  then obtain opt where opt: "opts = [opt]" by (cases opts) auto
  then have "opt \<in> set (us_options (parseUssdScreen raw))" by (auto simp: opts_def dest: filter_eq_ConsD)
  then obtain line where "opt \<in> set (parse_option line)"
    by (auto simp: parseUssdScreen_def Let_def)
  with opt show ?thesis
    by (simp add: selectSemanticAction_def opts_def [symmetric] option_value_digits
        option_value_digits [unfolded One_nat_def])
next
  case False
  then have "opts = [] \<or> 2 \<le> length opts" by (cases opts rule: remdups_adj.cases) simp_all
  with False show ?thesis
    by (auto simp: selectSemanticAction_def opts_def [symmetric] Let_def)
qed

end
