(* ===== verification/Fleet.thy ===== *)
theory Fleet
  imports Schema Money
begin

text \<open>
  The phone fleet: the platform policy (\<open>configuration/platform-policy.ts\<close>), the choice of a
  SIM wallet for a deposit or a withdrawal (\<open>fleet/sim-selection.service.ts\<close>) and the
  maintenance jobs that age devices, balances and deposits
  (\<open>fleet/fleet-maintenance.service.ts\<close>). The alerts the maintenance raises are returned as
  a list of notices. The order of equally good candidates is the insertion order of the rows.
\<close>

section \<open>Platform policy\<close>

text \<open>
  The capacity factor, the only decimal, is a mantissa and its number of decimals.
\<close>

record platform_policy =
  pp_balanceStaleSeconds :: int
  pp_capacitySafetyFactor :: "int \<times> nat"
  pp_dailyLimit :: money
  pp_walletCeiling :: money
  pp_safetyBalance :: money
  pp_safetyHeadroom :: money
  pp_countdownSeconds :: int
  pp_lateGraceSeconds :: int

definition boundedInteger :: "json option \<Rightarrow> int \<Rightarrow> int \<Rightarrow> int \<Rightarrow> int" where
  "boundedInteger value fallback lo hi = (case value of
       Some (JInt n) \<Rightarrow> if lo \<le> n \<and> n \<le> hi then n else fallback
     | _ \<Rightarrow> fallback)"

definition decimal_le :: "int \<times> nat \<Rightarrow> int \<times> nat \<Rightarrow> bool" where
  "decimal_le x y = (fst x * 10 ^ snd y \<le> fst y * 10 ^ snd x)"

definition boundedNumber :: "json option \<Rightarrow> int \<times> nat \<Rightarrow> int \<times> nat \<Rightarrow> int \<times> nat \<Rightarrow> int \<times> nat" where
  "boundedNumber value fallback lo hi =
     (let keep = (\<lambda>x. if decimal_le lo x \<and> decimal_le x hi then x else fallback)
      in case value of Some (JInt n) \<Rightarrow> keep (n, 0) | Some (JDec m k) \<Rightarrow> keep (m, k) | _ \<Rightarrow> fallback)"

definition moneyMinor :: "json option \<Rightarrow> money \<Rightarrow> money" where
  "moneyMinor value fallback = (case value of
       Some (JStr s) \<Rightarrow> if amount_shape s then int (nat_of_digits (strip_dot s)) else fallback
     | _ \<Rightarrow> fallback)"

definition loadPlatformPolicy :: "db \<Rightarrow> platform_policy" where
  "loadPlatformPolicy d =
     (let value = (case map_option pt_value (find (\<lambda>s. pt_key s = ''fleet.defaults'') (settings d)) of
            Some (JObj fs) \<Rightarrow> fs | _ \<Rightarrow> [])
      in \<lparr>pp_balanceStaleSeconds = boundedInteger (json_field ''balance_stale_seconds'' value) 1800 300 10800,
          pp_capacitySafetyFactor =
            boundedNumber (json_field ''capacity_safety_factor'' value) (7, 1) (1, 1) (95, 2),
          pp_dailyLimit = moneyMinor (json_field ''daily_transfer_cap'' value) 15000000,
          pp_walletCeiling = moneyMinor (json_field ''wallet_ceiling'' value) 7500000,
          pp_safetyBalance = moneyMinor (json_field ''safety_balance'' value) 100000,
          pp_safetyHeadroom = moneyMinor (json_field ''safety_headroom'' value) 100000,
          pp_countdownSeconds =
            boundedInteger (json_field ''default_deposit_countdown_seconds'' value) 600 60 3600,
          pp_lateGraceSeconds =
            boundedInteger (json_field ''default_deposit_late_grace_seconds'' value) 1800 0 7200\<rparr>)"

section \<open>Candidates\<close>

definition isLiveFleetIdentity :: "string \<Rightarrow> string option \<Rightarrow> bool" where
  "isLiveFleetIdentity groupCode serial =
     (groupCode \<noteq> ''TEST-SIMULATOR'' \<and> serial \<noteq> Some ''VIRTUAL-TEST-DEVICE'')"

text \<open>Midnight in Addis Ababa (UTC+3, no daylight saving) of the day of an instant.\<close>

definition addisFinancialDay :: "time \<Rightarrow> time" where
  "addisFinancialDay t = ((t + 10800000) div 86400000) * 86400000 - 10800000"

definition predictedDepositBalance :: "money \<Rightarrow> money list \<Rightarrow> money \<Rightarrow> money" where
  "predictedDepositBalance current active incoming = current + sum_list active + incoming"

definition withinWithdrawalCapacity :: "money \<Rightarrow> money \<Rightarrow> money \<Rightarrow> money \<Rightarrow> bool" where
  "withinWithdrawalCapacity sentToday reserved required dailyLimit =
     (sentToday + reserved + required \<le> dailyLimit)"

record candidate =
  cd_sim :: sim_wallet
  cd_device :: device
  cd_group :: device_group
  cd_deposits :: "deposit_intent list"

definition active_deposit :: "deposit_intent \<Rightarrow> bool" where
  "active_deposit x = (dp_status x \<in> {D_awaiting_payment, D_late_grace, D_matching})"

definition candidate_of :: "db \<Rightarrow> bool \<Rightarrow> sim_wallet \<Rightarrow> candidate option" where
  "candidate_of d withDeposits s = (case device_of d s of
       None \<Rightarrow> None
     | Some dv \<Rightarrow> (case group_of d dv of
         None \<Rightarrow> None
       | Some g \<Rightarrow> Some \<lparr>cd_sim = s, cd_device = dv, cd_group = g,
           cd_deposits = (if withDeposits
             then filter (\<lambda>x. dp_sim x = sim_id s \<and> active_deposit x) (deposits d) else [])\<rparr>))"

definition live_where :: "time \<Rightarrow> id \<Rightarrow> bool \<Rightarrow> platform_policy \<Rightarrow> candidate \<Rightarrow> bool" where
  "live_where now merchant forDeposit pol c =
     (let s = cd_sim c; dv = cd_device c; g = cd_group c in
      (if forDeposit then sim_status s = Sim_active \<or> sim_status s = Sim_payout_stale
       else sim_status s = Sim_active) \<and>
      (forDeposit \<or> opt_holds (\<lambda>t. now - pp_balanceStaleSeconds pol * 1000 \<le> t) (sim_lastBalanceAt s)) \<and>
      dv_status dv = Dev_online \<and> opt_holds (\<lambda>t. now - 90000 \<le> t) (dv_lastHeartbeatAt dv) \<and>
      dv_permissionsOk dv \<and> dv_accessibilityOk dv \<and> g_code g \<noteq> ''TEST-SIMULATOR'' \<and>
      (list_ex (\<lambda>p. gp_merchant p = merchant) (g_merchants g) \<or>
       \<not> list_ex gp_dedicated (g_merchants g)))"

definition liveCandidates :: "time \<Rightarrow> auth \<Rightarrow> bool \<Rightarrow> db \<Rightarrow> candidate list" where
  "liveCandidates now auth forDeposit d =
     take 2500 (filter (live_where now (fst auth) forDeposit (loadPlatformPolicy d))
       (List.map_filter (candidate_of d forDeposit) (sims d)))"

definition allowedForMerchant :: "candidate \<Rightarrow> id \<Rightarrow> bool" where
  "allowedForMerchant c merchant =
     (if \<not> isLiveFleetIdentity (g_code (cd_group c)) (dv_serial (cd_device c)) then False
      else case find (\<lambda>p. gp_merchant p = merchant) (g_merchants (cd_group c)) of
        Some own \<Rightarrow> True
      | None \<Rightarrow> \<not> list_ex gp_dedicated (g_merchants (cd_group c)))"

section \<open>The test simulator\<close>

definition test_iccid :: string where "test_iccid = ''8999999999999999999''"

definition upsert_test_location :: "db \<Rightarrow> id \<times> db" where
  "upsert_test_location d = (case find (\<lambda>l. fl_code l = ''TEST'') (locations d) of
       Some l \<Rightarrow> (fl_id l, d)
     | None \<Rightarrow> (next_id d, d\<lparr>locations := locations d @ [\<lparr>fl_id = next_id d, fl_code = ''TEST'',
         fl_name = ''Test simulator''\<rparr>], next_id := Suc (next_id d)\<rparr>))"

definition upsert_test_group :: "id \<Rightarrow> db \<Rightarrow> id \<times> db" where
  "upsert_test_group location d = (case find (\<lambda>g. g_code g = ''TEST-SIMULATOR'') (groups d) of
       Some g \<Rightarrow> (g_id g, d)
     | None \<Rightarrow> (next_id d, d\<lparr>groups := groups d @ [\<lparr>g_id = next_id d, g_location = location,
         g_name = ''Test simulator'', g_code = ''TEST-SIMULATOR'',
         g_dailyLimit = 15000000, g_ceiling = 7500000, g_safetyBalance = 100000,
         g_safetyHeadroom = 100000, g_merchants = []\<rparr>], next_id := Suc (next_id d)\<rparr>))"

definition upsert_test_device :: "time \<Rightarrow> id \<Rightarrow> db \<Rightarrow> id \<times> db" where
  "upsert_test_device now gid d =
     (case find (\<lambda>v. dv_serial v = Some ''VIRTUAL-TEST-DEVICE'') (devices d) of
       Some v \<Rightarrow> (dv_id v, d\<lparr>devices := update_where (\<lambda>x. dv_id x = dv_id v)
         (\<lambda>x. x\<lparr>dv_status := Dev_online, dv_lastHeartbeatAt := Some now,
                dv_permissionsOk := True, dv_accessibilityOk := True\<rparr>) (devices d)\<rparr>)
     | None \<Rightarrow> (next_id d, d\<lparr>devices := devices d @ [\<lparr>dv_id = next_id d, dv_group = gid,
         dv_name = ''Virtual test phone'', dv_model = Some ''Simulator'', dv_serial = Some ''VIRTUAL-TEST-DEVICE'', dv_status = Dev_online, dv_authTokenHash = None,
         dv_certFingerprint = None, dv_lastHeartbeatAt = Some now, dv_permissionsOk = True,
         dv_accessibilityOk = True, dv_activeJob = None\<rparr>], next_id := Suc (next_id d)\<rparr>))"

definition upsert_test_sim :: "time \<Rightarrow> id \<Rightarrow> db \<Rightarrow> sim_wallet \<times> db" where
  "upsert_test_sim now dev d =
     (case find (\<lambda>s. sim_iccid s = test_iccid) (sims d) of
       Some s \<Rightarrow>
         let f = (\<lambda>x. x\<lparr>sim_status := Sim_active, sim_main := 100000000000, sim_lastBalanceAt := Some now\<rparr>)
         in (f s, d\<lparr>sims := update_where (\<lambda>x. sim_id x = sim_id s) f (sims d)\<rparr>)
     | None \<Rightarrow>
         let s = \<lparr>sim_id = next_id d, sim_device = dev, sim_slot = 0, sim_subscription = Some 1,
               sim_iccid = test_iccid, sim_phone = ''+251900000000'', sim_accountName = ''P2P Test Receiver'',
               sim_status = Sim_active, sim_main = 100000000000, sim_incentive = 0, sim_fuel = 0,
               sim_pocket = 0, sim_reserved = 0, sim_sentToday = 0, sim_receivedToday = 0,
               sim_financialDay = None, sim_lastBalanceAt = Some now,
               sim_lastBalanceSource = Some ''simulator'', sim_lastSmsAt = None, sim_nextFence = 0\<rparr>
         in (s, d\<lparr>sims := sims d @ [s], next_id := Suc (next_id d)\<rparr>))"

definition ensureTestSim :: "time \<Rightarrow> db \<Rightarrow> sim_wallet \<times> db" where
  "ensureTestSim now d =
     (let (lid, d0) = upsert_test_location d; (gid, d1) = upsert_test_group lid d0;
          (dev, d2) = upsert_test_device now gid d1
      in upsert_test_sim now dev d2)"

section \<open>Selection\<close>

text \<open>
  A candidate is ranked by a flag (smaller first) and an amount: for a deposit, whether it is
  the SIM of the customer's last deposit, then the predicted balance.
\<close>

datatype rank = Rank (rank_flag: int) (rank_amount: int)

instantiation rank :: linorder
begin

definition less_eq_rank :: "rank \<Rightarrow> rank \<Rightarrow> bool" where
  "less_eq_rank a b =
     (rank_flag a < rank_flag b \<or> (rank_flag a = rank_flag b \<and> rank_amount a \<le> rank_amount b))"

definition less_rank :: "rank \<Rightarrow> rank \<Rightarrow> bool" where
  "less_rank a b =
     (rank_flag a < rank_flag b \<or> (rank_flag a = rank_flag b \<and> rank_amount a < rank_amount b))"

instance
proof
  fix x y z :: rank
  show "x < y \<longleftrightarrow> x \<le> y \<and> \<not> y \<le> x" by (auto simp: less_eq_rank_def less_rank_def)
  show "x \<le> x" by (simp add: less_eq_rank_def)
  show "x \<le> y \<Longrightarrow> y \<le> z \<Longrightarrow> x \<le> z" by (auto simp: less_eq_rank_def)
  show "x \<le> y \<Longrightarrow> y \<le> x \<Longrightarrow> x = y" by (auto simp: less_eq_rank_def intro: rank.expand)
  show "x \<le> y \<or> y \<le> x" by (auto simp: less_eq_rank_def)
qed

end

definition sticky_sim :: "auth \<Rightarrow> string \<Rightarrow> db \<Rightarrow> id option" where
  "sticky_sim auth customer d =
     map_option dp_sim (first_by (\<lambda>x. - dp_createdAt x)
       (filter (\<lambda>x. dp_merchant x = fst auth \<and> dp_env x = snd auth \<and> dp_customerId x = customer \<and>
          dp_status x = D_success) (deposits d)))"

definition deposit_rank :: "id option \<Rightarrow> candidate \<Rightarrow> rank" where
  "deposit_rank sticky c = Rank (if sticky = Some (sim_id (cd_sim c)) then 0 else 1)
     (predictedDepositBalance (sim_main (cd_sim c)) (map dp_amount (cd_deposits c)) 0)"

definition deposit_headroom :: "money \<Rightarrow> candidate \<Rightarrow> bool" where
  "deposit_headroom amount c =
     (predictedDepositBalance (sim_main (cd_sim c)) (map dp_amount (cd_deposits c)) amount
       \<le> g_ceiling (cd_group c) - g_safetyHeadroom (cd_group c))"

definition deposit_unambiguous :: "string \<Rightarrow> money \<Rightarrow> candidate \<Rightarrow> bool" where
  "deposit_unambiguous phone amount c =
     (\<not> list_ex (\<lambda>x. active_deposit x \<and> dp_amount x = amount \<and>
        ends_with (dp_customerPhone x) (last_n 4 phone)) (cd_deposits c))"

definition viable_deposit_sims :: "time \<Rightarrow> auth \<Rightarrow> string \<Rightarrow> money \<Rightarrow> db \<Rightarrow> candidate list" where
  "viable_deposit_sims now auth phone amount d =
     filter (deposit_unambiguous phone amount) (filter (deposit_headroom amount)
       (filter (\<lambda>c. allowedForMerchant c (fst auth)) (liveCandidates now auth True d)))"

definition selectForDeposit ::
  "time \<Rightarrow> auth \<Rightarrow> string \<Rightarrow> string \<Rightarrow> money \<Rightarrow> db \<Rightarrow> (sim_wallet \<times> db) outcome" where
  "selectForDeposit now auth customer phone amount d =
     (if snd auth = Test then Inr (ensureTestSim now d)
      else case first_by (deposit_rank (sticky_sim auth customer d))
          (viable_deposit_sims now auth phone amount d) of
        None \<Rightarrow> Inl (ApiError ''no_physical_liquidity'' 503)
      | Some c \<Rightarrow> Inr (cd_sim c, d))"

definition sent_today :: "time \<Rightarrow> sim_wallet \<Rightarrow> money" where
  "sent_today now s = (case sim_financialDay s of
       Some t \<Rightarrow> if addisFinancialDay t = addisFinancialDay now then sim_sentToday s else 0
     | None \<Rightarrow> 0)"

definition withdrawal_capacity :: "time \<Rightarrow> money \<Rightarrow> candidate \<Rightarrow> bool" where
  "withdrawal_capacity now required c =
     (let s = cd_sim c; g = cd_group c in
      required \<le> sim_main s - sim_reserved s - g_safetyBalance g \<and>
      withinWithdrawalCapacity (sent_today now s) (sim_reserved s) required (g_dailyLimit g))"

definition viable_withdrawal_sims :: "time \<Rightarrow> auth \<Rightarrow> money \<Rightarrow> db \<Rightarrow> candidate list" where
  "viable_withdrawal_sims now auth required d =
     filter (withdrawal_capacity now required)
       (filter (\<lambda>c. allowedForMerchant c (fst auth)) (liveCandidates now auth False d))"

definition selectForWithdrawal :: "time \<Rightarrow> auth \<Rightarrow> money \<Rightarrow> db \<Rightarrow> (sim_wallet \<times> db) outcome" where
  "selectForWithdrawal now auth required d =
     (if snd auth = Test then Inr (ensureTestSim now d)
      else case first_by (\<lambda>c. - sim_main (cd_sim c)) (viable_withdrawal_sims now auth required d) of
        None \<Rightarrow> Inl (ApiError ''no_physical_liquidity'' 503)
      | Some c \<Rightarrow> Inr (cd_sim c, d))"

section \<open>Maintenance\<close>

text \<open>An alert the maintenance raises: its type and its metadata.\<close>

type_synonym notice = "string \<times> json_object"

text \<open>A comparison of a nullable column that is also true on null.\<close>

definition null_or :: "('a \<Rightarrow> bool) \<Rightarrow> 'a option \<Rightarrow> bool" where
  "null_or p x = (case x of None \<Rightarrow> True | Some v \<Rightarrow> p v)"

definition is_offline :: "time \<Rightarrow> device \<Rightarrow> bool" where
  "is_offline now v = (dv_status v \<in> {Dev_online, Dev_degraded} \<and>
     opt_holds (\<lambda>t. t < now - 3 * 60000) (dv_lastHeartbeatAt v))"

definition is_stale :: "time \<Rightarrow> platform_policy \<Rightarrow> sim_wallet \<Rightarrow> bool" where
  "is_stale now pol s = (sim_status s = Sim_active \<and>
     null_or (\<lambda>t. t < now - pp_balanceStaleSeconds pol * 1000) (sim_lastBalanceAt s))"

definition evaluateLiquidityRisk :: "db \<Rightarrow> notice list" where
  "evaluateLiquidityRisk d =
     concat (map (\<lambda>c.
       let s = cd_sim c; g = cd_group c; available = sim_main s - sim_reserved s;
           meta = [(''sim_id'', JId (sim_id s)), (''group_id'', JId (g_id g))]
       in (if g_ceiling g \<le> sim_main s then [(''wallet_high_water'', meta)] else []) @
          (if available \<le> g_safetyBalance g then [(''low_liquidity'', meta)] else []) @
          (if g_dailyLimit g * 9 \<le> sim_sentToday s * 10 then [(''daily_limit_risk'', meta)] else []))
       (take 2000 (List.map_filter (candidate_of d False)
         (filter (\<lambda>s. sim_status s \<in> {Sim_active, Sim_payout_stale}) (sims d)))))"

definition dep_status_text :: "deposit_status \<Rightarrow> string" where
  "dep_status_text st = (case st of
       D_awaiting_payment \<Rightarrow> ''awaiting_payment'' | D_late_grace \<Rightarrow> ''late_grace''
     | D_matching \<Rightarrow> ''matching'' | D_manual_review \<Rightarrow> ''manual_review''
     | D_success \<Rightarrow> ''success'' | D_expired \<Rightarrow> ''expired'' | D_failed \<Rightarrow> ''failed'')"

definition transition_guard :: "deposit_status \<Rightarrow> deposit_intent \<Rightarrow> bool" where
  "transition_guard status x =
     (if status = D_late_grace then dp_status x = D_awaiting_payment
      else dp_status x \<in> {D_awaiting_payment, D_late_grace})"

definition transition_deposit :: "time \<Rightarrow> deposit_status \<Rightarrow> deposit_intent \<Rightarrow> db \<Rightarrow> db" where
  "transition_deposit now status x d =
     (if \<not> list_ex (\<lambda>y. dp_id y = dp_id x \<and> transition_guard status y) (deposits d) then d
      else emit now ''deposit'' (dp_id x) (if dp_topup x then ''topup.updated'' else ''deposit.updated'')
        [(''tx_ref'', JStr (dp_txRef x)),
         (''status'', JStr (if status = D_expired then ''failed'' else ''pending'')),
         (''p2p_status'', JStr (dep_status_text status))]
        (d\<lparr>deposits := update_where (\<lambda>y. dp_id y = dp_id x \<and> transition_guard status y)
           (\<lambda>y. y\<lparr>dp_status := status\<rparr>) (deposits d)\<rparr>))"

definition transitionDeposits ::
  "time \<Rightarrow> (deposit_intent \<Rightarrow> bool) \<Rightarrow> deposit_status \<Rightarrow> db \<Rightarrow> db" where
  "transitionDeposits now sel status d =
     fold (transition_deposit now status) (take 500 (filter sel (deposits d))) d"

definition updateHealth :: "time \<Rightarrow> db \<Rightarrow> notice list \<times> db" where
  "updateHealth now d =
     (let pol = loadPlatformPolicy d;
          offline = length (filter (is_offline now) (devices d));
          d1 = d\<lparr>devices := update_where (is_offline now) (\<lambda>v. v\<lparr>dv_status := Dev_offline\<rparr>) (devices d)\<rparr>;
          stale = length (filter (is_stale now pol) (sims d1));
          d2 = d1\<lparr>sims := update_where (is_stale now pol) (\<lambda>s. s\<lparr>sim_status := Sim_payout_stale\<rparr>) (sims d1)\<rparr>;
          notices =
            (if offline > 0 then [(''device_offline'', [(''count'', JInt (int offline))])] else []) @
            (if stale > 0 then [(''stale_balance'', [(''count'', JInt (int stale))])] else []) @
            evaluateLiquidityRisk d2;
          d3 = transitionDeposits now
            (\<lambda>x. dp_status x = D_awaiting_payment \<and> dp_expiresAt x \<le> now \<and> now < dp_graceEndsAt x)
            D_late_grace d2;
          d4 = transitionDeposits now
            (\<lambda>x. dp_status x \<in> {D_awaiting_payment, D_late_grace} \<and> dp_graceEndsAt x \<le> now)
            D_expired d3
      in (notices, d4))"

definition unfinished_job :: "device_job \<Rightarrow> bool" where
  "unfinished_job j =
     (jb_state j \<in> {J_queued, J_leased, J_device_started, J_committed, J_provider_pending})"

definition needs_balance_query :: "db \<Rightarrow> sim_wallet \<Rightarrow> bool" where
  "needs_balance_query d s =
     (sim_status s \<in> {Sim_pending, Sim_payout_stale} \<and>
      opt_holds (\<lambda>v. dv_status v = Dev_online \<and> dv_permissionsOk v \<and> dv_accessibilityOk v) (device_of d s) \<and>
      \<not> list_ex (\<lambda>j. jb_sim j = sim_id s \<and> jb_type j = Balance_query \<and> unfinished_job j) (jobs d))"

definition nulls_last :: "time option \<Rightarrow> rank" where
  "nulls_last t = (case t of None \<Rightarrow> Rank 1 0 | Some v \<Rightarrow> Rank 0 v)"

text \<open>\<open>nextFencingToken: increment\<close>, returning the new token.\<close>

definition allocate_fence :: "id \<Rightarrow> db \<Rightarrow> (int \<times> db) outcome" where
  "allocate_fence sim d = (case find (\<lambda>s. sim_id s = sim) (sims d) of
       None \<Rightarrow> Inl (RuntimeError ''Record to update not found'')
     | Some s \<Rightarrow> Inr (sim_nextFence s + 1,
         d\<lparr>sims := update_where (\<lambda>x. sim_id x = sim)
            (\<lambda>x. x\<lparr>sim_nextFence := sim_nextFence x + 1\<rparr>) (sims d)\<rparr>))"

definition queue_balance_query :: "time \<Rightarrow> nat \<times> sim_wallet \<Rightarrow> db \<Rightarrow> db outcome" where
  "queue_balance_query now = (\<lambda>(index, s) d.
     and_then (allocate_fence (sim_id s) d) (\<lambda>(fence, d1).
       Inr (d1\<lparr>jobs := jobs d1 @ [new_job now Balance_query 100 (sim_device s) (sim_id s)
             (empty_payload\<lparr>pl_iccid := Some (sim_iccid s),
                pl_notBefore := Some (now + int index * 1000)\<rparr>) 1 fence (next_id d1)],
           next_id := Suc (next_id d1)\<rparr>)))"

definition queueStaleBalanceQueries :: "time \<Rightarrow> nat \<Rightarrow> db \<Rightarrow> db outcome" where
  "queueStaleBalanceQueries now rate d =
     (let picked = take rate (sort_key (\<lambda>s. nulls_last (sim_lastBalanceAt s))
            (filter (needs_balance_query d) (sims d)))
      in foldM (queue_balance_query now) (List.enumerate 0 picked) d)"

section \<open>Properties\<close>

text \<open>A fleet of one shared wallet, for the witnesses.\<close>

definition demo_group :: device_group where
  "demo_group = \<lparr>g_id = 11, g_location = 10, g_name = ''Addis'', g_code = ''ADDIS-1'', g_dailyLimit = 15000000, g_ceiling = 7500000,
     g_safetyBalance = 100000, g_safetyHeadroom = 100000, g_merchants = []\<rparr>"

definition demo_device :: device where
  "demo_device = \<lparr>dv_id = 12, dv_group = 11, dv_name = ''Phone 1'', dv_model = None, dv_serial = Some ''A1'', dv_status = Dev_online,
     dv_authTokenHash = None, dv_certFingerprint = None, dv_lastHeartbeatAt = Some 990000,
     dv_permissionsOk = True, dv_accessibilityOk = True, dv_activeJob = None\<rparr>"

definition demo_sim :: sim_wallet where
  "demo_sim = \<lparr>sim_id = 13, sim_device = 12, sim_slot = 0, sim_subscription = Some 1,
     sim_iccid = ''8925100000'', sim_phone = ''+251911000000'', sim_accountName = ''Pool One'',
     sim_status = Sim_active, sim_main = 500000, sim_incentive = 0, sim_fuel = 0, sim_pocket = 0,
     sim_reserved = 0, sim_sentToday = 0, sim_receivedToday = 0, sim_financialDay = None,
     sim_lastBalanceAt = Some 980000, sim_lastBalanceSource = None, sim_lastSmsAt = None,
     sim_nextFence = 4\<rparr>"

definition demo_fleet :: db where
  "demo_fleet = empty_db\<lparr>groups := [demo_group], devices := [demo_device], sims := [demo_sim],
     next_id := 100\<rparr>"

lemma demo_selects:
  "selectForDeposit 1000000 (2, Live) ''c1'' ''+251911234567'' 5000 demo_fleet = Inr (demo_sim, demo_fleet)"
  "selectForWithdrawal 1000000 (2, Live) 15000 demo_fleet = Inr (demo_sim, demo_fleet)"
  by code_simp+


lemma liveCandidatesD:
  assumes "c \<in> set (liveCandidates now auth dep d)"
  shows "live_where now (fst auth) dep (loadPlatformPolicy d) c"
    and "cd_sim c \<in> set (sims d) \<and> candidate_of d dep (cd_sim c) = Some c"
proof -
  from assms have live: "c \<in> set (filter (live_where now (fst auth) dep (loadPlatformPolicy d))
      (List.map_filter (candidate_of d dep) (sims d)))"
    unfolding liveCandidates_def by (rule in_set_takeD)
  then show "live_where now (fst auth) dep (loadPlatformPolicy d) c" by simp
  from live obtain s where "s \<in> set (sims d)" and c: "candidate_of d dep s = Some c"
    by (auto simp: List.map_filter_def)
  moreover from c have "cd_sim c = s" by (auto simp: candidate_of_def split: option.splits)
  ultimately show "cd_sim c \<in> set (sims d) \<and> candidate_of d dep (cd_sim c) = Some c" by simp
qed





end
