(* ===== verification/Withdrawals.thy ===== *)
theory Withdrawals
  imports LedgerLaws Fleet Parsers
begin

text \<open>
  Payouts, \<open>apps/api/src/withdrawals/withdrawals.service.ts\<close>: queueing a transfer (funds
  reserved on the ledger and on the SIM, a device job created), the test simulator, the
  cancellation before a device starts, the staff resolution of an unknown outcome, the retry
  after a staff-approved name, and the views. An update of a row that the same transaction has
  read, or that a foreign key guarantees, is written without its not-found branch. The token
  of the status URL and the URLs are left out of the view.
\<close>

section \<open>Rows and events\<close>

definition find_transfer :: "db \<Rightarrow> id \<Rightarrow> transfer option" where
  "find_transfer d i = find (\<lambda>t. tr_id t = i) (transfers d)"

definition find_sim :: "db \<Rightarrow> id \<Rightarrow> sim_wallet option" where
  "find_sim d i = find (\<lambda>s. sim_id s = i) (sims d)"

definition find_job :: "db \<Rightarrow> id \<Rightarrow> device_job option" where
  "find_job d i = find (\<lambda>j. jb_id j = i) (jobs d)"

definition set_transfer :: "id \<Rightarrow> (transfer \<Rightarrow> transfer) \<Rightarrow> db \<Rightarrow> db" where
  "set_transfer i f d = d\<lparr>transfers := update_where (\<lambda>t. tr_id t = i) f (transfers d)\<rparr>"

definition set_sim :: "id \<Rightarrow> (sim_wallet \<Rightarrow> sim_wallet) \<Rightarrow> db \<Rightarrow> db" where
  "set_sim i f d = d\<lparr>sims := update_where (\<lambda>s. sim_id s = i) f (sims d)\<rparr>"

definition set_job :: "id \<Rightarrow> (device_job \<Rightarrow> device_job) \<Rightarrow> db \<Rightarrow> db" where
  "set_job i f d = d\<lparr>jobs := update_where (\<lambda>j. jb_id j = i) f (jobs d)\<rparr>"

definition set_attempt :: "id \<Rightarrow> (transfer_attempt \<Rightarrow> transfer_attempt) \<Rightarrow> db \<Rightarrow> db" where
  "set_attempt i f d = d\<lparr>attempts := update_where (\<lambda>a. at_id a = i) f (attempts d)\<rparr>"

fun tr_status_text :: "transfer_status \<Rightarrow> string" where
  "tr_status_text T_accepted = ''accepted''"
| "tr_status_text T_queued = ''queued''"
| "tr_status_text T_device_assigned = ''device_assigned''"
| "tr_status_text T_device_started = ''device_started''"
| "tr_status_text T_committed = ''committed''"
| "tr_status_text T_provider_pending = ''provider_pending''"
| "tr_status_text T_success = ''success''"
| "tr_status_text T_failed = ''failed''"
| "tr_status_text T_unknown = ''unknown''"
| "tr_status_text T_manual_review = ''manual_review''"
| "tr_status_text T_cancelled = ''cancelled''"

definition emit_transfer :: "time \<Rightarrow> transfer \<Rightarrow> string \<Rightarrow> transfer_status \<Rightarrow> db \<Rightarrow> db" where
  "emit_transfer now t coarse p2p d = emit now ''transfer'' (tr_id t) ''transfer.updated''
     [(''reference'', JStr (tr_reference t)), (''status'', JStr coarse),
      (''p2p_status'', JStr (tr_status_text p2p))] d"

definition auth_of :: "transfer \<Rightarrow> auth" where
  "auth_of t = (tr_merchant t, tr_env t)"

text \<open>The amounts a transfer holds reserved, on the ledger and on its SIM.\<close>

definition ledger_total :: "transfer \<Rightarrow> money" where
  "ledger_total t = tr_amount t + tr_reserveFee t + tr_gatewayFee t"

definition physical_total :: "transfer \<Rightarrow> money" where
  "physical_total t = tr_amount t + tr_reserveFee t"

text \<open>\<open>attempts: orderBy attemptNumber desc, take 1\<close>, and its job.\<close>

definition newest_attempt :: "db \<Rightarrow> id \<Rightarrow> transfer_attempt option" where
  "newest_attempt d tid =
     first_by (\<lambda>a. - at_number a) (filter (\<lambda>a. at_transfer a = tid) (attempts d))"

definition attempt_job :: "db \<Rightarrow> transfer_attempt option \<Rightarrow> device_job option" where
  "attempt_job d a = (case a of None \<Rightarrow> None
     | Some x \<Rightarrow> (case at_job x of None \<Rightarrow> None | Some j \<Rightarrow> find_job d j))"

definition release_reservation :: "transfer \<Rightarrow> db \<Rightarrow> db outcome" where
  "release_reservation t d =
     (if tr_mode t = Merchant_debit
      then releaseWithdrawalReservation (auth_of t) (tr_id t) (ledger_total t) d
      else releaseInternalMoveFee (auth_of t) (tr_id t) (tr_reserveFee t) d)"

definition settle_transfer :: "time \<Rightarrow> transfer \<Rightarrow> money \<Rightarrow> db \<Rightarrow> db outcome" where
  "settle_transfer now t actualFee d =
     (if tr_mode t = Merchant_debit
      then settleWithdrawal now (auth_of t) (tr_id t)
        \<lparr>sv_amount = tr_amount t, sv_reservedFee = tr_reserveFee t, sv_actualFee = actualFee,
         sv_gatewayFee = tr_gatewayFee t\<rparr> d
      else settleInternalMoveFee now (auth_of t) (tr_id t) (tr_amount t) (tr_reserveFee t) actualFee d)"

definition credit_treasury :: "transfer \<Rightarrow> db \<Rightarrow> db" where
  "credit_treasury t d =
     (if tr_mode t = Internal_move then
        d\<lparr>treasuries := update_where (\<lambda>w. tw_env w = tr_env t \<and> tw_phone w = tr_phone t)
           (\<lambda>w. w\<lparr>tw_predicted := tw_predicted w + tr_amount t\<rparr>) (treasuries d)\<rparr>
      else d)"

text \<open>The unique index on \<open>Transfer.providerTransactionId\<close>.\<close>

definition tx_taken :: "db \<Rightarrow> id \<Rightarrow> string \<Rightarrow> bool" where
  "tx_taken d tid tx = list_ex (\<lambda>t. tr_id t \<noteq> tid \<and> tr_providerTx t = Some tx) (transfers d)"

section \<open>Linked settlements and sweeps\<close>

datatype op_outcome = O_success | O_failed | O_unknown

fun outcome_text :: "op_outcome \<Rightarrow> string" where
  "outcome_text O_success = ''success''"
| "outcome_text O_failed = ''failed''"
| "outcome_text O_unknown = ''unknown''"

fun outcome_coarse :: "op_outcome \<Rightarrow> string" where
  "outcome_coarse O_success = ''success''"
| "outcome_coarse O_failed = ''failed''"
| "outcome_coarse O_unknown = ''pending''"

fun outcome_settlement :: "op_outcome \<Rightarrow> settlement_status" where
  "outcome_settlement O_success = S_success"
| "outcome_settlement O_failed = S_failed"
| "outcome_settlement O_unknown = S_unknown"

fun outcome_sweep :: "op_outcome \<Rightarrow> sweep_status" where
  "outcome_sweep O_success = X_success"
| "outcome_sweep O_failed = X_failed"
| "outcome_sweep O_unknown = X_unknown"

definition settlement_of :: "db \<Rightarrow> id \<Rightarrow> settlement_request option" where
  "settlement_of d tid = find (\<lambda>s. st_transfer s = Some tid) (settlements d)"

definition sweep_of :: "db \<Rightarrow> id \<Rightarrow> sweep_execution option" where
  "sweep_of d tid = find (\<lambda>x. sx_transfer x = tid) (sweepExecutions d)"

definition set_settlement :: "id \<Rightarrow> (settlement_request \<Rightarrow> settlement_request) \<Rightarrow> db \<Rightarrow> db" where
  "set_settlement i f d = d\<lparr>settlements := update_where (\<lambda>s. st_id s = i) f (settlements d)\<rparr>"

definition set_sweep :: "id \<Rightarrow> (sweep_execution \<Rightarrow> sweep_execution) \<Rightarrow> db \<Rightarrow> db" where
  "set_sweep i f d = d\<lparr>sweepExecutions := update_where (\<lambda>x. sx_id x = i) f (sweepExecutions d)\<rparr>"

definition update_linked_settlement :: "time \<Rightarrow> id \<Rightarrow> op_outcome \<Rightarrow> db \<Rightarrow> db" where
  "update_linked_settlement now tid st d = (case settlement_of d tid of
       None \<Rightarrow> d
     | Some s \<Rightarrow> emit now ''settlement'' (st_id s) ''settlement.updated''
         [(''reference'', JStr (st_reference s)), (''status'', JStr (outcome_coarse st)),
          (''p2p_status'', JStr (outcome_text st))]
         (set_settlement (st_id s) (\<lambda>r. r\<lparr>st_status := outcome_settlement st\<rparr>) d))"

definition update_linked_sweep :: "time \<Rightarrow> id \<Rightarrow> string \<Rightarrow> op_outcome \<Rightarrow> db \<Rightarrow> db" where
  "update_linked_sweep now tid reference st d = (case sweep_of d tid of
       None \<Rightarrow> d
     | Some x \<Rightarrow> emit now ''sweep_execution'' (sx_id x) ''sweep.updated''
         [(''reference'', JStr reference), (''execution_id'', JId (sx_id x)),
          (''status'', JStr (outcome_coarse st)), (''p2p_status'', JStr (outcome_text st))]
         (set_sweep (sx_id x) (\<lambda>r. r\<lparr>sx_status := outcome_sweep st,
            sx_completedAt := (if st = O_unknown then sx_completedAt r else Some now)\<rparr>) d))"

definition updateLinkedOperation :: "time \<Rightarrow> id \<Rightarrow> op_outcome \<Rightarrow> db \<Rightarrow> db outcome" where
  "updateLinkedOperation now tid st d = (case find_transfer d tid of
       None \<Rightarrow> Inl (RuntimeError ''No Transfer found'')
     | Some t \<Rightarrow> Inr (update_linked_sweep now tid (tr_reference t) st
         (update_linked_settlement now tid st d)))"

section \<open>The test simulator\<close>

datatype test_scenario = Sc_success | Sc_explicit_failure | Sc_delay | Sc_unknown

definition test_unknown :: "time \<Rightarrow> transfer \<Rightarrow> db \<Rightarrow> db outcome" where
  "test_unknown now t d =
     (let d1 = set_transfer (tr_id t) (\<lambda>x. x\<lparr>tr_status := T_unknown\<rparr>) d;
          d2 = open_case now (Some (tr_merchant t)) ''unknown_payout'' R_open ''transfer'' (tr_id t)
            [(''simulator'', JBool True)] d1
      in map_outcome (emit_transfer now t ''pending'' T_unknown)
           (updateLinkedOperation now (tr_id t) O_unknown d2))"

definition test_failed :: "time \<Rightarrow> transfer \<Rightarrow> db \<Rightarrow> db outcome" where
  "test_failed now t d =
     and_then (release_reservation t d) (\<lambda>d1.
       let d2 = set_sim (the (tr_sim t)) (\<lambda>s. s\<lparr>sim_reserved := sim_reserved s - physical_total t\<rparr>) d1;
           d3 = set_transfer (tr_id t) (\<lambda>x. x\<lparr>tr_status := T_failed, tr_completedAt := Some now\<rparr>) d2
       in map_outcome (emit_transfer now t ''failed'' T_failed)
            (updateLinkedOperation now (tr_id t) O_failed d3))"

text \<open>\<open>sim_tx\<close> stands for the random transaction number of the simulator.\<close>

definition test_success :: "time \<Rightarrow> string \<Rightarrow> transfer \<Rightarrow> db \<Rightarrow> db outcome" where
  "test_success now sim_tx t d =
     (let sent = (case find_sim d (the (tr_sim t)) of None \<Rightarrow> 0 | Some s \<Rightarrow> sent_today now s) in
      and_then (settle_transfer now t 100 d) (\<lambda>d1.
       let d2 = set_sim (the (tr_sim t)) (\<lambda>s. s\<lparr>sim_reserved := sim_reserved s - physical_total t,
              sim_main := sim_main s - (tr_amount t + 100),
              sim_sentToday := sent + (tr_amount t + 100),
              sim_financialDay := Some (addisFinancialDay now)\<rparr>) d1;
           d3 = credit_treasury t d2;
           d4 = set_transfer (tr_id t) (\<lambda>x. x\<lparr>tr_status := T_success, tr_providerFee := Some 87,
              tr_providerVat := Some 13, tr_providerTx := Some sim_tx, tr_completedAt := Some now\<rparr>) d3
       in updateLinkedOperation now (tr_id t) O_success (emit_transfer now t ''success'' T_success d4)))"

definition finalizeTest :: "time \<Rightarrow> string \<Rightarrow> transfer \<Rightarrow> op_outcome \<Rightarrow> db \<Rightarrow> db outcome" where
  "finalizeTest now sim_tx t st d = (case st of
       O_unknown \<Rightarrow> test_unknown now t d
     | O_failed \<Rightarrow> test_failed now t d
     | O_success \<Rightarrow> test_success now sim_tx t d)"

definition applyTestScenario :: "time \<Rightarrow> string \<Rightarrow> transfer \<Rightarrow> test_scenario \<Rightarrow> db \<Rightarrow> db outcome" where
  "applyTestScenario now sim_tx t sc d = (case sc of
       Sc_delay \<Rightarrow> Inr (set_transfer (tr_id t) (\<lambda>x. x\<lparr>tr_status := T_queued\<rparr>) d)
     | Sc_explicit_failure \<Rightarrow> finalizeTest now sim_tx t O_failed d
     | Sc_success \<Rightarrow> finalizeTest now sim_tx t O_success d
     | Sc_unknown \<Rightarrow> finalizeTest now sim_tx t O_unknown d)"

section \<open>Queueing a transfer\<close>

record transfer_input =
  ti_reference :: string
  ti_customerId :: string
  ti_phone :: string
  ti_expectedName :: string
  ti_amount :: string
  ti_alternate :: bool \<comment> \<open>\<open>destination_type = 'alternate'\<close>\<close>
  ti_scenario :: "test_scenario option"

record queue_options =
  qo_kind :: job_type
  qo_mode :: financial_mode
  qo_priority :: int
  qo_sim :: "sim_wallet option"

definition new_transfer ::
  "time \<Rightarrow> auth \<Rightarrow> transfer_input \<Rightarrow> queue_options \<Rightarrow> money \<Rightarrow> money \<Rightarrow> money \<Rightarrow> id \<Rightarrow> id \<Rightarrow> transfer" where
  "new_transfer now auth input opts amount reserveFee gatewayFee sim tid =
     \<lparr>tr_id = tid, tr_merchant = fst auth, tr_env = snd auth, tr_sim = Some sim,
      tr_reference = ti_reference input, tr_customerId = ti_customerId input,
      tr_phone = ti_phone input, tr_expectedName = ti_expectedName input, tr_resolvedName = None,
      tr_amount = amount, tr_reserveFee = reserveFee, tr_providerFee = None, tr_providerVat = None,
      tr_gatewayFee = gatewayFee, tr_mode = qo_mode opts, tr_kind = qo_kind opts,
      tr_status = T_accepted, tr_providerTx = None, tr_committedAt = None,
      tr_estimatedAt = Some (now + 60000), tr_completedAt = None, tr_createdAt = now\<rparr>"

definition reference_taken :: "db \<Rightarrow> auth \<Rightarrow> string \<Rightarrow> bool" where
  "reference_taken d auth reference = list_ex (\<lambda>t. tr_merchant t = fst auth \<and> tr_env t = snd auth \<and>
     tr_reference t = reference) (transfers d)"

definition transfer_payload :: "transfer \<Rightarrow> string \<Rightarrow> job_payload" where
  "transfer_payload t iccid = empty_payload\<lparr>pl_transfer := Some (tr_id t),
     pl_reference := Some (tr_reference t), pl_phone := Some (tr_phone t),
     pl_expectedName := Some (tr_expectedName t), pl_amount := Some (minorToAmount (tr_amount t)),
     pl_iccid := Some iccid\<rparr>"

definition new_attempt :: "id \<Rightarrow> id \<Rightarrow> int \<Rightarrow> int \<Rightarrow> id \<Rightarrow> transfer_attempt" where
  "new_attempt aid tid number fence jid = \<lparr>at_id = aid, at_transfer = tid, at_number = number,
     at_fence = fence, at_job = Some jid, at_startedAt = None, at_committedAt = None,
     at_completedAt = None, at_outcome = None, at_errorCode = None\<rparr>"

text \<open>The first device job of a live transfer, and its attempt.\<close>

definition dispatch_transfer :: "time \<Rightarrow> transfer \<Rightarrow> sim_wallet \<Rightarrow> int \<Rightarrow> db \<Rightarrow> db outcome" where
  "dispatch_transfer now t sim priority d =
     and_then (allocate_fence (sim_id sim) d) (\<lambda>(fence, d1).
       let jid = next_id d1;
           d2 = d1\<lparr>jobs := jobs d1 @ [new_job now (tr_kind t) priority (sim_device sim) (sim_id sim)
                  (transfer_payload t (sim_iccid sim)) 1 fence jid], next_id := Suc jid\<rparr>;
           d3 = d2\<lparr>attempts := attempts d2 @ [new_attempt (next_id d2) (tr_id t) 1 fence jid],
                  next_id := Suc (next_id d2)\<rparr>
       in Inr (set_transfer (tr_id t) (\<lambda>x. x\<lparr>tr_status := T_queued\<rparr>) d3))"

definition reserve_transfer :: "transfer \<Rightarrow> db \<Rightarrow> db outcome" where
  "reserve_transfer t d =
     (if tr_mode t = Merchant_debit
      then reserveWithdrawal (auth_of t) (tr_id t) (ledger_total t) d
      else reserveInternalMoveFee (auth_of t) (tr_id t) (tr_reserveFee t) d)"

definition queueTransfer ::
  "time \<Rightarrow> string \<Rightarrow> auth \<Rightarrow> transfer_input \<Rightarrow> queue_options \<Rightarrow> db \<Rightarrow> (id \<times> db) outcome" where
  "queueTransfer now sim_tx auth input opts d =
     (let (config, d1) = upsert_config (fst auth) d in
      and_then (amountToMinor (ti_amount input)) (\<lambda>amount.
      let gatewayFee = (if qo_mode opts = Internal_move then 0 else cfg_gatewayFee config);
          physical = amount + cfg_reserveFee config
      in and_then (case qo_sim opts of Some s \<Rightarrow> Inr (s, d1)
                   | None \<Rightarrow> selectForWithdrawal now auth physical d1) (\<lambda>(sim, d2).
      if reference_taken d2 auth (ti_reference input) then
        Inl (RuntimeError ''Unique constraint failed'')
      else
        let tid = next_id d2;
            t = new_transfer now auth input opts amount (cfg_reserveFee config) gatewayFee (sim_id sim) tid;
            d3 = d2\<lparr>transfers := transfers d2 @ [t], next_id := Suc tid\<rparr>
        in and_then (reserve_transfer t d3) (\<lambda>d4.
           let d5 = set_sim (sim_id sim) (\<lambda>s. s\<lparr>sim_reserved := sim_reserved s + physical\<rparr>) d4
           in map_outcome (\<lambda>d6. (tid, d6))
             (if snd auth = Test
              then applyTestScenario now sim_tx t (or_else (ti_scenario input) Sc_success) d5
              else dispatch_transfer now t sim (qo_priority opts) d5)))))"

text \<open>\<open>create\<close>: the body that the idempotency wrapper runs.\<close>

definition create_transfer ::
  "time \<Rightarrow> string \<Rightarrow> auth \<Rightarrow> transfer_input \<Rightarrow> db \<Rightarrow> (id \<times> db) outcome" where
  "create_transfer now sim_tx auth input d =
     (let (config, d1) = upsert_config (fst auth) d in
      if ti_alternate input \<and> \<not> cfg_allowAlternate config then
        Inl (ApiError ''alternate_destination_disabled'' 403)
      else queueTransfer now sim_tx auth input
        \<lparr>qo_kind = Customer_withdrawal, qo_mode = Merchant_debit, qo_priority = 500, qo_sim = None\<rparr> d1)"

section \<open>Views\<close>

record transfer_view =
  tv_reference :: string
  tv_amount :: string
  tv_providerFee :: "string option"
  tv_providerVat :: "string option"
  tv_gatewayFee :: string
  tv_status :: coarse_status
  tv_p2pStatus :: transfer_status
  tv_accountMasked :: string
  tv_expectedName :: string
  tv_providerTx :: "string option"
  tv_createdAt :: time
  tv_etaSeconds :: int
  tv_estimatedAt :: "time option"

fun coarseTransferStatus :: "transfer_status \<Rightarrow> coarse_status" where
  "coarseTransferStatus T_success = Success"
| "coarseTransferStatus T_failed = Failed"
| "coarseTransferStatus T_cancelled = Failed"
| "coarseTransferStatus st = Pending"

text \<open>\<open>Math.ceil(ms / 1000)\<close>.\<close>

definition ceil_seconds :: "int \<Rightarrow> int" where
  "ceil_seconds ms = - ((- ms) div 1000)"

definition view_transfer :: "time \<Rightarrow> transfer \<Rightarrow> transfer_view" where
  "view_transfer now t =
     \<lparr>tv_reference = tr_reference t, tv_amount = minorToAmount (tr_amount t),
      tv_providerFee = map_option minorToAmount (tr_providerFee t),
      tv_providerVat = map_option minorToAmount (tr_providerVat t),
      tv_gatewayFee = minorToAmount (tr_gatewayFee t), tv_status = coarseTransferStatus (tr_status t),
      tv_p2pStatus = tr_status t,
      tv_accountMasked = take 7 (tr_phone t) @ ''****'' @ last_n 2 (tr_phone t),
      tv_expectedName = tr_expectedName t, tv_providerTx = tr_providerTx t,
      tv_createdAt = tr_createdAt t,
      tv_etaSeconds = (case tr_estimatedAt t of None \<Rightarrow> 0 | Some e \<Rightarrow> max 0 (ceil_seconds (e - now))),
      tv_estimatedAt = tr_estimatedAt t\<rparr>"

definition find_reference :: "db \<Rightarrow> id \<Rightarrow> environment \<Rightarrow> string \<Rightarrow> transfer option" where
  "find_reference d m env reference =
     find (\<lambda>t. tr_merchant t = m \<and> tr_env t = env \<and> tr_reference t = reference) (transfers d)"

definition verify_transfer :: "time \<Rightarrow> auth \<Rightarrow> string \<Rightarrow> db \<Rightarrow> transfer_view outcome" where
  "verify_transfer now auth reference d = (case find_reference d (fst auth) (snd auth) reference of
       None \<Rightarrow> Inl (ApiError ''not_found'' 404)
     | Some t \<Rightarrow> Inr (view_transfer now t))"

text \<open>The status page: \<open>claimed\<close> is the transfer id of the verified token.\<close>

definition hostedStatus :: "time \<Rightarrow> id \<Rightarrow> string \<Rightarrow> db \<Rightarrow> transfer_view outcome" where
  "hostedStatus now claimed reference d = (case find_transfer d claimed of
       None \<Rightarrow> Inl (ApiError ''not_found'' 404)
     | Some t \<Rightarrow> if tr_reference t \<noteq> reference then Inl (ApiError ''not_found'' 404)
         else Inr (view_transfer now t))"

fun outcome_transfer :: "op_outcome \<Rightarrow> transfer_status" where
  "outcome_transfer O_success = T_success"
| "outcome_transfer O_failed = T_failed"
| "outcome_transfer O_unknown = T_unknown"

definition completeTest ::
  "time \<Rightarrow> string \<Rightarrow> auth \<Rightarrow> string \<Rightarrow> op_outcome \<Rightarrow> db \<Rightarrow> (transfer_view \<times> db) outcome" where
  "completeTest now sim_tx auth reference st d =
     (if snd auth \<noteq> Test then Inl (ApiError ''forbidden'' 403)
      else case find_reference d (fst auth) Test reference of
        None \<Rightarrow> Inl (ApiError ''not_found'' 404)
      | Some t \<Rightarrow>
          if tr_status t \<notin> {T_accepted, T_queued} then
            if tr_status t = outcome_transfer st then Inr (view_transfer now t, d)
            else Inl (ApiError ''duplicate_reference_conflict'' 409)
          else and_then (finalizeTest now sim_tx t st d) (\<lambda>d'.
            case find_transfer d' (tr_id t) of
              None \<Rightarrow> Inl (RuntimeError ''Record to update not found'')
            | Some t' \<Rightarrow> Inr (view_transfer now t', d')))"

record balances_view =
  bv_available :: string
  bv_reserved :: string
  bv_pending :: string
  bv_physical :: string

definition balance_candidate :: "time \<Rightarrow> auth \<Rightarrow> platform_policy \<Rightarrow> candidate \<Rightarrow> bool" where
  "balance_candidate now auth pol c =
     (let s = cd_sim c; dv = cd_device c; g = cd_group c; live = (snd auth = Live) in
      sim_status s = Sim_active \<and>
      opt_holds (\<lambda>t. now - pp_balanceStaleSeconds pol * 1000 \<le> t) (sim_lastBalanceAt s) \<and>
      dv_status dv = Dev_online \<and> opt_holds (\<lambda>t. now - 90000 \<le> t) (dv_lastHeartbeatAt dv) \<and>
      dv_permissionsOk dv \<and> dv_accessibilityOk dv \<and>
      (if live then opt_holds (\<lambda>h. h \<noteq> ''VIRTUAL-TEST-DEVICE'') (dv_serial dv)
       else dv_serial dv = Some ''VIRTUAL-TEST-DEVICE'') \<and>
      (if live then g_code g \<noteq> ''TEST-SIMULATOR'' else g_code g = ''TEST-SIMULATOR'') \<and>
      (list_ex (\<lambda>p. gp_merchant p = fst auth) (g_merchants g) \<or> g_merchants g = []))"

definition balances :: "time \<Rightarrow> auth \<Rightarrow> db \<Rightarrow> balances_view" where
  "balances now auth d =
     (let pending = filter (\<lambda>t. auth_of t = auth \<and>
            tr_status t \<in> {T_committed, T_provider_pending, T_unknown, T_manual_review}) (transfers d);
          physical = map cd_sim (filter (balance_candidate now auth (loadPlatformPolicy d))
            (List.map_filter (candidate_of d False) (sims d)));
          aggregate = sum_list (map sim_main physical) - sum_list (map sim_reserved physical)
      in \<lparr>bv_available = minorToAmount (balance_of d (key_of auth Available)),
          bv_reserved = minorToAmount (balance_of d (key_of auth Reserved)),
          bv_pending = minorToAmount (sum_list (map tr_amount pending) +
            sum_list (map tr_reserveFee pending) + sum_list (map tr_gatewayFee pending)),
          bv_physical = minorToAmount (if aggregate > 0 then aggregate else 0)\<rparr>)"

section \<open>Staff operations\<close>

definition cancel_attempt :: "time \<Rightarrow> transfer_attempt option \<Rightarrow> db \<Rightarrow> db" where
  "cancel_attempt now a d = (case a of None \<Rightarrow> d | Some x \<Rightarrow> (case at_job x of None \<Rightarrow> d
     | Some j \<Rightarrow> set_attempt (at_id x) (\<lambda>y. y\<lparr>at_completedAt := Some now, at_outcome := Some ''cancelled'',
           at_errorCode := Some ''PLATFORM_CANCELLED_PRECOMMIT''\<rparr>)
         (set_job j (\<lambda>y. y\<lparr>jb_state := J_cancelled, jb_completedAt := Some now,
           jb_errorCode := Some ''PLATFORM_CANCELLED_PRECOMMIT''\<rparr>) d)))"

definition release_sim :: "transfer \<Rightarrow> db \<Rightarrow> db" where
  "release_sim t d = (case tr_sim t of None \<Rightarrow> d
     | Some s \<Rightarrow> set_sim s (\<lambda>x. x\<lparr>sim_reserved := sim_reserved x - physical_total t\<rparr>) d)"

definition cancelBeforeStart :: "time \<Rightarrow> id \<Rightarrow> string \<Rightarrow> string \<Rightarrow> db \<Rightarrow> db outcome" where
  "cancelBeforeStart now tid reason actor d = (case find_transfer d tid of
       None \<Rightarrow> Inl (ApiError ''not_found'' 404)
     | Some t \<Rightarrow>
         if tr_status t \<notin> {T_accepted, T_queued, T_device_assigned} then
           Inl (ApiError ''invalid_state'' 409)
         else
           let a = newest_attempt d tid in
           if opt_holds (\<lambda>j. jb_state j \<noteq> J_queued) (attempt_job d a) then
             Inl (ApiError ''invalid_state'' 409)
           else and_then (release_reservation t d) (\<lambda>d1.
             let d2 = cancel_attempt now a (release_sim t d1);
                 d3 = set_transfer tid (\<lambda>x. x\<lparr>tr_status := T_cancelled, tr_completedAt := Some now\<rparr>) d2;
                 d4 = log_audit (Some (tr_merchant t)) ''platform_staff'' actor
                   ''transfer.cancel_precommit'' ''transfer'' tid (Some reason) d3
             in updateLinkedOperation now tid O_failed (emit_transfer now t ''failed'' T_cancelled d4)))"

record resolve_input =
  ri_success :: bool
  ri_providerTx :: "string option"
  ri_resolvedName :: "string option"
  ri_serviceFee :: money
  ri_vat :: money
  ri_currentMain :: "money option"
  ri_failureEvidence :: "string option"
  ri_reason :: string

text \<open>An absent or empty string, which the source's tests treat alike.\<close>

definition truthy :: "string option \<Rightarrow> bool" where
  "truthy s = (s \<noteq> None \<and> s \<noteq> Some [])"

definition outgoingReceiptAlreadyAppliedToWallet ::
  "transfer \<Rightarrow> sms_receipt option \<Rightarrow> string \<Rightarrow> bool" where
  "outgoingReceiptAlreadyAppliedToWallet t receipt tx = (case receipt of None \<Rightarrow> False
     | Some r \<Rightarrow> rc_providerTx r = Some tx \<and> Some (rc_sim r) = tr_sim t \<and>
         rc_direction r = ''outgoing'' \<and> rc_type r = ''outgoing_transfer'' \<and>
         rc_amount r = Some (tr_amount t) \<and> truthy (rc_prefix r) \<and> truthy (rc_suffix r) \<and>
         matchesMaskedEthiopianPhone (tr_phone t) (the (rc_prefix r)) (the (rc_suffix r)))"

definition manualSuccessBalanceSource :: "bool \<Rightarrow> string" where
  "manualSuccessBalanceSource explicit =
     (if explicit then ''manual_evidence'' else ''manual_evidence_predicted'')"

definition opt_str :: "string option \<Rightarrow> json" where
  "opt_str s = (case s of None \<Rightarrow> JNull | Some v \<Rightarrow> JStr v)"

definition finishManualResolution ::
  "time \<Rightarrow> transfer \<Rightarrow> string \<Rightarrow> string \<Rightarrow> string \<Rightarrow> string option \<Rightarrow> string option \<Rightarrow> db \<Rightarrow> db" where
  "finishManualResolution now t actor reason result providerTx evidence d =
     log_audit (Some (tr_merchant t)) ''platform_staff'' actor ''transfer.manual_resolution''
       ''transfer'' (tr_id t) (Some reason)
       (d\<lparr>cases := update_where (\<lambda>c. rn_refType c = ''transfer'' \<and> rn_refId c = tr_id t \<and>
             rn_status c \<in> {R_open, R_proposed})
           (\<lambda>c. c\<lparr>rn_status := R_resolved, rn_resolution :=
             [(''outcome'', JStr result), (''reason'', JStr reason),
              (''provider_transaction_id'', opt_str providerTx),
              (''failure_evidence_reference'', opt_str evidence),
              (''resolved_by'', JStr actor), (''resolved_at'', JDate now)]\<rparr>) (cases d)\<rparr>)"

definition close_attempt ::
  "time \<Rightarrow> transfer_attempt option \<Rightarrow> job_state \<Rightarrow> string \<Rightarrow> string option \<Rightarrow> db \<Rightarrow> db" where
  "close_attempt now a jstate result code d = (case a of None \<Rightarrow> d
     | Some x \<Rightarrow> set_attempt (at_id x) (\<lambda>y. y\<lparr>at_outcome := Some result, at_completedAt := Some now,
           at_errorCode := (if code = None then at_errorCode y else code)\<rparr>)
         (case at_job x of None \<Rightarrow> d
          | Some j \<Rightarrow> set_job j (\<lambda>y. y\<lparr>jb_state := jstate, jb_completedAt := Some now,
              jb_errorCode := (if code = None then jb_errorCode y else code)\<rparr>) d))"

definition resolved_wallet ::
  "time \<Rightarrow> transfer \<Rightarrow> bool \<Rightarrow> money option \<Rightarrow> money \<Rightarrow> sim_wallet \<Rightarrow> sim_wallet" where
  "resolved_wallet now t applied currentMain sentDelta s =
     (let s1 = s\<lparr>sim_reserved := sim_reserved s - physical_total t\<rparr> in
      if applied then (case currentMain of None \<Rightarrow> s1
        | Some b \<Rightarrow> s1\<lparr>sim_main := b, sim_lastBalanceAt := Some now,
            sim_lastBalanceSource := Some (manualSuccessBalanceSource True)\<rparr>)
      else s1\<lparr>sim_main := or_else currentMain (sim_main s - sentDelta),
             sim_sentToday := sent_today now s + sentDelta,
             sim_financialDay := Some (addisFinancialDay now), sim_lastBalanceAt := Some now,
             sim_lastBalanceSource := Some (manualSuccessBalanceSource (currentMain \<noteq> None))\<rparr>)"

definition resolve_success :: "time \<Rightarrow> transfer \<Rightarrow> id \<Rightarrow> resolve_input \<Rightarrow> string \<Rightarrow> db \<Rightarrow> db outcome" where
  "resolve_success now t sim input actor d =
     (if \<not> truthy (ri_providerTx input) then Inl (ApiError ''validation_error'' 422)
      else
        let tx = the (ri_providerTx input);
            receipt = find (\<lambda>r. rc_providerTx r = Some tx) (receipts d);
            applied = outgoingReceiptAlreadyAppliedToWallet t receipt tx
        in if receipt \<noteq> None \<and> \<not> applied then Inl (ApiError ''validation_error'' 422)
           else
             let actualFee = ri_serviceFee input + ri_vat input in
             and_then (settle_transfer now t actualFee d) (\<lambda>d1.
             if tx_taken d1 (tr_id t) tx then Inl (RuntimeError ''Unique constraint failed'')
             else
               let d2 = set_sim sim (resolved_wallet now t applied (ri_currentMain input)
                          (tr_amount t + actualFee)) d1;
                   d3 = credit_treasury t d2;
                   d4 = set_transfer (tr_id t) (\<lambda>x. x\<lparr>tr_status := T_success, tr_providerTx := Some tx,
                          tr_resolvedName := (if ri_resolvedName input = None then tr_resolvedName x
                            else ri_resolvedName input),
                          tr_providerFee := Some (ri_serviceFee input),
                          tr_providerVat := Some (ri_vat input), tr_completedAt := Some now\<rparr>) d3;
                   d5 = close_attempt now (newest_attempt d (tr_id t)) J_succeeded ''success'' None d4;
                   d6 = finishManualResolution now t actor (ri_reason input) ''success'' (Some tx) None d5
               in map_outcome (emit_transfer now t ''success'' T_success)
                    (updateLinkedOperation now (tr_id t) O_success d6)))"

definition resolve_failed :: "time \<Rightarrow> transfer \<Rightarrow> id \<Rightarrow> resolve_input \<Rightarrow> string \<Rightarrow> db \<Rightarrow> db outcome" where
  "resolve_failed now t sim input actor d =
     and_then (release_reservation t d) (\<lambda>d1.
       let d2 = set_sim sim (\<lambda>x. x\<lparr>sim_reserved := sim_reserved x - physical_total t\<rparr>) d1;
           d3 = set_transfer (tr_id t) (\<lambda>x. x\<lparr>tr_status := T_failed, tr_completedAt := Some now\<rparr>) d2;
           d4 = close_attempt now (newest_attempt d (tr_id t)) J_failed ''failed''
                  (Some ''MANUALLY_PROVEN_FAILED'') d3;
           d5 = finishManualResolution now t actor (ri_reason input) ''failed'' None
                  (ri_failureEvidence input) d4
       in map_outcome (emit_transfer now t ''failed'' T_failed)
            (updateLinkedOperation now (tr_id t) O_failed d5))"

definition resolveUnknown :: "time \<Rightarrow> id \<Rightarrow> resolve_input \<Rightarrow> string \<Rightarrow> db \<Rightarrow> db outcome" where
  "resolveUnknown now tid input actor d = (case find_transfer d tid of
       None \<Rightarrow> Inl (ApiError ''not_found'' 404)
     | Some t \<Rightarrow>
         if tr_status t \<notin> {T_unknown, T_manual_review} then Inl (ApiError ''invalid_state'' 409)
         else if \<not> ri_success input \<and> tr_committedAt t \<noteq> None \<and> \<not> truthy (ri_failureEvidence input)
         then Inl (ApiError ''validation_error'' 422)
         else case tr_sim t of
           None \<Rightarrow> Inl (ApiError ''invalid_state'' 409)
         | Some sim \<Rightarrow>
             if find_sim d sim = None then Inl (ApiError ''invalid_state'' 409)
             else if ri_success input then resolve_success now t sim input actor d
             else resolve_failed now t sim input actor d)"

fun priorityForOperation :: "job_type \<Rightarrow> int" where
  "priorityForOperation Customer_withdrawal = 500"
| "priorityForOperation Unknown_reconciliation = 400"
| "priorityForOperation Merchant_settlement = 300"
| "priorityForOperation Emergency_liquidity_move = 300"
| "priorityForOperation Automatic_sweep = 200"
| "priorityForOperation Balance_query = 100"

definition open_name_case :: "db \<Rightarrow> id \<Rightarrow> recon_case option" where
  "open_name_case d tid = first_by (\<lambda>c. - rn_createdAt c)
     (filter (\<lambda>c. rn_refType c = ''transfer'' \<and> rn_refId c = tid \<and>
        rn_type c = ''receiver_name_review'' \<and> rn_status c \<in> {R_open, R_proposed}) (cases d))"

text \<open>The evidence that makes a retry possible: an uncertain decision and the observed name.\<close>

definition evidence_uncertain :: "json_object \<Rightarrow> bool" where
  "evidence_uncertain e = (case json_field ''deterministic'' e of
       Some (JObj fs) \<Rightarrow> json_field ''decision'' fs = Some (JStr ''uncertain'') | _ \<Rightarrow> False)"

definition evidence_observed :: "json_object \<Rightarrow> string" where
  "evidence_observed e = (case json_field ''observed_name'' e of
       Some (JStr s) \<Rightarrow> trim s | _ \<Rightarrow> [])"

definition retry_with_name ::
  "time \<Rightarrow> transfer \<Rightarrow> sim_wallet \<Rightarrow> int \<Rightarrow> string \<Rightarrow> string \<Rightarrow> string \<Rightarrow> db \<Rightarrow> db outcome" where
  "retry_with_name now t sim number name reason actor d =
     and_then (allocate_fence (sim_id sim) d) (\<lambda>(fence, d1).
       let jid = next_id d1;
           d2 = d1\<lparr>jobs := jobs d1 @ [new_job now (tr_kind t) (priorityForOperation (tr_kind t))
                  (sim_device sim) (sim_id sim)
                  ((transfer_payload t (sim_iccid sim))\<lparr>pl_approvedName := Some name\<rparr>) number fence jid],
                  next_id := Suc jid\<rparr>;
           d3 = d2\<lparr>attempts := attempts d2 @ [new_attempt (next_id d2) (tr_id t) number fence jid],
                  next_id := Suc (next_id d2)\<rparr>;
           d4 = set_transfer (tr_id t) (\<lambda>x. x\<lparr>tr_status := T_queued, tr_resolvedName := Some name,
                  tr_estimatedAt := Some (now + 60000)\<rparr>) d3;
           d5 = d4\<lparr>cases := update_where (\<lambda>c. rn_refType c = ''transfer'' \<and> rn_refId c = tr_id t \<and>
                    rn_type c = ''receiver_name_review'' \<and> rn_status c \<in> {R_open, R_proposed})
                  (\<lambda>c. c\<lparr>rn_status := R_resolved, rn_resolution :=
                    [(''outcome'', JStr ''staff_approved_precommit_retry''), (''reason'', JStr reason),
                     (''resolved_by'', JStr actor), (''resolved_at'', JDate now)]\<rparr>) (cases d4)\<rparr>;
           d6 = d5\<lparr>settlements := update_where (\<lambda>s. st_transfer s = Some (tr_id t))
                    (\<lambda>s. s\<lparr>st_status := S_dispatched\<rparr>) (settlements d5),
                  sweepExecutions := update_where (\<lambda>x. sx_transfer x = tr_id t)
                    (\<lambda>x. x\<lparr>sx_status := X_queued, sx_completedAt := None\<rparr>) (sweepExecutions d5)\<rparr>;
           d7 = log_audit (Some (tr_merchant t)) ''platform_staff'' actor ''transfer.name_approved_retry''
                  ''transfer'' (tr_id t) (Some reason) d6
       in Inr (emit_transfer now t ''pending'' T_queued d7))"

definition approveNameAndRetry :: "time \<Rightarrow> id \<Rightarrow> string \<Rightarrow> string \<Rightarrow> db \<Rightarrow> db outcome" where
  "approveNameAndRetry now tid reason actor d = (case find_transfer d tid of
       None \<Rightarrow> Inl (ApiError ''not_found'' 404)
     | Some t \<Rightarrow>
         (case (if tr_status t \<noteq> T_manual_review \<or> tr_committedAt t \<noteq> None then None
                else case tr_sim t of None \<Rightarrow> None | Some i \<Rightarrow> find_sim d i) of
            None \<Rightarrow> Inl (ApiError ''invalid_state'' 409)
          | Some sim \<Rightarrow>
              let a = newest_attempt d tid in
              if opt_holds (\<lambda>j. jb_state j \<notin> {J_cancelled, J_failed}) (attempt_job d a) then
                Inl (ApiError ''invalid_state'' 409)
              else
                let evidence = (case open_name_case d tid of None \<Rightarrow> [] | Some c \<Rightarrow> rn_evidence c);
                    name = evidence_observed evidence
                in if \<not> evidence_uncertain evidence then Inl (ApiError ''invalid_state'' 409)
                   else if name = [] then Inl (ApiError ''invalid_state'' 409)
                   else retry_with_name now t sim
                     ((case a of None \<Rightarrow> 0 | Some x \<Rightarrow> at_number x) + 1) name reason actor d))"

end
