(* ===== verification/DeviceJobs.thy ===== *)
theory DeviceJobs
  imports Withdrawals Names
begin

text \<open>
  The device job protocol, \<open>apps/api/src/devices/device-jobs.service.ts\<close>: enrolment and
  heartbeat of a phone, the lease of one job at a time under a fencing token, the reports of
  the phone (over the durable spool for jobs that move money), and the sweeper that expires
  jobs. The rule behind all of it is that a payout that may have been committed is never
  released: it is held as unknown for reconciliation. The hashes of an activation code, of a
  token and of a status event are arguments; the signature over an envelope is left out.
\<close>

section \<open>Decisions\<close>

fun allowedTransitions :: "job_state \<Rightarrow> job_state list" where
  "allowedTransitions J_leased = [J_device_started, J_failed, J_cancelled]"
| "allowedTransitions J_device_started = [J_committed, J_failed, J_cancelled]"
| "allowedTransitions J_committed = [J_provider_pending, J_succeeded, J_failed, J_unknown]"
| "allowedTransitions J_provider_pending = [J_succeeded, J_failed, J_unknown]"
| "allowedTransitions _ = []"

definition financiallySafeReportState ::
  "job_state \<Rightarrow> time option \<Rightarrow> job_state \<Rightarrow> bool \<Rightarrow> job_state" where
  "financiallySafeReportState reported committedAt prior moneyMoving =
     (if reported = J_succeeded then J_provider_pending
      else if moneyMoving \<and> (reported = J_failed \<or> reported = J_cancelled) \<and>
          (committedAt \<noteq> None \<or> prior \<noteq> J_leased) then J_unknown
      else reported)"

text \<open>The instant used for a report, and whether the phone's clock was implausible.\<close>

definition boundedJobObservedAt :: "int \<Rightarrow> time \<Rightarrow> time \<Rightarrow> time \<times> bool" where
  "boundedJobObservedAt reportedAt serverReceivedAt createdAt =
     (let clockInvalid = reportedAt < createdAt - 60000 \<or> serverReceivedAt + 60000 < reportedAt
      in (if clockInvalid then serverReceivedAt else reportedAt, clockInvalid))"

datatype expiry = Release_precommit | Hold_unknown

definition jobExpiryDisposition :: "job_state \<Rightarrow> time option \<Rightarrow> expiry" where
  "jobExpiryDisposition st committedAt =
     (if committedAt \<noteq> None \<or> st = J_leased \<or> st = J_device_started \<or> st = J_committed \<or>
         st = J_provider_pending then Hold_unknown else Release_precommit)"

definition operatorControlledDeviceStatus :: "bool \<Rightarrow> bool \<Rightarrow> device_status" where
  "operatorControlledDeviceStatus quarantine operatorOnline =
     (if quarantine then Dev_quarantined else if operatorOnline then Dev_online else Dev_offline)"

definition simRetainsQualification :: "sim_status \<Rightarrow> bool" where
  "simRetainsQualification st = (st = Sim_active \<or> st = Sim_payout_stale)"

definition shouldReleaseDeviceLockAfterReport :: "job_state \<Rightarrow> bool" where
  "shouldReleaseDeviceLockAfterReport st = (st = J_failed \<or> st = J_unknown \<or> st = J_cancelled)"

datatype name_disposition =
    No_disposition
  | Name_uncertain name_match string string \<comment> \<open>comparison, expected name, provider name\<close>
  | Name_mismatch name_match string string

definition classifyPrecommitNameDisposition ::
  "job_state \<Rightarrow> time option \<Rightarrow> job_state \<Rightarrow> string \<Rightarrow> string option \<Rightarrow> string option \<Rightarrow> string option \<Rightarrow>
   name_disposition" where
  "classifyPrecommitNameDisposition prior committedAt reported errorCode stored reportedName provider =
     (if prior \<noteq> J_device_started \<or> committedAt \<noteq> None \<or> \<not> truthy stored then No_disposition
      else
        let expectedName = or_else reportedName [];
            providerName = (case provider of None \<Rightarrow> [] | Some p \<Rightarrow> trim p)
        in if Some expectedName \<noteq> stored \<or> providerName = [] then No_disposition
           else
             let deterministic = comparePersonNames (the stored) providerName in
             if reported = J_cancelled \<and> errorCode = ''RequestNameReview'' \<and>
                 nm_decision deterministic = Uncertain
             then Name_uncertain deterministic expectedName providerName
             else if reported = J_failed \<and> errorCode = ''ReceiverMismatch'' \<and>
                 nm_decision deterministic = Mismatch
             then Name_mismatch deterministic expectedName providerName
             else No_disposition)"

datatype inbox_disposition = Process | Duplicate | Conflict

definition jobStatusInboxDisposition :: "string option \<Rightarrow> string \<Rightarrow> inbox_disposition" where
  "jobStatusInboxDisposition existing incoming = (case existing of
       None \<Rightarrow> Process | Some h \<Rightarrow> if h = incoming then Duplicate else Conflict)"

definition money_moving :: "job_type \<Rightarrow> bool" where
  "money_moving ty = (ty \<noteq> Balance_query \<and> ty \<noteq> Unknown_reconciliation)"

section \<open>Screen labels\<close>

text \<open>
  \<open>ussdDiagnosticLabel\<close> of \<open>common/evidence-crypto.ts\<close>: whole words, so the character
  before the match and the one after it must not be word characters.
\<close>

definition is_word_char :: "char \<Rightarrow> bool" where
  "is_word_char c = (is_lower c \<or> is_upper c \<or> is_digit c \<or> c = CHR ''_'')"

definition word_at :: "item list list \<Rightarrow> char option \<Rightarrow> string \<Rightarrow> bool" where
  "word_at alts prev s =
     ((case prev of None \<Rightarrow> True | Some c \<Rightarrow> \<not> is_word_char c) \<and>
      list_ex (\<lambda>pat. case exec_anchored (group_of_items 1 pat) s of None \<Rightarrow> False
        | Some g \<Rightarrow> (case drop (length (g 1)) s of [] \<Rightarrow> True | c # _ \<Rightarrow> \<not> is_word_char c)) alts)"

fun has_word :: "item list list \<Rightarrow> char option \<Rightarrow> string \<Rightarrow> bool" where
  "has_word alts prev [] = word_at alts prev []"
| "has_word alts prev (c # cs) = (word_at alts prev (c # cs) \<or> has_word alts (Some c) cs)"

definition ussdDiagnosticLabel :: "string option \<Rightarrow> string option" where
  "ussdDiagnosticLabel value = (case value of None \<Rightarrow> None | Some v \<Rightarrow>
     if trim v = [] then None
     else if has_word [[Alt [lit ''ENTER'', lit ''INPUT'', lit ''PROVIDE''], sp,
         Opt (lit ''YOUR'' @ [sp])] @ lit ''PIN''] None v then Some ''pin_screen_redacted''
     else if has_word [lit ''PROCESS'', lit ''WAIT'', lit ''REQUEST''] None v
       then Some ''provider_processing_screen''
     else if has_word [lit ''SUCCESSFUL'', lit ''COMPLETED''] None v then Some ''provider_success_screen''
     else if has_word [lit ''FAILED'', lit ''DECLINED'', lit ''INSUFFICIENT'', lit ''INVALID PIN''] None v
       then Some ''provider_failure_screen''
     else Some ''ussd_screen_evidence_encrypted'')"

section \<open>Helpers on the tables\<close>

definition find_device :: "db \<Rightarrow> id \<Rightarrow> device option" where
  "find_device d i = find (\<lambda>v. dv_id v = i) (devices d)"

definition set_device :: "id \<Rightarrow> (device \<Rightarrow> device) \<Rightarrow> db \<Rightarrow> db" where
  "set_device i f d = d\<lparr>devices := update_where (\<lambda>v. dv_id v = i) f (devices d)\<rparr>"

definition attempt_of_job :: "db \<Rightarrow> id \<Rightarrow> transfer_attempt option" where
  "attempt_of_job d j = find (\<lambda>a. at_job a = Some j) (attempts d)"

text \<open>\<open>include: transferAttempt: include: transfer\<close>.\<close>

definition job_link :: "db \<Rightarrow> id \<Rightarrow> (transfer_attempt \<times> transfer) option" where
  "job_link d j = (case attempt_of_job d j of None \<Rightarrow> None
     | Some a \<Rightarrow> (case find_transfer d (at_transfer a) of None \<Rightarrow> None | Some t \<Rightarrow> Some (a, t)))"

definition clear_active :: "id \<Rightarrow> db \<Rightarrow> db" where
  "clear_active j d = d\<lparr>devices := update_where (\<lambda>v. dv_activeJob v = Some j)
     (\<lambda>v. v\<lparr>dv_activeJob := None\<rparr>) (devices d)\<rparr>"

definition terminal_transfer :: "transfer_status \<Rightarrow> bool" where
  "terminal_transfer st = (st \<in> {T_success, T_failed, T_unknown, T_manual_review, T_cancelled})"

definition job_state_of_terminal :: "transfer_status \<Rightarrow> job_state" where
  "job_state_of_terminal st = (if st = T_success then J_succeeded
     else if st = T_failed \<or> st = T_cancelled then J_failed else J_unknown)"

section \<open>Expiry\<close>

definition updateExpiredLinkedOperation :: "time \<Rightarrow> transfer \<Rightarrow> op_outcome \<Rightarrow> db \<Rightarrow> db" where
  "updateExpiredLinkedOperation observedAt t st d =
     (let d1 = update_linked_settlement observedAt (tr_id t) st d in
      case sweep_of d1 (tr_id t) of
        None \<Rightarrow> d1
      | Some x \<Rightarrow> emit observedAt ''sweep_execution'' (sx_id x) ''sweep.updated''
          [(''reference'', JStr (tr_reference t)), (''rule_id'', JId (sx_rule x)),
           (''transfer_reference'', JStr (tr_reference t)), (''status'', JStr (outcome_coarse st)),
           (''p2p_status'', JStr (outcome_text st))]
          (set_sweep (sx_id x) (\<lambda>r. r\<lparr>sx_status := outcome_sweep st,
             sx_completedAt := (if st = O_failed then Some observedAt else sx_completedAt r)\<rparr>) d1))"

text \<open>A job that may have been committed: everything stays reserved, the outcome is unknown.\<close>

definition hold_unknown ::
  "time \<Rightarrow> string \<Rightarrow> string \<Rightarrow> device_job \<Rightarrow> transfer_attempt \<Rightarrow> transfer \<Rightarrow> db \<Rightarrow> db" where
  "hold_unknown now code reason j a t d =
     (let possible = or_else (jb_committedAt j) (or_else (jb_startedAt j) (jb_createdAt j));
          d1 = set_job (jb_id j) (\<lambda>x. x\<lparr>jb_state := J_unknown, jb_committedAt := Some possible,
                 jb_completedAt := Some now, jb_errorCode := Some code\<rparr>) d;
          d2 = set_transfer (tr_id t) (\<lambda>x. x\<lparr>tr_status := T_unknown,
                 tr_committedAt := Some (or_else (tr_committedAt t) possible)\<rparr>) d1;
          d3 = set_attempt (at_id a) (\<lambda>x. x\<lparr>at_committedAt := Some (or_else (at_committedAt a) possible),
                 at_completedAt := Some now, at_outcome := Some ''unknown'', at_errorCode := Some code\<rparr>) d2;
          d4 = open_case now (Some (tr_merchant t)) ''unknown_payout'' R_open ''transfer'' (tr_id t)
                 [(''job_id'', JId (jb_id j)), (''reason'', JStr reason),
                  (''possible_commit_at'', JDate possible)] d3
      in emit_transfer now t ''pending'' T_unknown (updateExpiredLinkedOperation now t O_unknown d4))"

definition release_expired ::
  "time \<Rightarrow> device_job \<Rightarrow> transfer_attempt \<Rightarrow> transfer \<Rightarrow> db \<Rightarrow> db outcome" where
  "release_expired now j a t d =
     and_then (release_reservation t d) (\<lambda>d1.
       let d2 = set_sim (jb_sim j) (\<lambda>s. s\<lparr>sim_reserved := sim_reserved s - physical_total t\<rparr>) d1;
           d3 = set_job (jb_id j) (\<lambda>x. x\<lparr>jb_state := J_failed, jb_completedAt := Some now,
                  jb_errorCode := Some ''JOB_EXPIRED_PRECOMMIT''\<rparr>) d2;
           d4 = set_transfer (tr_id t) (\<lambda>x. x\<lparr>tr_status := T_failed, tr_completedAt := Some now\<rparr>) d3;
           d5 = set_attempt (at_id a) (\<lambda>x. x\<lparr>at_completedAt := Some now, at_outcome := Some ''failed'',
                  at_errorCode := Some ''JOB_EXPIRED_PRECOMMIT''\<rparr>) d4
       in Inr (emit_transfer now t ''failed'' T_failed (updateExpiredLinkedOperation now t O_failed d5)))"

text \<open>One job of the sweep, with its attempt and transfer as the sweep read them.\<close>

definition expire_job ::
  "time \<Rightarrow> device_job \<times> (transfer_attempt \<times> transfer) option \<Rightarrow> string list \<times> db \<Rightarrow>
   (string list \<times> db) outcome" where
  "expire_job now = (\<lambda>(j, link) (refs, d). case link of
       None \<Rightarrow> Inr (refs, clear_active (jb_id j) (set_job (jb_id j) (\<lambda>x. x\<lparr>jb_state := J_failed,
         jb_completedAt := Some now, jb_errorCode := Some ''JOB_EXPIRED_PRECOMMIT''\<rparr>) d))
     | Some (a, t) \<Rightarrow>
         if terminal_transfer (tr_status t) then
           Inr (refs, clear_active (jb_id j) (set_job (jb_id j) (\<lambda>x. x\<lparr>
             jb_state := job_state_of_terminal (tr_status t), jb_completedAt := Some now,
             jb_errorCode := Some ''JOB_EXPIRED_AFTER_TRANSFER_TERMINAL''\<rparr>) d))
         else if jobExpiryDisposition (jb_state j) (jb_committedAt j) = Hold_unknown then
           Inr (refs @ [tr_reference t], clear_active (jb_id j)
             (hold_unknown now ''JOB_EXPIRED_AFTER_START_POSSIBLE_COMMIT''
                ''job_expired_after_start_possible_commit'' j a t d))
         else map_outcome (\<lambda>d'. (refs, clear_active (jb_id j) d')) (release_expired now j a t d))"

definition job_expired :: "time \<Rightarrow> device_job \<Rightarrow> bool" where
  "job_expired now j = (unfinished_job j \<and>
     (jb_expiresAt j \<le> now \<or> opt_holds (\<lambda>t. t \<le> now) (jb_leaseExpiresAt j)))"

text \<open>
  \<open>acquired\<close> is the result of the advisory lock that keeps two sweepers apart. The references
  of the payouts that became unknown are returned for the alerts.
\<close>

definition expireFinancialJobs :: "bool \<Rightarrow> time \<Rightarrow> db \<Rightarrow> (string list \<times> db) outcome" where
  "expireFinancialJobs acquired now d =
     (if \<not> acquired then Inr ([], d)
      else foldM (expire_job now)
        (map (\<lambda>j. (j, job_link d (jb_id j)))
          (take 250 (sort_key jb_expiresAt (filter (job_expired now) (jobs d)))))
        ([], d))"

section \<open>Leases\<close>

record envelope_data =
  ev_job :: id
  ev_device :: "id option"
  ev_operation :: id
  ev_type :: job_type
  ev_iccid :: string
  ev_profileVersion :: nat
  ev_attempt :: int
  ev_fence :: int
  ev_issuedAt :: time
  ev_leaseExpiresAt :: time
  ev_expiresAt :: time
  ev_phone :: "string option"
  ev_amount :: "string option"
  ev_expectedName :: "string option"
  ev_approvedName :: "string option"

definition operation_of :: "device_job \<Rightarrow> id" where
  "operation_of j = or_else (pl_transfer (jb_payload j)) (jb_id j)"

definition keep_truthy :: "string option \<Rightarrow> string option" where
  "keep_truthy s = (if truthy s then s else None)"

text \<open>\<open>Number.parseInt(text, 10)\<close> on a text that starts with digits.\<close>

definition parse_version :: "string \<Rightarrow> nat option" where
  "parse_version s = (let ds = takeWhile is_digit (dropWhile is_space s) in
     if ds = [] then None else Some (nat_of_digits ds))"

definition short_name :: "string option \<Rightarrow> bool" where
  "short_name n = (case n of None \<Rightarrow> True | Some v \<Rightarrow> 1 \<le> length v \<and> length v \<le> 200)"

text \<open>The checks of \<open>deviceJobPayloadSchema\<close> that depend on the job.\<close>

definition payload_valid :: "envelope_data \<Rightarrow> bool" where
  "payload_valid e =
     (10 \<le> length (ev_iccid e) \<and> length (ev_iccid e) \<le> 24 \<and> list_all is_digit (ev_iccid e) \<and>
      0 < ev_attempt e \<and> 0 < ev_fence e \<and> ev_fence e \<le> 9007199254740991 \<and> 0 < ev_issuedAt e \<and>
      0 < ev_expiresAt e \<and> ev_issuedAt e < ev_leaseExpiresAt e \<and>
      ev_leaseExpiresAt e - ev_issuedAt e \<le> 600000 \<and>
      (case ev_amount e of None \<Rightarrow> True | Some a \<Rightarrow> etbAmountSchema a) \<and>
      short_name (ev_expectedName e) \<and> short_name (ev_approvedName e) \<and>
      (ev_type e = Balance_query \<or>
       (ev_phone e \<noteq> None \<and> ev_amount e \<noteq> None \<and> ev_expectedName e \<noteq> None)))"

definition envelope :: "time \<Rightarrow> device_job \<Rightarrow> envelope_data outcome" where
  "envelope now j = (case parse_version (jb_profile j) of
       None \<Rightarrow> Inl (ApiError ''invalid_state'' 409)
     | Some v \<Rightarrow>
         if v = 0 \<or> 9007199254740991 < v then Inl (ApiError ''invalid_state'' 409)
         else
           let p = jb_payload j;
               e = \<lparr>ev_job = jb_id j, ev_device = jb_device j, ev_operation = operation_of j,
                 ev_type = jb_type j, ev_iccid = or_else (pl_iccid p) [], ev_profileVersion = v,
                 ev_attempt = jb_attempt j, ev_fence = jb_fence j, ev_issuedAt = now,
                 ev_leaseExpiresAt = or_else (jb_leaseExpiresAt j) (now + 45000),
                 ev_expiresAt = jb_expiresAt j, ev_phone = keep_truthy (pl_phone p),
                 ev_amount = keep_truthy (pl_amount p),
                 ev_expectedName = keep_truthy (pl_expectedName p),
                 ev_approvedName = keep_truthy (pl_approvedName p)\<rparr>
           in if payload_valid e then Inr e else Inl (RuntimeError ''ZodError''))"

definition markExpiredCommittedUnknown :: "time \<Rightarrow> device_job \<Rightarrow> db \<Rightarrow> string option \<times> db" where
  "markExpiredCommittedUnknown now j d = (case job_link d (jb_id j) of
       None \<Rightarrow> (None, set_job (jb_id j) (\<lambda>x. x\<lparr>jb_state := J_unknown, jb_completedAt := Some now,
         jb_errorCode := Some ''LEASE_EXPIRED_AFTER_COMMIT''\<rparr>) d)
     | Some (a, t) \<Rightarrow>
         if terminal_transfer (tr_status t) then
           (None, set_job (jb_id j) (\<lambda>x. x\<lparr>jb_state := job_state_of_terminal (tr_status t),
              jb_completedAt := Some now, jb_errorCode := Some ''LEASE_EXPIRED_AFTER_TRANSFER_TERMINAL''\<rparr>) d)
         else (Some (tr_reference t),
           hold_unknown now ''LEASE_EXPIRED_AFTER_START_POSSIBLE_COMMIT''
             ''lease_expired_after_start_possible_commit'' j a t d))"

definition requeue_job :: "device_job \<Rightarrow> db \<Rightarrow> db outcome" where
  "requeue_job j d = and_then (allocate_fence (jb_sim j) d) (\<lambda>(fence, d1).
     let d2 = set_job (jb_id j) (\<lambda>x. x\<lparr>jb_state := J_queued, jb_device := None, jb_leaseOwner := None,
            jb_leaseExpiresAt := None, jb_attempt := jb_attempt x + 1, jb_fence := fence\<rparr>) d1
     in Inr (d2\<lparr>attempts := update_where (\<lambda>a. at_job a = Some (jb_id j))
          (\<lambda>a. a\<lparr>at_fence := fence\<rparr>) (attempts d2)\<rparr>))"

definition possibly_committed :: "device_job \<Rightarrow> bool" where
  "possibly_committed j = (jb_committedAt j \<noteq> None \<or> jb_state j = J_provider_pending \<or>
     ((jb_state j = J_leased \<or> jb_state j = J_device_started) \<and> money_moving (jb_type j)))"

text \<open>The lock of the previous job is dropped once its lease has run out.\<close>

definition drop_stale_lease :: "time \<Rightarrow> id \<Rightarrow> device_job option \<Rightarrow> db \<Rightarrow> (string option \<times> db) outcome" where
  "drop_stale_lease now dev active d =
     map_outcome (\<lambda>(ref, d'). (ref, set_device dev (\<lambda>v. v\<lparr>dv_activeJob := None\<rparr>) d'))
       (case active of
          None \<Rightarrow> Inr (None, d)
        | Some j \<Rightarrow> if possibly_committed j then Inr (markExpiredCommittedUnknown now j d)
            else map_outcome (\<lambda>d'. (None, d')) (requeue_job j d))"

definition sim_on_device :: "db \<Rightarrow> id \<Rightarrow> device_job \<Rightarrow> bool" where
  "sim_on_device d dev j = opt_holds (\<lambda>s. sim_device s = dev) (find_sim d (jb_sim j))"

definition upgrade_job :: "device_job \<Rightarrow> db \<Rightarrow> db outcome" where
  "upgrade_job j d = and_then (allocate_fence (jb_sim j) d) (\<lambda>(fence, d1).
     let legacy = (\<lambda>x. jb_id x = jb_id j \<and> jb_state x = J_queued \<and>
           jb_profile x \<noteq> CURRENT_DEVICE_PROFILE_VERSION_TEXT)
     in if length (filter legacy (jobs d1)) = 1 then
          let d2 = d1\<lparr>jobs := update_where legacy (\<lambda>x. x\<lparr>
                 jb_profile := CURRENT_DEVICE_PROFILE_VERSION_TEXT, jb_fence := fence\<rparr>) (jobs d1),
                 attempts := update_where (\<lambda>a. at_job a = Some (jb_id j))
                   (\<lambda>a. a\<lparr>at_fence := fence\<rparr>) (attempts d1)\<rparr>
          in Inr (log_audit None ''system'' ''device-profile-upgrader''
               ''device_job.profile_upgraded_precommit'' ''device_job'' (jb_id j)
               (Some ''Queued job upgraded to signed profile 2 before delivery'') d2)
        else Inr d1)"

definition upgrade_legacy :: "time \<Rightarrow> id \<Rightarrow> db \<Rightarrow> db outcome" where
  "upgrade_legacy now dev d = foldM upgrade_job
     (take 100 (sort_key jb_createdAt (filter (\<lambda>j. jb_state j = J_queued \<and>
        jb_profile j \<noteq> CURRENT_DEVICE_PROFILE_VERSION_TEXT \<and> now < jb_expiresAt j \<and>
        sim_on_device d dev j) (jobs d)))) d"

text \<open>Highest priority first, then the oldest: the least rank.\<close>

definition lease_rank :: "device_job \<Rightarrow> rank" where
  "lease_rank j = Rank (- jb_priority j) (jb_createdAt j)"

definition leasable :: "time \<Rightarrow> platform_policy \<Rightarrow> id \<Rightarrow> db \<Rightarrow> device_job \<Rightarrow> bool" where
  "leasable now pol dev d j =
     (jb_state j = J_queued \<and> jb_profile j = CURRENT_DEVICE_PROFILE_VERSION_TEXT \<and>
      now < jb_expiresAt j \<and> (jb_device j = None \<or> jb_device j = Some dev) \<and>
      opt_holds (\<lambda>s. sim_device s = dev \<and>
        (if money_moving (jb_type j) then sim_status s = Sim_active \<and>
           opt_holds (\<lambda>t. now - pp_balanceStaleSeconds pol * 1000 \<le> t) (sim_lastBalanceAt s)
         else sim_status s \<in> {Sim_pending, Sim_active, Sim_payout_stale})) (find_sim d (jb_sim j)))"

definition leased_job :: "time \<Rightarrow> id \<Rightarrow> device_job \<Rightarrow> device_job" where
  "leased_job now dev j = j\<lparr>jb_state := J_leased, jb_device := Some dev, jb_leaseOwner := Some dev,
     jb_leaseExpiresAt := Some (now + 45000)\<rparr>"

definition lease_queued :: "time \<Rightarrow> id \<Rightarrow> db \<Rightarrow> (envelope_data option \<times> db) outcome" where
  "lease_queued now dev d =
     (case first_by lease_rank (filter (leasable now (loadPlatformPolicy d) dev d) (jobs d)) of
        None \<Rightarrow> Inr (None, d)
      | Some j \<Rightarrow> map_outcome (\<lambda>e. (Some e,
            set_device dev (\<lambda>v. v\<lparr>dv_activeJob := Some (jb_id j)\<rparr>)
              (set_job (jb_id j) (leased_job now dev) d)))
          (envelope now (leased_job now dev j)))"

text \<open>The result: the envelope to deliver, the reference of a payout that became unknown.\<close>

definition leaseNext ::
  "time \<Rightarrow> id \<Rightarrow> db \<Rightarrow> (envelope_data option \<times> string option \<times> db) outcome" where
  "leaseNext now dev d = (case find_device d dev of
       None \<Rightarrow> Inl (RuntimeError ''No Device found'')
     | Some v \<Rightarrow>
         if dv_status v \<noteq> Dev_online \<or> \<not> dv_permissionsOk v \<or> \<not> dv_accessibilityOk v
         then Inr (None, None, d)
         else
           let active = (case dv_activeJob v of None \<Rightarrow> None | Some j \<Rightarrow> find_job d j) in
           if opt_holds (\<lambda>j. opt_holds (\<lambda>t. now < t) (jb_leaseExpiresAt j)) active
           then map_outcome (\<lambda>e. (Some e, None, d)) (envelope now (the active))
           else
             and_then (if dv_activeJob v = None then Inr (None, d)
                       else drop_stale_lease now dev active d) (\<lambda>(ref, d1).
             and_then (upgrade_legacy now dev d1) (\<lambda>d2.
               map_outcome (\<lambda>(e, d3). (e, ref, d3)) (lease_queued now dev d2))))"

definition lease_live :: "job_state \<Rightarrow> bool" where
  "lease_live st = (st \<in> {J_leased, J_device_started, J_committed, J_provider_pending})"

definition renewable :: "id \<Rightarrow> id \<Rightarrow> int \<Rightarrow> device_job \<Rightarrow> bool" where
  "renewable dev j fence x =
     (jb_id x = j \<and> jb_device x = Some dev \<and> jb_fence x = fence \<and> lease_live (jb_state x))"

definition renew :: "time \<Rightarrow> id \<Rightarrow> id \<Rightarrow> int \<Rightarrow> db \<Rightarrow> (time \<times> db) outcome" where
  "renew now dev j fence d =
     (if length (filter (renewable dev j fence) (jobs d)) \<noteq> 1 then Inl (ApiError ''invalid_state'' 409)
      else Inr (now + 45000, d\<lparr>jobs := update_where (renewable dev j fence)
             (\<lambda>x. x\<lparr>jb_leaseExpiresAt := Some (now + 45000)\<rparr>) (jobs d)\<rparr>))"

definition renewActiveForConnection ::
  "time \<Rightarrow> id \<Rightarrow> id option \<Rightarrow> int option \<Rightarrow> db \<Rightarrow> ((id \<times> int \<times> time) option \<times> db) outcome" where
  "renewActiveForConnection now dev expectedJob expectedFence d =
     (case find_device d dev of None \<Rightarrow> Inr (None, d)
      | Some v \<Rightarrow> (case dv_activeJob v of None \<Rightarrow> Inr (None, d)
        | Some ji \<Rightarrow> (case find_job d ji of None \<Rightarrow> Inr (None, d)
          | Some j \<Rightarrow>
              if \<not> lease_live (jb_state j) then Inr (None, d)
              else if expectedJob \<noteq> None \<and> expectedJob \<noteq> Some (jb_id j) then
                Inl (ApiError ''invalid_state'' 409)
              else if expectedFence \<noteq> None \<and> expectedFence \<noteq> Some (jb_fence j) then
                Inl (ApiError ''invalid_state'' 409)
              else Inr (Some (jb_id j, jb_fence j, now + 45000),
                set_job (jb_id j) (\<lambda>x. x\<lparr>jb_leaseExpiresAt := Some (now + 45000)\<rparr>) d))))"

section \<open>Reports\<close>

record job_report =
  rp_fence :: int
  rp_state :: job_state
  rp_observedAt :: int
  rp_screen :: "string option"
  rp_errorCode :: "string option"

text \<open>The spool event around a report: its id, its hash, and the fields of its body.\<close>

record spool_context =
  sc_eventId :: string
  sc_hash :: string
  sc_operation :: id
  sc_errorCode :: string
  sc_expectedName :: "string option"
  sc_providerName :: "string option"

definition find_inbox :: "db \<Rightarrow> string \<Rightarrow> string \<Rightarrow> inbox_event option" where
  "find_inbox d source ext =
     find (\<lambda>i. ib_source i = source \<and> ib_externalId i = ext) (inbox d)"

definition add_inbox :: "string \<Rightarrow> string \<Rightarrow> string \<Rightarrow> db \<Rightarrow> db" where
  "add_inbox source ext hash d =
     d\<lparr>inbox := inbox d @ [\<lparr>ib_source = source, ib_externalId = ext, ib_hash = hash\<rparr>]\<rparr>"

definition decision_text :: "name_decision \<Rightarrow> string" where
  "decision_text dec = (case dec of Match \<Rightarrow> ''match'' | Uncertain \<Rightarrow> ''uncertain''
     | Mismatch \<Rightarrow> ''mismatch'')"

text \<open>The score is left out of the evidence: no operation reads it.\<close>

definition name_evidence :: "name_match \<Rightarrow> string \<Rightarrow> string \<Rightarrow> id \<Rightarrow> string \<Rightarrow> json_object" where
  "name_evidence m expectedName observed jid eventId =
     [(''expected_name'', JStr expectedName), (''observed_name'', JStr observed),
      (''deterministic'', JObj [(''decision'', JStr (decision_text (nm_decision m))),
         (''normalized_expected'', JStr (nm_expected m)),
         (''normalized_observed'', JStr (nm_observed m)), (''reason'', JStr (nm_reason m))]),
      (''job_id'', JId jid), (''spool_event_id'', JStr eventId)]"

definition has_case :: "db \<Rightarrow> string \<Rightarrow> id \<Rightarrow> bool \<Rightarrow> bool" where
  "has_case d ctype tid openOnly = list_ex (\<lambda>c. rn_type c = ctype \<and> rn_refType c = ''transfer'' \<and>
     rn_refId c = tid \<and> (openOnly \<longrightarrow> rn_status c \<in> {R_open, R_proposed})) (cases d)"

definition open_name_review ::
  "time \<Rightarrow> device_job \<Rightarrow> transfer \<Rightarrow> string \<Rightarrow> name_disposition \<Rightarrow> db \<Rightarrow> db" where
  "open_name_review now j t eventId nd d = (case nd of
       No_disposition \<Rightarrow> d
     | Name_uncertain m expectedName observed \<Rightarrow>
         if has_case d ''receiver_name_review'' (tr_id t) True then d
         else open_case now (Some (tr_merchant t)) ''receiver_name_review'' R_open ''transfer'' (tr_id t)
           (name_evidence m expectedName observed (jb_id j) eventId) d
     | Name_mismatch m expectedName observed \<Rightarrow>
         if has_case d ''receiver_name_mismatch'' (tr_id t) False then d
         else (let d' = open_case now (Some (tr_merchant t)) ''receiver_name_mismatch'' R_resolved
                 ''transfer'' (tr_id t) (name_evidence m expectedName observed (jb_id j) eventId) d
               in d'\<lparr>cases := update_where (\<lambda>c. rn_id c = next_id d)
                    (\<lambda>c. c\<lparr>rn_resolution := [(''outcome'', JStr ''deterministic_precommit_mismatch''),
                       (''resolved_at'', JDate now)]\<rparr>) (cases d')\<rparr>))"

definition persistSpoolStatusOutcome ::
  "time \<Rightarrow> device_job \<Rightarrow> (transfer_attempt \<times> transfer) option \<Rightarrow> spool_context option \<Rightarrow>
   name_disposition \<Rightarrow> db \<Rightarrow> db" where
  "persistSpoolStatusOutcome now j link ctx nd d = (case ctx of
       None \<Rightarrow> d
     | Some c \<Rightarrow> add_inbox ''device_job_status'' (sc_eventId c) (sc_hash c)
         (case link of None \<Rightarrow> d | Some (a, t) \<Rightarrow> open_name_review now j t (sc_eventId c) nd d))"

definition transfer_status_of_report :: "job_state \<Rightarrow> transfer_status \<Rightarrow> transfer_status" where
  "transfer_status_of_report st current = (case st of
       J_device_started \<Rightarrow> T_device_started | J_committed \<Rightarrow> T_committed
     | J_provider_pending \<Rightarrow> T_provider_pending | J_unknown \<Rightarrow> T_unknown
     | J_cancelled \<Rightarrow> T_manual_review | J_failed \<Rightarrow> T_failed | _ \<Rightarrow> current)"

definition sweep_status_of_report :: "job_state \<Rightarrow> sweep_status" where
  "sweep_status_of_report st = (case st of
       J_device_started \<Rightarrow> X_device_started | J_committed \<Rightarrow> X_committed
     | J_provider_pending \<Rightarrow> X_provider_pending | J_failed \<Rightarrow> X_failed | J_unknown \<Rightarrow> X_unknown
     | _ \<Rightarrow> X_manual_review)"

definition settlement_status_of_report :: "job_state \<Rightarrow> settlement_status" where
  "settlement_status_of_report st = (case st of
       J_cancelled \<Rightarrow> S_manual_review | J_failed \<Rightarrow> S_failed | _ \<Rightarrow> S_unknown)"

definition reported_state :: "job_state \<Rightarrow> bool" where
  "reported_state st =
     (st \<in> {J_device_started, J_committed, J_provider_pending, J_failed, J_unknown, J_cancelled})"

definition report_linked :: "time \<Rightarrow> transfer \<Rightarrow> job_state \<Rightarrow> db \<Rightarrow> db" where
  "report_linked observedAt t st d =
     (if \<not> reported_state st then d
      else
        let d1 = d\<lparr>sweepExecutions := update_where (\<lambda>x. sx_transfer x = tr_id t)
              (\<lambda>x. x\<lparr>sx_status := sweep_status_of_report st,
                 sx_completedAt := (if st = J_failed then Some observedAt else sx_completedAt x)\<rparr>)
              (sweepExecutions d)\<rparr>
        in if st \<in> {J_failed, J_unknown, J_cancelled} then
             d1\<lparr>settlements := update_where (\<lambda>s. st_transfer s = Some (tr_id t))
               (\<lambda>s. s\<lparr>st_status := settlement_status_of_report st\<rparr>) (settlements d1)\<rparr>
           else d1)"

definition report_rows ::
  "time \<Rightarrow> device_job \<Rightarrow> transfer_attempt \<Rightarrow> transfer \<Rightarrow> job_report \<Rightarrow> job_state \<Rightarrow> time \<Rightarrow>
   time option \<Rightarrow> db \<Rightarrow> db" where
  "report_rows now j a t r st observedAt possible d =
     (let status = transfer_status_of_report st (tr_status t);
          touched = (st = J_committed \<or> st = J_unknown) \<and> possible \<noteq> None;
          d1 = set_transfer (tr_id t) (\<lambda>x. x\<lparr>tr_status := status,
                 tr_committedAt := (if touched then or_else_opt (tr_committedAt t) possible
                   else tr_committedAt t),
                 tr_completedAt := (if st = J_failed then Some observedAt else tr_completedAt x)\<rparr>) d;
          d2 = (if reported_state st then
                  emit_transfer now t (if status = T_failed then ''failed'' else ''pending'') status d1
                else d1);
          d3 = report_linked observedAt t st d2
      in set_attempt (at_id a) (\<lambda>x. x\<lparr>
           at_startedAt := (if st = J_device_started then Some observedAt else at_startedAt x),
           at_committedAt := (if touched then possible else at_committedAt x),
           at_completedAt := (if st \<in> {J_failed, J_unknown} then Some observedAt else at_completedAt x),
           at_outcome := (if st = J_failed then Some ''failed'' else if st = J_unknown then Some ''unknown''
             else at_outcome x),
           at_errorCode := or_else_opt (rp_errorCode r) (at_errorCode x)\<rparr>) d3)"

definition report_cases :: "time \<Rightarrow> device_job \<Rightarrow> transfer \<Rightarrow> job_report \<Rightarrow> job_state \<Rightarrow> time option \<Rightarrow> db \<Rightarrow> db" where
  "report_cases now j t r st possible d =
     (if st = J_unknown then
        open_case now (Some (tr_merchant t)) ''unknown_payout'' R_open ''transfer'' (tr_id t)
          [(''job_id'', JId (jb_id j)), (''screen_state'', opt_str (ussdDiagnosticLabel (rp_screen r))),
           (''error_code'', opt_str (rp_errorCode r)),
           (''possible_commit_at'', case possible of None \<Rightarrow> JNull | Some p \<Rightarrow> JDate p)] d
      else if st = J_cancelled then
        open_case now (Some (tr_merchant t)) ''precommit_cancelled'' R_open ''transfer'' (tr_id t)
          [(''job_id'', JId (jb_id j)), (''error_code'', opt_str (rp_errorCode r))] d
      else d)"

definition updateTransferForReport ::
  "time \<Rightarrow> device_job \<Rightarrow> transfer_attempt \<Rightarrow> transfer \<Rightarrow> job_report \<Rightarrow> job_state \<Rightarrow> time \<Rightarrow>
   time option \<Rightarrow> db \<Rightarrow> db outcome" where
  "updateTransferForReport now j a t r st observedAt possible d =
     (let d1 = report_rows now j a t r st observedAt possible d in
      map_outcome (report_cases now j t r st possible)
        (if st = J_failed then
           map_outcome (set_sim (jb_sim j) (\<lambda>s. s\<lparr>sim_reserved := sim_reserved s - physical_total t\<rparr>))
             (release_reservation t d1)
         else Inr d1))"

text \<open>A money-moving job may start only on a fresh wallet that still covers its reservations.\<close>

definition start_eligible :: "time \<Rightarrow> id \<Rightarrow> device_job \<Rightarrow> db \<Rightarrow> bool" where
  "start_eligible now dev j d = (case find_sim d (jb_sim j) of None \<Rightarrow> False
     | Some s \<Rightarrow> (case find_device d (sim_device s) of None \<Rightarrow> False
       | Some v \<Rightarrow> (case group_of d v of None \<Rightarrow> False
         | Some g \<Rightarrow>
             sim_status s = Sim_active \<and>
             opt_holds (\<lambda>t. now - pp_balanceStaleSeconds (loadPlatformPolicy d) * 1000 \<le> t)
               (sim_lastBalanceAt s) \<and>
             dv_id v = dev \<and> dv_status v = Dev_online \<and>
             opt_holds (\<lambda>t. now - 90000 \<le> t) (dv_lastHeartbeatAt v) \<and>
             dv_permissionsOk v \<and> dv_accessibilityOk v \<and>
             g_safetyBalance g \<le> sim_main s - sim_reserved s \<and>
             sent_today now s + sim_reserved s \<le> g_dailyLimit g)))"

definition quarantine_both :: "id \<Rightarrow> id \<Rightarrow> db \<Rightarrow> db" where
  "quarantine_both dev sim d = set_sim sim (\<lambda>s. s\<lparr>sim_status := Sim_quarantined\<rparr>)
     (set_device dev (\<lambda>v. v\<lparr>dv_status := Dev_quarantined\<rparr>) d)"

text \<open>Late evidence on a job that is already unknown: recorded, nothing is released.\<close>

definition report_late ::
  "device_job \<Rightarrow> transfer_attempt \<Rightarrow> transfer \<Rightarrow> job_report \<Rightarrow> time \<Rightarrow> db \<Rightarrow> db" where
  "report_late j a t r observedAt d =
     (let possible = (if rp_state r \<in> {J_committed, J_provider_pending, J_succeeded}
            then Some (or_else (jb_committedAt j) observedAt) else jb_committedAt j);
          d1 = set_job (jb_id j) (\<lambda>x. x\<lparr>jb_committedAt := possible,
            jb_screen := or_else_opt (ussdDiagnosticLabel (rp_screen r)) (jb_screen x),
            jb_errorCode := (if truthy (rp_errorCode r) then rp_errorCode r else jb_errorCode j)\<rparr>) d
      in if possible = None then d1
         else d1\<lparr>transfers := update_where (\<lambda>x. tr_id x = tr_id t \<and> tr_committedAt x = None)
                (\<lambda>x. x\<lparr>tr_committedAt := possible\<rparr>) (transfers d1),
              attempts := update_where (\<lambda>x. at_id x = at_id a \<and> at_committedAt x = None)
                (\<lambda>x. x\<lparr>at_committedAt := possible\<rparr>) (attempts d1)\<rparr>)"

definition effective_state :: "device_job \<Rightarrow> job_state \<Rightarrow> name_disposition \<Rightarrow> job_state" where
  "effective_state j reported nd = (case nd of
       Name_uncertain _ _ _ \<Rightarrow> J_cancelled
     | Name_mismatch _ _ _ \<Rightarrow> J_failed
     | No_disposition \<Rightarrow> financiallySafeReportState reported (jb_committedAt j) (jb_state j)
         (money_moving (jb_type j)))"

definition report_apply ::
  "time \<Rightarrow> id \<Rightarrow> device_job \<Rightarrow> (transfer_attempt \<times> transfer) option \<Rightarrow> job_report \<Rightarrow>
   spool_context option \<Rightarrow> name_disposition \<Rightarrow> time \<Rightarrow> db \<Rightarrow> (string option \<times> db) outcome" where
  "report_apply now dev j link r ctx nd observedAt d =
     (let st = effective_state j (rp_state r) nd;
          possible = (if money_moving (jb_type j) \<and> st = J_unknown \<and> jb_state j \<noteq> J_leased
            then Some (or_else (jb_committedAt j) (or_else (jb_startedAt j) observedAt))
            else if st = J_committed then Some observedAt else jb_committedAt j);
          d1 = set_job (jb_id j) (\<lambda>x. x\<lparr>jb_state := st,
            jb_startedAt := (if st = J_device_started then Some observedAt else jb_startedAt j),
            jb_committedAt := possible,
            jb_completedAt := (if st \<in> {J_succeeded, J_failed, J_unknown, J_cancelled}
              then Some observedAt else jb_completedAt x),
            jb_screen := or_else_opt (ussdDiagnosticLabel (rp_screen r)) (jb_screen x),
            jb_errorCode := or_else_opt (rp_errorCode r) (jb_errorCode x)\<rparr>) d
      in and_then (case link of None \<Rightarrow> Inr d1
                   | Some (a, t) \<Rightarrow> updateTransferForReport now j a t r st observedAt possible d1) (\<lambda>d2.
         let d3 = (if shouldReleaseDeviceLockAfterReport st then
               d2\<lparr>devices := update_where (\<lambda>v. dv_id v = dev \<and> dv_activeJob v = Some (jb_id j))
                    (\<lambda>v. v\<lparr>dv_activeJob := None\<rparr>) (devices d2)\<rparr> else d2)
         in Inr (if st = J_unknown then map_option (\<lambda>(a, t). tr_reference t) link else None,
                 persistSpoolStatusOutcome now j link ctx nd d3)))"

text \<open>
  The transaction of \<open>report\<close> after the checks of the spool event. The result: the reference
  of a payout that became unknown, whether the clock was implausible, the database.
\<close>

definition report_job ::
  "time \<Rightarrow> id \<Rightarrow> device_job \<Rightarrow> job_report \<Rightarrow> spool_context option \<Rightarrow> db \<Rightarrow>
   (string option \<times> bool \<times> db) outcome" where
  "report_job now dev j r ctx d =
     (let link = job_link d (jb_id j);
          nd = (case ctx of None \<Rightarrow> No_disposition
            | Some c \<Rightarrow> classifyPrecommitNameDisposition (jb_state j) (jb_committedAt j) (rp_state r)
                (sc_errorCode c) (map_option (\<lambda>(a, t). tr_expectedName t) link)
                (sc_expectedName c) (sc_providerName c));
          (observedAt, invalid) = boundedJobObservedAt (rp_observedAt r) now (jb_createdAt j);
          d1 = (if invalid then quarantine_both dev (jb_sim j) d else d)
      in if jb_state j = J_unknown \<and> link \<noteq> None \<and> rp_state r \<in> {J_device_started, J_committed,
              J_provider_pending, J_succeeded, J_failed, J_unknown} then
           (case link of None \<Rightarrow> Inr (None, invalid, d1)
            | Some (a, t) \<Rightarrow> Inr (None, invalid,
                persistSpoolStatusOutcome now j link ctx nd (report_late j a t r observedAt d1)))
         else if rp_state r \<notin> set (allowedTransitions (jb_state j)) then
           (if jb_state j = rp_state r
            then Inr (None, invalid, persistSpoolStatusOutcome now j link ctx nd d1)
            else Inl (ApiError ''invalid_state'' 409))
         else if rp_state r = J_device_started \<and> money_moving (jb_type j) \<and>
             \<not> start_eligible now dev j d1 then Inl (ApiError ''device_not_qualified'' 409)
         else map_outcome (\<lambda>(ref, d2). (ref, invalid, d2))
           (report_apply now dev j link r ctx nd observedAt d1))"

definition report ::
  "time \<Rightarrow> id \<Rightarrow> id \<Rightarrow> job_report \<Rightarrow> spool_context option \<Rightarrow> db \<Rightarrow>
   (string option \<times> bool \<times> db) outcome" where
  "report now dev jid r ctx d = (case find_job d jid of
       None \<Rightarrow> Inl (ApiError ''invalid_state'' 409)
     | Some j \<Rightarrow>
         if jb_device j \<noteq> Some dev \<or> jb_fence j \<noteq> rp_fence r then Inl (ApiError ''invalid_state'' 409)
         else case ctx of
           None \<Rightarrow> if money_moving (jb_type j) then Inl (ApiError ''financial_status_requires_spool'' 409)
             else report_job now dev j r None d
         | Some c \<Rightarrow> (case jobStatusInboxDisposition
               (map_option ib_hash (find_inbox d ''device_job_status'' (sc_eventId c))) (sc_hash c) of
               Duplicate \<Rightarrow> Inr (None, False, d)
             | Conflict \<Rightarrow> Inl (ApiError ''duplicate_event_conflict'' 409)
             | Process \<Rightarrow> if sc_operation c \<noteq> operation_of j then Inl (ApiError ''invalid_state'' 409)
                 else report_job now dev j r (Some c) d))"

definition reportFromSpool ::
  "time \<Rightarrow> id \<Rightarrow> id \<Rightarrow> int \<Rightarrow> job_state \<Rightarrow> int \<Rightarrow> spool_context \<Rightarrow> db \<Rightarrow>
   (string option \<times> bool \<times> db) outcome" where
  "reportFromSpool now dev jid fence st observedAtMs c d =
     report now dev jid \<lparr>rp_fence = fence, rp_state = st, rp_observedAt = observedAtMs,
       rp_screen = None, rp_errorCode = Some (take 80 (sc_errorCode c))\<rparr> (Some c) d"

section \<open>Enrolment and heartbeat\<close>

record activation_input =
  ai_codeHash :: string
  ai_hardwareSerial :: string

definition code_live :: "time \<Rightarrow> activation_code \<Rightarrow> bool" where
  "code_live now c = (ac_consumedAt c = None \<and> now < ac_expiresAt c)"

definition unbind_hardware :: "string \<Rightarrow> id \<Rightarrow> db \<Rightarrow> db" where
  "unbind_hardware serial keep d =
     (case find (\<lambda>v. dv_serial v = Some serial \<and> dv_id v \<noteq> keep) (devices d) of
        None \<Rightarrow> d
      | Some v \<Rightarrow> (set_device (dv_id v) (\<lambda>x. x\<lparr>dv_serial := None, dv_authTokenHash := None,
            dv_certFingerprint := None, dv_activeJob := None, dv_status := Dev_offline\<rparr>) d)
          \<lparr>sims := update_where (\<lambda>s. sim_device s = dv_id v)
             (\<lambda>s. s\<lparr>sim_status := Sim_pending\<rparr>) (sims d)\<rparr>)"

definition activate ::
  "time \<Rightarrow> activation_input \<Rightarrow> string \<Rightarrow> string option \<Rightarrow> db \<Rightarrow> (id \<times> sim_wallet list \<times> db) outcome" where
  "activate now input tokenHash cert d =
     (case find (\<lambda>c. ac_codeHash c = ai_codeHash input \<and> code_live now c) (activations d) of
        None \<Rightarrow> Inl (ApiError ''forbidden'' 403)
      | Some act \<Rightarrow>
          let d1 = unbind_hardware (ai_hardwareSerial input) (ac_device act) d;
              claim = (\<lambda>c. ac_id c = ac_id act \<and> code_live now c);
              count = length (filter claim (activations d1));
              d2 = d1\<lparr>activations := update_where claim (\<lambda>c. c\<lparr>ac_consumedAt := Some now\<rparr>) (activations d1)\<rparr>
          in if count \<noteq> 1 then Inl (ApiError ''forbidden'' 403)
             else Inr (ac_device act,
               sort_key sim_slot (filter (\<lambda>s. sim_device s = ac_device act) (sims d2)),
               set_device (ac_device act) (\<lambda>v. v\<lparr>dv_serial := Some (ai_hardwareSerial input),
                 dv_authTokenHash := Some tokenHash,
                 dv_certFingerprint := (if truthy cert then cert else dv_certFingerprint v),
                 dv_status := Dev_offline\<rparr>) d2))"

record sim_identity =
  id_slot :: int
  id_subscription :: int
  id_iccid :: string
  id_phone :: string
  id_accountName :: string

record heartbeat_input =
  hb_device :: id
  hb_sentAt :: time
  hb_permissionsOk :: bool
  hb_accessibilityOk :: bool
  hb_sims :: "sim_identity list"

definition identity_matches :: "id \<Rightarrow> sim_identity \<Rightarrow> sim_wallet \<Rightarrow> bool" where
  "identity_matches dev i s = (sim_device s = dev \<and> sim_slot s = id_slot i \<and> sim_phone s = id_phone i \<and>
     nm_decision (comparePersonNames (sim_accountName s) (id_accountName i)) = Match)"

text \<open>One reported SIM: whether the phone must be quarantined, and the database.\<close>

definition heartbeat_sim :: "id \<Rightarrow> sim_identity \<Rightarrow> bool \<times> db \<Rightarrow> bool \<times> db" where
  "heartbeat_sim dev i = (\<lambda>(quarantine, d). case find (\<lambda>s. sim_iccid s = id_iccid i) (sims d) of
       None \<Rightarrow> (True, d)
     | Some s \<Rightarrow> if \<not> identity_matches dev i s then
           (True, set_sim (sim_id s) (\<lambda>x. x\<lparr>sim_status := Sim_quarantined\<rparr>) d)
         else (quarantine, set_sim (sim_id s) (\<lambda>x. x\<lparr>sim_subscription := Some (id_subscription i),
           sim_accountName := id_accountName i\<rparr>) d))"

definition check_result :: "time \<Rightarrow> id \<Rightarrow> id \<Rightarrow> string \<times> bool \<Rightarrow> db \<Rightarrow> db" where
  "check_result now dev run = (\<lambda>(key, ok) d. d\<lparr>qualChecks := update_where
     (\<lambda>c. qc_run c = run \<and> qc_key c = key)
     (\<lambda>c. c\<lparr>qc_status := (if ok then K_passed else K_failed),
        qc_evidence := [(''source'', JStr ''signed_device_heartbeat''), (''value'', JBool ok)],
        qc_observedAt := Some now, qc_recordedBy := Some (''device:'' @ nat_to_digits dev)\<rparr>) (qualChecks d)\<rparr>)"

definition heartbeat_qualification :: "time \<Rightarrow> id \<Rightarrow> heartbeat_input \<Rightarrow> db \<Rightarrow> db" where
  "heartbeat_qualification now dev h d =
     (case first_by (\<lambda>r. - qr_createdAt r) (filter (\<lambda>r. qr_device r = dev \<and>
          qr_status r \<in> {Q_pending, Q_running}) (qualRuns d)) of
        None \<Rightarrow> d
      | Some r \<Rightarrow> fold (check_result now dev (qr_id r))
          [(''device_permissions'', hb_permissionsOk h), (''accessibility_enabled'', hb_accessibilityOk h)]
          (d\<lparr>qualRuns := update_where (\<lambda>x. qr_id x = qr_id r) (\<lambda>x. x\<lparr>qr_status := Q_running,
             qr_startedAt := Some (or_else (qr_startedAt r) now)\<rparr>) (qualRuns d)\<rparr>))"

definition heartbeat :: "time \<Rightarrow> id \<Rightarrow> heartbeat_input \<Rightarrow> db \<Rightarrow> db outcome" where
  "heartbeat now dev h d =
     (if hb_device h \<noteq> dev then Inl (ApiError ''forbidden'' 403)
      else case find_device d dev of
        None \<Rightarrow> Inl (ApiError ''forbidden'' 403)
      | Some v \<Rightarrow>
          if dv_status v = Dev_retired then Inl (ApiError ''forbidden'' 403)
          else
            let missing = list_ex (\<lambda>s. sim_device s = dev \<and> sim_iccid s \<notin> set (map id_iccid (hb_sims h))) (sims d);
                (quarantine, d1) = fold (heartbeat_sim dev) (hb_sims h)
                  (now + 60000 < hb_sentAt h \<or> missing, d);
                d2 = heartbeat_qualification now dev h d1
            in Inr (set_device dev (\<lambda>x. x\<lparr>dv_lastHeartbeatAt := Some now,
                 dv_permissionsOk := hb_permissionsOk h, dv_accessibilityOk := hb_accessibilityOk h,
                 dv_status := operatorControlledDeviceStatus quarantine (dv_status v = Dev_online)\<rparr>) d2))"

end
