(* ===== verification/Sms.thy ===== *)
theory Sms
  imports DeviceJobs
begin

text \<open>
  The ingestion of provider messages, \<open>apps/api/src/sms/sms-ingestion.service.ts\<close>: one
  event of a phone is recorded once, its message is parsed, and its receipt is matched against
  the balance query, the deposit or the payout it is evidence for. Whatever cannot be matched
  uniquely is kept as a case, and incoming money goes to suspense. The hash of a body and the
  merchant with the slug \<open>system-suspense\<close> are arguments; the encrypted raw body is left
  out.
\<close>

section \<open>Decisions\<close>

definition balanceRefreshStatus :: "sim_status \<Rightarrow> sim_status option" where
  "balanceRefreshStatus current = (if current = Sim_payout_stale then Some Sim_active else None)"

definition BALANCE_QUERY_MAX_AGE_MS :: int where "BALANCE_QUERY_MAX_AGE_MS = 15 * 60000"
definition DEVICE_RECEIPT_CLOCK_SKEW_MS :: int where "DEVICE_RECEIPT_CLOCK_SKEW_MS = 60000"
definition PROVIDER_TIME_MAX_DELAY_MS :: int where
  "PROVIDER_TIME_MAX_DELAY_MS = 7 * 24 * 60 * 60000"
definition PROVIDER_TIME_MAX_FUTURE_SKEW_MS :: int where
  "PROVIDER_TIME_MAX_FUTURE_SKEW_MS = 5 * 60000"

definition correlatable_state :: "job_state \<Rightarrow> bool" where
  "correlatable_state st = (st \<in> {J_device_started, J_committed, J_provider_pending})"

text \<open>A lease that had really started when the message was observed, and not too long before.\<close>

definition correlatable_lease :: "time \<Rightarrow> device_job \<Rightarrow> bool" where
  "correlatable_lease observedAt j =
     (let earliest = observedAt - BALANCE_QUERY_MAX_AGE_MS;
          latest = observedAt + DEVICE_RECEIPT_CLOCK_SKEW_MS
      in correlatable_state (jb_state j) \<and> jb_device j \<noteq> None \<and> jb_leaseOwner j = jb_device j \<and>
         opt_holds (\<lambda>t. earliest \<le> t \<and> t \<le> latest) (jb_startedAt j) \<and>
         earliest \<le> jb_createdAt j \<and> jb_createdAt j \<le> latest \<and>
         opt_holds (\<lambda>t. observedAt \<le> t) (jb_leaseExpiresAt j) \<and> observedAt \<le> jb_expiresAt j)"

definition correlatableBalanceQueryLeases :: "device_job list \<Rightarrow> time \<Rightarrow> device_job list" where
  "correlatableBalanceQueryLeases js observedAt = filter (correlatable_lease observedAt) js"

definition effectiveProviderOccurredAt :: "time option \<Rightarrow> time \<Rightarrow> time" where
  "effectiveProviderOccurredAt provider receivedAt = (case provider of
       None \<Rightarrow> receivedAt
     | Some v \<Rightarrow>
         if v < receivedAt - PROVIDER_TIME_MAX_DELAY_MS \<or>
            receivedAt + PROVIDER_TIME_MAX_FUTURE_SKEW_MS < v then receivedAt
         else v)"

definition depositStatusAllowsProviderTimeMatch ::
  "deposit_status \<Rightarrow> time \<Rightarrow> time \<Rightarrow> time \<Rightarrow> bool" where
  "depositStatusAllowsProviderTimeMatch st createdAt lateGraceEndsAt occurredAt =
     (st \<in> {D_awaiting_payment, D_late_grace, D_matching, D_expired} \<and>
      createdAt \<le> occurredAt \<and> occurredAt \<le> lateGraceEndsAt)"

section \<open>Wallet counters\<close>

datatype money_direction = Increment | Decrement

text \<open>
  The balance after a transaction, and the columns to write: none when the wallet already has
  a more recent balance.
\<close>

record balance_mutation =
  bm_result :: money
  bm_data :: "(money \<times> time \<times> string) option"

definition transactionBalanceMutationForWallet ::
  "sim_wallet \<Rightarrow> time \<Rightarrow> money option \<Rightarrow> money \<Rightarrow> money_direction \<Rightarrow> balance_mutation" where
  "transactionBalanceMutationForWallet s occurredAt provider amount dir =
     (if opt_holds (\<lambda>t. occurredAt < t) (sim_lastBalanceAt s)
      then \<lparr>bm_result = sim_main s, bm_data = None\<rparr>
      else let resulting = or_else provider
                 (if dir = Increment then sim_main s + amount else sim_main s - amount)
           in \<lparr>bm_result = resulting, bm_data = Some (resulting, occurredAt,
                 if provider \<noteq> None then ''transaction_sms'' else ''transaction_sms_predicted'')\<rparr>)"

definition apply_mutation :: "balance_mutation \<Rightarrow> sim_wallet \<Rightarrow> sim_wallet" where
  "apply_mutation m s = (case bm_data m of None \<Rightarrow> s
     | Some (b, t, src) \<Rightarrow> s\<lparr>sim_main := b, sim_lastBalanceAt := Some t, sim_lastBalanceSource := Some src\<rparr>)"

definition received_today :: "time \<Rightarrow> sim_wallet \<Rightarrow> money" where
  "received_today now s = (case sim_financialDay s of
       Some t \<Rightarrow> if addisFinancialDay t = addisFinancialDay now then sim_receivedToday s else 0
     | None \<Rightarrow> 0)"

definition updateWalletCounters ::
  "time \<Rightarrow> id \<Rightarrow> money \<Rightarrow> money \<Rightarrow> (sim_wallet \<Rightarrow> sim_wallet) \<Rightarrow> db \<Rightarrow> db" where
  "updateWalletCounters now sim sentDelta receivedDelta data d =
     set_sim sim (\<lambda>s. (data s)\<lparr>sim_financialDay := Some (addisFinancialDay now),
        sim_sentToday := sent_today now s + sentDelta,
        sim_receivedToday := received_today now s + receivedDelta\<rparr>) d"

section \<open>Balance messages\<close>

datatype correlation = Matched | Unmatched | Ambiguous

fun correlation_text :: "correlation \<Rightarrow> string" where
  "correlation_text Matched = ''matched''"
| "correlation_text Unmatched = ''unmatched''"
| "correlation_text Ambiguous = ''ambiguous''"

text \<open>\<open>reconciliationCase.create\<close> on a receipt, with the id of the new case.\<close>

definition receipt_case ::
  "time \<Rightarrow> id option \<Rightarrow> string \<Rightarrow> id \<Rightarrow> json_object \<Rightarrow> db \<Rightarrow> id \<times> db" where
  "receipt_case now merchant ctype receipt evidence d =
     (next_id d, open_case now merchant ctype R_open ''sms_receipt'' receipt evidence d)"

definition balance_query_leases :: "id \<Rightarrow> time \<Rightarrow> db \<Rightarrow> device_job list" where
  "balance_query_leases sim observedAt d = take 3 (sort_key (\<lambda>j. - jb_createdAt j)
     (filter (\<lambda>j. jb_sim j = sim \<and> jb_type j = Balance_query \<and> correlatable_state (jb_state j) \<and>
        jb_device j \<noteq> None \<and> jb_leaseOwner j \<noteq> None \<and>
        opt_holds (\<lambda>t. observedAt \<le> t) (jb_leaseExpiresAt j) \<and> observedAt \<le> jb_expiresAt j \<and>
        opt_holds (\<lambda>t. observedAt - BALANCE_QUERY_MAX_AGE_MS \<le> t \<and>
          t \<le> observedAt + DEVICE_RECEIPT_CLOCK_SKEW_MS) (jb_startedAt j) \<and>
        observedAt - BALANCE_QUERY_MAX_AGE_MS \<le> jb_createdAt j \<and>
        jb_createdAt j \<le> observedAt + DEVICE_RECEIPT_CLOCK_SKEW_MS) (jobs d)))"

definition uncorrelated_balance ::
  "time \<Rightarrow> id \<Rightarrow> string \<Rightarrow> balance_sms \<Rightarrow> time \<Rightarrow> device_job list \<Rightarrow> db \<Rightarrow> correlation \<times> id option \<times> db" where
  "uncorrelated_balance now receipt sender p observedAt candidates d =
     (let status = (if length candidates > 1 then Ambiguous else Unmatched);
          (c, d') = receipt_case now None
            (if status = Ambiguous then ''ambiguous_balance_sms'' else ''unmatched_balance_sms'') receipt
            [(''sender'', JStr sender), (''observed_at'', JDate observedAt),
             (''candidate_job_ids'', JArr (map (JId \<circ> jb_id) candidates)),
             (''balances_minor'', JObj [(''main'', JBig (bal_main p)),
                (''incentive'', JBig (bal_incentive p)), (''fuel'', JBig (bal_fuel p)),
                (''pocket_money'', JBig (bal_pocket p))]),
             (''wallet_mutated'', JBool False),
             (''reason'', JStr (if status = Ambiguous then ''multiple_active_recent_balance_query_leases''
                else ''no_active_recent_balance_query_lease''))] d
      in (status, Some c, d'))"

definition stale_balance ::
  "time \<Rightarrow> id \<Rightarrow> string \<Rightarrow> time \<Rightarrow> time \<Rightarrow> device_job list \<Rightarrow> db \<Rightarrow> correlation \<times> id option \<times> db" where
  "stale_balance now receipt sender observedAt snapshotAt candidates d =
     (let (c, d') = receipt_case now None ''stale_balance_sms'' receipt
            [(''sender'', JStr sender), (''observed_at'', JDate observedAt),
             (''current_snapshot_at'', JDate snapshotAt),
             (''candidate_job_ids'', JArr (map (JId \<circ> jb_id) candidates)),
             (''wallet_mutated'', JBool False),
             (''reason'', JStr ''balance_sms_older_than_current_snapshot'')] d
      in (Unmatched, Some c, d'))"

definition finish_balance_job :: "time \<Rightarrow> device_job \<Rightarrow> db \<Rightarrow> db" where
  "finish_balance_job observedAt j d =
     (let d1 = set_job (jb_id j) (\<lambda>x. x\<lparr>jb_state := J_succeeded, jb_completedAt := Some observedAt\<rparr>) d in
      case jb_device j of None \<Rightarrow> d1
      | Some dev \<Rightarrow> d1\<lparr>devices := update_where (\<lambda>v. dv_id v = dev \<and> dv_activeJob v = Some (jb_id j))
          (\<lambda>v. v\<lparr>dv_activeJob := None\<rparr>) (devices d1)\<rparr>)"

definition refreshed_wallet :: "time \<Rightarrow> balance_sms \<Rightarrow> sim_wallet \<Rightarrow> sim_wallet" where
  "refreshed_wallet observedAt p s = s\<lparr>sim_main := bal_main p, sim_incentive := bal_incentive p,
     sim_fuel := bal_fuel p, sim_pocket := bal_pocket p, sim_lastBalanceAt := Some observedAt,
     sim_lastBalanceSource := Some ''balance_sms'',
     sim_status := or_else (balanceRefreshStatus (sim_status s)) (sim_status s)\<rparr>"

definition applyBalance ::
  "time \<Rightarrow> id \<Rightarrow> id \<Rightarrow> string \<Rightarrow> balance_sms \<Rightarrow> time \<Rightarrow> db \<Rightarrow> (correlation \<times> id option \<times> db) outcome" where
  "applyBalance now sim receipt sender p observedAt d =
     (let candidates = (if isTrustedTelebirrSmsSender sender
            then correlatableBalanceQueryLeases (balance_query_leases sim observedAt d) observedAt else [])
      in case candidates of
           [j] \<Rightarrow> (case find_sim d sim of
               None \<Rightarrow> Inl (RuntimeError ''No SimWallet found'')
             | Some s \<Rightarrow>
                 if opt_holds (\<lambda>t. observedAt < t) (sim_lastBalanceAt s)
                 then Inr (stale_balance now receipt sender observedAt (the (sim_lastBalanceAt s)) candidates d)
                 else
                   let d1 = d\<lparr>snapshots := snapshots d @ [\<lparr>bs_sim = sim, bs_main = bal_main p,
                          bs_incentive = bal_incentive p, bs_fuel = bal_fuel p, bs_pocket = bal_pocket p,
                          bs_observedAt = observedAt\<rparr>]\<rparr>
                   in Inr (Matched, None,
                        finish_balance_job observedAt j (set_sim sim (refreshed_wallet observedAt p) d1)))
         | _ \<Rightarrow> Inr (uncorrelated_balance now receipt sender p observedAt candidates d))"

section \<open>Incoming transfers\<close>

definition config_tolerance :: "db \<Rightarrow> id \<Rightarrow> money" where
  "config_tolerance d m = (case find (\<lambda>c. cfg_merchant c = m) (configs d) of
     None \<Rightarrow> 0 | Some c \<Rightarrow> cfg_tolerance c)"

definition strongDepositMatch :: "db \<Rightarrow> incoming_sms \<Rightarrow> time \<Rightarrow> deposit_intent \<Rightarrow> bool" where
  "strongDepositMatch d p occurredAt x =
     (matchesMaskedEthiopianPhone (dp_customerPhone x) (in_prefix p) (in_suffix p) \<and>
      depositStatusAllowsProviderTimeMatch (dp_status x) (dp_createdAt x) (dp_graceEndsAt x) occurredAt \<and>
      \<bar>dp_amount x - in_amount p\<bar> \<le> config_tolerance d (dp_merchant x) \<and>
      nm_decision (comparePersonNames (dp_customerName x) (in_name p)) = Match)"

definition deposit_candidates :: "id \<Rightarrow> time \<Rightarrow> db \<Rightarrow> deposit_intent list" where
  "deposit_candidates sim occurredAt d = take 200 (sort_key (\<lambda>x. - dp_createdAt x)
     (filter (\<lambda>x. dp_sim x = sim \<and> dp_status x \<in> {D_awaiting_payment, D_late_grace, D_matching,
        D_manual_review, D_expired} \<and> dp_createdAt x \<le> occurredAt) (deposits d)))"

definition dep_tx_taken :: "db \<Rightarrow> id \<Rightarrow> string \<Rightarrow> bool" where
  "dep_tx_taken d i tx = list_ex (\<lambda>x. dp_id x \<noteq> i \<and> dp_providerTx x = Some tx) (deposits d)"

definition dep_auth :: "deposit_intent \<Rightarrow> auth" where
  "dep_auth x = (dp_merchant x, dp_env x)"

text \<open>Whose suspense account takes an unmatched receipt: the one possible owner, or the system.\<close>

definition suspense_auth :: "id \<Rightarrow> deposit_intent list \<Rightarrow> auth" where
  "suspense_auth system potential = (case remdups (map dep_auth potential) of
       [a] \<Rightarrow> a | _ \<Rightarrow> (system, Live))"

definition single_owner :: "deposit_intent list \<Rightarrow> bool" where
  "single_owner potential = (length (remdups (map dep_auth potential)) = 1)"

definition count_received ::
  "time \<Rightarrow> id \<Rightarrow> time \<Rightarrow> money option \<Rightarrow> money \<Rightarrow> db \<Rightarrow> db outcome" where
  "count_received now sim occurredAt provider amount d = (case find_sim d sim of
       None \<Rightarrow> Inl (RuntimeError ''No SimWallet found'')
     | Some s \<Rightarrow> Inr (updateWalletCounters now sim 0 amount (apply_mutation
         (transactionBalanceMutationForWallet s occurredAt provider amount Increment)) d))"

definition suspend_incoming ::
  "time \<Rightarrow> id \<Rightarrow> id \<Rightarrow> id \<Rightarrow> incoming_sms \<Rightarrow> time \<Rightarrow> deposit_intent list \<Rightarrow> deposit_intent list \<Rightarrow> db \<Rightarrow>
   db outcome" where
  "suspend_incoming now system sim receipt p occurredAt candidates strong d =
     (let potential = filter (\<lambda>x. matchesMaskedEthiopianPhone (dp_customerPhone x) (in_prefix p)
            (in_suffix p)) candidates;
          auth = suspense_auth system potential;
          d1 = (if single_owner potential then d else snd (upsert_config system d))
      in and_then (moveReceiptToSuspense auth receipt (in_amount p) d1) (\<lambda>d2.
         and_then (count_received now sim occurredAt (in_balance p) (in_amount p) d2) (\<lambda>d3.
           let d4 = snd (receipt_case now (case strong of [] \<Rightarrow> None | x # _ \<Rightarrow> Some (dp_merchant x))
                 (if length strong > 1 then ''ambiguous_deposit'' else ''unmatched_deposit'') receipt
                 [(''candidates'', JArr (map (JId \<circ> dp_id) potential)),
                  (''provider_transaction_id'', JStr (in_tx p)), (''suspense_merchant_id'', JId (fst auth)),
                  (''suspense_environment'', JStr (if snd auth = Live then ''live'' else ''test''))] d3)
           in Inr (if length strong > 1 then
                d4\<lparr>deposits := update_where (\<lambda>x. dp_id x \<in> set (map dp_id strong))
                     (\<lambda>x. x\<lparr>dp_status := D_manual_review\<rparr>) (deposits d4)\<rparr>
              else d4))))"

definition credit_incoming ::
  "time \<Rightarrow> id \<Rightarrow> id \<Rightarrow> incoming_sms \<Rightarrow> time \<Rightarrow> deposit_intent \<Rightarrow> db \<Rightarrow> db outcome" where
  "credit_incoming now sim receipt p occurredAt x d =
     and_then (creditDeposit (dep_auth x) (dp_id x) (in_amount p) d) (\<lambda>d1.
     if dep_tx_taken d1 (dp_id x) (in_tx p) then Inl (RuntimeError ''Unique constraint failed'')
     else
       let d2 = d1\<lparr>deposits := update_where (\<lambda>y. dp_id y = dp_id x)
              (\<lambda>y. y\<lparr>dp_status := D_success, dp_credited := Some (in_amount p),
                 dp_receipt := Some receipt, dp_providerTx := Some (in_tx p)\<rparr>) (deposits d1)\<rparr>
       in map_outcome (emit now ''deposit'' (dp_id x)
              (if dp_topup x then ''topup.updated'' else ''deposit.updated'')
              [(''tx_ref'', JStr (dp_txRef x)), (''status'', JStr ''success''),
               (''p2p_status'', JStr ''success''), (''credited_amount_minor'', JBig (in_amount p))])
            (count_received now sim occurredAt (in_balance p) (in_amount p) d2))"

definition matchIncoming ::
  "time \<Rightarrow> id \<Rightarrow> id \<Rightarrow> id \<Rightarrow> incoming_sms \<Rightarrow> time \<Rightarrow> db \<Rightarrow> (string option \<times> db) outcome" where
  "matchIncoming now system sim receipt p occurredAt d =
     (let candidates = deposit_candidates sim occurredAt d;
          strong = filter (strongDepositMatch d p occurredAt) candidates
      in case strong of
           [x] \<Rightarrow> map_outcome (\<lambda>d'. (Some (dp_txRef x), d')) (credit_incoming now sim receipt p occurredAt x d)
         | _ \<Rightarrow> map_outcome (\<lambda>d'. (None, d'))
             (suspend_incoming now system sim receipt p occurredAt candidates strong d))"

section \<open>Outgoing transfers\<close>

text \<open>\<open>committedAt: desc\<close>; the filter leaves no row without it.\<close>

definition payout_candidates :: "id \<Rightarrow> outgoing_sms \<Rightarrow> time \<Rightarrow> db \<Rightarrow> transfer list" where
  "payout_candidates sim p occurredAt d = take 100 (sort_key (\<lambda>t. - the (tr_committedAt t))
     (filter (\<lambda>t. tr_sim t = Some sim \<and> tr_amount t = out_amount p \<and>
        tr_status t \<in> {T_committed, T_provider_pending, T_unknown, T_failed, T_success} \<and>
        ends_with (tr_phone t) (out_suffix p) \<and>
        opt_holds (\<lambda>c. occurredAt - 30 * 60000 \<le> c \<and> c \<le> occurredAt + 5 * 60000) (tr_committedAt t))
       (transfers d)))"

definition payout_match :: "outgoing_sms \<Rightarrow> transfer \<Rightarrow> bool" where
  "payout_match p t =
     (matchesMaskedEthiopianPhone (tr_phone t) (out_prefix p) (out_suffix p) \<and>
      nm_decision (comparePersonNames (or_else (tr_resolvedName t) (tr_expectedName t)) (out_name p)) = Match \<and>
      (tr_status t = T_success \<longrightarrow> tr_providerTx t = Some (out_tx p)))"

definition unmatched_payout ::
  "time \<Rightarrow> id \<Rightarrow> id \<Rightarrow> outgoing_sms \<Rightarrow> time \<Rightarrow> transfer list \<Rightarrow> transfer list \<Rightarrow> db \<Rightarrow>
   (correlation \<times> id \<times> db) outcome" where
  "unmatched_payout now sim receipt p occurredAt candidates matches d = (case find_sim d sim of
       None \<Rightarrow> Inl (RuntimeError ''No SimWallet found'')
     | Some s \<Rightarrow>
         let total = out_amount p + out_fee p + out_vat p;
             m = transactionBalanceMutationForWallet s occurredAt (out_balance p) total Decrement;
             d1 = updateWalletCounters now sim total 0
               (\<lambda>w. apply_mutation m (w\<lparr>sim_status := Sim_quarantined\<rparr>)) d;
             status = (if length matches > 1 then Ambiguous else Unmatched);
             (c, d2) = receipt_case now
               (case remdups (map tr_merchant candidates) of [o1] \<Rightarrow> Some o1 | _ \<Rightarrow> None)
               (if status = Ambiguous then ''ambiguous_payout_sms'' else ''unmatched_payout_sms'') receipt
               [(''candidates'', JArr (map (JId \<circ> tr_id) candidates)),
                (''deterministic_name_matches'', JArr (map (JId \<circ> tr_id) matches)),
                (''provider_transaction_id'', JStr (out_tx p)), (''receiver_name'', JStr (out_name p)),
                (''receiver_phone_suffix'', JStr (out_suffix p)), (''total_outflow_minor'', JBig total),
                (''provider_reported_balance_minor'',
                   case out_balance p of None \<Rightarrow> JNull | Some b \<Rightarrow> JBig b),
                (''previous_predicted_balance_minor'', JBig (sim_main s)),
                (''resulting_balance_minor'', JBig (bm_result m)),
                (''sent_today_delta_minor'', JBig total), (''sim_quarantined'', JBool True)] d1
         in Inr (status, c, d2))"

text \<open>A success after a staff failure: the released reservation is taken back first.\<close>

definition restore_reservation :: "transfer \<Rightarrow> db \<Rightarrow> db outcome" where
  "restore_reservation t d =
     (if tr_mode t = Merchant_debit
      then restoreReleasedWithdrawalForLateSuccess (auth_of t) (tr_id t) (ledger_total t) d
      else restoreReleasedInternalMoveFeeForLateSuccess (auth_of t) (tr_id t) (tr_reserveFee t) d)"

definition late_success_case :: "time \<Rightarrow> id \<Rightarrow> outgoing_sms \<Rightarrow> transfer \<Rightarrow> db \<Rightarrow> db" where
  "late_success_case now receipt p t d =
     open_case now (Some (tr_merchant t)) ''late_success_after_manual_failure'' R_open ''transfer'' (tr_id t)
       [(''receipt_id'', JId receipt), (''provider_transaction_id'', JStr (out_tx p)),
        (''warning'', JStr ''Provider success contradicted a post-commit staff failure resolution'')] d"

definition close_payout_job :: "time \<Rightarrow> id \<Rightarrow> db \<Rightarrow> db" where
  "close_payout_job now tid d = (case newest_attempt d tid of
       None \<Rightarrow> d
     | Some a \<Rightarrow> (case at_job a of None \<Rightarrow> d
       | Some ji \<Rightarrow>
           let d1 = set_job ji (\<lambda>x. x\<lparr>jb_state := J_succeeded, jb_completedAt := Some now\<rparr>) d;
               d2 = (case find_job d1 ji of None \<Rightarrow> d1
                 | Some j \<Rightarrow> (case jb_device j of None \<Rightarrow> d1
                   | Some dev \<Rightarrow> d1\<lparr>devices := update_where
                       (\<lambda>v. dv_id v = dev \<and> dv_activeJob v = Some ji)
                       (\<lambda>v. v\<lparr>dv_activeJob := None\<rparr>) (devices d1)\<rparr>))
           in set_attempt (at_id a) (\<lambda>x. x\<lparr>at_completedAt := Some now, at_outcome := Some ''success''\<rparr>) d2))"

definition payout_success :: "time \<Rightarrow> outgoing_sms \<Rightarrow> transfer \<Rightarrow> transfer \<Rightarrow> transfer" where
  "payout_success now p t x = x\<lparr>tr_status := T_success, tr_resolvedName := Some (out_name p),
     tr_providerFee := Some (out_fee p), tr_providerVat := Some (out_vat p),
     tr_providerTx := Some (out_tx p), tr_completedAt := Some now\<rparr>"

definition matched_payout ::
  "time \<Rightarrow> id \<Rightarrow> id \<Rightarrow> outgoing_sms \<Rightarrow> time \<Rightarrow> transfer \<Rightarrow> db \<Rightarrow> db outcome" where
  "matched_payout now sim receipt p occurredAt t d =
     (let actualFee = out_fee p + out_vat p; released = (tr_status t = T_failed) in
      and_then (if released then map_outcome (late_success_case now receipt p t) (restore_reservation t d)
                else Inr d) (\<lambda>d1.
      and_then (settle_transfer now t actualFee d1) (\<lambda>d2.
      if tx_taken d2 (tr_id t) (out_tx p) then Inl (RuntimeError ''Unique constraint failed'')
      else
        let d3 = credit_treasury t (set_transfer (tr_id t) (payout_success now p t) d2) in
        case find_sim d3 sim of
          None \<Rightarrow> Inl (RuntimeError ''No SimWallet found'')
        | Some s \<Rightarrow>
            let m = transactionBalanceMutationForWallet s occurredAt (out_balance p)
                  (tr_amount t + actualFee) Decrement;
                d4 = updateWalletCounters now sim (tr_amount t + actualFee) 0 (\<lambda>w. apply_mutation m
                  (if released then w else w\<lparr>sim_reserved := sim_reserved w - physical_total t\<rparr>)) d3;
                d5 = emit_transfer now t ''success'' T_success (close_payout_job now (tr_id t) d4)
            in Inr (update_linked_sweep now (tr_id t) (tr_reference t) O_success
                 (update_linked_settlement now (tr_id t) O_success d5)))))"

record payout_result =
  po_reference :: "string option"
  po_status :: "correlation option"
  po_case :: "id option"

definition matchOutgoing ::
  "time \<Rightarrow> id \<Rightarrow> id \<Rightarrow> outgoing_sms \<Rightarrow> time \<Rightarrow> db \<Rightarrow> (payout_result \<times> db) outcome" where
  "matchOutgoing now sim receipt p receivedAt d =
     (let occurredAt = effectiveProviderOccurredAt (out_occurredAt p) receivedAt;
          candidates = payout_candidates sim p occurredAt d;
          matches = filter (payout_match p) candidates
      in case matches of
           [t] \<Rightarrow>
             if tr_status t = T_success \<and> tr_providerTx t = Some (out_tx p) then
               Inr (\<lparr>po_reference = Some (tr_reference t), po_status = None, po_case = None\<rparr>, d)
             else map_outcome (\<lambda>d'.
                 (\<lparr>po_reference = Some (tr_reference t), po_status = None, po_case = None\<rparr>, d'))
               (matched_payout now sim receipt p occurredAt t d)
         | _ \<Rightarrow> map_outcome (\<lambda>(status, c, d').
                 (\<lparr>po_reference = None, po_status = Some status, po_case = Some c\<rparr>, d'))
               (unmatched_payout now sim receipt p occurredAt candidates matches d))"

section \<open>Ingestion\<close>

record sms_event =
  ev_eventId :: string
  ev_simIccid :: string
  ev_sender :: string
  ev_body :: string
  ev_receivedAt :: time

record ingest_result =
  ig_duplicate :: bool
  ig_type :: string
  ig_reference :: "string option"
  ig_case :: "id option"
  ig_correlation :: "correlation option"

definition plain_result :: "bool \<Rightarrow> string \<Rightarrow> ingest_result" where
  "plain_result dup ty = \<lparr>ig_duplicate = dup, ig_type = ty, ig_reference = None, ig_case = None,
     ig_correlation = None\<rparr>"

fun parsed_type :: "parsed_sms \<Rightarrow> string" where
  "parsed_type (Incoming_transfer p) = ''incoming_transfer''"
| "parsed_type (Outgoing_transfer p) = ''outgoing_transfer''"
| "parsed_type (Balance_report p) = ''balance''"
| "parsed_type (Unknown_sms why) = ''unknown''"

fun parsed_tx :: "parsed_sms \<Rightarrow> string option" where
  "parsed_tx (Incoming_transfer p) = Some (in_tx p)"
| "parsed_tx (Outgoing_transfer p) = Some (out_tx p)"
| "parsed_tx _ = None"

definition receipt_row :: "id \<Rightarrow> sms_event \<Rightarrow> id \<Rightarrow> time \<Rightarrow> parsed_sms \<Rightarrow> sms_receipt" where
  "receipt_row rid e sim receivedAt parsed =
     (let base = \<lparr>rc_id = rid, rc_eventId = ev_eventId e, rc_sim = sim, rc_direction = ''incoming'',
        rc_type = parsed_type parsed, rc_providerTx = parsed_tx parsed, rc_amount = None,
        rc_name = None, rc_suffix = None, rc_prefix = None, rc_occurredAt = None,
        rc_receivedAt = receivedAt\<rparr>
      in case parsed of
           Incoming_transfer p \<Rightarrow> base\<lparr>rc_amount := Some (in_amount p), rc_name := Some (in_name p),
             rc_suffix := Some (in_suffix p), rc_prefix := Some (in_prefix p),
             rc_occurredAt := in_occurredAt p\<rparr>
         | Outgoing_transfer p \<Rightarrow> base\<lparr>rc_direction := ''outgoing'', rc_amount := Some (out_amount p),
             rc_name := Some (out_name p), rc_suffix := Some (out_suffix p),
             rc_prefix := Some (out_prefix p), rc_occurredAt := out_occurredAt p\<rparr>
         | _ \<Rightarrow> base)"

text \<open>The latest balance query under way: a balance message from before it is a clock error.\<close>

definition balance_clock_invalid :: "time \<Rightarrow> id \<Rightarrow> db \<Rightarrow> bool" where
  "balance_clock_invalid reportedAt sim d =
     opt_holds (\<lambda>j. reportedAt < jb_createdAt j - DEVICE_RECEIPT_CLOCK_SKEW_MS)
       (first_by (\<lambda>j. - jb_createdAt j) (filter (\<lambda>j. jb_sim j = sim \<and> jb_type j = Balance_query \<and>
          correlatable_state (jb_state j)) (jobs d)))"

definition dispatch_message ::
  "time \<Rightarrow> id \<Rightarrow> id \<Rightarrow> string \<Rightarrow> id \<Rightarrow> id \<Rightarrow> sms_event \<Rightarrow> bool \<Rightarrow> time \<Rightarrow> parsed_sms \<Rightarrow> db \<Rightarrow>
   (ingest_result \<times> db) outcome" where
  "dispatch_message now dev system hash sim receipt e oldClock receivedAt parsed d =
     (case parsed of
        Balance_report p \<Rightarrow>
          if oldClock then
            let (c, d') = receipt_case now None ''device_clock_invalid_balance_sms'' receipt
                  [(''device_id'', JId dev), (''reported_received_at'', JDate (ev_receivedAt e)),
                   (''server_received_at'', JDate now), (''sim_quarantined'', JBool True)] d
            in Inr ((plain_result False ''balance'')\<lparr>ig_case := Some c, ig_correlation := Some Unmatched\<rparr>, d')
          else map_outcome (\<lambda>(status, c, d').
              ((plain_result False ''balance'')\<lparr>ig_case := c, ig_correlation := Some status\<rparr>, d'))
            (applyBalance now sim receipt (ev_sender e) p receivedAt d)
      | Incoming_transfer p \<Rightarrow> map_outcome (\<lambda>(matched, d').
            ((plain_result False ''incoming_transfer'')\<lparr>ig_reference := matched\<rparr>, d'))
          (matchIncoming now system sim receipt p (effectiveProviderOccurredAt (in_occurredAt p) receivedAt) d)
      | Outgoing_transfer p \<Rightarrow> map_outcome (\<lambda>(r, d').
            ((plain_result False ''outgoing_transfer'')\<lparr>ig_reference := po_reference r, ig_case := po_case r,
               ig_correlation := po_status r\<rparr>, d'))
          (matchOutgoing now sim receipt p receivedAt d)
      | Unknown_sms why \<Rightarrow>
          Inr (plain_result False ''unknown'', snd (receipt_case now None ''unknown_sms'' receipt
            [(''sender'', JStr (ev_sender e)), (''body_hash'', JStr hash)] d)))"

definition record_receipt ::
  "time \<Rightarrow> id \<Rightarrow> id \<Rightarrow> string \<Rightarrow> id \<Rightarrow> sms_event \<Rightarrow> bool \<Rightarrow> time \<Rightarrow> parsed_sms \<Rightarrow> db \<Rightarrow>
   (ingest_result \<times> db) outcome" where
  "record_receipt now dev system hash sim e oldClock receivedAt parsed d =
     (let d1 = add_inbox ''device_sms'' (ev_eventId e) hash d in
      if opt_holds (\<lambda>tx. list_ex (\<lambda>r. rc_providerTx r = Some tx) (receipts d1)) (parsed_tx parsed)
      then Inr (plain_result True (parsed_type parsed), d1)
      else
        let rid = next_id d1;
            d2 = d1\<lparr>receipts := receipts d1 @ [receipt_row rid e sim receivedAt parsed],
                   next_id := Suc rid\<rparr>;
            d3 = set_sim sim (\<lambda>s. s\<lparr>sim_lastSmsAt := Some receivedAt\<rparr>) d2
        in dispatch_message now dev system hash sim rid e oldClock receivedAt parsed d3)"

text \<open>The transaction of \<open>ingest\<close>; the flag tells whether the clock was implausible.\<close>

definition ingest ::
  "time \<Rightarrow> id \<Rightarrow> string \<Rightarrow> id \<Rightarrow> sms_event \<Rightarrow> db \<Rightarrow> (ingest_result \<times> bool \<times> db) outcome" where
  "ingest now system hash dev e d =
     (let future = now + DEVICE_RECEIPT_CLOCK_SKEW_MS < ev_receivedAt e in
      if find_inbox d ''device_sms'' (ev_eventId e) \<noteq> None
      then Inr (plain_result True ''already_processed'', future, d)
      else case find (\<lambda>s. sim_iccid s = ev_simIccid e) (sims d) of
        None \<Rightarrow> Inl (ApiError ''forbidden'' 403)
      | Some s \<Rightarrow>
          if sim_device s \<noteq> dev then Inl (ApiError ''forbidden'' 403)
          else
            let d1 = (if future then quarantine_both dev (sim_id s) d else d) in
            and_then (parseTelebirrSms (ev_body e)) (\<lambda>candidate.
              let parsed = (if isTrustedTelebirrSmsSender (ev_sender e) then candidate
                    else Unknown_sms ''untrusted_sender'');
                  old = (parsed_type parsed = ''balance'' \<and> \<not> future \<and>
                    balance_clock_invalid (ev_receivedAt e) (sim_id s) d1);
                  d2 = (if old then quarantine_both dev (sim_id s) d1 else d1);
                  receivedAt = (if future \<or> old then now else ev_receivedAt e)
              in map_outcome (\<lambda>(r, d'). (r, future \<or> old, d'))
                   (record_receipt now dev system hash (sim_id s) e old receivedAt parsed d2)))"

text \<open>The alerts raised after the transaction, by type.\<close>

definition contradicted :: "string \<Rightarrow> db \<Rightarrow> bool" where
  "contradicted reference d = list_ex (\<lambda>c. rn_type c = ''late_success_after_manual_failure'' \<and>
     rn_refType c = ''transfer'' \<and>
     list_ex (\<lambda>t. tr_reference t = reference \<and> tr_id t = rn_refId c) (transfers d)) (cases d)"

definition ingest_alerts :: "ingest_result \<Rightarrow> bool \<Rightarrow> db \<Rightarrow> string list" where
  "ingest_alerts r invalidClock d =
     (if ig_duplicate r then []
      else (if ig_type r = ''incoming_transfer'' \<and> ig_reference r = None then [''unmatched_receipt''] else []) @
        (if invalidClock then [''reconciliation_drift''] else []) @
        (if ig_type r = ''balance'' \<and> ig_correlation r \<noteq> Some Matched then [''reconciliation_drift''] else []) @
        (if ig_type r = ''outgoing_transfer'' then (case ig_reference r of
             None \<Rightarrow> [''reconciliation_drift'']
           | Some reference \<Rightarrow> if contradicted reference d then [''reconciliation_drift''] else [])
         else []))"

end
