(* ===== verification/Requests.thy ===== *)
theory Requests
  imports Sms
begin

text \<open>
  What a merchant's request passes through: the idempotency wrapper,
  \<open>apps/api/src/idempotency/idempotency.service.ts\<close>, and the deposits,
  \<open>apps/api/src/deposits/deposits.service.ts\<close>. The hash of the canonical payload is an
  argument, and so are the random numbers of the deposit simulator. The stored answer is JSON,
  with the encoding and the decoding of the result as the source's \<open>storeResult\<close> and
  \<open>replayResult\<close>.
\<close>

section \<open>Idempotency\<close>

record 'r idem_options =
  io_auth :: auth
  io_operation :: string
  io_key :: string
  io_referenceKey :: "string option"
  io_referenceOperation :: "string option"
  io_hash :: string
  io_execute :: "db \<Rightarrow> ('r \<times> db) outcome"
  io_store :: "'r \<Rightarrow> json"
  io_replay :: "json \<Rightarrow> db \<Rightarrow> 'r outcome"

definition reference_prefix :: string where
  "reference_prefix = ''__reference__:''"

text \<open>The identities of a request: its key, and the reference it names.\<close>

definition record_identities :: "'r idem_options \<Rightarrow> (string \<times> string) list" where
  "record_identities x = rev (remdups (rev ((io_operation x, io_key x) #
     (if truthy (io_referenceKey x)
      then [(or_else (io_referenceOperation x) (io_operation x), reference_prefix @ the (io_referenceKey x))]
      else []))))"

definition idem_matches :: "'r idem_options \<Rightarrow> idem_record \<Rightarrow> bool" where
  "idem_matches x r =
     (im_auth r = io_auth x \<and> (im_operation r, im_key r) \<in> set (record_identities x))"

definition idem_row :: "time \<Rightarrow> 'r idem_options \<Rightarrow> json \<Rightarrow> string \<times> string \<Rightarrow> idem_record" where
  "idem_row now x body = (\<lambda>(operation, key). \<lparr>im_auth = io_auth x, im_operation = operation,
     im_key = key, im_hash = io_hash x, im_body = body, im_createdAt = now\<rparr>)"

definition idem_taken :: "idem_record list \<Rightarrow> idem_record \<Rightarrow> bool" where
  "idem_taken rs r = list_ex (\<lambda>q. im_auth q = im_auth r \<and> im_operation q = im_operation r \<and>
     im_key q = im_key r) rs"

text \<open>\<open>createMany\<close> with \<open>skipDuplicates\<close>.\<close>

definition idem_add_missing :: "idem_record list \<Rightarrow> db \<Rightarrow> db" where
  "idem_add_missing new d = d\<lparr>idempotency := fold (\<lambda>r rs. if idem_taken rs r then rs else rs @ [r])
     new (idempotency d)\<rparr>"

definition idem_replay :: "time \<Rightarrow> 'r idem_options \<Rightarrow> idem_record \<Rightarrow> db \<Rightarrow> (bool \<times> 'r \<times> db) outcome" where
  "idem_replay now x existing d =
     (if im_hash existing \<noteq> io_hash x then Inl (ApiError ''duplicate_reference_conflict'' 409)
      else let d1 = idem_add_missing (map (idem_row now x (im_body existing))
          (filter (\<lambda>i. i \<noteq> (im_operation existing, im_key existing)) (record_identities x))) d
        in map_outcome (\<lambda>r. (True, r, d1)) (io_replay x (im_body existing) d1))"

definition idem_first :: "time \<Rightarrow> 'r idem_options \<Rightarrow> db \<Rightarrow> (bool \<times> 'r \<times> db) outcome" where
  "idem_first now x d = and_then (io_execute x d) (\<lambda>(result, d1).
     let new = map (idem_row now x (io_store x result)) (record_identities x) in
     if list_ex (idem_taken (idempotency d1)) new then Inl (RuntimeError ''Unique constraint failed'')
     else Inr (False, result, d1\<lparr>idempotency := idempotency d1 @ new\<rparr>))"

definition execute :: "time \<Rightarrow> 'r idem_options \<Rightarrow> db \<Rightarrow> (bool \<times> 'r \<times> db) outcome" where
  "execute now x d =
     (if starts_with (io_key x) reference_prefix then Inl (ApiError ''validation_error'' 422)
      else case first_by im_createdAt (filter (idem_matches x) (idempotency d)) of
        Some existing \<Rightarrow> idem_replay now x existing d
      | None \<Rightarrow> idem_first now x d)"

section \<open>Deposits\<close>

datatype deposit_scenario = Dsc_success | Dsc_wrong_amount | Dsc_late | Dsc_duplicate | Dsc_ambiguous

record deposit_input =
  di_txRef :: string
  di_customerId :: string
  di_firstName :: string
  di_lastName :: "string option"
  di_phone :: string
  di_amount :: string
  di_scenario :: "deposit_scenario option"

text \<open>The random numbers of the simulator: a transaction number, two event ids.\<close>

record sim_random =
  sr_tx :: string
  sr_event1 :: string
  sr_event2 :: string

definition find_deposit :: "db \<Rightarrow> id \<Rightarrow> deposit_intent option" where
  "find_deposit d i = find (\<lambda>x. dp_id x = i) (deposits d)"

definition set_deposit :: "id \<Rightarrow> (deposit_intent \<Rightarrow> deposit_intent) \<Rightarrow> db \<Rightarrow> db" where
  "set_deposit i f d = d\<lparr>deposits := update_where (\<lambda>x. dp_id x = i) f (deposits d)\<rparr>"

definition synthetic_receipt :: "time \<Rightarrow> deposit_intent \<Rightarrow> money \<Rightarrow> string \<Rightarrow> string \<Rightarrow> id \<Rightarrow> sms_receipt" where
  "synthetic_receipt now x actual tx event rid = \<lparr>rc_id = rid, rc_eventId = event, rc_sim = dp_sim x,
     rc_direction = ''incoming'', rc_type = ''incoming_transfer'', rc_providerTx = Some tx,
     rc_amount = Some actual, rc_name = Some (dp_customerName x),
     rc_suffix = Some (last_n 4 (dp_customerPhone x)), rc_prefix = None, rc_occurredAt = Some now,
     rc_receivedAt = now\<rparr>"

definition receipt_taken :: "db \<Rightarrow> sms_receipt \<Rightarrow> bool" where
  "receipt_taken d r = list_ex (\<lambda>q. rc_eventId q = rc_eventId r \<or>
     (rc_providerTx r \<noteq> None \<and> rc_providerTx q = rc_providerTx r)) (receipts d)"

definition add_receipt :: "sms_receipt \<Rightarrow> db \<Rightarrow> db" where
  "add_receipt r d = d\<lparr>receipts := receipts d @ [r], next_id := Suc (next_id d)\<rparr>"

text \<open>Two copies of one provider message: the second must be suppressed.\<close>

definition duplicate_receipts ::
  "time \<Rightarrow> deposit_intent \<Rightarrow> money \<Rightarrow> sim_random \<Rightarrow> db \<Rightarrow> (id option \<times> db) outcome" where
  "duplicate_receipts now x actual rnd d =
     (let rid = next_id d; first = synthetic_receipt now x actual (sr_tx rnd) (sr_event1 rnd) rid in
      if receipt_taken d first then Inl (RuntimeError ''Unique constraint failed'')
      else
        let d1 = add_receipt first d;
            second = synthetic_receipt now x actual (sr_tx rnd) (sr_event2 rnd) (next_id d1);
            count = (if receipt_taken d1 second then 0 else 1 :: nat)
        in if count \<noteq> 0 then Inl (RuntimeError ''Duplicate provider transaction ID was not suppressed'')
           else Inr (Some rid, d1))"

definition deposit_test_success ::
  "time \<Rightarrow> auth \<Rightarrow> deposit_intent \<Rightarrow> deposit_scenario \<Rightarrow> sim_random \<Rightarrow> db \<Rightarrow> db outcome" where
  "deposit_test_success now auth x sc rnd d =
     (let actual = (if sc = Dsc_wrong_amount then dp_amount x + 100 else dp_amount x) in
      and_then (if sc = Dsc_duplicate then duplicate_receipts now x actual rnd d else Inr (None, d))
        (\<lambda>(receipt, d1).
      and_then (creditDeposit auth (dp_id x) actual d1) (\<lambda>d2.
        if dep_tx_taken d2 (dp_id x) (sr_tx rnd) then Inl (RuntimeError ''Unique constraint failed'')
        else
          let d3 = set_sim (dp_sim x) (\<lambda>s. s\<lparr>sim_main := sim_main s + actual\<rparr>) d2;
              d4 = set_deposit (dp_id x) (\<lambda>y. y\<lparr>dp_status := D_success, dp_credited := Some actual,
                     dp_providerTx := Some (sr_tx rnd), dp_receipt := or_else_opt receipt (dp_receipt y)\<rparr>) d3
          in Inr (emit now ''deposit'' (dp_id x) (if dp_topup x then ''topup.updated'' else ''deposit.updated'')
               [(''tx_ref'', JStr (dp_txRef x)), (''status'', JStr ''success''),
                (''p2p_status'', JStr ''success'')] d4))))"

definition deposit_applyTestScenario ::
  "time \<Rightarrow> auth \<Rightarrow> deposit_intent \<Rightarrow> deposit_scenario \<Rightarrow> sim_random \<Rightarrow> db \<Rightarrow> db outcome" where
  "deposit_applyTestScenario now auth x sc rnd d = (case sc of
       Dsc_late \<Rightarrow> Inr (set_deposit (dp_id x) (\<lambda>y. y\<lparr>dp_status := D_late_grace, dp_expiresAt := now - 1000\<rparr>) d)
     | Dsc_ambiguous \<Rightarrow> Inr (set_deposit (dp_id x) (\<lambda>y. y\<lparr>dp_status := D_manual_review\<rparr>) d)
     | _ \<Rightarrow> deposit_test_success now auth x sc rnd d)"

record deposit_view =
  dw_txRef :: string
  dw_amount :: string
  dw_credited :: "string option"
  dw_status :: coarse_status
  dw_p2pStatus :: deposit_status
  dw_assignedMasked :: string
  dw_receiverName :: string
  dw_expiresAt :: time
  dw_graceEndsAt :: time
  dw_createdAt :: time
  dw_countdownSeconds :: int
  dw_lateGraceSeconds :: int
  dw_providerTx :: "string option"

fun coarseDepositStatus :: "deposit_status \<Rightarrow> coarse_status" where
  "coarseDepositStatus D_success = Success"
| "coarseDepositStatus D_failed = Failed"
| "coarseDepositStatus D_expired = Failed"
| "coarseDepositStatus st = Pending"

definition maskPhone :: "string \<Rightarrow> string" where
  "maskPhone phone = take 7 phone @ ''****'' @ last_n 2 phone"

text \<open>\<open>Math.round(ms / 1000)\<close>: halves are rounded up.\<close>

definition round_seconds :: "int \<Rightarrow> int" where
  "round_seconds ms = (ms + 500) div 1000"

definition view_deposit :: "deposit_intent \<Rightarrow> sim_wallet \<Rightarrow> deposit_view" where
  "view_deposit x s = \<lparr>dw_txRef = dp_txRef x, dw_amount = minorToAmount (dp_amount x),
     dw_credited = map_option minorToAmount (dp_credited x), dw_status = coarseDepositStatus (dp_status x),
     dw_p2pStatus = dp_status x, dw_assignedMasked = maskPhone (sim_phone s),
     dw_receiverName = sim_accountName s, dw_expiresAt = dp_expiresAt x,
     dw_graceEndsAt = dp_graceEndsAt x, dw_createdAt = dp_createdAt x,
     dw_countdownSeconds = max 0 (round_seconds (dp_expiresAt x - dp_createdAt x)),
     dw_lateGraceSeconds = max 0 (round_seconds (dp_graceEndsAt x - dp_expiresAt x)),
     dw_providerTx = dp_providerTx x\<rparr>"

definition deposit_with_sim :: "db \<Rightarrow> (deposit_intent \<Rightarrow> bool) \<Rightarrow> (deposit_intent \<times> sim_wallet) option" where
  "deposit_with_sim d p = (case find p (deposits d) of None \<Rightarrow> None
     | Some x \<Rightarrow> (case find_sim d (dp_sim x) of None \<Rightarrow> None | Some s \<Rightarrow> Some (x, s)))"

definition new_deposit ::
  "time \<Rightarrow> auth \<Rightarrow> deposit_input \<Rightarrow> bool \<Rightarrow> merchant_config \<Rightarrow> money \<Rightarrow> id \<Rightarrow> id \<Rightarrow> deposit_intent" where
  "new_deposit now auth input topup config amount sim did =
     (let expiresAt = now + cfg_countdownSeconds config * 1000 in
      \<lparr>dp_id = did, dp_merchant = fst auth, dp_env = snd auth, dp_sim = sim, dp_txRef = di_txRef input,
       dp_customerId = di_customerId input,
       dp_customerName = trim (di_firstName input @ '' '' @ or_else (di_lastName input) []),
       dp_customerPhone = di_phone input, dp_amount = amount, dp_credited = None,
       dp_status = D_awaiting_payment, dp_topup = topup, dp_expiresAt = expiresAt,
       dp_graceEndsAt = expiresAt + cfg_lateGraceSeconds config * 1000, dp_receipt = None,
       dp_providerTx = None, dp_createdAt = now\<rparr>)"

definition active_intent :: "auth \<Rightarrow> string \<Rightarrow> db \<Rightarrow> bool" where
  "active_intent auth customer d = list_ex (\<lambda>x. dep_auth x = auth \<and> dp_customerId x = customer \<and>
     dp_status x \<in> {D_awaiting_payment, D_late_grace, D_matching}) (deposits d)"

definition txRef_taken :: "auth \<Rightarrow> string \<Rightarrow> db \<Rightarrow> bool" where
  "txRef_taken auth txRef d = list_ex (\<lambda>x. dep_auth x = auth \<and> dp_txRef x = txRef) (deposits d)"

text \<open>The body of \<open>initialize\<close> that the idempotency wrapper runs.\<close>

definition initialize_deposit ::
  "time \<Rightarrow> auth \<Rightarrow> deposit_input \<Rightarrow> bool \<Rightarrow> sim_random \<Rightarrow> db \<Rightarrow> (deposit_view \<times> db) outcome" where
  "initialize_deposit now auth input topup rnd d =
     (let (config, d1) = upsert_config (fst auth) d in
      and_then (amountToMinor (di_amount input)) (\<lambda>amount.
      if amount < cfg_depositMin config \<or> cfg_depositMax config < amount then
        Inl (ApiError ''validation_error'' 422)
      else if active_intent auth (di_customerId input) d1 then Inl (ApiError ''active_intent_exists'' 409)
      else and_then (selectForDeposit now auth (di_customerId input) (di_phone input) amount d1) (\<lambda>(sim, d2).
      if txRef_taken auth (di_txRef input) d2 then Inl (RuntimeError ''Unique constraint failed'')
      else
        let did = next_id d2;
            x = new_deposit now auth input topup config amount (sim_id sim) did;
            d3 = d2\<lparr>deposits := deposits d2 @ [x], next_id := Suc did\<rparr>
        in and_then (case di_scenario input of
               Some sc \<Rightarrow> if snd auth = Test then deposit_applyTestScenario now auth x sc rnd d3 else Inr d3
             | None \<Rightarrow> Inr d3) (\<lambda>d4.
           case deposit_with_sim d4 (\<lambda>y. dp_id y = did) of
             None \<Rightarrow> Inl (RuntimeError ''No DepositIntent found'')
           | Some (y, s) \<Rightarrow> Inr (view_deposit y s, d4)))))"

definition deposit_view_at :: "time \<Rightarrow> deposit_intent \<Rightarrow> deposit_intent" where
  "deposit_view_at now x =
     (if dp_status x = D_awaiting_payment \<and> dp_expiresAt x \<le> now then
        x\<lparr>dp_status := (if now < dp_graceEndsAt x then D_late_grace else D_expired)\<rparr>
      else if dp_status x = D_late_grace \<and> dp_graceEndsAt x \<le> now then x\<lparr>dp_status := D_expired\<rparr>
      else x)"

definition verify_deposit :: "time \<Rightarrow> auth \<Rightarrow> string \<Rightarrow> db \<Rightarrow> deposit_view outcome" where
  "verify_deposit now auth txRef d =
     (case deposit_with_sim d (\<lambda>x. dep_auth x = auth \<and> dp_txRef x = txRef) of
        None \<Rightarrow> Inl (ApiError ''not_found'' 404)
      | Some (x, s) \<Rightarrow> Inr (view_deposit (deposit_view_at now x) s))"

text \<open>The checkout page: \<open>claimed\<close> is the deposit id of the verified token.\<close>

definition hostedCheckout :: "id \<Rightarrow> string \<Rightarrow> db \<Rightarrow> (deposit_view \<times> string \<times> string) outcome" where
  "hostedCheckout claimed txRef d = (case deposit_with_sim d (\<lambda>x. dp_id x = claimed) of
       None \<Rightarrow> Inl (ApiError ''not_found'' 404)
     | Some (x, s) \<Rightarrow> if dp_txRef x \<noteq> txRef then Inl (ApiError ''not_found'' 404)
         else Inr (view_deposit x s, sim_phone s, sim_accountName s))"

text \<open>The whole request, with the hash of its payload.\<close>

definition initialize_request ::
  "time \<Rightarrow> auth \<Rightarrow> deposit_input \<Rightarrow> string \<Rightarrow> string \<Rightarrow> bool \<Rightarrow> sim_random \<Rightarrow> (deposit_view \<Rightarrow> json) \<Rightarrow>
   (json \<Rightarrow> deposit_view) \<Rightarrow> db \<Rightarrow> (bool \<times> deposit_view \<times> db) outcome" where
  "initialize_request now auth input key hash topup rnd store replay =
     execute now \<lparr>io_auth = auth,
       io_operation = (if topup then ''topups.initialize'' else ''transaction.initialize''),
       io_key = key, io_referenceKey = Some (di_txRef input),
       io_referenceOperation = Some ''deposits.reference'', io_hash = hash,
       io_execute = initialize_deposit now auth input topup rnd, io_store = store, io_replay = (\<lambda>j d. Inr (replay j))\<rparr>"

definition create_request ::
  "time \<Rightarrow> string \<Rightarrow> auth \<Rightarrow> transfer_input \<Rightarrow> string \<Rightarrow> string \<Rightarrow> (transfer_view \<Rightarrow> json) \<Rightarrow>
   (json \<Rightarrow> transfer_view) \<Rightarrow> db \<Rightarrow> (bool \<times> transfer_view \<times> db) outcome" where
  "create_request now sim_tx auth input key hash store replay =
     execute now \<lparr>io_auth = auth, io_operation = ''transfers.create'', io_key = key,
       io_referenceKey = Some (ti_reference input), io_referenceOperation = None, io_hash = hash,
       io_execute = (\<lambda>d. and_then (create_transfer now sim_tx auth input d) (\<lambda>(tid, d').
         case find_transfer d' tid of None \<Rightarrow> Inl (RuntimeError ''No Transfer found'')
         | Some t \<Rightarrow> Inr (view_transfer now t, d'))),
       io_store = store, io_replay = (\<lambda>j d. Inr (replay j))\<rparr>"

end
