(* ===== verification/Settlements.thy ===== *)
theory Settlements
  imports Requests
begin

text \<open>
  Merchant settlements, \<open>apps/api/src/settlements/settlements.service.ts\<close>: a request waits
  for one review; its approval queues a payout, after which the status follows the payout. The
  actor stands for the API key or the reviewer.
\<close>

record settlement_input =
  si_reference :: string
  si_phone :: string
  si_expectedName :: string
  si_amount :: string

definition find_settlement :: "db \<Rightarrow> id \<Rightarrow> settlement_request option" where
  "find_settlement d i = find (\<lambda>s. st_id s = i) (settlements d)"

definition canReviewSettlement :: "settlement_status \<Rightarrow> bool" where
  "canReviewSettlement st = (st = S_requested)"

definition settlementTransferReference :: "id \<Rightarrow> string" where
  "settlementTransferReference i = ''SET:'' @ nat_to_digits i"

definition transferSettlementStatus :: "transfer_status \<Rightarrow> settlement_status" where
  "transferSettlementStatus st = (case st of
       T_success \<Rightarrow> S_success | T_failed \<Rightarrow> S_failed | T_unknown \<Rightarrow> S_unknown
     | T_manual_review \<Rightarrow> S_manual_review | _ \<Rightarrow> S_dispatched)"

fun settlement_status_text :: "settlement_status \<Rightarrow> string" where
  "settlement_status_text S_requested = ''requested''"
| "settlement_status_text S_approved = ''approved''"
| "settlement_status_text S_rejected = ''rejected''"
| "settlement_status_text S_dispatched = ''dispatched''"
| "settlement_status_text S_success = ''success''"
| "settlement_status_text S_failed = ''failed''"
| "settlement_status_text S_unknown = ''unknown''"
| "settlement_status_text S_manual_review = ''manual_review''"

record settlement_view =
  sv_id :: id
  sv_reference :: string
  sv_amountText :: string
  sv_phoneMasked :: string
  sv_expectedName :: string
  sv_status :: settlement_status
  sv_transferReference :: "string option"
  sv_reviewReason :: "string option"
  sv_requestedAt :: time
  sv_reviewedAt :: "time option"

definition view_settlement :: "settlement_request \<Rightarrow> transfer option \<Rightarrow> settlement_view" where
  "view_settlement s t = \<lparr>sv_id = st_id s, sv_reference = st_reference s,
     sv_amountText = minorToAmount (st_amount s), sv_phoneMasked = maskPhone (st_phone s),
     sv_expectedName = st_expectedName s,
     sv_status = (case t of None \<Rightarrow> st_status s | Some x \<Rightarrow> transferSettlementStatus (tr_status x)),
     sv_transferReference = map_option tr_reference t, sv_reviewReason = st_reviewReason s,
     sv_requestedAt = st_createdAt s, sv_reviewedAt = st_reviewedAt s\<rparr>"

definition transfer_of_settlement :: "db \<Rightarrow> settlement_request \<Rightarrow> transfer option" where
  "transfer_of_settlement d s =
     (case st_transfer s of None \<Rightarrow> None | Some i \<Rightarrow> find_transfer d i)"

definition emit_settlement :: "time \<Rightarrow> settlement_request \<Rightarrow> string \<Rightarrow> settlement_status \<Rightarrow> db \<Rightarrow> db" where
  "emit_settlement now s coarse p2p d = emit now ''settlement'' (st_id s) ''settlement.updated''
     [(''reference'', JStr (st_reference s)), (''status'', JStr coarse),
      (''p2p_status'', JStr (settlement_status_text p2p))] d"

definition request_settlement ::
  "time \<Rightarrow> auth \<Rightarrow> settlement_input \<Rightarrow> string \<Rightarrow> db \<Rightarrow> (settlement_view \<times> db) outcome" where
  "request_settlement now auth input actor d =
     and_then (amountToMinor (si_amount input)) (\<lambda>amount.
     if list_ex (\<lambda>s. st_merchant s = fst auth \<and> st_env s = snd auth \<and> st_reference s = si_reference input)
         (settlements d) then Inl (RuntimeError ''Unique constraint failed'')
     else
       let sid = next_id d;
           s = \<lparr>st_id = sid, st_merchant = fst auth, st_env = snd auth, st_reference = si_reference input,
             st_phone = si_phone input, st_expectedName = si_expectedName input, st_amount = amount,
             st_status = S_requested, st_transfer = None, st_requestedBy = actor, st_reviewedBy = None,
             st_reviewReason = None, st_reviewedAt = None, st_createdAt = now\<rparr>;
           d1 = d\<lparr>settlements := settlements d @ [s], next_id := Suc sid\<rparr>
       in Inr (view_settlement s None, log_audit (Some (fst auth)) ''merchant_api_key'' actor
            ''settlement.request'' ''settlement'' sid None (emit_settlement now s ''pending'' S_requested d1)))"

definition request_settlement_idempotent ::
  "time \<Rightarrow> auth \<Rightarrow> settlement_input \<Rightarrow> string \<Rightarrow> string \<Rightarrow> string \<Rightarrow> (settlement_view \<Rightarrow> json) \<Rightarrow>
   (json \<Rightarrow> settlement_view) \<Rightarrow> db \<Rightarrow> (bool \<times> settlement_view \<times> db) outcome" where
  "request_settlement_idempotent now auth input actor key hash store replay =
     execute now \<lparr>io_auth = auth, io_operation = ''settlements.create'', io_key = key,
       io_referenceKey = Some (si_reference input), io_referenceOperation = None, io_hash = hash,
       io_execute = request_settlement now auth input actor, io_store = store, io_replay = (\<lambda>j d. Inr (replay j))\<rparr>"

definition get_settlement :: "auth \<Rightarrow> string \<Rightarrow> db \<Rightarrow> settlement_view outcome" where
  "get_settlement auth reference d =
     (case find (\<lambda>s. st_merchant s = fst auth \<and> st_env s = snd auth \<and> st_reference s = reference)
         (settlements d) of
        None \<Rightarrow> Inl (ApiError ''not_found'' 404)
      | Some s \<Rightarrow> Inr (view_settlement s (transfer_of_settlement d s)))"

definition list_settlements :: "auth \<Rightarrow> db \<Rightarrow> settlement_view list" where
  "list_settlements auth d = map (\<lambda>s. view_settlement s (transfer_of_settlement d s))
     (take 200 (sort_key (\<lambda>s. - st_createdAt s)
       (filter (\<lambda>s. st_merchant s = fst auth \<and> st_env s = snd auth) (settlements d))))"

definition listForAdmin_settlements ::
  "string option \<Rightarrow> db \<Rightarrow> (settlement_view \<times> id) list outcome" where
  "listForAdmin_settlements st d =
     (if truthy st \<and> the st \<notin> {''requested'', ''approved'', ''rejected'', ''dispatched'', ''success'',
        ''failed'', ''unknown'', ''manual_review''} then Inl (ApiError ''validation_error'' 400)
      else Inr (map (\<lambda>s. (view_settlement s (transfer_of_settlement d s), st_merchant s))
        (take 500 (sort_key (\<lambda>s. - st_createdAt s)
          (filter (\<lambda>s. truthy st \<longrightarrow> settlement_status_text (st_status s) = the st) (settlements d))))))"

definition settlement_transfer_input :: "settlement_request \<Rightarrow> transfer_input" where
  "settlement_transfer_input s = \<lparr>ti_reference = settlementTransferReference (st_id s),
     ti_customerId = ''merchant-settlement'', ti_phone = st_phone s, ti_expectedName = st_expectedName s,
     ti_amount = minorToAmount (st_amount s), ti_alternate = False, ti_scenario = None\<rparr>"

definition status_after_queue :: "transfer_status \<Rightarrow> settlement_status" where
  "status_after_queue st = (if st = T_success then S_success else if st = T_failed then S_failed
     else if st = T_unknown then S_unknown else S_dispatched)"

definition settlement_coarse :: "settlement_status \<Rightarrow> string" where
  "settlement_coarse st = (if st = S_failed then ''failed'' else if st = S_success then ''success''
     else ''pending'')"

definition review :: "settlement_status \<Rightarrow> string \<Rightarrow> string \<Rightarrow> time \<Rightarrow> settlement_request \<Rightarrow> settlement_request" where
  "review st reviewer reason now s = s\<lparr>st_status := st, st_reviewedBy := Some reviewer,
     st_reviewReason := Some reason, st_reviewedAt := Some now\<rparr>"

definition approve_reviewed ::
  "time \<Rightarrow> string \<Rightarrow> settlement_request \<Rightarrow> string \<Rightarrow> string \<Rightarrow> db \<Rightarrow> (settlement_view \<times> db) outcome" where
  "approve_reviewed now sim_tx s reason reviewer d =
     (let d1 = set_settlement (st_id s) (review S_approved reviewer reason now) d in
      and_then (queueTransfer now sim_tx (st_merchant s, st_env s) (settlement_transfer_input s)
          \<lparr>qo_kind = Merchant_settlement, qo_mode = Merchant_debit, qo_priority = 300, qo_sim = None\<rparr> d1)
        (\<lambda>(tid, d2). case find_transfer d2 tid of
           None \<Rightarrow> Inl (RuntimeError ''No Transfer found'')
         | Some t \<Rightarrow>
             let status = status_after_queue (tr_status t);
                 d3 = set_settlement (st_id s) (\<lambda>x. x\<lparr>st_transfer := Some tid, st_status := status\<rparr>) d2;
                 d4 = log_audit (Some (st_merchant s)) ''platform_admin'' reviewer ''settlement.approve''
                        ''settlement'' (st_id s) (Some reason) d3;
                 d5 = emit_settlement now s (settlement_coarse status) status d4
             in case find_settlement d5 (st_id s) of
                  None \<Rightarrow> Inl (RuntimeError ''Record to update not found'')
                | Some s' \<Rightarrow> Inr (view_settlement s' (Some t), d5)))"

definition approve_settlement ::
  "time \<Rightarrow> string \<Rightarrow> id \<Rightarrow> string \<Rightarrow> string \<Rightarrow> db \<Rightarrow> (settlement_view \<times> db) outcome" where
  "approve_settlement now sim_tx sid reason reviewer d = (case find_settlement d sid of
       None \<Rightarrow> Inl (ApiError ''not_found'' 404)
     | Some s \<Rightarrow>
         if transfer_of_settlement d s \<noteq> None \<and> st_status s \<in> {S_approved, S_dispatched, S_success,
             S_failed, S_unknown, S_manual_review}
         then Inr (view_settlement s (transfer_of_settlement d s), d)
         else if \<not> canReviewSettlement (st_status s) then Inl (ApiError ''invalid_state'' 409)
         else approve_reviewed now sim_tx s reason reviewer d)"

definition reject_settlement ::
  "time \<Rightarrow> id \<Rightarrow> string \<Rightarrow> string \<Rightarrow> db \<Rightarrow> (settlement_view \<times> db) outcome" where
  "reject_settlement now sid reason reviewer d = (case find_settlement d sid of
       None \<Rightarrow> Inl (ApiError ''not_found'' 404)
     | Some s \<Rightarrow>
         if st_status s = S_rejected then Inr (view_settlement s None, d)
         else if \<not> canReviewSettlement (st_status s) then Inl (ApiError ''invalid_state'' 409)
         else
           let d1 = set_settlement sid (review S_rejected reviewer reason now) d;
               d2 = log_audit (Some (st_merchant s)) ''platform_admin'' reviewer ''settlement.reject''
                      ''settlement'' sid (Some reason) d1;
               s' = review S_rejected reviewer reason now s
           in Inr (view_settlement s' (transfer_of_settlement d s),
                emit_settlement now s ''failed'' S_rejected d2))"

end
