(* ===== verification/Sweeps.thy ===== *)
theory Sweeps
  imports Settlements
begin

text \<open>
  Automatic sweeps, \<open>apps/api/src/sweeps/sweeps.service.ts\<close>: a merchant proposes a rule, the
  platform approves it, and each minute every approved rule moves the excess of the wallets of
  its group to an approved destination. Each wallet is handled in a transaction of its own, so
  the errors of one leave the others alone. The run returns its result beside the database: a
  failure does not undo the transactions before it.
\<close>

section \<open>Amounts and modes\<close>

record sweep_amounts =
  sa_balance :: money
  sa_reserved :: money
  sa_safety :: money
  sa_highWater :: money
  sa_target :: money
  sa_maxPerRun :: money

definition calculateSweepAmount :: "sweep_amounts \<Rightarrow> money" where
  "calculateSweepAmount x =
     (let usable = sa_balance x - sa_reserved x - sa_safety x in
      if usable \<le> sa_highWater x then 0
      else let excess = usable - sa_target x in
        if excess \<le> 0 \<or> sa_maxPerRun x \<le> 0 then 0
        else if excess < sa_maxPerRun x then excess else sa_maxPerRun x)"

definition financialModeForDestination :: "sweep_destination \<Rightarrow> financial_mode" where
  "financialModeForDestination dest = (if dest = Merchant_owned then Merchant_debit else Internal_move)"

definition executionStatusFromTransfer :: "transfer_status \<Rightarrow> sweep_status" where
  "executionStatusFromTransfer st = (case st of
       T_success \<Rightarrow> X_success | T_failed \<Rightarrow> X_failed | T_unknown \<Rightarrow> X_unknown
     | T_manual_review \<Rightarrow> X_manual_review | T_device_started \<Rightarrow> X_device_started
     | T_committed \<Rightarrow> X_committed | T_provider_pending \<Rightarrow> X_provider_pending | _ \<Rightarrow> X_queued)"

fun sweep_status_text :: "sweep_status \<Rightarrow> string" where
  "sweep_status_text X_queued = ''queued''"
| "sweep_status_text X_device_started = ''device_started''"
| "sweep_status_text X_committed = ''committed''"
| "sweep_status_text X_provider_pending = ''provider_pending''"
| "sweep_status_text X_success = ''success''"
| "sweep_status_text X_failed = ''failed''"
| "sweep_status_text X_unknown = ''unknown''"
| "sweep_status_text X_manual_review = ''manual_review''"

section \<open>Checks\<close>

definition find_rule :: "db \<Rightarrow> id \<Rightarrow> sweep_rule option" where
  "find_rule d i = find (\<lambda>r. sr_id r = i) (sweepRules d)"

definition set_rule :: "id \<Rightarrow> (sweep_rule \<Rightarrow> sweep_rule) \<Rightarrow> db \<Rightarrow> db" where
  "set_rule i f d = d\<lparr>sweepRules := update_where (\<lambda>r. sr_id r = i) f (sweepRules d)\<rparr>"

definition requireMerchantRule :: "db \<Rightarrow> auth \<Rightarrow> id \<Rightarrow> sweep_rule outcome" where
  "requireMerchantRule d auth i =
     (case find (\<lambda>r. sr_id r = i \<and> sr_merchant r = fst auth \<and> sr_env r = snd auth) (sweepRules d) of
        None \<Rightarrow> Inl (ApiError ''not_found'' 404) | Some r \<Rightarrow> Inr r)"

definition assertGroupAccess :: "db \<Rightarrow> id \<Rightarrow> id \<Rightarrow> unit outcome" where
  "assertGroupAccess d merchant gid = (case find (\<lambda>g. g_id g = gid) (groups d) of
       None \<Rightarrow> Inl (ApiError ''not_found'' 404)
     | Some g \<Rightarrow>
         if g_code g = ''TEST-SIMULATOR'' then Inl (ApiError ''forbidden'' 403)
         else if \<not> list_ex (\<lambda>p. gp_merchant p = merchant) (g_merchants g) \<and>
             list_ex gp_dedicated (g_merchants g) then Inl (ApiError ''forbidden'' 403)
         else Inr ())"

definition assertDestinationNotFleet :: "db \<Rightarrow> string \<Rightarrow> unit outcome" where
  "assertDestinationNotFleet d phone =
     (if list_ex (\<lambda>s. sim_phone s = phone) (sims d) then Inl (ApiError ''invalid_state'' 409) else Inr ())"

definition approved_wallet :: "sweep_rule \<Rightarrow> treasury_wallet \<Rightarrow> bool" where
  "approved_wallet r w =
     (tw_status w = TW_active \<and>
      tw_merchant w = (if sr_destination r = Platform_treasury then None else Some (sr_merchant r)) \<and>
      nm_decision (comparePersonNames (tw_accountName w) (sr_destName r)) = Match)"

definition assertApprovedDestination :: "db \<Rightarrow> sweep_rule \<Rightarrow> unit outcome" where
  "assertApprovedDestination d r =
     (case find (\<lambda>w. tw_env w = sr_env r \<and> tw_phone w = sr_phone r) (treasuries d) of
        None \<Rightarrow> Inl (ApiError ''invalid_state'' 409)
      | Some w \<Rightarrow> if approved_wallet r w then Inr () else Inl (ApiError ''invalid_state'' 409))"

definition auditRule :: "sweep_rule \<Rightarrow> string \<Rightarrow> string \<Rightarrow> string \<Rightarrow> string \<Rightarrow> db \<Rightarrow> db" where
  "auditRule r actor actorType action reason d =
     log_audit (Some (sr_merchant r)) actorType actor action ''sweep_rule'' (sr_id r) (Some reason) d"

section \<open>Rules\<close>

record sweep_input =
  wi_group :: id
  wi_name :: string
  wi_destination :: sweep_destination
  wi_phone :: string
  wi_destName :: string
  wi_highWater :: string
  wi_target :: string
  wi_maxPerRun :: string
  wi_interval :: int

definition sweep_moneys :: "sweep_input \<Rightarrow> (money \<times> money \<times> money) outcome" where
  "sweep_moneys x = and_then (amountToMinor (wi_highWater x)) (\<lambda>h.
     and_then (amountToMinor (wi_target x)) (\<lambda>t.
       map_outcome (\<lambda>m. (h, t, m)) (amountToMinor (wi_maxPerRun x))))"

definition rule_name_taken :: "db \<Rightarrow> auth \<Rightarrow> id option \<Rightarrow> string \<Rightarrow> bool" where
  "rule_name_taken d auth except name = list_ex (\<lambda>r. sr_merchant r = fst auth \<and> sr_env r = snd auth \<and>
     sr_name r = name \<and> except \<noteq> Some (sr_id r)) (sweepRules d)"

definition create_rule :: "time \<Rightarrow> auth \<Rightarrow> sweep_input \<Rightarrow> string \<Rightarrow> db \<Rightarrow> (sweep_rule \<times> db) outcome" where
  "create_rule now auth x actor d =
     and_then (assertGroupAccess d (fst auth) (wi_group x)) (\<lambda>_.
     and_then (sweep_moneys x) (\<lambda>(h, t, m).
     if rule_name_taken d auth None (wi_name x) then Inl (RuntimeError ''Unique constraint failed'')
     else
       let rid = next_id d;
           r = \<lparr>sr_id = rid, sr_merchant = fst auth, sr_group = wi_group x, sr_env = snd auth,
             sr_name = wi_name x, sr_status = SR_pending, sr_destination = wi_destination x,
             sr_phone = wi_phone x, sr_destName = wi_destName x, sr_highWater = h, sr_target = t,
             sr_maxPerRun = m, sr_interval = wi_interval x, sr_enabled = True, sr_version = 1,
             sr_proposedBy = actor, sr_approvedBy = None, sr_approvalReason = None, sr_approvedAt = None,
             sr_lastExecutedAt = None, sr_createdAt = now\<rparr>
       in Inr (r, auditRule r actor ''merchant_api_key'' ''sweep_rule.create''
            ''Submitted for platform approval''
            (d\<lparr>sweepRules := sweepRules d @ [r], next_id := Suc rid\<rparr>))))"

text \<open>The new version of a rule waits for a new approval.\<close>

definition replaced_rule ::
  "sweep_input \<Rightarrow> string \<Rightarrow> money \<Rightarrow> money \<Rightarrow> money \<Rightarrow> sweep_rule \<Rightarrow> sweep_rule" where
  "replaced_rule x actor h t m r = r\<lparr>sr_group := wi_group x, sr_name := wi_name x,
     sr_destination := wi_destination x, sr_phone := wi_phone x, sr_destName := wi_destName x,
     sr_highWater := h, sr_target := t, sr_maxPerRun := m, sr_interval := wi_interval x,
     sr_enabled := True, sr_status := SR_pending, sr_version := sr_version r + 1,
     sr_proposedBy := actor, sr_approvedBy := None, sr_approvalReason := None, sr_approvedAt := None\<rparr>"

definition update_rule :: "auth \<Rightarrow> id \<Rightarrow> sweep_input \<Rightarrow> string \<Rightarrow> db \<Rightarrow> (sweep_rule \<times> db) outcome" where
  "update_rule auth i x actor d =
     and_then (requireMerchantRule d auth i) (\<lambda>current.
     and_then (assertGroupAccess d (fst auth) (wi_group x)) (\<lambda>_.
     and_then (sweep_moneys x) (\<lambda>(h, t, m).
     if rule_name_taken d auth (Some i) (wi_name x) then Inl (RuntimeError ''Unique constraint failed'')
     else
       let r = replaced_rule x actor h t m current
       in Inr (r, auditRule r actor ''merchant_api_key'' ''sweep_rule.update''
            (''Replaced version '' @ nat_to_digits (nat (sr_version current)) @
              ''; platform reapproval required'')
            (set_rule i (replaced_rule x actor h t m) d)))))"

definition disable_rule :: "auth \<Rightarrow> id \<Rightarrow> string \<Rightarrow> string \<Rightarrow> db \<Rightarrow> (sweep_rule \<times> db) outcome" where
  "disable_rule auth i reason actor d =
     and_then (requireMerchantRule d auth i) (\<lambda>current.
     if sr_status current = SR_disabled then Inr (current, d)
     else
       let f = (\<lambda>r. r\<lparr>sr_enabled := False, sr_status := SR_disabled\<rparr>)
       in Inr (f current, auditRule (f current) actor ''merchant_api_key'' ''sweep_rule.disable'' reason
            (set_rule i f d)))"

definition decided_rule ::
  "sweep_rule_status \<Rightarrow> string \<Rightarrow> string \<Rightarrow> time \<Rightarrow> sweep_rule \<Rightarrow> sweep_rule" where
  "decided_rule st reviewer reason now r = r\<lparr>sr_status := st, sr_enabled := (st = SR_approved),
     sr_approvedBy := Some reviewer, sr_approvalReason := Some reason, sr_approvedAt := Some now\<rparr>"

definition approve_rule :: "time \<Rightarrow> id \<Rightarrow> string \<Rightarrow> string \<Rightarrow> db \<Rightarrow> (sweep_rule \<times> db) outcome" where
  "approve_rule now i reason reviewer d = (case find_rule d i of
       None \<Rightarrow> Inl (ApiError ''not_found'' 404)
     | Some r \<Rightarrow>
         if sr_status r = SR_approved then Inr (r, d)
         else if sr_status r \<noteq> SR_pending then Inl (ApiError ''invalid_state'' 409)
         else and_then (assertDestinationNotFleet d (sr_phone r)) (\<lambda>_.
           and_then (assertApprovedDestination d r) (\<lambda>_.
             let f = decided_rule SR_approved reviewer reason now
             in Inr (f r, auditRule (f r) reviewer ''platform_admin'' ''sweep_rule.approve'' reason
                  (set_rule i f d)))))"

definition reject_rule :: "time \<Rightarrow> id \<Rightarrow> string \<Rightarrow> string \<Rightarrow> db \<Rightarrow> (sweep_rule \<times> db) outcome" where
  "reject_rule now i reason reviewer d = (case find_rule d i of
       None \<Rightarrow> Inl (ApiError ''not_found'' 404)
     | Some r \<Rightarrow>
         if sr_status r = SR_rejected then Inr (r, d)
         else if sr_status r \<noteq> SR_pending then Inl (ApiError ''invalid_state'' 409)
         else
           let f = decided_rule SR_rejected reviewer reason now
           in Inr (f r, auditRule (f r) reviewer ''platform_admin'' ''sweep_rule.reject'' reason (set_rule i f d)))"

text \<open>What a merchant and the platform see of a rule.\<close>

record rule_view =
  rw_id :: id
  rw_name :: string
  rw_group :: id
  rw_env :: environment
  rw_status :: sweep_rule_status
  rw_enabled :: bool
  rw_version :: int
  rw_destination :: sweep_destination
  rw_phone :: string
  rw_destName :: string
  rw_highWater :: string
  rw_target :: string
  rw_maxPerRun :: string
  rw_interval :: int
  rw_approvalReason :: "string option"
  rw_approvedAt :: "time option"
  rw_lastExecutedAt :: "time option"
  rw_createdAt :: time

definition viewRule :: "sweep_rule \<Rightarrow> rule_view" where
  "viewRule r = \<lparr>rw_id = sr_id r, rw_name = sr_name r, rw_group = sr_group r, rw_env = sr_env r,
     rw_status = sr_status r, rw_enabled = sr_enabled r, rw_version = sr_version r,
     rw_destination = sr_destination r, rw_phone = sr_phone r, rw_destName = sr_destName r,
     rw_highWater = minorToAmount (sr_highWater r), rw_target = minorToAmount (sr_target r),
     rw_maxPerRun = minorToAmount (sr_maxPerRun r), rw_interval = sr_interval r,
     rw_approvalReason = sr_approvalReason r, rw_approvedAt = sr_approvedAt r,
     rw_lastExecutedAt = sr_lastExecutedAt r, rw_createdAt = sr_createdAt r\<rparr>"

definition get_rule :: "auth \<Rightarrow> id \<Rightarrow> db \<Rightarrow> rule_view outcome" where
  "get_rule auth i d = map_outcome viewRule (requireMerchantRule d auth i)"

definition list_rules :: "auth \<Rightarrow> db \<Rightarrow> rule_view list" where
  "list_rules auth d = map viewRule (take 500 (sort_key (\<lambda>r. - sr_createdAt r)
     (filter (\<lambda>r. sr_merchant r = fst auth \<and> sr_env r = snd auth) (sweepRules d))))"

fun rule_status_text :: "sweep_rule_status \<Rightarrow> string" where
  "rule_status_text SR_pending = ''pending''"
| "rule_status_text SR_approved = ''approved''"
| "rule_status_text SR_rejected = ''rejected''"
| "rule_status_text SR_disabled = ''disabled''"

definition listForAdmin_rules :: "string option \<Rightarrow> db \<Rightarrow> (rule_view \<times> id) list outcome" where
  "listForAdmin_rules st d =
     (if truthy st \<and> the st \<notin> {''pending'', ''approved'', ''rejected'', ''disabled''}
      then Inl (ApiError ''validation_error'' 400)
      else Inr (map (\<lambda>r. (viewRule r, sr_merchant r)) (take 500 (sort_key (\<lambda>r. - sr_createdAt r)
        (filter (\<lambda>r. truthy st \<longrightarrow> rule_status_text (sr_status r) = the st) (sweepRules d))))))"

text \<open>The requests of the merchant behind the idempotency wrapper.\<close>

definition rule_request ::
  "time \<Rightarrow> auth \<Rightarrow> string \<Rightarrow> string \<Rightarrow> string \<Rightarrow> string \<Rightarrow> (db \<Rightarrow> (sweep_rule \<times> db) outcome) \<Rightarrow>
   (rule_view \<Rightarrow> json) \<Rightarrow> (json \<Rightarrow> rule_view) \<Rightarrow> db \<Rightarrow> (bool \<times> rule_view \<times> db) outcome" where
  "rule_request now auth operation key reference hash body store replay =
     execute now \<lparr>io_auth = auth, io_operation = operation, io_key = key, io_referenceKey = Some reference,
       io_referenceOperation = None, io_hash = hash, io_execute = (\<lambda>d. map_outcome (\<lambda>(r, d'). (viewRule r, d')) (body d)), io_store = store,
       io_replay = (\<lambda>j d. Inr (replay j))\<rparr>"

definition create_rule_request ::
  "time \<Rightarrow> auth \<Rightarrow> sweep_input \<Rightarrow> string \<Rightarrow> string \<Rightarrow> string \<Rightarrow> (rule_view \<Rightarrow> json) \<Rightarrow>
   (json \<Rightarrow> rule_view) \<Rightarrow> db \<Rightarrow> (bool \<times> rule_view \<times> db) outcome" where
  "create_rule_request now auth x actor key hash =
     rule_request now auth ''sweep_rules.create'' key (wi_name x) hash (create_rule now auth x actor)"

definition update_rule_request ::
  "time \<Rightarrow> auth \<Rightarrow> id \<Rightarrow> sweep_input \<Rightarrow> string \<Rightarrow> string \<Rightarrow> string \<Rightarrow> (rule_view \<Rightarrow> json) \<Rightarrow>
   (json \<Rightarrow> rule_view) \<Rightarrow> db \<Rightarrow> (bool \<times> rule_view \<times> db) outcome" where
  "update_rule_request now auth i x actor key hash =
     rule_request now auth (''sweep_rules.update:'' @ nat_to_digits i) key (nat_to_digits i) hash
       (update_rule auth i x actor)"

definition disable_rule_request ::
  "time \<Rightarrow> auth \<Rightarrow> id \<Rightarrow> string \<Rightarrow> string \<Rightarrow> string \<Rightarrow> string \<Rightarrow> (rule_view \<Rightarrow> json) \<Rightarrow>
   (json \<Rightarrow> rule_view) \<Rightarrow> db \<Rightarrow> (bool \<times> rule_view \<times> db) outcome" where
  "disable_rule_request now auth i reason actor key hash =
     rule_request now auth (''sweep_rules.disable:'' @ nat_to_digits i) key (nat_to_digits i) hash
       (disable_rule auth i reason actor)"

section \<open>Executions\<close>

definition active_execution :: "sweep_status \<Rightarrow> bool" where
  "active_execution st = (st \<in> {X_queued, X_device_started, X_committed, X_provider_pending, X_unknown,
     X_manual_review})"

definition pending_transfer :: "transfer_status \<Rightarrow> bool" where
  "pending_transfer st = (st \<in> {T_accepted, T_queued, T_device_assigned, T_device_started, T_committed,
     T_provider_pending, T_unknown, T_manual_review})"

definition pending_outflow :: "db \<Rightarrow> id \<Rightarrow> money" where
  "pending_outflow d sim = (let ts = filter (\<lambda>t. tr_sim t = Some sim \<and> pending_transfer (tr_status t)) (transfers d)
     in sum_list (map tr_amount ts) + sum_list (map tr_reserveFee ts))"

definition remaining_daily :: "time \<Rightarrow> db \<Rightarrow> device_group \<Rightarrow> merchant_config \<Rightarrow> sim_wallet \<Rightarrow> money" where
  "remaining_daily now d g config s =
     g_dailyLimit g - sent_today now s - pending_outflow d (sim_id s) - cfg_reserveFee config"

definition sweep_amount ::
  "time \<Rightarrow> db \<Rightarrow> sweep_rule \<Rightarrow> device_group \<Rightarrow> merchant_config \<Rightarrow> sim_wallet \<Rightarrow> money" where
  "sweep_amount now d r g config s =
     (let remaining = remaining_daily now d g config s in
      if remaining \<le> 0 then 0
      else calculateSweepAmount \<lparr>sa_balance = sim_main s, sa_reserved = sim_reserved s + cfg_reserveFee config,
        sa_safety = g_safetyBalance g, sa_highWater = sr_highWater r, sa_target = sr_target r,
        sa_maxPerRun = (if remaining < sr_maxPerRun r then remaining else sr_maxPerRun r)\<rparr>)"

definition sweep_ready :: "time \<Rightarrow> platform_policy \<Rightarrow> sweep_rule \<Rightarrow> sim_wallet \<Rightarrow> device \<Rightarrow> bool" where
  "sweep_ready now pol r s v =
     (dv_group v = sr_group r \<and> sim_status s = Sim_active \<and> dv_status v = Dev_online \<and>
      opt_holds (\<lambda>t. now - pp_balanceStaleSeconds pol * 1000 \<le> t) (sim_lastBalanceAt s) \<and>
      opt_holds (\<lambda>t. now - 90000 \<le> t) (dv_lastHeartbeatAt v))"

definition recent_execution :: "time \<Rightarrow> db \<Rightarrow> sweep_rule \<Rightarrow> id \<Rightarrow> bool" where
  "recent_execution now d r sim = list_ex (\<lambda>x. sx_rule x = sr_id r \<and> sx_sim x = sim \<and>
     (active_execution (sx_status x) \<or> now - sr_interval r * 1000 \<le> sx_createdAt x)) (sweepExecutions d)"

definition sweep_bucket :: "time \<Rightarrow> sweep_rule \<Rightarrow> int" where
  "sweep_bucket now r = now div (sr_interval r * 1000)"

definition sweep_reference :: "time \<Rightarrow> sweep_rule \<Rightarrow> id \<Rightarrow> string" where
  "sweep_reference now r sim = ''SWP:'' @ nat_to_digits (sr_id r) @ '':'' @ nat_to_digits sim @ '':'' @
     nat_to_digits (nat (sr_version r)) @ '':'' @ nat_to_digits (nat (sweep_bucket now r))"

definition sweep_transfer_input :: "time \<Rightarrow> sweep_rule \<Rightarrow> id \<Rightarrow> money \<Rightarrow> transfer_input" where
  "sweep_transfer_input now r sim amount = \<lparr>ti_reference = sweep_reference now r sim,
     ti_customerId = ''automatic-sweep'', ti_phone = sr_phone r, ti_expectedName = sr_destName r,
     ti_amount = minorToAmount amount, ti_alternate = False, ti_scenario = None\<rparr>"

definition dispatch_sweep ::
  "time \<Rightarrow> string \<Rightarrow> sweep_rule \<Rightarrow> sim_wallet \<Rightarrow> money \<Rightarrow> string \<Rightarrow> string \<Rightarrow> db \<Rightarrow>
   (sweep_execution option \<times> db) outcome" where
  "dispatch_sweep now sim_tx r s amount actor reason d =
     and_then (queueTransfer now sim_tx (sr_merchant r, sr_env r)
         (sweep_transfer_input now r (sim_id s) amount)
         \<lparr>qo_kind = Automatic_sweep, qo_mode = financialModeForDestination (sr_destination r),
          qo_priority = 200, qo_sim = Some s\<rparr> d) (\<lambda>(tid, d1).
     case find_transfer d1 tid of
       None \<Rightarrow> Inl (RuntimeError ''No Transfer found'')
     | Some t \<Rightarrow>
         let xid = next_id d1;
             x = \<lparr>sx_id = xid, sx_rule = sr_id r, sx_sim = sim_id s, sx_transfer = tid,
               sx_key = (sr_id r, sim_id s, sr_version r, sweep_bucket now r), sx_amount = amount,
               sx_status = executionStatusFromTransfer (tr_status t), sx_createdAt = now,
               sx_completedAt = (if tr_status t \<in> {T_success, T_failed} then Some now else None)\<rparr>;
             d2 = d1\<lparr>sweepExecutions := sweepExecutions d1 @ [x], next_id := Suc xid\<rparr>;
             d3 = set_rule (sr_id r) (\<lambda>q. q\<lparr>sr_lastExecutedAt := Some now\<rparr>) d2;
             d4 = log_audit (Some (sr_merchant r))
                    (if actor = ''sweep-orchestrator'' then ''system'' else ''platform_admin'') actor
                    ''sweep_execution.dispatch'' ''sweep_execution'' xid (Some reason) d3
         in Inr (Some x, emit now ''sweep_execution'' xid ''sweep.updated''
              [(''reference'', JStr (tr_reference t)), (''rule_id'', JId (sr_id r)),
               (''transfer_reference'', JStr (tr_reference t)),
               (''status'', JStr (if tr_status t = T_success then ''success''
                  else if tr_status t = T_failed then ''failed'' else ''pending'')),
               (''p2p_status'', JStr (sweep_status_text (sx_status x)))] d4))"

text \<open>The wallet and its phone and group, once every check at the point of execution passed.\<close>

definition sweep_target ::
  "time \<Rightarrow> db \<Rightarrow> sweep_rule \<Rightarrow> id \<Rightarrow> (sim_wallet \<times> device_group) option" where
  "sweep_target now d r sim = (case find_sim d sim of
       None \<Rightarrow> None
     | Some s \<Rightarrow> (case device_of d s of None \<Rightarrow> None
       | Some v \<Rightarrow> (case find (\<lambda>g. g_id g = sr_group r) (groups d) of None \<Rightarrow> None
         | Some g \<Rightarrow> if sweep_ready now (loadPlatformPolicy d) r s v \<and>
               \<not> recent_execution now d r sim then Some (s, g) else None)))"

definition executeCandidate ::
  "time \<Rightarrow> string \<Rightarrow> id \<Rightarrow> id \<Rightarrow> string \<Rightarrow> string \<Rightarrow> db \<Rightarrow> (sweep_execution option \<times> db) outcome" where
  "executeCandidate now sim_tx rid sim actor reason d = (case find_rule d rid of
       None \<Rightarrow> Inr (None, d)
     | Some r \<Rightarrow>
         if sr_status r \<noteq> SR_approved \<or> \<not> sr_enabled r \<or> sr_env r \<noteq> Live then Inr (None, d)
         else and_then (assertGroupAccess d (sr_merchant r) (sr_group r)) (\<lambda>_.
         and_then (assertDestinationNotFleet d (sr_phone r)) (\<lambda>_.
         and_then (assertApprovedDestination d r) (\<lambda>_.
           case sweep_target now d r sim of
             None \<Rightarrow> Inr (None, d)
           | Some (s, g) \<Rightarrow>
               let (config, d1) = upsert_config (sr_merchant r) d;
                   amount = sweep_amount now d1 r g config s
               in if amount \<le> 0 then Inr (None, d1)
                  else case find (\<lambda>x. sx_key x = (sr_id r, sim, sr_version r, sweep_bucket now r))
                      (sweepExecutions d1) of
                    Some x \<Rightarrow> Inr (Some x, d1)
                  | None \<Rightarrow> dispatch_sweep now sim_tx r s amount actor reason d1))))"

record execution_view =
  xw_id :: id
  xw_rule :: id
  xw_sim :: id
  xw_transferReference :: string
  xw_amount :: string
  xw_status :: sweep_status
  xw_createdAt :: time
  xw_completedAt :: "time option"

definition viewExecution :: "sweep_execution \<Rightarrow> transfer \<Rightarrow> execution_view" where
  "viewExecution x t = \<lparr>xw_id = sx_id x, xw_rule = sx_rule x, xw_sim = sx_sim x,
     xw_transferReference = tr_reference t, xw_amount = minorToAmount (sx_amount x),
     xw_status = sx_status x, xw_createdAt = sx_createdAt x, xw_completedAt = sx_completedAt x\<rparr>"

definition sweep_candidates :: "time \<Rightarrow> sweep_rule \<Rightarrow> db \<Rightarrow> sim_wallet list" where
  "sweep_candidates now r d = take 250 (sort_key (\<lambda>s. - sim_main s) (filter (\<lambda>s.
     sr_highWater r < sim_main s \<and>
     opt_holds (\<lambda>v. sweep_ready now (loadPlatformPolicy d) r s v \<and> dv_permissionsOk v \<and>
       dv_accessibilityOk v) (device_of d s)) (sims d)))"

text \<open>One wallet in its own transaction: an error is kept, its writes are not.\<close>

definition run_candidate ::
  "time \<Rightarrow> (id \<Rightarrow> string) \<Rightarrow> id \<Rightarrow> string \<Rightarrow> string \<Rightarrow> sim_wallet \<Rightarrow>
   execution_view list \<times> api_error list \<times> db \<Rightarrow> execution_view list \<times> api_error list \<times> db" where
  "run_candidate now sim_tx rid actor reason s = (\<lambda>(xs, errors, d).
     case executeCandidate now (sim_tx (sim_id s)) rid (sim_id s) actor reason d of
       Inl e \<Rightarrow> (xs, errors @ [e], d)
     | Inr (None, d') \<Rightarrow> (xs, errors, d')
     | Inr (Some x, d') \<Rightarrow> (case find_transfer d' (sx_transfer x) of
         None \<Rightarrow> (xs, errors @ [RuntimeError ''Inconsistent query result''], d)
       | Some t \<Rightarrow> (xs @ [viewExecution x t], errors, d')))"

definition executeRule ::
  "time \<Rightarrow> (id \<Rightarrow> string) \<Rightarrow> id \<Rightarrow> bool \<Rightarrow> string \<Rightarrow> string \<Rightarrow> db \<Rightarrow> execution_view list outcome \<times> db" where
  "executeRule now sim_tx rid strict actor reason d = (case find_rule d rid of
       None \<Rightarrow> (Inl (ApiError ''not_found'' 404), d)
     | Some r \<Rightarrow>
         if sr_status r \<noteq> SR_approved \<or> \<not> sr_enabled r \<or> sr_env r \<noteq> Live then
           (if strict then Inl (ApiError ''invalid_state'' 409) else Inr [], d)
         else
           let (xs, errors, d') = fold (run_candidate now sim_tx rid actor reason)
                 (sweep_candidates now r d) ([], [], d)
           in (case errors of
                 e # _ \<Rightarrow> if strict \<and> xs = [] then (Inl e, d') else (Inr xs, d')
               | [] \<Rightarrow> (Inr xs, d')))"

definition executeNow ::
  "time \<Rightarrow> (id \<Rightarrow> string) \<Rightarrow> id \<Rightarrow> string \<Rightarrow> string \<Rightarrow> db \<Rightarrow> execution_view list outcome \<times> db" where
  "executeNow now sim_tx rid reason reviewer d = executeRule now sim_tx rid True reviewer reason d"

definition nulls_first :: "time option \<Rightarrow> rank" where
  "nulls_first t = (case t of None \<Rightarrow> Rank 0 0 | Some v \<Rightarrow> Rank 1 v)"

definition orchestrateApprovedRules :: "time \<Rightarrow> (id \<Rightarrow> string) \<Rightarrow> db \<Rightarrow> db" where
  "orchestrateApprovedRules now sim_tx d =
     fold (\<lambda>r d'. snd (executeRule now sim_tx (sr_id r) False ''sweep-orchestrator''
         ''Approved high-water rule'' d'))
       (take 500 (sort_key (\<lambda>r. nulls_first (sr_lastExecutedAt r))
         (filter (\<lambda>r. sr_status r = SR_approved \<and> sr_enabled r \<and> sr_env r = Live) (sweepRules d)))) d"

end
