(* ===== verification/Reservations.thy ===== *)
theory Reservations
  imports Sweeps
begin

text \<open>
  What a payout reserves stays reserved until the payout is closed. The invariant
  \<open>holds_ok\<close> ties three books that the services keep separately: the ledger's reserved
  balance of a merchant, the reserved amount of every SIM, and the transfers that are still
  open. The rest of \<open>system_ok\<close> is what keeps it true: which ledger postings a transfer may
  have had, which job may still act on it, which job a phone's lock may name.
\<close>

declare split_paired_All [simp del] split_paired_Ex [simp del]

section \<open>The invariant\<close>

definition open_status :: "transfer_status \<Rightarrow> bool" where
  "open_status st = (st \<notin> {T_success, T_failed, T_cancelled})"

definition held :: "transfer \<Rightarrow> money" where
  "held t = (if tr_mode t = Merchant_debit then ledger_total t else tr_reserveFee t)"

definition ledger_held :: "db \<Rightarrow> auth \<Rightarrow> money" where
  "ledger_held d a =
     sum_list (map (\<lambda>t. if auth_of t = a \<and> open_status (tr_status t) then held t else 0) (transfers d))"

definition sim_held :: "db \<Rightarrow> id \<Rightarrow> money" where
  "sim_held d i = sum_list (map (\<lambda>t. if tr_sim t = Some i \<and> open_status (tr_status t)
     then physical_total t else 0) (transfers d))"

definition holds_ok :: "db \<Rightarrow> bool" where
  "holds_ok d \<longleftrightarrow> (\<forall>a. balance_of d (key_of a Reserved) = ledger_held d a) \<and>
     (\<forall>s \<in> set (sims d). sim_reserved s = sim_held d (sim_id s))"

definition rows_ok :: "db \<Rightarrow> bool" where
  "rows_ok d \<longleftrightarrow> distinct (map tr_id (transfers d)) \<and> distinct (map sim_id (sims d)) \<and>
     distinct (map at_id (attempts d)) \<and> distinct (map at_job (attempts d)) \<and>
     distinct (map jb_id (jobs d)) \<and> distinct (map dv_id (devices d)) \<and>
     (\<forall>t \<in> set (transfers d). tr_id t < next_id d \<and> (\<exists>i < next_id d. tr_sim t = Some i)) \<and>
     (\<forall>s \<in> set (sims d). sim_id s < next_id d) \<and>
     (\<forall>a \<in> set (attempts d). at_id a < next_id d \<and> at_transfer a < next_id d \<and>
        (\<exists>j < next_id d. at_job a = Some j)) \<and>
     (\<forall>j \<in> set (jobs d). jb_id j < next_id d) \<and>
     (\<forall>v \<in> set (devices d). dv_id v < next_id d \<and> (\<forall>j. dv_activeJob v = Some j \<longrightarrow> j < next_id d))"

definition release_source :: "string \<Rightarrow> bool" where
  "release_source s \<longleftrightarrow> s = ''withdrawal_release'' \<or> s = ''internal_move_fee_release''"

definition settle_source :: "string \<Rightarrow> bool" where
  "settle_source s \<longleftrightarrow> s = ''withdrawal_settlement'' \<or> s = ''internal_move_fee_settlement'' \<or>
     s = ''withdrawal_late_rereservation'' \<or> s = ''internal_move_fee_late_rereservation''"

definition reserve_source :: "string \<Rightarrow> bool" where
  "reserve_source s \<longleftrightarrow> s = ''withdrawal_reservation'' \<or> s = ''internal_move_fee_reservation''"

definition hold_source :: "string \<Rightarrow> bool" where
  "hold_source s \<longleftrightarrow> release_source s \<or> settle_source s \<or> reserve_source s"

definition posts_ok :: "db \<Rightarrow> bool" where
  "posts_ok d \<longleftrightarrow>
     (\<forall>s i. hold_source s \<and> find_journal d s i \<noteq> None \<longrightarrow> i < next_id d) \<and>
     (\<forall>t \<in> set (transfers d). \<forall>s. find_journal d s (tr_id t) \<noteq> None \<longrightarrow>
        (release_source s \<longrightarrow> \<not> open_status (tr_status t)) \<and>
        (settle_source s \<longrightarrow> tr_status t = T_success))"

definition attempts_ok :: "db \<Rightarrow> bool" where
  "attempts_ok d \<longleftrightarrow>
     (\<forall>a \<in> set (attempts d). \<exists>t \<in> set (transfers d). tr_id t = at_transfer a \<and> tr_env t = Live \<and>
        (\<forall>j \<in> set (jobs d). at_job a = Some (jb_id j) \<longrightarrow> tr_sim t = Some (jb_sim j))) \<and>
     (\<forall>t \<in> set (transfers d). tr_env t = Test \<longrightarrow> tr_status t \<noteq> T_manual_review)"

definition latest_attempt :: "db \<Rightarrow> transfer_attempt \<Rightarrow> bool" where
  "latest_attempt d a \<longleftrightarrow> (\<forall>b \<in> set (attempts d). at_transfer b = at_transfer a \<and> at_id b \<noteq> at_id a \<longrightarrow>
     at_number b < at_number a)"

definition jobs_ok :: "db \<Rightarrow> bool" where
  "jobs_ok d \<longleftrightarrow> (\<forall>j \<in> set (jobs d). \<forall>a \<in> set (attempts d).
     unfinished_job j \<and> at_job a = Some (jb_id j) \<longrightarrow> latest_attempt d a \<and>
     (\<forall>t \<in> set (transfers d). tr_id t = at_transfer a \<longrightarrow> \<not> terminal_transfer (tr_status t)))"

definition locks_ok :: "db \<Rightarrow> bool" where
  "locks_ok d \<longleftrightarrow> (\<forall>v \<in> set (devices d). \<forall>j \<in> set (jobs d). dv_activeJob v = Some (jb_id j) \<longrightarrow>
     lease_live (jb_state j) \<and> jb_device j = Some (dv_id v))"

definition system_ok :: "db \<Rightarrow> bool" where
  "system_ok d \<longleftrightarrow> ledger_ok d \<and> holds_ok d \<and> rows_ok d \<and> posts_ok d \<and> attempts_ok d \<and> jobs_ok d \<and>
     locks_ok d"

lemma system_ok_empty: "system_ok empty_db"
  using ledger_ok_empty
  by (simp add: system_ok_def holds_ok_def rows_ok_def posts_ok_def attempts_ok_def
      jobs_ok_def locks_ok_def empty_db_def ledger_held_def sim_held_def balance_of_def find_account_def
      find_journal_def)

section \<open>Writes the invariant does not see\<close>

definition same_core :: "db \<Rightarrow> db \<Rightarrow> bool" where
  "same_core d d' \<longleftrightarrow> same_ledger d d' \<and> transfers d' = transfers d \<and> sims d' = sims d \<and>
     attempts d' = attempts d \<and> jobs d' = jobs d \<and> devices d' = devices d"

lemma same_core_refl [simp]: "same_core d d"
  by (simp add: same_core_def)

lemma same_core_trans: "same_core d d1 \<Longrightarrow> same_core d1 d2 \<Longrightarrow> same_core d d2"
  by (auto simp: same_core_def same_ledger_def)

lemma same_ledger_reads:
  assumes "same_ledger d d'"
  shows "find_journal d' s i = find_journal d s i" and "balance_of d' k = balance_of d k"
  using assms by (auto simp: same_ledger_def find_journal_def balance_of_def find_account_def)

lemma system_ok_same_core:
  assumes ok: "system_ok d" and same: "same_core d d'"
  shows "system_ok d'"
proof -
  from same have rows: "transfers d' = transfers d" "sims d' = sims d" "attempts d' = attempts d"
      "jobs d' = jobs d" "devices d' = devices d" and sl: "same_ledger d d'"
    by (simp_all add: same_core_def)
  from sl have le: "next_id d \<le> next_id d'" by (simp add: same_ledger_def)
  note reads = same_ledger_reads [OF sl]
  from ok sl have "ledger_ok d'" by (auto simp: system_ok_def intro: ledger_ok_same)
  moreover from ok have "holds_ok d'"
    by (simp add: system_ok_def holds_ok_def ledger_held_def sim_held_def rows reads)
  moreover from ok le have "rows_ok d'"
    unfolding system_ok_def rows_ok_def rows by (meson less_le_trans)
  moreover from ok le have "posts_ok d'"
    unfolding system_ok_def posts_ok_def rows reads by (meson less_le_trans)
  moreover from ok have "attempts_ok d'" "jobs_ok d'" "locks_ok d'"
    by (simp_all add: system_ok_def attempts_ok_def jobs_ok_def locks_ok_def latest_attempt_def rows)
  ultimately show ?thesis by (simp add: system_ok_def)
qed


lemma same_core_writes [simp]:
  assumes "same_core d d'"
  shows "same_core d (emit now ty1 ai et p d')" and "same_core d (open_case now m ty st rt ri e d')"
    and "same_core d (log_audit mm a b c rt ri r d')" and "same_core d (emit_transfer now t co ps d')"
    and "same_core d (set_settlement si sf d')" and "same_core d (set_sweep xi xf d')"
    and "same_core d (add_inbox src ext h d')" and "same_core d (credit_treasury t d')"
  using assms
  by (auto simp: same_core_def same_ledger_def frame_simps emit_transfer_def set_settlement_def
      set_sweep_def add_inbox_def credit_treasury_def)

lemma same_core_fields [simp]:
  assumes "same_core d d'"
  shows "same_core d (d'\<lparr>cases := cs\<rparr>)" and "same_core d (d'\<lparr>settlements := ss\<rparr>)"
    and "same_core d (d'\<lparr>sweepExecutions := xs\<rparr>)" and "same_core d (d'\<lparr>deposits := ds\<rparr>)"
    and "same_core d (d'\<lparr>receipts := rs\<rparr>)" and "same_core d (d'\<lparr>snapshots := bs\<rparr>)"
    and "same_core d (d'\<lparr>sweepRules := rules\<rparr>)" and "same_core d (d'\<lparr>configs := gs\<rparr>)"
    and "same_core d (d'\<lparr>groups := gr\<rparr>)" and "same_core d (d'\<lparr>idempotency := im\<rparr>)"
    and "same_core d (d'\<lparr>activations := ac\<rparr>)" and "same_core d (d'\<lparr>qualRuns := qr\<rparr>)"
    and "same_core d (d'\<lparr>qualChecks := qc\<rparr>)" and "same_core d (d'\<lparr>treasuries := tw\<rparr>)"
    and "same_core d (d'\<lparr>settings := rows_pt\<rparr>)" and "same_core d (d'\<lparr>configChanges := rows_cc\<rparr>)"
    and "same_core d (d'\<lparr>merchants := rows_me\<rparr>)" and "same_core d (d'\<lparr>merchantUsers := rows_us\<rparr>)"
    and "same_core d (d'\<lparr>invitations := rows_iv\<rparr>)" and "same_core d (d'\<lparr>merchantSessions := rows_se\<rparr>)"
    and "same_core d (d'\<lparr>apiKeys := rows_ak\<rparr>)" and "same_core d (d'\<lparr>staff := rows_sf\<rparr>)"
    and "same_core d (d'\<lparr>staffSessions := rows_sn\<rparr>)" and "same_core d (d'\<lparr>reauthTokens := rows_rt\<rparr>)"
    and "same_core d (d'\<lparr>locations := rows_fl\<rparr>)" and "same_core d (d'\<lparr>endpoints := rows_we\<rparr>)"
    and "same_core d (d'\<lparr>deliveries := rows_wd\<rparr>)" and "same_core d (d'\<lparr>alerts := rows_oa\<rparr>)"
    and "same_core d (d'\<lparr>alertDeliveries := rows_ad\<rparr>)" and "same_core d (d'\<lparr>supportCases := rows_sp\<rparr>)"
    and "same_core d (d'\<lparr>supportMessages := rows_sm\<rparr>)" and "same_core d (d'\<lparr>outbox := rows_ob\<rparr>)"
  using assms by (auto simp: same_core_def same_ledger_def)

lemma same_core_more [simp]:
  assumes "same_core d d'"
  shows "same_core d (update_linked_settlement now tid o1 d')"
    and "same_core d (update_linked_sweep now tid rf o1 d')"
    and "same_core d (updateExpiredLinkedOperation now t o1 d')"
    and "same_core d (finishManualResolution now t ac re ou ptx ev d')"
    and "same_core d (late_success_case now ri p t d')"
    and "same_core d (open_name_review now j t ei nd d')"
    and "same_core d (report_cases now j t r st po d')"
    and "same_core d (report_linked now t st d')"
  using assms
  by (simp_all add: update_linked_settlement_def update_linked_sweep_def Let_def
      updateExpiredLinkedOperation_def finishManualResolution_def late_success_case_def
      open_name_review_def report_cases_def report_linked_def
      split: option.splits name_disposition.splits)

lemma same_core_persist [simp]:
  "same_core d d' \<Longrightarrow> same_core d (persistSpoolStatusOutcome now j link ctx nd d')"
  by (simp add: persistSpoolStatusOutcome_def split: option.splits prod.splits)

lemma same_core_upsert_config: "upsert_config m d = (c, d') \<Longrightarrow> same_core d d'"
  by (auto simp: upsert_config_def split: option.splits)

lemma updateLinkedOperation_core:
  "updateLinkedOperation now tid o1 d = Inr d' \<Longrightarrow> same_core d d'"
  by (auto simp: updateLinkedOperation_def split: option.splits)

section \<open>Rows that change without moving money\<close>

text \<open>A SIM, a phone and a job may change freely in the columns the invariant does not read.\<close>

definition same_holds :: "sim_wallet list \<Rightarrow> sim_wallet list \<Rightarrow> bool" where
  "same_holds ss ss' \<longleftrightarrow>
     map (\<lambda>s. (sim_id s, sim_reserved s)) ss' = map (\<lambda>s. (sim_id s, sim_reserved s)) ss"

lemma same_holds_update:
  "(\<And>s. sim_id (f s) = sim_id s) \<Longrightarrow> (\<And>s. sim_reserved (f s) = sim_reserved s) \<Longrightarrow>
   same_holds ss (update_where p f ss)"
  by (simp add: same_holds_def update_where_def)

lemma same_holds_facts:
  assumes "same_holds ss ss'"
  shows "map sim_id ss' = map sim_id ss"
    and "s' \<in> set ss' \<Longrightarrow> \<exists>s \<in> set ss. sim_id s = sim_id s' \<and> sim_reserved s = sim_reserved s'"
proof -
  have "map fst (map (\<lambda>s. (sim_id s, sim_reserved s)) ss') = map fst (map (\<lambda>s. (sim_id s, sim_reserved s)) ss)"
    using assms by (simp only: same_holds_def)
  then show "map sim_id ss' = map sim_id ss" by (simp add: comp_def)
  assume "s' \<in> set ss'"
  then have "(sim_id s', sim_reserved s') \<in> set (map (\<lambda>s. (sim_id s, sim_reserved s)) ss')" by force
  also have "\<dots> = set (map (\<lambda>s. (sim_id s, sim_reserved s)) ss)" using assms by (simp only: same_holds_def)
  finally show "\<exists>s \<in> set ss. sim_id s = sim_id s' \<and> sim_reserved s = sim_reserved s'" by force
qed

lemma system_ok_sims:
  assumes ok: "system_ok d" and same: "same_holds (sims d) ss"
  shows "system_ok (d\<lparr>sims := ss\<rparr>)"
proof -
  note f = same_holds_facts [OF same]
  have ids: "\<And>s. s \<in> set ss \<Longrightarrow> sim_id s < next_id d"
    using ok f(2) by (fastforce simp: system_ok_def rows_ok_def)
  have res: "\<And>s. s \<in> set ss \<Longrightarrow> sim_reserved s = sim_held d (sim_id s)"
    using ok f(2) by (fastforce simp: system_ok_def holds_ok_def)
  have "same_ledger d (d\<lparr>sims := ss\<rparr>)" by (simp add: same_ledger_def)
  note reads = same_ledger_reads [OF this] and lo = ledger_ok_same [OF _ this]
  from ok have "holds_ok (d\<lparr>sims := ss\<rparr>)"
    by (simp add: system_ok_def holds_ok_def ledger_held_def sim_held_def reads res [unfolded sim_held_def])
  moreover from ok ids f(1) have "rows_ok (d\<lparr>sims := ss\<rparr>)" by (simp add: system_ok_def rows_ok_def)
  ultimately show ?thesis
    using ok lo
    by (simp add: system_ok_def posts_ok_def attempts_ok_def jobs_ok_def locks_ok_def latest_attempt_def
        reads)
qed

lemma system_ok_new_sim:
  assumes ok: "system_ok d" and s: "sim_id s = next_id d" "sim_reserved s = 0"
  shows "system_ok (d\<lparr>sims := sims d @ [s], next_id := Suc (next_id d)\<rparr>)"
proof -
  let ?d = "d\<lparr>sims := sims d @ [s], next_id := Suc (next_id d)\<rparr>"
  have sl: "same_ledger d ?d" by (simp add: same_ledger_def)
  note reads = same_ledger_reads [OF sl] and lo = ledger_ok_same [OF _ sl]
  have "tr_sim t \<noteq> Some (next_id d)" if "t \<in> set (transfers d)" for t
    using ok that by (auto simp: system_ok_def rows_ok_def)
  then have "sim_held d (next_id d) = 0" by (simp add: sim_held_def sum_list_0 cong: map_cong)
  with ok s have "holds_ok ?d"
    by (auto simp: system_ok_def holds_ok_def ledger_held_def sim_held_def reads)
  moreover from ok s have "rows_ok ?d"
    unfolding system_ok_def rows_ok_def by (auto simp: less_Suc_eq)
  moreover from ok have "posts_ok ?d" unfolding system_ok_def posts_ok_def reads by (auto simp: less_Suc_eq)
  ultimately show ?thesis
    using ok lo by (simp add: system_ok_def attempts_ok_def jobs_ok_def locks_ok_def latest_attempt_def)
qed


section \<open>The step of one transfer\<close>

definition same_static :: "transfer \<Rightarrow> transfer \<Rightarrow> bool" where
  "same_static t t' \<longleftrightarrow> tr_id t' = tr_id t \<and> tr_merchant t' = tr_merchant t \<and> tr_env t' = tr_env t \<and>
     tr_sim t' = tr_sim t \<and> tr_amount t' = tr_amount t \<and> tr_reserveFee t' = tr_reserveFee t \<and>
     tr_gatewayFee t' = tr_gatewayFee t \<and> tr_mode t' = tr_mode t"

lemma same_static_facts:
  "same_static t t' \<Longrightarrow> auth_of t' = auth_of t" "same_static t t' \<Longrightarrow> held t' = held t"
  "same_static t t' \<Longrightarrow> physical_total t' = physical_total t"
  by (auto simp: same_static_def auth_of_def held_def ledger_total_def physical_total_def)

definition same_links :: "transfer_attempt list \<Rightarrow> transfer_attempt list \<Rightarrow> bool" where
  "same_links as as' \<longleftrightarrow> map (\<lambda>a. (at_id a, at_transfer a, at_number a, at_job a)) as' =
     map (\<lambda>a. (at_id a, at_transfer a, at_number a, at_job a)) as"

definition job_step :: "device_job \<Rightarrow> device_job \<Rightarrow> bool" where
  "job_step j j' \<longleftrightarrow> jb_id j' = jb_id j \<and> jb_sim j' = jb_sim j \<and> (unfinished_job j' \<longrightarrow> unfinished_job j)"

lemma same_links_refl [simp]: "same_links as as"
  by (simp add: same_links_def)

lemma same_links_update:
  "(\<And>a. at_id (f a) = at_id a) \<Longrightarrow> (\<And>a. at_transfer (f a) = at_transfer a) \<Longrightarrow>
   (\<And>a. at_number (f a) = at_number a) \<Longrightarrow> (\<And>a. at_job (f a) = at_job a) \<Longrightarrow>
   same_links as (update_where p f as)"
  by (simp add: same_links_def update_where_def)

lemma same_links_sym: "same_links as as' \<Longrightarrow> same_links as' as"
  by (simp add: same_links_def)

lemma same_links_mem:
  assumes "same_links as as'" and "a' \<in> set as'"
  obtains a where "a \<in> set as" "at_id a = at_id a'" "at_transfer a = at_transfer a'"
    "at_number a = at_number a'" "at_job a = at_job a'"
proof -
  let ?g = "\<lambda>a. (at_id a, at_transfer a, at_number a, at_job a)"
  have "?g a' \<in> set (map ?g as')" using assms(2) by (simp only: set_map) (rule imageI)
  also have "\<dots> = set (map ?g as)" using assms(1) by (simp only: same_links_def)
  finally obtain a where "a \<in> set as" "?g a' = ?g a" by auto
  then show thesis using that by simp
qed

lemma same_links_maps:
  assumes "same_links as as'"
  shows "map at_id as' = map at_id as" and "map at_job as' = map at_job as"
proof -
  let ?g = "\<lambda>a. (at_id a, at_transfer a, at_number a, at_job a)"
  have "map fst (map ?g as') = map fst (map ?g as)"
    and "map (snd \<circ> snd \<circ> snd) (map ?g as') = map (snd \<circ> snd \<circ> snd) (map ?g as)"
    using assms by (simp_all only: same_links_def)
  then show "map at_id as' = map at_id as" and "map at_job as' = map at_job as"
    by (simp_all add: comp_def)
qed

lemma job_step_refl [simp]: "job_step j j"
  by (simp add: job_step_def)

lemma list_all2_update_where:
  "(\<And>x. R x x) \<Longrightarrow> (\<And>x. x \<in> set xs \<Longrightarrow> p x \<Longrightarrow> R x (f x)) \<Longrightarrow> list_all2 R xs (update_where p f xs)"
  by (induction xs) auto

lemma job_steps_mem:
  assumes "list_all2 job_step js js'" and "j' \<in> set js'"
  obtains j where "j \<in> set js" "job_step j j'"
proof -
  from assms(2) obtain i where "i < length js'" "js' ! i = j'" by (auto simp: in_set_conv_nth)
  with assms(1) have "js ! i \<in> set js" "job_step (js ! i) j'"
    by (auto simp: list_all2_conv_all_nth)
  then show thesis by (rule that)
qed

lemma job_steps_ids:
  "list_all2 job_step js js' \<Longrightarrow> map jb_id js' = map jb_id js"
  by (induction rule: list_all2_induct) (auto simp: job_step_def)

lemma key_eqD: "distinct (map k xs) \<Longrightarrow> x \<in> set xs \<Longrightarrow> y \<in> set xs \<Longrightarrow> k x = k y \<Longrightarrow> x = y"
  by (metis distinct_map inj_onD)

lemma system_ok_parts:
  assumes "system_ok d"
  shows "ledger_ok d" and "holds_ok d" and "rows_ok d" and "posts_ok d" and "attempts_ok d"
    and "jobs_ok d" and "locks_ok d"
  using assms by (simp_all add: system_ok_def)

lemma rows_unique:
  assumes "rows_ok d"
  shows "t \<in> set (transfers d) \<Longrightarrow> t' \<in> set (transfers d) \<Longrightarrow> tr_id t = tr_id t' \<Longrightarrow> t = t'"
    and "a \<in> set (attempts d) \<Longrightarrow> a' \<in> set (attempts d) \<Longrightarrow> at_id a = at_id a' \<Longrightarrow> a = a'"
    and "a \<in> set (attempts d) \<Longrightarrow> a' \<in> set (attempts d) \<Longrightarrow> at_job a = at_job a' \<Longrightarrow> a = a'"
    and "j \<in> set (jobs d) \<Longrightarrow> j' \<in> set (jobs d) \<Longrightarrow> jb_id j = jb_id j' \<Longrightarrow> j = j'"
    and "v \<in> set (devices d) \<Longrightarrow> v' \<in> set (devices d) \<Longrightarrow> dv_id v = dv_id v' \<Longrightarrow> v = v'"
  using assms by (auto simp: rows_ok_def elim: key_eqD)

text \<open>Once the job of the newest attempt is finished, every job of the transfer is.\<close>

definition jobs_done :: "db \<Rightarrow> device_job list \<Rightarrow> id \<Rightarrow> bool" where
  "jobs_done d js tid \<longleftrightarrow> (\<forall>a \<in> set (attempts d). \<forall>j \<in> set js.
     at_transfer a = tid \<and> at_job a = Some (jb_id j) \<longrightarrow> \<not> unfinished_job j)"

lemma jobs_done_latest:
  assumes ok: "system_ok d" and steps: "list_all2 job_step (jobs d) js"
    and a: "a \<in> set (attempts d)" "at_transfer a = tid" "latest_attempt d a"
    and fin: "\<And>j. j \<in> set js \<Longrightarrow> at_job a = Some (jb_id j) \<Longrightarrow> \<not> unfinished_job j"
  shows "jobs_done d js tid"
  unfolding jobs_done_def
proof (intro ballI impI)
  fix b j assume b: "b \<in> set (attempts d)" and j: "j \<in> set js"
    and bt: "at_transfer b = tid \<and> at_job b = Some (jb_id j)"
  show "\<not> unfinished_job j"
  proof
    assume u: "unfinished_job j"
    from job_steps_mem [OF steps j] obtain i where i: "i \<in> set (jobs d)" "job_step i j" .
    with u have "unfinished_job i" "jb_id i = jb_id j" by (auto simp: job_step_def)
    with ok i(1) b bt have lb: "latest_attempt d b" by (auto simp: system_ok_def jobs_ok_def)
    have "at_id b = at_id a"
    proof (rule ccontr)
      assume "at_id b \<noteq> at_id a"
      with lb a bt b have "at_number a < at_number b" and "at_number b < at_number a"
        unfolding latest_attempt_def by metis+
      then show False by simp
    qed
    then have "b = a" by (rule rows_unique(2) [OF system_ok_parts(3) [OF ok] b a(1)])
    with fin j bt u show False by blast
  qed
qed

lemma jobs_done_newest:
  assumes ok: "system_ok d" and steps: "list_all2 job_step (jobs d) js"
    and fin: "\<And>a j. newest_attempt d tid = Some a \<Longrightarrow> j \<in> set js \<Longrightarrow> at_job a = Some (jb_id j) \<Longrightarrow>
      \<not> unfinished_job j"
  shows "jobs_done d js tid"
  unfolding jobs_done_def
proof (intro ballI impI)
  fix b j assume b: "b \<in> set (attempts d)" and j: "j \<in> set js"
    and bt: "at_transfer b = tid \<and> at_job b = Some (jb_id j)"
  show "\<not> unfinished_job j"
  proof
    assume u: "unfinished_job j"
    from job_steps_mem [OF steps j] obtain i where i: "i \<in> set (jobs d)" "job_step i j" .
    with u have "unfinished_job i" "jb_id i = jb_id j" by (auto simp: job_step_def)
    with ok i(1) b bt have lb: "latest_attempt d b" by (auto simp: system_ok_def jobs_ok_def)
    have "newest_attempt d tid \<noteq> None"
      using b bt by (auto simp: newest_attempt_def first_by_None_iff filter_empty_conv)
    then obtain a where a: "newest_attempt d tid = Some a" by blast
    then have mem: "a \<in> set (attempts d)" "at_transfer a = tid" and mx: "at_number b \<le> at_number a"
      using first_by_SomeD [OF a [unfolded newest_attempt_def]] b bt by auto
    have "at_id a = at_id b"
      using lb mem bt mx unfolding latest_attempt_def by fastforce
    then have "a = b" by (rule rows_unique(2) [OF system_ok_parts(3) [OF ok] mem(1) b])
    with fin [OF a j] bt u show False by blast
  qed
qed

lemma jobs_done_none:
  assumes ok: "system_ok d" and t: "t \<in> set (transfers d)" and "tr_env t = Test"
  shows "jobs_done d js (tr_id t)"
  unfolding jobs_done_def
proof (intro ballI impI)
  fix a and j :: device_job
  assume "a \<in> set (attempts d)" and "at_transfer a = tr_id t \<and> at_job a = Some (jb_id j)"
  with system_ok_parts(5) [OF ok] obtain t' where "t' \<in> set (transfers d)" "tr_id t' = tr_id t" "tr_env t' = Live"
    unfolding attempts_ok_def by metis
  with rows_unique(1) [OF system_ok_parts(3) [OF ok] t, of t'] assms(3) show "\<not> unfinished_job j" by simp
qed


text \<open>
  \<open>freed t t'\<close>: the step closes an open transfer, so what it held must be given back. The
  journals a step may add are those of its transfer, and fit the status it reaches.
\<close>

definition freed :: "transfer \<Rightarrow> transfer \<Rightarrow> bool" where
  "freed t t' \<longleftrightarrow> open_status (tr_status t) \<and> \<not> open_status (tr_status t')"

definition new_posts :: "db \<Rightarrow> id \<Rightarrow> transfer_status \<Rightarrow> db \<Rightarrow> bool" where
  "new_posts d i st d' \<longleftrightarrow> (\<forall>s k. hold_source s \<and> find_journal d' s k \<noteq> None \<longrightarrow>
     find_journal d s k \<noteq> None \<or>
     k = i \<and> (release_source s \<longrightarrow> \<not> open_status st) \<and> (settle_source s \<longrightarrow> st = T_success))"

lemma new_postsD:
  "new_posts d i st d' \<Longrightarrow> hold_source s \<Longrightarrow> find_journal d' s k \<noteq> None \<Longrightarrow> find_journal d s k = None \<Longrightarrow>
   k = i \<and> (release_source s \<longrightarrow> \<not> open_status st) \<and> (settle_source s \<longrightarrow> st = T_success)"
  unfolding new_posts_def by blast

definition reserve_moves :: "db \<Rightarrow> transfer \<Rightarrow> transfer \<Rightarrow> db \<Rightarrow> bool" where
  "reserve_moves d t t' d' \<longleftrightarrow>
     (\<forall>a. balance_of d' (key_of a Reserved) = balance_of d (key_of a Reserved) -
        (if freed t t' \<and> auth_of t = a then held t else 0)) \<and>
     map (\<lambda>s. (sim_id s, sim_reserved s)) (sims d') = map (\<lambda>s. (sim_id s, sim_reserved s -
        (if freed t t' \<and> tr_sim t = Some (sim_id s) then physical_total t else 0))) (sims d)"

definition status_step :: "transfer \<Rightarrow> transfer \<Rightarrow> bool" where
  "status_step t t' \<longleftrightarrow> same_static t t' \<and>
     (tr_status t' = tr_status t \<or> open_status (tr_status t) \<or>
      tr_status t = T_failed \<and> tr_status t' = T_success) \<and>
     (tr_env t = Test \<longrightarrow> tr_status t' \<noteq> T_manual_review)"

lemma sum_held_step:
  assumes ok: "rows_ok d" and t: "t \<in> set (transfers d)" and step: "status_step t (f t)"
    and ts: "transfers d' = update_where (\<lambda>x. tr_id x = tr_id t) f (transfers d)"
  shows "ledger_held d' a = ledger_held d a - (if freed t (f t) \<and> auth_of t = a then held t else 0)"
    and "sim_held d' i = sim_held d i - (if freed t (f t) \<and> tr_sim t = Some i then physical_total t else 0)"
proof -
  from step have s: "same_static t (f t)" by (simp add: status_step_def)
  note same = same_static_facts [OF s]
  have sim: "tr_sim (f t) = tr_sim t" using s by (simp add: same_static_def)
  have dist: "distinct (map tr_id (transfers d))" using ok by (simp add: rows_ok_def)
  note sum = sum_update_where_key [OF dist t]
  have reopen: "\<not> open_status (tr_status t) \<Longrightarrow> \<not> open_status (tr_status (f t))"
    using step by (auto simp: status_step_def open_status_def)
  show "ledger_held d' a = ledger_held d a - (if freed t (f t) \<and> auth_of t = a then held t else 0)"
    using reopen unfolding ledger_held_def ts sum by (auto simp: same freed_def)
  show "sim_held d' i = sim_held d i - (if freed t (f t) \<and> tr_sim t = Some i then physical_total t else 0)"
    using reopen unfolding sim_held_def ts sum by (auto simp: same sim freed_def)
qed

lemma holds_ok_step:
  assumes ok: "rows_ok d" "holds_ok d" and t: "t \<in> set (transfers d)" and step: "status_step t (f t)"
    and ts: "transfers d' = update_where (\<lambda>x. tr_id x = tr_id t) f (transfers d)"
    and moves: "reserve_moves d t (f t) d'"
  shows "holds_ok d'"
proof -
  note sums = sum_held_step [OF ok(1) t step ts]
  have "balance_of d' (key_of a Reserved) = ledger_held d' a" for a
    using ok(2) moves by (simp add: holds_ok_def reserve_moves_def sums)
  moreover have "sim_reserved s' = sim_held d' (sim_id s')" if "s' \<in> set (sims d')" for s'
  proof -
    have "(sim_id s', sim_reserved s') \<in> set (map (\<lambda>s. (sim_id s, sim_reserved s)) (sims d'))"
      using that by force
    also have "\<dots> = set (map (\<lambda>s. (sim_id s, sim_reserved s -
        (if freed t (f t) \<and> tr_sim t = Some (sim_id s) then physical_total t else 0))) (sims d))"
      using moves by (simp only: reserve_moves_def)
    finally obtain s where "s \<in> set (sims d)" "sim_id s' = sim_id s"
      "sim_reserved s' = sim_reserved s -
        (if freed t (f t) \<and> tr_sim t = Some (sim_id s) then physical_total t else 0)" by auto
    with ok(2) show ?thesis by (simp add: holds_ok_def sums)
  qed
  ultimately show ?thesis by (simp add: holds_ok_def)
qed

lemma in_update_where:
  assumes "x' \<in> set (update_where p f xs)"
  obtains x where "x \<in> set xs" "x' = (if p x then f x else x)"
  using assms by (auto simp: set_update_where)

lemma transfer_after:
  assumes ok: "rows_ok d" and t: "t \<in> set (transfers d)" and step: "status_step t (f t)"
    and ts: "transfers d' = update_where (\<lambda>x. tr_id x = tr_id t) f (transfers d)"
    and x': "x' \<in> set (transfers d')"
  obtains x where "x \<in> set (transfers d)" "same_static x x'" "x = t \<and> x' = f t \<or> x \<noteq> t \<and> x' = x"
proof -
  from x' [unfolded ts] obtain x where x: "x \<in> set (transfers d)"
    "x' = (if tr_id x = tr_id t then f x else x)" by (rule in_update_where)
  show thesis
  proof (cases "tr_id x = tr_id t")
    case True
    then have "x = t" by (rule rows_unique(1) [OF ok x(1) t])
    with x True step show thesis by (intro that [of x]) (auto simp: status_step_def)
  next
    case False
    with x show thesis by (intro that [of x]) (auto simp: same_static_def)
  qed
qed

lemma transfer_before:
  assumes ok: "rows_ok d" and t: "t \<in> set (transfers d)" and step: "status_step t (f t)"
    and ts: "transfers d' = update_where (\<lambda>x. tr_id x = tr_id t) f (transfers d)"
    and x: "x \<in> set (transfers d)"
  obtains x' where "x' \<in> set (transfers d')" "same_static x x'"
proof (cases "tr_id x = tr_id t")
  case True
  then have "x = t" by (rule rows_unique(1) [OF ok x t])
  with x step show thesis
    by (intro that [of "f t"]) (auto simp: ts set_update_where status_step_def)
next
  case False
  with x show thesis by (intro that [of x]) (auto simp: ts set_update_where same_static_def)
qed


text \<open>The frame of the other tables: what a step may do to attempts, jobs, phones and ids.\<close>

definition tables_step :: "db \<Rightarrow> db \<Rightarrow> bool" where
  "tables_step d d' \<longleftrightarrow> ledger_ok d' \<and> next_id d \<le> next_id d' \<and>
     same_links (attempts d) (attempts d') \<and> list_all2 job_step (jobs d) (jobs d') \<and>
     map dv_id (devices d') = map dv_id (devices d) \<and>
     (\<forall>v \<in> set (devices d'). \<forall>j. dv_activeJob v = Some j \<longrightarrow> j < next_id d') \<and> locks_ok d'"

lemma map_below:
  fixes m n :: nat
  assumes "map g ys = map g xs" and "\<forall>x \<in> set xs. g x < m" and "m \<le> n"
  shows "\<forall>y \<in> set ys. g y < n"
proof
  fix y assume "y \<in> set ys"
  then have "g y \<in> set (map g ys)" by simp
  also have "\<dots> = set (map g xs)" by (simp only: assms(1))
  finally show "g y < n" using assms(2,3) by auto
qed

lemma rows_ok_step:
  assumes ok: "rows_ok d" and t: "t \<in> set (transfers d)" and step: "status_step t (f t)"
    and ts: "transfers d' = update_where (\<lambda>x. tr_id x = tr_id t) f (transfers d)"
    and moves: "reserve_moves d t (f t) d'" and tables: "tables_step d d'"
  shows "rows_ok d'"
proof -
  from tables have le: "next_id d \<le> next_id d'" and links: "same_links (attempts d) (attempts d')"
    and js: "list_all2 job_step (jobs d) (jobs d')" and vs: "map dv_id (devices d') = map dv_id (devices d)"
    and act: "\<forall>v \<in> set (devices d'). \<forall>j. dv_activeJob v = Some j \<longrightarrow> j < next_id d'"
    by (simp_all add: tables_step_def)
  have sids: "map sim_id (sims d') = map sim_id (sims d)"
  proof -
    have "map fst (map (\<lambda>s. (sim_id s, sim_reserved s)) (sims d')) =
        map fst (map (\<lambda>s. (sim_id s, sim_reserved s -
          (if freed t (f t) \<and> tr_sim t = Some (sim_id s) then physical_total t else 0))) (sims d))"
      using moves by (simp only: reserve_moves_def)
    then show ?thesis by (simp add: comp_def)
  qed
  have tids: "map tr_id (transfers d') = map tr_id (transfers d)"
  proof -
    have "tr_id (if tr_id x = tr_id t then f x else x) = tr_id x" if "x \<in> set (transfers d)" for x
    proof (cases "tr_id x = tr_id t")
      case True
      with rows_unique(1) [OF ok that t] step show ?thesis by (simp add: status_step_def same_static_def)
    qed simp
    then show ?thesis by (simp add: ts update_where_def comp_def)
  qed
  have sim: "\<exists>i < next_id d'. tr_sim x' = Some i" if "x' \<in> set (transfers d')" for x'
  proof -
    from transfer_after [OF ok t step ts that] obtain x
      where x: "x \<in> set (transfers d)" "same_static x x'" by metis
    from ok x(1) obtain i where "i < next_id d" "tr_sim x = Some i" by (auto simp: rows_ok_def)
    with le x(2) show ?thesis by (auto simp: same_static_def)
  qed
  have att: "at_id b < next_id d' \<and> at_transfer b < next_id d' \<and> (\<exists>j < next_id d'. at_job b = Some j)"
    if "b \<in> set (attempts d')" for b
  proof -
    from links that obtain a where a: "a \<in> set (attempts d)" "at_id a = at_id b"
      "at_transfer a = at_transfer b" "at_job a = at_job b" by (rule same_links_mem)
    from ok a(1) obtain j where j: "at_id a < next_id d" "at_transfer a < next_id d" "j < next_id d"
      "at_job a = Some j" by (auto simp: rows_ok_def)
    have "at_job b = Some j" using j(4) a(4) by simp
    with le a(2,3) j(1-3) show ?thesis by simp
  qed
  have tlt: "\<forall>x \<in> set (transfers d'). tr_id x < next_id d'"
    using ok by (intro map_below [OF tids _ le]) (simp add: rows_ok_def)
  have slt: "\<forall>x \<in> set (sims d'). sim_id x < next_id d'"
    using ok by (intro map_below [OF sids _ le]) (simp add: rows_ok_def)
  have jlt: "\<forall>x \<in> set (jobs d'). jb_id x < next_id d'"
    using ok by (intro map_below [OF job_steps_ids [OF js] _ le]) (simp add: rows_ok_def)
  have vlt: "\<forall>x \<in> set (devices d'). dv_id x < next_id d'"
    using ok by (intro map_below [OF vs _ le]) (simp add: rows_ok_def)
  show ?thesis
    using ok tids sids same_links_maps [OF links] job_steps_ids [OF js] vs act sim att tlt slt jlt vlt
    by (simp add: rows_ok_def)
qed

lemma posts_ok_step:
  assumes ok: "rows_ok d" "posts_ok d" and t: "t \<in> set (transfers d)" and step: "status_step t (f t)"
    and ts: "transfers d' = update_where (\<lambda>x. tr_id x = tr_id t) f (transfers d)"
    and le: "next_id d \<le> next_id d'" and posts: "new_posts d (tr_id t) (tr_status (f t)) d'"
  shows "posts_ok d'"
proof -
  have bound: "i < next_id d'" if "hold_source s" "find_journal d' s i \<noteq> None" for s i
  proof -
    have "find_journal d s i \<noteq> None \<or> i = tr_id t" using posts that by (auto simp: new_posts_def)
    then have "i < next_id d"
      using ok t that by (auto simp: posts_ok_def rows_ok_def)
    with le show ?thesis by simp
  qed
  have fits: "(release_source s \<longrightarrow> \<not> open_status (tr_status x')) \<and> (settle_source s \<longrightarrow> tr_status x' = T_success)"
    if x': "x' \<in> set (transfers d')" and j: "find_journal d' s (tr_id x') \<noteq> None" for x' s
  proof (cases "hold_source s")
    case True
    from transfer_after [OF ok(1) t step ts x'] obtain x where x: "x \<in> set (transfers d)"
      "same_static x x'" "x = t \<and> x' = f t \<or> x \<noteq> t \<and> x' = x" by metis
    then have id: "tr_id x' = tr_id x" by (simp add: same_static_def)
    have old: "find_journal d s (tr_id x) \<noteq> None \<or> x = t \<and> (release_source s \<longrightarrow> \<not> open_status (tr_status (f t))) \<and>
        (settle_source s \<longrightarrow> tr_status (f t) = T_success)"
    proof (cases "find_journal d s (tr_id x) = None")
      case True
      with new_postsD [OF posts \<open>hold_source s\<close> j] id rows_unique(1) [OF ok(1) x(1) t]
      show ?thesis by simp
    qed simp
    have keep: "(release_source s \<longrightarrow> \<not> open_status (tr_status x)) \<and> (settle_source s \<longrightarrow> tr_status x = T_success)"
      if "find_journal d s (tr_id x) \<noteq> None"
      using ok(2) x(1) that by (simp add: posts_ok_def)
    have "open_status (tr_status t) \<or> \<not> open_status (tr_status (f t))"
      using step by (auto simp: status_step_def open_status_def)
    moreover have "tr_status t = T_success \<Longrightarrow> tr_status (f t) = T_success"
      using step by (auto simp: status_step_def open_status_def)
    ultimately show ?thesis using old keep x(3) by auto
  qed (simp add: hold_source_def)
  show ?thesis using bound fits by (auto simp: posts_ok_def)
qed

lemma attempts_ok_step:
  assumes ok: "rows_ok d" "attempts_ok d" and t: "t \<in> set (transfers d)" and step: "status_step t (f t)"
    and ts: "transfers d' = update_where (\<lambda>x. tr_id x = tr_id t) f (transfers d)"
    and links: "same_links (attempts d) (attempts d')" and js: "list_all2 job_step (jobs d) (jobs d')"
  shows "attempts_ok d'"
proof -
  have "\<exists>x' \<in> set (transfers d'). tr_id x' = at_transfer b \<and> tr_env x' = Live \<and>
      (\<forall>j \<in> set (jobs d'). at_job b = Some (jb_id j) \<longrightarrow> tr_sim x' = Some (jb_sim j))"
    if "b \<in> set (attempts d')" for b
  proof -
    from links that obtain a where a: "a \<in> set (attempts d)" "at_transfer a = at_transfer b"
      "at_job a = at_job b" by (rule same_links_mem)
    from ok(2) a(1) obtain x where x: "x \<in> set (transfers d)" "tr_id x = at_transfer a" "tr_env x = Live"
      "\<forall>j \<in> set (jobs d). at_job a = Some (jb_id j) \<longrightarrow> tr_sim x = Some (jb_sim j)"
      unfolding attempts_ok_def by blast
    from transfer_before [OF ok(1) t step ts x(1)] obtain x'
      where x': "x' \<in> set (transfers d')" "same_static x x'" .
    have "tr_sim x' = Some (jb_sim j')" if j': "j' \<in> set (jobs d')" "at_job b = Some (jb_id j')" for j'
    proof -
      from job_steps_mem [OF js j'(1)] obtain j where j: "j \<in> set (jobs d)" "job_step j j'" .
      with x(4) a(3) j'(2) x'(2) show ?thesis by (simp add: job_step_def same_static_def)
    qed
    with x' x(2,3) a(2) show ?thesis by (auto simp: same_static_def intro!: bexI [of _ x'])
  qed
  moreover have "tr_status x' \<noteq> T_manual_review" if x': "x' \<in> set (transfers d')" "tr_env x' = Test" for x'
  proof -
    from transfer_after [OF ok(1) t step ts x'(1)] obtain x where x: "x \<in> set (transfers d)"
      "same_static x x'" "x = t \<and> x' = f t \<or> x \<noteq> t \<and> x' = x" by metis
    with ok(2) step x'(2) show ?thesis by (auto simp: attempts_ok_def status_step_def same_static_def)
  qed
  ultimately show ?thesis by (simp add: attempts_ok_def)
qed

lemma latest_attempt_links:
  assumes "same_links as as'" and "as = attempts d" and "as' = attempts d'"
    and "a' \<in> set as'" and "a \<in> set as" and "at_id a = at_id a'" and "at_transfer a = at_transfer a'"
    and "at_number a = at_number a'" and "latest_attempt d a"
  shows "latest_attempt d' a'"
  unfolding latest_attempt_def
proof (intro ballI impI)
  fix b' assume b': "b' \<in> set (attempts d')" "at_transfer b' = at_transfer a' \<and> at_id b' \<noteq> at_id a'"
  with assms(1,3) obtain b where "b \<in> set as" "at_id b = at_id b'" "at_transfer b = at_transfer b'"
    "at_number b = at_number b'" by (auto elim: same_links_mem)
  with assms b' show "at_number b' < at_number a'" unfolding latest_attempt_def by metis
qed

lemma jobs_ok_step:
  assumes ok: "rows_ok d" "jobs_ok d" and t: "t \<in> set (transfers d)" and step: "status_step t (f t)"
    and ts: "transfers d' = update_where (\<lambda>x. tr_id x = tr_id t) f (transfers d)"
    and links: "same_links (attempts d) (attempts d')" and js: "list_all2 job_step (jobs d) (jobs d')"
    and fin: "terminal_transfer (tr_status (f t)) \<Longrightarrow> terminal_transfer (tr_status t) \<or>
      jobs_done d (jobs d') (tr_id t)"
  shows "jobs_ok d'"
  unfolding jobs_ok_def
proof (intro ballI impI)
  fix j' a' assume j': "j' \<in> set (jobs d')" and a': "a' \<in> set (attempts d')"
    and u: "unfinished_job j' \<and> at_job a' = Some (jb_id j')"
  from job_steps_mem [OF js j'] obtain j where j: "j \<in> set (jobs d)" "job_step j j'" .
  from links a' obtain a where a: "a \<in> set (attempts d)" "at_id a = at_id a'"
    "at_transfer a = at_transfer a'" "at_number a = at_number a'" "at_job a = at_job a'"
    by (rule same_links_mem)
  have old: "latest_attempt d a" "\<And>x. x \<in> set (transfers d) \<Longrightarrow> tr_id x = at_transfer a \<Longrightarrow>
      \<not> terminal_transfer (tr_status x)"
    using ok(2) j a u by (auto simp: jobs_ok_def job_step_def)
  have "\<not> terminal_transfer (tr_status x')" if x': "x' \<in> set (transfers d')" "tr_id x' = at_transfer a'" for x'
  proof -
    from transfer_after [OF ok(1) t step ts x'(1)] obtain x where x: "x \<in> set (transfers d)"
      "same_static x x'" "x = t \<and> x' = f t \<or> x \<noteq> t \<and> x' = x" by metis
    have id: "tr_id x = at_transfer a" using x(2) x'(2) a(3) by (simp add: same_static_def)
    note nt = old(2) [OF x(1) id]
    show ?thesis
    proof
      assume tm: "terminal_transfer (tr_status x')"
      with nt x(3) have xt: "x = t" "x' = f t" by auto
      with tm nt fin have "jobs_done d (jobs d') (tr_id t)" by auto
      with a(1,5) j' u id xt(1) show False by (auto simp: jobs_done_def)
    qed
  qed
  moreover have "latest_attempt d' a'"
    by (rule latest_attempt_links [OF links refl refl a' a(1) a(2) a(3) a(4) old(1)])
  ultimately show "latest_attempt d' a' \<and> (\<forall>x' \<in> set (transfers d'). tr_id x' = at_transfer a' \<longrightarrow>
      \<not> terminal_transfer (tr_status x'))" by simp
qed

theorem system_ok_transfer:
  assumes ok: "system_ok d" and t: "t \<in> set (transfers d)" and step: "status_step t (f t)"
    and ts: "transfers d' = update_where (\<lambda>x. tr_id x = tr_id t) f (transfers d)"
    and moves: "reserve_moves d t (f t) d'" and posts: "new_posts d (tr_id t) (tr_status (f t)) d'"
    and tables: "tables_step d d'"
    and fin: "terminal_transfer (tr_status (f t)) \<Longrightarrow> terminal_transfer (tr_status t) \<or>
      jobs_done d (jobs d') (tr_id t)"
  shows "system_ok d'"
proof -
  note parts = system_ok_parts [OF ok]
  from tables have tab: "ledger_ok d'" "next_id d \<le> next_id d'" "same_links (attempts d) (attempts d')"
    "list_all2 job_step (jobs d) (jobs d')" "locks_ok d'" by (simp_all add: tables_step_def)
  have "holds_ok d'" by (rule holds_ok_step [OF parts(3) parts(2) t step ts moves])
  moreover have "rows_ok d'" by (rule rows_ok_step [OF parts(3) t step ts moves tables])
  moreover have "posts_ok d'" by (rule posts_ok_step [OF parts(3) parts(4) t step ts tab(2) posts])
  moreover have "attempts_ok d'" by (rule attempts_ok_step [OF parts(3) parts(5) t step ts tab(3) tab(4)])
  moreover have "jobs_ok d'" by (rule jobs_ok_step [OF parts(3) parts(6) t step ts tab(3) tab(4) fin])
  ultimately show ?thesis using tab by (simp add: system_ok_def)
qed

section \<open>Steps that leave the transfers alone\<close>

lemma system_ok_quiet:
  assumes ok: "system_ok d" and tr: "transfers d' = transfers d" and same: "same_holds (sims d) (sims d')"
    and sl: "same_ledger d d'" and links: "same_links (attempts d) (attempts d')"
    and js: "list_all2 job_step (jobs d) (jobs d')" and vs: "map dv_id (devices d') = map dv_id (devices d)"
    and act: "\<And>v j. v \<in> set (devices d') \<Longrightarrow> dv_activeJob v = Some j \<Longrightarrow> j < next_id d'"
    and locks: "locks_ok d'"
  shows "system_ok d'"
proof -
  note parts = system_ok_parts [OF ok] and reads = same_ledger_reads [OF sl]
  have le: "next_id d \<le> next_id d'" using sl by (simp add: same_ledger_def)
  have res: "sim_reserved s = sim_held d (sim_id s)" if "s \<in> set (sims d')" for s
    using parts(2) same_holds_facts(2) [OF same that] by (auto simp: holds_ok_def)
  have "holds_ok d'"
    using parts(2) res by (simp add: holds_ok_def ledger_held_def sim_held_def tr reads)
  moreover have "rows_ok d'"
  proof -
    have att: "at_id b < next_id d' \<and> at_transfer b < next_id d' \<and> (\<exists>j < next_id d'. at_job b = Some j)"
      if "b \<in> set (attempts d')" for b
    proof -
      from links that obtain a where a: "a \<in> set (attempts d)" "at_id a = at_id b"
        "at_transfer a = at_transfer b" "at_job a = at_job b" by (rule same_links_mem)
      from parts(3) a(1) obtain j where j: "at_id a < next_id d" "at_transfer a < next_id d" "j < next_id d"
        "at_job a = Some j" by (auto simp: rows_ok_def)
      have "at_job b = Some j" using j(4) a(4) by simp
      with le a(2,3) j(1-3) show ?thesis by simp
    qed
    have t: "tr_id t < next_id d' \<and> (\<exists>i < next_id d'. tr_sim t = Some i)" if "t \<in> set (transfers d)" for t
      using parts(3) that le by (auto simp: rows_ok_def dest: less_le_trans)
    note f = same_holds_facts(1) [OF same]
    have slt: "\<forall>x \<in> set (sims d'). sim_id x < next_id d'"
      using parts(3) by (intro map_below [OF f _ le]) (simp add: rows_ok_def)
    have jlt: "\<forall>x \<in> set (jobs d'). jb_id x < next_id d'"
      using parts(3) by (intro map_below [OF job_steps_ids [OF js] _ le]) (simp add: rows_ok_def)
    have vlt: "\<forall>x \<in> set (devices d'). dv_id x < next_id d'"
      using parts(3) by (intro map_below [OF vs _ le]) (simp add: rows_ok_def)
    show ?thesis
      using parts(3) f same_links_maps [OF links] job_steps_ids [OF js] vs act att t slt jlt vlt
      by (simp add: rows_ok_def tr)
  qed
  moreover have "posts_ok d'" using parts(4) le unfolding posts_ok_def tr reads by (meson less_le_trans)
  moreover have "attempts_ok d'"
  proof -
    have "\<exists>t \<in> set (transfers d). tr_id t = at_transfer b \<and> tr_env t = Live \<and>
        (\<forall>j \<in> set (jobs d'). at_job b = Some (jb_id j) \<longrightarrow> tr_sim t = Some (jb_sim j))"
      if "b \<in> set (attempts d')" for b
    proof -
      from links that obtain a where a: "a \<in> set (attempts d)" "at_transfer a = at_transfer b"
        "at_job a = at_job b" by (rule same_links_mem)
      with parts(5) obtain t where t: "t \<in> set (transfers d)" "tr_id t = at_transfer b" "tr_env t = Live"
        "\<forall>j \<in> set (jobs d). at_job b = Some (jb_id j) \<longrightarrow> tr_sim t = Some (jb_sim j)"
        unfolding attempts_ok_def by metis
      have "tr_sim t = Some (jb_sim j')" if "j' \<in> set (jobs d')" "at_job b = Some (jb_id j')" for j'
        using job_steps_mem [OF js that(1)] t(4) that(2) by (metis job_step_def)
      with t show ?thesis by blast
    qed
    with parts(5) show ?thesis by (simp add: attempts_ok_def tr)
  qed
  moreover have "jobs_ok d'"
    unfolding jobs_ok_def
  proof (intro ballI impI)
    fix j' b assume j': "j' \<in> set (jobs d')" and b: "b \<in> set (attempts d')"
      and u: "unfinished_job j' \<and> at_job b = Some (jb_id j')"
    from job_steps_mem [OF js j'] obtain j where j: "j \<in> set (jobs d)" "job_step j j'" .
    from links b obtain a where a: "a \<in> set (attempts d)" "at_id a = at_id b"
      "at_transfer a = at_transfer b" "at_number a = at_number b" "at_job a = at_job b"
      by (rule same_links_mem)
    have old: "latest_attempt d a" "\<forall>t \<in> set (transfers d). tr_id t = at_transfer a \<longrightarrow>
        \<not> terminal_transfer (tr_status t)"
      using parts(6) j a u by (auto simp: jobs_ok_def job_step_def)
    then show "latest_attempt d' b \<and> (\<forall>t \<in> set (transfers d'). tr_id t = at_transfer b \<longrightarrow>
        \<not> terminal_transfer (tr_status t))"
      using latest_attempt_links [OF links refl refl b a(1) a(2) a(3) a(4) old(1)] a(3)
      by (simp add: tr)
  qed
  ultimately show ?thesis
    using locks ledger_ok_same [OF parts(1) sl] by (simp add: system_ok_def)
qed

text \<open>A job no attempt refers to yet, such as a balance query.\<close>

lemma system_ok_new_job:
  assumes ok: "system_ok d" and j: "jb_id j = next_id d"
  shows "system_ok (d\<lparr>jobs := jobs d @ [j], next_id := Suc (next_id d)\<rparr>)"
proof -
  let ?d = "d\<lparr>jobs := jobs d @ [j], next_id := Suc (next_id d)\<rparr>"
  note parts = system_ok_parts [OF ok]
  have sl: "same_ledger d ?d" by (simp add: same_ledger_def)
  note reads = same_ledger_reads [OF sl]
  have new: "a \<in> set (attempts d) \<Longrightarrow> at_job a \<noteq> Some (next_id d)"
    "v \<in> set (devices d) \<Longrightarrow> dv_activeJob v \<noteq> Some (next_id d)" for a v
    using parts(3) by (auto simp: rows_ok_def)
  have "holds_ok ?d" using parts(2) by (simp add: holds_ok_def ledger_held_def sim_held_def reads)
  moreover have "rows_ok ?d" using parts(3) j unfolding rows_ok_def by (auto simp: less_Suc_eq)
  moreover have "posts_ok ?d" using parts(4) unfolding posts_ok_def reads by (auto simp: less_Suc_eq)
  moreover have "attempts_ok ?d" using parts(5) new j by (auto simp: attempts_ok_def)
  moreover have "jobs_ok ?d" using parts(6) new j by (auto simp: jobs_ok_def latest_attempt_def)
  moreover have "locks_ok ?d" using parts(7) new j by (auto simp: locks_ok_def)
  ultimately show ?thesis using ledger_ok_same [OF parts(1) sl] by (simp add: system_ok_def)
qed

text \<open>A new attempt for an open transfer whose earlier jobs are finished.\<close>

lemma system_ok_new_attempt:
  assumes ok: "system_ok d" and t: "t \<in> set (transfers d)" "tr_env t = Live"
    and st: "\<not> terminal_transfer (tr_status t)"
    and a: "at_id a = next_id d" "at_transfer a = tr_id t" "at_job a = Some (jb_id j)"
    and j: "j \<in> set (jobs d)" "tr_sim t = Some (jb_sim j)"
    and free: "\<And>b. b \<in> set (attempts d) \<Longrightarrow> at_job b \<noteq> Some (jb_id j)"
    and num: "\<And>b. b \<in> set (attempts d) \<Longrightarrow> at_transfer b = tr_id t \<Longrightarrow> at_number b < at_number a"
    and fin: "jobs_done d (jobs d) (tr_id t)"
  shows "system_ok (d\<lparr>attempts := attempts d @ [a], next_id := Suc (next_id d)\<rparr>)"
proof -
  let ?d = "d\<lparr>attempts := attempts d @ [a], next_id := Suc (next_id d)\<rparr>"
  note parts = system_ok_parts [OF ok]
  have sl: "same_ledger d ?d" by (simp add: same_ledger_def)
  note reads = same_ledger_reads [OF sl]
  have lt: "jb_id j < next_id d" "tr_id t < next_id d" using parts(3) j(1) t(1) by (auto simp: rows_ok_def)
  have new: "at_id b \<noteq> next_id d" if "b \<in> set (attempts d)" for b
    using parts(3) that by (auto simp: rows_ok_def)
  have "holds_ok ?d" using parts(2) by (simp add: holds_ok_def ledger_held_def sim_held_def reads)
  moreover have "rows_ok ?d"
  proof -
    have "a \<notin> set (attempts d)" using new a(1) by auto
    moreover have "Some (jb_id j) \<notin> at_job ` set (attempts d)" using free by (metis imageE)
    moreover have "next_id d \<notin> at_id ` set (attempts d)" using new by (metis imageE)
    ultimately show ?thesis using parts(3) a lt unfolding rows_ok_def by (auto simp: less_Suc_eq)
  qed
  moreover have "posts_ok ?d" using parts(4) unfolding posts_ok_def reads by (auto simp: less_Suc_eq)
  moreover have "attempts_ok ?d"
  proof -
    have "i = j" if "i \<in> set (jobs d)" "jb_id i = jb_id j" for i
      using rows_unique(4) [OF parts(3) that(1) j(1) that(2)] .
    then show ?thesis using parts(5) t a j(2) by (auto simp: attempts_ok_def intro!: bexI [of _ t])
  qed
  moreover have "jobs_ok ?d"
    unfolding jobs_ok_def
  proof (intro ballI impI)
    fix i b assume i: "i \<in> set (jobs ?d)" and b: "b \<in> set (attempts ?d)"
      and u: "unfinished_job i \<and> at_job b = Some (jb_id i)"
    show "latest_attempt ?d b \<and> (\<forall>x \<in> set (transfers ?d). tr_id x = at_transfer b \<longrightarrow>
        \<not> terminal_transfer (tr_status x))"
    proof (cases "b = a")
      case True
      have "x = t" if "x \<in> set (transfers d)" "tr_id x = tr_id t" for x
        using rows_unique(1) [OF parts(3) that(1) t(1) that(2)] .
      with True num st a show ?thesis by (auto simp: latest_attempt_def)
    next
      case False
      with b i have b: "b \<in> set (attempts d)" and i: "i \<in> set (jobs d)" by simp_all
      with fin u have "at_transfer b \<noteq> tr_id t" by (auto simp: jobs_done_def)
      with parts(6) b i u a show ?thesis by (auto simp: jobs_ok_def latest_attempt_def)
    qed
  qed
  moreover have "locks_ok ?d" using parts(7) by (simp add: locks_ok_def)
  ultimately show ?thesis using ledger_ok_same [OF parts(1) sl] by (simp add: system_ok_def)
qed

section \<open>Postings on behalf of a transfer\<close>

text \<open>
  What the ledger part of a step owes the invariant: the journals fit and the reserved balance
  moves by what the step frees.
\<close>

definition post_step :: "db \<Rightarrow> transfer \<Rightarrow> transfer \<Rightarrow> db \<Rightarrow> bool" where
  "post_step d t t' d' \<longleftrightarrow> ledger_ok d' \<and> next_id d \<le> next_id d' \<and> new_posts d (tr_id t) (tr_status t') d' \<and>
     (\<forall>a. balance_of d' (key_of a Reserved) = balance_of d (key_of a Reserved) -
        (if freed t t' \<and> auth_of t = a then held t else 0))"

lemma post_step_none: "ledger_ok d \<Longrightarrow> \<not> freed t t' \<Longrightarrow> post_step d t t' d"
  by (simp add: post_step_def new_posts_def)

lemma posted_journals:
  assumes "posted_as st i \<delta> d d'" and "find_journal d' s k \<noteq> None" and "find_journal d s k = None"
  shows "s = st \<and> k = i"
proof -
  have "find_journal d' s k = None \<longleftrightarrow> find_journal d s k = None \<and> (s, k) \<noteq> (st, i)"
    using assms(1) unfolding posted_as_def by (elim conjE allE)
  with assms(2,3) show ?thesis by simp
qed

lemma post_stepI:
  assumes p: "posted_as st (tr_id t) \<delta> d d'" and fresh: "find_journal d st (tr_id t) = None"
    and fits: "release_source st \<Longrightarrow> \<not> open_status (tr_status t')"
      "settle_source st \<Longrightarrow> tr_status t' = T_success"
    and \<delta>: "\<And>a. \<delta> (key_of a Reserved) = - (if freed t t' \<and> auth_of t = a then held t else 0)"
  shows "post_step d t t' d'"
proof -
  have "balance_of d' (key_of a Reserved) = balance_of d (key_of a Reserved) -
      (if freed t t' \<and> auth_of t = a then held t else 0)" for a
    using posted_as_fresh(2) [OF p fresh, of "key_of a Reserved"] \<delta> [of a] by simp
  moreover have "new_posts d (tr_id t) (tr_status t') d'"
    using posted_journals [OF p] fits unfolding new_posts_def by blast
  ultimately show ?thesis using p by (auto simp: post_step_def posted_as_def dest: ledger_frame_tables(22))
qed

lemma post_step_same:
  assumes "same_ledger d e" and "post_step e t t' e1"
  shows "post_step d t t' e1"
  using assms same_ledger_reads [OF assms(1)] by (simp add: post_step_def new_posts_def same_ledger_def)

lemma source_simps [simp]:
  "release_source ''withdrawal_release''" "release_source ''internal_move_fee_release''"
  "settle_source ''withdrawal_settlement''" "settle_source ''internal_move_fee_settlement''"
  "settle_source ''withdrawal_late_rereservation''" "settle_source ''internal_move_fee_late_rereservation''"
  "\<not> settle_source ''withdrawal_release''" "\<not> settle_source ''internal_move_fee_release''"
  "\<not> release_source ''withdrawal_settlement''" "\<not> release_source ''internal_move_fee_settlement''"
  "\<not> release_source ''withdrawal_late_rereservation''"
  "\<not> release_source ''internal_move_fee_late_rereservation''"
  by (simp_all add: release_source_def settle_source_def)

lemma posts_ok_fresh:
  assumes "posts_ok d" and "t \<in> set (transfers d)"
  shows "release_source s \<Longrightarrow> open_status (tr_status t) \<Longrightarrow> find_journal d s (tr_id t) = None"
    and "settle_source s \<Longrightarrow> tr_status t \<noteq> T_success \<Longrightarrow> find_journal d s (tr_id t) = None"
  using assms unfolding posts_ok_def by blast+

lemma post_step_release:
  assumes ok: "system_ok d" and t: "t \<in> set (transfers d)" and same: "same_ledger d e"
    and run: "release_reservation t e = Inr d1" and free: "freed t t'"
  shows "post_step d t t' d1"
proof -
  note parts = system_ok_parts [OF ok] and reads = same_ledger_reads [OF same]
  have le: "ledger_ok e" using ledger_ok_same [OF parts(1) same] .
  have o1: "open_status (tr_status t)" and c: "\<not> open_status (tr_status t')" using free by (simp_all add: freed_def)
  note fresh = posts_ok_fresh(1) [OF parts(4) t _ o1, folded reads]
  have "post_step e t t' d1"
  proof (cases "tr_mode t = Merchant_debit")
    case True
    with run have "releaseWithdrawalReservation (auth_of t) (tr_id t) (ledger_total t) e = Inr d1"
      by (simp add: release_reservation_def)
    then show ?thesis
      using True free c by (intro post_stepI [OF release_effects(1) [OF le] fresh])
        (auto simp: at_def held_def)
  next
    case False
    with run have "releaseInternalMoveFee (auth_of t) (tr_id t) (tr_reserveFee t) e = Inr d1"
      by (simp add: release_reservation_def)
    then show ?thesis
      using False free c by (intro post_stepI [OF release_effects(2) [OF le] fresh])
        (auto simp: at_def held_def)
  qed
  with same show ?thesis by (rule post_step_same)
qed

text \<open>The posting of a settlement, on whatever state of the ledger it finds.\<close>

lemma settle_posted:
  assumes ok: "ledger_ok d" and run: "settle_transfer now t fee d = Inr d'"
  obtains s \<delta> where "posted_as s (tr_id t) \<delta> d d'" "settle_source s"
    "s = ''withdrawal_settlement'' \<or> s = ''internal_move_fee_settlement''"
    "\<forall>a. \<delta> (key_of a Reserved) = - (if auth_of t = a then held t else 0)"
proof (cases "tr_mode t = Merchant_debit")
  case True
  with run have "settleWithdrawal now (auth_of t) (tr_id t) \<lparr>sv_amount = tr_amount t,
      sv_reservedFee = tr_reserveFee t, sv_actualFee = fee, sv_gatewayFee = tr_gatewayFee t\<rparr> d = Inr d'"
    by (simp add: settle_transfer_def)
  from settleWithdrawal_effect [OF ok this] True show thesis
    by (intro that) (auto simp: at_def held_def ledger_total_def)
next
  case False
  with run have "settleInternalMoveFee now (auth_of t) (tr_id t) (tr_amount t) (tr_reserveFee t) fee d = Inr d'"
    by (simp add: settle_transfer_def)
  from settleInternalMoveFee_effect [OF ok this] False show thesis
    by (intro that) (auto simp: at_def held_def)
qed

lemma restore_posted:
  assumes ok: "ledger_ok d" and run: "restore_reservation t d = Inr d'"
  obtains s \<delta> where "posted_as s (tr_id t) \<delta> d d'" "settle_source s"
    "s = ''withdrawal_late_rereservation'' \<or> s = ''internal_move_fee_late_rereservation''"
    "\<forall>a. \<delta> (key_of a Reserved) = (if auth_of t = a then held t else 0)"
proof (cases "tr_mode t = Merchant_debit")
  case True
  with run have "restoreReleasedWithdrawalForLateSuccess (auth_of t) (tr_id t) (ledger_total t) d = Inr d'"
    by (simp add: restore_reservation_def)
  from release_effects(3) [OF ok this] True show thesis
    by (intro that) (auto simp: at_def held_def)
next
  case False
  with run have "restoreReleasedInternalMoveFeeForLateSuccess (auth_of t) (tr_id t) (tr_reserveFee t) d = Inr d'"
    by (simp add: restore_reservation_def)
  from release_effects(4) [OF ok this] False show thesis
    by (intro that) (auto simp: at_def held_def)
qed

lemma post_step_settle:
  assumes ok: "system_ok d" and t: "t \<in> set (transfers d)" and run: "settle_transfer now t fee d = Inr d1"
    and st: "open_status (tr_status t)" "tr_status t' = T_success"
  shows "post_step d t t' d1"
proof -
  note parts = system_ok_parts [OF ok]
  have ns: "tr_status t \<noteq> T_success" and f: "freed t t'" using st by (auto simp: open_status_def freed_def)
  note fresh = posts_ok_fresh(2) [OF parts(4) t _ ns]
  obtain s \<delta> where p: "posted_as s (tr_id t) \<delta> d d1" "settle_source s"
    "s = ''withdrawal_settlement'' \<or> s = ''internal_move_fee_settlement''"
    "\<forall>a. \<delta> (key_of a Reserved) = - (if auth_of t = a then held t else 0)"
    by (rule settle_posted [OF parts(1) run])
  from p(2) have nr: "\<not> release_source s" by (auto simp: settle_source_def release_source_def)
  show ?thesis
    by (rule post_stepI [OF p(1) fresh [OF p(2)]]) (use nr st(2) f p(4) in auto)
qed

text \<open>A success after a failure: the reservation is taken back and settled at once.\<close>

lemma post_step_late:
  assumes ok: "system_ok d" and t: "t \<in> set (transfers d)"
    and run: "restore_reservation t d = Inr d1" "same_core d1 d2" "settle_transfer now t fee d2 = Inr d3"
      "ledger_frame d1 d2"
    and st: "tr_status t = T_failed" "tr_status t' = T_success"
  shows "post_step d t t' d3"
proof -
  note parts = system_ok_parts [OF ok]
  have ns: "tr_status t \<noteq> T_success" and f: "\<not> freed t t'" using st by (auto simp: open_status_def freed_def)
  note fresh = posts_ok_fresh(2) [OF parts(4) t _ ns]
  obtain s \<delta> where p: "posted_as s (tr_id t) \<delta> d d1" "settle_source s"
    "s = ''withdrawal_late_rereservation'' \<or> s = ''internal_move_fee_late_rereservation''"
    "\<forall>a. \<delta> (key_of a Reserved) = (if auth_of t = a then held t else 0)"
    by (rule restore_posted [OF parts(1) run(1)])
  have sl: "same_ledger d1 d2" using run(2) by (simp add: same_core_def)
  note reads = same_ledger_reads [OF sl]
  have ok2: "ledger_ok d2" using p(1) ledger_ok_same [OF _ sl] by (auto simp: posted_as_def)
  obtain s' \<delta>' where q: "posted_as s' (tr_id t) \<delta>' d2 d3" "settle_source s'"
    "s' = ''withdrawal_settlement'' \<or> s' = ''internal_move_fee_settlement''"
    "\<forall>a. \<delta>' (key_of a Reserved) = - (if auth_of t = a then held t else 0)"
    by (rule settle_posted [OF ok2 run(3)])
  have ne: "s' \<noteq> s" using p(3) q(3) by auto
  have fresh2: "find_journal d2 s' (tr_id t) = None"
    using posted_as_fresh(4) [OF p(1) fresh [OF p(2)] ne fresh [OF q(2)]] by (simp add: reads)
  have "balance_of d3 (key_of a Reserved) = balance_of d (key_of a Reserved)" for a
    using posted_as_fresh(2) [OF p(1) fresh [OF p(2)]] posted_as_fresh(2) [OF q(1) fresh2] p(4) q(4)
    by (simp add: reads)
  moreover have "new_posts d (tr_id t) (tr_status t') d3"
    unfolding new_posts_def
  proof (intro allI impI)
    fix s1 k assume j: "hold_source s1 \<and> find_journal d3 s1 k \<noteq> None"
    show "find_journal d s1 k \<noteq> None \<or> k = tr_id t \<and>
        (release_source s1 \<longrightarrow> \<not> open_status (tr_status t')) \<and> (settle_source s1 \<longrightarrow> tr_status t' = T_success)"
      using j posted_journals [OF q(1), of s1 k] posted_journals [OF p(1), of s1 k] st
      by (auto simp: reads open_status_def)
  qed
  ultimately show ?thesis
    using p(1) q(1) run(4) f
    by (auto simp: post_step_def posted_as_def dest!: ledger_frame_tables(22) intro: order_trans)
qed

section \<open>The frame of a step\<close>

text \<open>
  Attempts keep their links, jobs may finish, a phone may drop its lock, and a job that leaves
  the lease states is named by no lock afterwards.
\<close>

definition dev_step :: "device \<Rightarrow> device \<Rightarrow> bool" where
  "dev_step v v' \<longleftrightarrow> dv_id v' = dv_id v \<and> (dv_activeJob v' = dv_activeJob v \<or> dv_activeJob v' = None)"

definition lock_step :: "device list \<Rightarrow> device_job \<Rightarrow> device_job \<Rightarrow> bool" where
  "lock_step vs j j' \<longleftrightarrow> job_step j j' \<and> (lease_live (jb_state j) \<longrightarrow>
     lease_live (jb_state j') \<and> jb_device j' = jb_device j \<or> (\<forall>v \<in> set vs. dv_activeJob v \<noteq> Some (jb_id j)))"

definition frame_step :: "db \<Rightarrow> db \<Rightarrow> bool" where
  "frame_step d d' \<longleftrightarrow> same_links (attempts d) (attempts d') \<and>
     list_all2 dev_step (devices d) (devices d') \<and>
     list_all2 (lock_step (devices d')) (jobs d) (jobs d')"

lemma dev_step_refl [simp]: "dev_step v v"
  by (simp add: dev_step_def)

lemma lock_step_refl [simp]: "lock_step vs j j"
  by (simp add: lock_step_def)

lemma frame_step_refl [simp]: "frame_step d d"
  by (simp add: frame_step_def list_all2_same)

lemma list_all2_member:
  "list_all2 R xs ys \<Longrightarrow> y \<in> set ys \<Longrightarrow> \<exists>x \<in> set xs. R x y"
  by (induction rule: list_all2_induct) auto

lemma frame_step_facts:
  assumes fr: "frame_step d d'" and ok: "rows_ok d" "locks_ok d" and le: "next_id d \<le> next_id d'"
  shows "same_links (attempts d) (attempts d')" and "list_all2 job_step (jobs d) (jobs d')"
    and "map dv_id (devices d') = map dv_id (devices d)"
    and "v \<in> set (devices d') \<Longrightarrow> dv_activeJob v = Some i \<Longrightarrow> i < next_id d'" and "locks_ok d'"
proof -
  from fr have links: "same_links (attempts d) (attempts d')"
    and vs: "list_all2 dev_step (devices d) (devices d')"
    and js: "list_all2 (lock_step (devices d')) (jobs d) (jobs d')" by (simp_all add: frame_step_def)
  show "same_links (attempts d) (attempts d')" by (rule links)
  show "list_all2 job_step (jobs d) (jobs d')"
    using js by (rule list_all2_mono) (simp add: lock_step_def)
  show "map dv_id (devices d') = map dv_id (devices d)"
    using vs by (induction rule: list_all2_induct) (auto simp: dev_step_def)
  have old: "\<exists>u \<in> set (devices d). dv_id v = dv_id u \<and> dv_activeJob u = Some i"
    if "v \<in> set (devices d')" "dv_activeJob v = Some i" for v i
    using list_all2_member [OF vs that(1)] that(2) by (auto simp: dev_step_def)
  show "i < next_id d'" if v: "v \<in> set (devices d')" "dv_activeJob v = Some i"
  proof -
    from old [OF v] obtain u where "u \<in> set (devices d)" "dv_activeJob u = Some i" by blast
    with ok(1) le show ?thesis by (auto simp: rows_ok_def dest: less_le_trans)
  qed
  show "locks_ok d'"
    unfolding locks_ok_def
  proof (intro ballI impI)
    fix v j' assume v: "v \<in> set (devices d')" and j': "j' \<in> set (jobs d')" and a: "dv_activeJob v = Some (jb_id j')"
    from list_all2_member [OF js j'] obtain j where j: "j \<in> set (jobs d)" "lock_step (devices d') j j'" by blast
    then have id: "jb_id j' = jb_id j" by (simp add: lock_step_def job_step_def)
    from old [OF v a] obtain u where u: "u \<in> set (devices d)" "dv_id v = dv_id u" "dv_activeJob u = Some (jb_id j')"
      by blast
    with ok(2) j(1) id have "lease_live (jb_state j)" "jb_device j = Some (dv_id v)" by (auto simp: locks_ok_def)
    with j(2) v a id show "lease_live (jb_state j') \<and> jb_device j' = Some (dv_id v)"
      by (auto simp: lock_step_def)
  qed
qed

theorem system_ok_idle:
  assumes ok: "system_ok d" and tr: "transfers d' = transfers d" and same: "same_holds (sims d) (sims d')"
    and sl: "same_ledger d d'" and fr: "frame_step d d'"
  shows "system_ok d'"
proof -
  have "next_id d \<le> next_id d'" using sl by (simp add: same_ledger_def)
  from frame_step_facts [OF fr system_ok_parts(3) [OF ok] system_ok_parts(7) [OF ok] this]
  show ?thesis by (intro system_ok_quiet [OF ok tr same sl])
qed

theorem system_ok_posted:
  assumes ok: "system_ok d" and t: "t \<in> set (transfers d)" and step: "status_step t (f t)"
    and post: "post_step d t (f t) d1" and sl: "same_ledger d1 d'"
    and ts: "transfers d' = update_where (\<lambda>x. tr_id x = tr_id t) f (transfers d)"
    and ss: "map (\<lambda>s. (sim_id s, sim_reserved s)) (sims d') = map (\<lambda>s. (sim_id s, sim_reserved s -
        (if freed t (f t) \<and> tr_sim t = Some (sim_id s) then physical_total t else 0))) (sims d)"
    and fr: "frame_step d d'"
    and fin: "terminal_transfer (tr_status (f t)) \<Longrightarrow> terminal_transfer (tr_status t) \<or>
      jobs_done d (jobs d') (tr_id t)"
  shows "system_ok d'"
proof -
  note parts = system_ok_parts [OF ok] and reads = same_ledger_reads [OF sl]
  from post have p: "ledger_ok d1" "next_id d \<le> next_id d1" "new_posts d (tr_id t) (tr_status (f t)) d1"
    "\<forall>a. balance_of d1 (key_of a Reserved) = balance_of d (key_of a Reserved) -
      (if freed t (f t) \<and> auth_of t = a then held t else 0)"
    by (simp_all add: post_step_def ledger_frame_tables)
  have le: "next_id d \<le> next_id d'" using p(2) sl by (simp add: same_ledger_def)
  note f = frame_step_facts [OF fr parts(3) parts(7) le]
  have "reserve_moves d t (f t) d'" unfolding reserve_moves_def using p(4) ss by (simp add: reads)
  moreover have "new_posts d (tr_id t) (tr_status (f t)) d'"
    using p(3) unfolding new_posts_def by (simp add: reads)
  moreover have "tables_step d d'"
    unfolding tables_step_def using f le ledger_ok_same [OF p(1) sl] by blast
  ultimately show ?thesis by (rule system_ok_transfer [OF ok t step ts _ _ _ fin])
qed

lemma sims_freed:
  assumes "freed t t'" and "tr_sim t = Some i" and "\<And>s. sim_id (g s) = sim_id s"
    and "\<And>s. sim_reserved (g s) = sim_reserved s - physical_total t"
  shows "map (\<lambda>s. (sim_id s, sim_reserved s)) (update_where (\<lambda>s. sim_id s = i) g ss) =
    map (\<lambda>s. (sim_id s, sim_reserved s -
      (if freed t t' \<and> tr_sim t = Some (sim_id s) then physical_total t else 0))) ss"
  using assms by (simp add: update_where_def comp_def)

lemma sims_kept:
  "\<not> freed t t' \<Longrightarrow> same_holds ss ss' \<Longrightarrow> map (\<lambda>s. (sim_id s, sim_reserved s)) ss' =
    map (\<lambda>s. (sim_id s, sim_reserved s -
      (if freed t t' \<and> tr_sim t = Some (sim_id s) then physical_total t else 0))) ss"
  by (simp add: same_holds_def)

section \<open>Opening a transfer\<close>

lemma reserve_posted:
  assumes ok: "ledger_ok d" and run: "reserve_transfer t d = Inr d'"
  obtains s \<delta> where "posted_as s (tr_id t) \<delta> d d'" "reserve_source s"
    "\<forall>a. \<delta> (key_of a Reserved) = (if auth_of t = a then held t else 0)"
proof (cases "tr_mode t = Merchant_debit")
  case True
  with run have "reserveWithdrawal (auth_of t) (tr_id t) (ledger_total t) d = Inr d'"
    by (simp add: reserve_transfer_def)
  from reserveWithdrawal_effect(1) [OF ok this] True show thesis
    by (intro that) (auto simp: at_def held_def reserve_source_def)
next
  case False
  with run have "reserveInternalMoveFee (auth_of t) (tr_id t) (tr_reserveFee t) d = Inr d'"
    by (simp add: reserve_transfer_def)
  from reserveInternalMoveFee_effect(1) [OF ok this] False show thesis
    by (intro that) (auto simp: at_def held_def reserve_source_def)
qed

lemma system_ok_open:
  assumes ok: "system_ok d" and t: "tr_id t = next_id d" "tr_sim t = Some i" "i < next_id d"
    and st: "open_status (tr_status t)" "tr_status t \<noteq> T_manual_review"
    and run: "reserve_transfer t (d\<lparr>transfers := transfers d @ [t], next_id := Suc (next_id d)\<rparr>) = Inr d1"
  shows "system_ok (set_sim i (\<lambda>s. s\<lparr>sim_reserved := sim_reserved s + physical_total t\<rparr>) d1)"
proof -
  let ?e = "d\<lparr>transfers := transfers d @ [t], next_id := Suc (next_id d)\<rparr>"
  let ?d = "set_sim i (\<lambda>s. s\<lparr>sim_reserved := sim_reserved s + physical_total t\<rparr>) d1"
  note parts = system_ok_parts [OF ok]
  have se: "same_ledger d ?e" and sd: "same_ledger d1 ?d" by (simp_all add: same_ledger_def set_sim_def)
  note r1 = same_ledger_reads [OF se] and r2 = same_ledger_reads [OF sd]
  obtain s \<delta> where p: "posted_as s (tr_id t) \<delta> ?e d1" and s: "reserve_source s"
    and \<delta>: "\<forall>a. \<delta> (key_of a Reserved) = (if auth_of t = a then held t else 0)"
    by (rule reserve_posted [OF ledger_ok_same [OF parts(1) se] run])
  from s have src: "hold_source s" "\<not> release_source s" "\<not> settle_source s"
    by (auto simp: hold_source_def reserve_source_def release_source_def settle_source_def)
  have none: "find_journal d s' (next_id d) = None" if "hold_source s'" for s'
    using parts(4) that unfolding posts_ok_def by blast
  note fr = posted_as_fresh(2) [OF p none [OF src(1), folded t(1), folded r1(1)]]
  have le: "Suc (next_id d) \<le> next_id d1" and fl: "ledger_frame ?e d1" and l1: "ledger_ok d1"
    using p by (auto simp: posted_as_def dest: ledger_frame_tables(22))
  note tab = ledger_frame_tables [OF fl, simplified]
  have j: "find_journal d s' k \<noteq> None \<or> s' = s \<and> k = next_id d" if "find_journal ?d s' k \<noteq> None" for s' k
    using posted_journals [OF p, of s' k] that t(1) by (auto simp: r1 r2)
  have "holds_ok ?d"
  proof -
    have "balance_of ?d (key_of a Reserved) = ledger_held ?d a" for a
    proof -
      have "transfers ?d = transfers d @ [t]" by (simp add: set_sim_def tab)
      then show ?thesis using parts(2) \<delta> fr st(1) by (simp add: r1 r2 holds_ok_def ledger_held_def)
    qed
    moreover have "sim_reserved x = sim_held ?d (sim_id x)" if "x \<in> set (sims ?d)" for x
    proof -
      from that obtain y where y: "y \<in> set (sims d)"
        "x = (if sim_id y = i then y\<lparr>sim_reserved := sim_reserved y + physical_total t\<rparr> else y)"
        by (auto simp: set_sim_def tab elim: in_update_where)
      with parts(2) st(1) t(2) show ?thesis
        by (auto simp: holds_ok_def sim_held_def set_sim_def tab)
    qed
    ultimately show ?thesis by (simp add: holds_ok_def)
  qed
  moreover have "rows_ok ?d"
  proof -
    have tid: "tr_id t \<notin> tr_id ` set (transfers d)" using parts(3) t(1) by (fastforce simp: rows_ok_def)
    have map_sims: "map sim_id (sims ?d) = map sim_id (sims d)"
      by (simp add: set_sim_def tab update_where_def comp_def if_distrib cong: if_cong)
    have le': "next_id d \<le> next_id d1" and lt: "next_id d < next_id d1" using le by simp_all
    have "\<forall>x \<in> set (sims ?d). sim_id x < next_id ?d"
      using parts(3) le' by (intro map_below [OF map_sims]) (auto simp: rows_ok_def set_sim_def)
    moreover have "\<forall>x \<in> set (transfers ?d). tr_id x < next_id ?d \<and> (\<exists>i < next_id ?d. tr_sim x = Some i)"
      using parts(3) le' lt t by (auto simp: rows_ok_def set_sim_def tab dest: less_le_trans)
    moreover have "\<forall>a \<in> set (attempts ?d). at_id a < next_id ?d \<and> at_transfer a < next_id ?d \<and>
        (\<exists>j < next_id ?d. at_job a = Some j)"
      using parts(3) le' by (auto simp: rows_ok_def set_sim_def tab dest: less_le_trans)
    moreover have "\<forall>x \<in> set (jobs ?d). jb_id x < next_id ?d"
      using parts(3) le' by (auto simp: rows_ok_def set_sim_def tab dest: less_le_trans)
    moreover have "\<forall>v \<in> set (devices ?d). dv_id v < next_id ?d \<and>
        (\<forall>j. dv_activeJob v = Some j \<longrightarrow> j < next_id ?d)"
      using parts(3) le' by (auto simp: rows_ok_def set_sim_def tab dest: less_le_trans)
    moreover have "distinct (map tr_id (transfers ?d))" using parts(3) tid by (auto simp: rows_ok_def set_sim_def tab)
    ultimately show ?thesis
      using parts(3) map_sims by (simp add: rows_ok_def set_sim_def tab)
  qed
  moreover have "posts_ok ?d"
  proof -
    have "k < next_id ?d" if "hold_source s'" "find_journal ?d s' k \<noteq> None" for s' k
    proof -
      have "find_journal d s' k \<noteq> None \<longrightarrow> k < next_id d"
        using parts(4) that(1) unfolding posts_ok_def by blast
      with j [OF that(2)] le show ?thesis by (auto simp: set_sim_def)
    qed
    moreover have "(release_source s' \<longrightarrow> \<not> open_status (tr_status x)) \<and> (settle_source s' \<longrightarrow> tr_status x = T_success)"
      if x: "x \<in> set (transfers ?d)" and jx: "find_journal ?d s' (tr_id x) \<noteq> None" for x s'
    proof (cases "x \<in> set (transfers d)")
      case True
      then have "tr_id x \<noteq> next_id d" using parts(3) by (auto simp: rows_ok_def)
      with j [OF jx] parts(4) True show ?thesis by (auto simp: posts_ok_def)
    next
      case False
      then have "x = t" using x by (simp add: set_sim_def tab)
      with j [OF jx] t(1) none [of s'] src show ?thesis by (auto simp: hold_source_def)
    qed
    ultimately show ?thesis unfolding posts_ok_def by blast
  qed
  moreover have "attempts_ok ?d"
    using parts(5) st(2) unfolding attempts_ok_def by (auto simp: set_sim_def tab)
  moreover have "jobs_ok ?d"
  proof -
    have "\<forall>a \<in> set (attempts d). tr_id t \<noteq> at_transfer a"
      using parts(3) t(1) by (auto simp: rows_ok_def)
    then show ?thesis using parts(6) by (auto simp: jobs_ok_def latest_attempt_def set_sim_def tab)
  qed
  moreover have "locks_ok ?d" using parts(7) by (simp add: locks_ok_def set_sim_def tab)
  ultimately show ?thesis using ledger_ok_same [OF l1 sd] by (simp add: system_ok_def)
qed

end
