(* ===== verification/Transactions.thy ===== *)
theory Transactions
  imports Reservations
begin

text \<open>
  Every operation on payouts keeps \<open>system_ok\<close>: each transaction is reduced to its core, the
  writes the invariant reads, and the core is one step of Reservations.
\<close>

declare split_paired_All [simp del] split_paired_Ex [simp del]

section \<open>Reading the core of a transaction\<close>

lemma set_tables [simp]:
  "transfers (set_transfer i f d) = update_where (\<lambda>t. tr_id t = i) f (transfers d)"
  "sims (set_transfer i f d) = sims d" "attempts (set_transfer i f d) = attempts d"
  "jobs (set_transfer i f d) = jobs d" "devices (set_transfer i f d) = devices d"
  "sims (set_sim i g d) = update_where (\<lambda>s. sim_id s = i) g (sims d)"
  "transfers (set_sim i g d) = transfers d" "attempts (set_sim i g d) = attempts d"
  "jobs (set_sim i g d) = jobs d" "devices (set_sim i g d) = devices d"
  "jobs (set_job i h d) = update_where (\<lambda>j. jb_id j = i) h (jobs d)"
  "transfers (set_job i h d) = transfers d" "sims (set_job i h d) = sims d"
  "attempts (set_job i h d) = attempts d" "devices (set_job i h d) = devices d"
  "attempts (set_attempt i k d) = update_where (\<lambda>a. at_id a = i) k (attempts d)"
  "transfers (set_attempt i k d) = transfers d" "sims (set_attempt i k d) = sims d"
  "jobs (set_attempt i k d) = jobs d" "devices (set_attempt i k d) = devices d"
  "devices (set_device i l d) = update_where (\<lambda>v. dv_id v = i) l (devices d)"
  "transfers (set_device i l d) = transfers d" "sims (set_device i l d) = sims d"
  "attempts (set_device i l d) = attempts d" "jobs (set_device i l d) = jobs d"
  "transfers (clear_active i d) = transfers d" "sims (clear_active i d) = sims d"
  "attempts (clear_active i d) = attempts d" "jobs (clear_active i d) = jobs d"
  by (simp_all add: set_transfer_def set_sim_def set_job_def set_attempt_def set_device_def clear_active_def)

lemma set_ledger [simp]:
  assumes "same_ledger d d'"
  shows "same_ledger d (set_transfer i f d')" and "same_ledger d (set_sim i g d')"
    and "same_ledger d (set_job i h d')" and "same_ledger d (set_attempt i k d')"
    and "same_ledger d (set_device i l d')" and "same_ledger d (clear_active i d')"
    and "same_ledger d (d'\<lparr>sims := ss\<rparr>)" and "same_ledger d (d'\<lparr>jobs := js\<rparr>)"
    and "same_ledger d (d'\<lparr>attempts := as\<rparr>)" and "same_ledger d (d'\<lparr>devices := vs\<rparr>)"
    and "same_ledger d (d'\<lparr>transfers := ts\<rparr>)"
  using assms
  by (simp_all add: same_ledger_def set_transfer_def set_sim_def set_job_def set_attempt_def
      set_device_def clear_active_def)

lemma set_core [intro]:
  assumes "same_core d d'"
  shows "same_core (set_transfer i f d) (set_transfer i f d')" and "same_core (set_sim i g d) (set_sim i g d')"
    and "same_core (set_job i h d) (set_job i h d')" and "same_core (set_attempt i k d) (set_attempt i k d')"
    and "same_core (set_device i l d) (set_device i l d')" and "same_core (clear_active i d) (clear_active i d')"
  using assms
  by (simp_all add: same_core_def same_ledger_def set_transfer_def set_sim_def set_job_def
      set_attempt_def set_device_def clear_active_def)

text \<open>The steps of a status, of a job and of an attempt, on the updates the code makes.\<close>

lemma status_stepI:
  "same_static t t' \<Longrightarrow> open_status (tr_status t) \<Longrightarrow> tr_status t' \<noteq> T_manual_review \<Longrightarrow> status_step t t'"
  by (simp add: status_step_def)

lemma same_holds_refl [simp]: "same_holds ss ss"
  by (simp add: same_holds_def)

lemma find_transfer_mem: "find_transfer d i = Some t \<Longrightarrow> t \<in> set (transfers d) \<and> tr_id t = i"
  by (auto simp: find_transfer_def dest: find_SomeD)

lemma find_job_mem: "find_job d i = Some j \<Longrightarrow> j \<in> set (jobs d) \<and> jb_id j = i"
  by (auto simp: find_job_def dest: find_SomeD)

lemma find_sim_mem: "find_sim d i = Some s \<Longrightarrow> s \<in> set (sims d) \<and> sim_id s = i"
  by (auto simp: find_sim_def dest: find_SomeD)

lemma release_frame:
  assumes ok: "ledger_ok d" and run: "release_reservation t d = Inr d1"
  shows "ledger_frame d d1"
  using run release_effects(1,2) [OF ok, of "auth_of t" "tr_id t"]
  by (simp add: release_reservation_def posted_as_def split: if_splits)

lemma settle_frame: "ledger_ok d \<Longrightarrow> settle_transfer now t fee d = Inr d1 \<Longrightarrow> ledger_frame d d1"
  by (erule (1) settle_posted) (simp add: posted_as_def)

section \<open>The test simulator\<close>

lemma test_unknown_ok:
  assumes ok: "system_ok d" and t: "t \<in> set (transfers d)" and env: "tr_env t = Test"
    and st: "open_status (tr_status t)" and run: "test_unknown now t d = Inr d'"
  shows "system_ok d'"
proof -
  let ?f = "\<lambda>x. x\<lparr>tr_status := T_unknown\<rparr>" and ?c = "set_transfer (tr_id t) (\<lambda>x. x\<lparr>tr_status := T_unknown\<rparr>) d"
  have nf: "\<not> freed t (?f t)" by (simp add: freed_def open_status_def)
  have "system_ok ?c"
    by (rule system_ok_posted [where f = ?f, OF ok t _ post_step_none [OF system_ok_parts(1) [OF ok] nf]])
      (simp_all add: status_step_def same_static_def st nf frame_step_def list_all2_same
        jobs_done_none [OF ok t env])
  moreover have "same_core ?c d'"
    using run by (auto simp: test_unknown_def Let_def tx_simps dest!: updateLinkedOperation_core
        intro!: same_core_writes elim!: same_core_trans [rotated])
  ultimately show ?thesis by (rule system_ok_same_core)
qed

lemma test_failed_ok:
  assumes ok: "system_ok d" and t: "t \<in> set (transfers d)" and env: "tr_env t = Test"
    and st: "open_status (tr_status t)" and sim: "tr_sim t = Some i" and run: "test_failed now t d = Inr d'"
  shows "system_ok d'"
proof -
  let ?f = "\<lambda>x. x\<lparr>tr_status := T_failed, tr_completedAt := Some now\<rparr>"
    and ?g = "\<lambda>s. s\<lparr>sim_reserved := sim_reserved s - physical_total t\<rparr>"
  from run obtain d1 where d1: "release_reservation t d = Inr d1"
    and rest: "map_outcome (emit_transfer now t ''failed'' T_failed) (updateLinkedOperation now (tr_id t) O_failed
      (set_transfer (tr_id t) ?f (set_sim i ?g d1))) = Inr d'"
    by (auto simp: test_failed_def Let_def tx_simps sim)
  let ?c = "set_transfer (tr_id t) ?f (set_sim i ?g d1)"
  have fr: "freed t (?f t)" using st by (simp add: freed_def open_status_def)
  note tab = ledger_frame_tables [OF release_frame [OF system_ok_parts(1) [OF ok] d1]]
  have "system_ok ?c"
    by (rule system_ok_posted [where f = ?f, OF ok t _ post_step_release [OF ok t same_ledger_refl d1 fr]])
      (simp_all add: status_step_def same_static_def st tab sims_freed [OF fr sim] frame_step_def list_all2_same
        jobs_done_none [OF ok t env])
  moreover have "same_core ?c d'"
    using rest by (auto simp: tx_simps dest!: updateLinkedOperation_core)
  ultimately show ?thesis by (rule system_ok_same_core)
qed

lemma test_success_ok:
  assumes ok: "system_ok d" and t: "t \<in> set (transfers d)" and env: "tr_env t = Test"
    and st: "open_status (tr_status t)" and sim: "tr_sim t = Some i"
    and run: "test_success now sim_tx t d = Inr d'"
  shows "system_ok d'"
proof -
  let ?f = "\<lambda>x. x\<lparr>tr_status := T_success, tr_providerFee := Some 87,
      tr_providerVat := Some 13, tr_providerTx := Some sim_tx, tr_completedAt := Some now\<rparr>"
  define sent where "sent = (case find_sim d i of None \<Rightarrow> 0 | Some s \<Rightarrow> sent_today now s)"
  let ?g = "\<lambda>s. s\<lparr>sim_reserved := sim_reserved s - physical_total t, sim_main := sim_main s - (tr_amount t + 100),
      sim_sentToday := sent + (tr_amount t + 100), sim_financialDay := Some (addisFinancialDay now)\<rparr>"
  from run obtain d1 where d1: "settle_transfer now t 100 d = Inr d1"
    and rest: "updateLinkedOperation now (tr_id t) O_success (emit_transfer now t ''success'' T_success
      (set_transfer (tr_id t) ?f (credit_treasury t (set_sim i ?g d1)))) = Inr d'"
    by (auto simp: test_success_def Let_def tx_simps sim sent_def)
  let ?c = "set_transfer (tr_id t) ?f (set_sim i ?g d1)"
  have fr: "freed t (?f t)" using st by (simp add: freed_def open_status_def)
  note tab = ledger_frame_tables [OF settle_frame [OF system_ok_parts(1) [OF ok] d1]]
  have "system_ok ?c"
    by (rule system_ok_posted [where f = ?f, OF ok t _ post_step_settle [OF ok t d1 st]])
      (simp_all add: status_step_def same_static_def st tab sims_freed [OF fr sim] frame_step_def list_all2_same
        jobs_done_none [OF ok t env])
  moreover have "same_core ?c (set_transfer (tr_id t) ?f (credit_treasury t (set_sim i ?g d1)))"
    by (intro set_core) simp
  then have "same_core ?c d'"
    using updateLinkedOperation_core [OF rest] by (auto elim: same_core_trans [rotated])
  ultimately show ?thesis by (rule system_ok_same_core)
qed

lemma finalizeTest_ok:
  assumes "system_ok d" and t: "t \<in> set (transfers d)" and "tr_env t = Test" and "open_status (tr_status t)"
    and run: "finalizeTest now sim_tx t st d = Inr d'"
  shows "system_ok d'"
proof -
  obtain i where i: "tr_sim t = Some i" using system_ok_parts(3) [OF assms(1)] t by (auto simp: rows_ok_def)
  show ?thesis
    using run test_unknown_ok [OF assms(1-4)] test_failed_ok [OF assms(1-4) i] test_success_ok [OF assms(1-4) i]
    by (cases st) (simp_all add: finalizeTest_def)
qed

section \<open>Closing the job of a transfer\<close>

lemma find_job_eq: "rows_ok d \<Longrightarrow> j \<in> set (jobs d) \<Longrightarrow> find_job d (jb_id j) = Some j"
  by (simp add: find_job_def rows_ok_def find_key_unique)

lemma find_transfer_eq: "rows_ok d \<Longrightarrow> t \<in> set (transfers d) \<Longrightarrow> find_transfer d (tr_id t) = Some t"
  by (simp add: find_transfer_def rows_ok_def find_key_unique)

lemma lease_live_unfinished: "lease_live (jb_state j) \<Longrightarrow> unfinished_job j"
  by (auto simp: lease_live_def unfinished_job_def)

lemma newest_attempt_mem:
  "newest_attempt d tid = Some a \<Longrightarrow> a \<in> set (attempts d) \<and> at_transfer a = tid"
  by (auto simp: newest_attempt_def dest: first_by_SomeD)

text \<open>The job of an attempt of a closed transfer is finished, so no lock names it.\<close>

lemma terminal_job_finished:
  assumes ok: "system_ok d" and t: "t \<in> set (transfers d)" "terminal_transfer (tr_status t)"
    and a: "a \<in> set (attempts d)" "at_transfer a = tr_id t" and j: "j \<in> set (jobs d)" "at_job a = Some (jb_id j)"
  shows "\<not> unfinished_job j"
  using system_ok_parts(6) [OF ok] t a j by (auto simp: jobs_ok_def)

lemma frame_step_jobs: "frame_step d d' \<Longrightarrow> list_all2 job_step (jobs d) (jobs d')"
  by (auto simp: frame_step_def lock_step_def elim!: list_all2_mono)

text \<open>Finishing the job of the newest attempt, with its lock if it holds one.\<close>

lemma updated_job:
  assumes "j \<in> set (update_where (\<lambda>x. jb_id x = i) h js)" and "jb_id j = i" and "\<And>x. jb_id (h x) = jb_id x"
  obtains x where "x \<in> set js" "jb_id x = i" "j = h x"
proof -
  from assms(1) obtain x where "x \<in> set js" "j = (if jb_id x = i then h x else x)" by (rule in_update_where)
  with assms(2,3) show thesis by (cases "jb_id x = i") (auto intro: that)
qed

definition newest_job :: "db \<Rightarrow> id \<Rightarrow> id option" where
  "newest_job d tid = (case newest_attempt d tid of None \<Rightarrow> None | Some x \<Rightarrow> at_job x)"

definition update_opt :: "id option \<Rightarrow> (device_job \<Rightarrow> device_job) \<Rightarrow> device_job list \<Rightarrow> device_job list" where
  "update_opt i h js = (case i of None \<Rightarrow> js | Some k \<Rightarrow> update_where (\<lambda>j. jb_id j = k) h js)"

lemma close_frame:
  assumes ok: "system_ok d" and as: "same_links (attempts d) (attempts d')"
    and vs: "list_all2 dev_step (devices d) (devices d')"
    and js: "jobs d' = update_opt (newest_job d tid) h (jobs d)"
    and h: "\<And>j. jb_id (h j) = jb_id j" "\<And>j. jb_sim (h j) = jb_sim j" "\<And>j. \<not> unfinished_job (h j)"
    and idle: "\<And>j. j \<in> set (jobs d) \<Longrightarrow> newest_job d tid = Some (jb_id j) \<Longrightarrow> lease_live (jb_state j) \<Longrightarrow>
      \<forall>v \<in> set (devices d'). dv_activeJob v \<noteq> Some (jb_id j)"
  shows "frame_step d d'" and "jobs_done d (jobs d') tid"
proof -
  show fr: "frame_step d d'"
  proof (cases "newest_job d tid")
    case None
    with as vs js show ?thesis by (simp add: frame_step_def update_opt_def list_all2_same)
  next
    case (Some i)
    have "list_all2 (lock_step (devices d')) (jobs d) (update_where (\<lambda>j. jb_id j = i) h (jobs d))"
    proof (rule list_all2_update_where)
      fix x assume x: "x \<in> set (jobs d)" "jb_id x = i"
      with idle [of x] Some h show "lock_step (devices d') x (h x)" by (auto simp: lock_step_def job_step_def)
    qed simp
    with as vs js Some show ?thesis by (simp add: frame_step_def update_opt_def)
  qed
  show "jobs_done d (jobs d') tid"
  proof (rule jobs_done_newest [OF ok frame_step_jobs [OF fr]])
    fix a j assume a: "newest_attempt d tid = Some a" and j: "j \<in> set (jobs d')" and i: "at_job a = Some (jb_id j)"
    have "newest_job d tid = Some (jb_id j)" using a i by (simp add: newest_job_def)
    with j js have "j \<in> set (update_where (\<lambda>x. jb_id x = jb_id j) h (jobs d))" by (simp add: update_opt_def)
    from updated_job [OF this refl h(1)] obtain x where "j = h x" by blast
    with h(3) show "\<not> unfinished_job j" by simp
  qed
qed

lemma newest_job_eq: "rows_ok d \<Longrightarrow> newest_job d tid = Some (jb_id j) \<Longrightarrow> j \<in> set (jobs d) \<Longrightarrow>
    attempt_job d (newest_attempt d tid) = Some j"
  by (auto simp: newest_job_def attempt_job_def find_job_eq split: option.splits)

text \<open>The job of a closed transfer is finished, so no lock names it.\<close>

lemma terminal_job_idle:
  assumes ok: "system_ok d" and t: "t \<in> set (transfers d)" "terminal_transfer (tr_status t)"
    and j: "j \<in> set (jobs d)" "newest_job d (tr_id t) = Some (jb_id j)"
  shows "\<not> lease_live (jb_state j)"
proof -
  from j(2) obtain a where a: "newest_attempt d (tr_id t) = Some a" "at_job a = Some (jb_id j)"
    by (auto simp: newest_job_def split: option.splits)
  with newest_attempt_mem [OF a(1)] system_ok_parts(6) [OF ok] t j(1) have "\<not> unfinished_job j"
    by (auto simp: jobs_ok_def)
  then show ?thesis by (auto dest: lease_live_unfinished)
qed

lemma links_set_attempt [simp]:
  "(\<And>a. at_id (k a) = at_id a) \<Longrightarrow> (\<And>a. at_transfer (k a) = at_transfer a) \<Longrightarrow>
   (\<And>a. at_number (k a) = at_number a) \<Longrightarrow> (\<And>a. at_job (k a) = at_job a) \<Longrightarrow>
   same_links as (update_where p k as)"
  by (rule same_links_update)

lemma devs_same [simp]: "list_all2 dev_step vs vs"
  by (simp add: list_all2_same)

lemma cancel_attempt_tables:
  "jobs (cancel_attempt now (newest_attempt d tid) e) = update_opt (newest_job d tid)
     (\<lambda>y. y\<lparr>jb_state := J_cancelled, jb_completedAt := Some now,
        jb_errorCode := Some ''PLATFORM_CANCELLED_PRECOMMIT''\<rparr>) (jobs e)"
  "same_links (attempts e) (attempts (cancel_attempt now a e))"
  "devices (cancel_attempt now a e) = devices e" "transfers (cancel_attempt now a e) = transfers e"
  "sims (cancel_attempt now a e) = sims e" "same_ledger d' e \<Longrightarrow> same_ledger d' (cancel_attempt now a e)"
  by (auto simp: cancel_attempt_def newest_job_def update_opt_def split: option.splits)

lemma close_attempt_tables:
  "jobs (close_attempt now (newest_attempt d tid) js r code e) = update_opt (newest_job d tid)
     (\<lambda>y. y\<lparr>jb_state := js, jb_completedAt := Some now,
        jb_errorCode := (if code = None then jb_errorCode y else code)\<rparr>) (jobs e)"
  "same_links (attempts e) (attempts (close_attempt now a js r code e))"
  "devices (close_attempt now a js r code e) = devices e"
  "transfers (close_attempt now a js r code e) = transfers e"
  "sims (close_attempt now a js r code e) = sims e"
  "same_ledger d' e \<Longrightarrow> same_ledger d' (close_attempt now a js r code e)"
  by (auto simp: close_attempt_def newest_job_def update_opt_def split: option.splits)

lemma attempt_core [intro]:
  assumes "same_core d e"
  shows "same_core (cancel_attempt now a d) (cancel_attempt now a e)"
    and "same_core (close_attempt now a js r code d) (close_attempt now a js r code e)"
  using assms by (auto simp: cancel_attempt_def close_attempt_def intro: set_core split: option.splits)

lemma linked_core:
  "updateLinkedOperation now tid o1 e = Inr x \<Longrightarrow> same_core c e \<Longrightarrow> same_core c x"
  by (blast dest: updateLinkedOperation_core intro: same_core_trans)

lemmas core_intros = same_core_refl same_core_writes same_core_fields same_core_more same_core_persist
  set_core attempt_core

section \<open>Staff operations\<close>

lemma cancelBeforeStart_ok:
  assumes ok: "system_ok d" and run: "cancelBeforeStart now tid reason actor d = Inr d'"
  shows "system_ok d'"
proof -
  from run obtain t where ft: "find_transfer d tid = Some t"
    by (auto simp: cancelBeforeStart_def split: option.splits)
  note t = find_transfer_mem [OF ft]
  obtain i where i: "tr_sim t = Some i" using system_ok_parts(3) [OF ok] t by (auto simp: rows_ok_def)
  let ?a = "newest_attempt d tid" and ?f = "\<lambda>x. x\<lparr>tr_status := T_cancelled, tr_completedAt := Some now\<rparr>"
  from run ft obtain d1 where st: "tr_status t \<in> {T_accepted, T_queued, T_device_assigned}"
    and q: "\<not> opt_holds (\<lambda>j. jb_state j \<noteq> J_queued) (attempt_job d ?a)"
    and d1: "release_reservation t d = Inr d1"
    and rest: "updateLinkedOperation now tid O_failed (emit_transfer now t ''failed'' T_cancelled
      (log_audit (Some (tr_merchant t)) ''platform_staff'' actor ''transfer.cancel_precommit'' ''transfer'' tid
        (Some reason) (set_transfer tid ?f (cancel_attempt now ?a (release_sim t d1))))) = Inr d'"
    by (auto simp: cancelBeforeStart_def Let_def tx_simps split: if_splits)
  let ?g = "\<lambda>s. s\<lparr>sim_reserved := sim_reserved s - physical_total t\<rparr>"
  let ?c = "set_transfer tid ?f (cancel_attempt now ?a (set_sim i ?g d1))"
    and ?h = "\<lambda>y. y\<lparr>jb_state := J_cancelled, jb_completedAt := Some now,
        jb_errorCode := Some ''PLATFORM_CANCELLED_PRECOMMIT''\<rparr>"
  have o1: "open_status (tr_status t)" and nt: "tr_id t = tid" using st t by (auto simp: open_status_def)
  have fr: "freed t (?f t)" using o1 by (simp add: freed_def open_status_def)
  note tab = ledger_frame_tables [OF release_frame [OF system_ok_parts(1) [OF ok] d1]]
  have idle: "\<not> lease_live (jb_state j)" if "j \<in> set (jobs d)" "newest_job d tid = Some (jb_id j)" for j
    using newest_job_eq [OF system_ok_parts(3) [OF ok] that(2,1)] q by (simp add: lease_live_def)
  have frame: "frame_step d ?c" "jobs_done d (jobs ?c) tid"
    by (rule close_frame [OF ok, where tid = tid and h = ?h]; simp add: cancel_attempt_tables tab
        unfinished_job_def idle cancel_attempt_tables(2) [where e = "set_sim i ?g d1", simplified tab set_tables])+
  have "system_ok ?c"
    by (rule system_ok_posted [where f = ?f, OF ok conjunct1 [OF t] _ post_step_release [OF ok conjunct1 [OF t] same_ledger_refl d1 fr]])
      (use frame in \<open>simp_all add: status_step_def same_static_def o1 tab sims_freed [OF fr i]
        cancel_attempt_tables nt\<close>)
  moreover have "same_core ?c d'"
    using updateLinkedOperation_core [OF rest] by (auto simp: release_sim_def i elim: same_core_trans [rotated])
  ultimately show ?thesis by (rule system_ok_same_core)
qed

lemma system_transfer_facts:
  assumes "system_ok d" and "find_transfer d tid = Some t"
  shows "t \<in> set (transfers d)" and "tr_id t = tid" and "\<exists>i. tr_sim t = Some i"
  using assms find_transfer_mem [OF assms(2)] system_ok_parts(3) [OF assms(1)] by (auto simp: rows_ok_def)

lemma resolve_failed_ok:
  assumes ok: "system_ok d" and t: "t \<in> set (transfers d)" and st: "tr_status t \<in> {T_unknown, T_manual_review}"
    and i: "tr_sim t = Some i" and run: "resolve_failed now t i input actor d = Inr d'"
  shows "system_ok d'"
proof -
  let ?a = "newest_attempt d (tr_id t)" and ?f = "\<lambda>x. x\<lparr>tr_status := T_failed, tr_completedAt := Some now\<rparr>"
    and ?g = "\<lambda>s. s\<lparr>sim_reserved := sim_reserved s - physical_total t\<rparr>"
    and ?h = "\<lambda>y. y\<lparr>jb_state := J_failed, jb_completedAt := Some now, jb_errorCode := Some ''MANUALLY_PROVEN_FAILED''\<rparr>"
  from run obtain d1 where d1: "release_reservation t d = Inr d1"
    and rest: "map_outcome (emit_transfer now t ''failed'' T_failed) (updateLinkedOperation now (tr_id t) O_failed
      (finishManualResolution now t actor (ri_reason input) ''failed'' None (ri_failureEvidence input)
        (close_attempt now ?a J_failed ''failed'' (Some ''MANUALLY_PROVEN_FAILED'')
          (set_transfer (tr_id t) ?f (set_sim i ?g d1))))) = Inr d'"
    by (auto simp: resolve_failed_def Let_def tx_simps)
  let ?c = "close_attempt now ?a J_failed ''failed'' (Some ''MANUALLY_PROVEN_FAILED'')
    (set_transfer (tr_id t) ?f (set_sim i ?g d1))"
  have o1: "open_status (tr_status t)" "terminal_transfer (tr_status t)"
    using st by (auto simp: open_status_def terminal_transfer_def)
  have fr: "freed t (?f t)" using o1 by (simp add: freed_def open_status_def)
  note tab = ledger_frame_tables [OF release_frame [OF system_ok_parts(1) [OF ok] d1]]
  note idle = terminal_job_idle [OF ok t o1(2)]
  have frame: "frame_step d ?c"
    by (rule close_frame [OF ok, where tid = "tr_id t" and h = ?h]; simp add: close_attempt_tables tab
        unfinished_job_def idle close_attempt_tables(2) [where e = "set_transfer (tr_id t) ?f (set_sim i ?g d1)",
          simplified tab set_tables])
  have "system_ok ?c"
    by (rule system_ok_posted [where f = ?f, OF ok t _ post_step_release [OF ok t same_ledger_refl d1 fr]])
      (use frame in \<open>simp_all add: status_step_def same_static_def o1 tab sims_freed [OF fr i] close_attempt_tables\<close>)
  moreover have "same_core ?c d'"
    using rest by (auto simp: tx_simps intro!: core_intros elim!: linked_core)
  ultimately show ?thesis by (rule system_ok_same_core)
qed

lemma resolve_success_ok:
  assumes ok: "system_ok d" and t: "t \<in> set (transfers d)" and st: "tr_status t \<in> {T_unknown, T_manual_review}"
    and i: "tr_sim t = Some i" and run: "resolve_success now t i input actor d = Inr d'"
  shows "system_ok d'"
proof -
  let ?a = "newest_attempt d (tr_id t)" and ?fee = "ri_serviceFee input + ri_vat input"
    and ?tx = "the (ri_providerTx input)"
  let ?f = "\<lambda>x. x\<lparr>tr_status := T_success, tr_providerTx := Some ?tx,
      tr_resolvedName := (if ri_resolvedName input = None then tr_resolvedName x else ri_resolvedName input),
      tr_providerFee := Some (ri_serviceFee input), tr_providerVat := Some (ri_vat input), tr_completedAt := Some now\<rparr>"
    and ?h = "\<lambda>y. y\<lparr>jb_state := J_succeeded, jb_completedAt := Some now, jb_errorCode := jb_errorCode y\<rparr>"
  define g where "g = resolved_wallet now t (outgoingReceiptAlreadyAppliedToWallet t
      (find (\<lambda>r. rc_providerTx r = Some ?tx) (receipts d)) ?tx) (ri_currentMain input) (tr_amount t + ?fee)"
  have g: "sim_id (g s) = sim_id s" "sim_reserved (g s) = sim_reserved s - physical_total t" for s
    by (simp_all add: g_def resolved_wallet_def Let_def split: option.splits)
  from run obtain d1 where d1: "settle_transfer now t ?fee d = Inr d1"
    and rest: "map_outcome (emit_transfer now t ''success'' T_success) (updateLinkedOperation now (tr_id t) O_success
      (finishManualResolution now t actor (ri_reason input) ''success'' (Some ?tx) None
        (close_attempt now ?a J_succeeded ''success'' None
          (set_transfer (tr_id t) ?f (credit_treasury t (set_sim i g d1)))))) = Inr d'"
    by (auto simp: resolve_success_def Let_def tx_simps g_def split: if_splits)
  let ?c = "close_attempt now ?a J_succeeded ''success'' None (set_transfer (tr_id t) ?f (set_sim i g d1))"
  have o1: "open_status (tr_status t)" "terminal_transfer (tr_status t)"
    using st by (auto simp: open_status_def terminal_transfer_def)
  have fr: "freed t (?f t)" using o1 by (simp add: freed_def open_status_def)
  note tab = ledger_frame_tables [OF settle_frame [OF system_ok_parts(1) [OF ok] d1]]
  note idle = terminal_job_idle [OF ok t o1(2)]
  have frame: "frame_step d ?c"
    by (rule close_frame [OF ok, where tid = "tr_id t" and h = ?h]; simp add: close_attempt_tables tab
        unfinished_job_def idle close_attempt_tables(2) [where e = "set_transfer (tr_id t) ?f (set_sim i g d1)",
          simplified tab set_tables])
  have "system_ok ?c"
    by (rule system_ok_posted [where f = ?f, OF ok t _ post_step_settle [OF ok t d1 o1(1)]])
      (use frame in \<open>simp_all add: status_step_def same_static_def o1 tab sims_freed [OF fr i g] close_attempt_tables\<close>)
  moreover have "same_core ?c (close_attempt now ?a J_succeeded ''success'' None
      (set_transfer (tr_id t) ?f (credit_treasury t (set_sim i g d1))))"
    by (intro attempt_core set_core) simp
  then have "same_core ?c d'"
    using rest by (auto simp: tx_simps intro!: core_intros elim!: linked_core)
  ultimately show ?thesis by (rule system_ok_same_core)
qed

lemma resolveUnknown_ok:
  assumes ok: "system_ok d" and run: "resolveUnknown now tid input actor d = Inr d'"
  shows "system_ok d'"
proof -
  from run obtain t i where ft: "find_transfer d tid = Some t" and st: "tr_status t \<in> {T_unknown, T_manual_review}"
    and i: "tr_sim t = Some i" and r: "resolve_success now t i input actor d = Inr d' \<or>
      resolve_failed now t i input actor d = Inr d'"
    by (auto simp: resolveUnknown_def split: option.splits if_splits)
  note t = system_transfer_facts(1) [OF ok ft]
  show ?thesis
    using r resolve_success_ok [OF ok t st i] resolve_failed_ok [OF ok t st i] by blast
qed

section \<open>New jobs for an open transfer\<close>

lemma system_ok_dispatch:
  assumes ok: "system_ok d" and t: "t \<in> set (transfers d)" "tr_env t = Live" "open_status (tr_status t)"
    and f: "same_static t (f t)" "tr_status (f t) = T_queued"
    and j: "jb_id j = next_id d" "tr_sim t = Some (jb_sim j)"
    and a: "at_id a = Suc (next_id d)" "at_transfer a = tr_id t" "at_job a = Some (next_id d)"
    and num: "\<And>b. b \<in> set (attempts d) \<Longrightarrow> at_transfer b = tr_id t \<Longrightarrow> at_number b < at_number a"
    and fin: "jobs_done d (jobs d) (tr_id t)"
  shows "system_ok (set_transfer (tr_id t) f (d\<lparr>jobs := jobs d @ [j], attempts := attempts d @ [a],
    next_id := Suc (Suc (next_id d))\<rparr>))"
proof -
  let ?e = "set_transfer (tr_id t) f d"
  let ?j = "?e\<lparr>jobs := jobs ?e @ [j], next_id := Suc (next_id ?e)\<rparr>"
  have nf: "\<not> freed t (f t)" using f by (simp add: freed_def open_status_def)
  have nid: "next_id ?e = next_id d" by (simp add: set_transfer_def)
  have "system_ok ?e"
    by (rule system_ok_posted [where f = f, OF ok t(1) _ post_step_none [OF system_ok_parts(1) [OF ok] nf]])
      (use f t in \<open>simp_all add: status_step_def nf frame_step_def list_all2_same terminal_transfer_def\<close>)
  then have ej: "system_ok ?j" by (rule system_ok_new_job) (simp add: j nid)
  have old: "at_job b \<noteq> Some (next_id d)" if "b \<in> set (attempts d)" for b
    using system_ok_parts(3) [OF ok] that by (auto simp: rows_ok_def)
  have mem: "f t \<in> set (transfers ?j)" using t(1) by (auto simp: set_update_where)
  have fs: "tr_id (f t) = tr_id t" "tr_sim (f t) = tr_sim t" "tr_env (f t) = tr_env t"
    using f(1) by (simp_all add: same_static_def)
  have "jobs_done ?j (jobs ?j) (tr_id (f t))"
    using fin old j(1) by (auto simp: jobs_done_def fs)
  then have "system_ok (?j\<lparr>attempts := attempts ?j @ [a], next_id := Suc (next_id ?j)\<rparr>)"
    using f t(2) a j old num by (intro system_ok_new_attempt [OF ej mem, where j = j])
      (auto simp: fs nid terminal_transfer_def)
  also have "?j\<lparr>attempts := attempts ?j @ [a], next_id := Suc (next_id ?j)\<rparr> =
      set_transfer (tr_id t) f (d\<lparr>jobs := jobs d @ [j], attempts := attempts d @ [a],
        next_id := Suc (Suc (next_id d))\<rparr>)"
    by (simp add: set_transfer_def)
  finally show ?thesis .
qed

lemma allocate_fence_ok:
  assumes "system_ok d" and "allocate_fence i d = Inr (fence, d1)"
  shows "system_ok d1" and "\<exists>ss. d1 = d\<lparr>sims := ss\<rparr>"
proof -
  from assms(2) have d1: "d1 = d\<lparr>sims := update_where (\<lambda>x. sim_id x = i)
      (\<lambda>x. x\<lparr>sim_nextFence := sim_nextFence x + 1\<rparr>) (sims d)\<rparr>"
    by (auto simp: allocate_fence_def split: option.splits)
  show "\<exists>ss. d1 = d\<lparr>sims := ss\<rparr>" unfolding d1 by blast
  show "system_ok d1" unfolding d1 by (rule system_ok_sims [OF assms(1)]) (simp add: same_holds_update)
qed

lemma newest_number:
  assumes "b \<in> set (attempts d)" and "at_transfer b = tid"
  obtains a where "newest_attempt d tid = Some a" "at_number b \<le> at_number a"
proof -
  have "newest_attempt d tid \<noteq> None"
    using assms by (auto simp: newest_attempt_def first_by_None_iff filter_empty_conv)
  then obtain a where a: "newest_attempt d tid = Some a" by blast
  with first_by_SomeD [OF a [unfolded newest_attempt_def]] assms show thesis by (auto intro: that)
qed

lemma retry_with_name_ok:
  assumes ok: "system_ok d" and t: "t \<in> set (transfers d)" and st: "tr_status t = T_manual_review"
    and sim: "tr_sim t = Some (sim_id sim)"
    and num: "number = (case newest_attempt d (tr_id t) of None \<Rightarrow> 0 | Some x \<Rightarrow> at_number x) + 1"
    and run: "retry_with_name now t sim number name reason actor d = Inr d'"
  shows "system_ok d'"
proof -
  note parts = system_ok_parts [OF ok]
  from run obtain fence d1 where d1: "allocate_fence (sim_id sim) d = Inr (fence, d1)"
    and rest: "retry_with_name now t sim number name reason actor d = Inr d'"
    by (auto simp: retry_with_name_def tx_simps)
  obtain ss where ss: "d1 = d\<lparr>sims := ss\<rparr>" using allocate_fence_ok(2) [OF ok d1] by blast
  let ?f = "\<lambda>x. x\<lparr>tr_status := T_queued, tr_resolvedName := Some name, tr_estimatedAt := Some (now + 60000)\<rparr>"
  let ?j = "new_job now (tr_kind t) (priorityForOperation (tr_kind t)) (sim_device sim) (sim_id sim)
      ((transfer_payload t (sim_iccid sim))\<lparr>pl_approvedName := Some name\<rparr>) number fence (next_id d)"
  let ?a = "new_attempt (Suc (next_id d)) (tr_id t) number fence (next_id d)"
  let ?c = "set_transfer (tr_id t) ?f (d1\<lparr>jobs := jobs d1 @ [?j], attempts := attempts d1 @ [?a],
      next_id := Suc (Suc (next_id d1))\<rparr>)"
  have o1: "open_status (tr_status t)" and tt: "terminal_transfer (tr_status t)"
    using st by (simp_all add: open_status_def terminal_transfer_def)
  have live: "tr_env t = Live" using parts(5) t st by (cases "tr_env t") (auto simp: attempts_ok_def)
  have fin: "jobs_done d1 (jobs d1) (tr_id t)"
    using parts(6) t tt by (auto simp: jobs_done_def jobs_ok_def ss)
  have "system_ok ?c"
  proof (rule system_ok_dispatch [OF allocate_fence_ok(1) [OF ok d1] _ live o1 _ _ _ _ _ _ _ _ fin])
    fix b assume "b \<in> set (attempts d1)" "at_transfer b = tr_id t"
    then obtain x where "newest_attempt d (tr_id t) = Some x" "at_number b \<le> at_number x"
      by (auto simp: ss elim: newest_number)
    then show "at_number b < at_number ?a" by (simp add: new_attempt_def num)
  qed (use t sim in \<open>simp_all add: same_static_def new_job_def new_attempt_def ss\<close>)
  moreover have "same_core ?c d'"
    using rest by (auto simp: retry_with_name_def Let_def d1 ss set_transfer_def intro!: core_intros)
  ultimately show ?thesis by (rule system_ok_same_core)
qed

lemma approveNameAndRetry_ok:
  assumes ok: "system_ok d" and run: "approveNameAndRetry now tid reason actor d = Inr d'"
  shows "system_ok d'"
proof -
  from run obtain t i sim name where ft: "find_transfer d tid = Some t" and st: "tr_status t = T_manual_review"
    and i: "tr_sim t = Some i" and sim: "find_sim d i = Some sim"
    and r: "retry_with_name now t sim ((case newest_attempt d tid of None \<Rightarrow> 0 | Some x \<Rightarrow> at_number x) + 1)
      name reason actor d = Inr d'"
    by (auto simp: approveNameAndRetry_def Let_def split: option.splits if_splits)
  note t = system_transfer_facts [OF ok ft]
  show ?thesis
    using i find_sim_mem [OF sim] t(2) by (intro retry_with_name_ok [OF ok t(1) st _ _ r]) auto
qed

lemma dispatch_transfer_ok:
  assumes ok: "system_ok d" and t: "t \<in> set (transfers d)" "tr_env t = Live" "tr_status t = T_accepted"
    and sim: "tr_sim t = Some (sim_id sim)" and new: "\<And>a. a \<in> set (attempts d) \<Longrightarrow> at_transfer a \<noteq> tr_id t"
    and run: "dispatch_transfer now t sim priority d = Inr d'"
  shows "system_ok d'"
proof -
  from run obtain fence d1 where d1: "allocate_fence (sim_id sim) d = Inr (fence, d1)"
    and rest: "dispatch_transfer now t sim priority d = Inr d'"
    by (auto simp: dispatch_transfer_def tx_simps)
  obtain ss where ss: "d1 = d\<lparr>sims := ss\<rparr>" using allocate_fence_ok(2) [OF ok d1] by blast
  let ?f = "\<lambda>x. x\<lparr>tr_status := T_queued\<rparr>"
  let ?j = "new_job now (tr_kind t) priority (sim_device sim) (sim_id sim)
      (transfer_payload t (sim_iccid sim)) 1 fence (next_id d)"
  let ?a = "new_attempt (Suc (next_id d)) (tr_id t) 1 fence (next_id d)"
  let ?c = "set_transfer (tr_id t) ?f (d1\<lparr>jobs := jobs d1 @ [?j], attempts := attempts d1 @ [?a],
      next_id := Suc (Suc (next_id d1))\<rparr>)"
  have o1: "open_status (tr_status t)" using t(3) by (simp add: open_status_def)
  have fin: "jobs_done d1 (jobs d1) (tr_id t)" using new by (auto simp: jobs_done_def ss)
  have "system_ok ?c"
    by (rule system_ok_dispatch [OF allocate_fence_ok(1) [OF ok d1] _ t(2) o1 _ _ _ _ _ _ _ _ fin])
      (use t sim new in \<open>auto simp: same_static_def new_job_def new_attempt_def ss\<close>)
  moreover have "same_core ?c d'"
    using rest by (auto simp: dispatch_transfer_def Let_def d1 ss set_transfer_def intro!: core_intros)
  ultimately show ?thesis by (rule system_ok_same_core)
qed

section \<open>Queueing a transfer\<close>

lemma system_ok_new_device:
  assumes ok: "system_ok d" and v: "dv_id v = next_id d" "dv_activeJob v = None"
  shows "system_ok (d\<lparr>devices := devices d @ [v], next_id := Suc (next_id d)\<rparr>)"
proof -
  let ?d = "d\<lparr>devices := devices d @ [v], next_id := Suc (next_id d)\<rparr>"
  note parts = system_ok_parts [OF ok]
  have sl: "same_ledger d ?d" by (simp add: same_ledger_def)
  note reads = same_ledger_reads [OF sl]
  have "holds_ok ?d" using parts(2) by (simp add: holds_ok_def ledger_held_def sim_held_def reads)
  moreover have "rows_ok ?d" using parts(3) v unfolding rows_ok_def by (auto simp: less_Suc_eq)
  moreover have "posts_ok ?d" using parts(4) unfolding posts_ok_def reads by (auto simp: less_Suc_eq)
  moreover have "attempts_ok ?d" using parts(5) by (simp add: attempts_ok_def)
  moreover have "jobs_ok ?d" using parts(6) by (simp add: jobs_ok_def latest_attempt_def)
  moreover have "locks_ok ?d" using parts(7) v by (auto simp: locks_ok_def)
  ultimately show ?thesis using ledger_ok_same [OF parts(1) sl] by (simp add: system_ok_def)
qed

text \<open>A change of phones that keeps or drops locks.\<close>

lemma system_ok_devices:
  assumes ok: "system_ok d" and vs: "list_all2 dev_step (devices d) vs"
  shows "system_ok (d\<lparr>devices := vs\<rparr>)"
  by (rule system_ok_idle [OF ok]) (use vs in \<open>simp_all add: frame_step_def list_all2_same\<close>)

lemma upsert_test_group_ok:
  "system_ok d \<Longrightarrow> system_ok (snd (upsert_test_location d))"
  "system_ok d \<Longrightarrow> system_ok (snd (upsert_test_group lid d))"
  by (erule system_ok_same_core,
    simp add: upsert_test_location_def upsert_test_group_def same_core_def same_ledger_def split: option.splits)+

lemma upsert_test_device_ok: "system_ok d \<Longrightarrow> system_ok (snd (upsert_test_device now gid d))"
  by (auto simp: upsert_test_device_def dev_step_def split: option.splits
      intro!: system_ok_devices system_ok_new_device list_all2_update_where)

lemma update_where_image:
  assumes "\<And>x. k (f x) = k x"
  shows "k ` set (update_where p f xs) = k ` set xs"
proof -
  have "set (map k (update_where p f xs)) = set (map k xs)"
    using assms by (simp add: update_where_def comp_def if_distrib cong: if_cong)
  then show ?thesis by simp
qed

lemma upsert_test_sim_ok:
  assumes "system_ok d"
  shows "system_ok (snd (upsert_test_sim now dev d))"
    and "sim_id (fst (upsert_test_sim now dev d)) \<in> sim_id ` set (sims (snd (upsert_test_sim now dev d)))"
proof -
  show "system_ok (snd (upsert_test_sim now dev d))"
    using assms by (auto simp: upsert_test_sim_def Let_def split: option.splits
        intro!: system_ok_sims system_ok_new_sim same_holds_update)
  show "sim_id (fst (upsert_test_sim now dev d)) \<in> sim_id ` set (sims (snd (upsert_test_sim now dev d)))"
    by (auto simp: upsert_test_sim_def Let_def update_where_image split: option.splits dest!: find_SomeD)
qed

lemma ensureTestSim_ok:
  assumes "system_ok d" and "ensureTestSim now d = (s, d')"
  shows "system_ok d' \<and> sim_id s \<in> sim_id ` set (sims d')"
proof -
  obtain l d0 g d1 v d2 where e: "upsert_test_location d = (l, d0)" "upsert_test_group l d0 = (g, d1)"
    "upsert_test_device now g d1 = (v, d2)" by (metis surj_pair)
  have "system_ok d2"
    using upsert_test_device_ok [OF upsert_test_group_ok(2) [OF upsert_test_group_ok(1) [OF assms(1)]], of now g l] e
    by simp
  from upsert_test_sim_ok [OF this, of now v] show ?thesis using assms(2) e by (simp add: ensureTestSim_def)
qed

lemma candidate_sim: "c \<in> set (List.map_filter (candidate_of d b) ss) \<Longrightarrow> cd_sim c \<in> set ss"
  by (auto simp: List.map_filter_def candidate_of_def split: option.splits if_splits)

lemma viable_sim:
  "c \<in> set (viable_withdrawal_sims now auth m d) \<Longrightarrow> cd_sim c \<in> set (sims d)"
  "c \<in> set (viable_deposit_sims now auth phone m d) \<Longrightarrow> cd_sim c \<in> set (sims d)"
  by (auto simp: viable_withdrawal_sims_def viable_deposit_sims_def liveCandidates_def
      dest!: in_set_takeD intro: candidate_sim)

lemma select_ok:
  assumes "system_ok d"
  shows "selectForWithdrawal now auth m d = Inr (s, d') \<Longrightarrow> system_ok d' \<and> sim_id s \<in> sim_id ` set (sims d')"
    and "selectForDeposit now auth customer phone m d = Inr (s, d') \<Longrightarrow>
      system_ok d' \<and> sim_id s \<in> sim_id ` set (sims d')"
proof -
  note test = ensureTestSim_ok [OF assms]
  show "selectForWithdrawal now auth m d = Inr (s, d') \<Longrightarrow> system_ok d' \<and> sim_id s \<in> sim_id ` set (sims d')"
    using assms test by (auto simp: selectForWithdrawal_def split: if_splits option.splits
        dest!: first_by_SomeD(1) intro!: imageI intro: viable_sim)
  show "selectForDeposit now auth customer phone m d = Inr (s, d') \<Longrightarrow>
      system_ok d' \<and> sim_id s \<in> sim_id ` set (sims d')"
    using assms test by (auto simp: selectForDeposit_def split: if_splits option.splits
        dest!: first_by_SomeD(1) intro!: imageI intro: viable_sim)
qed

lemma upsert_config_ok: "system_ok d \<Longrightarrow> upsert_config m d = (c, d') \<Longrightarrow> system_ok d'"
  by (rule system_ok_same_core [OF _ same_core_upsert_config])

lemma applyTestScenario_ok:
  assumes ok: "system_ok d" and t: "t \<in> set (transfers d)" and env: "tr_env t = Test"
    and st: "open_status (tr_status t)" and run: "applyTestScenario now sim_tx t sc d = Inr d'"
  shows "system_ok d'"
proof (cases "sc = Sc_delay")
  case True
  let ?f = "\<lambda>x. x\<lparr>tr_status := T_queued\<rparr>"
  have nf: "\<not> freed t (?f t)" by (simp add: freed_def open_status_def)
  have "system_ok (set_transfer (tr_id t) ?f d)"
    by (rule system_ok_posted [where f = ?f, OF ok t _ post_step_none [OF system_ok_parts(1) [OF ok] nf]])
      (simp_all add: status_step_def same_static_def st nf frame_step_def list_all2_same terminal_transfer_def)
  with run True show ?thesis by (simp add: applyTestScenario_def)
next
  case False
  with run finalizeTest_ok [OF ok t env st] show ?thesis
    by (cases sc) (simp_all add: applyTestScenario_def)
qed

lemma queueTransfer_ok:
  assumes ok: "system_ok d" and sims: "\<And>s. qo_sim opts = Some s \<Longrightarrow> sim_id s \<in> sim_id ` set (sims d)"
    and run: "queueTransfer now sim_tx auth input opts d = Inr (tid, d')"
  shows "system_ok d'"
proof -
  obtain config d1 where cfg: "upsert_config (fst auth) d = (config, d1)" by fastforce
  note ok1 = upsert_config_ok [OF ok cfg]
  have sims1: "sims d1 = sims d" using same_core_upsert_config [OF cfg] by (simp add: same_core_def)
  define gateway where "gateway = (if qo_mode opts = Internal_move then 0 else cfg_gatewayFee config)"
  from run obtain amount sim d2 d4 where
      sel: "(case qo_sim opts of Some s \<Rightarrow> Inr (s, d1)
        | None \<Rightarrow> selectForWithdrawal now auth (amount + cfg_reserveFee config) d1) = Inr (sim, d2)"
    and res: "reserve_transfer (new_transfer now auth input opts amount (cfg_reserveFee config) gateway
        (sim_id sim) (next_id d2)) (d2\<lparr>transfers := transfers d2 @ [new_transfer now auth input opts amount
        (cfg_reserveFee config) gateway (sim_id sim) (next_id d2)], next_id := Suc (next_id d2)\<rparr>) = Inr d4"
    and rest: "(if snd auth = Test
      then applyTestScenario now sim_tx (new_transfer now auth input opts amount (cfg_reserveFee config) gateway
        (sim_id sim) (next_id d2)) (or_else (ti_scenario input) Sc_success)
        (set_sim (sim_id sim) (\<lambda>s. s\<lparr>sim_reserved := sim_reserved s + (amount + cfg_reserveFee config)\<rparr>) d4)
      else dispatch_transfer now (new_transfer now auth input opts amount (cfg_reserveFee config) gateway
        (sim_id sim) (next_id d2)) sim (qo_priority opts)
        (set_sim (sim_id sim) (\<lambda>s. s\<lparr>sim_reserved := sim_reserved s + (amount + cfg_reserveFee config)\<rparr>) d4)) =
      Inr d'"
    by (auto simp: queueTransfer_def cfg Let_def tx_simps gateway_def split: if_splits)
  define t where "t = new_transfer now auth input opts amount (cfg_reserveFee config) gateway (sim_id sim) (next_id d2)"
  have ft: "tr_id t = next_id d2" "tr_sim t = Some (sim_id sim)" "tr_status t = T_accepted"
    "physical_total t = amount + cfg_reserveFee config" "tr_env t = snd auth"
    by (simp_all add: t_def new_transfer_def physical_total_def)
  have ok2: "system_ok d2 \<and> sim_id sim \<in> sim_id ` set (sims d2)"
    using sel sims [folded sims1] ok1 select_ok(1) [OF ok1, of now auth "amount + cfg_reserveFee config" sim d2]
    by (cases "qo_sim opts") auto
  then have lt: "sim_id sim < next_id d2" by (auto simp: system_ok_def rows_ok_def)
  let ?e = "set_sim (sim_id sim) (\<lambda>s. s\<lparr>sim_reserved := sim_reserved s + physical_total t\<rparr>) d4"
  have st: "open_status (tr_status t)" "tr_status t \<noteq> T_manual_review" by (simp_all add: ft open_status_def)
  have ok5: "system_ok ?e"
    by (rule system_ok_open [OF _ ft(1,2) lt st res [folded t_def]]) (use ok2 in blast)
  have lf: "ledger_frame (d2\<lparr>transfers := transfers d2 @ [t], next_id := Suc (next_id d2)\<rparr>) d4"
  proof -
    have "same_ledger d2 (d2\<lparr>transfers := transfers d2 @ [t], next_id := Suc (next_id d2)\<rparr>)"
      by (simp add: same_ledger_def)
    then have "ledger_ok (d2\<lparr>transfers := transfers d2 @ [t], next_id := Suc (next_id d2)\<rparr>)"
      using ok2 by (auto intro: ledger_ok_same simp: system_ok_def)
    from reserve_posted [OF this res [folded t_def]] show ?thesis by (metis posted_as_def)
  qed
  note tab = ledger_frame_tables [OF lf, simplified]
  have mem: "t \<in> set (transfers ?e)" by (simp add: tab)
  have new: "at_transfer a \<noteq> tr_id t" if "a \<in> set (attempts ?e)" for a
    using ok2 that by (auto simp: tab ft(1) system_ok_def rows_ok_def)
  show ?thesis
  proof (cases "snd auth = Test")
    case True
    with rest show ?thesis
      using ft by (intro applyTestScenario_ok [OF ok5 mem _ st(1)]) (simp_all add: t_def [symmetric])
  next
    case False
    then have "tr_env t = Live" using ft(5) by (cases "snd auth") simp_all
    from dispatch_transfer_ok [OF ok5 mem this ft(3,2) new] False rest show ?thesis
      using ft(4) by (simp add: t_def [symmetric])
  qed
qed

lemma create_transfer_ok:
  assumes "system_ok d" and run: "create_transfer now sim_tx auth input d = Inr (tid, d')"
  shows "system_ok d'"
proof -
  obtain config d1 where cfg: "upsert_config (fst auth) d = (config, d1)" by fastforce
  from run have "queueTransfer now sim_tx auth input
      \<lparr>qo_kind = Customer_withdrawal, qo_mode = Merchant_debit, qo_priority = 500, qo_sim = None\<rparr> d1 =
      Inr (tid, d')"
    by (simp add: create_transfer_def cfg split: if_splits)
  from queueTransfer_ok [OF upsert_config_ok [OF assms(1) cfg] _ this] show ?thesis by simp
qed

lemma completeTest_ok:
  assumes ok: "system_ok d" and run: "completeTest now sim_tx auth reference st d = Inr (v, d')"
  shows "system_ok d'"
proof -
  from run obtain t where t: "find_reference d (fst auth) Test reference = Some t"
    and c: "d' = d \<or> (tr_status t \<in> {T_accepted, T_queued} \<and> finalizeTest now sim_tx t st d = Inr d')"
    by (auto simp: completeTest_def tx_simps split: if_splits option.splits)
  from t have m: "t \<in> set (transfers d)" "tr_env t = Test"
    by (auto simp: find_reference_def dest: find_SomeD)
  show ?thesis
    using c ok finalizeTest_ok [OF ok m] by (auto simp: open_status_def)
qed

end
