(* ===== verification/JobSafety.thy ===== *)
theory JobSafety
  imports Transactions
begin

text \<open>
  The device protocol keeps \<open>system_ok\<close>: leases, renewals, reports, expiry, enrolment and
  heartbeats, and the receipts that close a payout.
\<close>

declare split_paired_All [simp del] split_paired_Ex [simp del]

section \<open>A job and its transfer\<close>

definition linked :: "db \<Rightarrow> device_job \<Rightarrow> transfer_attempt \<Rightarrow> transfer \<Rightarrow> bool" where
  "linked d j a t \<longleftrightarrow> j \<in> set (jobs d) \<and> a \<in> set (attempts d) \<and> at_job a = Some (jb_id j) \<and>
     t \<in> set (transfers d) \<and> tr_id t = at_transfer a"

lemma job_link_linked: "job_link d (jb_id j) = Some (a, t) \<Longrightarrow> j \<in> set (jobs d) \<Longrightarrow> linked d j a t"
  by (auto simp: job_link_def attempt_of_job_def linked_def dest!: find_SomeD find_transfer_mem
      split: option.splits)

lemma linked_facts:
  assumes ok: "system_ok d" and l: "linked d j a t"
  shows "tr_sim t = Some (jb_sim j)" and "tr_env t = Live"
    and "unfinished_job j \<Longrightarrow> latest_attempt d a" and "unfinished_job j \<Longrightarrow> \<not> terminal_transfer (tr_status t)"
proof -
  from l have a: "a \<in> set (attempts d)" "at_job a = Some (jb_id j)" "j \<in> set (jobs d)"
    "t \<in> set (transfers d)" "tr_id t = at_transfer a" by (simp_all add: linked_def)
  from system_ok_parts(5) [OF ok] a(1) obtain x where x: "x \<in> set (transfers d)" "tr_id x = at_transfer a"
    "tr_env x = Live" "\<forall>i \<in> set (jobs d). at_job a = Some (jb_id i) \<longrightarrow> tr_sim x = Some (jb_sim i)"
    unfolding attempts_ok_def by blast
  have "x = t" using rows_unique(1) [OF system_ok_parts(3) [OF ok] x(1) a(4)] x(2) a(5) by simp
  with x a show "tr_sim t = Some (jb_sim j)" "tr_env t = Live" by simp_all
  show "unfinished_job j \<Longrightarrow> latest_attempt d a" "unfinished_job j \<Longrightarrow> \<not> terminal_transfer (tr_status t)"
    using system_ok_parts(6) [OF ok] a by (auto simp: jobs_ok_def)
qed

lemma open_not_terminal: "\<not> terminal_transfer st \<Longrightarrow> open_status st"
  by (auto simp: terminal_transfer_def open_status_def)

section \<open>Frames for one job\<close>

definition unlocked :: "db \<Rightarrow> id \<Rightarrow> bool" where
  "unlocked d i \<longleftrightarrow> (\<forall>v \<in> set (devices d). dv_activeJob v \<noteq> Some i)"

lemma finish_frame:
  assumes ok: "system_ok d" and as: "same_links (attempts d) (attempts d')"
    and vs: "list_all2 dev_step (devices d) (devices d')"
    and js: "jobs d' = update_where (\<lambda>x. jb_id x = i) h (jobs d)"
    and h: "\<And>x. jb_id (h x) = jb_id x" "\<And>x. jb_sim (h x) = jb_sim x" "\<And>x. \<not> unfinished_job (h x)"
    and lock: "unlocked d' i"
  shows "frame_step d d'"
    and "a \<in> set (attempts d) \<Longrightarrow> at_job a = Some i \<Longrightarrow> latest_attempt d a \<Longrightarrow>
      jobs_done d (jobs d') (at_transfer a)"
proof -
  have "list_all2 (lock_step (devices d')) (jobs d) (jobs d')"
    unfolding js using h lock by (intro list_all2_update_where) (auto simp: lock_step_def job_step_def unlocked_def)
  with as vs show fr: "frame_step d d'" by (simp add: frame_step_def)
  assume a: "a \<in> set (attempts d)" "at_job a = Some i" "latest_attempt d a"
  show "jobs_done d (jobs d') (at_transfer a)"
  proof (rule jobs_done_latest [OF ok frame_step_jobs [OF fr] a(1) refl a(3)])
    fix j assume j: "j \<in> set (jobs d')" "at_job a = Some (jb_id j)"
    with a(2) js have m: "j \<in> set (update_where (\<lambda>x. jb_id x = i) h (jobs d))" and i: "jb_id j = i" by simp_all
    from updated_job [OF m i h(1)] h(3) show "\<not> unfinished_job j" by blast
  qed
qed

lemma keep_frame:
  assumes as: "same_links (attempts d) (attempts d')" and vs: "list_all2 dev_step (devices d) (devices d')"
    and js: "jobs d' = update_where p h (jobs d)"
    and h: "\<And>x. x \<in> set (jobs d) \<Longrightarrow> p x \<Longrightarrow> jb_id (h x) = jb_id x \<and> jb_sim (h x) = jb_sim x \<and>
      (unfinished_job (h x) \<longrightarrow> unfinished_job x) \<and>
      (lease_live (jb_state x) \<longrightarrow> lease_live (jb_state (h x)) \<and> jb_device (h x) = jb_device x)"
  shows "frame_step d d'"
  unfolding frame_step_def js using as vs h
  by (auto simp: lock_step_def job_step_def intro!: list_all2_update_where)

lemma clear_active_devs [simp]:
  "list_all2 dev_step (devices d) (devices (clear_active i d))" "unlocked (clear_active i d) i"
  by (auto simp: clear_active_def dev_step_def unlocked_def intro!: list_all2_update_where elim!: in_update_where
      split: if_splits)

text \<open>The phone that may hold the lock drops it.\<close>

lemma drop_lock:
  assumes ok: "system_ok d" and j: "j \<in> set (jobs d)" and dev: "jb_device j = Some dev"
    and vs: "devices d' = update_where (\<lambda>v. dv_id v = dev \<and> q v) (\<lambda>v. v\<lparr>dv_activeJob := None\<rparr>) (devices d)"
    and q: "\<And>v. dv_activeJob v = Some (jb_id j) \<Longrightarrow> q v"
  shows "unlocked d' (jb_id j)"
  unfolding unlocked_def vs
proof
  fix v assume "v \<in> set (update_where (\<lambda>v. dv_id v = dev \<and> q v) (\<lambda>v. v\<lparr>dv_activeJob := None\<rparr>) (devices d))"
  then obtain u where u: "u \<in> set (devices d)" "v = (if dv_id u = dev \<and> q u then u\<lparr>dv_activeJob := None\<rparr> else u)"
    by (rule in_update_where)
  show "dv_activeJob v \<noteq> Some (jb_id j)"
  proof
    assume a: "dv_activeJob v = Some (jb_id j)"
    then have ua: "dv_activeJob u = Some (jb_id j)" using u(2) by (auto split: if_splits)
    with system_ok_parts(7) [OF ok] u(1) j dev have "dv_id u = dev" by (auto simp: locks_ok_def)
    with q [OF ua] u(2) a show False by simp
  qed
qed

lemma idle_unlocked:
  assumes "system_ok d" and "j \<in> set (jobs d)" and "\<not> lease_live (jb_state j)"
  shows "unlocked d (jb_id j)"
  using assms system_ok_parts(7) [OF assms(1)] by (auto simp: unlocked_def locks_ok_def)

lemma unlocked_step:
  assumes "unlocked d i" and "list_all2 dev_step (devices d) (devices d')"
  shows "unlocked d' i"
  unfolding unlocked_def
proof
  fix v assume "v \<in> set (devices d')"
  from list_all2_member [OF assms(2) this] assms(1) show "dv_activeJob v \<noteq> Some i"
    by (auto simp: dev_step_def unlocked_def)
qed

section \<open>Expiry\<close>

text \<open>A step that writes at most one job, one attempt and one transfer.\<close>

definition touches :: "db \<Rightarrow> db \<Rightarrow> id \<Rightarrow> id \<Rightarrow> id \<Rightarrow> bool" where
  "touches d d' ji ai ti \<longleftrightarrow> (\<exists>f g h. transfers d' = update_where (\<lambda>x. tr_id x = ti) f (transfers d) \<and>
     attempts d' = update_where (\<lambda>x. at_id x = ai) g (attempts d) \<and>
     jobs d' = update_where (\<lambda>x. jb_id x = ji) h (jobs d))"

lemma touches_keeps:
  assumes "touches d d' ji ai ti"
  shows "x \<in> set (jobs d) \<Longrightarrow> jb_id x \<noteq> ji \<Longrightarrow> x \<in> set (jobs d')"
    and "linked d x b s \<Longrightarrow> jb_id x \<noteq> ji \<Longrightarrow> at_id b \<noteq> ai \<Longrightarrow> tr_id s \<noteq> ti \<Longrightarrow> linked d' x b s"
  using assms by (auto simp: touches_def linked_def set_update_where)

lemma touches_clear [simp]: "touches d (clear_active i d') ji ai ti \<longleftrightarrow> touches d d' ji ai ti"
  by (simp add: touches_def)

lemma update_where_id [simp]: "update_where p (\<lambda>x. x) xs = xs"
  by (simp add: update_where_def)

text \<open>The writes of \<open>hold_unknown\<close> the invariant reads.\<close>

definition hold_core :: "time \<Rightarrow> string \<Rightarrow> device_job \<Rightarrow> transfer_attempt \<Rightarrow> transfer \<Rightarrow> db \<Rightarrow> db" where
  "hold_core now code j a t d =
     (let possible = or_else (jb_committedAt j) (or_else (jb_startedAt j) (jb_createdAt j)) in
      set_attempt (at_id a) (\<lambda>x. x\<lparr>at_committedAt := Some (or_else (at_committedAt a) possible),
          at_completedAt := Some now, at_outcome := Some ''unknown'', at_errorCode := Some code\<rparr>)
        (set_transfer (tr_id t) (\<lambda>x. x\<lparr>tr_status := T_unknown,
            tr_committedAt := Some (or_else (tr_committedAt t) possible)\<rparr>)
          (set_job (jb_id j) (\<lambda>x. x\<lparr>jb_state := J_unknown, jb_committedAt := Some possible,
            jb_completedAt := Some now, jb_errorCode := Some code\<rparr>) d)))"

lemma hold_core_same: "same_core (hold_core now code j a t d) (hold_unknown now code reason j a t d)"
  by (simp add: hold_core_def hold_unknown_def Let_def)

lemma hold_unknown_ok:
  assumes ok: "system_ok d" and l: "linked d j a t" and u: "unfinished_job j"
    and e: "transfers e = transfers (hold_core now code j a t d)" "sims e = sims d"
      "attempts e = attempts (hold_core now code j a t d)" "jobs e = jobs (hold_core now code j a t d)"
      "list_all2 dev_step (devices d) (devices e)" "unlocked e (jb_id j)" "same_ledger d e"
  shows "system_ok e"
proof -
  define f :: "transfer \<Rightarrow> transfer" where "f = (\<lambda>x. x\<lparr>tr_status := T_unknown, tr_committedAt := Some (or_else (tr_committedAt t)
      (or_else (jb_committedAt j) (or_else (jb_startedAt j) (jb_createdAt j))))\<rparr>)"
  define h :: "device_job \<Rightarrow> device_job" where "h = (\<lambda>x. x\<lparr>jb_state := J_unknown, jb_committedAt := Some (or_else (jb_committedAt j)
      (or_else (jb_startedAt j) (jb_createdAt j))), jb_completedAt := Some now, jb_errorCode := Some code\<rparr>)"
  note lf = linked_facts [OF ok l]
  from l have t: "t \<in> set (transfers d)" "tr_id t = at_transfer a" "a \<in> set (attempts d)" "at_job a = Some (jb_id j)"
    by (simp_all add: linked_def)
  have nf: "\<not> freed t (f t)" by (simp add: freed_def open_status_def f_def)
  have "same_links (attempts d) (attempts e)" and "jobs e = update_where (\<lambda>x. jb_id x = jb_id j) h (jobs d)"
    using e by (simp_all add: hold_core_def Let_def h_def)
  note fin = finish_frame [OF ok this(1) e(5) this(2) _ _ _ e(6)]
  have fr: "frame_step d e" by (rule fin) (simp_all add: h_def unfinished_job_def)
  have jd: "jobs_done d (jobs e) (at_transfer a)"
    by (rule fin) (use t lf(3) [OF u] in \<open>simp_all add: h_def unfinished_job_def\<close>)
  show ?thesis
    by (rule system_ok_posted [where f = f, OF ok t(1) _ post_step_none [OF system_ok_parts(1) [OF ok] nf]])
      (use fr jd e lf open_not_terminal [OF lf(4) [OF u]] in \<open>simp_all add: status_step_def same_static_def
        nf [unfolded f_def] f_def hold_core_def Let_def t(2)\<close>)
qed

lemma release_expired_ok:
  assumes ok: "system_ok d" and l: "linked d j a t" and u: "unfinished_job j"
    and run: "release_expired now j a t d = Inr d'"
  shows "system_ok (clear_active (jb_id j) d')"
    and "touches d d' (jb_id j) (at_id a) (tr_id t)"
proof -
  let ?f = "\<lambda>x. x\<lparr>tr_status := T_failed, tr_completedAt := Some now\<rparr>"
    and ?g = "\<lambda>s. s\<lparr>sim_reserved := sim_reserved s - physical_total t\<rparr>"
    and ?h = "\<lambda>x. x\<lparr>jb_state := J_failed, jb_completedAt := Some now, jb_errorCode := Some ''JOB_EXPIRED_PRECOMMIT''\<rparr>"
    and ?k = "\<lambda>x. x\<lparr>at_completedAt := Some now, at_outcome := Some ''failed'',
      at_errorCode := Some ''JOB_EXPIRED_PRECOMMIT''\<rparr>"
  note lf = linked_facts [OF ok l]
  from l have t: "t \<in> set (transfers d)" "tr_id t = at_transfer a" "a \<in> set (attempts d)" "at_job a = Some (jb_id j)"
    by (simp_all add: linked_def)
  from run obtain d1 where d1: "release_reservation t d = Inr d1"
    and rest: "d' = emit_transfer now t ''failed'' T_failed (updateExpiredLinkedOperation now t O_failed
      (set_attempt (at_id a) ?k (set_transfer (tr_id t) ?f (set_job (jb_id j) ?h (set_sim (jb_sim j) ?g d1)))))"
    by (auto simp: release_expired_def Let_def tx_simps)
  let ?c = "set_attempt (at_id a) ?k (set_transfer (tr_id t) ?f (set_job (jb_id j) ?h (set_sim (jb_sim j) ?g d1)))"
  note tab = ledger_frame_tables [OF release_frame [OF system_ok_parts(1) [OF ok] d1]]
  have core: "same_core ?c d'" by (simp add: rest)
  then show "touches d d' (jb_id j) (at_id a) (tr_id t)"
    unfolding touches_def by (simp add: same_core_def tab) blast
  let ?e = "clear_active (jb_id j) ?c"
  have op: "open_status (tr_status t)" by (rule open_not_terminal [OF lf(4) [OF u]])
  have free: "freed t (?f t)" using op by (simp add: freed_def open_status_def)
  have dv: "list_all2 dev_step (devices d) (devices ?e)"
    using clear_active_devs(1) [where d = ?c and i = "jb_id j"] by (simp add: tab)
  note fin = finish_frame [OF ok _ dv _ _ _ _ clear_active_devs(2), where h = ?h]
  have fr: "frame_step d ?e" by (rule fin) (simp_all add: tab unfinished_job_def)
  have jd: "jobs_done d (jobs ?e) (at_transfer a)"
    by (rule fin) (use t lf(3) [OF u] in \<open>simp_all add: tab unfinished_job_def\<close>)
  have "system_ok ?e"
    by (rule system_ok_posted [where f = ?f, OF ok t(1) _ post_step_release [OF ok t(1) same_ledger_refl d1 free]])
      (use fr jd in \<open>simp_all add: status_step_def same_static_def tab op sims_freed [OF free lf(1)] t(2)\<close>)
  then show "system_ok (clear_active (jb_id j) d')"
    by (rule system_ok_same_core) (rule set_core(6) [OF core])
qed

lemma hold_touches: "touches d (hold_unknown now code reason j a t d) (jb_id j) (at_id a) (tr_id t)"
proof -
  have "touches d (hold_core now code j a t d) (jb_id j) (at_id a) (tr_id t)"
    unfolding touches_def by (simp add: hold_core_def Let_def) blast
  with hold_core_same [of now code j a t d reason] show ?thesis by (simp add: touches_def same_core_def)
qed

lemma hold_clear_ok:
  assumes ok: "system_ok d" and l: "linked d j a t" and u: "unfinished_job j"
  shows "system_ok (clear_active (jb_id j) (hold_unknown now code reason j a t d))"
proof -
  let ?c = "clear_active (jb_id j) (hold_core now code j a t d)"
  have dv: "list_all2 dev_step (devices d) (devices ?c)"
    using clear_active_devs(1) [where d = "hold_core now code j a t d" and i = "jb_id j"]
    by (simp add: hold_core_def Let_def)
  have "system_ok ?c"
    by (rule hold_unknown_ok [OF ok l u _ _ _ _ dv clear_active_devs(2)]) (simp_all add: hold_core_def Let_def)
  then show ?thesis by (rule system_ok_same_core) (rule set_core(6) [OF hold_core_same])
qed

lemma finish_job_ok:
  assumes ok: "system_ok d"
    and h: "\<And>x. jb_id (h x) = jb_id x" "\<And>x. jb_sim (h x) = jb_sim x" "\<And>x. \<not> unfinished_job (h x)"
  shows "system_ok (clear_active i (set_job i h d))"
    and "touches d (set_job i h d) i ai ti"
proof -
  have dv: "list_all2 dev_step (devices d) (devices (clear_active i (set_job i h d)))"
    using clear_active_devs(1) [where d = "set_job i h d" and i = i] by simp
  show "system_ok (clear_active i (set_job i h d))"
    by (rule system_ok_idle [OF ok _ _ _ finish_frame(1) [OF ok _ dv _ h clear_active_devs(2)]]) simp_all
  have "update_where (\<lambda>x. tr_id x = ti) (\<lambda>x. x) (transfers d) = transfers d"
    "update_where (\<lambda>x. at_id x = ai) (\<lambda>x. x) (attempts d) = attempts d" by simp_all
  then show "touches d (set_job i h d) i ai ti" unfolding touches_def set_tables by metis
qed

text \<open>One step of the sweep: safe when the job and the rows read with it are still current.\<close>

definition current :: "db \<Rightarrow> device_job \<times> (transfer_attempt \<times> transfer) option \<Rightarrow> bool" where
  "current d = (\<lambda>(j, link). j \<in> set (jobs d) \<and> unfinished_job j \<and>
     (case link of None \<Rightarrow> True | Some (a, t) \<Rightarrow> linked d j a t))"

lemma expire_job_ok:
  assumes ok: "system_ok d" and c: "current d (j, link)" and run: "expire_job now (j, link) (refs, d) = Inr (refs', d')"
  shows "system_ok d'" and "link = Some (a, t) \<Longrightarrow> touches d d' (jb_id j) (at_id a) (tr_id t)"
    and "link = None \<Longrightarrow> touches d d' (jb_id j) ai ti"
proof -
  have u: "unfinished_job j" using c by (simp add: current_def)
  show "system_ok d'"
  proof (cases link)
    case None
    with run show ?thesis
      by (auto simp: expire_job_def unfinished_job_def intro!: finish_job_ok [OF ok])
  next
    case (Some l)
    obtain a t where l: "l = (a, t)" by fastforce
    with Some c have lk: "linked d j a t" by (simp add: current_def)
    show ?thesis
      using run linked_facts(4) [OF ok lk u]
      by (auto simp: expire_job_def Some l tx_simps split: if_splits
          intro: hold_clear_ok [OF ok lk u] release_expired_ok(1) [OF ok lk u])
  qed
  show "touches d d' (jb_id j) (at_id a) (tr_id t)" if s: "link = Some (a, t)"
  proof -
    have lk: "linked d j a t" using s c by (simp add: current_def)
    show ?thesis
      using run linked_facts(4) [OF ok lk u]
      by (auto simp: expire_job_def s tx_simps split: if_splits
          intro: hold_touches release_expired_ok(2) [OF ok lk u])
  qed
  show "link = None \<Longrightarrow> touches d d' (jb_id j) ai ti"
    using run by (auto simp: expire_job_def unfinished_job_def intro!: finish_job_ok [OF ok])
qed

lemma expire_jobs_ok:
  assumes "system_ok d" and "distinct (map (\<lambda>p. jb_id (fst p)) ps)" and "\<forall>p \<in> set ps. current d p"
    and "foldM (expire_job now) ps (refs, d) = Inr (refs', d')"
  shows "system_ok d'"
  using assms
proof (induction ps arbitrary: refs d)
  case Nil
  then show ?case by simp
next
  case (Cons p ps)
  obtain j link where p: "p = (j, link)" by fastforce
  from Cons.prems(4) obtain refs1 d1 where r: "expire_job now p (refs, d) = Inr (refs1, d1)"
    "foldM (expire_job now) ps (refs1, d1) = Inr (refs', d')"
    by (auto simp: tx_simps)
  note ok = Cons.prems(1)
  have cp: "current d (j, link)" using Cons.prems(3) p by simp
  note step = expire_job_ok [OF ok cp r(1) [unfolded p]]
  have "current d1 q" if q: "q \<in> set ps" for q
  proof -
    obtain x lq where qq: "q = (x, lq)" by fastforce
    from Cons.prems(2,3) q qq p have ne: "jb_id x \<noteq> jb_id j" and cq: "current d (x, lq)" by force+
    have job: "x \<in> set (jobs d1)"
    proof (cases link)
      case None
      with step(3) ne cq show ?thesis by (auto simp: current_def dest: touches_keeps(1))
    next
      case (Some l)
      with step(2) ne cq show ?thesis by (cases l) (auto simp: current_def dest: touches_keeps(1))
    qed
    show ?thesis
    proof (cases lq)
      case None
      with job cq show ?thesis by (simp add: current_def qq)
    next
      case (Some l2)
      obtain b s where l2: "l2 = (b, s)" by fastforce
      with Some cq have lb: "linked d x b s" and ux: "unfinished_job x" by (simp_all add: current_def)
      have "linked d1 x b s"
      proof (cases link)
        case None
        from step(3) [OF None, of "Suc (at_id b)" "Suc (tr_id s)"] lb ne show ?thesis
          by (auto dest: touches_keeps(2))
      next
        case (Some l)
        obtain a t where l: "l = (a, t)" by fastforce
        with Some cp have la: "linked d j a t" and uj: "unfinished_job j" by (simp_all add: current_def)
        have ab: "at_id b \<noteq> at_id a"
          using rows_unique(2) [OF system_ok_parts(3) [OF ok], of b a] la lb ne by (auto simp: linked_def)
        have "tr_id s \<noteq> tr_id t"
        proof
          assume "tr_id s = tr_id t"
          then have "at_transfer a = at_transfer b" using la lb by (simp add: linked_def)
          then have "at_number a < at_number b" "at_number b < at_number a"
            using linked_facts(3) [OF ok la uj] linked_facts(3) [OF ok lb ux] la lb ab
            by (simp_all add: latest_attempt_def linked_def)
          then show False by simp
        qed
        with step(2) [of a t] Some l lb ne ab show ?thesis by (auto dest: touches_keeps(2))
      qed
      with job ux Some show ?thesis by (simp add: current_def qq l2)
    qed
  qed
  with Cons.IH [OF step(1) _ _ r(2)] Cons.prems(2) show ?case by simp
qed

lemma expireFinancialJobs_ok:
  assumes ok: "system_ok d" and run: "expireFinancialJobs acquired now d = Inr (refs, d')"
  shows "system_ok d'"
proof (cases acquired)
  case True
  let ?js = "take 250 (sort_key jb_expiresAt (filter (job_expired now) (jobs d)))"
  have mem: "j \<in> set (jobs d) \<and> unfinished_job j" if "j \<in> set ?js" for j
    using that by (auto dest!: in_set_takeD simp: job_expired_def)
  have "distinct (map jb_id (sort_key jb_expiresAt (filter (job_expired now) (jobs d))))"
  proof -
    have "distinct (map jb_id (filter (job_expired now) (jobs d)))"
      using system_ok_parts(3) [OF ok] by (simp add: rows_ok_def distinct_map_filter)
    then show ?thesis by (simp add: distinct_map)
  qed
  then have "distinct (map jb_id ?js)" by (simp add: take_map [symmetric])
  then have "distinct (map (\<lambda>p. jb_id (fst p)) (map (\<lambda>j. (j, job_link d (jb_id j))) ?js))"
    by (simp add: comp_def)
  moreover have "\<forall>p \<in> set (map (\<lambda>j. (j, job_link d (jb_id j))) ?js). current d p"
  proof
    fix p assume "p \<in> set (map (\<lambda>j. (j, job_link d (jb_id j))) ?js)"
    then obtain j where j: "j \<in> set ?js" "p = (j, job_link d (jb_id j))" by (simp only: set_map) blast
    show "current d p"
      using mem [OF j(1)] job_link_linked [of d j]
      by (cases "job_link d (jb_id j)") (auto simp: current_def j(2))
  qed
  moreover have "foldM (expire_job now) (map (\<lambda>j. (j, job_link d (jb_id j))) ?js) ([], d) = Inr (refs, d')"
    using run True by (simp add: expireFinancialJobs_def)
  ultimately show ?thesis by (rule expire_jobs_ok [OF ok])
next
  case False
  with run ok show ?thesis by (simp add: expireFinancialJobs_def)
qed

section \<open>Leases\<close>

lemma unlock_frame:
  assumes as: "same_links (attempts d) (attempts d')" and vs: "list_all2 dev_step (devices d) (devices d')"
    and js: "jobs d' = update_where (\<lambda>x. jb_id x = i) h (jobs d)"
    and h: "\<And>x. x \<in> set (jobs d) \<Longrightarrow> jb_id x = i \<Longrightarrow>
      jb_id (h x) = jb_id x \<and> jb_sim (h x) = jb_sim x \<and> (unfinished_job (h x) \<longrightarrow> unfinished_job x)"
    and lock: "unlocked d' i"
  shows "frame_step d d'"
proof -
  have "list_all2 (lock_step (devices d')) (jobs d) (jobs d')"
    unfolding js using h lock by (intro list_all2_update_where) (auto simp: lock_step_def job_step_def unlocked_def)
  with as vs show ?thesis by (simp add: frame_step_def)
qed

lemma device_lock:
  assumes ok: "system_ok d" and v: "find_device d dev = Some v" "dv_activeJob v = Some ji" and j: "find_job d ji = Some j"
  shows "j \<in> set (jobs d)" and "jb_id j = ji" and "lease_live (jb_state j)" and "jb_device j = Some dev"
    and "unfinished_job j"
proof -
  from v(1) have v': "v \<in> set (devices d)" "dv_id v = dev" by (auto simp: find_device_def dest: find_SomeD)
  note j' = find_job_mem [OF j]
  from system_ok_parts(7) [OF ok] v' v(2) j' have l: "lease_live (jb_state j)" "jb_device j = Some dev"
    by (auto simp: locks_ok_def)
  with j' show "j \<in> set (jobs d)" "jb_id j = ji" "lease_live (jb_state j)" "jb_device j = Some dev"
    "unfinished_job j" by (auto intro: lease_live_unfinished)
qed

lemma set_inactive:
  assumes "devices e = devices d"
  shows "list_all2 dev_step (devices d) (devices (set_device dev (\<lambda>v. v\<lparr>dv_activeJob := None\<rparr>) e))"
  using assms by (auto simp: dev_step_def intro!: list_all2_update_where)

lemma drop_stale_lease_ok:
  assumes ok: "system_ok d" and v: "find_device d dev = Some v" "dv_activeJob v = Some ji"
    and run: "drop_stale_lease now dev (find_job d ji) d = Inr (ref, d')"
  shows "system_ok d'"
proof -
  let ?u = "set_device dev (\<lambda>v. v\<lparr>dv_activeJob := None\<rparr>)"
  show ?thesis
  proof (cases "find_job d ji")
    case None
    then have "d' = ?u d" using run by (simp add: drop_stale_lease_def)
    then show ?thesis
      using set_inactive [of d d dev]
      by (auto intro!: system_ok_idle [OF ok] simp: frame_step_def list_all2_same)
  next
    case (Some j)
    note j = device_lock [OF ok v Some]
    have un: "unlocked (?u e) (jb_id j)" if "devices e = devices d" for e
      by (rule drop_lock [OF ok j(1,4), where q = "\<lambda>_. True"]) (simp_all add: that)
    show ?thesis
    proof (cases "possibly_committed j")
      case True
      with run Some have d': "d' = ?u (snd (markExpiredCommittedUnknown now j d))"
        by (simp add: drop_stale_lease_def split: prod.splits)
      show ?thesis
      proof (cases "job_link d (jb_id j)")
        case None
        let ?h = "\<lambda>x. x\<lparr>jb_state := J_unknown, jb_completedAt := Some now,
            jb_errorCode := Some ''LEASE_EXPIRED_AFTER_COMMIT''\<rparr>"
        have "d' = ?u (set_job (jb_id j) ?h d)" using d' None by (simp add: markExpiredCommittedUnknown_def)
        moreover have "frame_step d (?u (set_job (jb_id j) ?h d))"
          by (rule finish_frame(1) [OF ok _ set_inactive _ _ _ _ un, where h = ?h])
            (simp_all add: unfinished_job_def)
        ultimately show ?thesis by (intro system_ok_idle [OF ok]) simp_all
      next
        case (Some l)
        obtain a t where l: "l = (a, t)" by fastforce
        have lk: "linked d j a t" using job_link_linked Some l j(1) by blast
        let ?code = "''LEASE_EXPIRED_AFTER_START_POSSIBLE_COMMIT''"
        have dh: "devices (hold_core now ?code j a t d) = devices d" by (simp add: hold_core_def Let_def)
        have "system_ok (?u (hold_core now ?code j a t d))"
          by (rule hold_unknown_ok [OF ok lk j(5) _ _ _ _ set_inactive [OF dh] un [OF dh]])
            (simp_all add: hold_core_def Let_def)
        then show ?thesis
          unfolding d' using linked_facts(4) [OF ok lk j(5)]
          by (auto simp: markExpiredCommittedUnknown_def Some l intro: system_ok_same_core
              [OF _ set_core(5) [OF hold_core_same]])
      qed
    next
      case False
      with run Some obtain fence d1 where d1: "allocate_fence (jb_sim j) d = Inr (fence, d1)"
        and d': "d' = ?u ((set_job (jb_id j) (\<lambda>x. x\<lparr>jb_state := J_queued, jb_device := None, jb_leaseOwner := None,
            jb_leaseExpiresAt := None, jb_attempt := jb_attempt x + 1, jb_fence := fence\<rparr>) d1)
          \<lparr>attempts := update_where (\<lambda>a. at_job a = Some (jb_id j)) (\<lambda>a. a\<lparr>at_fence := fence\<rparr>) (attempts d1)\<rparr>)"
        by (auto simp: drop_stale_lease_def requeue_job_def Let_def tx_simps)
      note ok1 = allocate_fence_ok(1) [OF ok d1]
      obtain ss where ss: "d1 = d\<lparr>sims := ss\<rparr>" using allocate_fence_ok(2) [OF ok d1] by blast
      have live: "unfinished_job x" if "x \<in> set (jobs d)" "jb_id x = jb_id j" for x
        using rows_unique(4) [OF system_ok_parts(3) [OF ok] that(1) j(1) that(2)] j(5) by simp
      have "frame_step d1 d'"
        unfolding d' by (rule unlock_frame [OF _ set_inactive _ _ un, where h = "\<lambda>x. x\<lparr>jb_state := J_queued,
            jb_device := None, jb_leaseOwner := None, jb_leaseExpiresAt := None, jb_attempt := jb_attempt x + 1,
            jb_fence := fence\<rparr>"]) (simp_all add: ss live)
      then show ?thesis by (rule system_ok_idle [OF ok1, rotated -1]) (simp_all add: d')
    qed
  qed
qed

lemma fence_attempts_step:
  "same_links as (update_where p (\<lambda>a. a\<lparr>at_fence := fence\<rparr>) as)"
  by (rule same_links_update) simp_all

lemma upgrade_job_ok:
  assumes ok: "system_ok d" and run: "upgrade_job j d = Inr d'"
  shows "system_ok d'"
proof -
  from run obtain fence d1 where d1: "allocate_fence (jb_sim j) d = Inr (fence, d1)"
    by (auto simp: upgrade_job_def tx_simps)
  note ok1 = allocate_fence_ok(1) [OF ok d1]
  let ?p = "\<lambda>x. jb_id x = jb_id j \<and> jb_state x = J_queued \<and> jb_profile x \<noteq> CURRENT_DEVICE_PROFILE_VERSION_TEXT"
    and ?h = "\<lambda>x. x\<lparr>jb_profile := CURRENT_DEVICE_PROFILE_VERSION_TEXT, jb_fence := fence\<rparr>"
  let ?c = "d1\<lparr>jobs := update_where ?p ?h (jobs d1), attempts := update_where (\<lambda>a. at_job a = Some (jb_id j))
      (\<lambda>a. a\<lparr>at_fence := fence\<rparr>) (attempts d1)\<rparr>"
  have "frame_step d1 ?c"
    by (rule keep_frame [where p = ?p and h = ?h]) (simp_all add: fence_attempts_step unfinished_job_def)
  then have "system_ok ?c" by (intro system_ok_idle [OF ok1]) simp_all
  moreover have "d' = d1 \<or> same_core ?c d'"
    using run by (auto simp: upgrade_job_def d1 Let_def split: if_splits)
  ultimately show ?thesis using ok1 by (auto intro: system_ok_same_core)
qed

lemma upgrade_legacy_ok: "system_ok d \<Longrightarrow> upgrade_legacy now dev d = Inr d' \<Longrightarrow> system_ok d'"
  unfolding upgrade_legacy_def
  by (rule foldM_invariant [where P = system_ok and f = upgrade_job]) (auto intro: upgrade_job_ok)

lemma lease_queued_ok:
  assumes ok: "system_ok d" and run: "lease_queued now dev d = Inr (e, d')"
  shows "system_ok d'"
proof (cases "first_by lease_rank (filter (leasable now (loadPlatformPolicy d) dev d) (jobs d))")
  case None
  with run ok show ?thesis by (simp add: lease_queued_def)
next
  case (Some j)
  from first_by_SomeD(1) [OF Some] have j: "j \<in> set (jobs d)" "jb_state j = J_queued" by (auto simp: leasable_def)
  let ?h = "leased_job now dev" and ?l = "\<lambda>v. v\<lparr>dv_activeJob := Some (jb_id j)\<rparr>"
  from run Some have d': "d' = set_device dev ?l (set_job (jb_id j) ?h d)" by (auto simp: lease_queued_def tx_simps)
  note parts = system_ok_parts [OF ok]
  have one: "x = j" if "x \<in> set (jobs d)" "jb_id x = jb_id j" for x
    using rows_unique(4) [OF parts(3) that(1) j(1) that(2)] .
  have un: "unlocked d (jb_id j)" by (rule idle_unlocked [OF ok j(1)]) (simp add: j(2) lease_live_def)
  have js: "list_all2 job_step (jobs d) (jobs d')"
    unfolding d' set_tables
  proof (rule list_all2_update_where)
    fix x assume "x \<in> set (jobs d)" "jb_id x = jb_id j"
    then have "x = j" by (rule one)
    then show "job_step x (?h x)" using j(2) by (simp add: leased_job_def job_step_def unfinished_job_def)
  qed simp
  show ?thesis
  proof (rule system_ok_quiet [OF ok])
    show "locks_ok d'"
      unfolding locks_ok_def
    proof (intro ballI impI)
      fix v x assume v: "v \<in> set (devices d')" and x: "x \<in> set (jobs d')" and a: "dv_activeJob v = Some (jb_id x)"
      from v obtain u where u: "u \<in> set (devices d)" "v = (if dv_id u = dev then ?l u else u)"
        unfolding d' set_tables by (rule in_update_where)
      from x obtain y where y: "y \<in> set (jobs d)" "x = (if jb_id y = jb_id j then ?h y else y)"
        unfolding d' set_tables by (rule in_update_where)
      have id: "jb_id x = jb_id y" using y(2) by (simp add: leased_job_def)
      show "lease_live (jb_state x) \<and> jb_device x = Some (dv_id v)"
      proof (cases "jb_id y = jb_id j")
        case True
        have "dv_id u = dev"
        proof (rule ccontr)
          assume "dv_id u \<noteq> dev"
          with u a id True have "dv_activeJob u = Some (jb_id j)" by simp
          with un u(1) show False by (simp add: unlocked_def)
        qed
        with True y(2) u(2) show ?thesis by (simp add: leased_job_def lease_live_def)
      next
        case False
        with y(2) have xy: "x = y" by simp
        have "dv_id u \<noteq> dev"
        proof
          assume "dv_id u = dev"
          with u(2) a id False show False by simp
        qed
        with u have "v = u" by simp
        with parts(7) u(1) y(1) a xy show ?thesis by (auto simp: locks_ok_def)
      qed
    qed
    show "map dv_id (devices d') = map dv_id (devices d)"
      by (simp add: d' update_where_def comp_def if_distrib cong: if_cong)
    show "i < next_id d'" if "v \<in> set (devices d')" "dv_activeJob v = Some i" for v i
    proof -
      from that(1) obtain u where u: "u \<in> set (devices d)" "v = (if dv_id u = dev then ?l u else u)"
        unfolding d' set_tables by (rule in_update_where)
      have "jb_id j < next_id d" "\<forall>k. dv_activeJob u = Some k \<longrightarrow> k < next_id d"
        using parts(3) j(1) u(1) by (auto simp: rows_ok_def)
      with u(2) that(2) show ?thesis by (auto simp: d' set_device_def set_job_def split: if_splits)
    qed
  qed (use js in \<open>simp_all add: d'\<close>)
qed

lemma leaseNext_ok:
  assumes ok: "system_ok d" and run: "leaseNext now dev d = Inr (e, ref, d')"
  shows "system_ok d'"
proof -
  from run obtain v where v: "find_device d dev = Some v" by (auto simp: leaseNext_def split: option.splits)
  have "d' = d \<or> (\<exists>d1 d2. (if dv_activeJob v = None then Inr (None, d) else drop_stale_lease now dev
      (case dv_activeJob v of None \<Rightarrow> None | Some j \<Rightarrow> find_job d j) d) = Inr (ref, d1) \<and>
      upgrade_legacy now dev d1 = Inr d2 \<and> lease_queued now dev d2 = Inr (e, d'))"
    using run by (auto simp: leaseNext_def v Let_def tx_simps split: if_splits)
  then show ?thesis
  proof (elim disjE exE conjE)
    fix d1 d2
    assume r: "(if dv_activeJob v = None then Inr (None, d) else drop_stale_lease now dev
      (case dv_activeJob v of None \<Rightarrow> None | Some j \<Rightarrow> find_job d j) d) = Inr (ref, d1)"
      and u: "upgrade_legacy now dev d1 = Inr d2" and l: "lease_queued now dev d2 = Inr (e, d')"
    have "system_ok d1"
      using r ok drop_stale_lease_ok [OF ok v] by (cases "dv_activeJob v") auto
    from lease_queued_ok [OF upgrade_legacy_ok [OF this u] l] show ?thesis .
  qed (simp add: ok)
qed

lemma extend_lease_ok:
  assumes "system_ok d"
  shows "system_ok (d\<lparr>jobs := update_where p (\<lambda>x. x\<lparr>jb_leaseExpiresAt := e\<rparr>) (jobs d)\<rparr>)" (is "system_ok ?d")
proof -
  have "frame_step d ?d"
    by (rule keep_frame [where p = p and h = "\<lambda>x. x\<lparr>jb_leaseExpiresAt := e\<rparr>"]) (simp_all add: unfinished_job_def)
  then show ?thesis by (intro system_ok_idle [OF assms]) simp_all
qed

lemma renew_ok: "system_ok d \<Longrightarrow> renew now dev j fence d = Inr (e, d') \<Longrightarrow> system_ok d'"
  by (auto simp: renew_def extend_lease_ok split: if_splits)

lemma renewActiveForConnection_ok:
  "system_ok d \<Longrightarrow> renewActiveForConnection now dev ej ef d = Inr (e, d') \<Longrightarrow> system_ok d'"
  by (auto simp: renewActiveForConnection_def set_job_def extend_lease_ok split: if_splits option.splits)

section \<open>Reports\<close>

lemma quarantine_both_ok: "system_ok d \<Longrightarrow> system_ok (quarantine_both dev sim d)"
proof -
  assume ok: "system_ok d"
  let ?s = "update_where (\<lambda>s. sim_id s = sim) (\<lambda>s. s\<lparr>sim_status := Sim_quarantined\<rparr>) (sims d)"
    and ?v = "update_where (\<lambda>v. dv_id v = dev) (\<lambda>v. v\<lparr>dv_status := Dev_quarantined\<rparr>) (devices d)"
  have "list_all2 dev_step (devices d) ?v" by (rule list_all2_update_where) (simp_all add: dev_step_def)
  then have "system_ok (d\<lparr>devices := ?v\<rparr>)" by (rule system_ok_devices [OF ok])
  then have "system_ok (d\<lparr>devices := ?v\<rparr>\<lparr>sims := ?s\<rparr>)"
    by (rule system_ok_sims) (simp add: same_holds_update)
  then show ?thesis by (simp add: quarantine_both_def set_sim_def set_device_def)
qed

lemma quarantine_both_tables [simp]:
  "transfers (quarantine_both dev sim d) = transfers d" "attempts (quarantine_both dev sim d) = attempts d"
  "jobs (quarantine_both dev sim d) = jobs d"
  by (simp_all add: quarantine_both_def)

lemma update_where_and:
  "update_where (\<lambda>x. p x \<and> q x) f xs = update_where p (\<lambda>x. if q x then f x else x) xs"
  by (simp add: update_where_def)

lemma report_late_ok:
  assumes ok: "system_ok d" and l: "linked d j a t"
  shows "system_ok (report_late j a t r observedAt d)"
proof -
  let ?e = "report_late j a t r observedAt d"
  define possible where "possible = (if rp_state r \<in> {J_committed, J_provider_pending, J_succeeded}
            then Some (or_else (jb_committedAt j) observedAt) else jb_committedAt j)"
  define h :: "device_job \<Rightarrow> device_job" where "h = (\<lambda>x. x\<lparr>jb_committedAt := possible,
            jb_screen := or_else_opt (ussdDiagnosticLabel (rp_screen r)) (jb_screen x),
            jb_errorCode := (if truthy (rp_errorCode r) then rp_errorCode r else jb_errorCode j)\<rparr>)"
  define f :: "transfer \<Rightarrow> transfer" where
    "f = (\<lambda>x. if possible \<noteq> None \<and> tr_committedAt x = None then x\<lparr>tr_committedAt := possible\<rparr> else x)"
  define k :: "transfer_attempt \<Rightarrow> transfer_attempt" where
    "k = (\<lambda>x. if possible \<noteq> None \<and> at_committedAt x = None then x\<lparr>at_committedAt := possible\<rparr> else x)"
  have eq: "?e = (case possible of None \<Rightarrow> set_job (jb_id j) h d | Some y \<Rightarrow> (set_job (jb_id j) h d)
      \<lparr>transfers := update_where (\<lambda>x. tr_id x = tr_id t \<and> tr_committedAt x = None)
         (\<lambda>x. x\<lparr>tr_committedAt := possible\<rparr>) (transfers d),
       attempts := update_where (\<lambda>x. at_id x = at_id a \<and> at_committedAt x = None)
         (\<lambda>x. x\<lparr>at_committedAt := possible\<rparr>) (attempts d)\<rparr>)"
    unfolding report_late_def Let_def possible_def [symmetric] h_def by (simp split: option.split)
  have e: "transfers ?e = update_where (\<lambda>x. tr_id x = tr_id t) f (transfers d)"
    "attempts ?e = update_where (\<lambda>x. at_id x = at_id a) k (attempts d)"
    "sims ?e = sims d" "devices ?e = devices d"
    "jobs ?e = update_where (\<lambda>x. jb_id x = jb_id j) h (jobs d)" "same_ledger d ?e"
    unfolding eq by (auto simp: f_def k_def update_where_and split: option.split)
  have t: "t \<in> set (transfers d)" using l by (simp add: linked_def)
  have st: "tr_status (f t) = tr_status t" "same_static t (f t)" by (simp_all add: f_def same_static_def)
  then have nf: "\<not> freed t (f t)" by (simp add: freed_def)
  have "same_links (attempts d) (attempts ?e)" unfolding e by (rule same_links_update) (simp_all add: k_def)
  then have fr: "frame_step d ?e"
    by (rule keep_frame [OF _ _ e(5)]) (simp_all add: e h_def unfinished_job_def)
  have nm: "tr_env t = Test \<longrightarrow> tr_status t \<noteq> T_manual_review"
    using system_ok_parts(5) [OF ok] t by (simp add: attempts_ok_def)
  show ?thesis
    by (rule system_ok_posted [where f = f, OF ok t _ post_step_none [OF system_ok_parts(1) [OF ok] nf] e(6) e(1) _ fr])
      (simp_all add: status_step_def st nm nf e)
qed

text \<open>The states a report can reach: a lease goes on, or the job is finished and the phone freed.\<close>

lemma effective_state_cases:
  assumes "rp_state r \<in> set (allowedTransitions (jb_state j))"
    and "nd \<noteq> No_disposition \<longrightarrow> rp_state r \<in> {J_cancelled, J_failed}"
  shows "effective_state j (rp_state r) nd \<in>
    {J_device_started, J_committed, J_provider_pending, J_failed, J_unknown, J_cancelled}"
  using assms
  by (cases "jb_state j"; cases nd) (auto simp: effective_state_def financiallySafeReportState_def)

lemma disposition_reported:
  "classifyPrecommitNameDisposition st c reported code stored rn prov \<noteq> No_disposition \<Longrightarrow>
    reported \<in> {J_cancelled, J_failed} \<and> st = J_device_started"
  by (auto simp: classifyPrecommitNameDisposition_def Let_def split: if_splits)

text \<open>The lock of the reporting phone, dropped after the states that end the work.\<close>

definition free_phone :: "job_state \<Rightarrow> id \<Rightarrow> id \<Rightarrow> db \<Rightarrow> db" where
  "free_phone st dev i e = (if shouldReleaseDeviceLockAfterReport st then
     e\<lparr>devices := update_where (\<lambda>v. dv_id v = dev \<and> dv_activeJob v = Some i)
        (\<lambda>v. v\<lparr>dv_activeJob := None\<rparr>) (devices e)\<rparr> else e)"

lemma free_phone_tables [simp]:
  "transfers (free_phone st dev i e) = transfers e" "sims (free_phone st dev i e) = sims e"
  "attempts (free_phone st dev i e) = attempts e" "jobs (free_phone st dev i e) = jobs e"
  "same_ledger d e \<Longrightarrow> same_ledger d (free_phone st dev i e)"
  by (simp_all add: free_phone_def)

definition report_states :: "job_state set" where
  "report_states = {J_device_started, J_committed, J_provider_pending, J_failed, J_unknown, J_cancelled}"

lemma report_frame:
  assumes ok: "system_ok d" and j: "j \<in> set (jobs d)" "lease_live (jb_state j)" "jb_device j = Some dev"
    and st: "st \<in> report_states"
    and h: "\<And>x. jb_id (h x) = jb_id x" "\<And>x. jb_sim (h x) = jb_sim x" "\<And>x. jb_device (h x) = jb_device x"
      "\<And>x. jb_state (h x) = st"
    and e: "same_links (attempts d) (attempts e)" "devices e = devices d"
      "jobs e = update_where (\<lambda>x. jb_id x = jb_id j) h (jobs d)"
  shows "frame_step d (free_phone st dev (jb_id j) e)"
    and "shouldReleaseDeviceLockAfterReport st \<Longrightarrow> a \<in> set (attempts d) \<Longrightarrow> at_job a = Some (jb_id j) \<Longrightarrow>
      latest_attempt d a \<Longrightarrow> jobs_done d (jobs e) (at_transfer a)"
proof -
  let ?e = "free_phone st dev (jb_id j) e"
  have dv: "list_all2 dev_step (devices d) (devices ?e)"
    by (auto simp: free_phone_def e dev_step_def intro!: list_all2_update_where)
  have un: "unlocked ?e (jb_id j)" if "shouldReleaseDeviceLockAfterReport st"
    by (rule drop_lock [OF ok j(1,3), where q = "\<lambda>v. dv_activeJob v = Some (jb_id j)"])
      (simp_all add: free_phone_def that e)
  have fin: "\<not> unfinished_job (h x)" if "shouldReleaseDeviceLockAfterReport st" for x
    using that h(4) [of x] by (auto simp: shouldReleaseDeviceLockAfterReport_def unfinished_job_def)
  show "frame_step d ?e"
  proof (cases "shouldReleaseDeviceLockAfterReport st")
    case True
    show ?thesis
      by (rule finish_frame(1) [OF ok _ dv _ h(1,2) fin un]) (simp_all add: e True)
  next
    case False
    have uj: "unfinished_job x" if "x \<in> set (jobs d)" "jb_id x = jb_id j" for x
      using rows_unique(4) [OF system_ok_parts(3) [OF ok] that(1) j(1) that(2)] j(2)
      by (auto intro: lease_live_unfinished)
    have lv: "lease_live st" using False st
      by (auto simp: shouldReleaseDeviceLockAfterReport_def report_states_def lease_live_def)
    show ?thesis
      by (rule keep_frame [OF _ dv, where p = "\<lambda>x. jb_id x = jb_id j" and h = h])
        (use uj lv h in \<open>simp_all add: e\<close>)
  qed
  assume r: "shouldReleaseDeviceLockAfterReport st" and a: "a \<in> set (attempts d)" "at_job a = Some (jb_id j)"
    "latest_attempt d a"
  show "jobs_done d (jobs e) (at_transfer a)"
    using finish_frame(2) [OF ok _ dv _ h(1,2) fin [OF r] un [OF r] a] by (simp add: e)
qed

text \<open>The rows a report writes, and the posting behind a reported failure.\<close>

lemma report_rows_tables:
  obtains f k where "\<And>x. same_static x (f x)" "tr_status (f t) = transfer_status_of_report st (tr_status t)"
    "\<And>x. at_id (k x) = at_id x" "\<And>x. at_transfer (k x) = at_transfer x" "\<And>x. at_number (k x) = at_number x"
    "\<And>x. at_job (k x) = at_job x"
    "\<And>d. same_core (set_attempt (at_id a) k (set_transfer (tr_id t) f d)) (report_rows now j a t r st ob possible d)"
proof -
  define touched where "touched = ((st = J_committed \<or> st = J_unknown) \<and> possible \<noteq> None)"
  define f :: "transfer \<Rightarrow> transfer" where "f = (\<lambda>x. x\<lparr>tr_status := transfer_status_of_report st (tr_status t),
     tr_committedAt := (if touched then or_else_opt (tr_committedAt t) possible else tr_committedAt t),
     tr_completedAt := (if st = J_failed then Some ob else tr_completedAt x)\<rparr>)"
  define k :: "transfer_attempt \<Rightarrow> transfer_attempt" where "k = (\<lambda>x. x\<lparr>
     at_startedAt := (if st = J_device_started then Some ob else at_startedAt x),
     at_committedAt := (if touched then possible else at_committedAt x),
     at_completedAt := (if st \<in> {J_failed, J_unknown} then Some ob else at_completedAt x),
     at_outcome := (if st = J_failed then Some ''failed'' else if st = J_unknown then Some ''unknown''
       else at_outcome x),
     at_errorCode := or_else_opt (rp_errorCode r) (at_errorCode x)\<rparr>)"
  have "same_core (set_attempt (at_id a) k (set_transfer (tr_id t) f d)) (report_rows now j a t r st ob possible d)" for d
    unfolding report_rows_def Let_def touched_def [symmetric] f_def [symmetric] k_def [symmetric]
    by (intro set_core same_core_more) simp
  then show thesis
    by (intro that [of f k]) (simp_all add: f_def k_def same_static_def)
qed

lemma transfer_status_of_report_simps:
  "st \<in> report_states \<Longrightarrow> open_status (transfer_status_of_report st x) \<longleftrightarrow> st \<noteq> J_failed"
  "st \<in> report_states \<Longrightarrow> terminal_transfer (transfer_status_of_report st x) \<longleftrightarrow>
    shouldReleaseDeviceLockAfterReport st"
  by (auto simp: report_states_def transfer_status_of_report_def open_status_def terminal_transfer_def
      shouldReleaseDeviceLockAfterReport_def)

lemma report_transfer_ok:
  assumes ok: "system_ok d" and l: "linked d j a t" and j: "lease_live (jb_state j)" "jb_device j = Some dev"
    and st: "st \<in> report_states"
    and h: "\<And>x. jb_id (h x) = jb_id x" "\<And>x. jb_sim (h x) = jb_sim x" "\<And>x. jb_device (h x) = jb_device x"
      "\<And>x. jb_state (h x) = st"
    and run: "updateTransferForReport now j a t r st ob possible (set_job (jb_id j) h d) = Inr d2"
  shows "system_ok (free_phone st dev (jb_id j) d2)"
proof -
  obtain f k where f: "\<And>x. same_static x (f x)" "tr_status (f t) = transfer_status_of_report st (tr_status t)"
    and k: "\<And>x. at_id (k x) = at_id x" "\<And>x. at_transfer (k x) = at_transfer x"
      "\<And>x. at_number (k x) = at_number x" "\<And>x. at_job (k x) = at_job x"
    and core: "\<And>e. same_core (set_attempt (at_id a) k (set_transfer (tr_id t) f e))
      (report_rows now j a t r st ob possible e)"
    using report_rows_tables [of t st a now j r ob possible] by metis
  let ?e = "set_job (jb_id j) h d"
  let ?r = "report_rows now j a t r st ob possible ?e"
  have rt: "transfers ?r = update_where (\<lambda>x. tr_id x = tr_id t) f (transfers d)" "sims ?r = sims d"
    "attempts ?r = update_where (\<lambda>x. at_id x = at_id a) k (attempts d)" "devices ?r = devices d"
    "jobs ?r = update_where (\<lambda>x. jb_id x = jb_id j) h (jobs d)" "same_ledger d ?r"
    using core [of ?e] by (auto simp: same_core_def same_ledger_def set_attempt_def set_transfer_def set_job_def)
  have jm: "j \<in> set (jobs d)" and t: "t \<in> set (transfers d)" "tr_id t = at_transfer a"
    and a: "a \<in> set (attempts d)" "at_job a = Some (jb_id j)" using l by (simp_all add: linked_def)
  note lf = linked_facts [OF ok l] and u = lease_live_unfinished [OF j(1)]
  have op: "open_status (tr_status t)" by (rule open_not_terminal [OF lf(4) [OF u]])
  have links: "same_links (attempts d) (attempts ?r)" unfolding rt by (rule same_links_update) (rule k)+
  let ?g = "\<lambda>s. s\<lparr>sim_reserved := sim_reserved s - physical_total t\<rparr>"
  have step: "status_step t (f t)" using f(1) op lf(2) by (simp add: status_step_def)
  note fo = transfer_status_of_report_simps [OF st, of "tr_status t", folded f(2)]
  have main: "system_ok (free_phone st dev (jb_id j) e)"
    if post: "post_step d t (f t) d1" and sl: "same_ledger d1 e"
      and e: "transfers e = transfers ?r" "attempts e = attempts ?r" "jobs e = jobs ?r" "devices e = devices d"
      and ss: "sims e = (if st = J_failed then update_where (\<lambda>s. sim_id s = jb_sim j) ?g (sims d) else sims d)"
    for d1 e
  proof -
    have fr: "frame_step d (free_phone st dev (jb_id j) e)"
      using report_frame(1) [OF ok jm j st h, of e] links by (simp add: e rt)
    have sims: "map (\<lambda>s. (sim_id s, sim_reserved s)) (sims e) = map (\<lambda>s. (sim_id s, sim_reserved s -
        (if freed t (f t) \<and> tr_sim t = Some (sim_id s) then physical_total t else 0))) (sims d)"
    proof (cases "st = J_failed")
      case True
      then have "freed t (f t)" using op fo(1) by (simp add: freed_def)
      from sims_freed [OF this lf(1), of ?g] True show ?thesis by (simp add: ss)
    next
      case False
      then have "\<not> freed t (f t)" using fo(1) by (simp add: freed_def)
      with False show ?thesis by (simp add: ss)
    qed
    have jd: "jobs_done d (jobs e) (at_transfer a)" if "terminal_transfer (tr_status (f t))"
      using report_frame(2) [OF ok jm j st h, of e, OF _ _ _ _ a lf(3) [OF u]] links that fo(2) by (simp add: e rt)
    show ?thesis
      by (rule system_ok_posted [where f = f, OF ok t(1) step post _ _ _ fr])
        (use sl sims jd t(2) in \<open>simp_all add: e rt\<close>)
  qed
  show ?thesis
  proof (cases "st = J_failed")
    case True
    from run True obtain e1 where e1: "release_reservation t ?r = Inr e1"
      and d2: "d2 = report_cases now j t r st possible (set_sim (jb_sim j) ?g e1)"
      by (auto simp: updateTransferForReport_def Let_def tx_simps)
    have "freed t (f t)" using op fo(1) True by (simp add: freed_def)
    note post = post_step_release [OF ok t(1) rt(6) e1 this]
    have "ledger_ok ?r" using ledger_ok_same [OF system_ok_parts(1) [OF ok] rt(6)] .
    note tab = ledger_frame_tables [OF release_frame [OF this e1]]
    have "same_core (set_sim (jb_sim j) ?g e1) d2" by (simp add: d2)
    then show ?thesis
      by (intro main [OF post]) (simp_all add: same_core_def same_ledger_def set_sim_def tab rt [unfolded True] True)
  next
    case False
    with run have d2: "d2 = report_cases now j t r st possible ?r"
      by (simp add: updateTransferForReport_def)
    have "\<not> freed t (f t)" using fo(1) False by (simp add: freed_def)
    note post = post_step_none [OF system_ok_parts(1) [OF ok] this]
    have "same_core ?r d2" by (simp add: d2)
    with rt(6) show ?thesis
      by (intro main [OF post]) (auto simp: same_core_def same_ledger_def rt False)
  qed
qed

lemma report_apply_ok:
  assumes ok: "system_ok d" and j: "j \<in> set (jobs d)" "lease_live (jb_state j)" "jb_device j = Some dev"
    and l: "\<And>a t. link = Some (a, t) \<Longrightarrow> linked d j a t"
    and st: "effective_state j (rp_state r) nd \<in> report_states"
    and run: "report_apply now dev j link r ctx nd ob d = Inr (ref, d')"
  shows "system_ok d'"
proof -
  define st where "st = effective_state j (rp_state r) nd"
  define possible where "possible = (if money_moving (jb_type j) \<and> st = J_unknown \<and> jb_state j \<noteq> J_leased
            then Some (or_else (jb_committedAt j) (or_else (jb_startedAt j) ob))
            else if st = J_committed then Some ob else jb_committedAt j)"
  define h :: "device_job \<Rightarrow> device_job" where "h = (\<lambda>x. x\<lparr>jb_state := st,
            jb_startedAt := (if st = J_device_started then Some ob else jb_startedAt j),
            jb_committedAt := possible,
            jb_completedAt := (if st \<in> {J_succeeded, J_failed, J_unknown, J_cancelled}
              then Some ob else jb_completedAt x),
            jb_screen := or_else_opt (ussdDiagnosticLabel (rp_screen r)) (jb_screen x),
            jb_errorCode := or_else_opt (rp_errorCode r) (jb_errorCode x)\<rparr>)"
  from run obtain d2 where
    up: "(case link of None \<Rightarrow> Inr (set_job (jb_id j) h d)
         | Some (a, t) \<Rightarrow> updateTransferForReport now j a t r st ob possible (set_job (jb_id j) h d)) = Inr d2"
    and d': "d' = persistSpoolStatusOutcome now j link ctx nd (free_phone st dev (jb_id j) d2)"
    unfolding report_apply_def Let_def st_def [symmetric] possible_def [symmetric] h_def [symmetric]
      free_phone_def by (auto simp: tx_simps)
  have sth: "st \<in> report_states" using st by (simp add: st_def)
  have h: "jb_id (h x) = jb_id x" "jb_sim (h x) = jb_sim x" "jb_device (h x) = jb_device x" "jb_state (h x) = st" for x
    by (simp_all add: h_def)
  have "system_ok (free_phone st dev (jb_id j) d2)"
  proof (cases link)
    case None
    with up have d2: "d2 = set_job (jb_id j) h d" by simp
    have "frame_step d (free_phone st dev (jb_id j) d2)"
      by (rule report_frame(1) [OF ok j sth h]) (simp_all add: d2)
    then show ?thesis by (intro system_ok_idle [OF ok]) (simp_all add: d2)
  next
    case (Some p)
    obtain a t where p: "p = (a, t)" by fastforce
    from up Some p have "updateTransferForReport now j a t r st ob possible (set_job (jb_id j) h d) = Inr d2" by simp
    from report_transfer_ok [OF ok l j(2,3) sth h this] Some p show ?thesis by blast
  qed
  then show ?thesis by (rule system_ok_same_core) (simp add: d')
qed

lemma allowed_from_live: "st \<in> set (allowedTransitions s) \<Longrightarrow> lease_live s"
  by (cases s) (simp_all add: lease_live_def)

lemma report_job_ok:
  assumes ok: "system_ok d" and j: "j \<in> set (jobs d)" "jb_device j = Some dev"
    and run: "report_job now dev j r ctx d = Inr (ref, invalid, d')"
  shows "system_ok d'"
proof -
  define link where "link = job_link d (jb_id j)"
  define nd where "nd = (case ctx of None \<Rightarrow> No_disposition
            | Some c \<Rightarrow> classifyPrecommitNameDisposition (jb_state j) (jb_committedAt j) (rp_state r)
                (sc_errorCode c) (map_option (\<lambda>(a, t). tr_expectedName t) link)
                (sc_expectedName c) (sc_providerName c))"
  obtain ob inv where b: "boundedJobObservedAt (rp_observedAt r) now (jb_createdAt j) = (ob, inv)" by fastforce
  define d1 where "d1 = (if inv then quarantine_both dev (jb_sim j) d else d)"
  have ok1: "system_ok d1" using ok by (simp add: d1_def quarantine_both_ok)
  have lk: "linked d1 j a t" if "link = Some (a, t)" for a t
    using job_link_linked [OF that [unfolded link_def] j(1)] by (simp add: d1_def linked_def)
  have jm: "j \<in> set (jobs d1)" using j(1) by (simp add: d1_def)
  have "d' = persistSpoolStatusOutcome now j link ctx nd d1 \<or>
      (\<exists>a t. link = Some (a, t) \<and> d' = persistSpoolStatusOutcome now j link ctx nd (report_late j a t r ob d1)) \<or>
      (rp_state r \<in> set (allowedTransitions (jb_state j)) \<and>
       (\<exists>ref. report_apply now dev j link r ctx nd ob d1 = Inr (ref, d')))"
    using run unfolding report_job_def Let_def link_def [symmetric] nd_def [symmetric] b split d1_def [symmetric]
    by (auto simp: tx_simps split: if_splits option.splits)
  then show ?thesis
  proof (elim disjE exE conjE)
    assume "d' = persistSpoolStatusOutcome now j link ctx nd d1"
    then show ?thesis by (auto intro: system_ok_same_core [OF ok1])
  next
    fix a t assume l: "link = Some (a, t)"
      and e: "d' = persistSpoolStatusOutcome now j link ctx nd (report_late j a t r ob d1)"
    show ?thesis unfolding e
      by (rule system_ok_same_core [OF report_late_ok [OF ok1 lk [OF l], where r = r and observedAt = ob] same_core_persist]) simp
  next
    fix ref assume al: "rp_state r \<in> set (allowedTransitions (jb_state j))"
      and ap: "report_apply now dev j link r ctx nd ob d1 = Inr (ref, d')"
    have "nd \<noteq> No_disposition \<longrightarrow> rp_state r \<in> {J_cancelled, J_failed}"
      using disposition_reported by (auto simp: nd_def split: option.splits)
    from effective_state_cases [OF al this] show ?thesis
      by (intro report_apply_ok [OF ok1 jm allowed_from_live [OF al] j(2) lk _ ap])
        (simp_all add: report_states_def)
  qed
qed

lemma report_ok:
  assumes ok: "system_ok d" and run: "report now dev jid r ctx d = Inr (ref, invalid, d')"
  shows "system_ok d'"
proof -
  from run obtain j where fj: "find_job d jid = Some j" and dv: "jb_device j = Some dev"
    and c: "d' = d \<or> (\<exists>ctx'. report_job now dev j r ctx' d = Inr (ref, invalid, d'))"
    by (auto simp: report_def split: option.splits if_splits inbox_disposition.splits)
  from c show ?thesis using report_job_ok [OF ok conjunct1 [OF find_job_mem [OF fj]] dv] ok by auto
qed

lemma reportFromSpool_ok:
  "system_ok d \<Longrightarrow> reportFromSpool now dev jid fence st ob c d = Inr (ref, invalid, d') \<Longrightarrow> system_ok d'"
  by (auto simp: reportFromSpool_def intro: report_ok)

section \<open>Enrolment and heartbeat\<close>

lemma set_device_ok:
  assumes "system_ok d" and "\<And>v. dv_id (f v) = dv_id v"
    and "\<And>v. dv_activeJob (f v) = dv_activeJob v \<or> dv_activeJob (f v) = None"
  shows "system_ok (set_device i f d)"
  unfolding set_device_def
  by (rule system_ok_devices [OF assms(1)]) (use assms in \<open>auto simp: dev_step_def intro!: list_all2_update_where\<close>)

lemma set_sim_ok:
  assumes "system_ok d" and "\<And>s. sim_id (f s) = sim_id s" and "\<And>s. sim_reserved (f s) = sim_reserved s"
  shows "system_ok (set_sim i f d)"
  unfolding set_sim_def by (rule system_ok_sims [OF assms(1) same_holds_update [OF assms(2,3)]])

lemma unbind_hardware_ok:
  assumes "system_ok d"
  shows "system_ok (unbind_hardware serial keep d)"
proof (cases "find (\<lambda>v. dv_serial v = Some serial \<and> dv_id v \<noteq> keep) (devices d)")
  case (Some v)
  let ?d = "set_device (dv_id v) (\<lambda>x. x\<lparr>dv_serial := None, dv_authTokenHash := None,
      dv_certFingerprint := None, dv_activeJob := None, dv_status := Dev_offline\<rparr>) d"
  have "system_ok ?d" by (rule set_device_ok [OF assms]) simp_all
  then have "system_ok (?d\<lparr>sims := update_where (\<lambda>s. sim_device s = dv_id v)
      (\<lambda>s. s\<lparr>sim_status := Sim_pending\<rparr>) (sims ?d)\<rparr>)"
    by (rule system_ok_sims) (rule same_holds_update, simp_all)
  with Some show ?thesis by (simp add: unbind_hardware_def)
qed (simp add: unbind_hardware_def assms)

lemma activate_ok_aux:
  assumes ok: "system_ok d" and f: "\<And>v. dv_id (f v) = dv_id v" "\<And>v. dv_activeJob (f v) = dv_activeJob v"
  shows "system_ok (set_device i f ((unbind_hardware serial keep d)\<lparr>activations := ac\<rparr>))"
proof -
  have "system_ok ((unbind_hardware serial keep d)\<lparr>activations := ac\<rparr>)"
    by (rule system_ok_same_core [OF unbind_hardware_ok [OF ok, of serial keep]]) simp
  then show ?thesis by (rule set_device_ok) (simp_all add: f)
qed

lemma activate_ok:
  assumes ok: "system_ok d" and run: "activate now input token cert d = Inr (i, ss, d')"
  shows "system_ok d'"
  using run unfolding activate_def Let_def
  by (auto split: option.splits if_splits intro!: activate_ok_aux [OF ok])

lemma heartbeat_sim_ok: "system_ok (snd p) \<Longrightarrow> system_ok (snd (heartbeat_sim dev i p))"
  by (auto simp: heartbeat_sim_def split: prod.splits option.splits intro!: set_sim_ok)

lemma heartbeat_qualification_ok:
  assumes "system_ok d"
  shows "system_ok (heartbeat_qualification now dev h d)"
proof -
  have c: "same_core d (check_result now dev run p e)" if "same_core d e" for run p e
    using that by (auto simp: check_result_def split: prod.splits)
  show ?thesis
    by (rule system_ok_same_core [OF assms]) (auto simp: heartbeat_qualification_def c split: option.splits)
qed

lemma heartbeat_ok:
  assumes ok: "system_ok d" and run: "heartbeat now dev h d = Inr d'"
  shows "system_ok d'"
proof -
  from run obtain q q' d1 f where s: "fold (heartbeat_sim dev) (hb_sims h) (q, d) = (q', d1)"
    and d': "d' = set_device dev f (heartbeat_qualification now dev h d1)"
    and f: "\<And>v. dv_id (f v) = dv_id v" "\<And>v. dv_activeJob (f v) = dv_activeJob v"
    by (auto simp: heartbeat_def Let_def split: option.splits if_splits prod.splits)
  have "system_ok (snd (fold (heartbeat_sim dev) (hb_sims h) (q, d)))"
    by (rule fold_invariant [where P = "\<lambda>p. system_ok (snd p)"]) (simp_all add: ok heartbeat_sim_ok)
  then have "system_ok d1" by (simp add: s)
  then show ?thesis
    unfolding d' by (rule set_device_ok [OF heartbeat_qualification_ok]) (simp_all add: f)
qed

end
