(* ===== verification/SmsSafety.thy ===== *)
theory SmsSafety
  imports JobSafety
begin

text \<open>
  The transaction of \<open>SmsService.ingest\<close> keeps the system invariant: a balance message only moves the
  wallet's balance and the lease it answers, an incoming transfer credits a deposit or the suspense
  account (neither of which touches the reserved funds), and an outgoing transfer settles the
  transfer it proves, restoring its reservation first when staff had released it.
\<close>

declare split_paired_All [simp del] split_paired_Ex [simp del]

section \<open>Posts that reserve nothing\<close>

lemma system_ok_other_post:
  assumes ok: "system_ok d" and p: "posted_as st i \<delta> d d'" and st: "\<not> hold_source st"
    and \<delta>: "\<And>a. \<delta> (key_of a Reserved) = 0"
  shows "system_ok d'"
proof -
  let ?e = "d\<lparr>next_id := next_id d'\<rparr>"
  from p have fl: "ledger_frame d d'" and le: "ledger_ok d'" by (simp_all add: posted_as_def)
  note tab = ledger_frame_tables [OF fl]
  have e: "system_ok ?e"
    by (rule system_ok_idle [OF ok]) (simp_all add: same_ledger_def tab frame_step_def list_all2_same)
  have js: "find_journal d' s k = None \<longleftrightarrow> find_journal ?e s k = None" if "hold_source s" for s k
    using p st that unfolding posted_as_def by (auto simp: find_journal_def)
  have bal: "balance_of d' (key_of a Reserved) = balance_of ?e (key_of a Reserved)" for a
    using p \<delta> unfolding posted_as_def by (simp add: balance_of_def find_account_def)
  note parts = system_ok_parts [OF e]
  have "holds_ok d'" using parts(2) bal by (simp add: holds_ok_def ledger_held_def sim_held_def tab)
  moreover have "rows_ok d'" using parts(3) by (simp add: rows_ok_def tab)
  moreover have "posts_ok d'"
  proof -
    have i: "i < next_id d'" if "hold_source s" "find_journal d' s i \<noteq> None" for s i
      using parts(4) that js [OF that(1)] unfolding posts_ok_def by auto
    have t: "(release_source s \<longrightarrow> \<not> open_status (tr_status t)) \<and> (settle_source s \<longrightarrow> tr_status t = T_success)"
      if "t \<in> set (transfers d)" "find_journal d' s (tr_id t) \<noteq> None" for s t
    proof (cases "hold_source s")
      case True
      with parts(4) that js [OF True] show ?thesis unfolding posts_ok_def by auto
    qed (simp add: hold_source_def)
    show ?thesis unfolding posts_ok_def tab using i t by blast
  qed
  moreover have "attempts_ok d'" using parts(5) by (simp add: attempts_ok_def tab)
  moreover have "jobs_ok d'" using parts(6) by (simp add: jobs_ok_def latest_attempt_def tab)
  moreover have "locks_ok d'" using parts(7) by (simp add: locks_ok_def tab)
  ultimately show ?thesis using le by (simp add: system_ok_def)
qed

lemma other_sources: "\<not> hold_source ''deposit''" "\<not> hold_source ''receipt_suspense''"
    "\<not> hold_source ''suspense_resolution''"
  by (simp_all add: hold_source_def release_source_def settle_source_def reserve_source_def)

lemma other_op_ok:
  assumes "system_ok d" and "run_ledger_op now p d = Inr d'" and "\<not> hold_source (fst (op_source p))"
    and "\<And>a. op_delta p (key_of a Reserved) = 0"
  shows "system_ok d'"
  using system_ok_other_post [OF assms(1) run_ledger_op_effect [OF system_ok_parts(1) [OF assms(1)] assms(2)] assms(3,4)] .

lemma creditDeposit_ok: "system_ok d \<Longrightarrow> creditDeposit a i m d = Inr d' \<Longrightarrow> system_ok d'"
  by (rule other_op_ok [where p = "Credit_deposit a i m"]) (simp_all add: other_sources at_def key_of_def)

lemma moveReceiptToSuspense_ok:
  "system_ok d \<Longrightarrow> moveReceiptToSuspense a i m d = Inr d' \<Longrightarrow> system_ok d'"
  by (rule other_op_ok [where p = "Receipt_to_suspense a i m"]) (simp_all add: other_sources at_def key_of_def)

section \<open>Wallet counters and cases\<close>

lemma apply_mutation_fields [simp]:
  "sim_id (apply_mutation m s) = sim_id s" "sim_reserved (apply_mutation m s) = sim_reserved s"
  by (simp_all add: apply_mutation_def split: option.split prod.split)

lemma updateWalletCounters_ok:
  assumes "system_ok d" and "\<And>s. sim_id (g s) = sim_id s" and "\<And>s. sim_reserved (g s) = sim_reserved s"
  shows "system_ok (updateWalletCounters now sim x y g d)"
  unfolding updateWalletCounters_def by (rule set_sim_ok [OF assms(1)]) (simp_all add: assms(2,3))

lemma receipt_case_core [simp]:
  "same_core d d' \<Longrightarrow> same_core d (snd (receipt_case now m ty r e d'))"
  by (simp add: receipt_case_def)

lemma count_received_ok:
  "system_ok d \<Longrightarrow> count_received now sim occ prov m d = Inr d' \<Longrightarrow> system_ok d'"
  by (auto simp: count_received_def split: option.splits intro!: updateWalletCounters_ok)

section \<open>Balance messages\<close>

lemma finish_balance_job_ok:
  assumes ok: "system_ok d" and j: "j \<in> set (jobs d)" "jb_device j = Some dev"
  shows "system_ok (finish_balance_job observedAt j d)"
proof -
  let ?h = "\<lambda>x. x\<lparr>jb_state := J_succeeded, jb_completedAt := Some observedAt\<rparr>"
  let ?e = "finish_balance_job observedAt j d"
  have e: "devices ?e = update_where (\<lambda>v. dv_id v = dev \<and> dv_activeJob v = Some (jb_id j))
      (\<lambda>v. v\<lparr>dv_activeJob := None\<rparr>) (devices d)"
    "jobs ?e = update_where (\<lambda>x. jb_id x = jb_id j) ?h (jobs d)" "attempts ?e = attempts d"
    "transfers ?e = transfers d" "sims ?e = sims d" "same_ledger d ?e"
    by (simp_all add: finish_balance_job_def j Let_def)
  have un: "unlocked ?e (jb_id j)" by (rule drop_lock [OF ok j e(1)])
  have dv: "list_all2 dev_step (devices d) (devices ?e)"
    unfolding e by (rule list_all2_update_where) (simp_all add: dev_step_def)
  have "frame_step d ?e"
    by (rule finish_frame(1) [OF ok _ dv e(2) _ _ _ un]) (simp_all add: e unfinished_job_def)
  then show ?thesis by (intro system_ok_idle [OF ok]) (simp_all add: e)
qed

lemma balance_lease_facts:
  assumes "j \<in> set (correlatableBalanceQueryLeases (balance_query_leases sim t d) t)"
  shows "j \<in> set (jobs d)" and "\<exists>dev. jb_device j = Some dev"
  using assms by (auto simp: correlatableBalanceQueryLeases_def balance_query_leases_def dest!: in_set_takeD)

lemma applyBalance_ok:
  assumes ok: "system_ok d" and run: "applyBalance now sim receipt sender p t d = Inr (st, c, d')"
  shows "system_ok d'"
proof -
  define cs where "cs = (if isTrustedTelebirrSmsSender sender
      then correlatableBalanceQueryLeases (balance_query_leases sim t d) t else [])"
  let ?d = "\<lambda>j. finish_balance_job t j (set_sim sim (refreshed_wallet t p) (d\<lparr>snapshots := snapshots d @
      [\<lparr>bs_sim = sim, bs_main = bal_main p, bs_incentive = bal_incentive p, bs_fuel = bal_fuel p,
        bs_pocket = bal_pocket p, bs_observedAt = t\<rparr>]\<rparr>))"
  have "same_core d d' \<or> (\<exists>j. cs = [j] \<and> d' = ?d j)"
    using run unfolding applyBalance_def Let_def cs_def [symmetric]
    by (auto simp: uncorrelated_balance_def stale_balance_def receipt_case_def Let_def
        split: list.splits option.splits if_splits)
  then show ?thesis
  proof (elim disjE exE conjE)
    assume "same_core d d'"
    then show ?thesis by (rule system_ok_same_core [OF ok])
  next
    fix j assume c: "cs = [j]" and d': "d' = ?d j"
    have "j \<in> set (correlatableBalanceQueryLeases (balance_query_leases sim t d) t)"
      using c by (auto simp: cs_def split: if_splits)
    from balance_lease_facts [OF this] obtain dev where j: "j \<in> set (jobs d)" "jb_device j = Some dev" by blast
    let ?e = "d\<lparr>snapshots := snapshots d @ [\<lparr>bs_sim = sim, bs_main = bal_main p, bs_incentive = bal_incentive p,
        bs_fuel = bal_fuel p, bs_pocket = bal_pocket p, bs_observedAt = t\<rparr>]\<rparr>"
    have "system_ok ?e" by (rule system_ok_same_core [OF ok]) simp
    then have "system_ok (set_sim sim (refreshed_wallet t p) ?e)"
      by (rule set_sim_ok) (simp_all add: refreshed_wallet_def)
    then show ?thesis unfolding d' by (rule finish_balance_job_ok) (simp_all add: j)
  qed
qed

section \<open>Incoming transfers\<close>

lemma suspend_incoming_ok:
  assumes ok: "system_ok d" and run: "suspend_incoming now system sim receipt p occ cands strong d = Inr d'"
  shows "system_ok d'"
proof -
  define pot where "pot = filter (\<lambda>x. matchesMaskedEthiopianPhone (dp_customerPhone x) (in_prefix p)
            (in_suffix p)) cands"
  define d1 where "d1 = (if single_owner pot then d else snd (upsert_config system d))"
  have ok1: "system_ok d1"
    using ok upsert_config_ok [OF ok, of system "fst (upsert_config system d)" "snd (upsert_config system d)"]
    by (simp add: d1_def)
  from run obtain d2 d3 where d2: "moveReceiptToSuspense (suspense_auth system pot) receipt (in_amount p) d1 = Inr d2"
    and d3: "count_received now sim occ (in_balance p) (in_amount p) d2 = Inr d3" and c: "same_core d3 d'"
    unfolding suspend_incoming_def Let_def pot_def [symmetric] d1_def [symmetric]
    by (auto simp: tx_simps)
  show ?thesis
    by (rule system_ok_same_core [OF count_received_ok [OF moveReceiptToSuspense_ok [OF ok1 d2] d3] c])
qed

lemma credit_incoming_ok:
  assumes ok: "system_ok d" and run: "credit_incoming now sim receipt p occ x d = Inr d'"
  shows "system_ok d'"
proof -
  from run obtain d1 ds d3 where d1: "creditDeposit (dep_auth x) (dp_id x) (in_amount p) d = Inr d1"
    and d3: "count_received now sim occ (in_balance p) (in_amount p) (d1\<lparr>deposits := ds\<rparr>) = Inr d3"
    and c3: "same_core d3 d'"
    by (auto simp: credit_incoming_def Let_def tx_simps split: if_splits)
  have "system_ok (d1\<lparr>deposits := ds\<rparr>)"
    by (rule system_ok_same_core [OF creditDeposit_ok [OF ok d1]]) simp
  from count_received_ok [OF this d3] show ?thesis using c3 by (rule system_ok_same_core)
qed

lemma matchIncoming_ok:
  "system_ok d \<Longrightarrow> matchIncoming now system sim receipt p occ d = Inr (ref, d') \<Longrightarrow> system_ok d'"
  by (auto simp: matchIncoming_def Let_def tx_simps split: list.splits
      intro: credit_incoming_ok suspend_incoming_ok)

section \<open>Outgoing transfers\<close>

lemma payout_candidate_facts:
  assumes "filter (payout_match p) (payout_candidates sim p occ d) = [t]"
  shows "t \<in> set (transfers d)" and "tr_sim t = Some sim"
    and "tr_status t \<in> {T_committed, T_provider_pending, T_unknown, T_failed, T_success}"
    and "tr_status t = T_success \<Longrightarrow> tr_providerTx t = Some (out_tx p)"
proof -
  from assms have "t \<in> set (filter (payout_match p) (payout_candidates sim p occ d))" by simp
  then show "t \<in> set (transfers d)" "tr_sim t = Some sim"
    "tr_status t \<in> {T_committed, T_provider_pending, T_unknown, T_failed, T_success}"
    "tr_status t = T_success \<Longrightarrow> tr_providerTx t = Some (out_tx p)"
    by (auto simp: payout_candidates_def payout_match_def dest!: in_set_takeD)
qed

lemma newest_attempt_same: "attempts e = attempts d \<Longrightarrow> newest_attempt e tid = newest_attempt d tid"
  by (simp add: newest_attempt_def)

lemma close_payout_tables:
  "jobs (close_payout_job now tid e) =
     update_opt (newest_job e tid) (\<lambda>y. y\<lparr>jb_state := J_succeeded, jb_completedAt := Some now\<rparr>) (jobs e)"
  "same_links (attempts e) (attempts (close_payout_job now tid e))"
  "list_all2 dev_step (devices e) (devices (close_payout_job now tid e))"
  "transfers (close_payout_job now tid e) = transfers e" "sims (close_payout_job now tid e) = sims e"
  "same_ledger d e \<Longrightarrow> same_ledger d (close_payout_job now tid e)"
  unfolding close_payout_job_def newest_job_def update_opt_def Let_def
  by (auto simp: dev_step_def split: option.split intro!: list_all2_update_where)

lemma close_payout_unlocked:
  assumes ok: "system_ok d" and j: "j \<in> set (jobs d)" and n: "newest_job d tid = Some (jb_id j)"
    and e: "attempts e = attempts d" "jobs e = jobs d" "devices e = devices d"
  shows "unlocked (close_payout_job now tid e) (jb_id j)"
proof -
  let ?x = "close_payout_job now tid e" and ?h = "\<lambda>y. y\<lparr>jb_state := J_succeeded, jb_completedAt := Some now\<rparr>"
  from n obtain a where a: "newest_attempt d tid = Some a" "at_job a = Some (jb_id j)"
    by (auto simp: newest_job_def split: option.splits)
  have fj: "find_job (set_job (jb_id j) ?h e) (jb_id j) = Some (?h j)"
    using find_job_eq [OF system_ok_parts(3) [OF ok] j]
    by (simp add: find_job_def set_job_def e find_update_where)
  show ?thesis
  proof (cases "jb_device j")
    case None
    have "unlocked d (jb_id j)"
      using system_ok_parts(7) [OF ok] j None unfolding locks_ok_def unlocked_def by auto
    moreover have "devices ?x = devices d"
      using fj None by (simp add: close_payout_job_def newest_attempt_same [OF e(1)] a Let_def e)
    ultimately show ?thesis by (simp add: unlocked_def)
  next
    case (Some dev)
    have "devices ?x = update_where (\<lambda>v. dv_id v = dev \<and> dv_activeJob v = Some (jb_id j))
       (\<lambda>v. v\<lparr>dv_activeJob := None\<rparr>) (devices d)"
      using fj Some by (simp add: close_payout_job_def newest_attempt_same [OF e(1)] a Let_def e)
    then show ?thesis by (rule drop_lock [OF ok j Some]) simp
  qed
qed

lemma close_payout_core [intro]:
  assumes "same_core d e"
  shows "same_core (close_payout_job now tid d) (close_payout_job now tid e)"
proof -
  from assms have "newest_attempt e tid = newest_attempt d tid" "jobs e = jobs d" "devices e = devices d"
    by (simp_all add: newest_attempt_def same_core_def)
  moreover have "find_job (set_job i h e) i = find_job (set_job i h d) i" for i h
    using \<open>jobs e = jobs d\<close> by (simp add: find_job_def set_job_def)
  ultimately show ?thesis
    using assms unfolding close_payout_job_def Let_def
    by (auto simp: same_core_def same_ledger_def set_job_def set_attempt_def split: option.split)
qed

lemma settle_late_frame:
  assumes ok: "ledger_ok d" and run: "restore_reservation t d = Inr d1"
  shows "ledger_frame d d1" and "ledger_ok d1"
  by (rule restore_posted [OF ok run], simp add: posted_as_def)+

text \<open>The transfer is settled from its reservation, which a released one gets back first.\<close>

lemma payout_post:
  assumes ok: "system_ok d" and t: "t \<in> set (transfers d)"
    and st: "tr_status t \<in> {T_committed, T_provider_pending, T_unknown, T_failed}"
    and d1: "(if tr_status t = T_failed then map_outcome (late_success_case now receipt p t) (restore_reservation t d)
      else Inr d) = Inr d1"
    and d2: "settle_transfer now t fee d1 = Inr d2" and st': "tr_status t' = T_success"
  shows "post_step d t t' d2" and "ledger_frame d d2"
proof -
  note l = system_ok_parts(1) [OF ok]
  have "post_step d t t' d2 \<and> ledger_frame d d2"
  proof (cases "tr_status t = T_failed")
    case True
    with d1 obtain d0 where d0: "restore_reservation t d = Inr d0" and e: "d1 = late_success_case now receipt p t d0"
      by (auto simp: tx_simps)
    have c: "same_core d0 d1" by (simp add: e)
    have f: "ledger_frame d0 d1"
      by (cases d0) (simp add: e late_success_case_def open_case_def ledger_frame_def Let_def)
    note f0 = settle_late_frame [OF l d0]
    have "same_ledger d0 d1" using c by (simp add: same_core_def)
    from settle_frame [OF ledger_ok_same [OF f0(2) this] d2]
    have "ledger_frame d d2" by (rule ledger_frame_trans [OF ledger_frame_trans [OF f0(1) f]])
    with post_step_late [OF ok t d0 c d2 f True st'] show ?thesis by blast
  next
    case False
    with d1 have e: "d1 = d" by simp
    have "open_status (tr_status t)" using st False by (auto simp: open_status_def)
    from post_step_settle [OF ok t d2 [unfolded e] this st'] settle_frame [OF l d2 [unfolded e]]
    show ?thesis by blast
  qed
  then show "post_step d t t' d2" "ledger_frame d d2" by simp_all
qed

lemma payout_frame:
  assumes ok: "system_ok d" and e: "attempts e = attempts d" "jobs e = jobs d" "devices e = devices d"
  shows "frame_step d (close_payout_job now tid e)"
    and "jobs_done d (jobs (close_payout_job now tid e)) tid"
proof -
  let ?x = "close_payout_job now tid e"
  have n: "newest_job e tid = newest_job d tid" by (simp add: newest_job_def newest_attempt_same [OF e(1)])
  have idle: "\<forall>v \<in> set (devices ?x). dv_activeJob v \<noteq> Some (jb_id j)"
    if "j \<in> set (jobs d)" "newest_job d tid = Some (jb_id j)" for j
    using close_payout_unlocked [OF ok that e] by (simp add: unlocked_def)
  note c = close_frame [OF ok, where d' = ?x and tid = tid and
      h = "\<lambda>y. y\<lparr>jb_state := J_succeeded, jb_completedAt := Some now\<rparr>"]
  show "frame_step d ?x"
    by (rule c(1)) (use close_payout_tables(1-3) [where now = now and tid = tid and e = e] in \<open>simp_all add: e n unfinished_job_def idle\<close>)
  show "jobs_done d (jobs ?x) tid"
    by (rule c(2)) (use close_payout_tables(1-3) [where now = now and tid = tid and e = e] in \<open>simp_all add: e n unfinished_job_def idle\<close>)
qed

lemma matched_payout_parts:
  assumes run: "matched_payout now sim receipt p occ t d = Inr d'"
  obtains d1 d2 g where
    "(if tr_status t = T_failed then map_outcome (late_success_case now receipt p t) (restore_reservation t d)
      else Inr d) = Inr d1"
    and "settle_transfer now t (out_fee p + out_vat p) d1 = Inr d2"
    and "\<forall>s. sim_id (g s) = sim_id s \<and> sim_reserved (g s) = sim_reserved s -
      (if tr_status t = T_failed then 0 else physical_total t)"
    and "same_core (close_payout_job now (tr_id t) (set_sim sim g
        (credit_treasury t (set_transfer (tr_id t) (payout_success now p t) d2)))) d'"
proof -
  let ?fee = "out_fee p + out_vat p"
  let ?m = "\<lambda>s. transactionBalanceMutationForWallet s occ (out_balance p) (tr_amount t + ?fee) Decrement"
  let ?data = "\<lambda>s w. apply_mutation (?m s) (if tr_status t = T_failed then w
      else w\<lparr>sim_reserved := sim_reserved w - physical_total t\<rparr>)"
  let ?e = "\<lambda>d2. credit_treasury t (set_transfer (tr_id t) (payout_success now p t) d2)"
  from run obtain d1 d2 s where
    d1: "(if tr_status t = T_failed then map_outcome (late_success_case now receipt p t) (restore_reservation t d)
      else Inr d) = Inr d1"
    and d2: "settle_transfer now t ?fee d1 = Inr d2"
    and d': "d' = update_linked_sweep now (tr_id t) (tr_reference t) O_success (update_linked_settlement now (tr_id t)
      O_success (emit_transfer now t ''success'' T_success (close_payout_job now (tr_id t)
        (updateWalletCounters now sim (tr_amount t + ?fee) 0 (?data s) (?e d2)))))"
    unfolding matched_payout_def Let_def and_then_Inr_iff by (auto split: if_splits option.splits)
  have "same_core (close_payout_job now (tr_id t) (updateWalletCounters now sim (tr_amount t + ?fee) 0 (?data s) (?e d2))) d'"
    by (simp add: d')
  then show thesis
    unfolding updateWalletCounters_def by (intro that [OF d1 d2 _ ]) auto
qed

lemma matched_payout_ok:
  assumes ok: "system_ok d" and t: "t \<in> set (transfers d)" and sim: "tr_sim t = Some sim"
    and st: "tr_status t \<in> {T_committed, T_provider_pending, T_unknown, T_failed}"
    and run: "matched_payout now sim receipt p occ t d = Inr d'"
  shows "system_ok d'"
proof -
  let ?f = "payout_success now p t" and ?fee = "out_fee p + out_vat p"
  from run obtain d1 d2 g where
    d1: "(if tr_status t = T_failed then map_outcome (late_success_case now receipt p t) (restore_reservation t d)
      else Inr d) = Inr d1"
    and d2: "settle_transfer now t ?fee d1 = Inr d2"
    and g: "\<forall>s. sim_id (g s) = sim_id s \<and> sim_reserved (g s) = sim_reserved s -
      (if tr_status t = T_failed then 0 else physical_total t)"
    and rest: "same_core (close_payout_job now (tr_id t) (set_sim sim g
        (credit_treasury t (set_transfer (tr_id t) ?f d2)))) d'"
    by (rule matched_payout_parts)
  let ?e = "set_sim sim g (set_transfer (tr_id t) ?f d2)" and ?x = "close_payout_job now (tr_id t)"
  have stf: "tr_status (?f t) = T_success" by (simp add: payout_success_def)
  note post = payout_post [OF ok t st d1 d2 stf]
  note tab = ledger_frame_tables [OF post(2)]
  have step: "status_step t (?f t)"
    using st by (auto simp: status_step_def same_static_def payout_success_def open_status_def)
  have held: "map (\<lambda>s. (sim_id s, sim_reserved s)) (update_where (\<lambda>s. sim_id s = sim) g (sims d)) =
    map (\<lambda>s. (sim_id s, sim_reserved s - (if freed t (?f t) \<and> tr_sim t = Some (sim_id s)
      then physical_total t else 0))) (sims d)"
  proof (cases "tr_status t = T_failed")
    case True
    then have "\<not> freed t (?f t)" by (simp add: freed_def open_status_def)
    then show ?thesis by (rule sims_kept) (rule same_holds_update, simp_all add: g True)
  next
    case False
    have "freed t (?f t)" using st False stf by (auto simp: freed_def open_status_def)
    then show ?thesis by (rule sims_freed [OF _ sim]) (simp_all add: g False)
  qed
  have e: "attempts ?e = attempts d" "jobs ?e = jobs d" "devices ?e = devices d" "sims (?x ?e) =
      update_where (\<lambda>s. sim_id s = sim) g (sims d)"
    "transfers (?x ?e) = update_where (\<lambda>x. tr_id x = tr_id t) ?f (transfers d)" "same_ledger d2 (?x ?e)"
    by (simp_all add: close_payout_tables(4-6) tab)
  note frame = payout_frame [OF ok e(1-3), where tid = "tr_id t" and now = now]
  have main: "system_ok (?x ?e)"
    by (rule system_ok_posted [where f = ?f, OF ok t step post(1) e(6,5) held [folded e(4)] frame(1) disjI2 [OF frame(2)]])
  have "same_core (?x ?e) (?x (set_sim sim g (credit_treasury t (set_transfer (tr_id t) ?f d2))))"
    by (intro close_payout_core set_core) simp
  from same_core_trans [OF this rest] show ?thesis by (rule system_ok_same_core [OF main])
qed

lemma unmatched_payout_ok:
  assumes ok: "system_ok d" and run: "unmatched_payout now sim receipt p occ cands ms d = Inr (st, c, d')"
  shows "system_ok d'"
proof -
  let ?x = "out_amount p + out_fee p + out_vat p"
  let ?m = "\<lambda>s. transactionBalanceMutationForWallet s occ (out_balance p) ?x Decrement"
  let ?e = "\<lambda>s. updateWalletCounters now sim ?x 0 (\<lambda>w. apply_mutation (?m s) (w\<lparr>sim_status := Sim_quarantined\<rparr>)) d"
  from run obtain s where s: "find_sim d sim = Some s"
    by (auto simp: unmatched_payout_def split: option.splits)
  from run have c: "same_core (?e s) d'"
    unfolding unmatched_payout_def Let_def receipt_case_def s by auto
  have "system_ok (?e s)" by (rule updateWalletCounters_ok [OF ok]) simp_all
  then show ?thesis using c by (rule system_ok_same_core)
qed

lemma matchOutgoing_ok:
  assumes ok: "system_ok d" and run: "matchOutgoing now sim receipt p received d = Inr (r, d')"
  shows "system_ok d'"
proof -
  define occ where "occ = effectiveProviderOccurredAt (out_occurredAt p) received"
  define cs where "cs = payout_candidates sim p occ d"
  have "d' = d \<or> (\<exists>t. filter (payout_match p) cs = [t] \<and>
        \<not> (tr_status t = T_success \<and> tr_providerTx t = Some (out_tx p)) \<and>
        matched_payout now sim receipt p occ t d = Inr d') \<or>
      (\<exists>ms st c. unmatched_payout now sim receipt p occ cs ms d = Inr (st, c, d'))"
    using run unfolding matchOutgoing_def Let_def occ_def [symmetric] cs_def [symmetric]
    by (auto simp: tx_simps split: list.splits if_splits)
  then show ?thesis
  proof (elim disjE exE conjE)
    fix t assume one: "filter (payout_match p) cs = [t]" and m: "matched_payout now sim receipt p occ t d = Inr d'"
      and new: "\<not> (tr_status t = T_success \<and> tr_providerTx t = Some (out_tx p))"
    note f = payout_candidate_facts [OF one [unfolded cs_def]]
    show ?thesis by (rule matched_payout_ok [OF ok f(1,2) _ m]) (use f(3,4) new in auto)
  qed (auto intro: ok unmatched_payout_ok)
qed

section \<open>Ingestion\<close>

lemma dispatch_message_ok:
  assumes "system_ok d" and "dispatch_message now dev system hash sim receipt e old received parsed d = Inr (r, d')"
  shows "system_ok d'"
proof (cases parsed)
  case (Balance_report p)
  show ?thesis
  proof (cases old)
    case True
    with assms(2) Balance_report have "same_core d d'"
      by (auto simp: dispatch_message_def receipt_case_def Let_def)
    then show ?thesis by (rule system_ok_same_core [OF assms(1)])
  next
    case False
    with assms Balance_report show ?thesis by (auto simp: dispatch_message_def tx_simps intro: applyBalance_ok)
  qed
next
  case (Unknown_sms why)
  with assms(2) have "same_core d d'" by (auto simp: dispatch_message_def)
  then show ?thesis by (rule system_ok_same_core [OF assms(1)])
qed (use assms in \<open>auto simp: dispatch_message_def tx_simps intro: matchIncoming_ok matchOutgoing_ok\<close>)

lemma record_receipt_ok:
  assumes ok: "system_ok d" and run: "record_receipt now dev system hash sim e old received parsed d = Inr (r, d')"
  shows "system_ok d'"
proof -
  let ?d1 = "add_inbox ''device_sms'' (ev_eventId e) hash d"
  let ?d2 = "?d1\<lparr>receipts := receipts ?d1 @ [receipt_row (next_id ?d1) e sim received parsed],
      next_id := Suc (next_id ?d1)\<rparr>"
  let ?d3 = "set_sim sim (\<lambda>s. s\<lparr>sim_lastSmsAt := Some received\<rparr>) ?d2"
  have c: "same_core d ?d1" by simp
  have "same_core d ?d2" using c by (auto simp: same_core_def same_ledger_def)
  then have "system_ok ?d2" by (rule system_ok_same_core [OF ok])
  then have ok3: "system_ok ?d3" by (rule set_sim_ok) simp_all
  from run have "d' = ?d1 \<or> dispatch_message now dev system hash sim (next_id ?d1) e old received parsed ?d3 = Inr (r, d')"
    unfolding record_receipt_def Let_def by (auto split: if_splits)
  then show ?thesis using system_ok_same_core [OF ok c] dispatch_message_ok [OF ok3] by blast
qed

lemma ingest_ok:
  assumes ok: "system_ok d" and run: "ingest now system hash dev e d = Inr (r, invalid, d')"
  shows "system_ok d'"
  using run ok unfolding ingest_def Let_def
  by (auto simp: tx_simps quarantine_both_ok split: if_splits option.splits elim!: record_receipt_ok [rotated])

end
