(* ===== verification/Admin.thy ===== *)
theory Admin
  imports Sweeps
begin

text \<open>
  The platform's operations, \<open>apps/api/src/admin/admin.service.ts\<close>: merchants and the fleet,
  the qualification of a phone, its retirement and recovery, the treasury wallets, staff
  interventions on jobs, and the manual credit of a suspended receipt. Random tokens and their
  hashes are arguments; the dashboard's counts and the listings are left out, except the
  capacity they report.
\<close>

section \<open>Fleet capacity\<close>

record capacity =
  ca_phones :: int
  ca_measured :: nat
  ca_p95 :: rat
  ca_safety :: rat
  ca_theoretical :: rat
  ca_usable :: rat
  ca_queued :: int
  ca_wait :: "int option"

text \<open>\<open>Number(x.toFixed(n))\<close>: the nearest decimal, the larger one of two.\<close>

definition to_fixed :: "nat \<Rightarrow> rat \<Rightarrow> rat" where
  "to_fixed n x = of_int (floor (x * 10 ^ n + 1 / 2)) / 10 ^ n"

definition p95_session :: "rat list \<Rightarrow> rat" where
  "p95_session xs = (if xs = [] then 30
     else xs ! nat (min (int (length xs) - 1) (ceiling (of_nat (length xs) * (95 / 100 :: rat)) - 1)))"

definition calculateFleetCapacity :: "int \<Rightarrow> rat list \<Rightarrow> rat \<Rightarrow> int \<Rightarrow> capacity" where
  "calculateFleetCapacity phones seconds factor queued =
     (let clean = sort (filter (\<lambda>v. 0 < v) seconds);
          p95 = p95_session clean;
          bounded = min (95 / 100) (max (1 / 10) factor);
          theoretical = of_int phones * 60 / p95;
          usable = theoretical * bounded
      in \<lparr>ca_phones = phones, ca_measured = length clean, ca_p95 = to_fixed 1 p95,
          ca_safety = to_fixed 2 bounded, ca_theoretical = to_fixed 1 theoretical,
          ca_usable = to_fixed 1 usable, ca_queued = queued,
          ca_wait = (if 0 < usable then Some (ceiling (of_int queued / usable * 60)) else None)\<rparr>)"

section \<open>Merchants\<close>

record merchant_input =
  mi_slug :: string
  mi_name :: string
  mi_ownerEmail :: string
  mi_initialTest :: "string option"

definition new_api_key :: "time \<Rightarrow> id \<Rightarrow> environment \<Rightarrow> string \<Rightarrow> string \<times> string \<Rightarrow> id \<Rightarrow> api_key" where
  "new_api_key now m env label = (\<lambda>(prefix, hash) kid. \<lparr>ak_id = kid, ak_merchant = m, ak_env = env,
     ak_label = label, ak_prefix = prefix, ak_secretHash = hash, ak_lastUsedAt = None,
     ak_revokedAt = None, ak_createdAt = now\<rparr>)"

definition add_api_key ::
  "time \<Rightarrow> id \<Rightarrow> environment \<Rightarrow> string \<Rightarrow> string \<times> string \<Rightarrow> db \<Rightarrow> (id \<times> db) outcome" where
  "add_api_key now m env label secret d =
     (if list_ex (\<lambda>k. ak_prefix k = fst secret) (apiKeys d) then Inl (RuntimeError ''Unique constraint failed'')
      else Inr (next_id d, d\<lparr>apiKeys := apiKeys d @ [new_api_key now m env label secret (next_id d)],
        next_id := Suc (next_id d)\<rparr>))"

definition normalizeEmail :: "string \<Rightarrow> string" where
  "normalizeEmail value = map to_lower (trim value)"

definition add_invitation ::
  "time \<Rightarrow> id \<Rightarrow> string \<Rightarrow> user_role \<Rightarrow> string \<Rightarrow> id option \<Rightarrow> db \<Rightarrow> (id \<times> db) outcome" where
  "add_invitation now m email role tokenHash inviter d =
     (if list_ex (\<lambda>v. iv_tokenHash v = tokenHash) (invitations d)
      then Inl (RuntimeError ''Unique constraint failed'')
      else Inr (next_id d, d\<lparr>invitations := invitations d @ [\<lparr>iv_id = next_id d, iv_merchant = m,
          iv_email = email, iv_role = role, iv_tokenHash = tokenHash, iv_invitedBy = inviter,
          iv_expiresAt = now + 72 * 3600000, iv_acceptedAt = None, iv_revokedAt = None, iv_createdAt = now\<rparr>],
        next_id := Suc (next_id d)\<rparr>))"

text \<open>The two default keys, in the order of the source; \<open>keys\<close> gives the prefix and the hash of each.\<close>

definition createMerchant ::
  "time \<Rightarrow> merchant_input \<Rightarrow> (environment \<Rightarrow> string \<times> string) \<Rightarrow> string \<Rightarrow> string \<Rightarrow> db \<Rightarrow> (id \<times> db) outcome" where
  "createMerchant now input keys tokenHash actor d =
     (let pol = loadPlatformPolicy d; m = next_id d in
      if list_ex (\<lambda>x. me_slug x = mi_slug input) (merchants d)
      then Inl (RuntimeError ''Unique constraint failed'')
      else
        let d1 = d\<lparr>merchants := merchants d @ [\<lparr>me_id = m, me_slug = mi_slug input, me_name = mi_name input,
                     me_status = M_active, me_createdAt = now\<rparr>],
                   configs := configs d @ [(default_config m)\<lparr>cfg_countdownSeconds := pp_countdownSeconds pol,
                     cfg_lateGraceSeconds := pp_lateGraceSeconds pol\<rparr>],
                   next_id := Suc m\<rparr>
        in and_then (add_api_key now m Test ''test default'' (keys Test) d1) (\<lambda>(k1, d2).
           and_then (add_api_key now m Live ''live default'' (keys Live) d2) (\<lambda>(k2, d3).
           and_then (if truthy (mi_initialTest input)
             then and_then (amountToMinor (the (mi_initialTest input))) (\<lambda>amount.
               creditDeposit (m, Test) (next_id d3) amount (d3\<lparr>next_id := Suc (next_id d3)\<rparr>))
             else Inr d3) (\<lambda>d4.
           and_then (add_invitation now m (normalizeEmail (mi_ownerEmail input)) Role_owner tokenHash None d4)
             (\<lambda>(v, d5). Inr (m, log_audit (Some m) ''platform_staff'' actor ''merchant.created'' ''merchant'' m
               None d5))))))"

section \<open>Locations, groups and policies\<close>

definition createLocation :: "string \<Rightarrow> string \<Rightarrow> db \<Rightarrow> (id \<times> db) outcome" where
  "createLocation code name d =
     (if list_ex (\<lambda>l. fl_code l = code) (locations d) then Inl (RuntimeError ''Unique constraint failed'')
      else Inr (next_id d, d\<lparr>locations := locations d @ [\<lparr>fl_id = next_id d, fl_code = code, fl_name = name\<rparr>],
        next_id := Suc (next_id d)\<rparr>))"

definition createGroup :: "id \<Rightarrow> string \<Rightarrow> string \<Rightarrow> db \<Rightarrow> (id \<times> db) outcome" where
  "createGroup location code name d =
     (let pol = loadPlatformPolicy d in
      if \<not> list_ex (\<lambda>l. fl_id l = location) (locations d)
      then Inl (RuntimeError ''Foreign key constraint failed'')
      else if list_ex (\<lambda>g. g_code g = code) (groups d) then Inl (RuntimeError ''Unique constraint failed'')
      else Inr (next_id d, d\<lparr>groups := groups d @ [\<lparr>g_id = next_id d, g_location = location, g_name = name,
          g_code = code, g_dailyLimit = pp_dailyLimit pol, g_ceiling = pp_walletCeiling pol,
          g_safetyBalance = pp_safetyBalance pol, g_safetyHeadroom = pp_safetyHeadroom pol,
          g_merchants = []\<rparr>], next_id := Suc (next_id d)\<rparr>))"

definition upsert_policy :: "id \<Rightarrow> bool \<Rightarrow> int \<Rightarrow> group_policy list \<Rightarrow> group_policy list" where
  "upsert_policy m dedicated priority ps =
     (if list_ex (\<lambda>p. gp_merchant p = m) ps
      then update_where (\<lambda>p. gp_merchant p = m) (\<lambda>p. p\<lparr>gp_dedicated := dedicated, gp_priority := priority\<rparr>) ps
      else ps @ [\<lparr>gp_merchant = m, gp_dedicated = dedicated, gp_priority = priority\<rparr>])"

definition upsertMerchantGroupPolicy ::
  "id \<Rightarrow> id \<Rightarrow> bool \<Rightarrow> int \<Rightarrow> string \<Rightarrow> string \<Rightarrow> db \<Rightarrow> db outcome" where
  "upsertMerchantGroupPolicy gid m dedicated priority actor reason d =
     (if \<not> list_ex (\<lambda>g. g_id g = gid) (groups d) \<or> \<not> list_ex (\<lambda>x. me_id x = m) (merchants d)
      then Inl (ApiError ''not_found'' 404)
      else Inr (log_audit (Some m) ''platform_staff'' actor ''fleet.merchant_group_policy_upserted''
        ''device_group'' gid (Some reason)
        (d\<lparr>groups := update_where (\<lambda>g. g_id g = gid)
           (\<lambda>g. g\<lparr>g_merchants := upsert_policy m dedicated priority (g_merchants g)\<rparr>) (groups d)\<rparr>)))"

definition removeMerchantGroupPolicy :: "id \<Rightarrow> id \<Rightarrow> string \<Rightarrow> string \<Rightarrow> db \<Rightarrow> db outcome" where
  "removeMerchantGroupPolicy gid m actor reason d =
     (if length (filter (\<lambda>p. gp_merchant p = m)
           (concat (map g_merchants (filter (\<lambda>g. g_id g = gid) (groups d))))) \<noteq> 1
      then Inl (ApiError ''not_found'' 404)
      else Inr (log_audit (Some m) ''platform_staff'' actor ''fleet.merchant_group_policy_removed''
        ''device_group'' gid (Some reason)
        (d\<lparr>groups := update_where (\<lambda>g. g_id g = gid)
           (\<lambda>g. g\<lparr>g_merchants := filter (\<lambda>p. gp_merchant p \<noteq> m) (g_merchants g)\<rparr>) (groups d)\<rparr>)))"

section \<open>Phones\<close>

record sim_spec =
  sn_slot :: int
  sn_iccid :: string
  sn_phone :: string
  sn_accountName :: string

record device_input =
  dn_group :: id
  dn_name :: string
  dn_model :: "string option"
  dn_sims :: "sim_spec list"

definition new_sim :: "id \<Rightarrow> id \<Rightarrow> sim_spec \<Rightarrow> sim_wallet" where
  "new_sim dev i x = \<lparr>sim_id = i, sim_device = dev, sim_slot = sn_slot x, sim_subscription = None,
     sim_iccid = sn_iccid x, sim_phone = sn_phone x, sim_accountName = sn_accountName x,
     sim_status = Sim_pending, sim_main = 0, sim_incentive = 0, sim_fuel = 0, sim_pocket = 0,
     sim_reserved = 0, sim_sentToday = 0, sim_receivedToday = 0, sim_financialDay = None,
     sim_lastBalanceAt = None, sim_lastBalanceSource = None, sim_lastSmsAt = None, sim_nextFence = 0\<rparr>"

definition add_sim :: "id \<Rightarrow> sim_spec \<Rightarrow> db \<Rightarrow> db outcome" where
  "add_sim dev x d =
     (if list_ex (\<lambda>s. sim_iccid s = sn_iccid x \<or> sim_phone s = sn_phone x \<or>
           (sim_device s = dev \<and> sim_slot s = sn_slot x)) (sims d)
      then Inl (RuntimeError ''Unique constraint failed'')
      else Inr (d\<lparr>sims := sims d @ [new_sim dev (next_id d) x], next_id := Suc (next_id d)\<rparr>))"

definition add_activation :: "time \<Rightarrow> id \<Rightarrow> string \<Rightarrow> db \<Rightarrow> db" where
  "add_activation now dev codeHash d = d\<lparr>activations := activations d @ [\<lparr>ac_id = next_id d,
     ac_device = dev, ac_codeHash = codeHash, ac_expiresAt = now + 15 * 60000, ac_consumedAt = None\<rparr>],
     next_id := Suc (next_id d)\<rparr>"

definition new_device :: "device_input \<Rightarrow> id \<Rightarrow> device" where
  "new_device input dev = \<lparr>dv_id = dev, dv_group = dn_group input, dv_name = dn_name input,
     dv_model = dn_model input, dv_serial = None, dv_status = Dev_pending, dv_authTokenHash = None,
     dv_certFingerprint = None, dv_lastHeartbeatAt = None, dv_permissionsOk = False,
     dv_accessibilityOk = False, dv_activeJob = None\<rparr>"

definition createDevice :: "time \<Rightarrow> device_input \<Rightarrow> string \<Rightarrow> string \<Rightarrow> db \<Rightarrow> (id \<times> db) outcome" where
  "createDevice now input codeHash actor d =
     (let phones = map sn_phone (dn_sims input) in
      if list_ex (\<lambda>r. sr_phone r \<in> set phones \<and> sr_status r \<in> {SR_pending, SR_approved}) (sweepRules d)
      then Inl (ApiError ''invalid_state'' 409)
      else if list_ex (\<lambda>w. tw_phone w \<in> set phones \<and> tw_status w \<in> {TW_pending, TW_active}) (treasuries d)
      then Inl (ApiError ''invalid_state'' 409)
      else if \<not> list_ex (\<lambda>g. g_id g = dn_group input) (groups d)
      then Inl (RuntimeError ''Foreign key constraint failed'')
      else
        let dev = next_id d
        in and_then (foldM (add_sim dev) (dn_sims input)
             (d\<lparr>devices := devices d @ [new_device input dev], next_id := Suc dev\<rparr>)) (\<lambda>d1.
           Inr (dev, log_audit None ''platform_staff'' actor ''device.created'' ''device'' dev None
             (add_activation now dev codeHash d1))))"

definition setDeviceOnline :: "id \<Rightarrow> bool \<Rightarrow> string \<Rightarrow> db \<Rightarrow> db outcome" where
  "setDeviceOnline dev online actor d = (case find_device d dev of
       None \<Rightarrow> Inl (ApiError ''not_found'' 404)
     | Some v \<Rightarrow>
         if dv_status v \<in> {Dev_quarantined, Dev_retired} then Inl (ApiError ''invalid_state'' 409)
         else
           let d1 = set_device dev (\<lambda>x. x\<lparr>dv_status := (if online then Dev_online else Dev_offline)\<rparr>) d;
               d2 = (if online
                 then d1\<lparr>sims := update_where (\<lambda>s. sim_device s = dev \<and>
                        sim_status s \<notin> {Sim_quarantined, Sim_disabled})
                        (\<lambda>s. s\<lparr>sim_status := Sim_active\<rparr>) (sims d1)\<rparr>
                 else d1\<lparr>sims := update_where (\<lambda>s. sim_device s = dev \<and>
                        sim_status s \<in> {Sim_active, Sim_payout_stale})
                        (\<lambda>s. s\<lparr>sim_status := Sim_pending\<rparr>) (sims d1)\<rparr>)
           in Inr (log_audit None ''platform_staff'' actor ''device.online_toggled'' ''device'' dev None d2))"

definition consume_codes :: "time \<Rightarrow> id \<Rightarrow> db \<Rightarrow> db" where
  "consume_codes now dev d = d\<lparr>activations := update_where (\<lambda>c. ac_device c = dev \<and> ac_consumedAt c = None)
     (\<lambda>c. c\<lparr>ac_consumedAt := Some now\<rparr>) (activations d)\<rparr>"

definition regenerateActivationCode :: "time \<Rightarrow> id \<Rightarrow> string \<Rightarrow> string \<Rightarrow> db \<Rightarrow> db outcome" where
  "regenerateActivationCode now dev codeHash actor d = (case find_device d dev of
       None \<Rightarrow> Inl (ApiError ''not_found'' 404)
     | Some v \<Rightarrow>
         if truthy (dv_authTokenHash v) then Inl (ApiError ''invalid_state'' 409)
         else Inr (log_audit None ''platform_staff'' actor ''device.activation_code_regenerated'' ''device'' dev
           None (add_activation now dev codeHash (consume_codes now dev d))))"

definition device_sims :: "id \<Rightarrow> db \<Rightarrow> sim_wallet list" where
  "device_sims dev d = filter (\<lambda>s. sim_device s = dev) (sims d)"

text \<open>The rows a phone's history leaves; \<open>evidence\<close> counts those of tables outside the model.\<close>

definition operational_records :: "id \<Rightarrow> nat \<Rightarrow> db \<Rightarrow> nat" where
  "operational_records dev evidence d =
     (let ids = set (map sim_id (device_sims dev d)) in
      length (filter (\<lambda>j. jb_device j = Some dev \<or> jb_sim j \<in> ids) (jobs d)) + evidence +
      length (filter (\<lambda>b. bs_sim b \<in> ids) (snapshots d)) +
      length (filter (\<lambda>x. dp_sim x \<in> ids) (deposits d)) +
      length (filter (\<lambda>r. rc_sim r \<in> ids) (receipts d)) +
      length (filter (\<lambda>t. opt_holds (\<lambda>i. i \<in> ids) (tr_sim t)) (transfers d)) +
      length (filter (\<lambda>x. sx_sim x \<in> ids) (sweepExecutions d)) +
      length (filter (\<lambda>c. qc_observedAt c \<noteq> None \<and>
        list_ex (\<lambda>r. qr_id r = qc_run c \<and> qr_device r = dev) (qualRuns d)) (qualChecks d)))"

definition deleteDevice :: "id \<Rightarrow> nat \<Rightarrow> string \<Rightarrow> string \<Rightarrow> db \<Rightarrow> db outcome" where
  "deleteDevice dev evidence reason actor d = (case find_device d dev of
       None \<Rightarrow> Inl (ApiError ''not_found'' 404)
     | Some v \<Rightarrow>
         if dv_status v \<notin> {Dev_pending, Dev_qualifying} then Inl (ApiError ''invalid_state'' 409)
         else if dv_activeJob v \<noteq> None then Inl (ApiError ''invalid_state'' 409)
         else if 0 < operational_records dev evidence d
         then Inl (ApiError ''device_has_operational_history'' 409)
         else
           let runs = set (map qr_id (filter (\<lambda>r. qr_device r = dev) (qualRuns d)));
               d1 = d\<lparr>activations := filter (\<lambda>c. ac_device c \<noteq> dev) (activations d),
                      devices := filter (\<lambda>x. dv_id x \<noteq> dev) (devices d),
                      sims := filter (\<lambda>s. sim_device s \<noteq> dev) (sims d),
                      qualRuns := filter (\<lambda>r. qr_device r \<noteq> dev) (qualRuns d),
                      qualChecks := filter (\<lambda>c. qc_run c \<notin> runs) (qualChecks d)\<rparr>
           in Inr (log_audit None ''platform_staff'' actor ''device.deleted_before_qualification'' ''device'' dev
                (Some reason) d1))"

section \<open>Qualification\<close>

definition deviceQualificationKeys :: "string list" where
  "deviceQualificationKeys = [''device_permissions'', ''accessibility_enabled'', ''reboot_survival'']"

definition simQualificationKeys :: "string list" where
  "simQualificationKeys = [''sms_attribution'', ''ussd_subscription'', ''balance_query'', ''transfer_confirmation'']"

definition new_check :: "id \<Rightarrow> string \<times> id option \<Rightarrow> db \<Rightarrow> db" where
  "new_check run = (\<lambda>(key, sim) d. d\<lparr>qualChecks := qualChecks d @ [\<lparr>qc_id = next_id d, qc_run = run,
     qc_sim = sim, qc_key = key, qc_status = K_pending, qc_evidence = [], qc_observedAt = None,
     qc_recordedBy = None\<rparr>], next_id := Suc (next_id d)\<rparr>)"

definition find_run :: "db \<Rightarrow> id \<Rightarrow> qualification_run option" where
  "find_run d i = find (\<lambda>r. qr_id r = i) (qualRuns d)"

definition set_run :: "id \<Rightarrow> (qualification_run \<Rightarrow> qualification_run) \<Rightarrow> db \<Rightarrow> db" where
  "set_run i f d = d\<lparr>qualRuns := update_where (\<lambda>r. qr_id r = i) f (qualRuns d)\<rparr>"

definition device_sims_status :: "id \<Rightarrow> sim_status \<Rightarrow> db \<Rightarrow> db" where
  "device_sims_status dev st d = d\<lparr>sims := update_where (\<lambda>s. sim_device s = dev)
     (\<lambda>s. s\<lparr>sim_status := st\<rparr>) (sims d)\<rparr>"

definition startQualification :: "time \<Rightarrow> id \<Rightarrow> string \<Rightarrow> db \<Rightarrow> (id \<times> db) outcome" where
  "startQualification now dev actor d = (case find_device d dev of
       None \<Rightarrow> Inl (ApiError ''not_found'' 404)
     | Some v \<Rightarrow> (case first_by (\<lambda>r. - qr_createdAt r) (filter (\<lambda>r. qr_device r = dev \<and>
           qr_status r \<in> {Q_pending, Q_running, Q_passed}) (qualRuns d)) of
         Some r \<Rightarrow> Inr (qr_id r, if qr_status r = Q_pending
             then set_run (qr_id r) (\<lambda>x. x\<lparr>qr_status := Q_running, qr_startedAt := Some now\<rparr>) d else d)
       | None \<Rightarrow>
           let run = next_id d;
               d1 = d\<lparr>qualRuns := qualRuns d @ [\<lparr>qr_id = run, qr_device = dev, qr_status = Q_running,
                      qr_startedAt = Some now, qr_completedAt = None, qr_approvedAt = None,
                      qr_approvedBy = None, qr_reason = None, qr_createdAt = now\<rparr>],
                    next_id := Suc run\<rparr>;
               checks = map (\<lambda>k. (k, None)) deviceQualificationKeys @
                 concat (map (\<lambda>s. map (\<lambda>k. (k, Some (sim_id s))) simQualificationKeys) (device_sims dev d));
               d2 = fold (new_check run) checks d1;
               d3 = device_sims_status dev Sim_pending
                 (set_device dev (\<lambda>x. x\<lparr>dv_status := Dev_qualifying\<rparr>) d2)
           in Inr (run, log_audit None ''platform_staff'' actor ''device.qualification_started''
                ''device_qualification'' run None d3)))"

record check_input =
  ci_passed :: bool
  ci_reference :: string
  ci_notes :: "string option"

text \<open>The status of a run once a check is recorded: complete when no check is pending.\<close>

definition mandatory_checks :: "db \<Rightarrow> id \<Rightarrow> qualification_check list" where
  "mandatory_checks d run = filter (\<lambda>c. qc_run c = run \<and> qc_key c \<noteq> ''openclaw_paired'') (qualChecks d)"

definition run_status_after :: "qualification_check list \<Rightarrow> run_status" where
  "run_status_after cs =
     (if list_all (\<lambda>c. qc_status c \<noteq> K_pending) cs
      then (if list_all (\<lambda>c. qc_status c = K_passed) cs then Q_passed else Q_failed)
      else Q_running)"

definition recordQualificationCheck ::
  "time \<Rightarrow> id \<Rightarrow> id \<Rightarrow> check_input \<Rightarrow> string \<Rightarrow> db \<Rightarrow> db outcome" where
  "recordQualificationCheck now run check input actor d = (case find_run d run of
       None \<Rightarrow> Inl (ApiError ''not_found'' 404)
     | Some r \<Rightarrow>
         if qr_status r \<notin> {Q_pending, Q_running, Q_passed, Q_failed} then Inl (ApiError ''invalid_state'' 409)
         else if \<not> list_ex (\<lambda>c. qc_id c = check \<and> qc_run c = run) (qualChecks d)
         then Inl (ApiError ''not_found'' 404)
         else
           let d1 = d\<lparr>qualChecks := update_where (\<lambda>c. qc_id c = check) (\<lambda>c. c\<lparr>
                  qc_status := (if ci_passed input then K_passed else K_failed),
                  qc_evidence := [(''reference'', JStr (ci_reference input)),
                    (''notes'', case ci_notes input of None \<Rightarrow> JNull | Some n \<Rightarrow> JStr n)],
                  qc_observedAt := Some now, qc_recordedBy := Some actor\<rparr>) (qualChecks d)\<rparr>;
               status = run_status_after (mandatory_checks d1 run);
               d2 = set_run run (\<lambda>x. x\<lparr>qr_status := status, qr_startedAt := Some (or_else (qr_startedAt r) now),
                  qr_completedAt := (if status = Q_running then None else Some now)\<rparr>) d1
           in Inr (log_audit None ''platform_staff'' actor ''device.qualification_check_recorded''
                ''device_qualification_check'' check (ci_notes input) d2))"

definition healthy_now :: "time \<Rightarrow> device \<Rightarrow> bool" where
  "healthy_now now v = (opt_holds (\<lambda>t. now - 90000 \<le> t) (dv_lastHeartbeatAt v) \<and>
     dv_permissionsOk v \<and> dv_accessibilityOk v)"

definition approveQualification :: "time \<Rightarrow> id \<Rightarrow> string \<Rightarrow> string \<Rightarrow> db \<Rightarrow> db outcome" where
  "approveQualification now run reason actor d = (case find_run d run of
       None \<Rightarrow> Inl (ApiError ''not_found'' 404)
     | Some r \<Rightarrow>
         if qr_status r \<noteq> Q_passed \<or> list_ex (\<lambda>c. qc_status c \<noteq> K_passed) (mandatory_checks d run)
         then Inl (ApiError ''invalid_state'' 409)
         else if map_option qr_id (first_by (\<lambda>x. - qr_createdAt x)
             (filter (\<lambda>x. qr_device x = qr_device r) (qualRuns d))) \<noteq> Some run
         then Inl (ApiError ''invalid_state'' 409)
         else case find_device d (qr_device r) of
           None \<Rightarrow> Inl (RuntimeError ''Inconsistent query result'')
         | Some v \<Rightarrow>
             if \<not> healthy_now now v then Inl (ApiError ''invalid_state'' 409)
             else if list_ex (\<lambda>s. sim_status s \<in> {Sim_quarantined, Sim_disabled}) (device_sims (dv_id v) d)
             then Inl (ApiError ''invalid_state'' 409)
             else
               let d1 = set_run run (\<lambda>x. x\<lparr>qr_status := Q_approved, qr_approvedAt := Some now,
                      qr_approvedBy := Some actor, qr_reason := Some reason\<rparr>) d;
                   d2 = d1\<lparr>sims := update_where (\<lambda>s. sim_device s = dv_id v \<and> sim_status s = Sim_pending)
                      (\<lambda>s. s\<lparr>sim_status := Sim_active\<rparr>) (sims d1)\<rparr>;
                   d3 = set_device (dv_id v) (\<lambda>x. x\<lparr>dv_status := Dev_online\<rparr>) d2
               in Inr (log_audit None ''platform_staff'' actor ''device.qualification_approved''
                    ''device_qualification'' run (Some reason) d3))"

definition rejectQualification :: "time \<Rightarrow> id \<Rightarrow> string \<Rightarrow> string \<Rightarrow> db \<Rightarrow> db outcome" where
  "rejectQualification now run reason actor d = (case find_run d run of
       None \<Rightarrow> Inl (ApiError ''not_found'' 404)
     | Some r \<Rightarrow>
         if qr_status r \<in> {Q_approved, Q_rejected} then Inl (ApiError ''invalid_state'' 409)
         else
           let d1 = set_run run (\<lambda>x. x\<lparr>qr_status := Q_rejected, qr_completedAt := Some now,
                  qr_approvedBy := Some actor, qr_reason := Some reason\<rparr>) d;
               d2 = device_sims_status (qr_device r) Sim_pending
                 (set_device (qr_device r) (\<lambda>x. x\<lparr>dv_status := Dev_qualifying\<rparr>) d1)
           in Inr (log_audit None ''platform_staff'' actor ''device.qualification_rejected''
                ''device_qualification'' run (Some reason) d2))"

section \<open>Treasury wallets\<close>

record treasury_input =
  ty_merchant :: "id option"
  ty_env :: environment
  ty_phone :: string
  ty_accountName :: string

definition upsert_treasury :: "time \<Rightarrow> treasury_input \<Rightarrow> string \<Rightarrow> db \<Rightarrow> id \<times> db" where
  "upsert_treasury now input actor d =
     (case find (\<lambda>w. tw_env w = ty_env input \<and> tw_phone w = ty_phone input) (treasuries d) of
        Some w \<Rightarrow> (tw_id w, d\<lparr>treasuries := update_where (\<lambda>x. tw_id x = tw_id w) (\<lambda>x. x\<lparr>
          tw_merchant := or_else_opt (ty_merchant input) (tw_merchant x), tw_accountName := ty_accountName input,
          tw_status := TW_active, tw_approvedBy := Some actor, tw_approvedAt := Some now\<rparr>) (treasuries d)\<rparr>)
      | None \<Rightarrow> (next_id d, d\<lparr>treasuries := treasuries d @ [\<lparr>tw_id = next_id d, tw_merchant = ty_merchant input,
          tw_env = ty_env input, tw_phone = ty_phone input, tw_accountName = ty_accountName input,
          tw_status = TW_active, tw_predicted = 0, tw_confirmed = None, tw_lastConfirmedAt = None,
          tw_approvedBy = Some actor, tw_approvedAt = Some now\<rparr>], next_id := Suc (next_id d)\<rparr>))"

definition createTreasuryWallet ::
  "time \<Rightarrow> treasury_input \<Rightarrow> string \<Rightarrow> string \<Rightarrow> db \<Rightarrow> (id \<times> db) outcome" where
  "createTreasuryWallet now input reason actor d =
     (if list_ex (\<lambda>s. sim_phone s = ty_phone input) (sims d) then Inl (ApiError ''invalid_state'' 409)
      else let (w, d1) = upsert_treasury now input actor d
           in Inr (w, log_audit (ty_merchant input) ''platform_staff'' actor ''treasury_wallet.approve''
                ''treasury_wallet'' w (Some reason) d1))"

definition confirmTreasuryBalance ::
  "time \<Rightarrow> id \<Rightarrow> string \<Rightarrow> string \<Rightarrow> string \<Rightarrow> db \<Rightarrow> db outcome" where
  "confirmTreasuryBalance now w balance reason actor d =
     (let amount = int (nat_of_digits (strip_dot balance)) in
      case find (\<lambda>x. tw_id x = w) (treasuries d) of
        None \<Rightarrow> Inl (RuntimeError ''Record to update not found'')
      | Some x \<Rightarrow> Inr (log_audit (tw_merchant x) ''platform_staff'' actor ''treasury_wallet.balance_confirmed''
          ''treasury_wallet'' w (Some reason)
          (d\<lparr>treasuries := update_where (\<lambda>y. tw_id y = w) (\<lambda>y. y\<lparr>tw_predicted := amount,
             tw_confirmed := Some amount, tw_lastConfirmedAt := Some now\<rparr>) (treasuries d)\<rparr>)))"

section \<open>Balance queries and quarantine\<close>

definition queueBalance :: "time \<Rightarrow> id \<Rightarrow> db \<Rightarrow> (id \<times> db) outcome" where
  "queueBalance now sim d = (case find_sim d sim of
       None \<Rightarrow> Inl (ApiError ''not_found'' 404)
     | Some s \<Rightarrow> (case find (\<lambda>j. jb_sim j = sim \<and> jb_type j = Balance_query \<and> unfinished_job j) (jobs d) of
         Some j \<Rightarrow> Inr (jb_id j, d)
       | None \<Rightarrow> and_then (allocate_fence sim d) (\<lambda>(fence, d1).
           Inr (next_id d1, d1\<lparr>jobs := jobs d1 @ [new_job now Balance_query 100 (sim_device s) sim
               (empty_payload\<lparr>pl_iccid := Some (sim_iccid s)\<rparr>) 1 fence (next_id d1)],
             next_id := Suc (next_id d1)\<rparr>))))"

definition quarantine :: "id \<Rightarrow> string \<Rightarrow> string \<Rightarrow> db \<Rightarrow> db outcome" where
  "quarantine dev reason actor d =
     (if find_device d dev = None then Inl (RuntimeError ''Record to update not found'')
      else Inr (log_audit None ''platform_staff'' actor ''device.quarantine'' ''device'' dev (Some reason)
        (device_sims_status dev Sim_quarantined (set_device dev (\<lambda>v. v\<lparr>dv_status := Dev_quarantined\<rparr>) d))))"

section \<open>Recovery and retirement\<close>

definition recoverySimIdentityMatches :: "sim_wallet \<Rightarrow> sim_spec option \<Rightarrow> bool" where
  "recoverySimIdentityMatches enrolled observed = opt_holds (\<lambda>x.
     sn_slot x = sim_slot enrolled \<and> sn_iccid x = sim_iccid enrolled \<and> sn_phone x = sim_phone enrolled \<and>
     nm_decision (comparePersonNames (sim_accountName enrolled) (sn_accountName x)) = Match) observed"

text \<open>Work that still holds money of the phone's SIMs.\<close>

definition open_transfer :: "transfer_status \<Rightarrow> bool" where
  "open_transfer st = (st \<in> {T_accepted, T_queued, T_device_assigned, T_device_started, T_committed,
     T_provider_pending, T_unknown, T_manual_review})"

definition open_deposit :: "deposit_status \<Rightarrow> bool" where
  "open_deposit st = (st \<in> {D_awaiting_payment, D_late_grace, D_matching, D_manual_review})"

definition transfers_on :: "id set \<Rightarrow> db \<Rightarrow> bool" where
  "transfers_on ids d = list_ex (\<lambda>t. opt_holds (\<lambda>i. i \<in> ids) (tr_sim t) \<and> open_transfer (tr_status t)) (transfers d)"

definition deposits_on :: "id set \<Rightarrow> db \<Rightarrow> bool" where
  "deposits_on ids d = list_ex (\<lambda>x. dp_sim x \<in> ids \<and> open_deposit (dp_status x)) (deposits d)"

definition cancel_queries :: "time \<Rightarrow> string \<Rightarrow> id set \<Rightarrow> db \<Rightarrow> db" where
  "cancel_queries now code ids d = d\<lparr>jobs := update_where (\<lambda>j. jb_sim j \<in> ids \<and>
       jb_type j \<in> {Balance_query, Unknown_reconciliation} \<and> unfinished_job j)
     (\<lambda>j. j\<lparr>jb_state := J_cancelled, jb_completedAt := Some now, jb_errorCode := Some code\<rparr>) (jobs d)\<rparr>"

record recovery_input =
  rv_device :: id
  rv_identities :: "sim_spec list"
  rv_replacement :: bool
  rv_reason :: string

definition identities_match :: "sim_spec list \<Rightarrow> sim_wallet list \<Rightarrow> bool" where
  "identities_match is ss = list_all (\<lambda>s. recoverySimIdentityMatches s
     (find (\<lambda>x. sn_slot x = sim_slot s) is)) ss"

definition recovered_device :: "bool \<Rightarrow> device \<Rightarrow> device" where
  "recovered_device replacement v = v\<lparr>dv_status := Dev_pending, dv_authTokenHash := None,
     dv_certFingerprint := None, dv_activeJob := None, dv_lastHeartbeatAt := None,
     dv_permissionsOk := False, dv_accessibilityOk := False,
     dv_serial := (if replacement then None else dv_serial v)\<rparr>"

definition beginDeviceRecovery ::
  "time \<Rightarrow> recovery_input \<Rightarrow> string \<Rightarrow> string \<Rightarrow> db \<Rightarrow> db outcome" where
  "beginDeviceRecovery now input codeHash actor d =
     (let dev = rv_device input; ss = sort_key sim_slot (device_sims dev d); ids = set (map sim_id ss) in
      case find_device d dev of
        None \<Rightarrow> Inl (ApiError ''not_found'' 404)
      | Some v \<Rightarrow>
          if dv_status v \<notin> {Dev_quarantined, Dev_retired} then Inl (ApiError ''invalid_state'' 409)
          else if length ss \<noteq> length (rv_identities input) then Inl (ApiError ''identity_mismatch'' 409)
          else if \<not> identities_match (rv_identities input) ss then Inl (ApiError ''identity_mismatch'' 409)
          else if list_ex (\<lambda>j. jb_sim j \<in> ids \<and> money_moving (jb_type j) \<and> unfinished_job j) (jobs d) \<or>
             transfers_on ids d \<or> deposits_on ids d
          then Inl (ApiError ''device_has_unresolved_financial_work'' 409)
          else
            let d1 = consume_codes now dev d;
                d2 = d1\<lparr>qualRuns := update_where (\<lambda>r. qr_device r = dev \<and>
                       qr_status r \<in> {Q_pending, Q_running, Q_passed, Q_failed})
                       (\<lambda>r. r\<lparr>qr_status := Q_rejected, qr_completedAt := Some now,
                          qr_reason := Some ''Superseded by credential recovery'',
                          qr_approvedBy := Some actor\<rparr>) (qualRuns d1)\<rparr>;
                d3 = cancel_queries now ''DEVICE_CREDENTIAL_RECOVERY'' ids d2;
                d4 = set_device dev (recovered_device (rv_replacement input)) d3;
                d5 = d4\<lparr>sims := update_where (\<lambda>s. sim_device s = dev) (\<lambda>s. s\<lparr>sim_status := Sim_pending,
                       sim_subscription := None, sim_lastBalanceAt := None,
                       sim_lastBalanceSource := Some ''recovery_requires_refresh''\<rparr>) (sims d4)\<rparr>
            in Inr (log_audit None ''platform_staff'' actor ''device.recovery_started'' ''device'' dev
                 (Some (rv_reason input)) (add_activation now dev codeHash d5)))"

definition retireDevice :: "time \<Rightarrow> id \<Rightarrow> string \<Rightarrow> string \<Rightarrow> db \<Rightarrow> db outcome" where
  "retireDevice now dev reason actor d = (case find_device d dev of
       None \<Rightarrow> Inl (ApiError ''not_found'' 404)
     | Some v \<Rightarrow>
         if dv_status v = Dev_retired then Inr d
         else
           let ids = set (map sim_id (device_sims dev d)) in
           if transfers_on ids d \<or> deposits_on ids d \<or> dv_activeJob v \<noteq> None
           then Inl (ApiError ''device_has_unresolved_financial_work'' 409)
           else
             let d1 = cancel_queries now ''DEVICE_RETIRED'' ids (consume_codes now dev d);
                 d2 = d1\<lparr>sims := update_where (\<lambda>s. sim_device s = dev)
                        (\<lambda>s. s\<lparr>sim_status := Sim_disabled, sim_subscription := None\<rparr>) (sims d1)\<rparr>;
                 d3 = set_device dev (\<lambda>x. x\<lparr>dv_status := Dev_retired, dv_authTokenHash := None,
                        dv_certFingerprint := None, dv_activeJob := None\<rparr>) d2
             in Inr (log_audit None ''platform_staff'' actor ''device.retired'' ''device'' dev (Some reason) d3))"

section \<open>Staff interventions on jobs\<close>

definition executeDeviceJobNow :: "id \<Rightarrow> string \<Rightarrow> db \<Rightarrow> db outcome" where
  "executeDeviceJobNow jid actor d = (case find_job d jid of
       None \<Rightarrow> Inl (ApiError ''not_found'' 404)
     | Some j \<Rightarrow>
         if jb_state j \<noteq> J_queued then Inl (ApiError ''invalid_state'' 409)
         else Inr (log_audit None ''platform_staff'' actor ''device_job.execute_now'' ''device_job'' jid
           (Some ''Admin requested immediate execution'')
           (set_job jid (\<lambda>x. x\<lparr>jb_priority := 1000000\<rparr>) d)))"

text \<open>The transfer of a failed job is opened again, with a new reservation.\<close>

definition reopen_transfer :: "time \<Rightarrow> device_job \<Rightarrow> transfer \<Rightarrow> db \<Rightarrow> db outcome" where
  "reopen_transfer now j t d = and_then (reserve_transfer t d) (\<lambda>d1.
     if find_sim d1 (jb_sim j) = None then Inl (RuntimeError ''Record to update not found'')
     else
       let d2 = set_sim (jb_sim j) (\<lambda>s. s\<lparr>sim_reserved := sim_reserved s + physical_total t\<rparr>) d1;
           d3 = set_transfer (tr_id t) (\<lambda>x. x\<lparr>tr_status := T_queued, tr_completedAt := None,
                  tr_estimatedAt := Some (now + 60000)\<rparr>) d2;
           d4 = d3\<lparr>settlements := update_where (\<lambda>s. st_transfer s = Some (tr_id t))
                  (\<lambda>s. s\<lparr>st_status := S_dispatched\<rparr>) (settlements d3)\<rparr>
       in Inr (d4\<lparr>sweepExecutions := update_where (\<lambda>x. sx_transfer x = tr_id t)
            (\<lambda>x. x\<lparr>sx_status := X_queued, sx_completedAt := None\<rparr>) (sweepExecutions d4)\<rparr>))"

definition retried_job :: "time \<Rightarrow> int \<Rightarrow> device_job \<Rightarrow> device_job" where
  "retried_job now fence x = x\<lparr>jb_state := J_queued, jb_priority := 1000000, jb_attempt := jb_attempt x + 1,
     jb_fence := fence, jb_device := None, jb_leaseOwner := None, jb_leaseExpiresAt := None,
     jb_startedAt := None, jb_completedAt := None, jb_errorCode := None, jb_screen := None,
     jb_expiresAt := now + 10 * 60000\<rparr>"

definition retryDeviceJob :: "time \<Rightarrow> id \<Rightarrow> string \<Rightarrow> db \<Rightarrow> db outcome" where
  "retryDeviceJob now jid actor d = (case find_job d jid of
       None \<Rightarrow> Inl (ApiError ''not_found'' 404)
     | Some j \<Rightarrow>
         if jb_state j \<noteq> J_failed then Inl (ApiError ''invalid_state'' 409)
         else if jb_committedAt j \<noteq> None then Inl (ApiError ''post_commit_retry_forbidden'' 409)
         else and_then (case job_link d jid of None \<Rightarrow> Inr d | Some (a, t) \<Rightarrow> reopen_transfer now j t d) (\<lambda>d1.
           and_then (allocate_fence (jb_sim j) d1) (\<lambda>(fence, d2).
             let d3 = set_job jid (retried_job now fence) d2;
                 d4 = d3\<lparr>attempts := update_where (\<lambda>a. at_job a = Some jid) (\<lambda>a. a\<lparr>at_fence := fence,
                        at_startedAt := None, at_completedAt := None, at_outcome := None,
                        at_errorCode := None\<rparr>) (attempts d3)\<rparr>
             in Inr (log_audit None ''platform_staff'' actor ''device_job.retried'' ''device_job'' jid
                  (Some (''Admin retried failed pre-commit job as attempt '' @
                     nat_to_digits (nat (jb_attempt j + 1)))) d4))))"

section \<open>Crediting a suspended receipt\<close>

definition suspense_owner :: "json_object \<Rightarrow> auth option" where
  "suspense_owner evidence = (case json_field ''suspense_merchant_id'' evidence of
       Some (JId m) \<Rightarrow> Some (m, if json_field ''suspense_environment'' evidence = Some (JStr ''test'')
         then Test else Live)
     | _ \<Rightarrow> None)"

definition find_case :: "db \<Rightarrow> id \<Rightarrow> recon_case option" where
  "find_case d i = find (\<lambda>c. rn_id c = i) (cases d)"

definition set_case :: "id \<Rightarrow> (recon_case \<Rightarrow> recon_case) \<Rightarrow> db \<Rightarrow> db" where
  "set_case i f d = d\<lparr>cases := update_where (\<lambda>c. rn_id c = i) f (cases d)\<rparr>"

text \<open>The receipt's amount and transaction, and the deposit, when the case can be resolved.\<close>

definition resolvable :: "recon_case \<Rightarrow> id \<Rightarrow> db \<Rightarrow> (sms_receipt \<times> money \<times> string \<times> deposit_intent) option" where
  "resolvable c dep d =
     (case (find (\<lambda>r. rc_id r = rn_refId c) (receipts d), find_deposit d dep) of
        (Some r, Some x) \<Rightarrow> (case (rc_amount r, rc_providerTx r) of
          (Some m, Some tx) \<Rightarrow> if m \<noteq> 0 \<and> tx \<noteq> [] \<and> \<not> truthy (dp_providerTx x) \<and> dp_receipt x = None
            then Some (r, m, tx, x) else None
        | _ \<Rightarrow> None)
      | _ \<Rightarrow> None)"

definition resolveDeposit :: "time \<Rightarrow> id \<Rightarrow> id \<Rightarrow> string \<Rightarrow> string \<Rightarrow> db \<Rightarrow> db outcome" where
  "resolveDeposit now cid dep reason actor d = (case find_case d cid of
       None \<Rightarrow> Inl (ApiError ''invalid_state'' 409)
     | Some c \<Rightarrow>
         if rn_status c \<notin> {R_open, R_proposed} then Inl (ApiError ''invalid_state'' 409)
         else if rn_type c \<notin> {''unmatched_deposit'', ''ambiguous_deposit''} \<or> rn_refType c \<noteq> ''sms_receipt''
         then Inl (ApiError ''invalid_state'' 409)
         else case resolvable c dep d of
           None \<Rightarrow> Inl (ApiError ''invalid_state'' 409)
         | Some (r, m, tx, x) \<Rightarrow> (case suspense_owner (rn_evidence c) of
             None \<Rightarrow> Inl (ApiError ''invalid_state'' 409)
           | Some owner \<Rightarrow>
               and_then (releaseSuspenseToMerchant owner (dep_auth x) cid m d) (\<lambda>d1.
               if dep_tx_taken d1 dep tx \<or> list_ex (\<lambda>y. dp_id y \<noteq> dep \<and> dp_receipt y = Some (rc_id r)) (deposits d1)
               then Inl (RuntimeError ''Unique constraint failed'')
               else
                 let d2 = set_deposit dep (\<lambda>y. y\<lparr>dp_status := D_success, dp_credited := Some m,
                        dp_receipt := Some (rc_id r), dp_providerTx := Some tx\<rparr>) d1;
                     d3 = set_case cid (\<lambda>y. y\<lparr>rn_status := R_resolved, rn_resolution :=
                        [(''action'', JStr ''credit_deposit''), (''deposit_id'', JId dep),
                         (''reason'', JStr reason)]\<rparr>) d2;
                     d4 = log_audit (Some (dp_merchant x)) ''platform_staff'' actor
                        ''reconciliation.credit_deposit'' ''deposit'' dep (Some reason) d3
                 in Inr (emit now ''deposit'' dep (if dp_topup x then ''topup.updated'' else ''deposit.updated'')
                      [(''tx_ref'', JStr (dp_txRef x)), (''status'', JStr ''success''),
                       (''p2p_status'', JStr ''success''), (''manual_resolution'', JBool True)] d4))))"

end
