(* ===== verification/SystemSafety.thy ===== *)
theory SystemSafety
  imports SmsSafety Admin
begin

text \<open>
  The rest of the operations on the system invariant: requests through the idempotency wrapper,
  deposits, settlements, sweeps and the fleet's maintenance; then every operation as one step of
  the whole program.
\<close>

declare split_paired_All [simp del] split_paired_Ex [simp del]

lemma if_Inl_Inr_iff: "(if b then Inl e else m) = Inr y \<longleftrightarrow> \<not> b \<and> m = Inr y"
  by simp

section \<open>Requests\<close>

lemma execute_ok:
  assumes ok: "system_ok d" and ex: "\<And>r d'. io_execute x d = Inr (r, d') \<Longrightarrow> system_ok d'"
    and run: "execute now x d = Inr (replayed, r, d')"
  shows "system_ok d'"
proof -
  from run have "same_core d d' \<or> (\<exists>r d1. io_execute x d = Inr (r, d1) \<and> same_core d1 d')"
    unfolding execute_def
    by (auto simp: idem_replay_def idem_add_missing_def idem_first_def Let_def tx_simps
        split: if_splits option.splits)
  then show ?thesis using system_ok_same_core [OF ok] system_ok_same_core [OF ex] by blast
qed

lemma add_receipt_ok: "system_ok d \<Longrightarrow> system_ok (add_receipt r d)"
  by (rule system_ok_same_core [where d = d]) (simp_all add: add_receipt_def same_core_def same_ledger_def)

lemma set_deposit_core [simp]: "same_core d d' \<Longrightarrow> same_core d (set_deposit i f d')"
  by (simp add: set_deposit_def)

lemma duplicate_receipts_ok:
  "system_ok d \<Longrightarrow> duplicate_receipts now x actual rnd d = Inr (i, d') \<Longrightarrow> system_ok d'"
  by (auto simp: duplicate_receipts_def Let_def add_receipt_ok split: if_splits)

lemma deposit_test_success_ok:
  assumes ok: "system_ok d" and run: "deposit_test_success now auth x sc rnd d = Inr d'"
  shows "system_ok d'"
proof -
  define m where "m = (if sc = Dsc_wrong_amount then dp_amount x + 100 else dp_amount x)"
  from run obtain i d1 d2 where
    d1: "(if sc = Dsc_duplicate then duplicate_receipts now x m rnd d else Inr (None, d)) = Inr (i, d1)"
    and d2: "creditDeposit auth (dp_id x) m d1 = Inr d2"
    and d': "same_core (set_sim (dp_sim x) (\<lambda>s. s\<lparr>sim_main := sim_main s + m\<rparr>) d2) d'"
    unfolding deposit_test_success_def Let_def m_def [symmetric]
    by (auto simp: tx_simps split: if_splits)
  have "system_ok d1" using d1 ok by (auto split: if_splits intro: duplicate_receipts_ok)
  from creditDeposit_ok [OF this d2] have "system_ok d2" .
  then have "system_ok (set_sim (dp_sim x) (\<lambda>s. s\<lparr>sim_main := sim_main s + m\<rparr>) d2)"
    by (rule set_sim_ok) simp_all
  then show ?thesis using d' by (rule system_ok_same_core)
qed

lemma deposit_applyTestScenario_ok:
  assumes "system_ok d" and "deposit_applyTestScenario now auth x sc rnd d = Inr d'"
  shows "system_ok d'"
proof -
  from assms(2) have "same_core d d' \<or> deposit_test_success now auth x sc rnd d = Inr d'"
    by (auto simp: deposit_applyTestScenario_def split: deposit_scenario.splits)
  then show ?thesis using system_ok_same_core [OF assms(1)] deposit_test_success_ok [OF assms(1)] by blast
qed

lemma initialize_deposit_ok:
  assumes ok: "system_ok d" and run: "initialize_deposit now auth input topup rnd d = Inr (v, d')"
  shows "system_ok d'"
proof -
  obtain config d1 where c: "upsert_config (fst auth) d = (config, d1)" by fastforce
  note ok1 = upsert_config_ok [OF ok c]
  from run obtain amount sim d2 x where
    d2: "selectForDeposit now auth (di_customerId input) (di_phone input) amount d1 = Inr (sim, d2)"
    and d4: "(case di_scenario input of
               Some sc \<Rightarrow> if snd auth = Test then deposit_applyTestScenario now auth x sc rnd
                   (d2\<lparr>deposits := deposits d2 @ [x], next_id := Suc (next_id d2)\<rparr>)
                 else Inr (d2\<lparr>deposits := deposits d2 @ [x], next_id := Suc (next_id d2)\<rparr>)
             | None \<Rightarrow> Inr (d2\<lparr>deposits := deposits d2 @ [x], next_id := Suc (next_id d2)\<rparr>)) = Inr d'"
    unfolding initialize_deposit_def c split Let_def and_then_Inr_iff
    by (auto simp: tx_simps split: if_splits option.splits)
  from select_ok(2) [OF ok1 d2] have "system_ok d2" by simp
  then have "system_ok (d2\<lparr>deposits := deposits d2 @ [x], next_id := Suc (next_id d2)\<rparr>)"
    by (rule system_ok_same_core) (simp add: same_core_def same_ledger_def)
  then show ?thesis using d4
    by (auto split: option.splits if_splits intro: deposit_applyTestScenario_ok)
qed

lemma initialize_request_ok:
  assumes ok: "system_ok d"
    and run: "initialize_request now auth input key hash topup rnd store replay d = Inr (b, v, d')"
  shows "system_ok d'"
  by (rule execute_ok [OF ok _ run [unfolded initialize_request_def]]) (auto intro: initialize_deposit_ok [OF ok])

lemma create_request_ok:
  assumes ok: "system_ok d"
    and run: "create_request now sim_tx auth input key hash store replay d = Inr (b, v, d')"
  shows "system_ok d'"
  by (rule execute_ok [OF ok _ run [unfolded create_request_def]])
    (auto simp: tx_simps split: option.splits intro: create_transfer_ok [OF ok])

section \<open>Settlements\<close>

lemma emit_settlement_core [simp]: "same_core d d' \<Longrightarrow> same_core d (emit_settlement now s c p d')"
  by (simp add: emit_settlement_def)

lemma request_settlement_ok:
  assumes ok: "system_ok d" and run: "request_settlement now auth input actor d = Inr (v, d')"
  shows "system_ok d'"
proof -
  have "same_core d (d\<lparr>settlements := settlements d @ [s], next_id := Suc (next_id d)\<rparr>)" for s
    by (simp add: same_core_def same_ledger_def)
  then have "same_core d d'" using run by (auto simp: request_settlement_def Let_def tx_simps split: if_splits)
  then show ?thesis by (rule system_ok_same_core [OF ok])
qed

lemma request_settlement_idempotent_ok:
  assumes ok: "system_ok d"
    and run: "request_settlement_idempotent now auth input actor key hash store replay d = Inr (b, v, d')"
  shows "system_ok d'"
  by (rule execute_ok [OF ok _ run [unfolded request_settlement_idempotent_def]])
    (auto intro: request_settlement_ok [OF ok])

lemma approve_reviewed_ok:
  assumes ok: "system_ok d" and run: "approve_reviewed now sim_tx s reason reviewer d = Inr (v, d')"
  shows "system_ok d'"
proof -
  let ?f = "review S_approved reviewer reason now"
    and ?opts = "\<lparr>qo_kind = Merchant_settlement, qo_mode = Merchant_debit, qo_priority = 300, qo_sim = None\<rparr>"
  from run obtain tid d2 where
    q: "queueTransfer now sim_tx (st_merchant s, st_env s) (settlement_transfer_input s) ?opts
      (set_settlement (st_id s) ?f d) = Inr (tid, d2)"
    and c: "same_core d2 d'"
    by (auto simp: approve_reviewed_def Let_def tx_simps split: option.splits)
  have "system_ok (set_settlement (st_id s) ?f d)" by (rule system_ok_same_core [OF ok]) simp
  from queueTransfer_ok [OF this _ q] have "system_ok d2" by simp
  then show ?thesis using c by (rule system_ok_same_core)
qed

lemma approve_settlement_ok:
  "system_ok d \<Longrightarrow> approve_settlement now sim_tx sid reason reviewer d = Inr (v, d') \<Longrightarrow> system_ok d'"
  by (auto simp: approve_settlement_def split: option.splits if_splits intro: approve_reviewed_ok)

lemma reject_settlement_ok:
  assumes ok: "system_ok d" and run: "reject_settlement now sid reason reviewer d = Inr (v, d')"
  shows "system_ok d'"
proof -
  from run have "same_core d d'"
    by (auto simp: reject_settlement_def Let_def split: option.splits if_splits)
  then show ?thesis by (rule system_ok_same_core [OF ok])
qed

section \<open>Sweeps\<close>

lemma sweep_rule_core [simp]:
  assumes "same_core d d'"
  shows "same_core d (set_rule i f d')" and "same_core d (auditRule r a ty ac rs d')"
  using assms by (simp_all add: set_rule_def auditRule_def)

lemma rule_step_ok:
  assumes ok: "system_ok d"
  shows "create_rule now auth x actor d = Inr (r, d') \<Longrightarrow> system_ok d'"
    and "update_rule auth i x actor d = Inr (r, d') \<Longrightarrow> system_ok d'"
    and "disable_rule auth i reason actor d = Inr (r, d') \<Longrightarrow> system_ok d'"
    and "approve_rule now i reason reviewer d = Inr (r, d') \<Longrightarrow> system_ok d'"
    and "reject_rule now i reason reviewer d = Inr (r, d') \<Longrightarrow> system_ok d'"
proof -
  have new: "same_core d (d\<lparr>sweepRules := sweepRules d @ [r], next_id := Suc (next_id d)\<rparr>)" for r
    by (simp add: same_core_def same_ledger_def)
  note core = system_ok_same_core [OF ok]
  show "system_ok d'" if "create_rule now auth x actor d = Inr (r, d')"
    by (rule core) (use that in \<open>auto simp: create_rule_def Let_def tx_simps new split: if_splits\<close>)
  show "system_ok d'" if "update_rule auth i x actor d = Inr (r, d')"
    by (rule core) (use that in \<open>auto simp: update_rule_def Let_def tx_simps split: if_splits\<close>)
  show "system_ok d'" if "disable_rule auth i reason actor d = Inr (r, d')"
    by (rule core) (use that in \<open>auto simp: disable_rule_def Let_def tx_simps split: if_splits\<close>)
  show "system_ok d'" if "approve_rule now i reason reviewer d = Inr (r, d')"
    by (rule core) (use that in \<open>auto simp: approve_rule_def Let_def tx_simps split: if_splits option.splits\<close>)
  show "system_ok d'" if "reject_rule now i reason reviewer d = Inr (r, d')"
    by (rule core) (use that in \<open>auto simp: reject_rule_def Let_def tx_simps split: if_splits option.splits\<close>)
qed

lemma dispatch_sweep_ok:
  assumes ok: "system_ok d" and s: "sim_id s \<in> sim_id ` set (sims d)"
    and run: "dispatch_sweep now sim_tx r s amount actor reason d = Inr (x, d')"
  shows "system_ok d'"
proof -
  let ?opts = "\<lparr>qo_kind = Automatic_sweep, qo_mode = financialModeForDestination (sr_destination r),
          qo_priority = 200, qo_sim = Some s\<rparr>"
  have new: "same_core d1 (d1\<lparr>sweepExecutions := sweepExecutions d1 @ [x], next_id := Suc (next_id d1)\<rparr>)" for x d1
    by (simp add: same_core_def same_ledger_def)
  from run obtain tid d1 where
    q: "queueTransfer now sim_tx (sr_merchant r, sr_env r) (sweep_transfer_input now r (sim_id s) amount) ?opts d
      = Inr (tid, d1)" and c: "same_core d1 d'"
    unfolding dispatch_sweep_def Let_def and_then_Inr_iff by (auto simp: new split: option.splits)
  from queueTransfer_ok [OF ok _ q] s have "system_ok d1" by simp
  then show ?thesis using c by (rule system_ok_same_core)
qed

lemma sweep_dispatch_ok:
  assumes ok: "system_ok d" and c: "upsert_config m d = (c, d1)" and t: "sweep_target now d r sim = Some (s, g)"
    and run: "dispatch_sweep now sim_tx r s amount actor reason d1 = Inr (x, d')"
  shows "system_ok d'"
proof -
  have "s \<in> set (sims d)" using t by (auto simp: sweep_target_def dest!: find_sim_mem split: option.splits if_splits)
  moreover have "sims d1 = sims d" using same_core_upsert_config [OF c] by (simp add: same_core_def)
  ultimately show ?thesis by (intro dispatch_sweep_ok [OF upsert_config_ok [OF ok c] _ run]) simp
qed

lemma executeCandidate_ok:
  assumes ok: "system_ok d" and run: "executeCandidate now sim_tx rid sim actor reason d = Inr (x, d')"
  shows "system_ok d'"
  using ok run unfolding executeCandidate_def Let_def
  by (auto simp: tx_simps split: option.splits if_splits prod.splits intro: upsert_config_ok sweep_dispatch_ok)

lemma run_candidate_ok:
  "system_ok (snd (snd p)) \<Longrightarrow> system_ok (snd (snd (run_candidate now sim_tx rid actor reason s p)))"
  by (auto simp: run_candidate_def split: prod.splits sum.splits option.splits intro: executeCandidate_ok)

lemma executeRule_ok:
  assumes ok: "system_ok d"
  shows "system_ok (snd (executeRule now sim_tx rid strict actor reason d))"
proof -
  have "system_ok (snd (snd (fold (run_candidate now sim_tx rid actor reason) ss ([], [], d))))" for ss
    by (rule fold_invariant [where P = "\<lambda>p. system_ok (snd (snd p))"]) (simp_all add: ok run_candidate_ok)
  then show ?thesis
    by (auto simp: executeRule_def Let_def ok split: option.splits prod.splits list.splits)
      (metis snd_conv)+
qed

lemma orchestrate_ok:
  assumes "system_ok d"
  shows "system_ok (orchestrateApprovedRules now sim_tx d)"
  unfolding orchestrateApprovedRules_def
  by (rule fold_invariant [where P = system_ok]) (simp_all add: assms executeRule_ok)

section \<open>Maintenance\<close>

lemma transitionDeposits_core [simp]: "same_core d (transitionDeposits now sel st d)"
  unfolding transitionDeposits_def
  by (rule fold_invariant [where P = "same_core d"]) (simp_all add: transition_deposit_def)

lemma updateHealth_ok:
  assumes ok: "system_ok d"
  shows "system_ok (snd (updateHealth now d))"
proof -
  let ?d1 = "d\<lparr>devices := update_where (is_offline now) (\<lambda>v. v\<lparr>dv_status := Dev_offline\<rparr>) (devices d)\<rparr>"
  let ?d2 = "?d1\<lparr>sims := update_where (is_stale now (loadPlatformPolicy d))
      (\<lambda>s. s\<lparr>sim_status := Sim_payout_stale\<rparr>) (sims ?d1)\<rparr>"
  have "system_ok ?d1"
    by (rule system_ok_devices [OF ok]) (auto simp: dev_step_def intro!: list_all2_update_where)
  then have ok2: "system_ok ?d2" by (rule system_ok_sims) (rule same_holds_update, simp_all)
  show ?thesis
    unfolding updateHealth_def Let_def snd_conv
    by (rule system_ok_same_core [OF ok2 same_core_trans [OF transitionDeposits_core transitionDeposits_core]])
qed

lemma queue_balance_query_ok:
  assumes ok: "system_ok d" and run: "queue_balance_query now p d = Inr d'"
  shows "system_ok d'"
proof -
  from run obtain fence d1 where f: "allocate_fence (sim_id (snd p)) d = Inr (fence, d1)"
    and d': "d' = d1\<lparr>jobs := jobs d1 @ [new_job now Balance_query 100 (sim_device (snd p)) (sim_id (snd p))
             (empty_payload\<lparr>pl_iccid := Some (sim_iccid (snd p)),
                pl_notBefore := Some (now + int (fst p) * 1000)\<rparr>) 1 fence (next_id d1)],
           next_id := Suc (next_id d1)\<rparr>"
    by (cases p) (auto simp: queue_balance_query_def tx_simps)
  show ?thesis unfolding d' by (rule system_ok_new_job [OF allocate_fence_ok(1) [OF ok f]]) (simp add: new_job_def)
qed

lemma queueStaleBalanceQueries_ok:
  "system_ok d \<Longrightarrow> queueStaleBalanceQueries now rate d = Inr d' \<Longrightarrow> system_ok d'"
  unfolding queueStaleBalanceQueries_def Let_def
  by (rule foldM_invariant [where P = system_ok and f = "queue_balance_query now"])
    (auto intro: queue_balance_query_ok)

section \<open>Platform operations\<close>

lemma admin_core [simp]:
  assumes "same_core d d'"
  shows "same_core d (set_run i f d')" and "same_core d (consume_codes now dev d')"
    and "same_core d (set_case i g d')"
  using assms by (simp_all add: set_run_def consume_codes_def set_case_def)

lemma add_row_core: "same_core d (d\<lparr>next_id := Suc (next_id d)\<rparr>)"
  by (simp add: same_core_def same_ledger_def)

lemma add_activation_core [simp]: "same_core d d' \<Longrightarrow> same_core d (add_activation now dev h d')"
  by (simp add: add_activation_def same_core_def same_ledger_def)

lemma new_check_core [simp]: "same_core d d' \<Longrightarrow> same_core d (new_check run p d')"
  by (simp add: new_check_def same_core_def same_ledger_def split: prod.split)

lemma add_api_key_core: "add_api_key now m env l s d = Inr (i, d') \<Longrightarrow> same_core d d'"
  by (auto simp: add_api_key_def same_core_def same_ledger_def split: if_splits)

lemma add_invitation_core: "add_invitation now m e r h v d = Inr (i, d') \<Longrightarrow> same_core d d'"
  by (auto simp: add_invitation_def same_core_def same_ledger_def split: if_splits)

lemma createMerchant_ok:
  assumes ok: "system_ok d" and run: "createMerchant now input keys h actor d = Inr (m, d')"
  shows "system_ok d'"
proof -
  let ?d1 = "d\<lparr>merchants := merchants d @ [\<lparr>me_id = next_id d, me_slug = mi_slug input, me_name = mi_name input,
                     me_status = M_active, me_createdAt = now\<rparr>],
                   configs := configs d @ [(default_config (next_id d))
                     \<lparr>cfg_countdownSeconds := pp_countdownSeconds (loadPlatformPolicy d),
                     cfg_lateGraceSeconds := pp_lateGraceSeconds (loadPlatformPolicy d)\<rparr>],
                   next_id := Suc (next_id d)\<rparr>"
  have "and_then (add_api_key now (next_id d) Test ''test default'' (keys Test) ?d1) (\<lambda>(k1, d2).
           and_then (add_api_key now (next_id d) Live ''live default'' (keys Live) d2) (\<lambda>(k2, d3).
           and_then (if truthy (mi_initialTest input)
             then and_then (amountToMinor (the (mi_initialTest input))) (\<lambda>amount.
               creditDeposit (next_id d, Test) (next_id d3) amount (d3\<lparr>next_id := Suc (next_id d3)\<rparr>))
             else Inr d3) (\<lambda>d4.
           and_then (add_invitation now (next_id d) (normalizeEmail (mi_ownerEmail input)) Role_owner h None d4)
             (\<lambda>(v, d5). Inr (next_id d, log_audit (Some (next_id d)) ''platform_staff'' actor
               ''merchant.created'' ''merchant'' (next_id d) None d5))))) = Inr (m, d')"
    using run unfolding createMerchant_def Let_def by (simp only: if_Inl_Inr_iff)
  then obtain k1 d2 k2 d3 d4 v d5 where
    k1: "add_api_key now (next_id d) Test ''test default'' (keys Test) ?d1 = Inr (k1, d2)"
    and k2: "add_api_key now (next_id d) Live ''live default'' (keys Live) d2 = Inr (k2, d3)"
    and c: "(if truthy (mi_initialTest input)
             then and_then (amountToMinor (the (mi_initialTest input))) (\<lambda>amount.
               creditDeposit (next_id d, Test) (next_id d3) amount (d3\<lparr>next_id := Suc (next_id d3)\<rparr>))
             else Inr d3) = Inr d4"
    and v: "add_invitation now (next_id d) (normalizeEmail (mi_ownerEmail input)) Role_owner h None d4 = Inr (v, d5)"
    and d': "d' = log_audit (Some (next_id d)) ''platform_staff'' actor
               ''merchant.created'' ''merchant'' (next_id d) None d5"
    unfolding and_then_Inr_iff split_paired_Ex prod.case by blast
  have "same_core d ?d1" by (simp add: same_core_def same_ledger_def)
  from same_core_trans [OF same_core_trans [OF this add_api_key_core [OF k1]] add_api_key_core [OF k2]]
  have ok3: "system_ok d3" by (rule system_ok_same_core [OF ok])
  have "system_ok d4"
  proof (cases "truthy (mi_initialTest input)")
    case True
    with c obtain amount where
      "creditDeposit (next_id d, Test) (next_id d3) amount (d3\<lparr>next_id := Suc (next_id d3)\<rparr>) = Inr d4"
      unfolding and_then_Inr_iff if_P [OF True] by blast
    then show ?thesis by (rule creditDeposit_ok [OF system_ok_same_core [OF ok3 add_row_core]])
  next
    case False
    with c ok3 show ?thesis by simp
  qed
  then have "system_ok d5" by (rule system_ok_same_core) (rule add_invitation_core [OF v])
  then show ?thesis unfolding d' by (rule system_ok_same_core) simp
qed

lemma fleet_rows_ok:
  assumes ok: "system_ok d"
  shows "createLocation code name d = Inr (i, d') \<Longrightarrow> system_ok d'"
    and "createGroup location code name d = Inr (i, d') \<Longrightarrow> system_ok d'"
    and "upsertMerchantGroupPolicy gid m dedicated priority actor reason d = Inr d' \<Longrightarrow> system_ok d'"
    and "removeMerchantGroupPolicy gid m actor reason d = Inr d' \<Longrightarrow> system_ok d'"
    and "createTreasuryWallet now ti reason actor d = Inr (i, d') \<Longrightarrow> system_ok d'"
    and "confirmTreasuryBalance now w balance reason actor d = Inr d' \<Longrightarrow> system_ok d'"
    and "regenerateActivationCode now dev h actor d = Inr d' \<Longrightarrow> system_ok d'"
    and "recordQualificationCheck now run check cin actor d = Inr d' \<Longrightarrow> system_ok d'"
proof -
  note core = system_ok_same_core [OF ok]
  show "system_ok d'" if "createLocation code name d = Inr (i, d')"
    by (rule core) (use that in \<open>auto simp: createLocation_def same_core_def same_ledger_def split: if_splits\<close>)
  show "system_ok d'" if "createGroup location code name d = Inr (i, d')"
    by (rule core) (use that in \<open>auto simp: createGroup_def Let_def same_core_def same_ledger_def split: if_splits\<close>)
  show "system_ok d'" if "upsertMerchantGroupPolicy gid m dedicated priority actor reason d = Inr d'"
    by (rule core) (use that in \<open>auto simp: upsertMerchantGroupPolicy_def split: if_splits\<close>)
  show "system_ok d'" if "removeMerchantGroupPolicy gid m actor reason d = Inr d'"
    by (rule core) (use that in \<open>auto simp: removeMerchantGroupPolicy_def split: if_splits\<close>)
  have t: "same_core d (snd (upsert_treasury now ti actor d))"
    by (auto simp: upsert_treasury_def same_core_def same_ledger_def split: option.splits)
  show "system_ok d'" if "createTreasuryWallet now ti reason actor d = Inr (i, d')"
    by (rule core) (use that t in \<open>auto simp: createTreasuryWallet_def split: if_splits prod.splits\<close>)
  show "system_ok d'" if "confirmTreasuryBalance now w balance reason actor d = Inr d'"
    by (rule core) (use that in \<open>auto simp: confirmTreasuryBalance_def Let_def split: option.splits\<close>)
  show "system_ok d'" if "regenerateActivationCode now dev h actor d = Inr d'"
    by (rule core) (use that in \<open>auto simp: regenerateActivationCode_def split: option.splits if_splits\<close>)
  show "system_ok d'" if "recordQualificationCheck now run check cin actor d = Inr d'"
    by (rule core) (use that in \<open>auto simp: recordQualificationCheck_def Let_def split: option.splits if_splits\<close>)
qed

lemma set_sims_ok:
  assumes "system_ok d" and "\<And>s. sim_id (f s) = sim_id s" and "\<And>s. sim_reserved (f s) = sim_reserved s"
  shows "system_ok (d\<lparr>sims := update_where p f (sims d)\<rparr>)"
  by (rule system_ok_sims [OF assms(1) same_holds_update [OF assms(2,3)]])

lemma add_sim_ok: "system_ok d \<Longrightarrow> add_sim dev x d = Inr d' \<Longrightarrow> system_ok d'"
  by (auto simp: add_sim_def new_sim_def intro!: system_ok_new_sim split: if_splits)

lemma createDevice_ok:
  assumes ok: "system_ok d" and run: "createDevice now input h actor d = Inr (i, d')"
  shows "system_ok d'"
proof -
  from run obtain d1 where
    f: "foldM (add_sim (next_id d)) (dn_sims input)
      (d\<lparr>devices := devices d @ [new_device input (next_id d)], next_id := Suc (next_id d)\<rparr>) = Inr d1"
    and c: "same_core d1 d'"
    unfolding createDevice_def Let_def by (auto simp: tx_simps split: if_splits)
  have "system_ok (d\<lparr>devices := devices d @ [new_device input (next_id d)], next_id := Suc (next_id d)\<rparr>)"
    by (rule system_ok_new_device [OF ok]) (simp_all add: new_device_def)
  from foldM_invariant [where P = system_ok, OF add_sim_ok this f] have "system_ok d1" .
  then show ?thesis using c by (rule system_ok_same_core)
qed

lemma system_ok_audit:
  "system_ok d \<Longrightarrow> system_ok (log_audit m a b c rt ri r d)"
  by (erule system_ok_same_core) simp

lemma set_device_sims_ok:
  assumes "system_ok (set_device i g d)"
    and "\<And>s. sim_id (f s) = sim_id s" and "\<And>s. sim_reserved (f s) = sim_reserved s"
  shows "system_ok (set_device i g d\<lparr>sims := update_where p f (sims d)\<rparr>)"
  using set_sims_ok [OF assms] by simp

lemma setDeviceOnline_ok: "system_ok d \<Longrightarrow> setDeviceOnline dev online actor d = Inr d' \<Longrightarrow> system_ok d'"
  by (auto simp: setDeviceOnline_def Let_def split: option.splits if_splits
      intro!: system_ok_audit set_device_sims_ok set_device_ok)

lemma device_sims_status_ok: "system_ok d \<Longrightarrow> system_ok (device_sims_status dev st d)"
  unfolding device_sims_status_def by (rule set_sims_ok) simp_all

lemma quarantine_ok: "system_ok d \<Longrightarrow> quarantine dev reason actor d = Inr d' \<Longrightarrow> system_ok d'"
  by (auto simp: quarantine_def split: if_splits intro!: system_ok_audit device_sims_status_ok set_device_ok)

lemma startQualification_ok:
  assumes ok: "system_ok d" and run: "startQualification now dev actor d = Inr (i, d')"
  shows "system_ok d'"
proof -
  have f: "same_core d (fold (new_check r) cs e)" if "same_core d e" for r cs e
    by (rule fold_invariant [where P = "same_core d"]) (use that in simp_all)
  have n: "same_core d (d\<lparr>qualRuns := rs, next_id := Suc (next_id d)\<rparr>)" for rs
    by (simp add: same_core_def same_ledger_def)
  from run ok f [OF n] show ?thesis
    by (auto simp: startQualification_def Let_def simp del: fold_append split: option.splits if_splits
        intro!: system_ok_audit device_sims_status_ok set_device_ok
        intro: system_ok_same_core)
qed

lemma approveQualification_ok:
  "system_ok d \<Longrightarrow> approveQualification now run reason actor d = Inr d' \<Longrightarrow> system_ok d'"
  by (auto simp: approveQualification_def Let_def split: option.splits if_splits
      intro!: system_ok_audit set_device_ok set_sims_ok intro: system_ok_same_core)

lemma rejectQualification_ok:
  "system_ok d \<Longrightarrow> rejectQualification now run reason actor d = Inr d' \<Longrightarrow> system_ok d'"
  by (auto simp: rejectQualification_def Let_def split: option.splits if_splits
      intro!: system_ok_audit device_sims_status_ok set_device_ok intro: system_ok_same_core)

lemma queueBalance_ok:
  assumes ok: "system_ok d" and run: "queueBalance now sim d = Inr (i, d')"
  shows "system_ok d'"
proof -
  have "system_ok (d1\<lparr>jobs := jobs d1 @ [new_job now Balance_query 100 dev sim pl 1 fence (next_id d1)],
      next_id := Suc (next_id d1)\<rparr>)" if "allocate_fence sim d = Inr (fence, d1)" for d1 dev pl fence
    by (rule system_ok_new_job [OF allocate_fence_ok(1) [OF ok that]]) (simp add: new_job_def)
  with run ok show ?thesis by (auto simp: queueBalance_def tx_simps split: option.splits)
qed

lemma deleteDevice_ok:
  assumes ok: "system_ok d" and run: "deleteDevice dev n reason actor d = Inr d'"
  shows "system_ok d'"
proof -
  let ?d = "d\<lparr>devices := filter (\<lambda>x. dv_id x \<noteq> dev) (devices d), sims := filter (\<lambda>s. sim_device s \<noteq> dev) (sims d)\<rparr>"
  have sl: "same_ledger d ?d" by (simp add: same_ledger_def)
  note parts = system_ok_parts [OF ok] and reads = same_ledger_reads [OF sl]
  have "ledger_ok ?d" by (rule ledger_ok_same [OF parts(1) sl])
  moreover have "holds_ok ?d" using parts(2) by (simp add: holds_ok_def ledger_held_def sim_held_def reads)
  moreover have "rows_ok ?d" using parts(3) by (auto simp: rows_ok_def intro: distinct_map_filter)
  moreover have "posts_ok ?d" using parts(4) by (simp add: posts_ok_def reads)
  moreover have "attempts_ok ?d" "jobs_ok ?d" "locks_ok ?d"
    using parts(5,6,7) by (auto simp: attempts_ok_def jobs_ok_def locks_ok_def latest_attempt_def)
  ultimately have "system_ok ?d" by (simp add: system_ok_def)
  moreover have "same_core ?d d'"
    using run by (auto simp: deleteDevice_def Let_def same_core_def same_ledger_def log_audit_def
        split: option.splits if_splits)
  ultimately show ?thesis by (rule system_ok_same_core)
qed

lemma executeDeviceJobNow_ok:
  assumes ok: "system_ok d" and run: "executeDeviceJobNow jid actor d = Inr d'"
  shows "system_ok d'"
proof -
  let ?d = "set_job jid (\<lambda>x. x\<lparr>jb_priority := 1000000\<rparr>) d"
  have "frame_step d ?d"
    by (rule keep_frame [where p = "\<lambda>x. jb_id x = jid" and h = "\<lambda>x. x\<lparr>jb_priority := 1000000\<rparr>"])
      (simp_all add: unfinished_job_def dev_step_def list_all2_same)
  then have "system_ok ?d" by (intro system_ok_idle [OF ok]) simp_all
  with run show ?thesis
    by (auto simp: executeDeviceJobNow_def split: option.splits if_splits intro: system_ok_audit)
qed

lemma set_case_core [simp]: "same_core d d' \<Longrightarrow> same_core d (set_case i f d')"
  by (simp add: set_case_def)

lemma releaseSuspense_ok:
  "system_ok d \<Longrightarrow> releaseSuspenseToMerchant s t i m d = Inr d' \<Longrightarrow> system_ok d'"
  by (rule other_op_ok [where p = "Release_suspense s t i m"]) (simp_all add: other_sources at_def key_of_def)

lemma resolveDeposit_ok:
  assumes ok: "system_ok d" and run: "resolveDeposit now cid dep reason actor d = Inr d'"
  shows "system_ok d'"
  using run unfolding resolveDeposit_def
  by (auto simp: tx_simps Let_def split: option.splits if_splits prod.splits
      intro!: system_ok_same_core [OF releaseSuspense_ok [OF ok]])

lemma rule_request_ok:
  assumes ok: "system_ok d"
    and ex: "\<And>r d'. f d = Inr (r, d') \<Longrightarrow> system_ok d'"
    and run: "rule_request now auth oper key ref hash f store replay d = Inr (b, v, d')"
  shows "system_ok d'"
  by (rule execute_ok [OF ok _ run [unfolded rule_request_def]]) (auto simp: tx_simps ex)

end
