(* ===== verification/System.thy ===== *)
theory System
  imports SystemSafety
begin

text \<open>
  The program as one system: every operation of its interfaces as a value, run in a
  transaction of its own over the database, and what holds after any sequence of them. A
  request's time, random bytes, hashes and serialisers are arguments of the operation.
\<close>

section \<open>Operations\<close>

text \<open>Requests of a merchant, with the key and the hash of the idempotency wrapper.\<close>

datatype merchant_op =
    Initialize auth deposit_input string string bool sim_random "deposit_view \<Rightarrow> json" "json \<Rightarrow> deposit_view"
  | Transfer string auth transfer_input string string "transfer_view \<Rightarrow> json" "json \<Rightarrow> transfer_view"
  | Complete_test string auth string op_outcome
  | Settle auth settlement_input string string string "settlement_view \<Rightarrow> json" "json \<Rightarrow> settlement_view"
  | Create_rule auth sweep_input string string string "rule_view \<Rightarrow> json" "json \<Rightarrow> rule_view"
  | Update_rule auth id sweep_input string string string "rule_view \<Rightarrow> json" "json \<Rightarrow> rule_view"
  | Disable_rule auth id string string string string "rule_view \<Rightarrow> json" "json \<Rightarrow> rule_view"

fun run_merchant :: "time \<Rightarrow> merchant_op \<Rightarrow> db \<Rightarrow> db outcome" where
  "run_merchant now (Initialize a x key hash topup rnd store replay) d =
     map_outcome (\<lambda>(b, v, d'). d') (initialize_request now a x key hash topup rnd store replay d)"
| "run_merchant now (Transfer sim_tx a x key hash store replay) d =
     map_outcome (\<lambda>(b, v, d'). d') (create_request now sim_tx a x key hash store replay d)"
| "run_merchant now (Complete_test sim_tx a reference out) d =
     map_outcome snd (completeTest now sim_tx a reference out d)"
| "run_merchant now (Settle a x actor key hash store replay) d =
     map_outcome (\<lambda>(b, v, d'). d') (request_settlement_idempotent now a x actor key hash store replay d)"
| "run_merchant now (Create_rule a x actor key hash store replay) d =
     map_outcome (\<lambda>(b, v, d'). d') (create_rule_request now a x actor key hash store replay d)"
| "run_merchant now (Update_rule a i x actor key hash store replay) d =
     map_outcome (\<lambda>(b, v, d'). d') (update_rule_request now a i x actor key hash store replay d)"
| "run_merchant now (Disable_rule a i reason actor key hash store replay) d =
     map_outcome (\<lambda>(b, v, d'). d') (disable_rule_request now a i reason actor key hash store replay d)"

text \<open>Messages of a phone.\<close>

datatype device_op =
    Activate activation_input string "string option"
  | Heartbeat id heartbeat_input
  | Lease id
  | Renew id id int
  | Renew_connection id "id option" "int option"
  | Report id id job_report "spool_context option"
  | Report_spool id id int job_state int spool_context
  | Ingest id string id sms_event

fun run_device :: "time \<Rightarrow> device_op \<Rightarrow> db \<Rightarrow> db outcome" where
  "run_device now (Activate x token cert) d = map_outcome (\<lambda>(i, ss, d'). d') (activate now x token cert d)"
| "run_device now (Heartbeat dev h) d = heartbeat now dev h d"
| "run_device now (Lease dev) d = map_outcome (\<lambda>(e, r, d'). d') (leaseNext now dev d)"
| "run_device now (Renew dev j fence) d = map_outcome snd (renew now dev j fence d)"
| "run_device now (Renew_connection dev j fence) d = map_outcome snd (renewActiveForConnection now dev j fence d)"
| "run_device now (Report dev j r ctx) d = map_outcome (\<lambda>(n, i, d'). d') (report now dev j r ctx d)"
| "run_device now (Report_spool dev j fence st seq ctx) d =
     map_outcome (\<lambda>(n, i, d'). d') (reportFromSpool now dev j fence st seq ctx d)"
| "run_device now (Ingest system hash dev e) d = map_outcome (\<lambda>(r, i, d'). d') (ingest now system hash dev e d)"

text \<open>Decisions of the platform's staff.\<close>

datatype staff_op =
    Cancel_transfer id string
  | Resolve_unknown id resolve_input
  | Approve_name id string
  | Approve_settlement string id string
  | Reject_settlement id string
  | Approve_rule id string
  | Reject_rule id string
  | Execute_rule "id \<Rightarrow> string" id string
  | Execute_job_now id
  | Resolve_deposit id id string
  | Queue_balance id

fun run_staff :: "time \<Rightarrow> string \<Rightarrow> staff_op \<Rightarrow> db \<Rightarrow> db outcome" where
  "run_staff now actor (Cancel_transfer t reason) d = cancelBeforeStart now t reason actor d"
| "run_staff now actor (Resolve_unknown t x) d = resolveUnknown now t x actor d"
| "run_staff now actor (Approve_name t reason) d = approveNameAndRetry now t reason actor d"
| "run_staff now actor (Approve_settlement sim_tx s reason) d =
     map_outcome snd (approve_settlement now sim_tx s reason actor d)"
| "run_staff now actor (Reject_settlement s reason) d = map_outcome snd (reject_settlement now s reason actor d)"
| "run_staff now actor (Approve_rule r reason) d = map_outcome snd (approve_rule now r reason actor d)"
| "run_staff now actor (Reject_rule r reason) d = map_outcome snd (reject_rule now r reason actor d)"
| "run_staff now actor (Execute_rule sim_tx r reason) d = Inr (snd (executeNow now sim_tx r reason actor d))"
| "run_staff now actor (Execute_job_now j) d = executeDeviceJobNow j actor d"
| "run_staff now actor (Resolve_deposit c dep reason) d = resolveDeposit now c dep reason actor d"
| "run_staff now actor (Queue_balance sim) d = map_outcome snd (queueBalance now sim d)"

text \<open>The fleet's administration.\<close>

datatype fleet_op =
    Create_merchant merchant_input "environment \<Rightarrow> string \<times> string" string
  | Create_location string string
  | Create_group id string string
  | Upsert_policy id id bool int string
  | Remove_policy id id string
  | Create_device device_input string
  | Set_online id bool
  | Regenerate_code id string
  | Delete_device id nat string
  | Start_qualification id
  | Record_check id id check_input
  | Approve_qualification id string
  | Reject_qualification id string
  | Create_treasury treasury_input string
  | Confirm_treasury id string string
  | Quarantine id string

fun run_fleet :: "time \<Rightarrow> string \<Rightarrow> fleet_op \<Rightarrow> db \<Rightarrow> db outcome" where
  "run_fleet now actor (Create_merchant x keys h) d = map_outcome snd (createMerchant now x keys h actor d)"
| "run_fleet now actor (Create_location code name) d = map_outcome snd (createLocation code name d)"
| "run_fleet now actor (Create_group l code name) d = map_outcome snd (createGroup l code name d)"
| "run_fleet now actor (Upsert_policy g m dedicated priority reason) d =
     upsertMerchantGroupPolicy g m dedicated priority actor reason d"
| "run_fleet now actor (Remove_policy g m reason) d = removeMerchantGroupPolicy g m actor reason d"
| "run_fleet now actor (Create_device x h) d = map_outcome snd (createDevice now x h actor d)"
| "run_fleet now actor (Set_online dev online) d = setDeviceOnline dev online actor d"
| "run_fleet now actor (Regenerate_code dev h) d = regenerateActivationCode now dev h actor d"
| "run_fleet now actor (Delete_device dev n reason) d = deleteDevice dev n reason actor d"
| "run_fleet now actor (Start_qualification dev) d = map_outcome snd (startQualification now dev actor d)"
| "run_fleet now actor (Record_check run check x) d = recordQualificationCheck now run check x actor d"
| "run_fleet now actor (Approve_qualification run reason) d = approveQualification now run reason actor d"
| "run_fleet now actor (Reject_qualification run reason) d = rejectQualification now run reason actor d"
| "run_fleet now actor (Create_treasury x reason) d = map_outcome snd (createTreasuryWallet now x reason actor d)"
| "run_fleet now actor (Confirm_treasury w balance reason) d = confirmTreasuryBalance now w balance reason actor d"
| "run_fleet now actor (Quarantine dev reason) d = quarantine dev reason actor d"

text \<open>The periodic jobs of the workers.\<close>

datatype worker_op =
    Expire_jobs bool
  | Orchestrate_sweeps "id \<Rightarrow> string"
  | Update_health
  | Queue_balances nat

fun run_worker :: "time \<Rightarrow> worker_op \<Rightarrow> db \<Rightarrow> db outcome" where
  "run_worker now (Expire_jobs acquired) d = map_outcome snd (expireFinancialJobs acquired now d)"
| "run_worker now (Orchestrate_sweeps sim_tx) d = Inr (orchestrateApprovedRules now sim_tx d)"
| "run_worker now Update_health d = Inr (snd (updateHealth now d))"
| "run_worker now (Queue_balances rate) d = queueStaleBalanceQueries now rate d"

datatype system_op =
    Merchant time merchant_op
  | Device time device_op
  | Staff time string staff_op
  | Fleet_admin time string fleet_op
  | Worker time worker_op

fun run_system :: "system_op \<Rightarrow> db \<Rightarrow> db outcome" where
  "run_system (Merchant now x) = run_merchant now x"
| "run_system (Device now x) = run_device now x"
| "run_system (Staff now actor x) = run_staff now actor x"
| "run_system (Fleet_admin now actor x) = run_fleet now actor x"
| "run_system (Worker now x) = run_worker now x"

section \<open>Every operation keeps the invariant\<close>

lemma run_merchant_ok:
  assumes ok: "system_ok d" and run: "run_merchant now x d = Inr d'"
  shows "system_ok d'"
proof (cases x)
  case (Initialize a y key hash topup rnd store replay)
  with run show ?thesis by (auto simp: tx_simps intro: initialize_request_ok [OF ok])
next
  case (Transfer sim_tx a y key hash store replay)
  with run show ?thesis by (auto simp: tx_simps intro: create_request_ok [OF ok])
next
  case (Complete_test sim_tx a reference out)
  with run show ?thesis by (auto simp: tx_simps intro: completeTest_ok [OF ok])
next
  case (Settle a y actor key hash store replay)
  with run show ?thesis by (auto simp: tx_simps intro: request_settlement_idempotent_ok [OF ok])
next
  case (Create_rule a y actor key hash store replay)
  with run show ?thesis
    by (auto simp: tx_simps create_rule_request_def intro: rule_request_ok [OF ok] rule_step_ok [OF ok])
next
  case (Update_rule a i y actor key hash store replay)
  with run show ?thesis
    by (auto simp: tx_simps update_rule_request_def intro: rule_request_ok [OF ok] rule_step_ok [OF ok])
next
  case (Disable_rule a i reason actor key hash store replay)
  with run show ?thesis
    by (auto simp: tx_simps disable_rule_request_def intro: rule_request_ok [OF ok] rule_step_ok [OF ok])
qed

lemma run_device_ok:
  assumes ok: "system_ok d" and run: "run_device now x d = Inr d'"
  shows "system_ok d'"
  using run
  by (cases x)
    (auto simp: tx_simps
      intro: activate_ok [OF ok] heartbeat_ok [OF ok] leaseNext_ok [OF ok] renew_ok [OF ok]
        renewActiveForConnection_ok [OF ok] report_ok [OF ok] reportFromSpool_ok [OF ok] ingest_ok [OF ok])

lemma run_staff_ok:
  assumes ok: "system_ok d" and run: "run_staff now actor x d = Inr d'"
  shows "system_ok d'"
  using run
  by (cases x)
    (auto simp: tx_simps executeNow_def executeRule_ok [OF ok]
      intro: cancelBeforeStart_ok [OF ok] resolveUnknown_ok [OF ok] approveNameAndRetry_ok [OF ok]
        approve_settlement_ok [OF ok] reject_settlement_ok [OF ok] rule_step_ok [OF ok]
        executeDeviceJobNow_ok [OF ok] resolveDeposit_ok [OF ok] queueBalance_ok [OF ok])

lemma run_fleet_ok:
  assumes ok: "system_ok d" and run: "run_fleet now actor x d = Inr d'"
  shows "system_ok d'"
  using run
  by (cases x)
    (auto simp: tx_simps
      intro: createMerchant_ok [OF ok] fleet_rows_ok [OF ok] createDevice_ok [OF ok]
        setDeviceOnline_ok [OF ok] deleteDevice_ok [OF ok] startQualification_ok [OF ok]
        approveQualification_ok [OF ok] rejectQualification_ok [OF ok] quarantine_ok [OF ok])

lemma run_worker_ok:
  assumes ok: "system_ok d" and run: "run_worker now x d = Inr d'"
  shows "system_ok d'"
  using run
  by (cases x)
    (auto simp: tx_simps updateHealth_ok [OF ok] orchestrate_ok [OF ok]
      intro: expireFinancialJobs_ok [OF ok] queueStaleBalanceQueries_ok [OF ok])

lemma run_system_ok: "system_ok d \<Longrightarrow> run_system x d = Inr d' \<Longrightarrow> system_ok d'"
  by (cases x) (auto intro: run_merchant_ok run_device_ok run_staff_ok run_fleet_ok run_worker_ok)

interpretation sys: guarded_system run_system system_ok
  by unfold_locales (rule run_system_ok)

end
