(* ===== verification/UrlPolicy.thy ===== *)
theory UrlPolicy
  imports Names "HOL-Library.Word"
begin

text \<open>
  Where a webhook may be sent, \<open>apps/api/src/webhooks/webhook-url-policy.service.ts\<close>: the
  parsers of IPv4 and IPv6 addresses, the ranges that are refused, and the check of a URL with
  the DNS answers it resolves to. \<open>new URL\<close>, \<open>isIP\<close> and the DNS lookup are arguments. The
  ranges are compared with a table of CIDR blocks, bit by bit.
\<close>

unbundle bit_operations_syntax

section \<open>IPv4\<close>

text \<open>\<open>Number(part)\<close> when it is an integer of 0..255 that prints back to \<open>part\<close>: only a string
  of digits does.\<close>

definition ipv4_value :: "string \<Rightarrow> nat option" where
  "ipv4_value p = (if p \<noteq> [] \<and> list_all is_digit p \<and> nat_of_digits p \<le> 255 \<and>
     nat_to_digits (nat_of_digits p) = p then Some (nat_of_digits p) else None)"

definition ipv4Bytes :: "string \<Rightarrow> 8 word list option" where
  "ipv4Bytes address =
     (let parts = split_on (CHR ''.'') address in
      if length parts \<noteq> 4 then None
      else if list_ex (\<lambda>p. ipv4_value p = None) parts then None
      else Some (map (\<lambda>p. of_nat (the (ipv4_value p))) parts))"

definition public_ipv4_bytes :: "8 word list \<Rightarrow> bool" where
  "public_ipv4_bytes bs =
     (let a = bs ! 0; b = bs ! 1; c = bs ! 2 in
      if a = 0 \<or> a = 10 \<or> a = 127 \<or> 224 \<le> a then False
      else if a = 100 \<and> 64 \<le> b \<and> b \<le> 127 then False
      else if a = 169 \<and> b = 254 then False
      else if a = 172 \<and> 16 \<le> b \<and> b \<le> 31 then False
      else if a = 192 \<and> b = 0 \<and> (c = 0 \<or> c = 2) then False
      else if a = 192 \<and> b = 88 \<and> c = 99 then False
      else if a = 192 \<and> b = 168 then False
      else if a = 198 \<and> (b = 18 \<or> b = 19) then False
      else if a = 198 \<and> b = 51 \<and> c = 100 then False
      else if a = 203 \<and> b = 0 \<and> c = 113 then False
      else True)"

definition isPublicIpv4 :: "string \<Rightarrow> bool" where
  "isPublicIpv4 address = (case ipv4Bytes address of None \<Rightarrow> False | Some bs \<Rightarrow> public_ipv4_bytes bs)"

definition print_ipv4 :: "8 word list \<Rightarrow> string" where
  "print_ipv4 bs = join_with ''.'' (map (\<lambda>b. nat_to_digits (unat b)) bs)"

section \<open>IPv6\<close>

definition hex_char :: "nat \<Rightarrow> char" where
  "hex_char n = (if n < 10 then digit_char n else char_of (87 + n))"

fun to_hex :: "nat \<Rightarrow> string" where
  "to_hex n = (if n < 16 then [hex_char n] else to_hex (n div 16) @ [hex_char (n mod 16)])"

declare to_hex.simps [simp del]

definition is_hex :: "char \<Rightarrow> bool" where
  "is_hex c = (is_digit c \<or> (97 \<le> (of_char c :: nat) \<and> (of_char c :: nat) \<le> 102))"

definition hex_value :: "char \<Rightarrow> nat" where
  "hex_value c = (if is_digit c then digit_value c else of_char c - 87)"

text \<open>\<open>Number.parseInt(group, 16)\<close> of hexadecimal digits.\<close>

definition nat_of_hex :: "string \<Rightarrow> nat" where
  "nat_of_hex s = fold (\<lambda>c acc. 16 * acc + hex_value c) s 0"

text \<open>\<open>split('::')\<close>.\<close>

fun split_double :: "string \<Rightarrow> string list" where
  "split_double [] = [[]]"
| "split_double [c] = [[c]]"
| "split_double (c # e # s) =
     (if c = CHR '':'' \<and> e = CHR '':'' then [] # split_double s
      else (case split_double (e # s) of [] \<Rightarrow> [[c]] | w # ws \<Rightarrow> (c # w) # ws))"

text \<open>The text before the last colon (\<open>slice(0, -1)\<close> when there is none), and after it.\<close>

definition before_colon :: "string \<Rightarrow> string" where
  "before_colon s = (if CHR '':'' \<in> set s
     then rev (tl (dropWhile (\<lambda>c. c \<noteq> CHR '':'') (rev s))) else butlast s)"

definition after_colon :: "string \<Rightarrow> string" where
  "after_colon s = rev (takeWhile (\<lambda>c. c \<noteq> CHR '':'') (rev s))"

definition pair_hex :: "8 word \<Rightarrow> 8 word \<Rightarrow> string" where
  "pair_hex a b = to_hex (unat ((push_bit 8 (ucast a) :: 16 word) OR ucast b))"

text \<open>A dotted tail is written as two groups.\<close>

definition normalize_tail :: "string \<Rightarrow> string option" where
  "normalize_tail address =
     (if CHR ''.'' \<in> set (after_colon address)
      then (case ipv4Bytes (after_colon address) of
          None \<Rightarrow> None
        | Some v4 \<Rightarrow> Some (before_colon address @ '':'' @ pair_hex (v4 ! 0) (v4 ! 1) @ '':'' @
            pair_hex (v4 ! 2) (v4 ! 3)))
      else Some address)"

definition groups_of :: "string \<Rightarrow> string list" where
  "groups_of s = (if s = [] then [] else split_on (CHR '':'') s)"

definition group_bytes :: "string \<Rightarrow> 8 word list" where
  "group_bytes g = (let v = (of_nat (nat_of_hex g) :: 16 word) in
     [ucast (drop_bit 8 v), ucast (v AND 0xff)])"

definition is_group :: "string \<Rightarrow> bool" where
  "is_group g = (1 \<le> length g \<and> length g \<le> 4 \<and> list_all is_hex g)"

definition expand_groups :: "string \<Rightarrow> string list option" where
  "expand_groups normalized =
     (let halves = split_double normalized;
          left = groups_of (halves ! 0);
          right = (if length halves < 2 then [] else groups_of (halves ! 1));
          compressed = 2 \<le> length halves
      in if (\<not> compressed \<and> length left \<noteq> 8) \<or> (compressed \<and> 8 \<le> length left + length right) then None
         else Some (left @ replicate (if compressed then 8 - length left - length right else 0) ''0'' @ right))"

definition parseIpv6 :: "string \<Rightarrow> 8 word list option" where
  "parseIpv6 input =
     (let address = map to_lower input in
      if CHR ''%'' \<in> set address \<or> 2 < length (split_double address) then None
      else case normalize_tail address of
        None \<Rightarrow> None
      | Some normalized \<Rightarrow> (case expand_groups normalized of
          None \<Rightarrow> None
        | Some gs \<Rightarrow> if length gs \<noteq> 8 \<or> list_ex (\<lambda>g. \<not> is_group g) gs then None
            else Some (concat (map group_bytes gs))))"

definition hasPrefix :: "8 word list \<Rightarrow> 8 word list \<Rightarrow> nat \<Rightarrow> bool" where
  "hasPrefix bytes prefix bits =
     (let whole = bits div 8; rest = bits mod 8 in
      if list_ex (\<lambda>i. bytes ! i \<noteq> prefix ! i) [0..<whole] then False
      else if rest = 0 then True
      else let mask = push_bit (8 - rest) 0xff AND (0xff :: 8 word)
           in bytes ! whole AND mask = prefix ! whole AND mask)"

definition public_ipv6_bytes :: "8 word list \<Rightarrow> bool" where
  "public_ipv6_bytes bytes =
     (if list_all (\<lambda>b. b = 0) (take 10 bytes) \<and> bytes ! 10 = 0xff \<and> bytes ! 11 = 0xff
      then isPublicIpv4 (print_ipv4 (drop 12 bytes))
      else if \<not> hasPrefix bytes [0x20] 3 then False
      else if hasPrefix bytes [0x20, 0x01, 0x00] 23 then False
      else if hasPrefix bytes [0x20, 0x01, 0x0d, 0xb8] 32 then False
      else if hasPrefix bytes [0x20, 0x02] 16 then False
      else if hasPrefix bytes [0x3f, 0xfe] 16 \<or> hasPrefix bytes [0x3f, 0xff, 0x00] 20 then False
      else True)"

definition isPublicIpv6 :: "string \<Rightarrow> bool" where
  "isPublicIpv6 address = (case parseIpv6 address of None \<Rightarrow> False | Some bytes \<Rightarrow> public_ipv6_bytes bytes)"

section \<open>URLs\<close>

definition isPublicWebhookAddress :: "(string \<Rightarrow> nat) \<Rightarrow> string \<Rightarrow> bool" where
  "isPublicWebhookAddress isIP address =
     (if isIP address = 4 then isPublicIpv4 address
      else if isIP address = 6 then isPublicIpv6 address else False)"

text \<open>The fields of a \<open>URL\<close> that are read.\<close>

record url_parts =
  url_protocol :: string
  url_username :: string
  url_password :: string
  url_hostname :: string
  url_hash :: string

record resolver =
  rs_production :: bool
  rs_parse :: "string \<Rightarrow> url_parts option"
  rs_isIP :: "string \<Rightarrow> nat"
  rs_lookup :: "string \<Rightarrow> string list option"

record webhook_target =
  wt_url :: url_parts
  wt_address :: string
  wt_family :: nat

definition invalid_url :: "'a outcome" where
  "invalid_url = Inl (ApiError ''invalid_webhook_url'' 422)"

definition bare_host :: "string \<Rightarrow> string" where
  "bare_host h = (if starts_with h ''['' \<and> ends_with h '']'' then butlast (tl h) else h)"

definition resolved_records :: "resolver \<Rightarrow> string \<Rightarrow> string list option" where
  "resolved_records r host = (if rs_isIP r host \<noteq> 0 then Some [host] else rs_lookup r host)"

definition resolveWebhookTarget :: "resolver \<Rightarrow> string \<Rightarrow> webhook_target outcome" where
  "resolveWebhookTarget r rawUrl = (case rs_parse r rawUrl of
       None \<Rightarrow> invalid_url
     | Some url \<Rightarrow>
         if url_protocol url \<notin> (if rs_production r then {''https:''} else {''https:'', ''http:''})
         then invalid_url
         else if url_username url \<noteq> [] \<or> url_password url \<noteq> [] then invalid_url
         else if url_hostname url = [] \<or> url_hash url \<noteq> [] then invalid_url
         else case resolved_records r (bare_host (url_hostname url)) of
           None \<Rightarrow> invalid_url
         | Some records \<Rightarrow>
             if records = [] \<or> list_ex (\<lambda>a. \<not> isPublicWebhookAddress (rs_isIP r) a) records then invalid_url
             else
               let selected = records ! 0; family = rs_isIP r selected in
               if family \<noteq> 4 \<and> family \<noteq> 6 then invalid_url
               else Inr \<lparr>wt_url = url, wt_address = selected, wt_family = family\<rparr>)"

section \<open>The ranges as CIDR blocks\<close>

definition byte_bits :: "8 word \<Rightarrow> bool list" where
  "byte_bits b = map (\<lambda>i. bit b (7 - i)) [0..<8]"

definition bits_of :: "8 word list \<Rightarrow> bool list" where
  "bits_of bs = concat (map byte_bits bs)"

text \<open>An address is in a block when the first \<open>n\<close> bits agree with the block's prefix.\<close>

definition in_block :: "8 word list \<Rightarrow> 8 word list \<times> nat \<Rightarrow> bool" where
  "in_block bs = (\<lambda>(prefix, n). take n (bits_of bs) = take n (bits_of prefix))"

definition special_ipv4 :: "(8 word list \<times> nat) list" where
  "special_ipv4 = [([0, 0, 0, 0], 8), ([10, 0, 0, 0], 8), ([100, 64, 0, 0], 10), ([127, 0, 0, 0], 8),
     ([169, 254, 0, 0], 16), ([172, 16, 0, 0], 12), ([192, 0, 0, 0], 24), ([192, 0, 2, 0], 24),
     ([192, 88, 99, 0], 24), ([192, 168, 0, 0], 16), ([198, 18, 0, 0], 15), ([198, 51, 100, 0], 24),
     ([203, 0, 113, 0], 24), ([224, 0, 0, 0], 3)]"

definition special_ipv6 :: "(8 word list \<times> nat) list" where
  "special_ipv6 = [([0x20, 0x01, 0x00], 23), ([0x20, 0x01, 0x0d, 0xb8], 32), ([0x20, 0x02], 16),
     ([0x3f, 0xfe], 16), ([0x3f, 0xff, 0x00], 20)]"

definition mapped_ipv4 :: "8 word list \<times> nat" where
  "mapped_ipv4 = (replicate 10 0 @ [0xff, 0xff], 96)"

definition routable_ipv4 :: "8 word list \<Rightarrow> bool" where
  "routable_ipv4 bs \<longleftrightarrow> length bs = 4 \<and> \<not> list_ex (in_block bs) special_ipv4"

definition routable_ipv6 :: "8 word list \<Rightarrow> bool" where
  "routable_ipv6 bs \<longleftrightarrow> length bs = 16 \<and>
     (if in_block bs mapped_ipv4 then routable_ipv4 (drop 12 bs)
      else in_block bs ([0x20], 3) \<and> \<not> list_ex (in_block bs) special_ipv6)"

lemma length_byte_bits [simp]: "length (byte_bits b) = 8"
  by (simp add: byte_bits_def)

lemma bits_of_simps [simp]:
  "bits_of [] = []" "bits_of (b # bs) = byte_bits b @ bits_of bs" "bits_of (bs @ cs) = bits_of bs @ bits_of cs"
  by (simp_all add: bits_of_def)

lemma length_bits_of [simp]: "length (bits_of bs) = 8 * length bs"
  by (induction bs) simp_all

lemma byte_bits_nth: "i < 8 \<Longrightarrow> byte_bits b ! i = bit b (7 - i)"
  by (simp add: byte_bits_def del: upt_Suc)

lemma take_byte_bits:
  assumes "k \<le> 8"
  shows "take k (byte_bits a) = take k (byte_bits b) \<longleftrightarrow> drop_bit (8 - k) a = drop_bit (8 - k) b"
proof
  assume eq: "take k (byte_bits a) = take k (byte_bits b)"
  have top: "bit a j = bit b j" if "8 - k \<le> j" "j < 8" for j
  proof -
    have "7 - j < k" using that assms by linarith
    then have "byte_bits a ! (7 - j) = byte_bits b ! (7 - j)" by (metis eq nth_take)
    then show ?thesis using that by (simp add: byte_bits_nth)
  qed
  show "drop_bit (8 - k) a = drop_bit (8 - k) b"
  proof (rule bit_word_eqI)
    fix n
    assume "n < LENGTH(8)"
    show "bit (drop_bit (8 - k) a) n = bit (drop_bit (8 - k) b) n"
      using top [of "8 - k + n"] by (cases "8 - k + n < 8") (auto simp: bit_drop_bit_eq dest: bit_imp_le_length)
  qed
next
  assume eq: "drop_bit (8 - k) a = drop_bit (8 - k) b"
  have "bit a (7 - i) = bit b (7 - i)" if "i < k" for i
  proof -
    have "7 - i = 8 - k + (k - 1 - i)" using that assms by linarith
    then show ?thesis using eq by (metis bit_drop_bit_eq comp_apply)
  qed
  then show "take k (byte_bits a) = take k (byte_bits b)"
    by (intro nth_equalityI) (auto simp: byte_bits_nth)
qed

lemma byte_bits_inject [simp]: "byte_bits a = byte_bits b \<longleftrightarrow> a = b"
  using take_byte_bits [of 8 a b] by simp

lemma take_byte_div:
  "k \<le> 8 \<Longrightarrow> take k (byte_bits a) = take k (byte_bits b) \<longleftrightarrow> unat a div 2 ^ (8 - k) = unat b div 2 ^ (8 - k)"
  by (simp add: take_byte_bits word_eq_iff_unsigned [where 'a = nat] unat_drop_bit_eq) (simp add: drop_bit_eq_div)

text \<open>The chain of comparisons is the table.\<close>

lemma public_ipv4_bytes_blocks:
  "public_ipv4_bytes [a, b, c, d] \<longleftrightarrow> \<not> list_ex (in_block [a, b, c, d]) special_ipv4"
proof -
  have b: "unat x < 256" for x :: "8 word" using unsigned_less [where ?'a = nat, of x] by simp
  have q: "y div n = m \<longleftrightarrow> n * m \<le> y \<and> y < n * Suc m" if "0 < n" for y n m :: nat
    using that by (auto intro: div_nat_eqI dividend_less_times_div)
  have r: "unat x div 64 = Suc 0 \<longleftrightarrow> 64 \<le> unat x \<and> unat x \<le> 127"
      "unat x div 16 = Suc 0 \<longleftrightarrow> 16 \<le> unat x \<and> unat x \<le> 31"
      "unat x div 2 = 9 \<longleftrightarrow> unat x = 18 \<or> unat x = 19" "unat x div 32 = 7 \<longleftrightarrow> 224 \<le> unat x"
    for x :: "8 word"
    using b [of x] by (auto simp: q)
  show ?thesis
    by (simp add: public_ipv4_bytes_def Let_def special_ipv4_def in_block_def take_byte_div r
        word_le_nat_alt word_eq_iff_unsigned [where 'a = nat]) auto
qed

lemma top_bits_eq:
  fixes x y :: "8 word"
  shows "x AND (push_bit k 0xff AND 0xff) = y AND (push_bit k 0xff AND 0xff) \<longleftrightarrow> drop_bit k x = drop_bit k y"
proof -
  define M :: "8 word" where "M = push_bit k 0xff AND 0xff"
  have ff: "(0xff :: 8 word) = mask 8" by (simp add: mask_eq_exp_minus_1)
  have m: "bit M i \<longleftrightarrow> k \<le> i \<and> i < 8" for i
    unfolding M_def ff by (auto simp: bit_simps)
  have "x AND M = y AND M \<longleftrightarrow> drop_bit k x = drop_bit k y"
  proof
    assume eq: "x AND M = y AND M"
    show "drop_bit k x = drop_bit k y"
    proof (rule bit_word_eqI)
      fix i assume "i < LENGTH(8)"
      from eq have "bit (x AND M) (k + i) = bit (y AND M) (k + i)" by (rule arg_cong)
      then show "bit (drop_bit k x) i = bit (drop_bit k y) i"
        by (cases "k + i < 8") (auto simp: bit_and_iff m bit_drop_bit_eq dest: bit_imp_le_length)
    qed
  next
    assume eq: "drop_bit k x = drop_bit k y"
    show "x AND M = y AND M"
    proof (rule bit_word_eqI)
      fix i assume "i < LENGTH(8)"
      have "bit x i = bit y i" if "k \<le> i"
        using that arg_cong [OF eq, of "\<lambda>z. bit z (i - k)"] by (simp add: bit_drop_bit_eq)
      then show "bit (x AND M) i = bit (y AND M) i" by (auto simp: bit_and_iff m)
    qed
  qed
  then show ?thesis by (simp only: M_def)
qed

lemma bits_of_inject: "length bs = length cs \<Longrightarrow> bits_of bs = bits_of cs \<longleftrightarrow> bs = cs"
  by (induction bs cs rule: list_induct2) simp_all

lemma take_bits_of:
  assumes "w < length bs" and "r < 8"
  shows "take (8 * w + r) (bits_of bs) = bits_of (take w bs) @ take r (byte_bits (bs ! w))"
proof -
  have "bits_of bs = bits_of (take w bs) @ byte_bits (bs ! w) @ bits_of (drop (Suc w) bs)"
    by (subst id_take_nth_drop [OF assms(1)]) simp
  with assms show ?thesis by (simp add: min_def)
qed

text \<open>The byte-wise loop with its mask compares the first bits.\<close>

lemma hasPrefix_in_block:
  assumes "n < 8 * length p" and "length p \<le> length bs"
  shows "hasPrefix bs p n \<longleftrightarrow> in_block bs (p, n)"
proof -
  define w r where "w = n div 8" and "r = n mod 8"
  have w: "w < length p" and r: "r < 8" and n: "n = 8 * w + r"
    using assms(1) by (auto simp: w_def r_def)
  have t: "take w bs = take w p \<longleftrightarrow> \<not> list_ex (\<lambda>i. bs ! i \<noteq> p ! i) [0..<w]"
    using w assms(2) by (auto simp: list_eq_iff_nth_eq list_ex_iff)
  have "in_block bs (p, n) \<longleftrightarrow> take w bs = take w p \<and> take r (byte_bits (bs ! w)) = take r (byte_bits (p ! w))"
    using w r assms(2) by (simp add: in_block_def n take_bits_of bits_of_inject min_def)
  also have "\<dots> \<longleftrightarrow> hasPrefix bs p n"
    using r by (auto simp: hasPrefix_def Let_def t take_byte_bits top_bits_eq w_def [symmetric] r_def [symmetric]
        simp del: push_bit_numeral)
  finally show ?thesis by simp
qed

text \<open>The tests of an address against the blocks.\<close>

lemma public_ipv4_bytes_iff: "length bs = 4 \<Longrightarrow> public_ipv4_bytes bs \<longleftrightarrow> routable_ipv4 bs"
  by (auto simp: routable_ipv4_def public_ipv4_bytes_blocks numeral_eq_Suc length_Suc_conv)

section \<open>Parsing what was printed\<close>

lemma ipv4_value_digits [simp]: "n \<le> 255 \<Longrightarrow> ipv4_value (nat_to_digits n) = Some n"
  using nat_to_digits_digits [of n] by (simp add: ipv4_value_def list_all_iff)

lemma ipv4_value_SomeD: "ipv4_value p = Some n \<Longrightarrow> p = nat_to_digits n \<and> n \<le> 255"
  by (auto simp: ipv4_value_def split: if_splits)

lemma byte_bound [simp]: "unat (b :: 8 word) \<le> 255"
  using unsigned_less [where ?'a = nat, of b] by simp

lemma digits_no_dot: "CHR ''.'' \<notin> set (nat_to_digits n)"
  using nat_to_digits_digits [of n] by (auto simp: is_digit_def)

text \<open>Exactly the printed forms of four bytes are IPv4 addresses.\<close>

lemma ipv4Bytes_iff: "ipv4Bytes s = Some bs \<longleftrightarrow> length bs = 4 \<and> s = print_ipv4 bs"
proof
  assume r: "length bs = 4 \<and> s = print_ipv4 bs"
  then have "split_on (CHR ''.'') s = map (\<lambda>b. nat_to_digits (unat b)) bs"
    by (auto simp: print_ipv4_def digits_no_dot intro!: split_join)
  with r show "ipv4Bytes s = Some bs"
    by (auto simp: ipv4Bytes_def Let_def list_ex_iff comp_def)
next
  assume l: "ipv4Bytes s = Some bs"
  let ?ps = "split_on (CHR ''.'') s"
  from l have len: "length ?ps = 4" and bs: "bs = map (\<lambda>p. of_nat (the (ipv4_value p))) ?ps"
    and all: "\<And>p. p \<in> set ?ps \<Longrightarrow> \<exists>n. ipv4_value p = Some n"
    by (auto simp: ipv4Bytes_def Let_def list_ex_iff split: if_splits)
  have "nat_to_digits (unat (of_nat (the (ipv4_value p)) :: 8 word)) = p" if "p \<in> set ?ps" for p
    using all [OF that] ipv4_value_SomeD [of p] by (auto simp: unsigned_of_nat take_bit_nat_eq_self)
  then have "map (\<lambda>b. nat_to_digits (unat b)) bs = ?ps" unfolding bs by (simp add: map_idI comp_def)
  then have "print_ipv4 bs = s" unfolding print_ipv4_def by (simp add: join_split)
  then show "length bs = 4 \<and> s = print_ipv4 bs" using len bs by simp
qed

lemma isPublicIpv4_iff: "isPublicIpv4 s \<longleftrightarrow> (\<exists>bs. s = print_ipv4 bs \<and> routable_ipv4 bs)"
proof (cases "ipv4Bytes s")
  case None
  then have "\<nexists>bs. length bs = 4 \<and> s = print_ipv4 bs" by (metis ipv4Bytes_iff option.distinct(1))
  with None show ?thesis by (auto simp: isPublicIpv4_def routable_ipv4_def)
next
  case (Some cs)
  then have cs: "length cs = 4" "s = print_ipv4 cs" by (simp_all add: ipv4Bytes_iff)
  have "bs = cs" if "s = print_ipv4 bs" "routable_ipv4 bs" for bs
  proof -
    from that have "ipv4Bytes s = Some bs" by (simp add: ipv4Bytes_iff routable_ipv4_def)
    with Some show ?thesis by simp
  qed
  then have "(\<exists>bs. s = print_ipv4 bs \<and> routable_ipv4 bs) \<longleftrightarrow> routable_ipv4 cs" using cs(2) by blast
  with Some cs(1) show ?thesis by (simp add: isPublicIpv4_def public_ipv4_bytes_iff)
qed

lemma length_group_bytes [simp]: "length (group_bytes g) = 2"
  by (simp add: group_bytes_def Let_def)

lemma length_concat_groups: "length (concat (map group_bytes gs)) = 2 * length gs"
  by (induction gs) simp_all

lemma parseIpv6_length: "parseIpv6 s = Some bs \<Longrightarrow> length bs = 16"
  by (auto simp: parseIpv6_def Let_def length_concat_groups split: option.splits if_splits)

lemma mapped_iff:
  assumes "length bs = 16"
  shows "in_block bs mapped_ipv4 \<longleftrightarrow> list_all (\<lambda>b. b = 0) (take 10 bs) \<and> bs ! 10 = 0xff \<and> bs ! 11 = 0xff"
proof -
  have "take 96 (bits_of bs) = bits_of (take 12 bs)"
    using assms by (subst append_take_drop_id [of 12 bs, symmetric], subst bits_of_simps) simp
  then have "in_block bs mapped_ipv4 \<longleftrightarrow> take 12 bs = replicate 10 0 @ [0xff, 0xff]"
    using assms by (simp add: in_block_def mapped_ipv4_def bits_of_inject del: bits_of_simps)
  also have "take 12 bs = take 10 bs @ [bs ! 10, bs ! 11]"
    using assms by (simp add: list_eq_iff_nth_eq nth_append less_Suc_eq numeral_eq_Suc)
  finally show ?thesis
    using assms by (auto simp: list_all_iff replicate_eqI dest: arg_cong [where f = set])
qed

lemma isPublicIpv4_print: "length bs = 4 \<Longrightarrow> isPublicIpv4 (print_ipv4 bs) \<longleftrightarrow> routable_ipv4 bs"
  using ipv4Bytes_iff [of "print_ipv4 bs" bs] by (simp add: isPublicIpv4_def public_ipv4_bytes_iff)

lemma public_ipv6_bytes_iff:
  assumes "length bs = 16"
  shows "public_ipv6_bytes bs \<longleftrightarrow> routable_ipv6 bs"
proof -
  have h: "hasPrefix bs p n \<longleftrightarrow> in_block bs (p, n)" if "n < 8 * length p" "length p \<le> 16" for p n
    using that assms by (intro hasPrefix_in_block) simp_all
  have whole: "hasPrefix bs p (8 * length p) \<longleftrightarrow> in_block bs (p, 8 * length p)" if "length p \<le> 16" for p
  proof -
    have "take (8 * length p) (bits_of bs) = bits_of (take (length p) bs)"
      using that assms by (subst append_take_drop_id [of "length p" bs, symmetric], subst bits_of_simps) simp
    then have "in_block bs (p, 8 * length p) \<longleftrightarrow> take (length p) bs = p"
      using that assms by (simp add: in_block_def bits_of_inject)
    moreover have "take (length p) bs = p \<longleftrightarrow> (\<forall>i < length p. bs ! i = p ! i)"
      using that assms by (simp add: list_eq_iff_nth_eq)
    moreover have "hasPrefix bs p (8 * length p) \<longleftrightarrow> (\<forall>i < length p. bs ! i = p ! i)"
      by (auto simp: hasPrefix_def Let_def list_ex_iff)
    ultimately show ?thesis by simp
  qed
  have p: "hasPrefix bs [0x20] 3 \<longleftrightarrow> in_block bs ([0x20], 3)"
    "hasPrefix bs [0x20, 0x01, 0x00] 23 \<longleftrightarrow> in_block bs ([0x20, 0x01, 0x00], 23)"
    "hasPrefix bs [0x3f, 0xff, 0x00] 20 \<longleftrightarrow> in_block bs ([0x3f, 0xff, 0x00], 20)"
    by (rule h; simp)+
  have w: "hasPrefix bs [0x20, 0x01, 0x0d, 0xb8] 32 \<longleftrightarrow> in_block bs ([0x20, 0x01, 0x0d, 0xb8], 32)"
    "hasPrefix bs [0x20, 0x02] 16 \<longleftrightarrow> in_block bs ([0x20, 0x02], 16)"
    "hasPrefix bs [0x3f, 0xfe] 16 \<longleftrightarrow> in_block bs ([0x3f, 0xfe], 16)"
    using whole [of "[0x20, 0x01, 0x0d, 0xb8]"] whole [of "[0x20, 0x02]"] whole [of "[0x3f, 0xfe]"] by simp_all
  have m: "isPublicIpv4 (print_ipv4 (drop 12 bs)) \<longleftrightarrow> routable_ipv4 (drop 12 bs)"
    using assms by (intro isPublicIpv4_print) simp
  show ?thesis
    unfolding public_ipv6_bytes_def routable_ipv6_def special_ipv6_def mapped_iff [OF assms] p w m
    using assms by auto
qed

section \<open>Printed IPv6 addresses\<close>

lemma hex_char_facts:
  assumes "n < 16"
  shows "is_hex (hex_char n)" and "hex_value (hex_char n) = n" and "to_lower (hex_char n) = hex_char n"
    and "hex_char n \<notin> {CHR ''.'', CHR '':'', CHR ''%''}"
proof -
  have "n \<in> set [0..<16]" using assms by simp
  then have "is_hex (hex_char n) \<and> hex_value (hex_char n) = n \<and> to_lower (hex_char n) = hex_char n \<and>
      hex_char n \<notin> {CHR ''.'', CHR '':'', CHR ''%''}"
    by (simp add: upt_rec [where j = 16] hex_char_def) (elim disjE; simp; code_simp)
  then show "is_hex (hex_char n)" and "hex_value (hex_char n) = n" and "to_lower (hex_char n) = hex_char n"
    and "hex_char n \<notin> {CHR ''.'', CHR '':'', CHR ''%''}" by simp_all
qed

lemma to_hex_chars: "c \<in> set (to_hex n) \<Longrightarrow> \<exists>m < 16. c = hex_char m"
proof (induction n rule: to_hex.induct)
  case (1 n)
  show ?case
  proof (cases "n < 16")
    case True
    with "1.prems" show ?thesis by (auto simp: to_hex.simps [of n])
  next
    case False
    with "1.prems" have "c \<in> set (to_hex (n div 16)) \<or> c = hex_char (n mod 16)"
      by (auto simp: to_hex.simps [of n])
    with "1.IH" [OF False] show ?thesis by (metis mod_less_divisor zero_less_numeral)
  qed
qed

lemma nat_of_hex_snoc: "nat_of_hex (s @ [c]) = 16 * nat_of_hex s + hex_value c"
  by (simp add: nat_of_hex_def)

lemma nat_of_to_hex [simp]: "nat_of_hex (to_hex n) = n"
proof (induction n rule: to_hex.induct)
  case (1 n)
  show ?case
  proof (cases "n < 16")
    case True
    then show ?thesis using nat_of_hex_snoc [of "[]" "hex_char n"]
      by (simp add: to_hex.simps [of n] hex_char_facts(2)) (simp add: nat_of_hex_def)
  next
    case False
    with 1 show ?thesis by (simp add: to_hex.simps [of n] nat_of_hex_snoc hex_char_facts(2))
  qed
qed

lemma length_to_hex: "0 < k \<Longrightarrow> n < 16 ^ k \<Longrightarrow> 1 \<le> length (to_hex n) \<and> length (to_hex n) \<le> k"
proof (induction k arbitrary: n)
  case (Suc k)
  show ?case
  proof (cases "n < 16")
    case True
    then show ?thesis by (simp add: to_hex.simps [of n])
  next
    case False
    with Suc.prems have "0 < k" by (cases k) simp_all
    moreover have "n div 16 < 16 ^ k" using Suc.prems by (simp add: less_mult_imp_div_less mult.commute)
    ultimately have "length (to_hex (n div 16)) \<le> k" using Suc.IH by blast
    with False show ?thesis by (simp add: to_hex.simps [of n])
  qed
qed simp

definition hex_group :: "16 word \<Rightarrow> string" where
  "hex_group g = to_hex (unat g)"

definition word_bytes :: "16 word \<Rightarrow> 8 word list" where
  "word_bytes g = [ucast (drop_bit 8 g), ucast g]"

lemma hex_group_chars:
  assumes "c \<in> set (hex_group g)"
  shows "is_hex c \<and> to_lower c = c \<and> c \<notin> {CHR ''.'', CHR '':'', CHR ''%''}"
proof -
  from assms obtain m where "m < 16" and c: "c = hex_char m"
    unfolding hex_group_def by (auto dest: to_hex_chars)
  from hex_char_facts [OF this(1)] show ?thesis unfolding c by simp
qed

lemma is_group_hex [simp]: "is_group (hex_group g)"
proof -
  have "unat g < 16 ^ 4" using unsigned_less [where ?'a = nat, of g] by simp
  from length_to_hex [OF _ this]
    have "1 \<le> length (hex_group g) \<and> length (hex_group g) \<le> 4" by (simp add: hex_group_def)
  then show ?thesis by (simp add: is_group_def list_all_iff hex_group_chars)
qed

lemma hex_group_nonempty [simp]: "hex_group g \<noteq> []"
  using is_group_hex [of g] by (auto simp: is_group_def)

lemma group_bytes_hex [simp]: "group_bytes (hex_group g) = word_bytes g"
proof -
  have "(ucast (g AND 0xff) :: 8 word) = ucast g"
  proof -
    have ff: "(0xff :: 16 word) = mask 8" by (simp add: mask_eq_exp_minus_1)
    show ?thesis unfolding ff by (rule bit_word_eqI) (auto simp: bit_simps)
  qed
  then show ?thesis by (simp add: group_bytes_def word_bytes_def hex_group_def Let_def)
qed

definition colon_groups :: "16 word list \<Rightarrow> string" where
  "colon_groups gs = join_with '':'' (map hex_group gs)"

lemma join_with_chars: "c \<in> set (join_with sep ws) \<Longrightarrow> c \<in> set sep \<or> (\<exists>w \<in> set ws. c \<in> set w)"
  by (induction sep ws rule: join_with.induct) auto

lemma colon_groups_chars: "c \<in> set (colon_groups gs) \<Longrightarrow> to_lower c = c \<and> c \<notin> {CHR ''.'', CHR ''%''}"
proof -
  assume "c \<in> set (colon_groups gs)"
  then consider "c = CHR '':''" | g where "c \<in> set (hex_group g)"
    by (auto simp: colon_groups_def dest!: join_with_chars)
  then show ?thesis
  proof cases
    case 1
    then show ?thesis by simp (code_simp)
  next
    case 2
    then show ?thesis by (auto dest: hex_group_chars)
  qed
qed

lemma groups_of_colon [simp]: "groups_of (colon_groups gs) = map hex_group gs"
proof (cases gs)
  case Nil
  then show ?thesis by (simp add: groups_of_def colon_groups_def)
next
  case (Cons g hs)
  then have "colon_groups gs \<noteq> []" by (cases hs) (simp_all add: colon_groups_def)
  moreover have "split_on (CHR '':'') (colon_groups gs) = map hex_group gs"
    unfolding colon_groups_def using Cons by (intro split_join) (auto dest: hex_group_chars)
  ultimately show ?thesis by (simp add: groups_of_def)
qed

text \<open>\<open>split('::')\<close> of text whose groups are not empty.\<close>

lemma split_double_nonempty [simp]: "split_double s \<noteq> []"
  by (induction s rule: split_double.induct) (auto split: list.splits)

lemma split_double_step:
  assumes "\<not> (c = CHR '':'' \<and> s \<noteq> [] \<and> hd s = CHR '':'')"
  shows "split_double (c # s) = (c # hd (split_double s)) # tl (split_double s)"
proof (cases s)
  case (Cons e t)
  with assms have "\<not> (c = CHR '':'' \<and> e = CHR '':'')" by simp
  then show ?thesis unfolding Cons
    by (cases "split_double (e # t)") (simp_all only: split_double.simps if_False list.case list.sel split_double_nonempty)
qed simp

lemma split_double_word:
  "CHR '':'' \<notin> set w \<Longrightarrow> split_double (w @ s) = (w @ hd (split_double s)) # tl (split_double s)"
  by (induction w) (auto simp: split_double_step)

lemma hex_group_no_colon [simp]: "CHR '':'' \<notin> set (hex_group g)"
  using hex_group_chars [of "CHR '':''" g] by blast

lemma split_double_groups:
  "split_double (colon_groups gs @ s) = (colon_groups gs @ hd (split_double s)) # tl (split_double s)"
proof (induction gs)
  case Nil
  then show ?case by (simp add: colon_groups_def)
next
  case (Cons g gs)
  note IH = Cons.IH
  show ?case
  proof (cases gs)
    case Nil
    then show ?thesis by (simp add: colon_groups_def split_double_word)
  next
    case (Cons h hs)
    let ?r = "colon_groups gs @ s"
    have e: "colon_groups (g # gs) = hex_group g @ CHR '':'' # colon_groups gs"
      using Cons by (simp add: colon_groups_def)
    have "hd ?r \<in> set (hex_group h)"
      using Cons hex_group_nonempty [of h] by (cases hs) (auto simp: colon_groups_def hd_append)
    then have "hd ?r \<noteq> CHR '':''" using hex_group_no_colon by metis
    then have "split_double (CHR '':'' # ?r) = (CHR '':'' # hd (split_double ?r)) # tl (split_double ?r)"
      by (intro split_double_step) simp
    then show ?thesis by (simp add: e split_double_word IH)
  qed
qed

text \<open>The printed form of an address: the groups before and after an omitted run of zeros.\<close>

definition print_ipv6 :: "16 word list \<Rightarrow> 16 word list option \<Rightarrow> string" where
  "print_ipv6 l r = (case r of None \<Rightarrow> colon_groups l | Some gs \<Rightarrow> colon_groups l @ ''::'' @ colon_groups gs)"

definition zeros_between :: "16 word list \<Rightarrow> 16 word list option \<Rightarrow> 16 word list" where
  "zeros_between l r = (case r of None \<Rightarrow> l
     | Some gs \<Rightarrow> l @ replicate (8 - length l - length gs) 0 @ gs)"

lemma split_double_print:
  "split_double (print_ipv6 l r) = (case r of None \<Rightarrow> [colon_groups l]
     | Some gs \<Rightarrow> [colon_groups l, colon_groups gs])"
  using split_double_groups [of l "[]"] split_double_groups [of l "''::'' @ colon_groups gs" for gs]
    split_double_groups [of gs "[]" for gs]
  by (simp add: print_ipv6_def split: option.split)

lemma print_ipv6_chars:
  "c \<in> set (print_ipv6 l r) \<Longrightarrow> to_lower c = c \<and> c \<notin> {CHR ''.'', CHR ''%''}"
proof -
  assume "c \<in> set (print_ipv6 l r)"
  then consider gs where "c \<in> set (colon_groups gs)" | "c = CHR '':''"
    by (auto simp: print_ipv6_def split: option.splits)
  then show ?thesis
    by cases (use colon_groups_chars in blast, simp, code_simp)
qed

lemma group_zero [simp]: "is_group ''0''" "group_bytes ''0'' = word_bytes 0"
proof -
  have "hex_group 0 = ''0''" by (simp add: hex_group_def to_hex.simps hex_char_def)
  then show "is_group ''0''" "group_bytes ''0'' = word_bytes 0"
    using is_group_hex [of 0] group_bytes_hex [of 0] by simp_all
qed



section \<open>The policy\<close>

text \<open>C17. The policy accepts exactly the printed IPv4 addresses outside the table of special
  blocks, and the IPv6 addresses that are in 2000::/3 and outside its special blocks, an
  IPv4-mapped one being judged by the IPv4 address it embeds.\<close>

theorem webhook_address_policy:
  "isPublicWebhookAddress isIP s \<longleftrightarrow>
     (isIP s = 4 \<and> (\<exists>bs. s = print_ipv4 bs \<and> routable_ipv4 bs)) \<or>
     (isIP s = 6 \<and> (\<exists>bs. parseIpv6 s = Some bs \<and> routable_ipv6 bs))"
proof -
  have "isPublicIpv6 s \<longleftrightarrow> (\<exists>bs. parseIpv6 s = Some bs \<and> routable_ipv6 bs)"
    by (auto simp: isPublicIpv6_def public_ipv6_bytes_iff dest: parseIpv6_length split: option.split)
  then show ?thesis by (auto simp: isPublicWebhookAddress_def isPublicIpv4_iff)
qed

text \<open>What a resolved target is pinned to: no private, loopback or link-local address.\<close>

definition acceptable_url :: "resolver \<Rightarrow> url_parts \<Rightarrow> bool" where
  "acceptable_url r url \<longleftrightarrow> (if rs_production r then url_protocol url = ''https:''
     else url_protocol url = ''https:'' \<or> url_protocol url = ''http:'') \<and>
     url_username url = [] \<and> url_password url = [] \<and> url_hostname url \<noteq> [] \<and> url_hash url = []"

definition acceptable_records :: "resolver \<Rightarrow> string list \<Rightarrow> bool" where
  "acceptable_records r as \<longleftrightarrow> as \<noteq> [] \<and> list_all (isPublicWebhookAddress (rs_isIP r)) as"

lemma public_family: "isPublicWebhookAddress isIP a \<Longrightarrow> isIP a = 4 \<or> isIP a = 6"
  by (auto simp: isPublicWebhookAddress_def split: if_splits)


text \<open>The loopback, private and link-local addresses, and the cloud metadata address, are refused.\<close>

lemma refused_samples:
  "list_all (\<lambda>bs. \<not> routable_ipv4 bs)
     [[127, 0, 0, 1], [10, 1, 2, 3], [172, 31, 0, 1], [192, 168, 1, 1], [169, 254, 169, 254], [100, 127, 0, 1]]"
  "list_all routable_ipv4 [[8, 8, 8, 8], [172, 32, 0, 1], [100, 128, 0, 1]]"
  by code_simp+

end
