(* ===== verification/Replays.thy ===== *)
theory Replays
  imports Sweeps
begin

text \<open>
  What the idempotency wrapper of \<open>apps/api/src/idempotency/idempotency.service.ts\<close> gives: the
  first request with a key, or for a reference, fixes the answer of every later one, and
  repeating a request changes nothing. Two consequences for sweep rules are worked out, where
  the reference of a request is the rule itself.
\<close>

declare split_paired_All [simp del] split_paired_Ex [simp del]

section \<open>The record of a first request\<close>

lemma set_record_identities:
  "set (record_identities x) = insert (io_operation x, io_key x)
     (if truthy (io_referenceKey x)
      then {(or_else (io_referenceOperation x) (io_operation x), reference_prefix @ the (io_referenceKey x))} else {})"
  by (simp add: record_identities_def)

text \<open>A first request runs its body and records its answer under all its identities.\<close>

lemma execute_firstD:
  assumes "execute now x d = Inr (False, r, d')"
  obtains d1 where "io_execute x d = Inr (r, d1)" and "filter (idem_matches x) (idempotency d) = []"
    and "\<not> starts_with (io_key x) reference_prefix"
    and "d' = d1\<lparr>idempotency := idempotency d1 @ map (idem_row now x (io_store x r)) (record_identities x)\<rparr>"
  using assms
  by (auto simp: execute_def idem_replay_def idem_first_def Let_def tx_simps first_by_None_iff
      split: if_splits option.splits)

lemma idem_row_simps [simp]:
  "im_auth (idem_row now x b i) = io_auth x" "im_hash (idem_row now x b i) = io_hash x"
  "im_body (idem_row now x b i) = b" "im_operation (idem_row now x b i) = fst i"
  "im_key (idem_row now x b i) = snd i"
  by (simp_all add: idem_row_def split: prod.split)

text \<open>A request that finds only rows with one hash and one answer.\<close>

lemma execute_recorded:
  assumes rows: "\<forall>r \<in> set (idempotency d). idem_matches y r \<longrightarrow> im_hash r = h \<and> im_body r = b"
    and some: "\<exists>r \<in> set (idempotency d). idem_matches y r"
    and key: "\<not> starts_with (io_key y) reference_prefix"
  obtains e where "idem_matches y e" and "e \<in> set (idempotency d)"
    and "execute now y d = idem_replay now y e d" and "im_hash e = h" and "im_body e = b"
proof -
  have "filter (idem_matches y) (idempotency d) \<noteq> []" using some by (auto simp: filter_empty_conv)
  then obtain e where e: "first_by im_createdAt (filter (idem_matches y) (idempotency d)) = Some e"
    using first_by_None_iff by (metis option.exhaust)
  from first_by_SomeD(1) [OF this] have "idem_matches y e" "e \<in> set (idempotency d)" by auto
  with rows e key that show ?thesis by (auto simp: execute_def)
qed

lemma execute_conflict:
  assumes "\<forall>r \<in> set (idempotency d). idem_matches y r \<longrightarrow> im_hash r = h \<and> im_body r = b"
    and "\<exists>r \<in> set (idempotency d). idem_matches y r"
    and "\<not> starts_with (io_key y) reference_prefix" and "io_hash y \<noteq> h"
  shows "execute now y d = Inl (ApiError ''duplicate_reference_conflict'' 409)"
  by (rule execute_recorded [OF assms(1,2,3)]) (use assms(4) in \<open>auto simp: idem_replay_def\<close>)

text \<open>The rows that are missing are added; nothing else changes.\<close>

lemma add_missing_recorded:
  assumes "list_all (idem_taken (idempotency d)) rs"
  shows "idem_add_missing rs d = d"
proof -
  have "fold (\<lambda>r q. if idem_taken q r then q else q @ [r]) rs (idempotency d) = idempotency d"
    using assms by (induction rs) auto
  then show ?thesis by (simp add: idem_add_missing_def)
qed

definition recorded :: "'r idem_options \<Rightarrow> db \<Rightarrow> bool" where
  "recorded x d \<longleftrightarrow> list_all (\<lambda>i. list_ex (\<lambda>q. im_auth q = io_auth x \<and> im_operation q = fst i \<and>
     im_key q = snd i) (idempotency d)) (record_identities x)"

lemma recorded_taken: "recorded x d \<Longrightarrow> i \<in> set (record_identities x) \<Longrightarrow> idem_taken (idempotency d) (idem_row now x b i)"
  by (auto simp: recorded_def idem_taken_def list_all_iff list_ex_iff)

lemma recorded_cong: "idempotency d' = idempotency d \<Longrightarrow> recorded x d' = recorded x d"
  by (simp add: recorded_def)

lemma add_missing_rows:
  "\<exists>extra. idem_add_missing rs d = d\<lparr>idempotency := idempotency d @ extra\<rparr> \<and>
     list_all (idem_taken (idempotency d @ extra)) rs"
proof -
  have "\<exists>extra. fold (\<lambda>r q. if idem_taken q r then q else q @ [r]) rs q = q @ extra \<and>
      list_all (idem_taken (q @ extra)) rs" for q
  proof (induction rs arbitrary: q)
    case Nil
    then show ?case by simp
  next
    case (Cons r rs)
    let ?q = "if idem_taken q r then q else q @ [r]"
    from Cons.IH [of ?q] obtain extra where e: "fold (\<lambda>r q. if idem_taken q r then q else q @ [r]) rs ?q = ?q @ extra"
      "list_all (idem_taken (?q @ extra)) rs" by blast
    have "idem_taken (?q @ extra) r" by (auto simp: idem_taken_def)
    then show ?case using e by (intro exI [where x = "(if idem_taken q r then [] else [r]) @ extra"]) auto
  qed
  from this [of "idempotency d"] show ?thesis by (auto simp: idem_add_missing_def)
qed

lemma execute_records:
  assumes run: "execute now x d = Inr (replayed, r, d')"
  shows "recorded x d'"
proof (cases replayed)
  case False
  with run have "execute now x d = Inr (False, r, d')" by simp
  then show ?thesis
    by (rule execute_firstD) (force simp: recorded_def list_all_iff list_ex_iff)
next
  case True
  then obtain e where m: "e \<in> set (idempotency d)" "idem_matches x e"
    and r: "idem_replay now x e d = Inr (True, r, d')"
    using run by (auto simp: execute_def idem_first_def Let_def tx_simps
        split: if_splits option.splits dest!: first_by_SomeD(1))
  let ?rs = "map (idem_row now x (im_body e))
      (filter (\<lambda>i. i \<noteq> (im_operation e, im_key e)) (record_identities x))"
  obtain extra where x: "idem_add_missing ?rs d = d\<lparr>idempotency := idempotency d @ extra\<rparr>"
      "list_all (idem_taken (idempotency d @ extra)) ?rs"
    using add_missing_rows [of ?rs d] by blast
  from r x(1) have d': "d' = d\<lparr>idempotency := idempotency d @ extra\<rparr>"
    by (auto simp: idem_replay_def Let_def tx_simps split: if_splits)
  have "list_ex (\<lambda>q. im_auth q = io_auth x \<and> im_operation q = fst i \<and> im_key q = snd i) (idempotency d @ extra)"
    if "i \<in> set (record_identities x)" for i
  proof (cases "i = (im_operation e, im_key e)")
    case True
    then show ?thesis using m by (auto simp: idem_matches_def list_ex_iff)
  next
    case False
    then show ?thesis using that x(2) by (auto simp: list_all_iff list_ex_iff idem_taken_def)
  qed
  then show ?thesis by (simp add: recorded_def list_all_iff d')
qed

text \<open>A request whose identities are all recorded changes nothing.\<close>

lemma execute_again:
  assumes rec: "recorded x d" and run: "execute now x d = Inr (replayed, r, d')"
  shows "d' = d"
proof -
  have "\<exists>q \<in> set (idempotency d). idem_matches x q"
  proof -
    have "(io_operation x, io_key x) \<in> set (record_identities x)" by (simp add: set_record_identities)
    with rec obtain q where "q \<in> set (idempotency d)" "im_auth q = io_auth x"
      "im_operation q = io_operation x" "im_key q = io_key x"
      by (force simp: recorded_def list_all_iff list_ex_iff)
    then show ?thesis by (auto simp: idem_matches_def set_record_identities)
  qed
  then have "filter (idem_matches x) (idempotency d) \<noteq> []" by (auto simp: filter_empty_conv)
  then obtain e where e: "first_by im_createdAt (filter (idem_matches x) (idempotency d)) = Some e"
    using first_by_None_iff by (metis option.exhaust)
  have "idem_add_missing (map (idem_row now x (im_body e)) (filter P (record_identities x))) d = d" for P
    by (rule add_missing_recorded) (auto simp: list_all_iff recorded_taken [OF rec])
  then show ?thesis
    using run e by (auto simp: execute_def idem_replay_def Let_def tx_simps split: if_splits)
qed

definition run_request :: "time \<Rightarrow> 'r idem_options \<Rightarrow> db \<Rightarrow> db outcome" where
  "run_request now x d = map_outcome (\<lambda>(replayed, r, d'). d') (execute now x d)"

interpretation idem: exactly_once "run_request now x" "recorded x" "\<lambda>d. d" "\<lambda>d. True" for now x
  by unfold_locales (auto simp: run_request_def tx_simps dest: execute_records execute_again)

section \<open>Repeated and changed requests\<close>

text \<open>What a first request leaves, and how every later one with the same identities is answered.\<close>

lemma first_rows:
  assumes first: "execute now x d = Inr (False, r, d1)"
    and frame: "\<And>r e. io_execute x d = Inr (r, e) \<Longrightarrow> idempotency e = idempotency d"
  shows "(\<forall>q \<in> set (idempotency d1). idem_matches x q \<longrightarrow> im_hash q = io_hash x \<and> im_body q = io_store x r) \<and>
    (\<exists>q \<in> set (idempotency d1). idem_matches x q) \<and> \<not> starts_with (io_key x) reference_prefix"
proof (rule execute_firstD [OF first])
  fix e
  assume e: "io_execute x d = Inr (r, e)" and none: "filter (idem_matches x) (idempotency d) = []"
    and key: "\<not> starts_with (io_key x) reference_prefix"
    and d1: "d1 = e\<lparr>idempotency := idempotency e @ map (idem_row now x (io_store x r)) (record_identities x)\<rparr>"
  have "\<forall>q \<in> set (idempotency d1). idem_matches x q \<longrightarrow> im_hash q = io_hash x \<and> im_body q = io_store x r"
    using none frame [OF e] by (auto simp: d1 filter_empty_conv)
  moreover have "(io_operation x, io_key x) \<in> set (record_identities x)" by (simp add: set_record_identities)
  then have "\<exists>q \<in> set (idempotency d1). idem_matches x q"
    unfolding d1 by (auto simp: idem_matches_def intro!: bexI [where x = "idem_row now x (io_store x r) (io_operation x, io_key x)"])
  ultimately show ?thesis using key by blast
qed

lemma execute_after_first:
  assumes first: "execute now x d = Inr (False, r, d1)"
    and frame: "\<And>r e. io_execute x d = Inr (r, e) \<Longrightarrow> idempotency e = idempotency d"
    and y: "io_auth y = io_auth x" "record_identities y = record_identities x" "io_key y = io_key x" "io_hash y = io_hash x"
  shows "execute later y d1 = map_outcome (\<lambda>r'. (True, r', d1)) (io_replay y (io_store x r) d1)"
proof -
  have same: "idem_matches y q = idem_matches x q" for q using y by (simp add: idem_matches_def)
  obtain q where q: "execute later y d1 = idem_replay later y q d1" "im_hash q = io_hash x" "im_body q = io_store x r"
    by (rule execute_recorded [of d1 y "io_hash x" "io_store x r" later]) (use first_rows [OF first frame] same y(3) in auto)
  have "idem_taken (idempotency d1) (idem_row later y b z)" if "z \<in> set (record_identities x)" for b z
    using recorded_taken [OF execute_records [OF first] that, of later b] y(1) by (simp add: idem_taken_def)
  then have "idem_add_missing (map (idem_row later y b) (filter P (record_identities x))) d1 = d1" for b P
    by (intro add_missing_recorded) (auto simp: list_all_iff)
  then show ?thesis using q y by (simp add: idem_replay_def Let_def)
qed


definition demo_request :: "string \<Rightarrow> nat idem_options" where
  "demo_request hash = \<lparr>io_auth = (2, Live), io_operation = ''create'', io_key = ''k1'',
     io_referenceKey = Some ''r1'', io_referenceOperation = None, io_hash = hash,
     io_execute = (\<lambda>d. Inr (next_id d, d\<lparr>next_id := Suc (next_id d)\<rparr>)),
     io_store = JId, io_replay = (\<lambda>j d. case j of JId n \<Rightarrow> Inr n | _ \<Rightarrow> Inl (RuntimeError ''bad record''))\<rparr>"

definition demo_first :: "db \<Rightarrow> db" where
  "demo_first d = d\<lparr>next_id := Suc (next_id d), idempotency :=
     map (idem_row 10 (demo_request ''h'') (JId (next_id d))) [(''create'', ''k1''), (''create'', ''__reference__:r1'')]\<rparr>"

lemma demo_request_eval:
  "execute 10 (demo_request ''h'') empty_db = Inr (False, 0, demo_first empty_db)"
  by (simp add: execute_def idem_first_def demo_request_def demo_first_def empty_db_def record_identities_def
      reference_prefix_def first_by_def idem_taken_def truthy_def)


text \<open>However often a request is retried after it was answered, the database stays as the
  answer left it.\<close>

theorem retries_change_nothing:
  assumes "execute now x d = Inr (replayed, r, d1)"
  shows "case repeat_op n (run_request now x) d1 of Inr d2 \<Rightarrow> d2 = d1 | Inl e \<Rightarrow> True"
  using idem.retries_show_once [where now = now and x = x and s = d and ?s1.0 = d1 and n = n] assms by (auto simp: run_request_def split: sum.split)

theorem retries_change_nothing_witness:
  "case repeat_op 7 (run_request 10 (demo_request ''h'')) (demo_first empty_db) of
     Inr d2 \<Rightarrow> d2 = demo_first empty_db | Inl e \<Rightarrow> True"
  using retries_change_nothing [OF demo_request_eval] .

section \<open>Requests for one reference\<close>

definition key_free :: "auth \<Rightarrow> string \<Rightarrow> string \<Rightarrow> db \<Rightarrow> bool" where
  "key_free a operation key d \<longleftrightarrow>
     \<not> list_ex (\<lambda>q. im_auth q = a \<and> im_operation q = operation \<and> im_key q = key) (idempotency d)"

lemma reference_rows:
  assumes first: "execute now x d = Inr (False, r, d1)"
    and frame: "\<forall>r e. io_execute x d = Inr (r, e) \<longrightarrow> idempotency e = idempotency d"
    and ref: "truthy (io_referenceKey x)"
    and y: "io_auth y = io_auth x" "io_operation y = io_operation x" "io_referenceKey y = io_referenceKey x"
      "io_referenceOperation y = io_referenceOperation x"
    and free: "key_free (io_auth x) (io_operation x) (io_key y) d"
  shows "(\<forall>q \<in> set (idempotency d1). idem_matches y q \<longrightarrow> im_hash q = io_hash x \<and> im_body q = io_store x r) \<and>
    (\<exists>q \<in> set (idempotency d1). idem_matches y q)"
proof (rule execute_firstD [OF first])
  fix e
  assume e: "io_execute x d = Inr (r, e)" and none: "filter (idem_matches x) (idempotency d) = []"
    and d1: "d1 = e\<lparr>idempotency := idempotency e @ map (idem_row now x (io_store x r)) (record_identities x)\<rparr>"
  let ?i = "(or_else (io_referenceOperation x) (io_operation x), reference_prefix @ the (io_referenceKey x))"
  have old: "\<not> idem_matches y q" if "q \<in> set (idempotency d)" for q
    using that none free y ref
    by (auto simp: idem_matches_def set_record_identities filter_empty_conv key_free_def list_ex_iff)
  have "idem_matches y (idem_row now x (io_store x r) ?i)" "?i \<in> set (record_identities x)"
    using y ref by (simp_all add: idem_matches_def set_record_identities)
  then show ?thesis using old frame e unfolding d1 by auto
qed

text \<open>A later request for the same reference, on a database that has kept the records of the
  operation, is answered from the first one.\<close>

lemma reference_answered:
  assumes "execute now x d = Inr (False, r, d1)"
    and "\<forall>r e. io_execute x d = Inr (r, e) \<longrightarrow> idempotency e = idempotency d"
    and "truthy (io_referenceKey x)"
    and y: "io_auth y = io_auth x" "io_operation y = io_operation x" "io_referenceKey y = io_referenceKey x"
      "io_referenceOperation y = io_referenceOperation x"
    and "key_free (io_auth x) (io_operation x) (io_key y) d"
    and kept: "set (idempotency d1) \<subseteq> set (idempotency d2)"
    and others: "\<forall>q \<in> set (idempotency d2) - set (idempotency d1). im_operation q \<noteq> io_operation x"
    and plain: "io_referenceOperation x = None" and key: "\<not> starts_with (io_key y) reference_prefix"
  obtains e where "execute later y d2 = idem_replay later y e d2" and "im_hash e = io_hash x" and "im_body e = io_store x r"
proof -
  have rows: "(\<forall>q \<in> set (idempotency d1). idem_matches y q \<longrightarrow> im_hash q = io_hash x \<and> im_body q = io_store x r) \<and>
    (\<exists>q \<in> set (idempotency d1). idem_matches y q)"
    by (rule reference_rows [OF assms(1-8)])
  have rows2: "\<forall>q \<in> set (idempotency d2). idem_matches y q \<longrightarrow> im_hash q = io_hash x \<and> im_body q = io_store x r"
  proof (intro ballI impI)
    fix q
    assume q: "q \<in> set (idempotency d2)" "idem_matches y q"
    then have "im_operation q = io_operation x" using y plain
      by (auto simp: idem_matches_def set_record_identities split: if_splits)
    with q(1) others have "q \<in> set (idempotency d1)" by blast
    with q(2) rows show "im_hash q = io_hash x \<and> im_body q = io_store x r" by blast
  qed
  have some2: "\<exists>q \<in> set (idempotency d2). idem_matches y q" using rows kept by blast
  from execute_recorded [OF rows2 some2 key] that show ?thesis by metis
qed

section \<open>Sweep rules\<close>

text \<open>The reference of an update or a stop is the rule, so the first one fixes every later one.\<close>

lemma rule_request_rows:
  assumes first: "rule_request now a operation key reference hash body store replay d = Inr (False, v, d1)"
    and frame: "\<And>r e. body d = Inr (r, e) \<Longrightarrow> idempotency e = idempotency d"
    and free: "key_free a operation key2 d" and ref: "reference \<noteq> []"
    and y: "y = \<lparr>io_auth = a, io_operation = operation, io_key = key2, io_referenceKey = Some reference,
      io_referenceOperation = None, io_hash = hash2, io_execute = f, io_store = g, io_replay = p\<rparr>"
  shows "\<forall>q \<in> set (idempotency d1). idem_matches y q \<longrightarrow> im_hash q = hash \<and> im_body q = store v"
    and "\<exists>q \<in> set (idempotency d1). idem_matches y q"
proof -
  let ?x = "\<lparr>io_auth = a, io_operation = operation, io_key = key, io_referenceKey = Some reference,
      io_referenceOperation = None, io_hash = hash, io_execute = (\<lambda>d. map_outcome (\<lambda>(r, d'). (viewRule r, d')) (body d)),
      io_store = store, io_replay = (\<lambda>j d. Inr (replay j))\<rparr>"
  from first have x: "execute now ?x d = Inr (False, v, d1)" by (simp add: rule_request_def)
  have "\<forall>r e. io_execute ?x d = Inr (r, e) \<longrightarrow> idempotency e = idempotency d"
    using frame by (auto simp: tx_simps)
  from reference_rows [OF x this, where y = y] ref free
  show "\<forall>q \<in> set (idempotency d1). idem_matches y q \<longrightarrow> im_hash q = hash \<and> im_body q = store v"
    and "\<exists>q \<in> set (idempotency d1). idem_matches y q" by (simp_all add: y truthy_def)
qed

lemma if_Inl_Inr_eq: "((if c then Inl e else Inr v) = Inr w) \<longleftrightarrow> \<not> c \<and> v = w"
  by simp

lemma rule_writes_frame:
  "idempotency (auditRule r actor ty act reason d) = idempotency d" "idempotency (set_rule i f d) = idempotency d"
  by (simp_all add: auditRule_def log_audit_def set_rule_def)

lemma update_rule_frame:
  assumes "update_rule a i x actor d = Inr (r, e)"
  shows "idempotency e = idempotency d"
  using assms unfolding update_rule_def Let_def and_then_Inr_iff case_prod_beta if_Inl_Inr_eq
  by (elim exE conjE) (auto simp only: Inr_inject prod.inject rule_writes_frame)

lemma disable_rule_frame:
  assumes "disable_rule a i reason actor d = Inr (r, e)"
  shows "idempotency e = idempotency d"
  using assms unfolding disable_rule_def Let_def and_then_Inr_iff
  by (elim exE conjE) (auto simp only: Inr_inject prod.inject rule_writes_frame split: if_splits)


definition demo_rule :: sweep_rule where
  "demo_rule = \<lparr>sr_id = 5, sr_merchant = 2, sr_group = 3, sr_env = Live, sr_name = ''night'',
     sr_status = SR_approved, sr_destination = Platform_treasury, sr_phone = ''+251911000001'', sr_destName = ''Till'',
     sr_highWater = 50000, sr_target = 10000, sr_maxPerRun = 30000, sr_interval = 3600, sr_enabled = True,
     sr_version = 2, sr_proposedBy = ''k'', sr_approvedBy = Some ''ops'', sr_approvalReason = Some ''fine'',
     sr_approvedAt = Some 5, sr_lastExecutedAt = None, sr_createdAt = 1\<rparr>"

definition demo_rule_group :: device_group where
  "demo_rule_group = \<lparr>g_id = 3, g_location = 4, g_name = ''A'', g_code = ''A'', g_dailyLimit = 100000,
     g_ceiling = 100000, g_safetyBalance = 0, g_safetyHeadroom = 0, g_merchants = []\<rparr>"

definition demo_rule_db :: db where
  "demo_rule_db = empty_db\<lparr>sweepRules := [demo_rule], groups := [demo_rule_group]\<rparr>"

definition demo_sweep :: sweep_input where
  "demo_sweep = \<lparr>wi_group = 3, wi_name = ''night'', wi_destination = Platform_treasury,
     wi_phone = ''+251911000001'', wi_destName = ''Till'', wi_highWater = ''600.00'', wi_target = ''100.00'',
     wi_maxPerRun = ''300.00'', wi_interval = 3600\<rparr>"

definition demo_replace :: "string \<Rightarrow> string \<Rightarrow> db \<Rightarrow> (bool \<times> rule_view \<times> db) outcome" where
  "demo_replace key hash = update_rule_request 10 (2, Live) 5 demo_sweep ''k'' key hash
     (\<lambda>v. JId (rw_id v)) (\<lambda>_. viewRule demo_rule)"

lemma demo_amounts: "sweep_moneys demo_sweep = Inr (60000, 10000, 30000)"
  by (simp add: sweep_moneys_def demo_sweep_def amountToMinor_def etbAmountSchema_def amount_shape_def
      strip_dot_def nat_of_digits_def digit_value_def is_digit_def last_n_def)

lemma demo_fields:
  "wi_group demo_sweep = 3" "wi_name demo_sweep = ''night''" "sr_id demo_rule = 5" "sr_merchant demo_rule = 2"
  "sr_env demo_rule = Live" "sr_version demo_rule = 2" "sr_status demo_rule = SR_approved" "g_id demo_rule_group = 3" "g_code demo_rule_group = ''A''"
  "g_merchants demo_rule_group = []"
  by (simp_all add: demo_sweep_def demo_rule_def demo_rule_group_def)

lemma demo_replace_first: "\<exists>v d1. demo_replace ''a'' ''h1'' demo_rule_db = Inr (False, v, d1)"
proof -
  have "\<exists>reason. update_rule (2, Live) 5 demo_sweep ''k'' demo_rule_db =
      Inr (replaced_rule demo_sweep ''k'' 60000 10000 30000 demo_rule,
        auditRule (replaced_rule demo_sweep ''k'' 60000 10000 30000 demo_rule) ''k'' ''merchant_api_key''
          ''sweep_rule.update'' reason
          (set_rule 5 (replaced_rule demo_sweep ''k'' 60000 10000 30000) demo_rule_db))"
    by (simp add: update_rule_def demo_amounts Let_def demo_fields demo_rule_db_def requireMerchantRule_def
        find_rule_def assertGroupAccess_def rule_name_taken_def nat_to_digits_eval digit_char_def)
      (rule exI, rule refl)
  then show ?thesis
    by (auto simp: demo_replace_def update_rule_request_def rule_request_def execute_def idem_first_def
        reference_prefix_def first_by_def rule_writes_frame demo_rule_db_def empty_db_def Let_def
        record_identities_def nat_to_digits_eval digit_char_def truthy_def idem_taken_def idem_row_def list_ex_iff)
qed


text \<open>C22. Stopping a rule works once only: once a rule was stopped, a later request to stop it with
  the same reason changes no rule, also when the rule was replaced and approved again in between
  and the request carries a fresh key; it is answered from the first answer.\<close>

theorem second_stop_ignored:
  assumes "disable_rule_request now a i reason actor key hash store replay d = Inr (False, v, d1)"
    and "set (idempotency d1) \<subseteq> set (idempotency d2)"
    and "\<forall>q \<in> set (idempotency d2) - set (idempotency d1). im_operation q \<noteq> ''sweep_rules.disable:'' @ nat_to_digits i"
    and "key_free a (''sweep_rules.disable:'' @ nat_to_digits i) key2 d"
    and "\<not> starts_with key2 reference_prefix"
  shows "case disable_rule_request later a i reason2 actor2 key2 hash store2 replay2 d2 of
     Inr (replayed, v2, d3) \<Rightarrow> replayed \<and> v2 = replay2 (store v) \<and> sweepRules d3 = sweepRules d2
   | Inl e \<Rightarrow> False"
proof -
  let ?op = "''sweep_rules.disable:'' @ nat_to_digits i"
  let ?y = "\<lparr>io_auth = a, io_operation = ?op, io_key = key2, io_referenceKey = Some (nat_to_digits i),
      io_referenceOperation = None, io_hash = hash,
      io_execute = (\<lambda>d. map_outcome (\<lambda>(r, d'). (viewRule r, d')) (disable_rule a i reason2 actor2 d)),
      io_store = store2, io_replay = (\<lambda>j d. Inr (replay2 j))\<rparr>"
  let ?x = "?y\<lparr>io_key := key, io_store := store, io_replay := (\<lambda>j d. Inr (replay j)),
      io_execute := (\<lambda>d. map_outcome (\<lambda>(r, d'). (viewRule r, d')) (disable_rule a i reason actor d))\<rparr>"
  have x: "execute now ?x d = Inr (False, v, d1)" using assms(1) by (simp add: disable_rule_request_def rule_request_def)
  have frame: "\<forall>r e. io_execute ?x d = Inr (r, e) \<longrightarrow> idempotency e = idempotency d"
    by (auto simp: tx_simps dest: disable_rule_frame)
  obtain e where "execute later ?y d2 = idem_replay later ?y e d2" "im_hash e = io_hash ?x" "im_body e = io_store ?x v"
    by (rule reference_answered [OF x frame, where y = ?y and ?d2.0 = d2 and later = later])
      (use assms(2-5) in \<open>simp_all add: truthy_def\<close>)
  then show ?thesis
    by (simp add: disable_rule_request_def rule_request_def idem_replay_def Let_def idem_add_missing_def)
qed

text \<open>A stop, a replacement, its approval and a second stop.\<close>

definition demo_stop :: "string \<Rightarrow> db \<Rightarrow> (bool \<times> rule_view \<times> db) outcome" where
  "demo_stop key = disable_rule_request 10 (2, Live) 5 ''pause'' ''k'' key ''h''
     (\<lambda>v. JId (rw_id v)) (\<lambda>_. viewRule demo_rule)"

lemma demo_stop_first:
  "\<exists>v d1. demo_stop ''a'' demo_rule_db = Inr (False, v, d1) \<and> map sr_id (sweepRules d1) = [5]"
proof -
  obtain r where "disable_rule (2, Live) 5 ''pause'' ''k'' demo_rule_db = Inr (r, auditRule r ''k'' ''merchant_api_key''
      ''sweep_rule.disable'' ''pause'' (set_rule 5 (\<lambda>r. r\<lparr>sr_enabled := False, sr_status := SR_disabled\<rparr>) demo_rule_db))"
    by (auto simp: disable_rule_def Let_def demo_fields demo_rule_db_def requireMerchantRule_def find_rule_def)
  then show ?thesis
    by (auto simp: demo_stop_def disable_rule_request_def rule_request_def execute_def idem_first_def
        reference_prefix_def first_by_def rule_writes_frame demo_rule_db_def empty_db_def Let_def demo_fields
        record_identities_def nat_to_digits_eval digit_char_def truthy_def idem_taken_def idem_row_def list_ex_iff
        auditRule_def log_audit_def set_rule_def)
qed

theorem second_stop_ignored_witness:
  "case demo_stop ''a'' demo_rule_db of
     Inr (False, v, d1) \<Rightarrow>
       (case demo_stop ''b'' (set_rule 5 (decided_rule SR_approved ''ops'' ''fine'' 50) d1) of
          Inr (replayed, v2, d3) \<Rightarrow> replayed \<and> map sr_status (sweepRules d3) = [SR_approved]
        | Inl e \<Rightarrow> False)
   | _ \<Rightarrow> False"
proof -
  obtain v d1 where first: "demo_stop ''a'' demo_rule_db = Inr (False, v, d1)" and ids: "map sr_id (sweepRules d1) = [5]"
    using demo_stop_first by (elim exE conjE) (rule that)
  let ?d2 = "set_rule 5 (decided_rule SR_approved ''ops'' ''fine'' 50) d1"
  have "map sr_status (sweepRules ?d2) = [SR_approved]"
    using ids by (auto simp: set_rule_def decided_rule_def)
  moreover have "key_free (2, Live) (''sweep_rules.disable:'' @ nat_to_digits 5) ''b'' demo_rule_db"
    by (simp add: key_free_def demo_rule_db_def empty_db_def)
  ultimately show ?thesis
    using second_stop_ignored [OF first [unfolded demo_stop_def], where ?d2.0 = ?d2 and ?key2.0 = "''b''"
        and later = 10 and ?reason2.0 = "''pause''" and ?actor2.0 = "''k''"
        and ?store2.0 = "\<lambda>v. JId (rw_id v)" and ?replay2.0 = "\<lambda>_. viewRule demo_rule"] first
    by (auto simp: demo_stop_def rule_writes_frame reference_prefix_def split: sum.splits)
qed

end
