(* ===== verification/Leases.thy ===== *)
theory Leases
  imports Prelude
begin

text \<open>
  The contract of the delivery queues. Several workers poll the same rows. A worker claims a row
  with a conditional update that writes a fresh random token and an expiry, works on it, and
  closes it with an update that names the token. The webhook deliveries and the alert deliveries
  are such queues and interpret the contract; what follows from it alone is proved here.
\<close>

section \<open>Events of a queue\<close>

datatype 'o lease_event =
    Claim (event_token: string) (event_time: time) (event_row: id)
  | Close (event_token: string) (event_result: 'o) (event_row: id)

definition run_event ::
  "(string \<Rightarrow> time \<Rightarrow> id \<Rightarrow> 's \<Rightarrow> bool \<times> 's) \<Rightarrow> (string \<Rightarrow> 'o \<Rightarrow> id \<Rightarrow> 's \<Rightarrow> bool \<times> 's) \<Rightarrow>
   'o lease_event \<Rightarrow> 's \<Rightarrow> 's" where
  "run_event claim close e s = (case e of
       Claim tok now i \<Rightarrow> snd (claim tok now i s)
     | Close tok out i \<Rightarrow> snd (close tok out i s))"

text \<open>The events of other workers while a lease on the row is running.\<close>

fun foreign :: "string \<Rightarrow> time \<Rightarrow> 'o lease_event \<Rightarrow> bool" where
  "foreign tok until (Claim tok2 now i) \<longleftrightarrow> tok2 \<noteq> tok \<and> now < until"
| "foreign tok until (Close tok2 out i) \<longleftrightarrow> tok2 \<noteq> tok"

locale leased_queue =
  fixes leased :: "'s \<Rightarrow> id \<Rightarrow> (string \<times> time) option"
    and claim :: "string \<Rightarrow> time \<Rightarrow> id \<Rightarrow> 's \<Rightarrow> bool \<times> 's"
    and close :: "string \<Rightarrow> 'o \<Rightarrow> id \<Rightarrow> 's \<Rightarrow> bool \<times> 's"
    and span :: time and inv :: "'s \<Rightarrow> bool" and final :: "'o \<Rightarrow> bool"
  assumes claim_inv: "inv s \<Longrightarrow> inv (snd (claim tok now i s))"
    and close_inv: "inv s \<Longrightarrow> inv (snd (close tok out i s))"
    and claim_grants: "inv s \<Longrightarrow> claim tok now i s = (True, s') \<Longrightarrow> leased s' i = Some (tok, now + span)"
    and claim_refused: "inv s \<Longrightarrow> leased s i = Some (t, until) \<Longrightarrow> now < until \<Longrightarrow> claim tok now i s = (False, s)"
    and claim_other: "j \<noteq> i \<Longrightarrow> leased (snd (claim tok now j s)) i = leased s i"
    and close_other: "j \<noteq> i \<Longrightarrow> leased (snd (close tok out j s)) i = leased s i"
    and close_foreign: "inv s \<Longrightarrow> leased s i = Some (t, until) \<Longrightarrow> t \<noteq> tok \<Longrightarrow> close tok out i s = (False, s)"
    and close_frees: "inv s \<Longrightarrow> final out \<Longrightarrow> close tok out i s = (True, s') \<Longrightarrow> leased s' i = None"
begin

lemma event_inv: "inv s \<Longrightarrow> inv (run_event claim close e s)"
  by (simp add: run_event_def claim_inv close_inv split: lease_event.split)

lemma foreign_event_keeps:
  assumes "inv s" and "leased s i = Some (tok, until)" and "foreign tok until e"
  shows "leased (run_event claim close e s) i = Some (tok, until)"
proof (cases e)
  case (Claim tok2 now j)
  with assms show ?thesis
    by (cases "j = i") (simp_all add: run_event_def claim_other claim_refused [OF assms(1,2)])
next
  case (Close tok2 out j)
  with assms show ?thesis
    by (cases "j = i") (auto simp: run_event_def close_other close_foreign [OF assms(1,2)])
qed

text \<open>Until its expiry, no other worker gets hold of a leased row.\<close>

lemma lease_is_exclusive:
  assumes "inv s" and "leased s i = Some (tok, until)" and "list_all (foreign tok until) es"
  shows "leased (fold (run_event claim close) es s) i = Some (tok, until) \<and> inv (fold (run_event claim close) es s)"
  using assms by (induction es arbitrary: s) (auto simp: foreign_event_keeps event_inv)

lemma claim_keeps_inv: "inv s \<Longrightarrow> claim tok now i s = (won, s1) \<Longrightarrow> inv s1"
  using claim_inv [of s tok now i] by simp

text \<open>So the second of two successful claims of a row comes after the first lease has run out,
  or after the first worker has closed the row.\<close>

lemma second_claim_waits:
  assumes "inv s" and "claim tok now i s = (True, s1)"
    and "list_all (foreign tok (now + span)) es"
    and "claim tok2 later i (fold (run_event claim close) es s1) = (True, s2)"
  shows "now + span \<le> later"
proof (rule ccontr)
  assume "\<not> now + span \<le> later"
  then have early: "later < now + span" by simp
  have "leased (fold (run_event claim close) es s1) i = Some (tok, now + span) \<and>
      inv (fold (run_event claim close) es s1)"
    using claim_keeps_inv [OF assms(1,2)] claim_grants [OF assms(1,2)] assms(3) by (rule lease_is_exclusive)
  then have "claim tok2 later i (fold (run_event claim close) es s1) = (False, fold (run_event claim close) es s1)"
    using early claim_refused by blast
  with assms(4) show False by simp
qed

text \<open>A worker whose row was claimed again by another cannot close it.\<close>

lemma stale_worker_cannot_close:
  assumes "inv s" and "claim tok2 later i s = (True, s1)" and "tok \<noteq> tok2"
    and "list_all (foreign tok2 (later + span)) es"
  shows "close tok out i (fold (run_event claim close) es s1) = (False, fold (run_event claim close) es s1)"
  using lease_is_exclusive [OF claim_keeps_inv [OF assms(1,2)] claim_grants [OF assms(1,2)] assms(4)] assms(3)
    close_foreign by metis

end

section \<open>Conditional updates by id\<close>

text \<open>\<open>updateMany\<close> on an id and a condition: the number of rows it changed is one or zero.\<close>

definition update_if :: "('r \<Rightarrow> id) \<Rightarrow> id \<Rightarrow> ('r \<Rightarrow> bool) \<Rightarrow> ('r \<Rightarrow> 'r) \<Rightarrow> 'r list \<Rightarrow> bool \<times> 'r list" where
  "update_if key i p f rs =
     (list_ex (\<lambda>r. key r = i \<and> p r) rs, update_where (\<lambda>r. key r = i \<and> p r) f rs)"

lemma update_if_fst: "fst (update_if key i p f rs) \<longleftrightarrow> list_ex (\<lambda>r. key r = i \<and> p r) rs"
  by (simp add: update_if_def)

lemma update_if_none:
  assumes "\<not> list_ex (\<lambda>r. key r = i \<and> p r) rs"
  shows "update_if key i p f rs = (False, rs)"
proof -
  have "update_where (\<lambda>r. key r = i \<and> p r) f rs = rs"
    using assms by (intro update_where_idle) (auto simp: list_ex_iff)
  with assms show ?thesis by (simp add: update_if_def)
qed

lemma update_if_find:
  assumes keys: "\<And>r. key (f r) = key r"
  shows "find (\<lambda>r. key r = j) (snd (update_if key i p f rs)) =
    map_option (\<lambda>r. if key r = i \<and> p r then f r else r) (find (\<lambda>r. key r = j) rs)"
  by (induction rs) (auto simp: update_if_def keys)

lemma update_if_find_other:
  assumes "\<And>r. key (f r) = key r" and "i \<noteq> j"
  shows "find (\<lambda>r. key r = j) (snd (update_if key i p f rs)) = find (\<lambda>r. key r = j) rs"
  using assms by (induction rs) (auto simp: update_if_def)

text \<open>With unique ids the row that was changed is the one found by its id.\<close>

lemma distinct_find:
  assumes "distinct (map key rs)" and "r \<in> set rs"
  shows "find (\<lambda>x. key x = key r) rs = Some r"
  using assms by (induction rs) (auto simp: rev_image_eqI)

lemma update_if_won:
  assumes "distinct (map key rs)" and keys: "\<And>r. key (f r) = key r"
    and "update_if key i p f rs = (True, rs')"
  obtains r where "find (\<lambda>x. key x = i) rs = Some r" and "p r" and "find (\<lambda>x. key x = i) rs' = Some (f r)"
proof -
  from assms(3) obtain r where r: "r \<in> set rs" "key r = i" "p r"
    by (auto simp: update_if_def list_ex_iff)
  with distinct_find [OF assms(1) r(1)] have f: "find (\<lambda>x. key x = i) rs = Some r" by simp
  moreover have "find (\<lambda>x. key x = i) rs' = Some (f r)"
    using update_if_find [of key f i i p rs] keys f r assms(3) by simp
  ultimately show ?thesis using r(3) that by blast
qed

lemma update_if_lost:
  assumes "distinct (map key rs)" and "find (\<lambda>x. key x = i) rs = Some r" and "\<not> p r"
  shows "update_if key i p f rs = (False, rs)"
proof (rule update_if_none)
  show "\<not> list_ex (\<lambda>r. key r = i \<and> p r) rs"
    using assms distinct_find [OF assms(1)] by (auto simp: list_ex_iff)
qed

lemma update_if_keys:
  assumes "\<And>r. key (f r) = key r"
  shows "map key (snd (update_if key i p f rs)) = map key rs"
  using assms by (induction rs) (simp_all add: update_if_def)

end
