(* ===== verification/JsonText.thy ===== *)
theory JsonText
  imports Prelude
begin

text \<open>
  The text of a JSON value as \<open>stringifyJsonSafe\<close> of
  \<open>apps/api/src/common/json-serialization.ts\<close> writes it: \<open>JSON.stringify\<close> with a replacer that
  prints native bigints as decimal strings. The texts of UUIDs and of dates are arguments.
\<close>

record json_format =
  jf_uuid :: "id \<Rightarrow> string"
  jf_iso :: "time \<Rightarrow> string"

definition int_text :: "int \<Rightarrow> string" where
  "int_text v = (if v < 0 then ''-'' @ nat_to_digits (nat (- v)) else nat_to_digits (nat v))"

definition hex_digit :: "nat \<Rightarrow> char" where
  "hex_digit n = char_of (if n < 10 then 48 + n else 87 + n)"

text \<open>A character inside a JSON string.\<close>

definition escape_char :: "char \<Rightarrow> string" where
  "escape_char c =
     (if c = CHR 0x22 then [CHR 0x5C, CHR 0x22]
      else if c = CHR 0x5C then [CHR 0x5C, CHR 0x5C]
      else if c = CHR 0x08 then [CHR 0x5C, CHR ''b'']
      else if c = CHR 0x0C then [CHR 0x5C, CHR ''f'']
      else if c = CHR 0x0A then [CHR 0x5C, CHR ''n'']
      else if c = CHR 0x0D then [CHR 0x5C, CHR ''r'']
      else if c = CHR 0x09 then [CHR 0x5C, CHR ''t'']
      else if (of_char c :: nat) < 32 then
        [CHR 0x5C, CHR ''u'', CHR ''0'', CHR ''0'', hex_digit (of_char c div 16), hex_digit (of_char c mod 16)]
      else [c])"

definition quoted :: "string \<Rightarrow> string" where
  "quoted s = [CHR 0x22] @ concat (map escape_char s) @ [CHR 0x22]"

definition dec_text :: "int \<Rightarrow> nat \<Rightarrow> string" where
  "dec_text m k =
     (let ds = nat_to_digits (nat \<bar>m\<bar>);
          padded = replicate (Suc k - length ds) (CHR ''0'') @ ds
      in (if m < 0 then ''-'' else []) @ take (length padded - k) padded @
         (if k = 0 then [] else ''.'' @ drop (length padded - k) padded))"

text \<open>The replacer \<open>jsonBigIntReplacer\<close> turns a bigint into the string of its digits.\<close>

function stringifyJsonSafe :: "json_format \<Rightarrow> json \<Rightarrow> string" where
  "stringifyJsonSafe f JNull = ''null''"
| "stringifyJsonSafe f (JBool b) = (if b then ''true'' else ''false'')"
| "stringifyJsonSafe f (JInt n) = int_text n"
| "stringifyJsonSafe f (JDec m k) = dec_text m k"
| "stringifyJsonSafe f (JBig n) = quoted (int_text n)"
| "stringifyJsonSafe f (JStr s) = quoted s"
| "stringifyJsonSafe f (JId i) = quoted (jf_uuid f i)"
| "stringifyJsonSafe f (JDate t) = quoted (jf_iso f t)"
| "stringifyJsonSafe f (JArr vs) = ''['' @ join_with '','' (map (stringifyJsonSafe f) vs) @ '']''"
| "stringifyJsonSafe f (JObj fs) =
     ''{'' @ join_with '','' (map (\<lambda>(k, v). quoted k @ '':'' @ stringifyJsonSafe f v) fs) @ ''}''"
  by pat_completeness auto
termination by (relation "measure (size \<circ> snd)") (auto simp: less_Suc_eq_le size_list_estimation' intro: order_trans)

text \<open>\<open>String(value)\<close> of a plain metadata value.\<close>

fun js_string :: "json_format \<Rightarrow> json \<Rightarrow> string" where
  "js_string f (JStr s) = s"
| "js_string f (JId i) = jf_uuid f i"
| "js_string f (JDate t) = jf_iso f t"
| "js_string f v = stringifyJsonSafe f v"

end
