(* ===== verification/Alerts.thy ===== *)
theory Alerts
  imports Schema Leases JsonText
begin

text \<open>
  Operational alerts, from \<open>apps/api/src/alerts/alerts.service.ts\<close>: an alert is raised once
  per kind and metadata while it is unresolved, its Telegram message is sent by workers that
  lease the delivery row, and staff acknowledge and resolve it. The hash, the random lease
  tokens, the times and the answers of Telegram are arguments; the metadata column of the audit
  rows and the log lines are left out.
\<close>

declare split_paired_All [simp del] split_paired_Ex [simp del]

section \<open>Redaction\<close>

text \<open>The unanchored case-insensitive patterns \<open>/pin|secret|token|raw|body/i\<close> and
  \<open>/phone|number/i\<close>.\<close>

fun occurs :: "string \<Rightarrow> string \<Rightarrow> bool" where
  "occurs w [] = (w = [])"
| "occurs w (c # cs) = (starts_with (c # cs) w \<or> occurs w cs)"

definition mentions :: "string list \<Rightarrow> string \<Rightarrow> bool" where
  "mentions ws key = list_ex (\<lambda>w. occurs w (map to_lower key)) ws"

definition secret_words :: "string list" where
  "secret_words = [''pin'', ''secret'', ''token'', ''raw'', ''body'']"

definition phone_words :: "string list" where
  "phone_words = [''phone'', ''number'']"

definition mask_middle :: "string \<Rightarrow> string" where
  "mask_middle v = take 3 v @ ''***'' @ last_n 2 v"

definition redact_entry :: "string \<times> json \<Rightarrow> string \<times> json" where
  "redact_entry = (\<lambda>(key, v).
     if mentions secret_words key then (key, JStr ''[REDACTED]'')
     else if mentions phone_words key then
       (case v of JStr s \<Rightarrow> (key, JStr (mask_middle s)) | _ \<Rightarrow> (key, v))
     else (key, v))"

definition redactMetadata :: "json_object \<Rightarrow> json_object" where
  "redactMetadata = map redact_entry"

section \<open>Configuration\<close>

definition allAlertTypes :: "string list" where
  "allAlertTypes = [''device_offline'', ''stale_balance'', ''wallet_high_water'', ''low_liquidity'',
     ''daily_limit_risk'', ''unknown_payout'', ''unmatched_receipt'', ''reconciliation_drift'',
     ''webhook_backlog'', ''openclaw_failure'']"

text \<open>The environment of the process, and the hash.\<close>

record alert_env =
  ae_botToken :: "string option"
  ae_chatId :: "string option"
  ae_alertTypes :: "string option"
  ae_sha256 :: "string \<Rightarrow> string"
  ae_format :: json_format

definition set_text :: "string option \<Rightarrow> bool" where
  "set_text s = (s \<noteq> None \<and> s \<noteq> Some [])"

definition find_setting :: "db \<Rightarrow> string \<Rightarrow> platform_setting option" where
  "find_setting d k = find (\<lambda>s. pt_key s = k) (settings d)"

fun json_strings :: "json list \<Rightarrow> string list" where
  "json_strings [] = []"
| "json_strings (JStr s # vs) = s # json_strings vs"
| "json_strings (v # vs) = json_strings vs"

definition telegram_configuration :: "alert_env \<Rightarrow> db \<Rightarrow> string \<times> string list" where
  "telegram_configuration env d =
     (let fields = (case find_setting d ''alerts.telegram'' of
            Some s \<Rightarrow> (case pt_value s of JObj fs \<Rightarrow> fs | _ \<Rightarrow> [])
          | None \<Rightarrow> [])
      in ((case json_field ''chat_id'' fields of Some (JStr c) \<Rightarrow> c | _ \<Rightarrow> or_else (ae_chatId env) []),
          (case json_field ''enabled_types'' fields of
             Some (JArr vs) \<Rightarrow> json_strings vs
           | _ \<Rightarrow> map trim (split_on (CHR '','') (or_else (ae_alertTypes env) ''*'')))))"

definition set_setting :: "string \<Rightarrow> json \<Rightarrow> string \<Rightarrow> db \<Rightarrow> db" where
  "set_setting k v actor d = (case find_setting d k of
       Some s \<Rightarrow> d\<lparr>settings := update_where (\<lambda>s. pt_key s = k)
           (\<lambda>s. s\<lparr>pt_value := v, pt_version := pt_version s + 1, pt_updatedBy := actor\<rparr>) (settings d)\<rparr>
     | None \<Rightarrow> d\<lparr>settings := settings d @ [\<lparr>pt_key = k, pt_value = v, pt_version = 1, pt_updatedBy = actor\<rparr>]\<rparr>)"

definition log_text_audit :: "string \<Rightarrow> string \<Rightarrow> string \<Rightarrow> string \<Rightarrow> string \<Rightarrow> string option \<Rightarrow> db \<Rightarrow> db" where
  "log_text_audit actorType actorId action targetType targetId reason d =
     d\<lparr>audit := audit d @ [\<lparr>au_merchant = None, au_actorType = actorType, au_actorId = actorId,
         au_action = action, au_targetType = targetType, au_targetId = targetId, au_reason = reason\<rparr>]\<rparr>"

definition first_occurrences :: "'a list \<Rightarrow> 'a list" where
  "first_occurrences xs = rev (remdups (rev xs))"

definition configureTelegram ::
  "alert_env \<Rightarrow> string \<Rightarrow> string list \<Rightarrow> string \<Rightarrow> string \<Rightarrow> db \<Rightarrow> (string \<times> string list \<times> int \<times> bool) \<times> db" where
  "configureTelegram env chat types actor reason d =
     (let c = trim chat;
          ts = filter (\<lambda>t. t = ''*'' \<or> t \<in> set allAlertTypes) (first_occurrences types);
          d1 = set_setting ''alerts.telegram'' (JObj [(''chat_id'', JStr c), (''enabled_types'', JArr (map JStr ts))]) actor d;
          version = (case find_setting d1 ''alerts.telegram'' of Some s \<Rightarrow> pt_version s | None \<Rightarrow> 0)
      in ((c, ts, version, set_text (ae_botToken env)),
          log_text_audit ''platform_staff'' actor ''alerts.configuration_updated'' ''platform_setting''
            ''alerts.telegram'' (Some reason) d1))"

section \<open>Raising an alert\<close>

definition unresolved :: "operational_alert \<Rightarrow> bool" where
  "unresolved a = (oa_status a \<in> {AL_open, AL_acknowledged})"

definition dedupe_key :: "alert_env \<Rightarrow> string \<Rightarrow> json_object \<Rightarrow> string" where
  "dedupe_key env ty meta = ae_sha256 env (ty @ '':'' @ stringifyJsonSafe (ae_format env) (JObj meta))"

definition new_alert :: "alert_env \<Rightarrow> time \<Rightarrow> string \<Rightarrow> string \<Rightarrow> json_object \<Rightarrow> id \<Rightarrow> operational_alert" where
  "new_alert env now ty message meta i = \<lparr>oa_id = i, oa_type = ty,
     oa_severity = (if ty = ''unknown_payout'' \<or> ty = ''reconciliation_drift'' then ''critical'' else ''warning''),
     oa_status = AL_open, oa_message = take 1000 message, oa_dedupeKey = dedupe_key env ty meta,
     oa_metadata = meta, oa_acknowledgedBy = None, oa_acknowledgedAt = None, oa_resolvedBy = None,
     oa_resolvedAt = None, oa_createdAt = now\<rparr>"

definition new_alert_delivery :: "time \<Rightarrow> id \<Rightarrow> string \<Rightarrow> id \<Rightarrow> alert_delivery" where
  "new_alert_delivery now alert chat i = \<lparr>ad_id = i, ad_alert = alert, ad_channel = ''telegram'',
     ad_destination = chat, ad_status = AD_pending, ad_attempt = 0, ad_nextAttemptAt = now,
     ad_leaseToken = None, ad_leaseExpiresAt = None, ad_lastError = None, ad_deliveredAt = None,
     ad_createdAt = now\<rparr>"

text \<open>Raises an alert and queues its message; the flag tells whether a new alert was made (the
  caller then starts a dispatch of one message).\<close>

definition notify :: "alert_env \<Rightarrow> time \<Rightarrow> string \<Rightarrow> string \<Rightarrow> json_object \<Rightarrow> db \<Rightarrow> bool \<times> db" where
  "notify env now ty message metadata d =
     (let meta = redactMetadata metadata; key = dedupe_key env ty meta;
          (chat, types) = telegram_configuration env d
      in if list_ex (\<lambda>a. oa_dedupeKey a = key \<and> unresolved a) (alerts d) then (False, d)
         else
           let a = new_alert env now ty message meta (next_id d);
               d1 = log_audit None ''system'' ''alert-engine'' (''alert.'' @ ty) ''operational_alert'' (oa_id a)
                      (Some (oa_message a)) (d\<lparr>alerts := alerts d @ [a], next_id := Suc (next_id d)\<rparr>);
               d2 = (if (''*'' \<in> set types \<or> ty \<in> set types) \<and> set_text (ae_botToken env) \<and> chat \<noteq> []
                     then d1\<lparr>alertDeliveries := alertDeliveries d1 @ [new_alert_delivery now (oa_id a) chat (next_id d1)],
                        next_id := Suc (next_id d1)\<rparr>
                     else d1)
           in (True, d2))"

section \<open>Staff decisions\<close>

definition transition_alert ::
  "time \<Rightarrow> id \<Rightarrow> alert_status \<Rightarrow> string \<Rightarrow> string \<Rightarrow> string \<Rightarrow> db \<Rightarrow> (id \<times> alert_status) option \<times> db" where
  "transition_alert now i st action actor reason d =
     (if \<not> list_ex (\<lambda>a. oa_id a = i) (alerts d) then (None, d)
      else
        let f = (\<lambda>a. if st = AL_acknowledged
                 then a\<lparr>oa_status := st, oa_acknowledgedBy := Some actor, oa_acknowledgedAt := Some now\<rparr>
                 else a\<lparr>oa_status := st, oa_resolvedBy := Some actor, oa_resolvedAt := Some now\<rparr>)
        in (Some (i, st), log_audit None ''platform_staff'' actor action ''operational_alert'' i (Some reason)
              (d\<lparr>alerts := update_where (\<lambda>a. oa_id a = i) f (alerts d)\<rparr>)))"

definition acknowledge :: "time \<Rightarrow> id \<Rightarrow> string \<Rightarrow> string \<Rightarrow> db \<Rightarrow> (id \<times> alert_status) option \<times> db" where
  "acknowledge now i = transition_alert now i AL_acknowledged ''alert.acknowledged''"

definition resolve_alert :: "time \<Rightarrow> id \<Rightarrow> string \<Rightarrow> string \<Rightarrow> db \<Rightarrow> (id \<times> alert_status) option \<times> db" where
  "resolve_alert now i = transition_alert now i AL_resolved ''alert.resolved''"

section \<open>Sending\<close>

definition due_alert :: "time \<Rightarrow> alert_delivery \<Rightarrow> bool" where
  "due_alert now a \<longleftrightarrow>
     (ad_status a \<in> {AD_pending, AD_failed} \<and> ad_nextAttemptAt a \<le> now) \<or>
     (ad_status a = AD_processing \<and> opt_holds (\<lambda>e. e < now) (ad_leaseExpiresAt a))"

definition alert_candidates :: "time \<Rightarrow> nat \<Rightarrow> db \<Rightarrow> id list" where
  "alert_candidates now limit d = map ad_id (take limit (sort_key ad_nextAttemptAt
     (filter (\<lambda>a. now - 24 * 60 * 60000 \<le> ad_createdAt a \<and> due_alert now a) (alertDeliveries d))))"

definition claim_alert :: "string \<Rightarrow> time \<Rightarrow> id \<Rightarrow> db \<Rightarrow> bool \<times> db" where
  "claim_alert token now i d =
     (let (won, rows) = update_if ad_id i (due_alert now)
            (\<lambda>a. a\<lparr>ad_status := AD_processing, ad_leaseToken := Some token,
               ad_leaseExpiresAt := Some (now + 30000), ad_attempt := ad_attempt a + 1\<rparr>) (alertDeliveries d)
      in (won, d\<lparr>alertDeliveries := rows\<rparr>))"

text \<open>The columns a worker writes when it closes its row.\<close>

datatype alert_result = Sent (sent_at: time) | Not_sent (failed_at: time) (failed_attempt: nat) (failure: string)

definition retry_delay :: "nat \<Rightarrow> int" where
  "retry_delay attempt = min 3600 (15 * 2 ^ min attempt 8)"

definition closed_alert :: "alert_result \<Rightarrow> alert_delivery \<Rightarrow> alert_delivery" where
  "closed_alert out a = (case out of
       Sent now \<Rightarrow> a\<lparr>ad_status := AD_delivered, ad_deliveredAt := Some now, ad_leaseToken := None,
         ad_leaseExpiresAt := None, ad_lastError := None\<rparr>
     | Not_sent now n err \<Rightarrow> a\<lparr>ad_status := AD_failed, ad_nextAttemptAt := now + retry_delay n * 1000,
         ad_leaseToken := None, ad_leaseExpiresAt := None, ad_lastError := Some (take 1000 err)\<rparr>)"

definition close_alert :: "string \<Rightarrow> alert_result \<Rightarrow> id \<Rightarrow> db \<Rightarrow> bool \<times> db" where
  "close_alert token out i d =
     (let (won, rows) = update_if ad_id i (\<lambda>a. ad_leaseToken a = Some token \<and> ad_status a = AD_processing)
            (closed_alert out) (alertDeliveries d)
      in (won, d\<lparr>alertDeliveries := rows\<rparr>))"

text \<open>The message, and the answer of the Telegram API to it: an HTTP status, or a network error.\<close>

datatype telegram_answer = Answered int | Unreachable string

definition alert_text :: "json_format \<Rightarrow> operational_alert \<Rightarrow> string" where
  "alert_text f a =
     (let details = join_with '' '' (map (\<lambda>(k, v). k @ ''='' @ js_string f v) (oa_metadata a))
      in take 3900 (''['' @ map to_upper (oa_type a) @ ''] '' @ oa_message a @
           (if details = [] then [] else CHR 0x0A # details)))"

text \<open>What the worker learns outside the database while it holds a row: its lease token, the
  times of the claim and of the answer, and the answer to the text it sends.\<close>

record alert_turn =
  at_token :: string
  at_claimed :: time
  at_answered :: time
  at_answer :: "string \<Rightarrow> string \<Rightarrow> telegram_answer"

definition answer_result :: "time \<Rightarrow> nat \<Rightarrow> telegram_answer \<Rightarrow> alert_result" where
  "answer_result now attempt ans = (case ans of
       Answered st \<Rightarrow> if 200 \<le> st \<and> st < 300 then Sent now
         else Not_sent now attempt (''Telegram returned HTTP '' @ int_text st)
     | Unreachable e \<Rightarrow> Not_sent now attempt e)"

definition deliver_alert :: "alert_env \<Rightarrow> alert_turn \<Rightarrow> id \<Rightarrow> db \<Rightarrow> db" where
  "deliver_alert env w i d =
     (case find (\<lambda>a. ad_id a = i \<and> ad_leaseToken a = Some (at_token w) \<and> ad_status a = AD_processing) (alertDeliveries d) of
        None \<Rightarrow> d
      | Some a \<Rightarrow>
          (case find (\<lambda>x. oa_id x = ad_alert a) (alerts d) of
             None \<Rightarrow> d
           | Some x \<Rightarrow>
               let out = (if \<not> set_text (ae_botToken env)
                     then Not_sent (at_answered w) (ad_attempt a) ''Telegram bot token is not configured''
                     else answer_result (at_answered w) (ad_attempt a)
                       (at_answer w (ad_destination a) (alert_text (ae_format env) x)))
               in snd (close_alert (at_token w) out i d)))"

text \<open>One round: the candidates in the order of their next attempt; a row another worker won in
  between is skipped. The number of rows won is the result.\<close>

definition dispatch_alert :: "alert_env \<Rightarrow> (id \<Rightarrow> alert_turn) \<Rightarrow> id \<Rightarrow> nat \<times> db \<Rightarrow> nat \<times> db" where
  "dispatch_alert env world i = (\<lambda>(n, d).
     let w = world i; (won, d1) = claim_alert (at_token w) (at_claimed w) i d
     in if won then (Suc n, deliver_alert env w i d1) else (n, d1))"

definition dispatchPending :: "alert_env \<Rightarrow> (id \<Rightarrow> alert_turn) \<Rightarrow> time \<Rightarrow> nat \<Rightarrow> db \<Rightarrow> nat \<times> db" where
  "dispatchPending env world now limit d =
     fold (dispatch_alert env world) (alert_candidates now limit d) (0, d)"

definition retryPending :: "alert_env \<Rightarrow> (id \<Rightarrow> alert_turn) \<Rightarrow> time \<Rightarrow> db \<Rightarrow> db" where
  "retryPending env world now d = snd (dispatchPending env world now 100 d)"

definition recent_alerts :: "db \<Rightarrow> (operational_alert \<times> alert_delivery list) list" where
  "recent_alerts d = map (\<lambda>a. (a, sort_key (\<lambda>x. - ad_createdAt x) (filter (\<lambda>x. ad_alert x = oa_id a) (alertDeliveries d))))
     (take 100 (sort_key (\<lambda>a. - oa_createdAt a) (alerts d)))"

section \<open>The delivery rows are a leased queue\<close>

definition alert_lease :: "db \<Rightarrow> id \<Rightarrow> (string \<times> time) option" where
  "alert_lease d i = (case find (\<lambda>a. ad_id a = i) (alertDeliveries d) of
       Some a \<Rightarrow> (case (ad_status a, ad_leaseToken a, ad_leaseExpiresAt a) of
           (AD_processing, Some t, Some e) \<Rightarrow> Some (t, e) | _ \<Rightarrow> None)
     | None \<Rightarrow> None)"

definition alert_ids :: "db \<Rightarrow> bool" where
  "alert_ids d \<longleftrightarrow> distinct (map ad_id (alertDeliveries d))"

lemma alert_lease_Some: "alert_lease d i = Some (t, e) \<longleftrightarrow>
    (\<exists>a. find (\<lambda>a. ad_id a = i) (alertDeliveries d) = Some a \<and> ad_status a = AD_processing \<and>
       ad_leaseToken a = Some t \<and> ad_leaseExpiresAt a = Some e)"
  by (auto simp: alert_lease_def split: option.splits alert_delivery_status.splits)

lemma closed_alert_id: "ad_id (closed_alert out a) = ad_id a"
  by (simp add: closed_alert_def split: alert_result.split)

lemma alert_lease_other:
  assumes "\<And>a. ad_id (f a) = ad_id a" and "j \<noteq> i"
  shows "alert_lease (d\<lparr>alertDeliveries := snd (update_if ad_id j p f (alertDeliveries d))\<rparr>) i = alert_lease d i"
  using assms by (simp add: alert_lease_def update_if_find_other)

interpretation alertq: leased_queue alert_lease claim_alert close_alert 30000 alert_ids "\<lambda>_. True"
proof unfold_locales
  fix s s' :: db and tok t now until i out j
  let ?c = "\<lambda>a. a\<lparr>ad_status := AD_processing, ad_leaseToken := Some tok, ad_leaseExpiresAt := Some (now + 30000),
      ad_attempt := ad_attempt a + 1\<rparr>"
  show "alert_ids s \<Longrightarrow> alert_ids (snd (claim_alert tok now i s))"
    by (simp add: alert_ids_def claim_alert_def case_prod_beta update_if_keys)
  show "alert_ids s \<Longrightarrow> alert_ids (snd (close_alert tok out i s))"
    by (simp add: alert_ids_def close_alert_def case_prod_beta update_if_keys closed_alert_id)
  show "alert_lease s' i = Some (tok, now + 30000)" if "alert_ids s" "claim_alert tok now i s = (True, s')"
  proof (rule update_if_won [where key = ad_id and rs = "alertDeliveries s" and i = i and p = "due_alert now" and f = ?c])
    show "update_if ad_id i (due_alert now) ?c (alertDeliveries s) = (True, alertDeliveries s')"
      using that(2) by (auto simp: claim_alert_def split: prod.splits)
  qed (use that(1) in \<open>auto simp: alert_ids_def alert_lease_Some\<close>)
  show "claim_alert tok now i s = (False, s)" if "alert_ids s" "alert_lease s i = Some (t, until)" "now < until"
  proof -
    from that(2) obtain a where a: "find (\<lambda>a. ad_id a = i) (alertDeliveries s) = Some a" "ad_status a = AD_processing"
      "ad_leaseExpiresAt a = Some until" by (auto simp: alert_lease_Some)
    have "update_if ad_id i (due_alert now) ?c (alertDeliveries s) = (False, alertDeliveries s)"
      using that(1,3) a by (intro update_if_lost [OF _ a(1)]) (auto simp: alert_ids_def due_alert_def)
    then show ?thesis by (simp add: claim_alert_def)
  qed
  show "j \<noteq> i \<Longrightarrow> alert_lease (snd (claim_alert tok now j s)) i = alert_lease s i"
    by (simp add: claim_alert_def case_prod_beta alert_lease_other)
  show "j \<noteq> i \<Longrightarrow> alert_lease (snd (close_alert tok out j s)) i = alert_lease s i"
    by (simp add: close_alert_def case_prod_beta alert_lease_other closed_alert_id)
  show "close_alert tok out i s = (False, s)" if "alert_ids s" "alert_lease s i = Some (t, until)" "t \<noteq> tok"
  proof -
    from that(2) obtain a where a: "find (\<lambda>a. ad_id a = i) (alertDeliveries s) = Some a" "ad_leaseToken a = Some t"
      by (auto simp: alert_lease_Some)
    have "update_if ad_id i (\<lambda>a. ad_leaseToken a = Some tok \<and> ad_status a = AD_processing) (closed_alert out)
        (alertDeliveries s) = (False, alertDeliveries s)"
      using that(1,3) a by (intro update_if_lost [OF _ a(1)]) (auto simp: alert_ids_def)
    then show ?thesis by (simp add: close_alert_def)
  qed
  show "alert_lease s' i = None" if "alert_ids s" "close_alert tok out i s = (True, s')"
  proof (rule update_if_won [where key = ad_id and rs = "alertDeliveries s" and i = i
        and p = "\<lambda>a. ad_leaseToken a = Some tok \<and> ad_status a = AD_processing" and f = "closed_alert out"])
    show "update_if ad_id i (\<lambda>a. ad_leaseToken a = Some tok \<and> ad_status a = AD_processing) (closed_alert out)
        (alertDeliveries s) = (True, alertDeliveries s')"
      using that(2) by (auto simp: close_alert_def split: prod.splits)
  qed (use that(1) in \<open>auto simp: alert_ids_def alert_lease_def closed_alert_id closed_alert_def split: alert_result.splits\<close>)
qed

section \<open>One unresolved alert per cause\<close>

datatype alert_op =
    Raise_alert time string string json_object
  | Acknowledge time id string string
  | Resolve time id string string
  | Configure string "string list" string string
  | Dispatch "id \<Rightarrow> alert_turn" time nat

fun run_alert :: "alert_env \<Rightarrow> alert_op \<Rightarrow> db \<Rightarrow> db" where
  "run_alert env (Raise_alert now ty msg meta) d = snd (notify env now ty msg meta d)"
| "run_alert env (Acknowledge now i actor reason) d = snd (acknowledge now i actor reason d)"
| "run_alert env (Resolve now i actor reason) d = snd (resolve_alert now i actor reason d)"
| "run_alert env (Configure chat types actor reason) d = snd (configureTelegram env chat types actor reason d)"
| "run_alert env (Dispatch world now limit) d = snd (dispatchPending env world now limit d)"

text \<open>Every acknowledgement hits an alert that is not resolved yet.\<close>

fun acks_unresolved :: "alert_env \<Rightarrow> alert_op list \<Rightarrow> db \<Rightarrow> bool" where
  "acks_unresolved env [] d \<longleftrightarrow> True"
| "acks_unresolved env (op # ops) d \<longleftrightarrow>
     (case op of Acknowledge now i actor reason \<Rightarrow> list_all (\<lambda>a. oa_id a = i \<longrightarrow> unresolved a) (alerts d) | _ \<Rightarrow> True) \<and>
     acks_unresolved env ops (run_alert env op d)"

definition one_per_cause :: "db \<Rightarrow> bool" where
  "one_per_cause d \<longleftrightarrow> distinct (map oa_dedupeKey (filter unresolved (alerts d)))"

lemma dispatch_alerts: "alerts (snd (dispatchPending env world now limit d)) = alerts d"
proof -
  have step: "alerts (snd (dispatch_alert env world i nd)) = alerts (snd nd)" for i nd
    by (auto simp: dispatch_alert_def claim_alert_def deliver_alert_def close_alert_def Let_def case_prod_beta
        split: option.splits)
  have "alerts (snd (fold (dispatch_alert env world) is nd)) = alerts (snd nd)" for "is" nd
    by (induction "is" arbitrary: nd) (simp_all add: step)
  then show ?thesis by (simp add: dispatchPending_def)
qed

lemma configure_alerts: "alerts (snd (configureTelegram env chat types actor reason d)) = alerts d"
  by (simp add: configureTelegram_def Let_def log_text_audit_def set_setting_def split: option.split)

lemma notify_alerts:
  "alerts (snd (notify env now ty msg metadata d)) = alerts d \<or>
   (\<exists>a. alerts (snd (notify env now ty msg metadata d)) = alerts d @ [a] \<and>
      \<not> list_ex (\<lambda>b. oa_dedupeKey b = oa_dedupeKey a \<and> unresolved b) (alerts d))"
  by (simp add: notify_def Let_def log_audit_def new_alert_def split: prod.split)

lemma distinct_filter_update:
  assumes "distinct (map k (filter p rs))" and keys: "\<And>r. k (f r) = k r"
    and "\<And>r. r \<in> set rs \<Longrightarrow> q r \<Longrightarrow> p (f r) \<Longrightarrow> p r"
  shows "distinct (map k (filter p (update_where q f rs)))"
  using assms(1,3)
proof (induction rs)
  case Nil
  then show ?case by simp
next
  case (Cons r rs)
  have sub: "set (map k (filter p (update_where q f rs))) \<subseteq> set (map k (filter p rs))"
  proof
    fix y
    assume "y \<in> set (map k (filter p (update_where q f rs)))"
    then obtain x where x: "x \<in> set (update_where q f rs)" "p x" "y = k x" by auto
    then obtain z where z: "z \<in> set rs" "x = (if q z then f z else z)" by (auto simp: update_where_def)
    then have "p z \<and> k z = y" using x Cons.prems(2) [of z] keys by (auto split: if_splits)
    then show "y \<in> set (map k (filter p rs))" using z(1) by auto
  qed
  have "distinct (map k (filter p (update_where q f rs)))"
    using Cons.prems by (intro Cons.IH) (auto split: if_splits)
  moreover have "k r \<notin> set (map k (filter p (update_where q f rs)))" if "p r"
    using sub Cons.prems(1) that by auto
  ultimately show ?case using Cons.prems(2) [of r] by (simp add: keys)
qed

lemma transition_keeps_cause:
  assumes "one_per_cause d" and "st = AL_resolved \<or> list_all (\<lambda>a. oa_id a = i \<longrightarrow> unresolved a) (alerts d)"
  shows "one_per_cause (snd (transition_alert now i st action actor reason d))"
proof (cases "list_ex (\<lambda>a. oa_id a = i) (alerts d)")
  case False
  then show ?thesis using assms(1) by (simp add: transition_alert_def)
next
  case True
  let ?f = "\<lambda>a. if st = AL_acknowledged
      then a\<lparr>oa_status := st, oa_acknowledgedBy := Some actor, oa_acknowledgedAt := Some now\<rparr>
      else a\<lparr>oa_status := st, oa_resolvedBy := Some actor, oa_resolvedAt := Some now\<rparr>"
  have "distinct (map oa_dedupeKey (filter unresolved (update_where (\<lambda>a. oa_id a = i) ?f (alerts d))))"
    using assms by (intro distinct_filter_update) (auto simp: one_per_cause_def unresolved_def list_all_iff)
  with True show ?thesis by (simp add: transition_alert_def one_per_cause_def log_audit_def Let_def)
qed

text \<open>C27. There is one unresolved alert per cause: however alerts are raised, acknowledged,
  resolved and sent, no two unresolved alerts have the same deduplication key, as long as no
  alert is acknowledged that was resolved before.\<close>

theorem one_alert_per_cause:
  assumes "acks_unresolved env ops d" and "one_per_cause d"
  shows "one_per_cause (fold (run_alert env) ops d)"
  using assms
proof (induction ops arbitrary: d)
  case Nil
  then show ?case by simp
next
  case (Cons op ops)
  have "one_per_cause (run_alert env op d)"
  proof (cases op)
    case (Raise_alert now ty msg meta)
    then show ?thesis
      using notify_alerts [of env now ty msg meta d] Cons.prems(2)
      by (auto simp: one_per_cause_def list_ex_iff)
  next
    case (Acknowledge now i actor reason)
    with Cons.prems show ?thesis by (simp add: acknowledge_def transition_keeps_cause)
  next
    case (Resolve now i actor reason)
    with Cons.prems show ?thesis by (simp add: resolve_alert_def transition_keeps_cause)
  next
    case (Configure chat types actor reason)
    with Cons.prems show ?thesis by (simp add: one_per_cause_def configure_alerts)
  next
    case (Dispatch world now limit)
    with Cons.prems show ?thesis by (simp add: one_per_cause_def dispatch_alerts)
  qed
  with Cons show ?case by simp
qed

definition demo_env :: alert_env where
  "demo_env = \<lparr>ae_botToken = Some ''bot'', ae_chatId = Some ''ops'', ae_alertTypes = None,
     ae_sha256 = (\<lambda>s. s), ae_format = \<lparr>jf_uuid = nat_to_digits, jf_iso = int_text\<rparr>\<rparr>"

definition demo_alerts :: "alert_op list" where
  "demo_alerts = [Raise_alert 1 ''device_offline'' ''late'' [(''device'', JStr ''a'')],
     Raise_alert 2 ''device_offline'' ''late'' [(''device'', JStr ''a'')], Acknowledge 3 0 ''ops'' ''seen'',
     Raise_alert 4 ''device_offline'' ''late'' [(''device'', JStr ''a'')], Resolve 5 0 ''ops'' ''back'',
     Raise_alert 6 ''device_offline'' ''late'' [(''device'', JStr ''a'')]]"

theorem one_alert_per_cause_witness:
  "one_per_cause (fold (run_alert demo_env) demo_alerts empty_db) \<and>
   map oa_status (alerts (fold (run_alert demo_env) demo_alerts empty_db)) = [AL_resolved, AL_open]"
proof -
  have "acks_unresolved demo_env demo_alerts empty_db" by code_simp
  moreover have "one_per_cause empty_db" by code_simp
  moreover have "map oa_status (alerts (fold (run_alert demo_env) demo_alerts empty_db)) = [AL_resolved, AL_open]" by code_simp
  ultimately show ?thesis using one_alert_per_cause by blast
qed

text \<open>The condition is needed: an alert that was resolved can be acknowledged, which opens it
  again beside the alert raised since.\<close>

lemma acknowledged_after_resolution:
  "\<not> one_per_cause (fold (run_alert demo_env) (demo_alerts @ [Acknowledge 7 0 ''ops'' ''again'']) empty_db)"
  by code_simp

lemma retry_delay_bounds:
  assumes "1 \<le> n"
  shows "30 \<le> retry_delay n \<and> retry_delay n \<le> 3600"
proof -
  have "(2::int) ^ 1 \<le> 2 ^ min n 8" using assms by (intro power_increasing) auto
  then show ?thesis by (simp add: retry_delay_def)
qed

text \<open>A worker that lost its lease to another cannot close the row, and the two claims of a row are
  at least thirty seconds apart.\<close>

lemmas alert_lease_facts = alertq.second_claim_waits alertq.stale_worker_cannot_close

end
