(* ===== verification/Webhooks.thy ===== *)
theory Webhooks
  imports Schema Requests Leases JsonText UrlPolicy Alerts
begin

text \<open>
  Merchant webhooks, from \<open>apps/api/src/webhooks/webhooks.service.ts\<close>: endpoints and their
  secrets, the expansion of outbox events into one delivery per endpoint of the owner, and the
  delivery by workers that lease rows. Hashing, encryption, random values, times, the message
  bus, the address policy and the answers of the endpoints are arguments.
\<close>

declare split_paired_All [simp del] split_paired_Ex [simp del]

section \<open>What the service is given\<close>

record webhook_crypto =
  wc_sha256 :: "string \<Rightarrow> string"
  wc_encrypt :: "string \<Rightarrow> string"
  wc_decrypt :: "string \<Rightarrow> string option"
  wc_hmac :: "string \<Rightarrow> string \<Rightarrow> string"
  wc_format :: json_format

definition find_endpoint :: "auth \<Rightarrow> id \<Rightarrow> db \<Rightarrow> webhook_endpoint option" where
  "find_endpoint auth i d =
     find (\<lambda>e. we_id e = i \<and> we_merchant e = fst auth \<and> we_env e = snd auth) (endpoints d)"

definition set_endpoint :: "id \<Rightarrow> (webhook_endpoint \<Rightarrow> webhook_endpoint) \<Rightarrow> db \<Rightarrow> db" where
  "set_endpoint i f d = d\<lparr>endpoints := update_where (\<lambda>e. we_id e = i) f (endpoints d)\<rparr>"

definition set_deliveries ::
  "(webhook_delivery \<Rightarrow> bool) \<Rightarrow> (webhook_delivery \<Rightarrow> webhook_delivery) \<Rightarrow> db \<Rightarrow> db" where
  "set_deliveries p f d = d\<lparr>deliveries := update_where p f (deliveries d)\<rparr>"

text \<open>The actor of an audit row: keys of portal users carry a prefix.\<close>

definition audit_webhook :: "auth \<Rightarrow> string \<Rightarrow> string \<Rightarrow> id \<Rightarrow> db \<Rightarrow> db" where
  "audit_webhook auth apiKey action i =
     log_audit (Some (fst auth)) (if starts_with apiKey ''portal:'' then ''merchant_user'' else ''merchant_api_key'')
       (if starts_with apiKey ''portal:'' then drop 7 apiKey else apiKey) action ''webhook_endpoint'' i None"

section \<open>Endpoints\<close>

record endpoint_view =
  ev_id :: id
  ev_url :: string
  ev_enabled :: bool
  ev_secret :: string
  ev_createdAt :: time

definition view_endpoint :: "webhook_endpoint \<Rightarrow> string \<Rightarrow> endpoint_view" where
  "view_endpoint e secret = \<lparr>ev_id = we_id e, ev_url = we_url e, ev_enabled = we_enabled e,
     ev_secret = secret, ev_createdAt = we_createdAt e\<rparr>"

definition stored_id :: "json \<Rightarrow> id option" where
  "stored_id j = (case j of JObj fs \<Rightarrow> (case json_field ''endpoint_id'' fs of Some (JId i) \<Rightarrow> Some i | _ \<Rightarrow> None)
     | _ \<Rightarrow> None)"

definition new_secret :: "string \<Rightarrow> string" where
  "new_secret random = ''whsec_'' @ random"

definition replay_register :: "webhook_crypto \<Rightarrow> auth \<Rightarrow> json \<Rightarrow> db \<Rightarrow> endpoint_view outcome" where
  "replay_register wc auth j d =
     (case Option.bind (stored_id j) (\<lambda>i. find_endpoint auth i d) of
        None \<Rightarrow> Inl (ApiError ''invalid_state'' 409)
      | Some e \<Rightarrow> (case wc_decrypt wc (we_encryptedSecret e) of
            None \<Rightarrow> Inl (RuntimeError ''Unsupported encrypted secret'')
          | Some s \<Rightarrow> Inr (view_endpoint e s)))"

definition create_endpoint ::
  "webhook_crypto \<Rightarrow> time \<Rightarrow> auth \<Rightarrow> string \<Rightarrow> string \<Rightarrow> db \<Rightarrow> (endpoint_view \<times> db) outcome" where
  "create_endpoint wc now auth url random d =
     (let secret = new_secret random;
          e = \<lparr>we_id = next_id d, we_merchant = fst auth, we_env = snd auth, we_url = url,
            we_secretHash = wc_sha256 wc secret, we_encryptedSecret = wc_encrypt wc secret,
            we_enabled = True, we_createdAt = now, we_updatedAt = now\<rparr>
      in Inr (view_endpoint e secret, d\<lparr>endpoints := endpoints d @ [e], next_id := Suc (next_id d)\<rparr>))"

definition register_options ::
  "webhook_crypto \<Rightarrow> time \<Rightarrow> auth \<Rightarrow> string \<Rightarrow> string \<Rightarrow> string \<Rightarrow> string \<Rightarrow> endpoint_view idem_options" where
  "register_options wc now auth url key hash random = \<lparr>io_auth = auth, io_operation = ''webhooks.register'',
     io_key = key, io_referenceKey = Some (wc_sha256 wc url), io_referenceOperation = None, io_hash = hash,
     io_execute = create_endpoint wc now auth url random,
     io_store = (\<lambda>v. JObj [(''endpoint_id'', JId (ev_id v))]), io_replay = replay_register wc auth\<rparr>"

text \<open>The target of a new endpoint is resolved first, unless the request was seen before.\<close>

definition register ::
  "webhook_crypto \<Rightarrow> resolver \<Rightarrow> time \<Rightarrow> auth \<Rightarrow> string \<Rightarrow> string \<Rightarrow> string \<Rightarrow> string \<Rightarrow> db \<Rightarrow>
   (bool \<times> endpoint_view \<times> db) outcome" where
  "register wc rs now auth url key hash random d =
     (let prior = list_ex (\<lambda>r. im_auth r = auth \<and> im_operation r = ''webhooks.register'' \<and>
            im_key r \<in> {key, reference_prefix @ wc_sha256 wc url}) (idempotency d)
      in and_then (if prior then Inr () else map_outcome (\<lambda>_. ()) (resolveWebhookTarget rs url)) (\<lambda>_.
           execute now (register_options wc now auth url key hash random) d))"

definition list_endpoints :: "auth \<Rightarrow> db \<Rightarrow> (id \<times> string \<times> bool \<times> time) list" where
  "list_endpoints auth d = map (\<lambda>e. (we_id e, we_url e, we_enabled e, we_createdAt e))
     (sort_key (\<lambda>e. - we_createdAt e) (filter (\<lambda>e. we_merchant e = fst auth \<and> we_env e = snd auth) (endpoints d)))"

definition dead_delivery :: "string \<Rightarrow> webhook_delivery \<Rightarrow> webhook_delivery" where
  "dead_delivery reason w = w\<lparr>wd_status := W_dead, wd_leaseToken := None, wd_leaseExpiresAt := None,
     wd_responseBody := Some reason\<rparr>"

definition setEnabled :: "time \<Rightarrow> auth \<Rightarrow> string \<Rightarrow> id \<Rightarrow> bool \<Rightarrow> db \<Rightarrow> ((id \<times> string \<times> bool \<times> time) \<times> db) outcome" where
  "setEnabled now auth apiKey i enabled d = (case find_endpoint auth i d of
       None \<Rightarrow> Inl (ApiError ''not_found'' 404)
     | Some e \<Rightarrow>
         let d1 = set_endpoint i (\<lambda>e. e\<lparr>we_enabled := enabled, we_updatedAt := now\<rparr>) d;
             d2 = (if enabled then d1
               else set_deliveries (\<lambda>w. wd_endpoint w = i \<and> wd_status w \<in> {W_pending, W_processing})
                 (dead_delivery ''Endpoint disabled by merchant'') d1)
         in Inr ((i, we_url e, enabled, now),
              audit_webhook auth apiKey (if enabled then ''webhook.enabled'' else ''webhook.disabled'') i d2))"

record rotation_view =
  ro_id :: id
  ro_secret :: string
  ro_rotatedAt :: time

definition rotate_endpoint ::
  "webhook_crypto \<Rightarrow> time \<Rightarrow> auth \<Rightarrow> string \<Rightarrow> id \<Rightarrow> string \<Rightarrow> db \<Rightarrow> (rotation_view \<times> db) outcome" where
  "rotate_endpoint wc now auth apiKey i random d = (case find_endpoint auth i d of
       None \<Rightarrow> Inl (ApiError ''not_found'' 404)
     | Some e \<Rightarrow>
         let secret = new_secret random;
             d1 = set_endpoint i (\<lambda>e. e\<lparr>we_secretHash := wc_sha256 wc secret,
                    we_encryptedSecret := wc_encrypt wc secret, we_updatedAt := now\<rparr>) d;
             d2 = set_deliveries (\<lambda>w. wd_endpoint w = i \<and> wd_status w = W_processing)
                    (\<lambda>w. w\<lparr>wd_status := W_pending, wd_leaseToken := None, wd_leaseExpiresAt := None,
                       wd_nextAttemptAt := now\<rparr>) d1
         in Inr (\<lparr>ro_id = i, ro_secret = secret, ro_rotatedAt = now\<rparr>,
              audit_webhook auth apiKey ''webhook.secret_rotated'' i d2))"

definition store_rotation :: "webhook_crypto \<Rightarrow> rotation_view \<Rightarrow> json" where
  "store_rotation wc v = JObj [(''endpoint_id'', JId (ro_id v)),
     (''encrypted_secret'', JStr (wc_encrypt wc (ro_secret v))), (''rotated_at'', JDate (ro_rotatedAt v))]"

definition replay_rotation :: "webhook_crypto \<Rightarrow> auth \<Rightarrow> json \<Rightarrow> db \<Rightarrow> rotation_view outcome" where
  "replay_rotation wc auth j d =
     (let fs = (case j of JObj fs \<Rightarrow> fs | _ \<Rightarrow> []) in
      case Option.bind (stored_id j) (\<lambda>i. find_endpoint auth i d) of
        None \<Rightarrow> Inl (ApiError ''invalid_state'' 409)
      | Some e \<Rightarrow> (case json_field ''encrypted_secret'' fs of
            Some (JStr c) \<Rightarrow> (case wc_decrypt wc c of
                None \<Rightarrow> Inl (RuntimeError ''Unsupported encrypted secret'')
              | Some s \<Rightarrow> Inr \<lparr>ro_id = we_id e, ro_secret = s,
                  ro_rotatedAt = (case json_field ''rotated_at'' fs of Some (JDate t) \<Rightarrow> t | _ \<Rightarrow> we_updatedAt e)\<rparr>)
          | _ \<Rightarrow> Inl (ApiError ''invalid_state'' 409)))"

definition rotateSecret ::
  "webhook_crypto \<Rightarrow> time \<Rightarrow> auth \<Rightarrow> string \<Rightarrow> id \<Rightarrow> string \<Rightarrow> string \<Rightarrow> string \<Rightarrow> db \<Rightarrow>
   (bool \<times> rotation_view \<times> db) outcome" where
  "rotateSecret wc now auth apiKey i key hash random =
     execute now \<lparr>io_auth = auth, io_operation = ''webhooks.rotate_secret'', io_key = key,
       io_referenceKey = None, io_referenceOperation = None, io_hash = hash,
       io_execute = rotate_endpoint wc now auth apiKey i random, io_store = store_rotation wc,
       io_replay = replay_rotation wc auth\<rparr>"

section \<open>Manual replay\<close>

definition lease_over :: "time \<Rightarrow> webhook_delivery \<Rightarrow> bool" where
  "lease_over now w \<longleftrightarrow> (case wd_leaseExpiresAt w of None \<Rightarrow> True | Some e \<Rightarrow> e \<le> now)"

definition owned_delivery :: "auth \<Rightarrow> id \<Rightarrow> db \<Rightarrow> webhook_delivery option" where
  "owned_delivery auth i d = find (\<lambda>w. wd_id w = i \<and> list_ex (\<lambda>e. we_id e = wd_endpoint w \<and>
     we_merchant e = fst auth \<and> we_env e = snd auth) (endpoints d)) (deliveries d)"

definition replay_delivery :: "time \<Rightarrow> auth \<Rightarrow> id \<Rightarrow> db \<Rightarrow> (bool \<times> db) outcome" where
  "replay_delivery now auth i d = (case owned_delivery auth i d of
       None \<Rightarrow> Inl (ApiError ''not_found'' 404)
     | Some w \<Rightarrow>
         let (won, rows) = update_if wd_id i (\<lambda>w. wd_status w \<noteq> W_processing \<or> lease_over now w)
               (\<lambda>w. w\<lparr>wd_status := W_pending, wd_nextAttemptAt := now, wd_leaseToken := None,
                  wd_leaseExpiresAt := None, wd_deliveredAt := None, wd_responseCode := None,
                  wd_responseBody := None\<rparr>) (deliveries d)
         in if won then Inr (True, d\<lparr>deliveries := rows\<rparr>) else Inl (ApiError ''invalid_state'' 409))"

definition replay_options :: "time \<Rightarrow> auth \<Rightarrow> id \<Rightarrow> string \<Rightarrow> string \<Rightarrow> (id \<Rightarrow> string) \<Rightarrow> bool idem_options" where
  "replay_options now auth i key hash uuid = \<lparr>io_auth = auth, io_operation = ''webhooks.replay'', io_key = key,
     io_referenceKey = Some (uuid i), io_referenceOperation = None, io_hash = hash,
     io_execute = replay_delivery now auth i, io_store = (\<lambda>b. JObj [(''accepted'', JBool b)]),
     io_replay = (\<lambda>j d. Inr (j = JObj [(''accepted'', JBool True)]))\<rparr>"

definition replay_webhook ::
  "time \<Rightarrow> auth \<Rightarrow> id \<Rightarrow> string \<Rightarrow> string \<Rightarrow> (id \<Rightarrow> string) \<Rightarrow> db \<Rightarrow> (bool \<times> bool \<times> db) outcome" where
  "replay_webhook now auth i key hash uuid = execute now (replay_options now auth i key hash uuid)"

section \<open>From outbox events to deliveries\<close>

definition aggregateOwner :: "string \<Rightarrow> id \<Rightarrow> db \<Rightarrow> auth option" where
  "aggregateOwner ty i d =
     (if ty = ''deposit'' then map_option (\<lambda>x. (dp_merchant x, dp_env x)) (find (\<lambda>x. dp_id x = i) (deposits d))
      else if ty = ''transfer'' then map_option (\<lambda>x. (tr_merchant x, tr_env x)) (find (\<lambda>x. tr_id x = i) (transfers d))
      else if ty = ''settlement'' then map_option (\<lambda>x. (st_merchant x, st_env x)) (find (\<lambda>x. st_id x = i) (settlements d))
      else if ty = ''sweep_execution'' then
        Option.bind (find (\<lambda>x. sx_id x = i) (sweepExecutions d)) (\<lambda>x.
          map_option (\<lambda>r. (sr_merchant r, sr_env r)) (find (\<lambda>r. sr_id r = sx_rule x) (sweepRules d)))
      else None)"

definition event_owner :: "outbox_event \<Rightarrow> db \<Rightarrow> auth option" where
  "event_owner e d = aggregateOwner (ob_aggregateType e) (ob_aggregateId e) d"

definition new_delivery :: "time \<Rightarrow> id \<Rightarrow> id \<Rightarrow> id \<Rightarrow> webhook_delivery" where
  "new_delivery now event endpoint i = \<lparr>wd_id = i, wd_event = event, wd_endpoint = endpoint, wd_attempt = 0,
     wd_status = W_pending, wd_nextAttemptAt = now, wd_leaseToken = None, wd_leaseExpiresAt = None,
     wd_responseCode = None, wd_responseBody = None, wd_deliveredAt = None, wd_createdAt = now\<rparr>"

definition has_delivery :: "id \<Rightarrow> id \<Rightarrow> db \<Rightarrow> bool" where
  "has_delivery event endpoint d = list_ex (\<lambda>w. wd_event w = event \<and> wd_endpoint w = endpoint) (deliveries d)"

definition upsert_delivery :: "time \<Rightarrow> id \<Rightarrow> id \<Rightarrow> db \<Rightarrow> db" where
  "upsert_delivery now event endpoint d =
     (if has_delivery event endpoint d then d
      else d\<lparr>deliveries := deliveries d @ [new_delivery now event endpoint (next_id d)], next_id := Suc (next_id d)\<rparr>)"

definition owner_endpoints :: "auth \<Rightarrow> db \<Rightarrow> webhook_endpoint list" where
  "owner_endpoints owner d =
     filter (\<lambda>e. we_merchant e = fst owner \<and> we_env e = snd owner \<and> we_enabled e) (endpoints d)"

definition add_deliveries :: "time \<Rightarrow> outbox_event \<Rightarrow> auth \<Rightarrow> db \<Rightarrow> db" where
  "add_deliveries now e owner d =
     fold (\<lambda>ep. upsert_delivery now (ob_id e) (we_id ep)) (owner_endpoints owner d) d"

definition mark_published :: "time \<Rightarrow> id \<Rightarrow> (outbox_event \<Rightarrow> bool) \<Rightarrow> db \<Rightarrow> db" where
  "mark_published now i p d = d\<lparr>outbox := update_where (\<lambda>e. ob_id e = i \<and> p e)
     (\<lambda>e. e\<lparr>ob_publishedAt := Some now\<rparr>) (outbox d)\<rparr>"

text \<open>One event: the deliveries are written in a transaction of their own, then the bus is told,
  then the event is marked; when the bus refuses, the round is given up with the deliveries
  kept, and the next round starts again with the same event. The result holds the events that
  were published on the bus.\<close>

definition expandEvent :: "(id \<Rightarrow> bool) \<Rightarrow> time \<Rightarrow> outbox_event \<Rightarrow> id list \<times> db \<Rightarrow> api_error + id list \<times> db" where
  "expandEvent bus now e = (\<lambda>(sent, d). case event_owner e d of
       None \<Rightarrow> Inr (sent, mark_published now (ob_id e) (\<lambda>_. True) d)
     | Some owner \<Rightarrow>
         let d1 = add_deliveries now e owner d in
         if bus (ob_id e) then Inr (sent @ [ob_id e], mark_published now (ob_id e) (\<lambda>x. ob_publishedAt x = None) d1)
         else Inl (RuntimeError ''bus''))"

definition pending_events :: "db \<Rightarrow> outbox_event list" where
  "pending_events d = take 100 (sort_key ob_createdAt (filter (\<lambda>e. ob_publishedAt e = None) (outbox d)))"

fun expand_all :: "(id \<Rightarrow> bool) \<Rightarrow> time \<Rightarrow> outbox_event list \<Rightarrow> id list \<times> db \<Rightarrow> bool \<times> id list \<times> db" where
  "expand_all bus now [] s = (True, s)"
| "expand_all bus now (e # es) s = (case expandEvent bus now e s of
       Inr s1 \<Rightarrow> expand_all bus now es s1
     | Inl err \<Rightarrow> (False, fst s, case event_owner e (snd s) of
           Some owner \<Rightarrow> add_deliveries now e owner (snd s) | None \<Rightarrow> snd s))"

definition expandOutbox :: "(id \<Rightarrow> bool) \<Rightarrow> time \<Rightarrow> db \<Rightarrow> bool \<times> id list \<times> db" where
  "expandOutbox bus now d = expand_all bus now (pending_events d) ([], d)"

section \<open>Claiming and closing a delivery\<close>

definition DELIVERY_LEASE_MS :: int where
  "DELIVERY_LEASE_MS = 30000"

definition endpoint_enabled :: "db \<Rightarrow> id \<Rightarrow> bool" where
  "endpoint_enabled d i = list_ex (\<lambda>e. we_id e = i \<and> we_enabled e) (endpoints d)"

definition due_delivery :: "time \<Rightarrow> db \<Rightarrow> webhook_delivery \<Rightarrow> bool" where
  "due_delivery now d w \<longleftrightarrow> endpoint_enabled d (wd_endpoint w) \<and>
     (wd_status w = W_pending \<and> wd_nextAttemptAt w \<le> now \<or> wd_status w = W_processing \<and> lease_over now w)"

definition claim_delivery :: "string \<Rightarrow> time \<Rightarrow> id \<Rightarrow> db \<Rightarrow> bool \<times> db" where
  "claim_delivery token now i d =
     (let (won, rows) = update_if wd_id i (due_delivery now d)
            (\<lambda>w. w\<lparr>wd_status := W_processing, wd_leaseToken := Some token,
               wd_leaseExpiresAt := Some (now + DELIVERY_LEASE_MS)\<rparr>) (deliveries d)
      in (won, d\<lparr>deliveries := rows\<rparr>))"

text \<open>What a worker keeps of a claimed row: the delivery with its endpoint and its event.\<close>

record claimed_delivery =
  cl_delivery :: webhook_delivery
  cl_endpoint :: webhook_endpoint
  cl_event :: outbox_event
  cl_token :: string

definition claimDelivery :: "string \<Rightarrow> time \<Rightarrow> id \<Rightarrow> db \<Rightarrow> claimed_delivery option \<times> db" where
  "claimDelivery token now i d =
     (let (won, d1) = claim_delivery token now i d in
      if \<not> won then (None, d1)
      else (Option.bind (find (\<lambda>w. wd_id w = i) (deliveries d1)) (\<lambda>w.
              Option.bind (find (\<lambda>e. we_id e = wd_endpoint w) (endpoints d1)) (\<lambda>ep.
                map_option (\<lambda>ev. \<lparr>cl_delivery = w, cl_endpoint = ep, cl_event = ev, cl_token = token\<rparr>)
                  (find (\<lambda>e. ob_id e = wd_event w) (outbox d1)))), d1))"

text \<open>The writes of a worker under its token: a renewal of the lease, and the outcomes that close
  the row.\<close>

datatype webhook_write =
    Renewed time
  | No_owner
  | Switched_off
  | Delivered time int string
  | Failing time int "int option" "string option" bool

definition is_final :: "webhook_write \<Rightarrow> bool" where
  "is_final out = (case out of Renewed now \<Rightarrow> False | _ \<Rightarrow> True)"

definition backoff_ms :: "int \<Rightarrow> int" where
  "backoff_ms n = min (60 * 60000) (2 ^ nat (min n 10) * 1000)"

definition closed_delivery :: "webhook_write \<Rightarrow> webhook_delivery \<Rightarrow> webhook_delivery" where
  "closed_delivery out w = (case out of
       Renewed now \<Rightarrow> w\<lparr>wd_leaseExpiresAt := Some (now + DELIVERY_LEASE_MS)\<rparr>
     | No_owner \<Rightarrow> w\<lparr>wd_status := W_dead, wd_attempt := wd_attempt w + 1,
         wd_responseBody := Some ''Webhook aggregate no longer exists'', wd_leaseToken := None, wd_leaseExpiresAt := None\<rparr>
     | Switched_off \<Rightarrow> w\<lparr>wd_status := W_dead, wd_responseBody := Some ''Endpoint disabled before delivery'',
         wd_leaseToken := None, wd_leaseExpiresAt := None\<rparr>
     | Delivered now code body \<Rightarrow> w\<lparr>wd_status := W_delivered, wd_attempt := wd_attempt w + 1,
         wd_responseCode := Some code, wd_responseBody := Some body, wd_deliveredAt := Some now,
         wd_leaseToken := None, wd_leaseExpiresAt := None\<rparr>
     | Failing now n code body exhausted \<Rightarrow> w\<lparr>wd_status := (if exhausted then W_dead else W_pending),
         wd_attempt := n, wd_responseCode := or_else_opt code (wd_responseCode w),
         wd_responseBody := or_else_opt body (wd_responseBody w), wd_nextAttemptAt := now + backoff_ms n,
         wd_leaseToken := None, wd_leaseExpiresAt := None\<rparr>)"

definition finishClaim :: "string \<Rightarrow> webhook_write \<Rightarrow> id \<Rightarrow> db \<Rightarrow> bool \<times> db" where
  "finishClaim token out i d =
     (let (won, rows) = update_if wd_id i (\<lambda>w. wd_status w = W_processing \<and> wd_leaseToken w = Some token)
            (closed_delivery out) (deliveries d)
      in (won, d\<lparr>deliveries := rows\<rparr>))"

section \<open>Delivering\<close>

text \<open>The body that is signed and posted.\<close>

definition json_or :: "json option \<Rightarrow> json \<Rightarrow> json" where
  "json_or x y = (case x of None \<Rightarrow> y | Some JNull \<Rightarrow> y | Some v \<Rightarrow> v)"

definition webhook_body :: "json_format \<Rightarrow> auth \<Rightarrow> outbox_event \<Rightarrow> int \<Rightarrow> json" where
  "webhook_body f owner e n =
     (let payload = ob_payload e in JObj
        [(''event_id'', JId (ob_id e)), (''schema_version'', JStr ''1.0''), (''event_type'', JStr (ob_eventType e)),
         (''attempt'', JInt n), (''created_at'', JDate (ob_createdAt e)), (''merchant_id'', JId (fst owner)),
         (''environment'', JStr (case snd owner of Test \<Rightarrow> ''test'' | Live \<Rightarrow> ''live'')),
         (''reference'', JStr (js_string f (json_or (json_field ''tx_ref'' payload)
            (json_or (json_field ''reference'' payload) (JId (ob_aggregateId e)))))),
         (''status'', json_or (json_field ''status'' payload) (JStr ''pending'')),
         (''p2p_status'', json_or (json_field ''p2p_status'' payload) (JStr ''manual_review'')),
         (''data'', JObj payload)])"

record webhook_message =
  wm_timestamp :: string
  wm_signature :: string
  wm_body :: string

definition webhook_message_of ::
  "webhook_crypto \<Rightarrow> string \<Rightarrow> time \<Rightarrow> auth \<Rightarrow> claimed_delivery \<Rightarrow> webhook_message" where
  "webhook_message_of wc secret now owner c =
     (let body = stringifyJsonSafe (wc_format wc)
            (webhook_body (wc_format wc) owner (cl_event c) (wd_attempt (cl_delivery c) + 1));
          timestamp = int_text (now div 1000)
      in \<lparr>wm_timestamp = timestamp, wm_signature = ''v1='' @ wc_hmac wc secret (timestamp @ ''.'' @ body),
          wm_body = body\<rparr>)"

datatype http_answer = Http_response int string | Http_error string

text \<open>What the worker learns outside the database while it holds a row.\<close>

record webhook_turn =
  wk_token :: string
  wk_signed :: time
  wk_resolver :: resolver
  wk_refusal :: string
  wk_renewed :: time
  wk_answer :: "webhook_target \<Rightarrow> webhook_message \<Rightarrow> http_answer"
  wk_ended :: time

definition failed_delivery :: "webhook_turn \<Rightarrow> claimed_delivery \<Rightarrow> int option \<Rightarrow> string option \<Rightarrow> webhook_write" where
  "failed_delivery w c code body =
     Failing (wk_ended w) (wd_attempt (cl_delivery c) + 1) code body
       (24 * 60 * 60 * 1000 \<le> wk_ended w - wd_createdAt (cl_delivery c))"

definition answer_write :: "webhook_turn \<Rightarrow> claimed_delivery \<Rightarrow> http_answer \<Rightarrow> webhook_write" where
  "answer_write w c ans = (case ans of
       Http_response code body \<Rightarrow>
         if 200 \<le> code \<and> code < 300 then Delivered (wk_ended w) code body
         else failed_delivery w c (Some code) (Some body)
     | Http_error e \<Rightarrow> failed_delivery w c None (Some (take 2000 e)))"

definition send_delivery ::
  "webhook_crypto \<Rightarrow> webhook_turn \<Rightarrow> claimed_delivery \<Rightarrow> auth \<Rightarrow> string \<Rightarrow> db \<Rightarrow> db" where
  "send_delivery wc w c owner secret d =
     (let i = wd_id (cl_delivery c); m = webhook_message_of wc secret (wk_signed w) owner c in
      case resolveWebhookTarget (wk_resolver w) (we_url (cl_endpoint c)) of
        Inl e \<Rightarrow> snd (finishClaim (cl_token c) (failed_delivery w c None (Some (take 2000 (wk_refusal w)))) i d)
      | Inr target \<Rightarrow>
          let (held, d1) = finishClaim (cl_token c) (Renewed (wk_renewed w)) i d in
          if \<not> held then d1
          else snd (finishClaim (cl_token c) (answer_write w c (wk_answer w target m)) i d1))"

definition deliver :: "webhook_crypto \<Rightarrow> webhook_turn \<Rightarrow> claimed_delivery \<Rightarrow> db \<Rightarrow> db outcome" where
  "deliver wc w c d =
     (let i = wd_id (cl_delivery c) in
      case event_owner (cl_event c) d of
        None \<Rightarrow> Inr (snd (finishClaim (cl_token c) No_owner i d))
      | Some owner \<Rightarrow>
          (case find (\<lambda>e. we_id e = wd_endpoint (cl_delivery c)) (endpoints d) of
             None \<Rightarrow> Inr (snd (finishClaim (cl_token c) Switched_off i d))
           | Some ep \<Rightarrow>
               if \<not> we_enabled ep then Inr (snd (finishClaim (cl_token c) Switched_off i d))
               else (case wc_decrypt wc (we_encryptedSecret ep) of
                   None \<Rightarrow> Inl (RuntimeError ''Unsupported encrypted secret'')
                 | Some secret \<Rightarrow> Inr (send_delivery wc w c owner secret d))))"

text \<open>A round: up to a hundred candidates, at most fifty claims, then the claimed rows are
  delivered (in the program concurrently, on disjoint rows).\<close>

definition delivery_candidates :: "time \<Rightarrow> db \<Rightarrow> id list" where
  "delivery_candidates now d = map wd_id (take 100 (sort_key wd_nextAttemptAt (filter (due_delivery now d) (deliveries d))))"

definition claim_next ::
  "(id \<Rightarrow> string) \<Rightarrow> time \<Rightarrow> id \<Rightarrow> claimed_delivery list \<times> db \<Rightarrow> claimed_delivery list \<times> db" where
  "claim_next token now i = (\<lambda>(cs, d).
     if 50 \<le> length cs then (cs, d)
     else (case claimDelivery (token i) now i d of
         (Some c, d1) \<Rightarrow> (cs @ [c], d1) | (None, d1) \<Rightarrow> (cs, d1)))"

definition deliverPending ::
  "webhook_crypto \<Rightarrow> (id \<Rightarrow> webhook_turn) \<Rightarrow> time \<Rightarrow> db \<Rightarrow> bool \<times> db" where
  "deliverPending wc world now d =
     (let (cs, d1) = fold (claim_next (\<lambda>i. wk_token (world i)) now) (delivery_candidates now d) ([], d);
          turn = (\<lambda>c. world (wd_id (cl_delivery c)))
      in fold (\<lambda>c (fine, d). case deliver wc (turn c) c d of Inr d2 \<Rightarrow> (fine, d2) | Inl e \<Rightarrow> (False, d)) cs (True, d1))"

text \<open>The scheduled job: when the expansion or a delivery raises, the rest is skipped. The flag
  against overlapping runs of one process is the seriality of the model.\<close>

definition process_webhooks ::
  "webhook_crypto \<Rightarrow> alert_env \<Rightarrow> (id \<Rightarrow> bool) \<Rightarrow> (id \<Rightarrow> webhook_turn) \<Rightarrow> int \<Rightarrow> time \<Rightarrow> db \<Rightarrow> db" where
  "process_webhooks wc env bus world threshold now d =
     (let (expanded, sent, d1) = expandOutbox bus now d in
      if \<not> expanded then d1
      else
        let (fine, d2) = deliverPending wc world now d1 in
        if \<not> fine then d2
        else
          let backlog = int (length (filter (\<lambda>w. wd_status w = W_pending) (deliveries d2))) in
          if threshold < backlog
          then snd (notify env now ''webhook_backlog'' ''Webhook delivery backlog exceeded the configured threshold''
                 [(''backlog'', JInt backlog), (''threshold'', JInt threshold)] d2)
          else d2)"

section \<open>The delivery rows are a leased queue\<close>

definition webhook_lease :: "db \<Rightarrow> id \<Rightarrow> (string \<times> time) option" where
  "webhook_lease d i = (case find (\<lambda>w. wd_id w = i) (deliveries d) of
       Some w \<Rightarrow> (case (wd_status w, wd_leaseToken w, wd_leaseExpiresAt w) of
           (W_processing, Some t, Some e) \<Rightarrow> Some (t, e) | _ \<Rightarrow> None)
     | None \<Rightarrow> None)"

definition delivery_ids :: "db \<Rightarrow> bool" where
  "delivery_ids d \<longleftrightarrow> distinct (map wd_id (deliveries d))"

lemma webhook_lease_Some: "webhook_lease d i = Some (t, e) \<longleftrightarrow>
    (\<exists>w. find (\<lambda>w. wd_id w = i) (deliveries d) = Some w \<and> wd_status w = W_processing \<and>
       wd_leaseToken w = Some t \<and> wd_leaseExpiresAt w = Some e)"
  by (auto simp: webhook_lease_def split: option.splits delivery_status.splits)

lemma closed_delivery_id [simp]:
  "wd_id (closed_delivery out w) = wd_id w" "wd_event (closed_delivery out w) = wd_event w"
  "wd_endpoint (closed_delivery out w) = wd_endpoint w" "wd_createdAt (closed_delivery out w) = wd_createdAt w"
  by (simp_all add: closed_delivery_def split: webhook_write.split)

lemma webhook_lease_other:
  assumes "\<And>w. wd_id (f w) = wd_id w" and "j \<noteq> i"
  shows "webhook_lease (d\<lparr>deliveries := snd (update_if wd_id j p f (deliveries d))\<rparr>) i = webhook_lease d i"
  using assms by (simp add: webhook_lease_def update_if_find_other)

interpretation webhookq: leased_queue webhook_lease claim_delivery finishClaim DELIVERY_LEASE_MS delivery_ids is_final
proof unfold_locales
  fix s s' :: db and tok t now until i out j
  let ?c = "\<lambda>w. w\<lparr>wd_status := W_processing, wd_leaseToken := Some tok, wd_leaseExpiresAt := Some (now + DELIVERY_LEASE_MS)\<rparr>"
  let ?mine = "\<lambda>w. wd_status w = W_processing \<and> wd_leaseToken w = Some tok"
  show "delivery_ids s \<Longrightarrow> delivery_ids (snd (claim_delivery tok now i s))"
    by (simp add: delivery_ids_def claim_delivery_def case_prod_beta update_if_keys)
  show "delivery_ids s \<Longrightarrow> delivery_ids (snd (finishClaim tok out i s))"
    by (simp add: delivery_ids_def finishClaim_def case_prod_beta update_if_keys)
  show "webhook_lease s' i = Some (tok, now + DELIVERY_LEASE_MS)"
    if "delivery_ids s" "claim_delivery tok now i s = (True, s')"
  proof (rule update_if_won [where key = wd_id and rs = "deliveries s" and i = i and p = "due_delivery now s" and f = ?c])
    show "update_if wd_id i (due_delivery now s) ?c (deliveries s) = (True, deliveries s')"
      using that(2) by (auto simp: claim_delivery_def split: prod.splits)
  qed (use that(1) in \<open>auto simp: delivery_ids_def webhook_lease_Some\<close>)
  show "claim_delivery tok now i s = (False, s)"
    if "delivery_ids s" "webhook_lease s i = Some (t, until)" "now < until"
  proof -
    from that(2) obtain w where w: "find (\<lambda>w. wd_id w = i) (deliveries s) = Some w" "wd_status w = W_processing"
      "wd_leaseExpiresAt w = Some until" by (auto simp: webhook_lease_Some)
    have "update_if wd_id i (due_delivery now s) ?c (deliveries s) = (False, deliveries s)"
      using that(1,3) w by (intro update_if_lost [OF _ w(1)]) (auto simp: delivery_ids_def due_delivery_def lease_over_def)
    then show ?thesis by (simp add: claim_delivery_def)
  qed
  show "j \<noteq> i \<Longrightarrow> webhook_lease (snd (claim_delivery tok now j s)) i = webhook_lease s i"
    by (simp add: claim_delivery_def case_prod_beta webhook_lease_other)
  show "j \<noteq> i \<Longrightarrow> webhook_lease (snd (finishClaim tok out j s)) i = webhook_lease s i"
    by (simp add: finishClaim_def case_prod_beta webhook_lease_other)
  show "finishClaim tok out i s = (False, s)"
    if "delivery_ids s" "webhook_lease s i = Some (t, until)" "t \<noteq> tok"
  proof -
    from that(2) obtain w where w: "find (\<lambda>w. wd_id w = i) (deliveries s) = Some w" "wd_leaseToken w = Some t"
      by (auto simp: webhook_lease_Some)
    have "update_if wd_id i ?mine (closed_delivery out) (deliveries s) = (False, deliveries s)"
      using that(1,3) w by (intro update_if_lost [OF _ w(1)]) (auto simp: delivery_ids_def)
    then show ?thesis by (simp add: finishClaim_def)
  qed
  show "webhook_lease s' i = None" if "delivery_ids s" "is_final out" "finishClaim tok out i s = (True, s')"
  proof (rule update_if_won [where key = wd_id and rs = "deliveries s" and i = i and p = ?mine and f = "closed_delivery out"])
    show "update_if wd_id i ?mine (closed_delivery out) (deliveries s) = (True, deliveries s')"
      using that(3) by (auto simp: finishClaim_def split: prod.splits)
  qed (use that(1,2) in \<open>auto simp: delivery_ids_def webhook_lease_def is_final_def closed_delivery_def split: webhook_write.splits\<close>)
qed

end
