(* ===== verification/WebhookSafety.thy ===== *)
theory WebhookSafety
  imports Webhooks Replays
begin

text \<open>
  What the webhook service guarantees: one worker at a time per delivery, an end to every
  delivery, deliveries to the owner only, and the secrets a merchant is shown.
\<close>

declare split_paired_All [simp del] split_paired_Ex [simp del]

section \<open>One worker at a time\<close>

text \<open>C23. A worker that claimed a delivery has it to itself for the length of the lease: whatever
  the other workers do in the meantime with their own tokens, nobody else claims the row before
  the lease is over, and nobody else's outcome is written to it.\<close>

theorem webhook_claim_is_exclusive:
  assumes "delivery_ids d" and "claim_delivery tok now i d = (True, d1)"
    and "list_all (foreign tok (now + 30000)) es"
  shows "(\<forall>tok2 later. fst (claim_delivery tok2 later i (fold (run_event claim_delivery finishClaim) es d1)) \<longrightarrow> now + 30000 \<le> later) \<and>
     (\<forall>tok2 out. tok2 \<noteq> tok \<longrightarrow> \<not> fst (finishClaim tok2 out i (fold (run_event claim_delivery finishClaim) es d1)))"
proof -
  have es: "list_all (foreign tok (now + DELIVERY_LEASE_MS)) es" using assms(3) by (simp add: DELIVERY_LEASE_MS_def)
  have "now + DELIVERY_LEASE_MS \<le> later"
    if "claim_delivery tok2 later i (fold (run_event claim_delivery finishClaim) es d1) = (True, d2)" for tok2 later d2
    using assms(1,2) es that by (rule webhookq.second_claim_waits)
  moreover have "finishClaim tok2 out i (fold (run_event claim_delivery finishClaim) es d1) =
      (False, fold (run_event claim_delivery finishClaim) es d1)" if "tok2 \<noteq> tok" for tok2 out
    using assms(1,2) that es by (rule webhookq.stale_worker_cannot_close)
  ultimately show ?thesis
    by (intro conjI allI impI) (simp_all add: DELIVERY_LEASE_MS_def prod_eq_iff)
qed

definition demo_endpoint :: webhook_endpoint where
  "demo_endpoint = \<lparr>we_id = 3, we_merchant = 2, we_env = Live, we_url = ''https://shop.test/hook'',
     we_secretHash = ''h'', we_encryptedSecret = ''s'', we_enabled = True, we_createdAt = 0, we_updatedAt = 0\<rparr>"

definition demo_event :: outbox_event where
  "demo_event = \<lparr>ob_id = 4, ob_aggregateType = ''settlement'', ob_aggregateId = 5,
     ob_eventType = ''settlement.updated'', ob_payload = [(''reference'', JStr ''r'')], ob_publishedAt = None, ob_createdAt = 0\<rparr>"

definition demo_settlement :: settlement_request where
  "demo_settlement = \<lparr>st_id = 5, st_merchant = 2, st_env = Live, st_reference = ''r'', st_phone = ''+251911000001'',
     st_expectedName = ''Abebe'', st_amount = 5000, st_status = S_requested, st_transfer = None, st_requestedBy = ''k'',
     st_reviewedBy = None, st_reviewReason = None, st_reviewedAt = None, st_createdAt = 0\<rparr>"

definition demo_hooks :: db where
  "demo_hooks = empty_db\<lparr>settlements := [demo_settlement], endpoints := [demo_endpoint], outbox := [demo_event],
     deliveries := [new_delivery 0 4 3 6], next_id := 7\<rparr>"

theorem webhook_claim_is_exclusive_witness:
  "let d = fold (run_event claim_delivery finishClaim) [Claim ''b'' 20 6, Close ''b'' Switched_off 6]
       (snd (claim_delivery ''a'' 10 6 demo_hooks))
   in \<not> fst (claim_delivery ''b'' 30009 6 d) \<and> \<not> fst (finishClaim ''b'' Switched_off 6 d)"
proof -
  have "claim_delivery ''a'' 10 6 demo_hooks = (True, snd (claim_delivery ''a'' 10 6 demo_hooks))" by code_simp
  moreover have "delivery_ids demo_hooks" by code_simp
  ultimately show ?thesis
    using webhook_claim_is_exclusive [of demo_hooks "''a''" 10 6 _ "[Claim ''b'' 20 6, Close ''b'' Switched_off 6]"]
    by (fastforce simp: Let_def)
qed

text \<open>Switching an endpoint off stops its deliveries at once: no row of the endpoint waits or is
  being worked on, no worker can claim one, and a worker that was delivering one cannot write its
  outcome any more.\<close>

theorem disabled_endpoint_gets_nothing:
  assumes "setEnabled now auth apiKey i False d = Inr (v, d1)" and "delivery_ids d"
    and "w \<in> set (deliveries d1)" and "wd_endpoint w = i"
  shows "wd_status w \<notin> {W_pending, W_processing} \<and> \<not> fst (claim_delivery tok later (wd_id w) d1) \<and>
     finishClaim tok out (wd_id w) d1 = (False, d1)"
proof -
  let ?f = "dead_delivery ''Endpoint disabled by merchant''"
  let ?p = "\<lambda>w. wd_endpoint w = i \<and> wd_status w \<in> {W_pending, W_processing}"
  from assms(1) have rows: "deliveries d1 = update_where ?p ?f (deliveries d)"
    and eps: "endpoints d1 = update_where (\<lambda>e. we_id e = i) (\<lambda>e. e\<lparr>we_enabled := False, we_updatedAt := now\<rparr>) (endpoints d)"
    by (auto simp: setEnabled_def Let_def set_endpoint_def set_deliveries_def audit_webhook_def log_audit_def split: option.splits)
  have ids: "distinct (map wd_id (deliveries d1))"
    using assms(2) unfolding rows delivery_ids_def by (simp add: update_where_def comp_def dead_delivery_def if_distrib cong: if_cong)
  obtain x where x: "w = (if ?p x then ?f x else x)"
    using assms(3) unfolding rows update_where_def set_map by (elim imageE) (rule that)
  have st: "wd_status w \<notin> {W_pending, W_processing}"
  proof (cases "?p x")
    case True
    have "w = ?f x" using x unfolding if_P [OF True] .
    then show ?thesis by (simp add: dead_delivery_def)
  next
    case False
    have "w = x" using x unfolding if_not_P [OF False] .
    with False assms(4) show ?thesis by blast
  qed
  have "\<not> list_ex (\<lambda>e. we_id e = i \<and> we_enabled e)
      (update_where (\<lambda>e. we_id e = i) (\<lambda>e. e\<lparr>we_enabled := False, we_updatedAt := now\<rparr>) es)" for es
    by (induction es) simp_all
  then have off: "\<not> endpoint_enabled d1 i" by (simp add: endpoint_enabled_def eps)
  note w = distinct_find [OF ids assms(3)]
  have "finishClaim tok out (wd_id w) d1 = (False, d1)"
    unfolding finishClaim_def using st by (subst update_if_lost [OF ids w]) auto
  moreover have "claim_delivery tok later (wd_id w) d1 = (False, d1)"
    unfolding claim_delivery_def using off assms(4) by (subst update_if_lost [OF ids w]) (auto simp: due_delivery_def)
  ultimately show ?thesis using st by simp
qed

theorem disabled_endpoint_gets_nothing_witness:
  "\<exists>v d1 w. setEnabled 9 (2, Live) ''k'' 3 False demo_hooks = Inr (v, d1) \<and> deliveries d1 = [w] \<and>
     wd_status w = W_dead \<and> finishClaim ''a'' No_owner 6 d1 = (False, d1)"
proof -
  obtain v d1 where r: "setEnabled 9 (2, Live) ''k'' 3 False demo_hooks = Inr (v, d1)"
      and rows: "deliveries d1 = [dead_delivery ''Endpoint disabled by merchant'' (new_delivery 0 4 3 6)]"
    by (simp add: setEnabled_def find_endpoint_def demo_hooks_def demo_endpoint_def Let_def set_endpoint_def
        set_deliveries_def audit_webhook_def log_audit_def new_delivery_def)
  have "delivery_ids demo_hooks" by code_simp
  from disabled_endpoint_gets_nothing [OF r this, of "dead_delivery ''Endpoint disabled by merchant'' (new_delivery 0 4 3 6)" "''a''" 0 No_owner]
  show ?thesis using r rows by (auto simp: dead_delivery_def new_delivery_def)
qed

section \<open>A delivery ends\<close>

text \<open>A run of attempts at one row, each by a worker that claims it when it is due.\<close>

fun attempt_row :: "webhook_crypto \<Rightarrow> id \<Rightarrow> (time \<times> webhook_turn) list \<Rightarrow> db \<Rightarrow> db option" where
  "attempt_row wc i [] d = Some d"
| "attempt_row wc i ((now, w) # ws) d = (case claimDelivery (wk_token w) now i d of
       (Some c, d1) \<Rightarrow> (case deliver wc w c d1 of Inr d2 \<Rightarrow> attempt_row wc i ws d2 | Inl e \<Rightarrow> None)
     | (None, d1) \<Rightarrow> None)"

text \<open>An attempt takes time, and the endpoint never accepts.\<close>

definition refusing :: "time \<times> webhook_turn \<Rightarrow> bool" where
  "refusing = (\<lambda>(now, w). now \<le> wk_ended w \<and>
     (\<forall>t m. case wk_answer w t m of Http_response code body \<Rightarrow> \<not> (200 \<le> code \<and> code < 300) | _ \<Rightarrow> True))"

definition waited_ms :: "nat \<Rightarrow> int" where
  "waited_ms n = (\<Sum>k = 1..n. backoff_ms (int k))"

lemma backoff_bounds:
  assumes "1 \<le> n"
  shows "2000 \<le> backoff_ms n \<and> backoff_ms n \<le> 1024000"
proof -
  have "(2::int) ^ 1 \<le> 2 ^ nat (min n 10)" using assms by (intro power_increasing) auto
  moreover have "(2::int) ^ nat (min n 10) \<le> 2 ^ 10" by (intro power_increasing) auto
  ultimately show ?thesis by (simp add: backoff_ms_def)
qed

lemma waited_early: "waited_ms 9 = 1022000"
  by (simp add: waited_ms_def backoff_ms_def eval_nat_numeral)

lemma waited_late: "9 \<le> n \<Longrightarrow> waited_ms n = 1022000 + 1024000 * (int n - 9)"
proof (induction n rule: dec_induct)
  case base
  show ?case by (simp add: waited_early)
next
  case (step n)
  have "waited_ms (Suc n) = waited_ms n + backoff_ms (int (Suc n))" by (simp add: waited_ms_def)
  moreover have "backoff_ms (int (Suc n)) = 1024000" using step.hyps by (simp add: backoff_ms_def)
  ultimately show ?case using step.IH by simp
qed

text \<open>The state of a row after \<open>n\<close> refused attempts.\<close>

definition attempted :: "nat \<Rightarrow> webhook_delivery \<Rightarrow> bool" where
  "attempted n r \<longleftrightarrow> wd_status r = W_dead \<or> wd_status r = W_pending \<and> wd_attempt r = int n \<and>
     wd_createdAt r + waited_ms n \<le> wd_nextAttemptAt r \<and>
     (0 < n \<longrightarrow> waited_ms (n - 1) < 24 * 60 * 60 * 1000)"

lemma finish_row:
  assumes "delivery_ids d" and "find (\<lambda>w. wd_id w = i) (deliveries d) = Some r"
    and "wd_status r = W_processing" and "wd_leaseToken r = Some tok"
  obtains d' where "finishClaim tok out i d = (True, d')" and "delivery_ids d'"
    and "find (\<lambda>w. wd_id w = i) (deliveries d') = Some (closed_delivery out r)"
proof -
  let ?mine = "\<lambda>w. wd_status w = W_processing \<and> wd_leaseToken w = Some tok"
  from assms(2) have "r \<in> set (deliveries d)" "wd_id r = i" by (auto dest: find_SomeD)
  with assms(3,4) have won: "fst (update_if wd_id i ?mine (closed_delivery out) (deliveries d))"
    by (auto simp: update_if_fst list_ex_iff)
  have "find (\<lambda>w. wd_id w = i) (snd (update_if wd_id i ?mine (closed_delivery out) (deliveries d))) = Some (closed_delivery out r)"
    using assms(2-4) \<open>wd_id r = i\<close> by (simp add: update_if_find)
  then show ?thesis
    using that [of "d\<lparr>deliveries := snd (update_if wd_id i ?mine (closed_delivery out) (deliveries d))\<rparr>"] won assms(1)
    by (simp add: finishClaim_def case_prod_beta delivery_ids_def update_if_keys)
qed

text \<open>A claim is won on a due row only, and hands out that row.\<close>

lemma claim_row:
  assumes "delivery_ids d" and "claimDelivery tok now i d = (Some c, d1)"
  obtains r r1 where "find (\<lambda>w. wd_id w = i) (deliveries d) = Some r" and "due_delivery now d r"
    and "r1 = r\<lparr>wd_status := W_processing, wd_leaseToken := Some tok, wd_leaseExpiresAt := Some (now + DELIVERY_LEASE_MS)\<rparr>"
    and "find (\<lambda>w. wd_id w = i) (deliveries d1) = Some r1" and "cl_delivery c = r1" and "cl_token c = tok"
    and "delivery_ids d1"
proof -
  let ?f = "\<lambda>w. w\<lparr>wd_status := W_processing, wd_leaseToken := Some tok, wd_leaseExpiresAt := Some (now + DELIVERY_LEASE_MS)\<rparr>"
  from assms(2) have won: "claim_delivery tok now i d = (True, d1)"
    and c: "find (\<lambda>w. wd_id w = i) (deliveries d1) = Some (cl_delivery c)" "cl_token c = tok"
    by (auto simp: claimDelivery_def Let_def bind_eq_Some_conv split: prod.splits if_splits)
  have u: "update_if wd_id i (due_delivery now d) ?f (deliveries d) = (True, deliveries d1)"
    using won by (auto simp: claim_delivery_def split: prod.splits)
  have ids: "distinct (map wd_id (deliveries d))" using assms(1) by (simp add: delivery_ids_def)
  obtain r where r: "find (\<lambda>w. wd_id w = i) (deliveries d) = Some r" "due_delivery now d r"
      "find (\<lambda>w. wd_id w = i) (deliveries d1) = Some (?f r)"
    using update_if_won [OF ids _ u] by (metis (no_types, lifting) webhook_delivery.select_convs(1) webhook_delivery.surjective webhook_delivery.update_convs)
  have "delivery_ids d1" using webhookq.claim_keeps_inv [OF assms(1) won] .
  with that [OF r(1,2) refl r(3)] c r(3) show ?thesis by simp
qed

text \<open>What one refused attempt leaves in the row.\<close>

definition unsuccessful :: "webhook_turn \<Rightarrow> claimed_delivery \<Rightarrow> webhook_write \<Rightarrow> bool" where
  "unsuccessful w c out \<longleftrightarrow> out = No_owner \<or> out = Switched_off \<or> (\<exists>code body. out = failed_delivery w c code body)"

lemma deliver_row:
  assumes "delivery_ids d1" and row: "find (\<lambda>w. wd_id w = i) (deliveries d1) = Some r1"
    and "cl_delivery c = r1" and tok: "cl_token c = tok"
    and "wd_status r1 = W_processing" and "wd_leaseToken r1 = Some tok"
    and run: "deliver wc w c d1 = Inr d2" and "refusing (now, w)"
  shows "\<exists>out e. unsuccessful w c out \<and> delivery_ids d2 \<and>
    find (\<lambda>w. wd_id w = i) (deliveries d2) = Some (closed_delivery out (r1\<lparr>wd_leaseExpiresAt := e\<rparr>))"
proof -
  have i: "wd_id (cl_delivery c) = i" using row assms(3) by (auto dest: find_SomeD)
  have close: "\<exists>d'. finishClaim tok out i d1 = (True, d') \<and> delivery_ids d' \<and>
      find (\<lambda>w. wd_id w = i) (deliveries d') = Some (closed_delivery out r1)" for out
    by (rule finish_row [OF assms(1) row assms(5,6)]) blast
  have direct: ?thesis if "unsuccessful w c out" and "d2 = snd (finishClaim tok out i d1)" for out
  proof -
    obtain d' where d': "finishClaim tok out i d1 = (True, d')" "delivery_ids d'"
      "find (\<lambda>w. wd_id w = i) (deliveries d') = Some (closed_delivery out r1)" using close [of out] by blast
    with that(2) have "d2 = d'" by simp
    with that(1) d'(2,3) show ?thesis by (intro exI [of _ out] exI [of _ "wd_leaseExpiresAt r1"]) simp
  qed
  have sent: ?thesis if "d2 = send_delivery wc w c owner secret d1" for owner secret
  proof (cases "resolveWebhookTarget (wk_resolver w) (we_url (cl_endpoint c))")
    case (Inl err)
    with that i tok direct [of "failed_delivery w c None (Some (take 2000 (wk_refusal w)))"] show ?thesis
      by (auto simp: send_delivery_def Let_def unsuccessful_def)
  next
    case (Inr target)
    let ?renew = "Renewed (wk_renewed w)"
    let ?m = "webhook_message_of wc secret (wk_signed w) owner c"
    let ?out = "answer_write w c (wk_answer w target ?m)"
    obtain d' where d': "finishClaim tok ?renew i d1 = (True, d')" "delivery_ids d'"
      "find (\<lambda>w. wd_id w = i) (deliveries d') = Some (closed_delivery ?renew r1)" using close [of ?renew] by blast
    have r: "closed_delivery ?renew r1 = r1\<lparr>wd_leaseExpiresAt := Some (wk_renewed w + DELIVERY_LEASE_MS)\<rparr>"
      by (simp add: closed_delivery_def)
    obtain d'' where d'': "finishClaim tok ?out i d' = (True, d'')" "delivery_ids d''"
      "find (\<lambda>w. wd_id w = i) (deliveries d'') = Some (closed_delivery ?out (closed_delivery ?renew r1))"
      by (rule finish_row [OF d'(2,3)]) (use assms(5,6) r in auto)
    have "d2 = d''" using that Inr d'(1) d''(1) i tok by (simp add: send_delivery_def Let_def)
    moreover have "unsuccessful w c ?out"
    proof -
      have "case wk_answer w target ?m of Http_response code body \<Rightarrow> \<not> (200 \<le> code \<and> code < 300) | _ \<Rightarrow> True"
        using assms(8) by (simp add: refusing_def)
      then show ?thesis by (auto simp: unsuccessful_def answer_write_def split: http_answer.splits)
    qed
    ultimately show ?thesis using d''(2,3) unfolding r by blast
  qed
  from run i tok show ?thesis
    using direct [of No_owner] direct [of Switched_off] sent
    by (auto simp: deliver_def unsuccessful_def Let_def split: option.splits if_splits)
qed

lemma refused_attempt:
  assumes ids: "delivery_ids d" and row: "find (\<lambda>w. wd_id w = i) (deliveries d) = Some r" and st: "attempted n r"
    and claim: "claimDelivery (wk_token w) now i d = (Some c, d1)" and run: "deliver wc w c d1 = Inr d2"
    and bad: "refusing (now, w)"
  shows "(0 < n \<longrightarrow> waited_ms (n - 1) < 24 * 60 * 60 * 1000) \<and> delivery_ids d2 \<and>
     (\<exists>r2. find (\<lambda>w. wd_id w = i) (deliveries d2) = Some r2 \<and> attempted (Suc n) r2)"
proof -
  obtain r' r1 where "find (\<lambda>w. wd_id w = i) (deliveries d) = Some r'" and due: "due_delivery now d r'"
      and upd: "r1 = r'\<lparr>wd_status := W_processing, wd_leaseToken := Some (wk_token w),
        wd_leaseExpiresAt := Some (now + DELIVERY_LEASE_MS)\<rparr>"
      and r1: "find (\<lambda>w. wd_id w = i) (deliveries d1) = Some r1" "cl_delivery c = r1" "cl_token c = wk_token w" "delivery_ids d1"
    by (rule claim_row [OF ids claim])
  with row have r': "r' = r" by simp
  have r1_fields: "wd_status r1 = W_processing" "wd_leaseToken r1 = Some (wk_token w)" "wd_attempt r1 = wd_attempt r"
    "wd_createdAt r1 = wd_createdAt r" unfolding upd r' by simp_all
  obtain out e where out: "unsuccessful w c out" "delivery_ids d2"
      "find (\<lambda>w. wd_id w = i) (deliveries d2) = Some (closed_delivery out (r1\<lparr>wd_leaseExpiresAt := e\<rparr>))"
    using deliver_row [OF r1(4,1,2,3) r1_fields(1,2) run bad] by blast
  from st due [unfolded r'] have live: "wd_attempt r = int n" "wd_createdAt r + waited_ms n \<le> wd_nextAttemptAt r"
      "0 < n \<longrightarrow> waited_ms (n - 1) < 24 * 60 * 60 * 1000" "wd_nextAttemptAt r \<le> now"
    by (auto simp: attempted_def due_delivery_def)
  have next_wait: "waited_ms (Suc n) = waited_ms n + backoff_ms (int n + 1)" by (simp add: waited_ms_def add.commute)
  have "now \<le> wk_ended w" using bad by (simp add: refusing_def)
  then have "attempted (Suc n) (closed_delivery out (r1\<lparr>wd_leaseExpiresAt := e\<rparr>))"
    using out(1) live next_wait r1(2) r1_fields(3,4)
    by (auto simp: unsuccessful_def attempted_def closed_delivery_def failed_delivery_def split: if_splits)
  with out(2,3) live(3) show ?thesis by blast
qed

lemma attempts_bounded:
  assumes "delivery_ids d" and "find (\<lambda>w. wd_id w = i) (deliveries d) = Some r" and "attempted n r"
    and "list_all refusing ws" and "attempt_row wc i ws d \<noteq> None" and "ws \<noteq> []"
  shows "n + length ws \<le> 94"
  using assms
proof (induction ws arbitrary: d r n)
  case Nil
  then show ?case by simp
next
  case (Cons a ws)
  obtain now w where a: "a = (now, w)" by (cases a)
  from Cons.prems(5) obtain c d1 d2 where run: "claimDelivery (wk_token w) now i d = (Some c, d1)"
      "deliver wc w c d1 = Inr d2" "attempt_row wc i ws d2 \<noteq> None"
    by (auto simp: a split: prod.splits option.splits sum.splits)
  have bad: "refusing (now, w)" using Cons.prems(4) a by simp
  from refused_attempt [OF Cons.prems(1-3) run(1,2) bad] obtain r2 where
    early: "0 < n \<longrightarrow> waited_ms (n - 1) < 24 * 60 * 60 * 1000" and ids: "delivery_ids d2"
    and r2: "find (\<lambda>w. wd_id w = i) (deliveries d2) = Some r2" "attempted (Suc n) r2" by blast
  have n: "n \<le> 93"
  proof (rule ccontr)
    assume "\<not> n \<le> 93"
    then have "9 \<le> n - 1" "93 \<le> int (n - 1)" "0 < n" by auto
    with early waited_late [of "n - 1"] show False by simp
  qed
  show ?case
  proof (cases "ws = []")
    case True
    with n show ?thesis by simp
  next
    case False
    with Cons.IH [OF ids r2 _ run(3)] Cons.prems(4) show ?thesis by simp
  qed
qed



definition demo_crypto :: webhook_crypto where
  "demo_crypto = \<lparr>wc_sha256 = (\<lambda>s. s), wc_encrypt = (\<lambda>s. s), wc_decrypt = Some, wc_hmac = (\<lambda>k m. k),
     wc_format = \<lparr>jf_uuid = (\<lambda>i. ''id''), jf_iso = (\<lambda>t. ''t'')\<rparr>\<rparr>"

definition demo_resolver :: resolver where
  "demo_resolver = \<lparr>rs_production = True, rs_parse = (\<lambda>u. None), rs_isIP = (\<lambda>s. 0), rs_lookup = (\<lambda>h. None)\<rparr>"

definition demo_turn :: "string \<Rightarrow> time \<Rightarrow> webhook_turn" where
  "demo_turn tok t = \<lparr>wk_token = tok, wk_signed = t, wk_resolver = demo_resolver, wk_refusal = ''Webhook URL is invalid'',
     wk_renewed = t, wk_answer = (\<lambda>t m. Http_error ''refused''), wk_ended = t + 50\<rparr>"

definition demo_attempts :: "(time \<times> webhook_turn) list" where
  "demo_attempts = [(10, demo_turn ''a'' 10), (2060, demo_turn ''b'' 2060)]"


section \<open>Deliveries go to the owner\<close>

text \<open>The operations that write the webhook tables.\<close>

datatype webhook_op =
    Register resolver time auth string string string string
  | Switch time auth string id bool
  | Rotate time auth string id string string string
  | Replay_delivery time auth id string string "id \<Rightarrow> string"
  | Expand "id \<Rightarrow> bool" time
  | Claim_row string time id
  | Write_row string webhook_write id

definition run_webhook :: "webhook_crypto \<Rightarrow> webhook_op \<Rightarrow> db \<Rightarrow> db outcome" where
  "run_webhook wc op d = (case op of
       Register rs now auth url key hash random \<Rightarrow> map_outcome (\<lambda>(_, _, d'). d') (register wc rs now auth url key hash random d)
     | Switch now auth apiKey i enabled \<Rightarrow> map_outcome snd (setEnabled now auth apiKey i enabled d)
     | Rotate now auth apiKey i key hash random \<Rightarrow> map_outcome (\<lambda>(_, _, d'). d') (rotateSecret wc now auth apiKey i key hash random d)
     | Replay_delivery now auth i key hash uuid \<Rightarrow> map_outcome (\<lambda>(_, _, d'). d') (replay_webhook now auth i key hash uuid d)
     | Expand bus now \<Rightarrow> Inr (snd (snd (expandOutbox bus now d)))
     | Claim_row tok now i \<Rightarrow> Inr (snd (claim_delivery tok now i d))
     | Write_row tok out i \<Rightarrow> Inr (snd (finishClaim tok out i d)))"

text \<open>Every delivery belongs to an event and to an endpoint of the owner of that event; ids are
  unique.\<close>

definition owned :: "db \<Rightarrow> webhook_delivery \<Rightarrow> bool" where
  "owned d w \<longleftrightarrow> list_ex (\<lambda>e. ob_id e = wd_event w \<and> list_ex (\<lambda>ep. we_id ep = wd_endpoint w \<and>
     event_owner e d = Some (we_merchant ep, we_env ep)) (endpoints d)) (outbox d)"

definition webhooks_ok :: "db \<Rightarrow> bool" where
  "webhooks_ok d \<longleftrightarrow> list_all (owned d) (deliveries d) \<and> distinct (map ob_id (outbox d)) \<and>
     distinct (map we_id (endpoints d)) \<and> list_all (\<lambda>ep. we_id ep < next_id d) (endpoints d) \<and>
     delivery_ids d \<and> list_all (\<lambda>w. wd_id w < next_id d) (deliveries d)"

text \<open>A step that keeps the aggregates, the identity of events and endpoints, and of the deliveries.\<close>

definition event_key :: "outbox_event \<Rightarrow> id \<times> string \<times> id" where
  "event_key e = (ob_id e, ob_aggregateType e, ob_aggregateId e)"

definition endpoint_key :: "webhook_endpoint \<Rightarrow> id \<times> id \<times> environment" where
  "endpoint_key ep = (we_id ep, we_merchant ep, we_env ep)"

definition delivery_key :: "webhook_delivery \<Rightarrow> id \<times> id \<times> id" where
  "delivery_key w = (wd_id w, wd_event w, wd_endpoint w)"

definition same_aggregates :: "db \<Rightarrow> db \<Rightarrow> bool" where
  "same_aggregates d d' \<longleftrightarrow> deposits d' = deposits d \<and> transfers d' = transfers d \<and> settlements d' = settlements d \<and>
     sweepExecutions d' = sweepExecutions d \<and> sweepRules d' = sweepRules d"

lemma same_owner: "same_aggregates d d' \<Longrightarrow> event_key e' = event_key e \<Longrightarrow> event_owner e' d' = event_owner e d"
  by (simp add: same_aggregates_def event_key_def event_owner_def aggregateOwner_def)

lemma owned_iff: "owned d w \<longleftrightarrow> (\<exists>e \<in> set (outbox d). \<exists>ep \<in> set (endpoints d). ob_id e = wd_event w \<and>
    we_id ep = wd_endpoint w \<and> event_owner e d = Some (we_merchant ep, we_env ep))"
  by (auto simp: owned_def list_ex_iff)

lemma owned_step:
  assumes "owned d w" and same: "same_aggregates d d'"
    and ev: "set (map event_key (outbox d)) \<subseteq> set (map event_key (outbox d'))"
    and eps: "set (map endpoint_key (endpoints d)) \<subseteq> set (map endpoint_key (endpoints d'))"
    and w: "wd_event w' = wd_event w" "wd_endpoint w' = wd_endpoint w"
  shows "owned d' w'"
proof -
  from assms(1) obtain e ep where e: "e \<in> set (outbox d)" "ob_id e = wd_event w"
    and ep: "ep \<in> set (endpoints d)" "we_id ep = wd_endpoint w" "event_owner e d = Some (we_merchant ep, we_env ep)"
    by (auto simp: owned_iff)
  from e(1) ev obtain e' where e': "e' \<in> set (outbox d')" "event_key e' = event_key e" by fastforce
  from ep(1) eps obtain ep' where ep': "ep' \<in> set (endpoints d')" "endpoint_key ep' = endpoint_key ep" by fastforce
  have "event_owner e' d' = event_owner e d" using same e'(2) by (rule same_owner)
  then show ?thesis
    using e e' ep ep' w unfolding owned_iff by (intro bexI [OF _ e'(1)] bexI [OF _ ep'(1)]) (auto simp: event_key_def endpoint_key_def)
qed

lemma map_update_where_key: "(\<And>r. k (f r) = k r) \<Longrightarrow> map k (update_where p f rs) = map k rs"
  by (induction rs) auto

lemma webhooks_ok_step:
  assumes ok: "webhooks_ok d" and same: "same_aggregates d d'"
    and ev: "map event_key (outbox d') = map event_key (outbox d)"
    and eps: "map endpoint_key (endpoints d') = map endpoint_key (endpoints d)"
    and ws: "map delivery_key (deliveries d') = map delivery_key (deliveries d)"
    and nx: "next_id d' = next_id d"
  shows "webhooks_ok d'"
proof -
  have "map ob_id (outbox d') = map ob_id (outbox d)" using arg_cong [OF ev, of "map fst"] by (simp add: event_key_def comp_def)
  moreover have ids: "map we_id (endpoints d') = map we_id (endpoints d)"
    using arg_cong [OF eps, of "map fst"] by (simp add: endpoint_key_def comp_def)
  moreover have "list_all (\<lambda>ep. we_id ep < next_id d') (endpoints d')"
  proof -
    have "list_all (\<lambda>i. i < next_id d) (map we_id (endpoints d))" using ok by (simp add: webhooks_ok_def list.pred_map comp_def)
    then show ?thesis unfolding ids [symmetric] nx by (simp add: list.pred_map comp_def)
  qed
  moreover have ids2: "map wd_id (deliveries d') = map wd_id (deliveries d)"
    using arg_cong [OF ws, of "map fst"] by (simp add: delivery_key_def comp_def)
  moreover have "list_all (\<lambda>w. wd_id w < next_id d') (deliveries d')"
  proof -
    have "list_all (\<lambda>i. i < next_id d) (map wd_id (deliveries d))" using ok by (simp add: webhooks_ok_def list.pred_map comp_def)
    then show ?thesis unfolding ids2 [symmetric] nx by (simp add: list.pred_map comp_def)
  qed
  moreover have "owned d' w'" if "w' \<in> set (deliveries d')" for w'
  proof -
    have "delivery_key w' \<in> set (map delivery_key (deliveries d))" unfolding ws [symmetric] using that by simp
    then obtain w where w: "w \<in> set (deliveries d)" "wd_event w' = wd_event w" "wd_endpoint w' = wd_endpoint w"
      by (auto simp: delivery_key_def)
    then have "owned d w" using ok by (auto simp: webhooks_ok_def list_all_iff)
    then show ?thesis by (rule owned_step [OF _ same _ _ w(2,3)]) (simp_all add: ev eps)
  qed
  ultimately show ?thesis using ok by (simp add: webhooks_ok_def list_all_iff delivery_ids_def)
qed

lemma webhooks_ok_quiet:
  assumes "webhooks_ok d" and "same_aggregates d d'" and "outbox d' = outbox d" and "endpoints d' = endpoints d"
    and "deliveries d' = deliveries d" and "next_id d' = next_id d"
  shows "webhooks_ok d'"
  using assms by (intro webhooks_ok_step [OF assms(1,2)]) simp_all

lemma new_endpoint_ok:
  assumes ok: "webhooks_ok d" and "we_id ep = next_id d"
  shows "webhooks_ok (d\<lparr>endpoints := endpoints d @ [ep], next_id := Suc (next_id d)\<rparr>)"
proof -
  have "owned (d\<lparr>endpoints := endpoints d @ [ep], next_id := Suc (next_id d)\<rparr>) w" if "w \<in> set (deliveries d)" for w
  proof -
    have "owned d w" using ok that by (simp add: webhooks_ok_def list_all_iff)
    then show ?thesis by (rule owned_step [OF _ _ _ _ refl refl]) (simp_all add: same_aggregates_def subset_insertI)
  qed
  then show ?thesis using ok assms(2) by (auto simp: webhooks_ok_def list_all_iff delivery_ids_def less_Suc_eq)
qed

lemma new_delivery_ok:
  assumes ok: "webhooks_ok d" and "event_key e \<in> event_key ` set (outbox d)" and "ep \<in> set (endpoints d)"
    and "event_owner e d = Some (we_merchant ep, we_env ep)"
  shows "webhooks_ok (upsert_delivery now (ob_id e) (we_id ep) d)"
proof -
  let ?d = "d\<lparr>deliveries := deliveries d @ [new_delivery now (ob_id e) (we_id ep) (next_id d)], next_id := Suc (next_id d)\<rparr>"
  have same: "same_aggregates d ?d" by (simp add: same_aggregates_def)
  have "owned ?d w" if "w \<in> set (deliveries d)" for w
  proof -
    have "owned d w" using ok that by (simp add: webhooks_ok_def list_all_iff)
    then show ?thesis by (rule owned_step [OF _ same _ _ refl refl]) simp_all
  qed
  moreover have "owned ?d (new_delivery now (ob_id e) (we_id ep) (next_id d))"
  proof -
    from assms(2) obtain x where x: "x \<in> set (outbox d)" "event_key x = event_key e" by auto
    then show ?thesis
      using assms(3,4) same_owner [OF same x(2)] unfolding owned_iff
      by (intro bexI [of _ x] bexI [of _ ep]) (simp_all add: new_delivery_def event_key_def)
  qed
  moreover have "wd_id (new_delivery now (ob_id e) (we_id ep) (next_id d)) = next_id d" by (simp add: new_delivery_def)
  ultimately show ?thesis
    using ok by (auto simp: upsert_delivery_def webhooks_ok_def list_all_iff delivery_ids_def less_Suc_eq)
qed

lemma conditional_ok:
  assumes "webhooks_ok d" and "\<And>w. delivery_key (f w) = delivery_key w"
  shows "webhooks_ok (d\<lparr>deliveries := snd (update_if wd_id i p f (deliveries d))\<rparr>)"
  using webhooks_ok_step [OF assms(1)] assms(2)
  by (simp add: same_aggregates_def update_if_def map_update_where_key)

lemma claim_ok: "webhooks_ok d \<Longrightarrow> webhooks_ok (snd (claim_delivery tok now i d))"
  by (simp add: claim_delivery_def case_prod_beta conditional_ok delivery_key_def)

lemma finish_ok: "webhooks_ok d \<Longrightarrow> webhooks_ok (snd (finishClaim tok out i d))"
  by (simp add: finishClaim_def case_prod_beta conditional_ok delivery_key_def)

lemma replay_ok: "webhooks_ok d \<Longrightarrow> replay_delivery now auth i d = Inr (b, d') \<Longrightarrow> webhooks_ok d'"
  by (auto simp: replay_delivery_def case_prod_beta Let_def split: option.splits if_splits intro!: conditional_ok simp: delivery_key_def)

lemma audit_ok: "webhooks_ok d \<Longrightarrow> webhooks_ok (audit_webhook auth apiKey action i d)"
  by (rule webhooks_ok_quiet) (simp_all add: audit_webhook_def log_audit_def same_aggregates_def)

lemma set_endpoint_ok:
  assumes "webhooks_ok d" and "\<And>ep. endpoint_key (g ep) = endpoint_key ep"
  shows "webhooks_ok (set_endpoint i g d)"
  using assms by (intro webhooks_ok_step [OF assms(1)]) (simp_all add: set_endpoint_def same_aggregates_def map_update_where_key)

lemma set_deliveries_ok:
  assumes "webhooks_ok d" and "\<And>w. delivery_key (f w) = delivery_key w"
  shows "webhooks_ok (set_deliveries p f d)"
  using assms by (intro webhooks_ok_step [OF assms(1)]) (simp_all add: set_deliveries_def same_aggregates_def map_update_where_key)

lemma setEnabled_ok: "webhooks_ok d \<Longrightarrow> setEnabled now auth apiKey i en d = Inr (v, d') \<Longrightarrow> webhooks_ok d'"
  by (auto simp: setEnabled_def Let_def dead_delivery_def endpoint_key_def delivery_key_def split: option.splits
      intro!: audit_ok set_deliveries_ok set_endpoint_ok)

lemma rotate_ok: "webhooks_ok d \<Longrightarrow> rotate_endpoint wc now auth apiKey i random d = Inr (v, d') \<Longrightarrow> webhooks_ok d'"
  by (auto simp: rotate_endpoint_def Let_def endpoint_key_def delivery_key_def split: option.splits
      intro!: audit_ok set_deliveries_ok set_endpoint_ok)

lemma create_ok: "webhooks_ok d \<Longrightarrow> create_endpoint wc now auth url random d = Inr (v, d') \<Longrightarrow> webhooks_ok d'"
  by (auto simp: create_endpoint_def Let_def intro!: new_endpoint_ok)

lemma idempotent_ok:
  assumes "webhooks_ok d" and "execute now x d = Inr (b, r, d')"
    and "\<And>r e. io_execute x d = Inr (r, e) \<Longrightarrow> webhooks_ok e"
  shows "webhooks_ok d'"
proof -
  have table: "webhooks_ok (e\<lparr>idempotency := q\<rparr>)" if "webhooks_ok e" for e q
    using that by (rule webhooks_ok_quiet) (simp_all add: same_aggregates_def)
  show ?thesis
    using assms
    by (auto simp: execute_def idem_replay_def idem_first_def idem_add_missing_def Let_def tx_simps table
        split: if_splits option.splits)
qed

lemma add_deliveries_ok:
  assumes "webhooks_ok d" and e: "event_key e \<in> event_key ` set (outbox d)" and own: "event_owner e d = Some owner"
  shows "webhooks_ok (add_deliveries now e owner d) \<and> outbox (add_deliveries now e owner d) = outbox d"
proof -
  have "webhooks_ok (fold (\<lambda>ep. upsert_delivery now (ob_id e) (we_id ep)) eps d0) \<and>
      endpoints (fold (\<lambda>ep. upsert_delivery now (ob_id e) (we_id ep)) eps d0) = endpoints d \<and>
      outbox (fold (\<lambda>ep. upsert_delivery now (ob_id e) (we_id ep)) eps d0) = outbox d"
    if "webhooks_ok d0" "endpoints d0 = endpoints d" "outbox d0 = outbox d" "same_aggregates d d0"
      "set eps \<subseteq> set (owner_endpoints owner d)" for eps d0
    using that
  proof (induction eps arbitrary: d0)
    case Nil
    then show ?case by simp
  next
    case (Cons ep eps)
    let ?d1 = "upsert_delivery now (ob_id e) (we_id ep) d0"
    have ep: "ep \<in> set (endpoints d0)" "we_merchant ep = fst owner" "we_env ep = snd owner"
      using Cons.prems(2,5) by (auto simp: owner_endpoints_def)
    have "event_owner e d0 = Some (we_merchant ep, we_env ep)"
      using same_owner [OF Cons.prems(4) refl, of e] own ep by simp
    then have "webhooks_ok ?d1" using Cons.prems(1,3) e ep(1) by (intro new_delivery_ok) auto
    moreover have "endpoints ?d1 = endpoints d" "outbox ?d1 = outbox d" "same_aggregates d ?d1"
      using Cons.prems by (auto simp: upsert_delivery_def same_aggregates_def)
    ultimately show ?case using Cons.IH [of ?d1] Cons.prems(5) by simp
  qed
  from this [of d "owner_endpoints owner d"] show ?thesis
    using assms(1) by (simp add: add_deliveries_def same_aggregates_def)
qed

lemma publish_ok:
  assumes "webhooks_ok d"
  shows "webhooks_ok (mark_published now i p d) \<and> map event_key (outbox (mark_published now i p d)) = map event_key (outbox d)"
proof -
  have same: "map event_key (outbox (mark_published now i p d)) = map event_key (outbox d)"
    by (simp add: mark_published_def map_update_where_key event_key_def)
  have "webhooks_ok (mark_published now i p d)"
    by (rule webhooks_ok_step [OF assms _ same]) (simp_all add: mark_published_def same_aggregates_def)
  with same show ?thesis by simp
qed

lemma expand_event_ok:
  assumes "webhooks_ok d" and "event_key e \<in> event_key ` set (outbox d)" and "expandEvent bus now e (sent, d) = Inr (sent', d')"
  shows "webhooks_ok d' \<and> map event_key (outbox d') = map event_key (outbox d)"
  using assms add_deliveries_ok [OF assms(1,2)] publish_ok
  by (auto simp: expandEvent_def Let_def split: option.splits if_splits)

lemma expand_ok:
  assumes "webhooks_ok d" and "list_all (\<lambda>e. event_key e \<in> event_key ` set (outbox d)) es"
  shows "webhooks_ok (snd (snd (expand_all bus now es (sent, d))))"
  using assms
proof (induction es arbitrary: sent d)
  case Nil
  then show ?case by simp
next
  case (Cons e es)
  have e: "event_key e \<in> event_key ` set (outbox d)" using Cons.prems(2) by simp
  show ?case
  proof (cases "expandEvent bus now e (sent, d)")
    case (Inl err)
    then show ?thesis using Cons.prems(1) add_deliveries_ok [OF Cons.prems(1) e] by (simp split: option.split)
  next
    case (Inr s1)
    obtain sent' d' where s1: "s1 = (sent', d')" by (cases s1)
    with expand_event_ok [OF Cons.prems(1) e] Inr have d': "webhooks_ok d'" "map event_key (outbox d') = map event_key (outbox d)"
      by auto
    have "event_key ` set (outbox d') = event_key ` set (outbox d)" using arg_cong [OF d'(2), of set] by simp
    then show ?thesis using Cons.IH [OF d'(1)] Cons.prems(2) Inr s1 by simp
  qed
qed

lemma expandOutbox_ok: "webhooks_ok d \<Longrightarrow> webhooks_ok (snd (snd (expandOutbox bus now d)))"
  unfolding expandOutbox_def
  by (rule expand_ok) (auto simp: pending_events_def list_all_iff dest!: in_set_takeD)

lemma register_request_ok:
  assumes "webhooks_ok d" and "execute now (register_options wc now auth url key hash random) d = Inr (b, r, d')"
  shows "webhooks_ok d'"
  by (rule idempotent_ok [OF assms]) (auto simp: register_options_def intro: create_ok [OF assms(1)])

lemma rotate_request_ok:
  assumes "webhooks_ok d" and "rotateSecret wc now auth apiKey i key hash random d = Inr (b, r, d')"
  shows "webhooks_ok d'"
  by (rule idempotent_ok [OF assms(1) assms(2) [unfolded rotateSecret_def]]) (auto intro: rotate_ok [OF assms(1)])

lemma replay_request_ok:
  assumes "webhooks_ok d" and "replay_webhook now auth i key hash uuid d = Inr (b, r, d')"
  shows "webhooks_ok d'"
  by (rule idempotent_ok [OF assms(1) assms(2) [unfolded replay_webhook_def]])
    (auto simp: replay_options_def intro: replay_ok [OF assms(1)])

lemma run_webhook_ok: "webhooks_ok d \<Longrightarrow> run_webhook wc op d = Inr d' \<Longrightarrow> webhooks_ok d'"
proof (cases op)
  case (Register rs now auth url key hash random)
  assume "webhooks_ok d" "run_webhook wc op d = Inr d'"
  then show ?thesis
    by (auto simp: Register run_webhook_def register_def Let_def tx_simps intro: register_request_ok split: if_splits)
next
  case (Switch now auth apiKey i enabled)
  assume "webhooks_ok d" "run_webhook wc op d = Inr d'"
  then show ?thesis by (auto simp: Switch run_webhook_def tx_simps intro: setEnabled_ok)
next
  case (Rotate now auth apiKey i key hash random)
  assume "webhooks_ok d" "run_webhook wc op d = Inr d'"
  then show ?thesis
    by (auto simp: Rotate run_webhook_def tx_simps intro: rotate_request_ok)
next
  case (Replay_delivery now auth i key hash uuid)
  assume "webhooks_ok d" "run_webhook wc op d = Inr d'"
  then show ?thesis
    by (auto simp: Replay_delivery run_webhook_def tx_simps intro: replay_request_ok)
next
  case (Expand bus now)
  assume "webhooks_ok d" "run_webhook wc op d = Inr d'"
  then show ?thesis by (auto simp: Expand run_webhook_def intro: expandOutbox_ok)
next
  case (Claim_row tok now i)
  assume "webhooks_ok d" "run_webhook wc op d = Inr d'"
  then show ?thesis by (auto simp: Claim_row run_webhook_def intro: claim_ok)
next
  case (Write_row tok out i)
  assume "webhooks_ok d" "run_webhook wc op d = Inr d'"
  then show ?thesis by (auto simp: Write_row run_webhook_def intro: finish_ok)
qed

interpretation hooks: guarded_system "run_webhook wc" webhooks_ok for wc
  by unfold_locales (rule run_webhook_ok)

text \<open>C25. A merchant's events go to its own endpoints only: after any sequence of registrations,
  switches, rotations, replays, expansions and worker steps, whatever delivery a worker claims
  carries an event owned by the merchant and environment of the endpoint it is sent to, and that
  endpoint is switched on.\<close>

theorem delivery_goes_to_owner:
  assumes "webhooks_ok d0" and "d = run_all (run_webhook wc) ops d0"
    and "claimDelivery tok now i d = (Some c, d1)"
  shows "event_owner (cl_event c) d1 = Some (we_merchant (cl_endpoint c), we_env (cl_endpoint c)) \<and>
     we_enabled (cl_endpoint c)"
proof -
  have ok: "webhooks_ok d" unfolding assms(2) by (rule hooks.run_all_inv [OF assms(1)])
  from assms(3) have claim: "claim_delivery tok now i d = (True, d1)"
    and w: "find (\<lambda>w. wd_id w = i) (deliveries d1) = Some (cl_delivery c)"
    and ep: "find (\<lambda>e. we_id e = wd_endpoint (cl_delivery c)) (endpoints d1) = Some (cl_endpoint c)"
    and ev: "find (\<lambda>e. ob_id e = wd_event (cl_delivery c)) (outbox d1) = Some (cl_event c)"
    by (auto simp: claimDelivery_def Let_def bind_eq_Some_conv split: prod.splits if_splits)
  have ok1: "webhooks_ok d1" using claim_ok [OF ok, of tok now i] claim by simp
  have "owned d1 (cl_delivery c)" using ok1 find_SomeD [OF w] by (simp add: webhooks_ok_def list_all_iff)
  then obtain e p where e: "e \<in> set (outbox d1)" "ob_id e = wd_event (cl_delivery c)"
    and p: "p \<in> set (endpoints d1)" "we_id p = wd_endpoint (cl_delivery c)"
    and own: "event_owner e d1 = Some (we_merchant p, we_env p)" by (auto simp: owned_iff)
  have "find (\<lambda>x. ob_id x = ob_id e) (outbox d1) = Some e"
    using ok1 e(1) by (intro distinct_find) (auto simp: webhooks_ok_def)
  then have "cl_event c = e" using ev e(2) by simp
  moreover have find_p: "find (\<lambda>x. we_id x = we_id p) (endpoints d1) = Some p"
    using ok1 p(1) by (intro distinct_find) (auto simp: webhooks_ok_def)
  then have cp: "cl_endpoint c = p" using ep p(2) by simp
  moreover have "we_enabled p"
  proof -
    have ids: "delivery_ids d" using ok by (simp add: webhooks_ok_def)
    obtain r r1 where "find (\<lambda>w. wd_id w = i) (deliveries d) = Some r" and due: "due_delivery now d r"
      and upd: "r1 = r\<lparr>wd_status := W_processing, wd_leaseToken := Some tok,
        wd_leaseExpiresAt := Some (now + DELIVERY_LEASE_MS)\<rparr>"
      and "find (\<lambda>w. wd_id w = i) (deliveries d1) = Some r1" and r1: "cl_delivery c = r1" and "cl_token c = tok"
      and "delivery_ids d1"
      by (rule claim_row [OF ids assms(3)])
    have r: "due_delivery now d r" "wd_endpoint r = wd_endpoint (cl_delivery c)" using due unfolding r1 upd by simp_all
    have "endpoints d1 = endpoints d" using claim by (auto simp: claim_delivery_def split: prod.splits)
    with r p(2) have "endpoint_enabled d1 (we_id p)" by (simp add: due_delivery_def endpoint_enabled_def)
    then obtain q where q: "q \<in> set (endpoints d1)" "we_id q = we_id p" "we_enabled q"
      by (auto simp: endpoint_enabled_def list_ex_iff)
    have "find (\<lambda>x. we_id x = we_id q) (endpoints d1) = Some q"
      using ok1 q(1) by (intro distinct_find) (auto simp: webhooks_ok_def)
    then have "Some q = Some p" unfolding q(2) find_p by (rule sym)
    with q(3) show ?thesis by blast
  qed
  ultimately show ?thesis using own by simp
qed

theorem delivery_goes_to_owner_witness:
  "\<exists>c d1. claimDelivery ''a'' 10 7 (run_all (run_webhook demo_crypto) [Expand (\<lambda>_. True) 5]
       (demo_hooks\<lparr>deliveries := []\<rparr>)) = (Some c, d1) \<and>
     event_owner (cl_event c) d1 = Some (2, Live) \<and> we_enabled (cl_endpoint c)"
proof -
  let ?d = "run_all (run_webhook demo_crypto) [Expand (\<lambda>_. True) 5] (demo_hooks\<lparr>deliveries := []\<rparr>)"
  have ok: "webhooks_ok (demo_hooks\<lparr>deliveries := []\<rparr>)" by code_simp
  have "(case fst (claimDelivery ''a'' 10 7 ?d) of Some c \<Rightarrow> we_merchant (cl_endpoint c) = 2 \<and> we_env (cl_endpoint c) = Live
      | None \<Rightarrow> False)" by code_simp
  then obtain c d1 where c: "claimDelivery ''a'' 10 7 ?d = (Some c, d1)" "we_merchant (cl_endpoint c) = 2"
      "we_env (cl_endpoint c) = Live"
    by (cases "claimDelivery ''a'' 10 7 ?d") (auto split: option.splits)
  with delivery_goes_to_owner [OF ok refl c(1)] show ?thesis by auto
qed

section \<open>Secrets\<close>

text \<open>A one-time secret is not lost with a lost answer: a merchant that repeats an accepted
  rotation with the same key gets exactly the secret and the time of the first answer again, and
  nothing changes, as long as the encryption gives back what was encrypted.\<close>

theorem repeated_rotation_returns_secret:
  assumes "rotateSecret wc now auth apiKey i key hash random d = Inr (False, v, d1)"
    and "\<And>s. wc_decrypt wc (wc_encrypt wc s) = Some s"
  shows "rotateSecret wc later auth apiKey2 i key hash random2 d1 = Inr (True, v, d1)"
proof -
  let ?x = "\<lambda>k r t. \<lparr>io_auth = auth, io_operation = ''webhooks.rotate_secret'', io_key = key,
       io_referenceKey = None, io_referenceOperation = None, io_hash = hash,
       io_execute = rotate_endpoint wc t auth k i r, io_store = store_rotation wc, io_replay = replay_rotation wc auth\<rparr>"
  have first: "execute now (?x apiKey random now) d = Inr (False, v, d1)" using assms(1) by (simp add: rotateSecret_def)
  have frame: "idempotency e = idempotency d" if "rotate_endpoint wc now auth apiKey i random d = Inr (r, e)" for r e
    using that by (auto simp: rotate_endpoint_def Let_def audit_webhook_def log_audit_def set_deliveries_def set_endpoint_def
        split: option.splits)
  have again: "execute later (?x apiKey2 random2 later) d1 =
      map_outcome (\<lambda>r'. (True, r', d1)) (replay_rotation wc auth (store_rotation wc v) d1)"
    using execute_after_first [OF first, where y = "?x apiKey2 random2 later" and later = later] frame
    by (simp add: record_identities_def truthy_def)
  obtain e where run: "rotate_endpoint wc now auth apiKey i random d = Inr (v, e)" and eps: "endpoints d1 = endpoints e"
    by (rule execute_firstD [OF first]) auto
  from run obtain p where p: "find_endpoint auth i d = Some p" and v: "ro_id v = i" "endpoints e =
      update_where (\<lambda>e. we_id e = i) (\<lambda>e. e\<lparr>we_secretHash := wc_sha256 wc (new_secret random),
        we_encryptedSecret := wc_encrypt wc (new_secret random), we_updatedAt := now\<rparr>) (endpoints d)"
    by (auto simp: rotate_endpoint_def Let_def audit_webhook_def log_audit_def set_deliveries_def set_endpoint_def
        split: option.splits)
  have "\<exists>q. find_endpoint auth i d1 = Some q \<and> we_id q = i"
    using p unfolding find_endpoint_def eps v(2) by (simp add: find_update_where) (auto dest: find_SomeD)
  then obtain q where q: "find_endpoint auth i d1 = Some q" "we_id q = i" by blast
  have "replay_rotation wc auth (store_rotation wc v) d1 = Inr v"
    using q v(1) assms(2) by (simp add: replay_rotation_def store_rotation_def stored_id_def json_field_def Let_def)
  with again show ?thesis by (simp add: rotateSecret_def)
qed

theorem repeated_rotation_returns_secret_witness:
  "\<exists>v d1. rotateSecret demo_crypto 5 (2, Live) ''k'' 3 ''key'' ''h'' ''r1'' demo_hooks = Inr (False, v, d1) \<and>
     ro_secret v = ''whsec_r1'' \<and>
     rotateSecret demo_crypto 50 (2, Live) ''k'' 3 ''key'' ''h'' ''r2'' d1 = Inr (True, v, d1)"
proof -
  have "(case rotateSecret demo_crypto 5 (2, Live) ''k'' 3 ''key'' ''h'' ''r1'' demo_hooks of
      Inr (False, v, d1) \<Rightarrow> ro_secret v = ''whsec_r1'' | _ \<Rightarrow> False)" by code_simp
  then obtain v d1 where r: "rotateSecret demo_crypto 5 (2, Live) ''k'' 3 ''key'' ''h'' ''r1'' demo_hooks = Inr (False, v, d1)"
      "ro_secret v = ''whsec_r1''"
    by (cases "rotateSecret demo_crypto 5 (2, Live) ''k'' 3 ''key'' ''h'' ''r1'' demo_hooks") (auto split: bool.splits)
  have "rotateSecret demo_crypto 50 (2, Live) ''k'' 3 ''key'' ''h'' ''r2'' d1 = Inr (True, v, d1)"
    by (rule repeated_rotation_returns_secret [OF r(1)]) (simp add: demo_crypto_def)
  with r show ?thesis by blast
qed

section \<open>Manual replay\<close>


end
