(* ===== verification/Support.thy ===== *)
theory Support
  imports Schema Contracts
begin

text \<open>
  Support cases, from \<open>apps/api/src/support/support-cases.service.ts\<close>: merchants open cases and
  write messages, staff answer and move the case through its workflow. Each change reads the
  case first and writes it in a later transaction under a condition on what was read, so reads
  and writes are separate definitions here and the theorems interleave them freely. Texts are
  ASCII, where normalisation is the identity; the metadata column of the audit rows is left out.
\<close>

declare split_paired_All [simp del] split_paired_Ex [simp del]

section \<open>Workflow\<close>

fun WORKFLOW_TRANSITIONS :: "support_status \<Rightarrow> support_status list" where
  "WORKFLOW_TRANSITIONS SC_open = [SC_investigating, SC_awaiting_merchant, SC_resolved, SC_closed]"
| "WORKFLOW_TRANSITIONS SC_investigating = [SC_open, SC_awaiting_merchant, SC_resolved, SC_closed]"
| "WORKFLOW_TRANSITIONS SC_awaiting_merchant = [SC_open, SC_investigating, SC_resolved, SC_closed]"
| "WORKFLOW_TRANSITIONS SC_resolved = [SC_investigating, SC_closed]"
| "WORKFLOW_TRANSITIONS SC_closed = [SC_open]"

section \<open>Texts\<close>

definition control_char :: "char \<Rightarrow> bool" where
  "control_char c = (let n = (of_char c :: nat) in n \<le> 8 \<or> n = 11 \<or> n = 12 \<or> 14 \<le> n \<and> n \<le> 31 \<or> n = 127)"

definition cleanText :: "string \<Rightarrow> string" where
  "cleanText s = trim (filter (\<lambda>c. \<not> control_char c) s)"

record support_proposal =
  pp_kind :: string
  pp_reference :: string
  pp_explanation :: "string option"

record message_input =
  mi_message :: string
  mi_evidence :: "string option"
  mi_proposal :: "support_proposal option"

definition clean_optional :: "string option \<Rightarrow> string option" where
  "clean_optional s = (case s of None \<Rightarrow> None | Some t \<Rightarrow> if t = [] then None else Some (cleanText t))"

definition clean_proposal :: "support_proposal \<Rightarrow> json" where
  "clean_proposal p = JObj ([(''kind'', JStr (pp_kind p)), (''reference'', JStr (cleanText (pp_reference p)))] @
     (case clean_optional (pp_explanation p) of None \<Rightarrow> [] | Some e \<Rightarrow> [(''explanation'', JStr e)]))"

definition cleanMessage :: "message_input \<Rightarrow> string \<times> string option \<times> json" where
  "cleanMessage x = (cleanText (mi_message x), clean_optional (mi_evidence x),
     case mi_proposal x of None \<Rightarrow> JNull | Some p \<Rightarrow> clean_proposal p)"

section \<open>Views\<close>

datatype author = Author_user id string | Author_staff id string | Former_user

definition message_author :: "db \<Rightarrow> support_message \<Rightarrow> author" where
  "message_author d m =
     (case Option.bind (sm_user m) (\<lambda>u. find (\<lambda>x. us_id x = u) (merchantUsers d)) of
        Some u \<Rightarrow> Author_user (us_id u) (us_name u)
      | None \<Rightarrow> (case Option.bind (sm_staff m) (\<lambda>s. find (\<lambda>x. sf_id x = s) (staff d)) of
            Some s \<Rightarrow> Author_staff (sf_id s) (sf_name s)
          | None \<Rightarrow> Former_user))"

record case_view =
  cv_case :: support_case
  cv_createdBy :: "(id \<times> string) option"
  cv_assigned :: "(id \<times> string) option"
  cv_count :: nat
  cv_messages :: "(support_message \<times> author) list"
  cv_financial :: bool

definition case_messages :: "db \<Rightarrow> id \<Rightarrow> support_message list" where
  "case_messages d i = filter (\<lambda>m. sm_case m = i) (supportMessages d)"

definition user_label :: "db \<Rightarrow> id option \<Rightarrow> (id \<times> string) option" where
  "user_label d i = map_option (\<lambda>u. (us_id u, us_name u)) (Option.bind i (\<lambda>u. find (\<lambda>x. us_id x = u) (merchantUsers d)))"

definition staff_label :: "db \<Rightarrow> id option \<Rightarrow> (id \<times> string) option" where
  "staff_label d i = map_option (\<lambda>s. (sf_id s, sf_name s)) (Option.bind i (\<lambda>s. find (\<lambda>x. sf_id x = s) (staff d)))"

definition serializeCase :: "db \<Rightarrow> bool \<Rightarrow> support_case \<Rightarrow> case_view" where
  "serializeCase d full c = \<lparr>cv_case = c, cv_createdBy = user_label d (sp_createdBy c),
     cv_assigned = staff_label d (sp_assigned c), cv_count = length (case_messages d (sp_id c)),
     cv_messages = (if full then map (\<lambda>m. (m, message_author d m)) (sort_key sm_createdAt (case_messages d (sp_id c))) else []),
     cv_financial = False\<rparr>"

definition page_of :: "nat \<Rightarrow> (support_case \<Rightarrow> bool) \<Rightarrow> db \<Rightarrow> case_view list" where
  "page_of limit p d = map (serializeCase d False) (take limit (sort_key (\<lambda>c. - sp_updatedAt c) (filter p (supportCases d))))"

definition listForMerchant :: "id \<Rightarrow> environment option \<Rightarrow> support_status option \<Rightarrow> nat \<Rightarrow> db \<Rightarrow> case_view list" where
  "listForMerchant merchant env st limit d = page_of limit (\<lambda>c. sp_merchant c = merchant \<and>
     (env = None \<or> env = Some (sp_env c)) \<and> (st = None \<or> st = Some (sp_status c))) d"

definition listForPlatform ::
  "id option \<Rightarrow> environment option \<Rightarrow> support_status option \<Rightarrow> nat \<Rightarrow> db \<Rightarrow> case_view list" where
  "listForPlatform merchant env st limit d = page_of limit (\<lambda>c. (merchant = None \<or> merchant = Some (sp_merchant c)) \<and>
     (env = None \<or> env = Some (sp_env c)) \<and> (st = None \<or> st = Some (sp_status c))) d"

definition case_not_found :: "'a outcome" where
  "case_not_found = Inl (ApiError ''support_case_not_found'' 404)"

definition case_closed :: "'a outcome" where
  "case_closed = Inl (ApiError ''support_case_closed'' 409)"

definition find_merchant_case :: "id \<Rightarrow> id \<Rightarrow> db \<Rightarrow> support_case option" where
  "find_merchant_case merchant i d = find (\<lambda>c. sp_id c = i \<and> sp_merchant c = merchant) (supportCases d)"

definition find_support_case :: "id \<Rightarrow> db \<Rightarrow> support_case option" where
  "find_support_case i d = find (\<lambda>c. sp_id c = i) (supportCases d)"

definition getForMerchant :: "id \<Rightarrow> id \<Rightarrow> db \<Rightarrow> case_view outcome" where
  "getForMerchant merchant i d = (case find_merchant_case merchant i d of
       None \<Rightarrow> case_not_found | Some c \<Rightarrow> Inr (serializeCase d True c))"

definition getForPlatform :: "id \<Rightarrow> db \<Rightarrow> case_view outcome" where
  "getForPlatform i d = (case find_support_case i d of
       None \<Rightarrow> case_not_found | Some c \<Rightarrow> Inr (serializeCase d True c))"

section \<open>Opening a case\<close>

record case_input =
  ci_env :: environment
  ci_category :: support_category
  ci_subject :: string
  ci_ref :: "string option"
  ci_first :: message_input

definition add_message :: "time \<Rightarrow> id \<Rightarrow> id option \<Rightarrow> id option \<Rightarrow> message_input \<Rightarrow> db \<Rightarrow> db" where
  "add_message now i user stf x d =
     (let (body, evidence, proposal) = cleanMessage x
      in d\<lparr>supportMessages := supportMessages d @ [\<lparr>sm_id = next_id d, sm_case = i, sm_user = user, sm_staff = stf,
           sm_body = body, sm_evidence = evidence, sm_proposal = proposal, sm_createdAt = now\<rparr>],
         next_id := Suc (next_id d)\<rparr>)"

definition new_case :: "time \<Rightarrow> id \<Rightarrow> id \<Rightarrow> case_input \<Rightarrow> id \<Rightarrow> support_case" where
  "new_case now merchant user x i = \<lparr>sp_id = i, sp_merchant = merchant, sp_env = ci_env x, sp_category = ci_category x,
     sp_status = SC_open, sp_subject = cleanText (ci_subject x), sp_reference = clean_optional (ci_ref x),
     sp_createdBy = Some user, sp_assigned = None, sp_note = None, sp_createdAt = now, sp_updatedAt = now,
     sp_resolvedAt = None\<rparr>"

definition open_support_case :: "time \<Rightarrow> id \<Rightarrow> id \<Rightarrow> case_input \<Rightarrow> db \<Rightarrow> id \<times> db" where
  "open_support_case now merchant user x d =
     (let i = next_id d;
          d1 = d\<lparr>supportCases := supportCases d @ [new_case now merchant user x i], next_id := Suc i\<rparr>
      in (i, log_audit (Some merchant) ''merchant_user'' (nat_to_digits user) ''support_case.created''
               ''merchant_support_case'' i None (add_message now i (Some user) None (ci_first x) d1)))"

definition createForMerchant :: "time \<Rightarrow> id \<Rightarrow> id \<Rightarrow> case_input \<Rightarrow> db \<Rightarrow> (case_view \<times> db) outcome" where
  "createForMerchant now merchant user x d =
     (let (i, d1) = open_support_case now merchant user x d in map_outcome (\<lambda>v. (v, d1)) (getForMerchant merchant i d1))"

section \<open>Messages\<close>

definition set_cases :: "(support_case \<Rightarrow> bool) \<Rightarrow> (support_case \<Rightarrow> support_case) \<Rightarrow> db \<Rightarrow> db" where
  "set_cases p f d = d\<lparr>supportCases := update_where p f (supportCases d)\<rparr>"

text \<open>The transaction of a merchant message, and the operation with its first look at the case.\<close>

definition commit_merchant_message :: "time \<Rightarrow> id \<Rightarrow> id \<Rightarrow> id \<Rightarrow> message_input \<Rightarrow> db \<Rightarrow> db outcome" where
  "commit_merchant_message now merchant user i x d =
     (let p = (\<lambda>c. sp_id c = i \<and> sp_merchant c = merchant \<and> sp_status c \<noteq> SC_closed) in
      if \<not> list_ex p (supportCases d) then case_closed
      else
        let d1 = set_cases p (\<lambda>c. c\<lparr>sp_updatedAt := now\<rparr>) d
        in Inr (log_audit (Some merchant) ''merchant_user'' (nat_to_digits user) ''support_case.message_added''
             ''support_case_message'' (next_id d1) None (add_message now i (Some user) None x d1)))"

definition addMerchantMessage ::
  "time \<Rightarrow> id \<Rightarrow> id \<Rightarrow> id \<Rightarrow> message_input \<Rightarrow> db \<Rightarrow> (case_view \<times> db) outcome" where
  "addMerchantMessage now merchant user i x d = (case find_merchant_case merchant i d of
       None \<Rightarrow> case_not_found
     | Some c \<Rightarrow>
         if sp_status c = SC_closed then case_closed
         else and_then (commit_merchant_message now merchant user i x d) (\<lambda>d1.
           map_outcome (\<lambda>v. (v, d1)) (getForMerchant merchant i d1)))"

definition commit_platform_message :: "time \<Rightarrow> id \<Rightarrow> id \<Rightarrow> id \<Rightarrow> message_input \<Rightarrow> db \<Rightarrow> db outcome" where
  "commit_platform_message now merchant stf i x d =
     (let p = (\<lambda>c. sp_id c = i \<and> sp_status c \<noteq> SC_closed) in
      if \<not> list_ex p (supportCases d) then case_closed
      else
        let d1 = set_cases p (\<lambda>c. c\<lparr>sp_updatedAt := now, sp_assigned := Some stf\<rparr>) d
        in Inr (log_audit (Some merchant) ''platform_staff'' (nat_to_digits stf) ''support_case.platform_message_added''
             ''support_case_message'' (next_id d1) None (add_message now i None (Some stf) x d1)))"

definition addPlatformMessage :: "time \<Rightarrow> id \<Rightarrow> id \<Rightarrow> message_input \<Rightarrow> db \<Rightarrow> (case_view \<times> db) outcome" where
  "addPlatformMessage now stf i x d = (case find_support_case i d of
       None \<Rightarrow> case_not_found
     | Some c \<Rightarrow>
         if sp_status c = SC_closed then case_closed
         else and_then (commit_platform_message now (sp_merchant c) stf i x d) (\<lambda>d1.
           map_outcome (\<lambda>v. (v, d1)) (getForPlatform i d1)))"

section \<open>Moving a case\<close>

definition may_move :: "support_status \<Rightarrow> support_status \<Rightarrow> bool" where
  "may_move from st \<longleftrightarrow> st = from \<or> st \<in> set (WORKFLOW_TRANSITIONS from)"

text \<open>The transaction, under the status that was read before.\<close>

definition commit_status :: "time \<Rightarrow> id \<Rightarrow> support_case \<Rightarrow> support_status \<Rightarrow> string \<Rightarrow> db \<Rightarrow> db outcome" where
  "commit_status now stf seen st reason d =
     (let p = (\<lambda>c. sp_id c = sp_id seen \<and> sp_status c = sp_status seen) in
      if \<not> list_ex p (supportCases d) then Inl (ApiError ''support_case_changed'' 409)
      else Inr (log_audit (Some (sp_merchant seen)) ''platform_staff'' (nat_to_digits stf)
             ''support_case.workflow_status_changed'' ''merchant_support_case'' (sp_id seen) (Some (cleanText reason))
             (set_cases p (\<lambda>c. c\<lparr>sp_status := st, sp_note := Some (cleanText reason), sp_assigned := Some stf,
                sp_resolvedAt := (if st = SC_resolved \<or> st = SC_closed then Some now else None), sp_updatedAt := now\<rparr>) d)))"

definition check_move :: "support_case \<Rightarrow> support_status \<Rightarrow> unit outcome" where
  "check_move c st = (if \<not> may_move (sp_status c) st then Inl (ApiError ''invalid_support_case_transition'' 409) else Inr ())"

definition changeWorkflowStatus ::
  "time \<Rightarrow> id \<Rightarrow> id \<Rightarrow> support_status \<Rightarrow> string \<Rightarrow> db \<Rightarrow> (case_view \<times> db) outcome" where
  "changeWorkflowStatus now stf i st reason d = (case find_support_case i d of
       None \<Rightarrow> case_not_found
     | Some c \<Rightarrow>
         and_then (check_move c st) (\<lambda>_.
         and_then (commit_status now stf c st reason d) (\<lambda>d1.
           map_outcome (\<lambda>v. (v, d1)) (getForPlatform i d1))))"

section \<open>Interleaved changes\<close>

text \<open>What two kinds of actors do, one transaction at a time. A status change carries the case as it
  was read, possibly long before, after the check that the move is allowed.\<close>

datatype support_op =
    Open_case time id id case_input
  | Merchant_says time id id id message_input
  | Staff_says time id id id message_input
  | Move time id support_case support_status string

definition run_support :: "support_op \<Rightarrow> db \<Rightarrow> db outcome" where
  "run_support op d = (case op of
       Open_case now merchant user x \<Rightarrow> Inr (snd (open_support_case now merchant user x d))
     | Merchant_says now merchant user i x \<Rightarrow> commit_merchant_message now merchant user i x d
     | Staff_says now merchant stf i x \<Rightarrow> commit_platform_message now merchant stf i x d
     | Move now stf seen st reason \<Rightarrow> and_then (check_move seen st) (\<lambda>_. commit_status now stf seen st reason d))"

text \<open>The operations of the service are such steps.\<close>

lemma createForMerchant_step: "createForMerchant now merchant user x d = Inr (v, d') \<Longrightarrow>
    run_support (Open_case now merchant user x) d = Inr d'"
  by (auto simp: createForMerchant_def run_support_def tx_simps split: prod.splits)

lemma addMerchantMessage_step: "addMerchantMessage now merchant user i x d = Inr (v, d') \<Longrightarrow>
    run_support (Merchant_says now merchant user i x) d = Inr d'"
  by (auto simp: addMerchantMessage_def run_support_def tx_simps case_not_found_def case_closed_def
      split: option.splits if_splits)

lemma addPlatformMessage_step: "addPlatformMessage now stf i x d = Inr (v, d') \<Longrightarrow>
    \<exists>merchant. run_support (Staff_says now merchant stf i x) d = Inr d'"
  by (auto simp: addPlatformMessage_def run_support_def tx_simps case_not_found_def case_closed_def
      split: option.splits if_splits)

lemma changeWorkflowStatus_step: "changeWorkflowStatus now stf i st reason d = Inr (v, d') \<Longrightarrow>
    \<exists>seen. run_support (Move now stf seen st reason) d = Inr d'"
  by (auto simp: changeWorkflowStatus_def run_support_def tx_simps case_not_found_def split: option.splits)

text \<open>No money moves: the steps write the tables of the support desk and the audit log only.\<close>

definition restored :: "db \<Rightarrow> db \<Rightarrow> db" where
  "restored d d' = d'\<lparr>supportCases := supportCases d, supportMessages := supportMessages d, audit := audit d, next_id := next_id d\<rparr>"

definition only_support :: "db \<Rightarrow> db \<Rightarrow> bool" where
  "only_support d d' \<longleftrightarrow> restored d d' = d"

lemma only_support_refl: "only_support d d"
  by (simp add: only_support_def restored_def)

lemma only_support_trans:
  assumes "only_support d d1" and "only_support d1 d2"
  shows "only_support d d2"
proof -
  have "restored d d2 = restored d (restored d1 d2)" by (simp add: restored_def)
  also have "\<dots> = d" using assms by (simp add: only_support_def)
  finally show ?thesis by (simp add: only_support_def)
qed

text \<open>The workflow as a relation on states, and the row invariant.\<close>

inductive moves :: "support_status \<Rightarrow> support_status \<Rightarrow> bool" where
  stay: "moves s s"
| go: "moves s t \<Longrightarrow> u \<in> set (WORKFLOW_TRANSITIONS t) \<Longrightarrow> moves s u"

inductive_cases moves_cases: "moves s u"

lemma moves_trans: "moves t u \<Longrightarrow> moves s t \<Longrightarrow> moves s u"
  by (induction rule: moves.induct) (auto intro: moves.intros)

lemma moves_may: "may_move s t \<Longrightarrow> moves s t"
  by (auto simp: may_move_def intro: moves.intros)

definition case_ok :: "support_case \<Rightarrow> bool" where
  "case_ok c \<longleftrightarrow> (sp_resolvedAt c \<noteq> None) = (sp_status c \<in> {SC_resolved, SC_closed})"

definition support_ok :: "db \<Rightarrow> bool" where
  "support_ok d \<longleftrightarrow> list_all case_ok (supportCases d) \<and> distinct (map sp_id (supportCases d)) \<and>
     list_all (\<lambda>c. sp_id c < next_id d) (supportCases d)"

text \<open>How a step changes a case that was there before.\<close>

definition case_step :: "support_case \<Rightarrow> support_case \<Rightarrow> bool" where
  "case_step c c' \<longleftrightarrow> sp_id c' = sp_id c \<and> sp_merchant c' = sp_merchant c \<and> sp_env c' = sp_env c \<and>
     may_move (sp_status c) (sp_status c') \<and> (case_ok c \<longrightarrow> case_ok c')"

lemma case_step_refl: "case_step c c"
  by (simp add: case_step_def may_move_def)

definition cases_step :: "db \<Rightarrow> db \<Rightarrow> bool" where
  "cases_step d d' \<longleftrightarrow> (\<exists>new. list_all2 case_step (supportCases d) (take (length (supportCases d)) (supportCases d')) \<and>
     drop (length (supportCases d)) (supportCases d') = new \<and>
     (new = [] \<or> (\<exists>c. new = [c] \<and> sp_id c = next_id d \<and> case_ok c \<and> next_id d < next_id d')) \<and> next_id d \<le> next_id d')"

lemma update_case_step:
  assumes "\<And>c. p c \<Longrightarrow> case_step c (f c)"
  shows "list_all2 case_step cs (update_where p f cs)"
  using assms by (induction cs) (auto simp: case_step_refl)

lemma cases_update:
  assumes "\<And>c. p c \<Longrightarrow> case_step c (f c)" and "supportCases d' = update_where p f (supportCases d)"
    and "next_id d \<le> next_id d'"
  shows "cases_step d d'"
  using update_case_step [of p f "supportCases d"] assms by (simp add: cases_step_def length_update_where)

lemma if_Inl_Inr_only: "((if c then Inl e else Inr v) = Inr w) \<longleftrightarrow> \<not> c \<and> w = v"
  by auto

lemma support_writes:
  "only_support d e \<Longrightarrow> only_support d (set_cases p f e)"
  "only_support d e \<Longrightarrow> only_support d (log_audit m ty actor act tt i reason e)"
  "only_support d e \<Longrightarrow> only_support d (add_message now i user stf x e)"
  by (simp_all add: only_support_def restored_def set_cases_def log_audit_def add_message_def split: prod.split)

lemma support_tables:
  "supportCases (log_audit m ty actor act tt i reason d) = supportCases d" "next_id (log_audit m ty actor act tt i reason d) = next_id d"
  "supportCases (add_message now i user stf x d) = supportCases d" "next_id (add_message now i user stf x d) = Suc (next_id d)"
  "supportCases (set_cases p f d) = update_where p f (supportCases d)" "next_id (set_cases p f d) = next_id d"
  by (simp_all add: log_audit_def add_message_def set_cases_def split: prod.split)

lemma message_step: "case_step c (c\<lparr>sp_updatedAt := now\<rparr>)" "case_step c (c\<lparr>sp_updatedAt := now, sp_assigned := stf\<rparr>)"
  by (simp_all add: case_step_def may_move_def case_ok_def)

lemma move_step:
  assumes "may_move (sp_status c) st"
  shows "case_step c (c\<lparr>sp_status := st, sp_note := note, sp_assigned := stf,
    sp_resolvedAt := (if st = SC_resolved \<or> st = SC_closed then Some now else None), sp_updatedAt := now\<rparr>)"
  using assms by (simp add: case_step_def case_ok_def)

lemma open_step: "only_support d (snd (open_support_case now merchant user x d)) \<and> cases_step d (snd (open_support_case now merchant user x d))"
proof -
  let ?d1 = "d\<lparr>supportCases := supportCases d @ [new_case now merchant user x (next_id d)], next_id := Suc (next_id d)\<rparr>"
  have "only_support d ?d1" by (simp add: only_support_def restored_def)
  then have "only_support d (snd (open_support_case now merchant user x d))"
    by (simp add: open_support_case_def Let_def support_writes)
  moreover have "cases_step d (snd (open_support_case now merchant user x d))"
    by (simp add: open_support_case_def Let_def support_tables cases_step_def list.rel_refl case_step_refl new_case_def case_ok_def)
  ultimately show ?thesis ..
qed

lemma support_step:
  assumes "run_support op d = Inr d'"
  shows "only_support d d' \<and> cases_step d d'"
proof (cases op)
  case (Open_case now merchant user x)
  with assms open_step show ?thesis by (auto simp: run_support_def)
next
  case (Merchant_says now merchant user i x)
  have d': "d' = log_audit (Some merchant) ''merchant_user'' (nat_to_digits user) ''support_case.message_added''
      ''support_case_message'' (next_id d) None (add_message now i (Some user) None x
        (set_cases (\<lambda>c. sp_id c = i \<and> sp_merchant c = merchant \<and> sp_status c \<noteq> SC_closed) (\<lambda>c. c\<lparr>sp_updatedAt := now\<rparr>) d))"
    using assms unfolding Merchant_says run_support_def commit_merchant_message_def case_closed_def Let_def support_op.case if_Inl_Inr_only
    by (simp add: support_tables)
  have "only_support d d'" unfolding d' by (intro support_writes only_support_refl)
  moreover have "cases_step d d'" unfolding d' by (rule cases_update [OF message_step(1)]) (simp_all add: support_tables)
  ultimately show ?thesis ..
next
  case (Staff_says now merchant stf i x)
  have d': "d' = log_audit (Some merchant) ''platform_staff'' (nat_to_digits stf) ''support_case.platform_message_added''
      ''support_case_message'' (next_id d) None (add_message now i None (Some stf) x
        (set_cases (\<lambda>c. sp_id c = i \<and> sp_status c \<noteq> SC_closed) (\<lambda>c. c\<lparr>sp_updatedAt := now, sp_assigned := Some stf\<rparr>) d))"
    using assms unfolding Staff_says run_support_def commit_platform_message_def case_closed_def Let_def support_op.case if_Inl_Inr_only
    by (simp add: support_tables)
  have "only_support d d'" unfolding d' by (intro support_writes only_support_refl)
  moreover have "cases_step d d'" unfolding d' by (rule cases_update [OF message_step(2)]) (simp_all add: support_tables)
  ultimately show ?thesis ..
next
  case (Move now stf seen st reason)
  let ?f = "\<lambda>c. c\<lparr>sp_status := st, sp_note := Some (cleanText reason), sp_assigned := Some stf,
      sp_resolvedAt := (if st = SC_resolved \<or> st = SC_closed then Some now else None), sp_updatedAt := now\<rparr>"
  let ?p = "\<lambda>c. sp_id c = sp_id seen \<and> sp_status c = sp_status seen"
  from assms [unfolded Move] have may: "may_move (sp_status seen) st" and d': "d' = log_audit (Some (sp_merchant seen)) ''platform_staff''
      (nat_to_digits stf) ''support_case.workflow_status_changed'' ''merchant_support_case'' (sp_id seen)
      (Some (cleanText reason)) (set_cases ?p ?f d)"
    unfolding run_support_def commit_status_def check_move_def Let_def support_op.case and_then_Inr_iff if_Inl_Inr_only by simp_all
  have step: "case_step c (?f c)" if "?p c" for c by (rule move_step) (use that may in simp)
  have "only_support d d'" unfolding d' by (intro support_writes only_support_refl)
  moreover have "cases_step d d'" unfolding d'
    by (rule cases_update [where p = ?p and f = ?f, OF step]) (simp_all add: support_tables)
  ultimately show ?thesis ..
qed

definition desk_follows :: "db \<Rightarrow> db \<Rightarrow> bool" where
  "desk_follows d d' \<longleftrightarrow> only_support d d' \<and>
     (\<forall>c \<in> set (supportCases d). \<exists>c' \<in> set (supportCases d'). sp_id c' = sp_id c \<and> sp_merchant c' = sp_merchant c \<and>
        sp_env c' = sp_env c \<and> moves (sp_status c) (sp_status c'))"

lemma desk_follows_trans: "desk_follows d d1 \<Longrightarrow> desk_follows d1 d2 \<Longrightarrow> desk_follows d d2"
  unfolding desk_follows_def by (auto intro: only_support_trans) (metis moves_trans)

lemma cases_step_follows:
  assumes "cases_step d d'" and "only_support d d'"
  shows "desk_follows d d'"
proof -
  have "\<exists>c' \<in> set (supportCases d'). case_step c c'" if "c \<in> set (supportCases d)" for c
  proof -
    from that obtain k where k: "k < length (supportCases d)" "c = supportCases d ! k" by (auto simp: in_set_conv_nth)
    have rel: "list_all2 case_step (supportCases d) (take (length (supportCases d)) (supportCases d'))"
      using assms(1) by (simp add: cases_step_def)
    from list_all2_nthD [OF rel k(1)] list_all2_lengthD [OF rel] k
    have "case_step c (supportCases d' ! k)" "k < length (supportCases d')" by simp_all
    then show ?thesis by (meson nth_mem)
  qed
  then show ?thesis using assms(2) unfolding desk_follows_def case_step_def by (meson moves_may)
qed

lemma cases_step_ok:
  assumes "support_ok d" and "cases_step d d'"
  shows "support_ok d'"
proof -
  let ?n = "length (supportCases d)"
  obtain new where split: "supportCases d' = take ?n (supportCases d') @ new"
    and rel: "list_all2 case_step (supportCases d) (take ?n (supportCases d'))"
    and new: "new = [] \<or> (\<exists>c. new = [c] \<and> sp_id c = next_id d \<and> case_ok c \<and> next_id d < next_id d')"
    and le: "next_id d \<le> next_id d'"
    using assms(2) unfolding cases_step_def by (metis append_take_drop_id)
  let ?old = "take ?n (supportCases d')"
  from rel have ids: "map sp_id ?old = map sp_id (supportCases d)"
    by (induction rule: list_all2_induct) (simp_all add: case_step_def)
  from rel assms(1) have "list_all case_ok ?old"
    by (auto simp: support_ok_def list_all_length list_all2_conv_all_nth case_step_def)
  moreover have below: "list_all (\<lambda>c. sp_id c < next_id d) ?old"
  proof -
    have "list_all (\<lambda>i. i < next_id d) (map sp_id (supportCases d))"
      using assms(1) by (simp add: support_ok_def list.pred_map comp_def)
    then show ?thesis unfolding ids [symmetric] by (simp add: list.pred_map comp_def)
  qed
  moreover have "distinct (map sp_id ?old)" unfolding ids using assms(1) by (simp add: support_ok_def)
  ultimately have "list_all case_ok (?old @ new) \<and> distinct (map sp_id (?old @ new)) \<and>
      list_all (\<lambda>c. sp_id c < next_id d') (?old @ new)"
    using new le by (auto simp: list_all_iff)
  then show ?thesis unfolding support_ok_def split [symmetric] .
qed

interpretation desk: monotone_system run_support support_ok desk_follows
proof unfold_locales
  fix s s' s1 s2 a
  show "desk_follows s s" by (auto simp: desk_follows_def only_support_refl intro: moves.stay)
  show "desk_follows s s1 \<Longrightarrow> desk_follows s1 s2 \<Longrightarrow> desk_follows s s2" by (rule desk_follows_trans)
  show "support_ok s \<Longrightarrow> run_support a s = Inr s' \<Longrightarrow> support_ok s'"
    using support_step cases_step_ok by blast
  show "support_ok s \<Longrightarrow> run_support a s = Inr s' \<Longrightarrow> desk_follows s s'"
    using support_step cases_step_follows by blast
qed


definition demo_message :: message_input where
  "demo_message = \<lparr>mi_message = '' paid twice '', mi_evidence = Some ''receipt 7'', mi_proposal = None\<rparr>"

definition demo_case :: case_input where
  "demo_case = \<lparr>ci_env = Live, ci_category = Cat_topup, ci_subject = ''top-up'', ci_ref = None, ci_first = demo_message\<rparr>"

definition demo_desk :: db where
  "demo_desk = snd (open_support_case 1 2 3 demo_case (empty_db\<lparr>next_id := 5\<rparr>))"

definition demo_seen :: support_case where
  "demo_seen = new_case 1 2 3 demo_case 5"

definition demo_support :: "support_op list" where
  "demo_support = [Merchant_says 2 2 3 5 demo_message, Move 3 9 demo_seen SC_closed ''done'',
     Move 4 9 demo_seen SC_resolved ''late'', Merchant_says 5 2 3 5 demo_message]"


text \<open>A merchant reaches its own cases only: what it lists and reads are cases of that merchant, a
  message is accepted only on an own case that is not closed, and it changes no other case.\<close>

theorem merchants_reach_own_cases_only:
  "list_all (\<lambda>v. sp_merchant (cv_case v) = m) (listForMerchant m env st limit d) \<and>
   (case getForMerchant m i d of Inr v \<Rightarrow> sp_merchant (cv_case v) = m \<and> sp_id (cv_case v) = i | Inl e \<Rightarrow> e = ApiError ''support_case_not_found'' 404) \<and>
   (case addMerchantMessage now m user i x d of
      Inr (v, d') \<Rightarrow> list_ex (\<lambda>c. sp_id c = i \<and> sp_merchant c = m \<and> sp_status c \<noteq> SC_closed) (supportCases d) \<and>
        filter (\<lambda>c. \<not> (sp_merchant c = m \<and> sp_id c = i)) (supportCases d') = filter (\<lambda>c. \<not> (sp_merchant c = m \<and> sp_id c = i)) (supportCases d)
    | Inl e \<Rightarrow> e = ApiError ''support_case_not_found'' 404 \<or> e = ApiError ''support_case_closed'' 409)"
proof (intro conjI)
  show "list_all (\<lambda>v. sp_merchant (cv_case v) = m) (listForMerchant m env st limit d)"
    by (auto simp: list_all_iff listForMerchant_def page_of_def serializeCase_def dest!: in_set_takeD)
  have get: "case getForMerchant m i e of Inr v \<Rightarrow> sp_merchant (cv_case v) = m \<and> sp_id (cv_case v) = i
      | Inl err \<Rightarrow> err = ApiError ''support_case_not_found'' 404" for e
    by (auto simp: getForMerchant_def case_not_found_def find_merchant_case_def serializeCase_def split: option.split dest: find_SomeD)
  then show "case getForMerchant m i d of Inr v \<Rightarrow> sp_merchant (cv_case v) = m \<and> sp_id (cv_case v) = i
      | Inl e \<Rightarrow> e = ApiError ''support_case_not_found'' 404" .
  have other: "filter (\<lambda>c. \<not> (sp_merchant c = m \<and> sp_id c = i)) (update_where (\<lambda>c. sp_id c = i \<and> sp_merchant c = m \<and> sp_status c \<noteq> SC_closed)
      (\<lambda>c. c\<lparr>sp_updatedAt := now\<rparr>) cs) = filter (\<lambda>c. \<not> (sp_merchant c = m \<and> sp_id c = i)) cs" for cs
    by (induction cs) auto
  show "case addMerchantMessage now m user i x d of
      Inr (v, d') \<Rightarrow> list_ex (\<lambda>c. sp_id c = i \<and> sp_merchant c = m \<and> sp_status c \<noteq> SC_closed) (supportCases d) \<and>
        filter (\<lambda>c. \<not> (sp_merchant c = m \<and> sp_id c = i)) (supportCases d') = filter (\<lambda>c. \<not> (sp_merchant c = m \<and> sp_id c = i)) (supportCases d)
    | Inl e \<Rightarrow> e = ApiError ''support_case_not_found'' 404 \<or> e = ApiError ''support_case_closed'' 409"
  proof (cases "addMerchantMessage now m user i x d")
    case (Inl e)
    have commit: "commit_merchant_message now m user i x d = Inl e \<Longrightarrow> e = ApiError ''support_case_closed'' 409"
      by (simp add: commit_merchant_message_def Let_def case_closed_def split: if_splits)
    have look: "getForMerchant m i d1 = Inl e \<Longrightarrow> e = ApiError ''support_case_not_found'' 404" for d1
      using get [of d1] by simp
    show ?thesis using Inl commit look
      by (auto simp: addMerchantMessage_def case_not_found_def case_closed_def and_then_Inl_iff map_outcome_def
          split: option.splits if_splits sum.splits)
  next
    case (Inr r)
    obtain v d' where r: "r = (v, d')" by (cases r)
    then have "commit_merchant_message now m user i x d = Inr d'"
      using Inr addMerchantMessage_step [of now m user i x d v d'] by (simp add: run_support_def)
    then have open_case: "list_ex (\<lambda>c. sp_id c = i \<and> sp_merchant c = m \<and> sp_status c \<noteq> SC_closed) (supportCases d)"
      and d': "supportCases d' = update_where (\<lambda>c. sp_id c = i \<and> sp_merchant c = m \<and> sp_status c \<noteq> SC_closed)
        (\<lambda>c. c\<lparr>sp_updatedAt := now\<rparr>) (supportCases d)"
      unfolding commit_merchant_message_def Let_def case_closed_def if_Inl_Inr_only by (simp_all add: support_tables)
    show ?thesis unfolding Inr r sum.case prod.case d' other using open_case by blast
  qed
qed
end
