(* ===== verification/Configuration.thy ===== *)
theory Configuration
  imports Fleet Contracts JsonText Alerts
begin

text \<open>
  Configuration changes, from \<open>apps/api/src/configuration/configuration.service.ts\<close>: a proposal
  is checked and normalised, waits for a review by staff, and takes effect when it is approved.
  Scopes are the platform, a merchant or a device group; ids are printed in decimal. A JSON
  number is an integer or a decimal fraction.
\<close>

declare split_paired_All [simp del] split_paired_Ex [simp del]

section \<open>Checking a proposal\<close>

datatype config_scope = Platform_defaults | Merchant_scope | Group_scope

fun scope_text :: "config_scope \<Rightarrow> string" where
  "scope_text Platform_defaults = ''platform_defaults''"
| "scope_text Merchant_scope = ''merchant''"
| "scope_text Group_scope = ''device_group''"

definition scope_of :: "string \<Rightarrow> config_scope" where
  "scope_of s = (if s = ''platform_defaults'' then Platform_defaults
     else if s = ''device_group'' then Group_scope else Merchant_scope)"

definition config_error :: "'a outcome" where
  "config_error = Inl (ApiError ''validation_error'' 422)"

text \<open>\<open>BigInt\<close> of the digits of an amount; anything else raises.\<close>

definition minor :: "string \<Rightarrow> int outcome" where
  "minor s = (if list_all is_digit (strip_dot s) then Inr (int (nat_of_digits (strip_dot s)))
     else Inl (RuntimeError ''Cannot convert to a BigInt''))"

definition config_money :: "json option \<Rightarrow> bool \<Rightarrow> string outcome" where
  "config_money v allowZero = (case v of
       Some (JStr s) \<Rightarrow>
         if amount_shape s then and_then (minor s) (\<lambda>m. if \<not> allowZero \<and> m \<le> 0 then config_error else Inr s)
         else config_error
     | _ \<Rightarrow> config_error)"

definition config_integer :: "json option \<Rightarrow> int \<Rightarrow> int \<Rightarrow> int outcome" where
  "config_integer v lo hi = (case v of
       Some (JInt n) \<Rightarrow> if n < lo \<or> hi < n then config_error else Inr n
     | _ \<Rightarrow> config_error)"

text \<open>The bounds of the only decimal, 0.1 and 0.95.\<close>

definition config_factor :: "json option \<Rightarrow> json outcome" where
  "config_factor v = (case v of
       Some (JDec m k) \<Rightarrow> if 10 * m < 10 ^ k \<or> 95 * 10 ^ k < 100 * m then config_error else Inr (JDec m k)
     | _ \<Rightarrow> config_error)"

definition config_text :: "json option \<Rightarrow> nat \<Rightarrow> nat \<Rightarrow> string outcome" where
  "config_text v lo hi =
     (let s = (case v of Some (JStr t) \<Rightarrow> trim t | _ \<Rightarrow> [])
      in if length s < lo \<or> hi < length s then config_error else Inr s)"

definition json_truthy :: "json option \<Rightarrow> bool" where
  "json_truthy v = (case v of
       None \<Rightarrow> False | Some JNull \<Rightarrow> False | Some (JBool b) \<Rightarrow> b | Some (JInt n) \<Rightarrow> n \<noteq> 0
     | Some (JDec m k) \<Rightarrow> m \<noteq> 0 | Some (JBig n) \<Rightarrow> n \<noteq> 0 | Some (JStr s) \<Rightarrow> s \<noteq> [] | Some _ \<Rightarrow> True)"

definition plain_format :: json_format where
  "plain_format = \<lparr>jf_uuid = nat_to_digits, jf_iso = int_text\<rparr>"

definition field_text :: "json_object \<Rightarrow> string \<Rightarrow> string" where
  "field_text fs k = (case json_field k fs of None \<Rightarrow> ''undefined'' | Some v \<Rightarrow> js_string plain_format v)"

definition wallet_fields :: "json_object \<Rightarrow> json_object outcome" where
  "wallet_fields x =
     and_then (config_money (json_field ''daily_transfer_cap'' x) False) (\<lambda>cap.
     and_then (config_money (json_field ''wallet_ceiling'' x) False) (\<lambda>ceiling.
     and_then (config_money (json_field ''safety_balance'' x) True) (\<lambda>balance.
     map_outcome (\<lambda>headroom. [(''daily_transfer_cap'', JStr cap), (''wallet_ceiling'', JStr ceiling),
         (''safety_balance'', JStr balance), (''safety_headroom'', JStr headroom)])
       (config_money (json_field ''safety_headroom'' x) True))))"

definition default_fields :: "json_object \<Rightarrow> json_object outcome" where
  "default_fields x =
     and_then (config_integer (json_field ''balance_stale_seconds'' x) 300 10800) (\<lambda>stale.
     and_then (config_factor (json_field ''capacity_safety_factor'' x)) (\<lambda>factor.
     and_then (config_integer (json_field ''default_deposit_countdown_seconds'' x) 60 3600) (\<lambda>countdown.
     map_outcome (\<lambda>grace. [(''balance_stale_seconds'', JInt stale), (''capacity_safety_factor'', factor),
         (''default_deposit_countdown_seconds'', JInt countdown), (''default_deposit_late_grace_seconds'', JInt grace)])
       (config_integer (json_field ''default_deposit_late_grace_seconds'' x) 0 7200))))"

definition check_ceiling :: "json_object \<Rightarrow> json_object outcome" where
  "check_ceiling r =
     and_then (minor (field_text r ''wallet_ceiling'')) (\<lambda>c.
     and_then (minor (field_text r ''safety_balance'')) (\<lambda>b.
     and_then (minor (field_text r ''safety_headroom'')) (\<lambda>h.
       if c \<le> b + h then config_error else Inr r)))"

definition merchant_fields :: "json_object \<Rightarrow> json_object outcome" where
  "merchant_fields x =
     and_then (config_money (json_field ''deposit_minimum'' x) False) (\<lambda>lo.
     and_then (config_money (json_field ''deposit_maximum'' x) False) (\<lambda>hi.
     and_then (config_money (json_field ''wrong_amount_tolerance'' x) True) (\<lambda>tol.
     and_then (config_money (json_field ''reserve_provider_fee'' x) True) (\<lambda>reserve.
     and_then (config_money (json_field ''gateway_fee_flat'' x) True) (\<lambda>gateway.
     and_then (config_integer (json_field ''deposit_countdown_seconds'' x) 60 3600) (\<lambda>countdown.
     and_then (config_integer (json_field ''deposit_late_grace_seconds'' x) 0 7200) (\<lambda>grace.
     and_then (config_text (json_field ''technical_difficulty_message'' x) 5 500) (\<lambda>msg.
     and_then (minor lo) (\<lambda>l. and_then (minor hi) (\<lambda>h. and_then (minor tol) (\<lambda>t.
       if h < l then config_error
       else if h < t then config_error
       else Inr [(''allow_alternate_withdrawal_phone'', JBool (json_truthy (json_field ''allow_alternate_withdrawal_phone'' x))),
         (''deposit_minimum'', JStr lo), (''deposit_maximum'', JStr hi), (''wrong_amount_tolerance'', JStr tol),
         (''reserve_provider_fee'', JStr reserve), (''gateway_fee_flat'', JStr gateway),
         (''deposit_countdown_seconds'', JInt countdown), (''deposit_late_grace_seconds'', JInt grace),
         (''technical_difficulty_message'', JStr msg)])))))))))))"

definition normalizeConfiguration :: "config_scope \<Rightarrow> json_object \<Rightarrow> json_object outcome" where
  "normalizeConfiguration scope x = (case scope of
       Merchant_scope \<Rightarrow> merchant_fields x
     | Group_scope \<Rightarrow> and_then (wallet_fields x) check_ceiling
     | Platform_defaults \<Rightarrow> and_then (wallet_fields x) (\<lambda>w. and_then (default_fields x) (\<lambda>f. check_ceiling (w @ f))))"

section \<open>Applying a change\<close>

definition config_number :: "json_object \<Rightarrow> string \<Rightarrow> int outcome" where
  "config_number fs k = (case json_field k fs of Some (JInt n) \<Rightarrow> Inr n | _ \<Rightarrow> Inl (RuntimeError ''Invalid value''))"

definition merchantData :: "json_object \<Rightarrow> (merchant_config \<Rightarrow> merchant_config) outcome" where
  "merchantData fs =
     and_then (minor (field_text fs ''deposit_minimum'')) (\<lambda>lo.
     and_then (minor (field_text fs ''deposit_maximum'')) (\<lambda>hi.
     and_then (minor (field_text fs ''wrong_amount_tolerance'')) (\<lambda>tol.
     and_then (minor (field_text fs ''reserve_provider_fee'')) (\<lambda>reserve.
     and_then (minor (field_text fs ''gateway_fee_flat'')) (\<lambda>gateway.
     and_then (config_number fs ''deposit_countdown_seconds'') (\<lambda>countdown.
     map_outcome (\<lambda>grace c. c\<lparr>cfg_allowAlternate := json_truthy (json_field ''allow_alternate_withdrawal_phone'' fs),
         cfg_depositMin := lo, cfg_depositMax := hi, cfg_tolerance := tol, cfg_reserveFee := reserve,
         cfg_gatewayFee := gateway, cfg_countdownSeconds := countdown, cfg_lateGraceSeconds := grace,
         cfg_message := field_text fs ''technical_difficulty_message''\<rparr>)
       (config_number fs ''deposit_late_grace_seconds'')))))))"

definition groupData :: "json_object \<Rightarrow> (device_group \<Rightarrow> device_group) outcome" where
  "groupData fs =
     and_then (minor (field_text fs ''daily_transfer_cap'')) (\<lambda>cap.
     and_then (minor (field_text fs ''wallet_ceiling'')) (\<lambda>ceiling.
     and_then (minor (field_text fs ''safety_balance'')) (\<lambda>balance.
     map_outcome (\<lambda>headroom g. g\<lparr>g_dailyLimit := cap, g_ceiling := ceiling, g_safetyBalance := balance,
         g_safetyHeadroom := headroom\<rparr>)
       (minor (field_text fs ''safety_headroom'')))))"

definition apply_change :: "config_scope \<Rightarrow> string \<Rightarrow> json_object \<Rightarrow> string \<Rightarrow> db \<Rightarrow> db outcome" where
  "apply_change scope scopeId proposed actor d = (case scope of
       Platform_defaults \<Rightarrow> Inr (set_setting ''fleet.defaults'' (JObj proposed) actor d)
     | Group_scope \<Rightarrow> and_then (groupData proposed) (\<lambda>f.
         if \<not> list_ex (\<lambda>g. nat_to_digits (g_id g) = scopeId) (groups d) then Inl (RuntimeError ''Record to update not found'')
         else Inr (d\<lparr>groups := update_where (\<lambda>g. nat_to_digits (g_id g) = scopeId) f (groups d)\<rparr>))
     | Merchant_scope \<Rightarrow> and_then (merchantData proposed) (\<lambda>f.
         if list_ex (\<lambda>c. nat_to_digits (cfg_merchant c) = scopeId) (configs d)
         then Inr (d\<lparr>configs := update_where (\<lambda>c. nat_to_digits (cfg_merchant c) = scopeId) f (configs d)\<rparr>)
         else Inr (d\<lparr>configs := configs d @ [f (default_config (nat_of_digits scopeId))]\<rparr>)))"

definition assertScopeExists :: "config_scope \<Rightarrow> string \<Rightarrow> db \<Rightarrow> unit outcome" where
  "assertScopeExists scope scopeId d = (case scope of
       Platform_defaults \<Rightarrow> if scopeId \<noteq> ''platform'' then config_error else Inr ()
     | Merchant_scope \<Rightarrow> if list_ex (\<lambda>m. nat_to_digits (me_id m) = scopeId) (merchants d) then Inr ()
         else Inl (ApiError ''not_found'' 404)
     | Group_scope \<Rightarrow> if list_ex (\<lambda>g. nat_to_digits (g_id g) = scopeId) (groups d) then Inr ()
         else Inl (ApiError ''not_found'' 404))"

section \<open>Proposing and reviewing\<close>

definition scope_changes :: "string \<Rightarrow> string \<Rightarrow> db \<Rightarrow> config_change list" where
  "scope_changes ty i d = filter (\<lambda>c. cc_scopeType c = ty \<and> cc_scopeId c = i) (configChanges d)"

definition last_version :: "string \<Rightarrow> string \<Rightarrow> db \<Rightarrow> int" where
  "last_version ty i d = (case first_by (\<lambda>c. - cc_version c) (scope_changes ty i d) of None \<Rightarrow> 0 | Some c \<Rightarrow> cc_version c)"

definition propose ::
  "time \<Rightarrow> config_scope \<Rightarrow> string \<Rightarrow> json_object \<Rightarrow> string \<Rightarrow> string \<Rightarrow> db \<Rightarrow> (config_change \<times> db) outcome" where
  "propose now scope scopeId proposed actor reason d =
     and_then (normalizeConfiguration scope proposed) (\<lambda>fs.
     and_then (assertScopeExists scope scopeId d) (\<lambda>_.
       let c = \<lparr>cc_id = next_id d, cc_scopeType = scope_text scope, cc_scopeId = scopeId,
                cc_version = last_version (scope_text scope) scopeId d + 1, cc_proposed = fs, cc_status = CH_pending,
                cc_proposedBy = actor, cc_reviewedBy = None, cc_reviewReason = None, cc_reviewedAt = None,
                cc_createdAt = now\<rparr>
       in Inr (c, log_audit None (if starts_with actor ''portal:'' then ''merchant_user'' else ''platform_staff'') actor
            ''configuration.proposed'' ''configuration_change'' (cc_id c) (Some reason)
            (d\<lparr>configChanges := configChanges d @ [c], next_id := Suc (next_id d)\<rparr>))))"

definition list_changes ::
  "string option \<Rightarrow> string option \<Rightarrow> change_status option \<Rightarrow> db \<Rightarrow> config_change list" where
  "list_changes ty i st d = take 500 (sort_key (\<lambda>c. - cc_createdAt c) (filter (\<lambda>c. (ty = None \<or> ty = Some (cc_scopeType c)) \<and>
     (i = None \<or> i = Some (cc_scopeId c)) \<and> (st = None \<or> st = Some (cc_status c))) (configChanges d)))"

definition activeMerchant :: "id \<Rightarrow> db \<Rightarrow> (bool \<times> string list \<times> int list \<times> string) outcome" where
  "activeMerchant m d = (case find (\<lambda>c. cfg_merchant c = m) (configs d) of
       None \<Rightarrow> Inl (ApiError ''not_found'' 404)
     | Some c \<Rightarrow> Inr (cfg_allowAlternate c, map minorToAmount [cfg_depositMin c, cfg_depositMax c, cfg_tolerance c,
         cfg_reserveFee c, cfg_gatewayFee c], [cfg_countdownSeconds c, cfg_lateGraceSeconds c], cfg_message c))"

definition reviewed :: "change_status \<Rightarrow> string \<Rightarrow> string \<Rightarrow> time \<Rightarrow> config_change \<Rightarrow> config_change" where
  "reviewed st actor reason now c = c\<lparr>cc_status := st, cc_reviewedBy := Some actor, cc_reviewReason := Some reason,
     cc_reviewedAt := Some now\<rparr>"

definition review_change ::
  "time \<Rightarrow> id \<Rightarrow> change_status \<Rightarrow> string \<Rightarrow> string \<Rightarrow> string \<Rightarrow> db \<Rightarrow> (config_change \<times> db) outcome" where
  "review_change now i decision action actor reason d = (case find (\<lambda>c. cc_id c = i) (configChanges d) of
       None \<Rightarrow> Inl (ApiError ''not_found'' 404)
     | Some c \<Rightarrow>
         if cc_status c \<noteq> CH_pending then Inl (ApiError ''invalid_state'' 409)
         else and_then (if decision = CH_approved
             then apply_change (scope_of (cc_scopeType c)) (cc_scopeId c) (cc_proposed c) actor d else Inr d) (\<lambda>d1.
           Inr (reviewed decision actor reason now c,
             log_audit None ''platform_staff'' actor action ''configuration_change'' i (Some reason)
               (d1\<lparr>configChanges := update_where (\<lambda>c. cc_id c = i) (reviewed decision actor reason now) (configChanges d1)\<rparr>))))"

definition approve_change :: "time \<Rightarrow> id \<Rightarrow> string \<Rightarrow> string \<Rightarrow> db \<Rightarrow> (config_change \<times> db) outcome" where
  "approve_change now i = review_change now i CH_approved ''configuration.approved''"

definition reject_change :: "time \<Rightarrow> id \<Rightarrow> string \<Rightarrow> string \<Rightarrow> db \<Rightarrow> (config_change \<times> db) outcome" where
  "reject_change now i = review_change now i CH_rejected ''configuration.rejected''"

end
