(* ===== verification/ConfigurationSafety.thy ===== *)
theory ConfigurationSafety
  imports Configuration
begin

text \<open>
  What the configuration service guarantees: an accepted proposal has the fields of its scope and
  sound values, normalisation is idempotent, any run of proposals and reviews keeps the limits in
  force sound, and an approved change is served exactly as proposed.
\<close>

declare split_paired_All [simp del] split_paired_Ex [simp del]

section \<open>Printing an amount that was read\<close>

lemma pad_start_snoc: "pad_start (Suc n) z (s @ [c]) = pad_start n z s @ [c]"
  by (simp add: pad_start_def)

lemma nat_of_digits_zero: "list_all is_digit ds \<Longrightarrow> nat_of_digits ds = 0 \<Longrightarrow> ds = replicate (length ds) (CHR ''0'')"
proof (induction ds rule: rev_induct)
  case Nil
  then show ?case by simp
next
  case (snoc c ds)
  then have "digit_value c = 0" "nat_of_digits ds = 0" by (simp_all add: nat_of_digits_snoc)
  with snoc have "c = CHR ''0''" "ds = replicate (length ds) (CHR ''0'')" using is_digit_value [of c] by auto
  then show ?case by (metis length_append_singleton replicate_Suc replicate_append_same)
qed

lemma print_padded: "list_all is_digit ds \<Longrightarrow> ds \<noteq> [] \<Longrightarrow> pad_start (length ds) (CHR ''0'') (nat_to_digits (nat_of_digits ds)) = ds"
proof (induction ds rule: rev_induct)
  case Nil
  then show ?case by simp
next
  case (snoc c ds)
  then have c: "digit_value c < 10" "digit_char (digit_value c) = c" using is_digit_value [of c] by auto
  have ds: "list_all is_digit ds" using snoc.prems by simp
  show ?case
  proof (cases "nat_of_digits ds = 0")
    case True
    then have "ds = replicate (length ds) (CHR ''0'')" using ds by (rule nat_of_digits_zero [rotated])
    with True c show ?thesis by (simp add: nat_of_digits_snoc nat_to_digits_eval(1) pad_start_def)
  next
    case False
    with c have "nat_to_digits (nat_of_digits (ds @ [c])) = nat_to_digits (nat_of_digits ds) @ [c]"
      by (simp add: nat_of_digits_snoc nat_to_digits_eval(2))
    moreover have "ds \<noteq> []" using False by auto
    ultimately show ?thesis using snoc.IH ds by (simp add: pad_start_snoc)
  qed
qed

lemma pad_start_other_length:
  assumes "pad_start n c s = t" and "hd t \<noteq> c" and "m \<le> n" and "s \<noteq> []"
  shows "pad_start m c s = t"
proof -
  have "n \<le> length s" using assms(1,2) by (cases "n - length s") (auto simp: pad_start_def)
  with assms show ?thesis by (simp add: pad_start_def)
qed

lemma amount_parts:
  assumes "amount_shape s"
  obtains u w where "s = u @ CHR ''.'' # w" "length w = 2" "u \<noteq> []" "list_all is_digit (u @ w)" "length u = 1 \<or> hd u \<noteq> CHR ''0''"
proof -
  let ?n = "length s - 3"
  from assms have n: "4 \<le> length s" "s ! ?n = CHR ''.''" "list_all is_digit (take ?n s)" "list_all is_digit (last_n 2 s)"
    "length (take ?n s) = 1 \<or> hd (take ?n s) \<noteq> CHR ''0''"
    using hd_take [of ?n s] by (auto simp: amount_shape_def)
  have "s = take ?n s @ s ! ?n # drop (Suc ?n) s" using n(1) by (intro id_take_nth_drop) simp
  moreover have "drop (Suc ?n) s = last_n 2 s" using n(1) by (simp add: last_n_def Suc_diff_Suc numeral_eq_Suc)
  ultimately have s: "s = take ?n s @ CHR ''.'' # last_n 2 s" using n(2) by simp
  show ?thesis by (rule that [OF s]) (use n in auto)
qed

text \<open>A string of the schema is printed as it was read.\<close>

lemma print_amount:
  assumes "amount_shape s"
  shows "minorToAmount (int (nat_of_digits (strip_dot s))) = s"
proof -
  from assms obtain u w where *: "s = u @ CHR ''.'' # w" "length w = 2" "u \<noteq> []" "list_all is_digit (u @ w)"
    "length u = 1 \<or> hd u \<noteq> CHR ''0''" by (rule amount_parts)
  have strip: "strip_dot s = u @ w" unfolding *(1) by (rule strip_dot_middle) (use *(4) in \<open>auto simp: list_all_iff\<close>)
  have pad: "pad_start (length (u @ w)) (CHR ''0'') (nat_to_digits (nat_of_digits (u @ w))) = u @ w"
    by (rule print_padded) (use * in auto)
  have "pad_start 3 (CHR ''0'') (nat_to_digits (nat_of_digits (u @ w))) = u @ w"
  proof (cases "length u = 1")
    case True
    with *(2) have "length (u @ w) = 3" by simp
    with pad show ?thesis by metis
  next
    case False
    have "1 \<le> length u" using *(3) by (simp add: Suc_leI)
    with False * show ?thesis by (intro pad_start_other_length [OF pad]) auto
  qed
  then have "minorToAmount (int (nat_of_digits (u @ w))) = u @ CHR ''.'' # w"
    using *(2) by (simp add: minorToAmount_def Let_def last_n_def)
  then show ?thesis unfolding strip using *(1) by simp
qed

section \<open>What an accepted proposal looks like\<close>

definition amount :: "string \<Rightarrow> int" where
  "amount s = int (nat_of_digits (strip_dot s))"

lemma amount_digits:
  assumes "amount_shape s"
  shows "list_all is_digit (strip_dot s)"
proof -
  from assms obtain u w where s: "s = u @ CHR ''.'' # w" and digits: "list_all is_digit (u @ w)" by (rule amount_parts)
  then have "strip_dot s = u @ w" unfolding s by (intro strip_dot_middle) (auto simp: list_all_iff)
  with digits show ?thesis by simp
qed

lemma minor_amount: "amount_shape s \<Longrightarrow> minor s = Inr (amount s)"
  by (simp add: minor_def amount_digits amount_def)

lemma config_money_iff: "config_money v z = Inr s \<longleftrightarrow> v = Some (JStr s) \<and> amount_shape s \<and> (z \<or> 0 < amount s)"
  by (auto simp: config_money_def config_error_def minor_amount tx_simps split: option.splits json.splits if_splits)

lemma config_integer_iff: "config_integer v lo hi = Inr n \<longleftrightarrow> v = Some (JInt n) \<and> lo \<le> n \<and> n \<le> hi"
  by (auto simp: config_integer_def config_error_def split: option.splits json.splits if_splits)

lemma config_factor_iff: "config_factor v = Inr j \<longleftrightarrow> (\<exists>m k. v = Some (JDec m k) \<and> j = JDec m k \<and> 10 ^ k \<le> 10 * m \<and> 100 * m \<le> 95 * 10 ^ k)"
  by (auto simp: config_factor_def config_error_def split: option.splits json.splits if_splits)

lemma dropWhile_twice: "dropWhile p (dropWhile p xs) = dropWhile p xs"
  by (induction xs) auto

lemma trim_trim [simp]: "trim (trim s) = trim s"
proof -
  define ys where "ys = dropWhile is_space s"
  define zs where "zs = rev (dropWhile is_space (rev ys))"
  have "ys = zs @ rev (takeWhile is_space (rev ys))"
    by (metis rev_append rev_rev_ident takeWhile_dropWhile_id zs_def)
  then have front: "dropWhile is_space zs = zs"
    by (cases zs) (metis (no_types, lifting) append_Cons dropWhile_eq_Cons_conv dropWhile_twice ys_def dropWhile.simps(1), metis append_Cons dropWhile.simps(2) dropWhile_eq_Cons_conv ys_def)
  have "trim zs = rev (dropWhile is_space (dropWhile is_space (rev ys)))" by (simp add: trim_def front) (simp add: zs_def)
  then show ?thesis by (simp add: dropWhile_twice trim_def zs_def ys_def)
qed

lemma config_text_iff: "1 \<le> lo \<Longrightarrow> config_text v lo hi = Inr s \<longleftrightarrow>
    (\<exists>t. v = Some (JStr t) \<and> s = trim t \<and> lo \<le> length s \<and> length s \<le> hi)"
  by (auto simp: config_text_def config_error_def Let_def split: option.splits json.splits if_splits)

text \<open>The fields of an accepted proposal, per scope.\<close>

definition wallet_shape :: "string \<Rightarrow> string \<Rightarrow> string \<Rightarrow> string \<Rightarrow> json_object" where
  "wallet_shape cap ceiling balance headroom = [(''daily_transfer_cap'', JStr cap), (''wallet_ceiling'', JStr ceiling),
     (''safety_balance'', JStr balance), (''safety_headroom'', JStr headroom)]"

definition wallet_sound :: "string \<Rightarrow> string \<Rightarrow> string \<Rightarrow> string \<Rightarrow> bool" where
  "wallet_sound cap ceiling balance headroom \<longleftrightarrow> amount_shape cap \<and> amount_shape ceiling \<and> amount_shape balance \<and>
     amount_shape headroom \<and> 0 < amount cap \<and> amount balance + amount headroom < amount ceiling"

lemma amount_nonneg: "0 \<le> amount s"
  by (simp add: amount_def)

lemma wallet_fields_iff: "wallet_fields x = Inr r \<longleftrightarrow> (\<exists>cap ceiling balance headroom.
    json_field ''daily_transfer_cap'' x = Some (JStr cap) \<and> json_field ''wallet_ceiling'' x = Some (JStr ceiling) \<and>
    json_field ''safety_balance'' x = Some (JStr balance) \<and> json_field ''safety_headroom'' x = Some (JStr headroom) \<and>
    amount_shape cap \<and> amount_shape ceiling \<and> amount_shape balance \<and> amount_shape headroom \<and>
    0 < amount cap \<and> 0 < amount ceiling \<and> r = wallet_shape cap ceiling balance headroom)"
  unfolding wallet_fields_def and_then_Inr_iff map_outcome_Inr_iff config_money_iff wallet_shape_def by auto

lemma field_of_wallet [simp]:
  "json_field ''daily_transfer_cap'' (wallet_shape cap ceiling balance headroom @ f) = Some (JStr cap)"
  "json_field ''wallet_ceiling'' (wallet_shape cap ceiling balance headroom @ f) = Some (JStr ceiling)"
  "json_field ''safety_balance'' (wallet_shape cap ceiling balance headroom @ f) = Some (JStr balance)"
  "json_field ''safety_headroom'' (wallet_shape cap ceiling balance headroom @ f) = Some (JStr headroom)"
  by (simp_all add: json_field_def wallet_shape_def)

lemma field_text_str: "json_field k fs = Some (JStr s) \<Longrightarrow> field_text fs k = s"
  by (simp add: field_text_def)

lemma check_ceiling_iff:
  assumes "amount_shape ceiling" "amount_shape balance" "amount_shape headroom"
  shows "check_ceiling (wallet_shape cap ceiling balance headroom @ f) = Inr r \<longleftrightarrow>
    r = wallet_shape cap ceiling balance headroom @ f \<and> amount balance + amount headroom < amount ceiling"
  using assms by (auto simp: check_ceiling_def field_text_str minor_amount config_error_def)

definition default_shape :: "int \<Rightarrow> int \<Rightarrow> nat \<Rightarrow> int \<Rightarrow> int \<Rightarrow> json_object" where
  "default_shape stale m k countdown grace = [(''balance_stale_seconds'', JInt stale), (''capacity_safety_factor'', JDec m k),
     (''default_deposit_countdown_seconds'', JInt countdown), (''default_deposit_late_grace_seconds'', JInt grace)]"

definition default_sound :: "int \<Rightarrow> int \<Rightarrow> nat \<Rightarrow> int \<Rightarrow> int \<Rightarrow> bool" where
  "default_sound stale m k countdown grace \<longleftrightarrow> 300 \<le> stale \<and> stale \<le> 10800 \<and> 10 ^ k \<le> 10 * m \<and> 100 * m \<le> 95 * 10 ^ k \<and>
     60 \<le> countdown \<and> countdown \<le> 3600 \<and> 0 \<le> grace \<and> grace \<le> 7200"

lemma default_fields_iff: "default_fields x = Inr r \<longleftrightarrow> (\<exists>stale m k countdown grace.
    json_field ''balance_stale_seconds'' x = Some (JInt stale) \<and> json_field ''capacity_safety_factor'' x = Some (JDec m k) \<and>
    json_field ''default_deposit_countdown_seconds'' x = Some (JInt countdown) \<and>
    json_field ''default_deposit_late_grace_seconds'' x = Some (JInt grace) \<and>
    default_sound stale m k countdown grace \<and> r = default_shape stale m k countdown grace)"
  unfolding default_fields_def and_then_Inr_iff map_outcome_Inr_iff config_integer_iff config_factor_iff default_shape_def
    default_sound_def by auto

definition merchant_shape :: "bool \<Rightarrow> string \<Rightarrow> string \<Rightarrow> string \<Rightarrow> string \<Rightarrow> string \<Rightarrow> int \<Rightarrow> int \<Rightarrow> string \<Rightarrow> json_object" where
  "merchant_shape alt lo hi tol reserve gateway countdown grace msg =
     [(''allow_alternate_withdrawal_phone'', JBool alt), (''deposit_minimum'', JStr lo), (''deposit_maximum'', JStr hi),
      (''wrong_amount_tolerance'', JStr tol), (''reserve_provider_fee'', JStr reserve), (''gateway_fee_flat'', JStr gateway),
      (''deposit_countdown_seconds'', JInt countdown), (''deposit_late_grace_seconds'', JInt grace),
      (''technical_difficulty_message'', JStr msg)]"

definition merchant_sound :: "string \<Rightarrow> string \<Rightarrow> string \<Rightarrow> string \<Rightarrow> string \<Rightarrow> int \<Rightarrow> int \<Rightarrow> string \<Rightarrow> bool" where
  "merchant_sound lo hi tol reserve gateway countdown grace msg \<longleftrightarrow> amount_shape lo \<and> amount_shape hi \<and> amount_shape tol \<and>
     amount_shape reserve \<and> amount_shape gateway \<and> 0 < amount lo \<and> amount lo \<le> amount hi \<and> amount tol \<le> amount hi \<and>
     60 \<le> countdown \<and> countdown \<le> 3600 \<and> 0 \<le> grace \<and> grace \<le> 7200 \<and> 5 \<le> length msg \<and> length msg \<le> 500 \<and> trim msg = msg"

lemma merchant_fieldsD:
  assumes "merchant_fields x = Inr r"
  shows "\<exists>alt lo hi tol reserve gateway countdown grace msg. r = merchant_shape alt lo hi tol reserve gateway countdown grace msg \<and>
    merchant_sound lo hi tol reserve gateway countdown grace msg"
proof -
  have msg: "config_text v 5 500 = Inr s \<Longrightarrow> 5 \<le> length s \<and> length s \<le> 500 \<and> trim s = s" for v s
    by (auto simp: config_text_iff)
  show ?thesis
    using assms unfolding merchant_fields_def and_then_Inr_iff config_money_iff config_integer_iff config_error_def
    by (elim exE conjE) (auto simp: minor_amount merchant_shape_def merchant_sound_def dest!: msg split: if_splits)
qed

datatype normal_form =
    Wallets string string string string
  | Defaults string string string string int int nat int int
  | Merchants bool string string string string string int int string

fun normal_sound :: "config_scope \<Rightarrow> normal_form \<Rightarrow> bool" where
  "normal_sound Group_scope (Wallets cap c b h) \<longleftrightarrow> wallet_sound cap c b h"
| "normal_sound Platform_defaults (Defaults cap c b h stale m k countdown grace) \<longleftrightarrow>
     wallet_sound cap c b h \<and> default_sound stale m k countdown grace"
| "normal_sound Merchant_scope (Merchants alt lo hi tol reserve gateway countdown grace msg) \<longleftrightarrow>
     merchant_sound lo hi tol reserve gateway countdown grace msg"
| "normal_sound _ _ \<longleftrightarrow> False"

fun normal_fields :: "normal_form \<Rightarrow> json_object" where
  "normal_fields (Wallets cap c b h) = wallet_shape cap c b h"
| "normal_fields (Defaults cap c b h stale m k countdown grace) = wallet_shape cap c b h @ default_shape stale m k countdown grace"
| "normal_fields (Merchants alt lo hi tol reserve gateway countdown grace msg) =
     merchant_shape alt lo hi tol reserve gateway countdown grace msg"

lemma wallet_sound_iff: "wallet_sound cap c b h \<longleftrightarrow> amount_shape cap \<and> amount_shape c \<and> amount_shape b \<and> amount_shape h \<and>
    0 < amount cap \<and> 0 < amount c \<and> amount b + amount h < amount c"
  using amount_nonneg [of b] amount_nonneg [of h] by (auto simp: wallet_sound_def)

text \<open>A proposal that is accepted is normalised to sound fields.\<close>

lemma normalized:
  assumes "normalizeConfiguration scope x = Inr r"
  obtains nf where "r = normal_fields nf" and "normal_sound scope nf"
proof (cases scope)
  case Group_scope
  with assms obtain w where w: "wallet_fields x = Inr w" "check_ceiling w = Inr r"
    by (auto simp: normalizeConfiguration_def and_then_Inr_iff)
  then obtain cap c b h where f: "w = wallet_shape cap c b h" "amount_shape cap" "amount_shape c" "amount_shape b"
    "amount_shape h" "0 < amount cap" by (auto simp: wallet_fields_iff)
  with w(2) check_ceiling_iff [of c b h cap "[]" r] have "r = w \<and> amount b + amount h < amount c" by simp
  with f that [of "Wallets cap c b h"] Group_scope show ?thesis by (simp add: wallet_sound_def)
next
  case Platform_defaults
  with assms obtain w f where w: "wallet_fields x = Inr w" "default_fields x = Inr f" "check_ceiling (w @ f) = Inr r"
    by (auto simp: normalizeConfiguration_def and_then_Inr_iff)
  then obtain cap c b h where g: "w = wallet_shape cap c b h" "amount_shape cap" "amount_shape c" "amount_shape b"
    "amount_shape h" "0 < amount cap" by (auto simp: wallet_fields_iff)
  from w(2) obtain stale m k countdown grace where f: "f = default_shape stale m k countdown grace"
    "default_sound stale m k countdown grace" by (auto simp: default_fields_iff)
  from w(3) g check_ceiling_iff [of c b h cap f r] have "r = w @ f \<and> amount b + amount h < amount c" by simp
  with f g that [of "Defaults cap c b h stale m k countdown grace"] Platform_defaults show ?thesis by (simp add: wallet_sound_def)
next
  case Merchant_scope
  with assms merchant_fieldsD [of x r] obtain alt lo hi tol reserve gateway countdown grace msg where
    "r = merchant_shape alt lo hi tol reserve gateway countdown grace msg" "merchant_sound lo hi tol reserve gateway countdown grace msg"
    by (auto simp: normalizeConfiguration_def)
  with that [of "Merchants alt lo hi tol reserve gateway countdown grace msg"] Merchant_scope show ?thesis by simp
qed

lemma default_lookup [simp]:
  "json_field ''balance_stale_seconds'' (wallet_shape cap c b h @ default_shape stale m k countdown grace) = Some (JInt stale)"
  "json_field ''capacity_safety_factor'' (wallet_shape cap c b h @ default_shape stale m k countdown grace) = Some (JDec m k)"
  "json_field ''default_deposit_countdown_seconds'' (wallet_shape cap c b h @ default_shape stale m k countdown grace) = Some (JInt countdown)"
  "json_field ''default_deposit_late_grace_seconds'' (wallet_shape cap c b h @ default_shape stale m k countdown grace) = Some (JInt grace)"
  by (simp_all add: json_field_def wallet_shape_def default_shape_def)

lemma merchant_lookup [simp]:
  "json_field ''allow_alternate_withdrawal_phone'' (merchant_shape alt lo hi tol reserve gateway countdown grace msg) = Some (JBool alt)"
  "json_field ''deposit_minimum'' (merchant_shape alt lo hi tol reserve gateway countdown grace msg) = Some (JStr lo)"
  "json_field ''deposit_maximum'' (merchant_shape alt lo hi tol reserve gateway countdown grace msg) = Some (JStr hi)"
  "json_field ''wrong_amount_tolerance'' (merchant_shape alt lo hi tol reserve gateway countdown grace msg) = Some (JStr tol)"
  "json_field ''reserve_provider_fee'' (merchant_shape alt lo hi tol reserve gateway countdown grace msg) = Some (JStr reserve)"
  "json_field ''gateway_fee_flat'' (merchant_shape alt lo hi tol reserve gateway countdown grace msg) = Some (JStr gateway)"
  "json_field ''deposit_countdown_seconds'' (merchant_shape alt lo hi tol reserve gateway countdown grace msg) = Some (JInt countdown)"
  "json_field ''deposit_late_grace_seconds'' (merchant_shape alt lo hi tol reserve gateway countdown grace msg) = Some (JInt grace)"
  "json_field ''technical_difficulty_message'' (merchant_shape alt lo hi tol reserve gateway countdown grace msg) = Some (JStr msg)"
  by (simp_all add: json_field_def merchant_shape_def)

text \<open>Sound fields are accepted as they are.\<close>

lemma normal_accepted:
  assumes "normal_sound scope nf"
  shows "normalizeConfiguration scope (normal_fields nf) = Inr (normal_fields nf)"
proof (cases nf)
  case (Wallets cap c b h)
  with assms have scope: "scope = Group_scope" and ok: "wallet_sound cap c b h" by (cases scope; simp)+
  have "wallet_fields (wallet_shape cap c b h) = Inr (wallet_shape cap c b h)"
    using ok field_of_wallet [where f = "[]"] by (simp add: wallet_fields_iff wallet_sound_iff)
  moreover have "check_ceiling (wallet_shape cap c b h) = Inr (wallet_shape cap c b h)"
    using ok check_ceiling_iff [of c b h cap "[]"] by (simp add: wallet_sound_def)
  ultimately show ?thesis by (simp add: Wallets scope normalizeConfiguration_def)
next
  case (Defaults cap c b h stale m k countdown grace)
  with assms have scope: "scope = Platform_defaults" and ok: "wallet_sound cap c b h" "default_sound stale m k countdown grace"
    by (cases scope; simp)+
  let ?f = "default_shape stale m k countdown grace"
  have "wallet_fields (wallet_shape cap c b h @ ?f) = Inr (wallet_shape cap c b h)"
    using ok(1) by (simp add: wallet_fields_iff wallet_sound_iff)
  moreover have "default_fields (wallet_shape cap c b h @ ?f) = Inr ?f" using ok(2) by (simp add: default_fields_iff)
  moreover have "check_ceiling (wallet_shape cap c b h @ ?f) = Inr (wallet_shape cap c b h @ ?f)"
    using ok(1) by (simp add: check_ceiling_iff wallet_sound_def)
  ultimately show ?thesis by (simp add: Defaults scope normalizeConfiguration_def)
next
  case (Merchants alt lo hi tol reserve gateway countdown grace msg)
  with assms have scope: "scope = Merchant_scope" and ok: "merchant_sound lo hi tol reserve gateway countdown grace msg"
    by (cases scope; simp)+
  have money: "amount_shape s \<Longrightarrow> z \<or> 0 < amount s \<Longrightarrow> config_money (Some (JStr s)) z = Inr s" for s z by (simp add: config_money_iff)
  have "config_text (Some (JStr msg)) 5 500 = Inr msg" using ok by (simp add: config_text_iff merchant_sound_def)
  moreover have "config_integer (Some (JInt countdown)) 60 3600 = Inr countdown" "config_integer (Some (JInt grace)) 0 7200 = Inr grace"
    using ok by (simp_all add: config_integer_iff merchant_sound_def)
  moreover have "0 < amount lo" "0 < amount hi" using ok by (auto simp: merchant_sound_def)
  ultimately show ?thesis
    using ok unfolding Merchants scope normalizeConfiguration_def
    by (simp add: merchant_fields_def money minor_amount merchant_sound_def json_truthy_def merchant_shape_def [symmetric])
qed

lemma normalize_again: "normalizeConfiguration scope x = Inr r \<Longrightarrow> normalizeConfiguration scope r = Inr r"
proof -
  assume "normalizeConfiguration scope x = Inr r"
  then obtain nf where "r = normal_fields nf" "normal_sound scope nf" by (rule normalized)
  then show ?thesis by (simp add: normal_accepted)
qed

text \<open>Normalisation is idempotent: what it accepts it accepts again, unchanged.\<close>

theorem normalize_idempotent:
  "case normalizeConfiguration scope x of Inr r \<Rightarrow> normalizeConfiguration scope r = Inr r | Inl e \<Rightarrow> True"
  by (simp add: normalize_again split: sum.split)

section \<open>Limits in force\<close>

definition group_sound :: "device_group \<Rightarrow> bool" where
  "group_sound g \<longleftrightarrow> 0 < g_dailyLimit g \<and> 0 \<le> g_safetyBalance g \<and> 0 \<le> g_safetyHeadroom g \<and>
     g_safetyBalance g + g_safetyHeadroom g < g_ceiling g"

definition merchant_limits_sound :: "merchant_config \<Rightarrow> bool" where
  "merchant_limits_sound c \<longleftrightarrow> 0 < cfg_depositMin c \<and> cfg_depositMin c \<le> cfg_depositMax c \<and> 0 \<le> cfg_tolerance c \<and>
     cfg_tolerance c \<le> cfg_depositMax c \<and> 0 \<le> cfg_reserveFee c \<and> 0 \<le> cfg_gatewayFee c \<and>
     60 \<le> cfg_countdownSeconds c \<and> cfg_countdownSeconds c \<le> 3600 \<and> 0 \<le> cfg_lateGraceSeconds c \<and> cfg_lateGraceSeconds c \<le> 7200"

definition policy_sound :: "platform_policy \<Rightarrow> bool" where
  "policy_sound p \<longleftrightarrow> 300 \<le> pp_balanceStaleSeconds p \<and> pp_balanceStaleSeconds p \<le> 10800 \<and> 0 < pp_dailyLimit p \<and>
     pp_safetyBalance p + pp_safetyHeadroom p < pp_walletCeiling p \<and> 60 \<le> pp_countdownSeconds p \<and>
     pp_countdownSeconds p \<le> 3600 \<and> 0 \<le> pp_lateGraceSeconds p \<and> pp_lateGraceSeconds p \<le> 7200"

definition change_sound :: "config_change \<Rightarrow> bool" where
  "change_sound c \<longleftrightarrow> scope_text (scope_of (cc_scopeType c)) = cc_scopeType c \<and>
     normalizeConfiguration (scope_of (cc_scopeType c)) (cc_proposed c) = Inr (cc_proposed c) \<and>
     (scope_of (cc_scopeType c) \<noteq> Merchant_scope \<or> nat_to_digits (nat_of_digits (cc_scopeId c)) = cc_scopeId c)"

definition change_key :: "config_change \<Rightarrow> string \<times> string \<times> int" where
  "change_key c = (cc_scopeType c, cc_scopeId c, cc_version c)"

definition limits_ok :: "db \<Rightarrow> bool" where
  "limits_ok d \<longleftrightarrow> list_all change_sound (configChanges d) \<and> distinct (map change_key (configChanges d)) \<and>
     distinct (map cc_id (configChanges d)) \<and> list_all (\<lambda>c. cc_id c < next_id d) (configChanges d) \<and>
     list_all group_sound (groups d) \<and> list_all merchant_limits_sound (configs d) \<and> policy_sound (loadPlatformPolicy d)"

lemma scope_of_text [simp]: "scope_of (scope_text s) = s"
  by (cases s) (simp_all add: scope_of_def)

lemma change_soundE:
  assumes "change_sound c"
  obtains nf where "cc_proposed c = normal_fields nf" and "normal_sound (scope_of (cc_scopeType c)) nf"
  using assms normalized unfolding change_sound_def by blast

text \<open>The values of a proposal, read back from the row it was applied to.\<close>

definition policy_view :: "platform_policy \<Rightarrow> normal_form" where
  "policy_view p = (case pp_capacitySafetyFactor p of (m, k) \<Rightarrow> Defaults (minorToAmount (pp_dailyLimit p)) (minorToAmount (pp_walletCeiling p))
     (minorToAmount (pp_safetyBalance p)) (minorToAmount (pp_safetyHeadroom p)) (pp_balanceStaleSeconds p) m k
     (pp_countdownSeconds p) (pp_lateGraceSeconds p))"

definition group_view :: "device_group \<Rightarrow> normal_form" where
  "group_view g = Wallets (minorToAmount (g_dailyLimit g)) (minorToAmount (g_ceiling g)) (minorToAmount (g_safetyBalance g))
     (minorToAmount (g_safetyHeadroom g))"

definition merchant_view :: "merchant_config \<Rightarrow> normal_form" where
  "merchant_view c = Merchants (cfg_allowAlternate c) (minorToAmount (cfg_depositMin c)) (minorToAmount (cfg_depositMax c))
     (minorToAmount (cfg_tolerance c)) (minorToAmount (cfg_reserveFee c)) (minorToAmount (cfg_gatewayFee c))
     (cfg_countdownSeconds c) (cfg_lateGraceSeconds c) (cfg_message c)"

definition live_fields :: "config_scope \<Rightarrow> string \<Rightarrow> db \<Rightarrow> json_object option" where
  "live_fields scope i d = map_option normal_fields (case scope of
       Platform_defaults \<Rightarrow> Some (policy_view (loadPlatformPolicy d))
     | Group_scope \<Rightarrow> map_option group_view (find (\<lambda>g. nat_to_digits (g_id g) = i) (groups d))
     | Merchant_scope \<Rightarrow> map_option merchant_view (find (\<lambda>c. nat_to_digits (cfg_merchant c) = i) (configs d)))"

lemma minorToAmount_amount: "amount_shape s \<Longrightarrow> minorToAmount (amount s) = s"
  unfolding amount_def by (rule print_amount)

lemma moneyMinor_amount: "amount_shape s \<Longrightarrow> moneyMinor (Some (JStr s)) x = amount s"
  by (simp add: moneyMinor_def amount_def)

lemma groupData_wallet:
  assumes "wallet_sound cap c b h"
  shows "groupData (wallet_shape cap c b h) = Inr (\<lambda>g. g\<lparr>g_dailyLimit := amount cap, g_ceiling := amount c,
    g_safetyBalance := amount b, g_safetyHeadroom := amount h\<rparr>)"
  using assms field_of_wallet [where f = "[]"]
  by (simp add: groupData_def wallet_sound_def field_text_str minor_amount)

lemma merchantData_shape:
  assumes "merchant_sound lo hi tol reserve gateway countdown grace msg"
  shows "merchantData (merchant_shape alt lo hi tol reserve gateway countdown grace msg) =
    Inr (\<lambda>c. c\<lparr>cfg_allowAlternate := alt, cfg_depositMin := amount lo, cfg_depositMax := amount hi, cfg_tolerance := amount tol,
         cfg_reserveFee := amount reserve, cfg_gatewayFee := amount gateway, cfg_countdownSeconds := countdown,
         cfg_lateGraceSeconds := grace, cfg_message := msg\<rparr>)"
  using assms by (simp add: merchantData_def merchant_sound_def field_text_str minor_amount config_number_def json_truthy_def)

definition policy_of_fields :: "json_object \<Rightarrow> platform_policy" where
  "policy_of_fields fs = loadPlatformPolicy (empty_db\<lparr>settings := [\<lparr>pt_key = ''fleet.defaults'', pt_value = JObj fs, pt_version = 1, pt_updatedBy = []\<rparr>]\<rparr>)"

lemma value_of_setting: "map_option pt_value (find (\<lambda>s. pt_key s = k) (settings (set_setting k v actor d))) = Some v"
  by (auto simp: set_setting_def find_setting_def find_append find_update_where split: option.split dest: find_SomeD)

lemma loadPlatformPolicy_set:
  "loadPlatformPolicy (set_setting ''fleet.defaults'' (JObj fs) actor d) = policy_of_fields fs"
  unfolding loadPlatformPolicy_def policy_of_fields_def value_of_setting by simp

lemma policy_of_defaults:
  assumes "wallet_sound cap c b h" and "default_sound stale m k countdown grace"
  shows "policy_of_fields (wallet_shape cap c b h @ default_shape stale m k countdown grace) =
    \<lparr>pp_balanceStaleSeconds = stale, pp_capacitySafetyFactor = (m, k), pp_dailyLimit = amount cap, pp_walletCeiling = amount c,
     pp_safetyBalance = amount b, pp_safetyHeadroom = amount h, pp_countdownSeconds = countdown, pp_lateGraceSeconds = grace\<rparr>"
  using assms by (simp add: policy_of_fields_def loadPlatformPolicy_def boundedInteger_def boundedNumber_def decimal_le_def moneyMinor_amount
      wallet_sound_def default_sound_def)

text \<open>What applying a sound change does, per scope.\<close>

lemma apply_platform:
  assumes "normal_sound Platform_defaults nf" and "apply_change Platform_defaults i (normal_fields nf) actor d = Inr d'"
  shows "policy_sound (loadPlatformPolicy d') \<and> policy_view (loadPlatformPolicy d') = nf \<and> groups d' = groups d \<and>
    configs d' = configs d \<and> configChanges d' = configChanges d \<and> next_id d' = next_id d"
proof (cases nf)
  case (Defaults cap c b h stale m k countdown grace)
  with assms have ok: "wallet_sound cap c b h" "default_sound stale m k countdown grace"
    and d': "d' = set_setting ''fleet.defaults'' (JObj (normal_fields nf)) actor d" by (simp_all add: apply_change_def)
  have "loadPlatformPolicy d' = \<lparr>pp_balanceStaleSeconds = stale, pp_capacitySafetyFactor = (m, k), pp_dailyLimit = amount cap,
      pp_walletCeiling = amount c, pp_safetyBalance = amount b, pp_safetyHeadroom = amount h, pp_countdownSeconds = countdown,
      pp_lateGraceSeconds = grace\<rparr>"
    unfolding d' loadPlatformPolicy_set Defaults normal_fields.simps by (rule policy_of_defaults [OF ok])
  moreover have "groups d' = groups d \<and> configs d' = configs d \<and> configChanges d' = configChanges d \<and> next_id d' = next_id d"
    unfolding d' set_setting_def by (simp split: option.split)
  ultimately show ?thesis
    using ok by (simp add: policy_sound_def policy_view_def Defaults minorToAmount_amount wallet_sound_def default_sound_def)
qed (use assms in simp_all)

lemma apply_group:
  assumes "normal_sound Group_scope nf" and "apply_change Group_scope i (normal_fields nf) actor d = Inr d'"
  obtains f where "d' = d\<lparr>groups := update_where (\<lambda>g. nat_to_digits (g_id g) = i) f (groups d)\<rparr>"
    and "\<forall>g. group_sound (f g) \<and> group_view (f g) = nf \<and> g_id (f g) = g_id g"
    and "find (\<lambda>g. nat_to_digits (g_id g) = i) (groups d) \<noteq> None"
proof (cases nf)
  case (Wallets cap c b h)
  with assms have ok: "wallet_sound cap c b h" by simp
  let ?f = "\<lambda>g. g\<lparr>g_dailyLimit := amount cap, g_ceiling := amount c, g_safetyBalance := amount b, g_safetyHeadroom := amount h\<rparr>"
  have "list_ex (\<lambda>g. nat_to_digits (g_id g) = i) (groups d)" and d': "d' = d\<lparr>groups := update_where (\<lambda>g. nat_to_digits (g_id g) = i) ?f (groups d)\<rparr>"
    using assms(2) by (auto simp: apply_change_def Wallets groupData_wallet [OF ok] split: if_splits)
  then have "find (\<lambda>g. nat_to_digits (g_id g) = i) (groups d) \<noteq> None" by (auto simp: list_ex_iff find_None_iff)
  moreover have "group_sound (?f g) \<and> group_view (?f g) = nf \<and> g_id (?f g) = g_id g" for g
    using ok amount_nonneg by (simp add: group_sound_def group_view_def Wallets minorToAmount_amount wallet_sound_def)
  ultimately show ?thesis using d' that by blast
qed (use assms in simp_all)

lemma apply_merchant:
  assumes "normal_sound Merchant_scope nf" and "apply_change Merchant_scope i (normal_fields nf) actor d = Inr d'"
  obtains f where "d' = (if list_ex (\<lambda>c. nat_to_digits (cfg_merchant c) = i) (configs d)
        then d\<lparr>configs := update_where (\<lambda>c. nat_to_digits (cfg_merchant c) = i) f (configs d)\<rparr>
        else d\<lparr>configs := configs d @ [f (default_config (nat_of_digits i))]\<rparr>)"
    and "\<forall>c. merchant_limits_sound (f c) \<and> merchant_view (f c) = nf \<and> cfg_merchant (f c) = cfg_merchant c"
proof (cases nf)
  case (Merchants alt lo hi tol reserve gateway countdown grace msg)
  with assms have ok: "merchant_sound lo hi tol reserve gateway countdown grace msg" by simp
  let ?f = "\<lambda>c. c\<lparr>cfg_allowAlternate := alt, cfg_depositMin := amount lo, cfg_depositMax := amount hi, cfg_tolerance := amount tol,
         cfg_reserveFee := amount reserve, cfg_gatewayFee := amount gateway, cfg_countdownSeconds := countdown,
         cfg_lateGraceSeconds := grace, cfg_message := msg\<rparr>"
  have "merchant_limits_sound (?f c) \<and> merchant_view (?f c) = nf \<and> cfg_merchant (?f c) = cfg_merchant c" for c
    using ok amount_nonneg by (simp add: merchant_limits_sound_def merchant_view_def Merchants minorToAmount_amount merchant_sound_def)
  moreover have "d' = (if list_ex (\<lambda>c. nat_to_digits (cfg_merchant c) = i) (configs d)
        then d\<lparr>configs := update_where (\<lambda>c. nat_to_digits (cfg_merchant c) = i) ?f (configs d)\<rparr>
        else d\<lparr>configs := configs d @ [?f (default_config (nat_of_digits i))]\<rparr>)"
    using assms(2) by (simp add: apply_change_def Merchants merchantData_shape [OF ok] split: if_splits)
  ultimately show ?thesis using that by blast
qed (use assms in simp_all)

section \<open>Any run of proposals and reviews\<close>

datatype config_op =
    Propose time config_scope string json_object string string
  | Approve time id string string
  | Reject time id string string

fun run_config :: "config_op \<Rightarrow> db \<Rightarrow> db outcome" where
  "run_config (Propose now scope i x actor reason) d = map_outcome snd (propose now scope i x actor reason d)"
| "run_config (Approve now i actor reason) d = map_outcome snd (approve_change now i actor reason d)"
| "run_config (Reject now i actor reason) d = map_outcome snd (reject_change now i actor reason d)"

lemma last_version_max:
  assumes "c \<in> set (configChanges d)" and "cc_scopeType c = ty" and "cc_scopeId c = i"
  shows "cc_version c \<le> last_version ty i d"
proof -
  have c: "c \<in> set (scope_changes ty i d)" using assms by (simp add: scope_changes_def)
  then obtain m where m: "first_by (\<lambda>c. - cc_version c) (scope_changes ty i d) = Some m"
    using first_by_None_iff [of "\<lambda>c. - cc_version c" "scope_changes ty i d"] by fastforce
  with first_by_SomeD(2) [OF m] c show ?thesis by (simp add: last_version_def)
qed

lemma proposeE:
  assumes "propose now scope i x actor reason d = Inr (c, d')"
  obtains fs where "normalizeConfiguration scope x = Inr fs" and "change_sound c" and "cc_id c = next_id d"
    and "change_key c = (scope_text scope, i, last_version (scope_text scope) i d + 1)"
    and "configChanges d' = configChanges d @ [c]" and "next_id d' = Suc (next_id d)" and "groups d' = groups d"
    and "configs d' = configs d" and "settings d' = settings d"
proof -
  from assms obtain fs where fs: "normalizeConfiguration scope x = Inr fs" "assertScopeExists scope i d = Inr ()"
    unfolding propose_def and_then_Inr_iff by auto
  have digits: "scope \<noteq> Merchant_scope \<or> nat_to_digits (nat_of_digits i) = i"
    using fs(2) by (cases scope) (auto simp: assertScopeExists_def list_ex_iff split: if_splits)
  let ?c = "\<lparr>cc_id = next_id d, cc_scopeType = scope_text scope, cc_scopeId = i,
                cc_version = last_version (scope_text scope) i d + 1, cc_proposed = fs, cc_status = CH_pending,
                cc_proposedBy = actor, cc_reviewedBy = None, cc_reviewReason = None, cc_reviewedAt = None,
                cc_createdAt = now\<rparr>"
  let ?d = "log_audit None (if starts_with actor ''portal:'' then ''merchant_user'' else ''platform_staff'') actor
            ''configuration.proposed'' ''configuration_change'' (cc_id ?c) (Some reason)
            (d\<lparr>configChanges := configChanges d @ [?c], next_id := Suc (next_id d)\<rparr>)"
  have "propose now scope i x actor reason d = Inr (?c, ?d)" by (simp only: propose_def fs and_then_simps Let_def)
  from trans [OF assms [symmetric] this] have cd: "(c, d') = (?c, ?d)" by (rule Inr_inject)
  have c: "c = ?c" using arg_cong [OF cd, of fst] by (simp only: fst_conv)
  have d': "d' = ?d" using arg_cong [OF cd, of snd] by (simp only: snd_conv)
  show ?thesis
    by (rule that [OF fs(1)]) (use digits normalize_again [OF fs(1)] in \<open>simp_all add: change_sound_def c change_key_def d' log_audit_def\<close>)
qed

lemma reviewE:
  assumes "review_change now i decision action actor reason d = Inr (c', d')"
  obtains c d1 where "find (\<lambda>c. cc_id c = i) (configChanges d) = Some c" and "cc_status c = CH_pending"
    and "c' = reviewed decision actor reason now c"
    and "decision \<noteq> CH_approved \<and> d1 = d \<or>
      decision = CH_approved \<and> apply_change (scope_of (cc_scopeType c)) (cc_scopeId c) (cc_proposed c) actor d = Inr d1"
    and "configChanges d' = update_where (\<lambda>c. cc_id c = i) (reviewed decision actor reason now) (configChanges d1)"
    and "next_id d' = next_id d1" and "groups d' = groups d1" and "configs d' = configs d1" and "settings d' = settings d1"
proof (cases "find (\<lambda>c. cc_id c = i) (configChanges d)")
  case None
  with assms show ?thesis by (simp add: review_change_def)
next
  case (Some c)
  with assms obtain d1 where d1: "(if decision = CH_approved
             then apply_change (scope_of (cc_scopeType c)) (cc_scopeId c) (cc_proposed c) actor d else Inr d) = Inr d1"
    and c: "cc_status c = CH_pending" "c' = reviewed decision actor reason now c"
    and d': "d' = log_audit None ''platform_staff'' actor action ''configuration_change'' i (Some reason)
               (d1\<lparr>configChanges := update_where (\<lambda>c. cc_id c = i) (reviewed decision actor reason now) (configChanges d1)\<rparr>)"
    unfolding review_change_def by (auto simp: and_then_Inr_iff split: if_splits)
  show ?thesis by (rule that [OF Some c]) (use d1 in \<open>simp_all add: d' log_audit_def split: if_splits\<close>)
qed

definition limits_part :: "db \<Rightarrow> bool" where
  "limits_part d \<longleftrightarrow> list_all group_sound (groups d) \<and> list_all merchant_limits_sound (configs d) \<and> policy_sound (loadPlatformPolicy d)"

definition changes_part :: "db \<Rightarrow> bool" where
  "changes_part d \<longleftrightarrow> list_all change_sound (configChanges d) \<and> distinct (map change_key (configChanges d)) \<and>
     distinct (map cc_id (configChanges d)) \<and> list_all (\<lambda>c. cc_id c < next_id d) (configChanges d)"

lemma limits_ok_parts: "limits_ok d \<longleftrightarrow> changes_part d \<and> limits_part d"
  by (auto simp: limits_ok_def changes_part_def limits_part_def)

lemma loadPlatformPolicy_cong: "settings d' = settings d \<Longrightarrow> loadPlatformPolicy d' = loadPlatformPolicy d"
  by (simp add: loadPlatformPolicy_def)

lemma apply_keeps_limits:
  assumes "change_sound c" and "limits_part d"
    and "apply_change (scope_of (cc_scopeType c)) (cc_scopeId c) (cc_proposed c) actor d = Inr d1"
  shows "limits_part d1 \<and> configChanges d1 = configChanges d \<and> next_id d1 = next_id d \<and>
    live_fields (scope_of (cc_scopeType c)) (cc_scopeId c) d1 = Some (cc_proposed c)"
proof -
  from assms(1) obtain nf where nf: "cc_proposed c = normal_fields nf" "normal_sound (scope_of (cc_scopeType c)) nf"
    by (rule change_soundE)
  show ?thesis
  proof (cases "scope_of (cc_scopeType c)")
    case Platform_defaults
    with apply_platform nf assms(2,3) show ?thesis by (simp add: limits_part_def live_fields_def)
  next
    case Group_scope
    with nf assms(3) have a: "normal_sound Group_scope nf" "apply_change Group_scope (cc_scopeId c) (normal_fields nf) actor d = Inr d1"
      by simp_all
    obtain f where d1: "d1 = d\<lparr>groups := update_where (\<lambda>g. nat_to_digits (g_id g) = cc_scopeId c) f (groups d)\<rparr>"
      and f: "\<forall>g. group_sound (f g) \<and> group_view (f g) = nf \<and> g_id (f g) = g_id g"
      and found: "find (\<lambda>g. nat_to_digits (g_id g) = cc_scopeId c) (groups d) \<noteq> None"
      by (rule apply_group [OF a])
    from found obtain g where g: "find (\<lambda>g. nat_to_digits (g_id g) = cc_scopeId c) (groups d) = Some g" by blast
    then have "nat_to_digits (g_id g) = cc_scopeId c" by (auto dest: find_SomeD)
    then have "live_fields Group_scope (cc_scopeId c) d1 = Some (cc_proposed c)"
      using g f by (simp add: live_fields_def d1 find_update_where nf)
    moreover have "limits_part d1"
      using assms(2) f loadPlatformPolicy_cong [of d1 d] by (simp add: limits_part_def d1 list_all_update_where)
    ultimately show ?thesis using Group_scope by (simp add: d1)
  next
    case Merchant_scope
    with nf assms(3) have a: "normal_sound Merchant_scope nf" "apply_change Merchant_scope (cc_scopeId c) (normal_fields nf) actor d = Inr d1"
      by simp_all
    obtain f where d1: "d1 = (if list_ex (\<lambda>x. nat_to_digits (cfg_merchant x) = cc_scopeId c) (configs d)
        then d\<lparr>configs := update_where (\<lambda>x. nat_to_digits (cfg_merchant x) = cc_scopeId c) f (configs d)\<rparr>
        else d\<lparr>configs := configs d @ [f (default_config (nat_of_digits (cc_scopeId c)))]\<rparr>)"
      and f: "\<forall>x. merchant_limits_sound (f x) \<and> merchant_view (f x) = nf \<and> cfg_merchant (f x) = cfg_merchant x"
      by (rule apply_merchant [OF a])
    have digits: "nat_to_digits (nat_of_digits (cc_scopeId c)) = cc_scopeId c"
      using assms(1) Merchant_scope by (simp add: change_sound_def)
    have rest: "settings d1 = settings d" "groups d1 = groups d" "configChanges d1 = configChanges d" "next_id d1 = next_id d"
      by (simp_all add: d1)
    have "list_all merchant_limits_sound (configs d1)"
      using assms(2) f by (simp add: limits_part_def d1 list_all_update_where)
    then have "limits_part d1" using assms(2) rest loadPlatformPolicy_cong [of d1 d] by (simp add: limits_part_def)
    moreover have "live_fields Merchant_scope (cc_scopeId c) d1 = Some (cc_proposed c)"
    proof (cases "find (\<lambda>x. nat_to_digits (cfg_merchant x) = cc_scopeId c) (configs d)")
      case None
      then have "\<not> list_ex (\<lambda>x. nat_to_digits (cfg_merchant x) = cc_scopeId c) (configs d)" by (auto simp: find_None_iff list_ex_iff)
      with None show ?thesis using f digits by (simp add: live_fields_def d1 find_append nf default_config_def)
    next
      case (Some x)
      then have x: "nat_to_digits (cfg_merchant x) = cc_scopeId c" and "list_ex (\<lambda>x. nat_to_digits (cfg_merchant x) = cc_scopeId c) (configs d)"
        by (auto simp: list_ex_iff dest: find_SomeD)
      with Some show ?thesis using f by (simp add: live_fields_def d1 find_update_where nf)
    qed
    ultimately show ?thesis using Merchant_scope rest by simp
  qed
qed

lemma review_keeps:
  assumes "review_change now i decision action actor reason d = Inr (c', d')" and "limits_ok d"
  shows "limits_ok d' \<and> list_all (\<lambda>c. cc_status c = CH_pending \<or> c \<in> set (configChanges d')) (configChanges d)"
proof -
  from assms(1) obtain c d1 where c: "find (\<lambda>c. cc_id c = i) (configChanges d) = Some c" "cc_status c = CH_pending"
    "c' = reviewed decision actor reason now c"
    and step: "decision \<noteq> CH_approved \<and> d1 = d \<or>
      decision = CH_approved \<and> apply_change (scope_of (cc_scopeType c)) (cc_scopeId c) (cc_proposed c) actor d = Inr d1"
    and d': "configChanges d' = update_where (\<lambda>c. cc_id c = i) (reviewed decision actor reason now) (configChanges d1)"
    "next_id d' = next_id d1" "groups d' = groups d1" "configs d' = configs d1" "settings d' = settings d1" by (rule reviewE)
  have ok: "changes_part d" "limits_part d" using assms(2) by (simp_all add: limits_ok_parts)
  have mem: "c \<in> set (configChanges d)" "cc_id c = i" using c(1) by (auto dest: find_SomeD)
  then have "change_sound c" using ok(1) by (simp add: changes_part_def list_all_iff)
  then have d1: "limits_part d1" "configChanges d1 = configChanges d" "next_id d1 = next_id d"
    using step ok(2) apply_keeps_limits by blast+
  let ?f = "reviewed decision actor reason now"
  have keys: "change_sound (?f x) = change_sound x" "change_key (?f x) = change_key x" "cc_id (?f x) = cc_id x" for x
    by (simp_all add: reviewed_def change_sound_def change_key_def)
  have "changes_part d'" using ok(1) keys
    by (simp add: changes_part_def d' d1 map_update_where_frame list_all_update_where)
  moreover have "limits_part d'" using d1(1) loadPlatformPolicy_cong [of d' d1] by (simp add: limits_part_def d')
  moreover have "cc_status x = CH_pending \<or> x \<in> set (configChanges d')" if x: "x \<in> set (configChanges d)" for x
  proof (cases "cc_id x = i")
    case True
    have "distinct (map cc_id (configChanges d))" using ok(1) by (simp add: changes_part_def)
    with True x mem have "x = c" by (auto simp: distinct_map dest: inj_onD)
    with c(2) show ?thesis by simp
  next
    case False
    with x show ?thesis by (force simp: d' d1 set_update_where)
  qed
  ultimately show ?thesis by (simp add: limits_ok_parts list_all_iff)
qed

lemma propose_keeps:
  assumes "propose now scope i x actor reason d = Inr (c, d')" and "limits_ok d"
  shows "limits_ok d' \<and> list_all (\<lambda>c. cc_status c = CH_pending \<or> c \<in> set (configChanges d')) (configChanges d)"
proof -
  from assms(1) obtain fs where c: "change_sound c" "cc_id c = next_id d"
    "change_key c = (scope_text scope, i, last_version (scope_text scope) i d + 1)"
    and d': "configChanges d' = configChanges d @ [c]" "next_id d' = Suc (next_id d)" "groups d' = groups d"
    "configs d' = configs d" "settings d' = settings d" by (rule proposeE)
  have "change_key x \<noteq> change_key c" if "x \<in> set (configChanges d)" for x
    using last_version_max [OF that, of "scope_text scope" i] unfolding c(3) by (auto simp: change_key_def)
  then have "changes_part d'" using assms(2) c
    by (force simp: limits_ok_parts changes_part_def d' list_all_iff)
  moreover have "limits_part d'" using assms(2) loadPlatformPolicy_cong [of d' d] by (simp add: limits_ok_parts limits_part_def d')
  ultimately show ?thesis by (simp add: limits_ok_parts d' list_all_iff)
qed

definition reviews_kept :: "db \<Rightarrow> db \<Rightarrow> bool" where
  "reviews_kept d d' \<longleftrightarrow> list_all (\<lambda>c. cc_status c = CH_pending \<or> c \<in> set (configChanges d')) (configChanges d)"

interpretation limits: monotone_system run_config limits_ok reviews_kept
proof unfold_locales
  fix s s' s1 s2 a
  have step: "limits_ok s' \<and> reviews_kept s s'" if "limits_ok s" "run_config a s = Inr s'"
    using that by (cases a) (auto simp: tx_simps approve_change_def reject_change_def reviews_kept_def dest: propose_keeps review_keeps)
  show "reviews_kept s s" by (simp add: reviews_kept_def list_all_iff)
  show "reviews_kept s s1 \<Longrightarrow> reviews_kept s1 s2 \<Longrightarrow> reviews_kept s s2" by (auto simp: reviews_kept_def list_all_iff)
  show "limits_ok s \<Longrightarrow> run_config a s = Inr s' \<Longrightarrow> limits_ok s'" using step by blast
  show "limits_ok s \<Longrightarrow> run_config a s = Inr s' \<Longrightarrow> reviews_kept s s'" using step by blast
qed

text \<open>C29. Whatever is proposed and reviewed, the limits in force stay usable: every group and the
  platform defaults leave a wallet room between its safety balance and its ceiling, every merchant
  has a positive deposit range that contains its tolerance, the time windows stay in their ranges,
  the versions of a scope are distinct, and a reviewed change is never touched again.\<close>

theorem limits_stay_sound:
  assumes "limits_ok d" and "d' = run_all run_config ops d"
  shows "list_all group_sound (groups d') \<and> list_all merchant_limits_sound (configs d') \<and> policy_sound (loadPlatformPolicy d') \<and>
    distinct (map change_key (configChanges d')) \<and> reviews_kept d d'"
  using limits.run_all_inv [OF assms(1)] limits.run_all_le [OF assms(1)] unfolding assms(2) limits_ok_def by blast

text \<open>C30. An approved change takes effect as proposed: reading the defaults of the platform, the group or
  the merchant back gives exactly the approved fields, and the change cannot be reviewed again.\<close>

theorem approved_values_are_served:
  assumes "limits_ok d" and "find (\<lambda>c. cc_id c = i) (configChanges d) = Some c"
    and "approve_change now i actor reason d = Inr (c', d')"
  shows "live_fields (scope_of (cc_scopeType c)) (cc_scopeId c) d' = Some (cc_proposed c) \<and> cc_status c' = CH_approved \<and>
    approve_change now2 i actor2 reason2 d' = Inl (ApiError ''invalid_state'' 409) \<and>
    reject_change now2 i actor2 reason2 d' = Inl (ApiError ''invalid_state'' 409)"
proof -
  obtain c2 d1 where c: "find (\<lambda>c. cc_id c = i) (configChanges d) = Some c2" "cc_status c2 = CH_pending"
    "c' = reviewed CH_approved actor reason now c2"
    and step: "CH_approved \<noteq> CH_approved \<and> d1 = d \<or>
      CH_approved = CH_approved \<and> apply_change (scope_of (cc_scopeType c2)) (cc_scopeId c2) (cc_proposed c2) actor d = Inr d1"
    and d': "configChanges d' = update_where (\<lambda>c. cc_id c = i) (reviewed CH_approved actor reason now) (configChanges d1)"
    "next_id d' = next_id d1" "groups d' = groups d1" "configs d' = configs d1" "settings d' = settings d1"
    using assms(3) unfolding approve_change_def by (rule reviewE)
  have "c2 = c" using assms(2) c(1) by simp
  have ok: "changes_part d" "limits_part d" using assms(1) by (simp_all add: limits_ok_parts)
  have mem: "c \<in> set (configChanges d)" "cc_id c = i" using assms(2) by (auto dest: find_SomeD)
  then have "change_sound c" using ok(1) by (simp add: changes_part_def list_all_iff)
  with step ok(2) have d1: "configChanges d1 = configChanges d"
    "live_fields (scope_of (cc_scopeType c)) (cc_scopeId c) d1 = Some (cc_proposed c)"
    unfolding \<open>c2 = c\<close> using apply_keeps_limits by blast+
  have "live_fields (scope_of (cc_scopeType c)) (cc_scopeId c) d' = live_fields (scope_of (cc_scopeType c)) (cc_scopeId c) d1"
    using loadPlatformPolicy_cong [of d' d1] d' by (cases "scope_of (cc_scopeType c)") (simp_all add: live_fields_def)
  moreover have "find (\<lambda>c. cc_id c = i) (configChanges d') = Some c'"
    using assms(2) c(3) mem unfolding d' d1 \<open>c2 = c\<close> by (subst find_update_where) (simp_all add: reviewed_def)
  ultimately show ?thesis using d1(2) c(3)
    by (simp add: approve_change_def reject_change_def review_change_def reviewed_def)
qed

definition demo_defaults :: json_object where
  "demo_defaults = [(''daily_transfer_cap'', JStr ''0.50''), (''wallet_ceiling'', JStr ''0.90''), (''safety_balance'', JStr ''0.10''),
     (''safety_headroom'', JStr ''0.20''), (''balance_stale_seconds'', JInt 600), (''capacity_safety_factor'', JDec 5 1),
     (''default_deposit_countdown_seconds'', JInt 120), (''default_deposit_late_grace_seconds'', JInt 60)]"

definition demo_limits_db :: db where
  "demo_limits_db = empty_db\<lparr>next_id := 3\<rparr>"

definition demo_limits_ops :: "config_op list" where
  "demo_limits_ops = [Propose 1 Platform_defaults ''platform'' demo_defaults ''7'' ''new limits'',
     Propose 2 Platform_defaults ''platform'' (demo_defaults @ demo_defaults) ''7'' ''again'',
     Propose 3 Platform_defaults ''elsewhere'' demo_defaults ''7'' ''wrong scope'',
     Approve 4 3 ''8'' ''fine'', Reject 5 4 ''8'' ''twice'', Approve 6 4 ''8'' ''late'']"

theorem limits_stay_sound_witness:
  "limits_ok demo_limits_db \<and> (let d' = run_all run_config demo_limits_ops demo_limits_db in
     policy_sound (loadPlatformPolicy d') \<and> pp_walletCeiling (loadPlatformPolicy d') = 90 \<and>
     map cc_status (configChanges d') = [CH_approved, CH_rejected] \<and> map cc_version (configChanges d') = [1, 2])"
proof -
  have ok: "limits_ok demo_limits_db" by code_simp
  have "pp_walletCeiling (loadPlatformPolicy (run_all run_config demo_limits_ops demo_limits_db)) = 90 \<and>
     map cc_status (configChanges (run_all run_config demo_limits_ops demo_limits_db)) = [CH_approved, CH_rejected] \<and>
     map cc_version (configChanges (run_all run_config demo_limits_ops demo_limits_db)) = [1, 2]" by code_simp
  with limits_stay_sound [OF ok refl, of demo_limits_ops] ok show ?thesis unfolding Let_def by blast
qed

definition demo_proposed :: db where
  "demo_proposed = run_all run_config (take 1 demo_limits_ops) demo_limits_db"

definition demo_change :: config_change where
  "demo_change = hd (configChanges demo_proposed)"

theorem approved_values_are_served_witness:
  "case approve_change 4 3 ''8'' ''fine'' demo_proposed of
     Inr (c', d') \<Rightarrow> live_fields Platform_defaults ''platform'' d' = Some demo_defaults \<and>
       reject_change 5 3 ''9'' ''no'' d' = Inl (ApiError ''invalid_state'' 409)
   | Inl e \<Rightarrow> False"
proof -
  have ok: "limits_ok demo_proposed" by code_simp
  have c: "find (\<lambda>c. cc_id c = 3) (configChanges demo_proposed) = Some demo_change" by code_simp
  have scope: "scope_of (cc_scopeType demo_change) = Platform_defaults" "cc_scopeId demo_change = ''platform''"
    "cc_proposed demo_change = demo_defaults" by code_simp+
  have "\<not> isl (approve_change 4 3 ''8'' ''fine'' demo_proposed)" by code_simp
  then obtain c' d' where r: "approve_change 4 3 ''8'' ''fine'' demo_proposed = Inr (c', d')"
    by (cases "approve_change 4 3 ''8'' ''fine'' demo_proposed") auto
  show ?thesis unfolding r using approved_values_are_served [OF ok c r, of 5 "''9''" "''no''"] scope by simp
qed

end
