(* ===== verification/Cache.thy ===== *)
theory Cache
  imports Prelude
begin

text \<open>
  The process-local store of \<open>apps/api/src/infra/cache.service.ts\<close>: the branches taken when no
  Redis server is configured. Values are strings, counters their decimal digits; an entry whose
  time is over counts as absent.
\<close>

record cache_value =
  ca_value :: string
  ca_expiresAt :: "time option"

type_synonym cache = "string \<rightharpoonup> cache_value"

definition cache_alive :: "time \<Rightarrow> cache_value \<Rightarrow> bool" where
  "cache_alive now v = (case ca_expiresAt v of None \<Rightarrow> True | Some t \<Rightarrow> now < t)"

definition cache_get :: "time \<Rightarrow> string \<Rightarrow> cache \<Rightarrow> string option \<times> cache" where
  "cache_get now k c = (case c k of
       None \<Rightarrow> (None, c)
     | Some v \<Rightarrow> if cache_alive now v then (Some (ca_value v), c) else (None, c(k := None)))"

definition cache_set :: "time \<Rightarrow> string \<Rightarrow> string \<Rightarrow> int \<Rightarrow> cache \<Rightarrow> cache" where
  "cache_set now k v ttl c = c(k \<mapsto> \<lparr>ca_value = v, ca_expiresAt = (if ttl = 0 then None else Some (now + ttl * 1000))\<rparr>)"

definition cache_delete :: "string \<Rightarrow> cache \<Rightarrow> cache" where
  "cache_delete k c = c(k := None)"

definition cache_increment :: "time \<Rightarrow> string \<Rightarrow> int \<Rightarrow> cache \<Rightarrow> nat \<times> cache" where
  "cache_increment now k ttl c =
     (let current = (case c k of Some v \<Rightarrow> if cache_alive now v then nat_of_digits (ca_value v) else 0 | None \<Rightarrow> 0);
          n = Suc current
      in (n, c(k \<mapsto> \<lparr>ca_value = nat_to_digits n, ca_expiresAt = Some (now + ttl * 1000)\<rparr>)))"

text \<open>What is visible at a time.\<close>

definition cached :: "time \<Rightarrow> string \<Rightarrow> cache \<Rightarrow> string option" where
  "cached now k c = fst (cache_get now k c)"

lemma cached_get [simp]: "cached now k (snd (cache_get now k' c)) = cached now k c"
  by (auto simp: cached_def cache_get_def split: option.split)

lemma cached_set: "cached now' k' (cache_set now k v ttl c) =
    (if k' = k then if ttl = 0 \<or> now' < now + ttl * 1000 then Some v else None else cached now' k' c)"
  by (simp add: cached_def cache_get_def cache_set_def cache_alive_def split: option.split)

lemma cached_delete: "cached now' k' (cache_delete k c) = (if k' = k then None else cached now' k' c)"
  by (simp add: cached_def cache_get_def cache_delete_def split: option.split)

lemma cached_increment: "cached now' k' (snd (cache_increment now k ttl c)) =
    (if k' = k then if now' < now + ttl * 1000 then Some (nat_to_digits (fst (cache_increment now k ttl c))) else None
     else cached now' k' c)"
  by (simp add: cached_def cache_get_def cache_increment_def cache_alive_def Let_def split: option.split)

lemma increment_count: "fst (cache_increment now k ttl c) = Suc (case cached now k c of None \<Rightarrow> 0 | Some v \<Rightarrow> nat_of_digits v)"
  by (simp add: cache_increment_def cached_def cache_get_def Let_def split: option.split)

text \<open>A key written by increments only counts them while its window is open.\<close>

definition counter :: "time \<Rightarrow> string \<Rightarrow> cache \<Rightarrow> nat" where
  "counter now k c = (case cached now k c of None \<Rightarrow> 0 | Some v \<Rightarrow> nat_of_digits v)"

lemma counter_increment: "0 < ttl \<Longrightarrow> counter now k (snd (cache_increment now k ttl c)) = Suc (counter now k c)"
  by (simp add: counter_def cached_increment increment_count)

lemma counter_other: "k' \<noteq> k \<Longrightarrow> counter now k' (snd (cache_increment now k ttl c)) = counter now k' c"
  by (simp add: counter_def cached_increment)

end
