(* ===== verification/Portal.thy ===== *)
theory Portal
  imports Ledger Money Fleet Cache Webhooks
begin

text \<open>
  The merchant portal, from \<open>apps/api/src/portal/portal.service.ts\<close> and
  \<open>portal-session.guard.ts\<close>: sign-in with throttling, sessions, invitations, API keys and the
  read views. Hashing, password hashing and random tokens are arguments; the network address of
  a session, its browser and the audit metadata are left out. Dates are times, not ISO texts.
\<close>

declare split_paired_All [simp del] split_paired_Ex [simp del]

section \<open>What the service is given\<close>

record auth_crypto =
  au_sha256 :: "string \<Rightarrow> string"
  au_hash :: "string \<Rightarrow> string" \<comment> \<open>\<open>argon2.hash\<close>\<close>
  au_verify :: "string \<Rightarrow> string \<Rightarrow> bool" \<comment> \<open>\<open>argon2.verify\<close>: hash, then password\<close>

record portal_auth =
  pa_session :: id
  pa_user :: id
  pa_merchant :: id
  pa_slug :: string
  pa_name :: string
  pa_email :: string
  pa_display :: string
  pa_role :: user_role

definition SESSION_HOURS :: int where "SESSION_HOURS = 12"

definition normalizePortalEmail :: "string \<Rightarrow> string" where
  "normalizePortalEmail s = map to_lower (trim s)"

datatype masked_phone = Hidden | Masked string string

definition maskPortalPhone :: "string \<Rightarrow> masked_phone" where
  "maskPortalPhone s = (if length s < 7 then Hidden else Masked (take 4 s) (last_n 3 s))"

definition requireManagement :: "portal_auth \<Rightarrow> unit outcome" where
  "requireManagement auth = (if pa_role auth = Role_support then Inl (ApiError ''forbidden'' 403) else Inr ())"

definition merchant_of_user :: "db \<Rightarrow> merchant_user \<Rightarrow> merchant option" where
  "merchant_of_user d u = find (\<lambda>m. me_id m = us_merchant u) (merchants d)"

type_synonym user_view = "id \<times> string \<times> string \<times> user_role"
type_synonym merchant_triple = "id \<times> string \<times> string"

record session_view =
  sv_token :: string
  sv_expiresAt :: time
  sv_user :: user_view
  sv_merchant :: merchant_triple

definition user_ref :: "merchant_user \<Rightarrow> user_view" where
  "user_ref u = (us_id u, us_email u, us_name u, us_role u)"

definition merchant_ref :: "merchant \<Rightarrow> merchant_triple" where
  "merchant_ref m = (me_id m, me_slug m, me_name m)"

section \<open>Sessions\<close>

definition unique_violation :: "'a outcome" where
  "unique_violation = Inl (RuntimeError ''Unique constraint failed'')"

definition create_session :: "time \<Rightarrow> id \<Rightarrow> string \<Rightarrow> db \<Rightarrow> (merchant_session \<times> db) outcome" where
  "create_session now user tokenHash d =
     (if list_ex (\<lambda>s. se_tokenHash s = tokenHash) (merchantSessions d) then unique_violation
      else let s = \<lparr>se_id = next_id d, se_user = user, se_tokenHash = tokenHash,
                     se_expiresAt = now + SESSION_HOURS * 60 * 60000, se_lastSeenAt = now, se_revokedAt = None\<rparr>
        in Inr (s, d\<lparr>merchantSessions := merchantSessions d @ [s], next_id := Suc (next_id d)\<rparr>))"

definition login_throttle :: "auth_crypto \<Rightarrow> string \<Rightarrow> string option \<Rightarrow> string \<Rightarrow> string" where
  "login_throttle au space ip email = space @ take 32 (au_sha256 au (or_else ip ''unknown'' @ '':'' @ email))"

definition login_candidates :: "string \<Rightarrow> string option \<Rightarrow> db \<Rightarrow> merchant_user list" where
  "login_candidates email slug d = take 2 (filter (\<lambda>u. us_email u = email \<and> us_status u = H_active \<and>
     (case merchant_of_user d u of None \<Rightarrow> False
      | Some m \<Rightarrow> me_status m = M_active \<and> (slug = None \<or> slug = Some [] \<or> slug = Some (me_slug m)))) (merchantUsers d))"

text \<open>The throttle counts before the password is looked at; the cache is kept when signing in fails.\<close>

definition sign_in :: "auth_crypto \<Rightarrow> time \<Rightarrow> string \<Rightarrow> merchant_user \<Rightarrow> merchant \<Rightarrow> db \<Rightarrow> (session_view \<times> db) outcome" where
  "sign_in au now token u m d = map_outcome (\<lambda>(s, d1).
       (\<lparr>sv_token = token, sv_expiresAt = se_expiresAt s, sv_user = user_ref u, sv_merchant = merchant_ref m\<rparr>,
        log_audit (Some (us_merchant u)) ''merchant_user'' (nat_to_digits (us_id u)) ''portal.login'' ''merchant_session'' (se_id s) None
          (d1\<lparr>merchantUsers := update_where (\<lambda>x. us_id x = us_id u) (\<lambda>x. x\<lparr>us_lastLoginAt := Some now\<rparr>) (merchantUsers d1)\<rparr>)))
     (create_session now (us_id u) (au_sha256 au token) d)"

definition check_login :: "auth_crypto \<Rightarrow> string \<Rightarrow> string option \<Rightarrow> string \<Rightarrow> db \<Rightarrow> (merchant_user \<times> merchant) outcome" where
  "check_login au email slug password d = (case login_candidates email slug d of
       [u] \<Rightarrow> (case merchant_of_user d u of
           Some m \<Rightarrow> if au_verify au (us_passwordHash u) password then Inr (u, m) else Inl (ApiError ''invalid_credentials'' 401)
         | None \<Rightarrow> Inl (ApiError ''invalid_credentials'' 401))
     | _ \<Rightarrow> Inl (ApiError ''invalid_credentials'' 401))"

definition portal_login ::
  "auth_crypto \<Rightarrow> time \<Rightarrow> string \<Rightarrow> string \<Rightarrow> string option \<Rightarrow> string option \<Rightarrow> string \<Rightarrow> cache \<Rightarrow> db \<Rightarrow>
   (session_view \<times> db) outcome \<times> cache" where
  "portal_login au now rawEmail password slug ip token c d =
     (let email = normalizePortalEmail rawEmail;
          key = login_throttle au ''auth:merchant:'' ip email;
          (n, c1) = cache_increment now key 600 c
      in if 8 < n then (Inl (ApiError ''too_many_attempts'' 429), c1)
         else case and_then (check_login au email slug password d) (\<lambda>(u, m). sign_in au now token u m d) of
             Inl e \<Rightarrow> (Inl e, c1)
           | Inr r \<Rightarrow> (Inr r, cache_delete key c1))"

definition portal_logout :: "time \<Rightarrow> portal_auth \<Rightarrow> db \<Rightarrow> db" where
  "portal_logout now auth d = d\<lparr>merchantSessions := update_where (\<lambda>s. se_id s = pa_session auth \<and> se_revokedAt s = None)
     (\<lambda>s. s\<lparr>se_revokedAt := Some now\<rparr>) (merchantSessions d)\<rparr>"

definition portal_me :: "portal_auth \<Rightarrow> user_view \<times> merchant_triple" where
  "portal_me auth = ((pa_user auth, pa_email auth, pa_display auth, pa_role auth), (pa_merchant auth, pa_slug auth, pa_name auth))"

section \<open>The session guard\<close>

text \<open>\<open>replace(/^Bearer\\s+/i, '')\<close>.\<close>

definition bearer_token :: "string option \<Rightarrow> string" where
  "bearer_token header = (case header of None \<Rightarrow> []
     | Some h \<Rightarrow> if starts_with (map to_lower h) ''bearer'' \<and> (case drop 6 h of c # _ \<Rightarrow> is_space c | [] \<Rightarrow> False)
         then dropWhile is_space (drop 6 h) else h)"

definition user_of_session :: "db \<Rightarrow> merchant_session \<Rightarrow> (merchant_user \<times> merchant) option" where
  "user_of_session d s = (case find (\<lambda>u. us_id u = se_user s) (merchantUsers d) of
       None \<Rightarrow> None
     | Some u \<Rightarrow> map_option (\<lambda>m. (u, m)) (merchant_of_user d u))"

definition session_valid :: "time \<Rightarrow> merchant_session \<Rightarrow> merchant_user \<Rightarrow> merchant \<Rightarrow> bool" where
  "session_valid now s u m \<longleftrightarrow> se_revokedAt s = None \<and> now < se_expiresAt s \<and> us_status u = H_active \<and> me_status m = M_active"

definition seen_session :: "time \<Rightarrow> merchant_session \<Rightarrow> db \<Rightarrow> db" where
  "seen_session now s d = (if 60000 < now - se_lastSeenAt s
     then d\<lparr>merchantSessions := update_where (\<lambda>x. se_id x = se_id s) (\<lambda>x. x\<lparr>se_lastSeenAt := now\<rparr>) (merchantSessions d)\<rparr> else d)"

definition portal_guard :: "auth_crypto \<Rightarrow> time \<Rightarrow> string option \<Rightarrow> db \<Rightarrow> (portal_auth \<times> db) outcome" where
  "portal_guard au now header d =
     (let token = bearer_token header;
          refused = Inl (ApiError ''unauthorized'' 401)
      in if \<not> starts_with token ''mps_'' then refused
         else case find (\<lambda>s. se_tokenHash s = au_sha256 au token) (merchantSessions d) of
             None \<Rightarrow> refused
           | Some s \<Rightarrow> (case user_of_session d s of
               None \<Rightarrow> refused
             | Some (u, m) \<Rightarrow>
                 if \<not> session_valid now s u m then refused
                 else Inr (\<lparr>pa_session = se_id s, pa_user = us_id u, pa_merchant = us_merchant u, pa_slug = me_slug m,
                       pa_name = me_name m, pa_email = us_email u, pa_display = us_name u, pa_role = us_role u\<rparr>,
                     seen_session now s d)))"

section \<open>Invitations\<close>

definition open_invitation :: "merchant_invitation \<Rightarrow> bool" where
  "open_invitation v \<longleftrightarrow> iv_acceptedAt v = None \<and> iv_revokedAt v = None"

definition invite ::
  "auth_crypto \<Rightarrow> time \<Rightarrow> portal_auth \<Rightarrow> string \<Rightarrow> user_role \<Rightarrow> string \<Rightarrow> db \<Rightarrow> ((id \<times> string \<times> user_role \<times> string \<times> time) \<times> db) outcome" where
  "invite au now auth rawEmail role token d =
     and_then (requireManagement auth) (\<lambda>_.
       if role = Role_owner \<and> pa_role auth \<noteq> Role_owner then Inl (ApiError ''forbidden'' 403)
       else let email = normalizePortalEmail rawEmail in
         if list_ex (\<lambda>u. us_merchant u = pa_merchant auth \<and> us_email u = email) (merchantUsers d)
         then Inl (ApiError ''user_exists'' 409)
         else if list_ex (\<lambda>v. iv_tokenHash v = au_sha256 au token) (invitations d) then unique_violation
         else let v = \<lparr>iv_id = next_id d, iv_merchant = pa_merchant auth, iv_email = email, iv_role = role,
                        iv_tokenHash = au_sha256 au token, iv_invitedBy = Some (pa_user auth),
                        iv_expiresAt = now + 72 * 60 * 60000, iv_acceptedAt = None, iv_revokedAt = None, iv_createdAt = now\<rparr>;
                 old = update_where (\<lambda>v. iv_merchant v = pa_merchant auth \<and> iv_email v = email \<and> open_invitation v)
                         (\<lambda>v. v\<lparr>iv_revokedAt := Some now\<rparr>) (invitations d)
           in Inr ((iv_id v, email, role, token, iv_expiresAt v),
                log_audit (Some (pa_merchant auth)) ''merchant_user'' (nat_to_digits (pa_user auth)) ''portal.user_invited''
                  ''merchant_invitation'' (iv_id v) None
                  (d\<lparr>invitations := old @ [v], next_id := Suc (next_id d)\<rparr>)))"

text \<open>Accepting reads the invitation, then claims it in a transaction.\<close>

definition read_invitation :: "auth_crypto \<Rightarrow> time \<Rightarrow> string \<Rightarrow> db \<Rightarrow> (merchant_invitation \<times> merchant) outcome" where
  "read_invitation au now token d =
     (let gone = Inl (ApiError ''invalid_invitation'' 410)
      in case find (\<lambda>v. iv_tokenHash v = au_sha256 au token) (invitations d) of
           None \<Rightarrow> gone
         | Some v \<Rightarrow> (case find (\<lambda>m. me_id m = iv_merchant v) (merchants d) of
             None \<Rightarrow> gone
           | Some m \<Rightarrow> if \<not> open_invitation v \<or> iv_expiresAt v \<le> now \<or> me_status m \<noteq> M_active then gone else Inr (v, m)))"

definition commit_invitation ::
  "auth_crypto \<Rightarrow> time \<Rightarrow> merchant_invitation \<times> merchant \<Rightarrow> string \<Rightarrow> string \<Rightarrow> string \<Rightarrow> db \<Rightarrow> (session_view \<times> db) outcome" where
  "commit_invitation au now vm name password token d =
     (let (v, m) = vm;
          claim = (\<lambda>x. iv_id x = iv_id v \<and> open_invitation x \<and> now < iv_expiresAt x)
      in if \<not> list_ex claim (invitations d) then Inl (ApiError ''invalid_invitation'' 409)
         else if list_ex (\<lambda>u. us_merchant u = iv_merchant v \<and> us_email u = iv_email v) (merchantUsers d) then unique_violation
         else let u = \<lparr>us_id = next_id d, us_merchant = iv_merchant v, us_email = iv_email v, us_name = trim name,
                        us_passwordHash = au_hash au password, us_role = iv_role v, us_status = H_active,
                        us_lastLoginAt = None, us_createdAt = now\<rparr>;
                  d1 = d\<lparr>invitations := update_where claim (\<lambda>x. x\<lparr>iv_acceptedAt := Some now\<rparr>) (invitations d),
                         merchantUsers := merchantUsers d @ [u], next_id := Suc (next_id d)\<rparr>
              in map_outcome (\<lambda>(s, d2).
                   (\<lparr>sv_token = token, sv_expiresAt = se_expiresAt s, sv_user = user_ref u, sv_merchant = merchant_ref m\<rparr>,
                    log_audit (Some (iv_merchant v)) ''merchant_user'' (nat_to_digits (us_id u)) ''portal.invitation_accepted''
                      ''merchant_user'' (us_id u) None d2))
                 (create_session now (us_id u) (au_sha256 au token) d1))"

definition acceptInvitation ::
  "auth_crypto \<Rightarrow> time \<Rightarrow> string \<Rightarrow> string \<Rightarrow> string \<Rightarrow> string \<Rightarrow> db \<Rightarrow> (session_view \<times> db) outcome" where
  "acceptInvitation au now invitation name password token d =
     and_then (read_invitation au now invitation d) (\<lambda>vm. commit_invitation au now vm name password token d)"

section \<open>API keys\<close>

definition environment_text :: "environment \<Rightarrow> string" where
  "environment_text env = (case env of Test \<Rightarrow> ''test'' | Live \<Rightarrow> ''live'')"

definition createApiKey ::
  "auth_crypto \<Rightarrow> time \<Rightarrow> portal_auth \<Rightarrow> environment \<Rightarrow> string \<Rightarrow> string \<Rightarrow> string \<Rightarrow> db \<Rightarrow> ((id \<times> string \<times> string) \<times> db) outcome" where
  "createApiKey au now auth env label random6 random32 d =
     and_then (requireManagement auth) (\<lambda>_.
       let prefix = ''sk_'' @ environment_text env @ ''_'' @ random6;
           secret = prefix @ ''.'' @ random32
       in if list_ex (\<lambda>k. ak_prefix k = prefix) (apiKeys d) then unique_violation
          else let k = \<lparr>ak_id = next_id d, ak_merchant = pa_merchant auth, ak_env = env, ak_label = label, ak_prefix = prefix,
                         ak_secretHash = au_hash au secret, ak_lastUsedAt = None, ak_revokedAt = None, ak_createdAt = now\<rparr>
            in Inr ((ak_id k, prefix, secret),
                 log_audit (Some (pa_merchant auth)) ''merchant_user'' (nat_to_digits (pa_user auth)) ''api_key.created'' ''api_key''
                   (ak_id k) None (d\<lparr>apiKeys := apiKeys d @ [k], next_id := Suc (next_id d)\<rparr>)))"

definition revokeApiKey :: "time \<Rightarrow> portal_auth \<Rightarrow> id \<Rightarrow> db \<Rightarrow> (id \<times> db) outcome" where
  "revokeApiKey now auth i d =
     and_then (requireManagement auth) (\<lambda>_. case find (\<lambda>k. ak_id k = i \<and> ak_merchant k = pa_merchant auth) (apiKeys d) of
         None \<Rightarrow> Inl (ApiError ''not_found'' 404)
       | Some k \<Rightarrow> Inr (i, if ak_revokedAt k \<noteq> None then d
           else log_audit (Some (pa_merchant auth)) ''merchant_user'' (nat_to_digits (pa_user auth)) ''api_key.revoked'' ''api_key'' i None
             (d\<lparr>apiKeys := update_where (\<lambda>x. ak_id x = i) (\<lambda>x. x\<lparr>ak_revokedAt := Some now\<rparr>) (apiKeys d)\<rparr>)))"

section \<open>Views\<close>

definition portal_users :: "time \<Rightarrow> portal_auth \<Rightarrow> db \<Rightarrow> (merchant_user list \<times> (id \<times> string \<times> user_role \<times> time) list) outcome" where
  "portal_users now auth d = and_then (requireManagement auth) (\<lambda>_.
     Inr (sort_key us_createdAt (filter (\<lambda>u. us_merchant u = pa_merchant auth) (merchantUsers d)),
          map (\<lambda>v. (iv_id v, iv_email v, iv_role v, iv_expiresAt v)) (sort_key (\<lambda>v. - iv_createdAt v)
            (filter (\<lambda>v. iv_merchant v = pa_merchant auth \<and> open_invitation v \<and> now < iv_expiresAt v) (invitations d)))))"

definition portal_apiKeys :: "portal_auth \<Rightarrow> environment \<Rightarrow> db \<Rightarrow> (id \<times> environment \<times> string \<times> string \<times> bool \<times> time \<times> time option \<times> time option) list outcome" where
  "portal_apiKeys auth env d = and_then (requireManagement auth) (\<lambda>_.
     Inr (map (\<lambda>k. (ak_id k, ak_env k, ak_label k, ak_prefix k, ak_revokedAt k = None, ak_createdAt k, ak_lastUsedAt k, ak_revokedAt k))
       (sort_key (\<lambda>k. - ak_createdAt k) (filter (\<lambda>k. ak_merchant k = pa_merchant auth \<and> ak_env k = env) (apiKeys d)))))"

definition fleet_of_merchant :: "time \<Rightarrow> id \<Rightarrow> environment \<Rightarrow> candidate \<Rightarrow> bool" where
  "fleet_of_merchant now m env c =
     (let dv = cd_device c; g = cd_group c in
      sim_status (cd_sim c) = Sim_active \<and> dv_status dv \<in> {Dev_online, Dev_degraded} \<and>
      opt_holds (\<lambda>t. now - 90000 < t) (dv_lastHeartbeatAt dv) \<and>
      (if env = Live then opt_holds (\<lambda>s. s \<noteq> ''VIRTUAL-TEST-DEVICE'') (dv_serial dv) \<and> g_code g \<noteq> ''TEST-SIMULATOR''
       else dv_serial dv = Some ''VIRTUAL-TEST-DEVICE'' \<and> g_code g = ''TEST-SIMULATOR'') \<and>
      (list_ex (\<lambda>p. gp_merchant p = m) (g_merchants g) \<or> \<not> list_ex gp_dedicated (g_merchants g)))"

datatype liquidity = Unavailable | Limited | Healthy

record summary_view =
  su_available :: string
  su_reserved :: string
  su_pending :: string
  su_liquidity :: liquidity
  su_withdrawals :: nat
  su_deposits :: nat

definition balance_at :: "auth \<Rightarrow> ledger_code \<Rightarrow> db \<Rightarrow> money" where
  "balance_at auth code d = (case find (\<lambda>a. acc_key a = key_of auth code) (accounts d) of None \<Rightarrow> 0 | Some a \<Rightarrow> acc_balance a)"

definition portal_summary :: "time \<Rightarrow> portal_auth \<Rightarrow> environment \<Rightarrow> db \<Rightarrow> summary_view" where
  "portal_summary now auth env d =
     (let m = pa_merchant auth;
          open_transfers = filter (\<lambda>t. tr_merchant t = m \<and> tr_env t = env \<and> tr_status t \<in> {T_accepted, T_queued, T_device_assigned,
            T_device_started, T_committed, T_provider_pending, T_unknown, T_manual_review}) (transfers d);
          open_deposits = filter (\<lambda>x. dp_merchant x = m \<and> dp_env x = env \<and>
            dp_status x \<in> {D_awaiting_payment, D_late_grace, D_matching, D_manual_review}) (deposits d);
          physical = filter (fleet_of_merchant now m env) (List.map_filter (candidate_of d False) (sims d));
          pending = sum_list (map tr_amount open_transfers);
          spendable = sum_list (map (sim_main \<circ> cd_sim) physical) - sum_list (map (sim_reserved \<circ> cd_sim) physical)
      in \<lparr>su_available = minorToAmount (balance_at (m, env) Available d), su_reserved = minorToAmount (balance_at (m, env) Reserved d),
          su_pending = minorToAmount pending,
          su_liquidity = (if physical = [] then Unavailable else if spendable < pending then Limited else Healthy),
          su_withdrawals = length open_transfers, su_deposits = length open_deposits\<rparr>)"

record transaction_view =
  tv_id :: id
  tv_reference :: string
  tv_deposit :: bool
  tv_customer :: string
  tv_phone :: masked_phone
  tv_amount :: string
  tv_credited :: "string option"
  tv_status :: string
  tv_createdAt :: time

definition deposit_transaction :: "deposit_intent \<Rightarrow> transaction_view" where
  "deposit_transaction x = \<lparr>tv_id = dp_id x, tv_reference = dp_txRef x, tv_deposit = True, tv_customer = dp_customerId x,
     tv_phone = maskPortalPhone (dp_customerPhone x), tv_amount = minorToAmount (dp_amount x),
     tv_credited = map_option minorToAmount (dp_credited x),
     tv_status = (case dp_status x of D_success \<Rightarrow> ''success'' | D_failed \<Rightarrow> ''failed'' | _ \<Rightarrow> ''pending''), tv_createdAt = dp_createdAt x\<rparr>"

definition transfer_transaction :: "transfer \<Rightarrow> transaction_view" where
  "transfer_transaction t = \<lparr>tv_id = tr_id t, tv_reference = tr_reference t, tv_deposit = False, tv_customer = tr_customerId t,
     tv_phone = maskPortalPhone (tr_phone t), tv_amount = minorToAmount (tr_amount t), tv_credited = None,
     tv_status = (case tr_status t of T_success \<Rightarrow> ''success'' | T_failed \<Rightarrow> ''failed'' | T_cancelled \<Rightarrow> ''failed'' | _ \<Rightarrow> ''pending''),
     tv_createdAt = tr_createdAt t\<rparr>"

definition portal_transactions :: "portal_auth \<Rightarrow> environment \<Rightarrow> nat \<Rightarrow> db \<Rightarrow> transaction_view list" where
  "portal_transactions auth env limit d =
     (let ds = take limit (sort_key (\<lambda>x. - dp_createdAt x) (filter (\<lambda>x. dp_merchant x = pa_merchant auth \<and> dp_env x = env) (deposits d)));
          ts = take limit (sort_key (\<lambda>t. - tr_createdAt t) (filter (\<lambda>t. tr_merchant t = pa_merchant auth \<and> tr_env t = env) (transfers d)))
      in take limit (sort_key (\<lambda>v. - tv_createdAt v) (map deposit_transaction ds @ map transfer_transaction ts)))"

definition webhookLogs :: "portal_auth \<Rightarrow> environment \<Rightarrow> db \<Rightarrow> (id \<times> string \<times> bool \<times> time \<times> webhook_delivery list) list" where
  "webhookLogs auth env d =
     map (\<lambda>e. (we_id e, we_url e, we_enabled e, we_createdAt e,
          take 100 (sort_key (\<lambda>w. - wd_createdAt w) (filter (\<lambda>w. wd_endpoint w = we_id e) (deliveries d)))))
       (sort_key (\<lambda>e. - we_createdAt e) (filter (\<lambda>e. we_merchant e = pa_merchant auth \<and> we_env e = env) (endpoints d)))"

end
