(* ===== verification/PortalSafety.thy ===== *)
theory PortalSafety
  imports Portal
begin

text \<open>
  What the merchant portal guarantees over any run of requests: a session that ended stays ended, and
  a merchant's team grows by invitation only.
\<close>

declare split_paired_All [simp del] split_paired_Ex [simp del]

section \<open>Any run of portal requests\<close>

datatype portal_action =
    Act_logout
  | Act_invite string user_role string
  | Act_new_key environment string string string
  | Act_revoke_key id
  | Act_read

fun portal_act :: "auth_crypto \<Rightarrow> time \<Rightarrow> portal_auth \<Rightarrow> portal_action \<Rightarrow> db \<Rightarrow> db outcome" where
  "portal_act au now auth Act_logout d = Inr (portal_logout now auth d)"
| "portal_act au now auth (Act_invite email role token) d = map_outcome snd (invite au now auth email role token d)"
| "portal_act au now auth (Act_new_key env label r6 r32) d = map_outcome snd (createApiKey au now auth env label r6 r32 d)"
| "portal_act au now auth (Act_revoke_key i) d = map_outcome snd (revokeApiKey now auth i d)"
| "portal_act au now auth Act_read d = Inr d"

datatype portal_op =
    Portal_login time string string "string option" "string option" string
  | Portal_accept time string string string string
  | Portal_act time "string option" portal_action

text \<open>A signed-in action passes the guard first, whose note of the session stays if the action fails.\<close>

fun run_portal :: "auth_crypto \<Rightarrow> portal_op \<Rightarrow> cache \<times> db \<Rightarrow> cache \<times> db" where
  "run_portal au (Portal_login now email password slug ip token) (c, d) =
     (let (r, c') = portal_login au now email password slug ip token c d in (c', case r of Inr (_, d') \<Rightarrow> d' | Inl _ \<Rightarrow> d))"
| "run_portal au (Portal_accept now invitation name password token) (c, d) =
     (c, case acceptInvitation au now invitation name password token d of Inr (_, d') \<Rightarrow> d' | Inl _ \<Rightarrow> d)"
| "run_portal au (Portal_act now header action) (c, d) =
     (c, case portal_guard au now header d of Inl _ \<Rightarrow> d
         | Inr (auth, d1) \<Rightarrow> (case portal_act au now auth action d1 of Inr d2 \<Rightarrow> d2 | Inl _ \<Rightarrow> d1))"

definition run_portal_all :: "auth_crypto \<Rightarrow> portal_op list \<Rightarrow> cache \<times> db \<Rightarrow> cache \<times> db" where
  "run_portal_all au = fold (run_portal au)"

section \<open>Sessions are never revived\<close>

definition session_of :: "string \<Rightarrow> db \<Rightarrow> merchant_session option" where
  "session_of h d = find (\<lambda>s. se_tokenHash s = h) (merchantSessions d)"

definition revoked :: "string \<Rightarrow> db \<Rightarrow> bool" where
  "revoked h d \<longleftrightarrow> (case session_of h d of None \<Rightarrow> False | Some s \<Rightarrow> se_revokedAt s \<noteq> None)"

lemma revoked_append: "revoked h d \<Longrightarrow> merchantSessions d' = merchantSessions d @ xs \<Longrightarrow> revoked h d'"
  by (auto simp: revoked_def session_of_def find_append split: option.splits)

lemma revoked_update:
  assumes "revoked h d" and "merchantSessions d' = update_where p f (merchantSessions d)"
    and "\<And>s. se_tokenHash (f s) = se_tokenHash s \<and> (se_revokedAt s \<noteq> None \<longrightarrow> se_revokedAt (f s) \<noteq> None)"
  shows "revoked h d'"
proof -
  have "session_of h d' = map_option (\<lambda>s. if p s then f s else s) (session_of h d)"
    unfolding session_of_def assms(2) by (rule find_update_where) (use assms(3) in simp)
  with assms(1,3) show ?thesis by (auto simp: revoked_def split: option.splits)
qed

lemma create_session_rows:
  "create_session now u h d = Inr (s, d') \<Longrightarrow> d' = d\<lparr>merchantSessions := merchantSessions d @ [s], next_id := Suc (next_id d)\<rparr>"
  by (auto simp: create_session_def unique_violation_def Let_def split: if_splits)

section \<open>What an operation does to the team\<close>

definition member_key :: "merchant_user \<Rightarrow> id \<times> id \<times> string \<times> user_role" where
  "member_key u = (us_id u, us_merchant u, us_email u, us_role u)"

definition invite_key :: "merchant_invitation \<Rightarrow> id \<times> string \<times> user_role \<times> id option" where
  "invite_key v = (iv_merchant v, iv_email v, iv_role v, iv_invitedBy v)"

definition members :: "db \<Rightarrow> (id \<times> id \<times> string \<times> user_role) set" where
  "members d = member_key ` set (merchantUsers d)"

definition invited :: "db \<Rightarrow> (id \<times> string \<times> user_role \<times> id option) set" where
  "invited d = invite_key ` set (invitations d)"

definition accepted :: "db \<Rightarrow> (id \<times> string \<times> user_role \<times> id option) set" where
  "accepted d = invite_key ` {v \<in> set (invitations d). iv_acceptedAt v \<noteq> None}"

definition may_invite :: "(id \<times> id \<times> string \<times> user_role) set \<Rightarrow> id \<times> string \<times> user_role \<times> id option \<Rightarrow> bool" where
  "may_invite us k \<longleftrightarrow> (case k of (m, e, r, by) \<Rightarrow> (case by of None \<Rightarrow> True
     | Some w \<Rightarrow> (\<exists>e' r'. (w, m, e', r') \<in> us \<and> r' \<noteq> Role_support \<and> (r = Role_owner \<longrightarrow> r' = Role_owner))))"

definition team_step :: "db \<Rightarrow> db \<Rightarrow> bool" where
  "team_step d d' \<longleftrightarrow> members d \<subseteq> members d' \<and> accepted d \<subseteq> accepted d' \<and>
     (\<forall>k \<in> members d'. k \<in> members d \<or> (\<exists>by. (fst (snd k), fst (snd (snd k)), snd (snd (snd k)), by) \<in> accepted d')) \<and>
     (\<forall>k \<in> invited d'. k \<in> invited d \<or> may_invite (members d) k) \<and> (\<forall>h. revoked h d \<longrightarrow> revoked h d')"

lemma team_step_refl: "team_step d d"
  by (simp add: team_step_def)

lemma team_step_same:
  assumes "member_key ` set (merchantUsers d') = member_key ` set (merchantUsers d)" and "invitations d' = invitations d"
    and "\<And>h. revoked h d \<Longrightarrow> revoked h d'"
  shows "team_step d d'"
  using assms by (simp add: team_step_def members_def invited_def accepted_def)

lemma guard_effect:
  assumes "portal_guard au now header d = Inr (auth, d1)"
  shows "team_step d d1 \<and> merchantUsers d1 = merchantUsers d \<and> invitations d1 = invitations d \<and>
    (pa_user auth, pa_merchant auth, pa_email auth, pa_role auth) \<in> members d"
proof -
  from assms obtain s u m where s: "user_of_session d s = Some (u, m)" "d1 = seen_session now s d"
    and a: "pa_user auth = us_id u" "pa_merchant auth = us_merchant u" "pa_email auth = us_email u" "pa_role auth = us_role u"
    by (auto simp: portal_guard_def Let_def split: if_splits option.splits)
  from s(1) have "u \<in> set (merchantUsers d)" by (auto simp: user_of_session_def split: option.splits dest: find_SomeD)
  then have "(pa_user auth, pa_merchant auth, pa_email auth, pa_role auth) \<in> members d" by (force simp: members_def member_key_def a)
  moreover have "revoked h d \<Longrightarrow> revoked h d1" for h
  proof (cases "60000 < now - se_lastSeenAt s")
    case True
    then have "merchantSessions d1 = update_where (\<lambda>x. se_id x = se_id s) (\<lambda>x. x\<lparr>se_lastSeenAt := now\<rparr>) (merchantSessions d)"
      by (simp add: s(2) seen_session_def)
    moreover have "se_tokenHash (x\<lparr>se_lastSeenAt := now\<rparr>) = se_tokenHash x \<and>
      (se_revokedAt x \<noteq> None \<longrightarrow> se_revokedAt (x\<lparr>se_lastSeenAt := now\<rparr>) \<noteq> None)" for x :: merchant_session by simp
    ultimately show "revoked h d \<Longrightarrow> revoked h d1" using revoked_update by blast
  next
    case False
    then show "revoked h d \<Longrightarrow> revoked h d1" by (simp add: s(2) seen_session_def)
  qed
  ultimately show ?thesis by (auto simp: s(2) seen_session_def intro: team_step_same)
qed

lemma login_effect:
  assumes "portal_login au now email password slug ip token c d = (Inr (v, d'), c')"
  shows "team_step d d'"
proof -
  from assms obtain u m where "sign_in au now token u m d = Inr (v, d')"
    by (auto simp: portal_login_def Let_def tx_simps split: prod.splits if_splits sum.splits)
  then obtain s d1 where s: "create_session now (us_id u) (au_sha256 au token) d = Inr (s, d1)"
    and d': "d' = log_audit (Some (us_merchant u)) ''merchant_user'' (nat_to_digits (us_id u)) ''portal.login'' ''merchant_session'' (se_id s) None
          (d1\<lparr>merchantUsers := update_where (\<lambda>x. us_id x = us_id u) (\<lambda>x. x\<lparr>us_lastLoginAt := Some now\<rparr>) (merchantUsers d1)\<rparr>)"
    by (auto simp: sign_in_def tx_simps)
  note d1 = create_session_rows [OF s]
  have "map member_key (merchantUsers d') = map member_key (merchantUsers d)"
    by (simp add: d' d1 log_audit_def map_update_where_frame member_key_def)
  then have "member_key ` set (merchantUsers d') = member_key ` set (merchantUsers d)" by (metis set_map)
  moreover have "merchantSessions d' = merchantSessions d @ [s]" by (simp add: d' d1 log_audit_def)
  then have "revoked h d \<Longrightarrow> revoked h d'" for h by (rule revoked_append [rotated])
  ultimately show ?thesis by (intro team_step_same) (simp_all add: d' d1 log_audit_def)
qed

lemma accept_effect:
  assumes "acceptInvitation au now invitation name password token d = Inr (v, d')"
  shows "team_step d d'"
proof -
  from assms obtain x m where read: "read_invitation au now invitation d = Inr (x, m)"
    and commit: "commit_invitation au now (x, m) name password token d = Inr (v, d')"
    by (auto simp: acceptInvitation_def tx_simps)
  from read have x: "x \<in> set (invitations d)" "open_invitation x" "now < iv_expiresAt x"
    by (auto simp: read_invitation_def Let_def split: option.splits if_splits dest: find_SomeD)
  let ?claim = "\<lambda>y. iv_id y = iv_id x \<and> open_invitation y \<and> now < iv_expiresAt y"
  let ?acc = "\<lambda>y. y\<lparr>iv_acceptedAt := Some now\<rparr>"
  define u where "u = \<lparr>us_id = next_id d, us_merchant = iv_merchant x, us_email = iv_email x, us_name = trim name,
                        us_passwordHash = au_hash au password, us_role = iv_role x, us_status = H_active,
                        us_lastLoginAt = None, us_createdAt = now\<rparr>"
  define d0 where "d0 = d\<lparr>invitations := update_where ?claim ?acc (invitations d), merchantUsers := merchantUsers d @ [u],
                         next_id := Suc (next_id d)\<rparr>"
  obtain s d1 where d1: "create_session now (us_id u) (au_sha256 au token) d0 = Inr (s, d1)"
    and d': "d' = log_audit (Some (iv_merchant x)) ''merchant_user'' (nat_to_digits (us_id u)) ''portal.invitation_accepted''
                      ''merchant_user'' (us_id u) None d1"
    using commit unfolding commit_invitation_def Let_def prod.case u_def [symmetric] d0_def [symmetric]
    by (auto simp: tx_simps unique_violation_def split: if_splits)
  have u: "member_key u = (us_id u, iv_merchant x, iv_email x, iv_role x)"
    and users: "merchantUsers d' = merchantUsers d @ [u]"
    and invs: "invitations d' = update_where ?claim ?acc (invitations d)"
    and sess: "merchantSessions d' = merchantSessions d @ [s]"
    by (simp_all add: d' create_session_rows [OF d1] log_audit_def d0_def member_key_def u_def)
  have keys: "invite_key (?acc y) = invite_key y" for y by (simp add: invite_key_def)
  have "map invite_key (invitations d') = map invite_key (invitations d)" unfolding invs by (simp add: map_update_where_frame keys)
  then have "invited d' = invited d" unfolding invited_def by (metis set_map)
  moreover have acc: "accepted d \<subseteq> accepted d'"
  proof
    fix k assume "k \<in> accepted d"
    then obtain y where y: "y \<in> set (invitations d)" "iv_acceptedAt y \<noteq> None" "k = invite_key y" by (auto simp: accepted_def)
    then have "\<not> ?claim y" by (simp add: open_invitation_def)
    with y(1) have "y \<in> set (invitations d')" unfolding invs set_update_where by force
    with y(2,3) show "k \<in> accepted d'" by (auto simp: accepted_def)
  qed
  moreover have "?acc x \<in> set (invitations d')" unfolding invs set_update_where using x by force
  then have "invite_key x \<in> accepted d'" unfolding accepted_def keys [of x, symmetric] by (intro imageI) simp
  then have "(iv_merchant x, iv_email x, iv_role x, iv_invitedBy x) \<in> accepted d'" by (simp add: invite_key_def)
  moreover have "members d' = insert (member_key u) (members d)" by (simp add: members_def users)
  moreover have "revoked h d \<Longrightarrow> revoked h d'" for h using sess by (rule revoked_append [rotated])
  ultimately show ?thesis using u by (auto simp: team_step_def)
qed

lemma invite_effect:
  assumes "invite au now auth email role token d = Inr (v, d')"
    and "(pa_user auth, pa_merchant auth, pa_email auth, pa_role auth) \<in> members d"
  shows "team_step d d'"
proof -
  let ?revoke = "\<lambda>v. v\<lparr>iv_revokedAt := Some now\<rparr>"
  obtain x p where x: "invite_key x = (pa_merchant auth, normalizePortalEmail email, role, Some (pa_user auth))"
    and invs: "invitations d' = update_where p ?revoke (invitations d) @ [x]"
    and rest: "merchantUsers d' = merchantUsers d" "merchantSessions d' = merchantSessions d"
    and role: "pa_role auth \<noteq> Role_support" "role = Role_owner \<longrightarrow> pa_role auth = Role_owner"
    using assms(1) unfolding invite_def Let_def requireManagement_def
    by (auto simp: tx_simps unique_violation_def invite_key_def log_audit_def split: if_splits)
  have keys: "invite_key (?revoke y) = invite_key y" for y by (simp add: invite_key_def)
  have same: "invite_key ` set (update_where p ?revoke vs) = invite_key ` set vs" for vs
    using map_update_where_frame [of invite_key ?revoke p vs] keys by (metis set_map)
  have "invited d' = insert (invite_key x) (invited d)" unfolding invited_def invs by (simp add: same)
  moreover have "may_invite (members d) (invite_key x)" using assms(2) role unfolding x by (auto simp: may_invite_def)
  moreover have "accepted d \<subseteq> accepted d'"
  proof
    fix k assume "k \<in> accepted d"
    then obtain y where y: "y \<in> set (invitations d)" "iv_acceptedAt y \<noteq> None" "k = invite_key y" by (auto simp: accepted_def)
    then have "(if p y then ?revoke y else y) \<in> set (invitations d')" by (simp add: invs set_update_where)
    then have "invite_key (if p y then ?revoke y else y) \<in> accepted d'" unfolding accepted_def using y(2) by (intro imageI) simp
    then show "k \<in> accepted d'" using keys [of y] y(3) by (simp split: if_splits)
  qed
  ultimately show ?thesis by (auto simp: team_step_def members_def rest revoked_def session_of_def)
qed

lemma act_effect:
  assumes "portal_act au now auth action d = Inr d'"
    and "(pa_user auth, pa_merchant auth, pa_email auth, pa_role auth) \<in> members d"
  shows "team_step d d'"
proof (cases action)
  case Act_logout
  with assms have "merchantSessions d' = update_where (\<lambda>s. se_id s = pa_session auth \<and> se_revokedAt s = None)
     (\<lambda>s. s\<lparr>se_revokedAt := Some now\<rparr>) (merchantSessions d)" and rest: "merchantUsers d' = merchantUsers d" "invitations d' = invitations d"
    by (auto simp: portal_logout_def)
  moreover have "se_tokenHash (x\<lparr>se_revokedAt := Some now\<rparr>) = se_tokenHash x \<and>
      (se_revokedAt x \<noteq> None \<longrightarrow> se_revokedAt (x\<lparr>se_revokedAt := Some now\<rparr>) \<noteq> None)" for x :: merchant_session by simp
  ultimately have "revoked h d \<Longrightarrow> revoked h d'" for h using revoked_update by blast
  with rest show ?thesis by (intro team_step_same) simp_all
next
  case (Act_invite email role token)
  with assms invite_effect show ?thesis by (auto simp: tx_simps)
next
  case (Act_new_key env label r6 r32)
  with assms(1) have "merchantUsers d' = merchantUsers d" "invitations d' = invitations d" "merchantSessions d' = merchantSessions d"
    by (auto simp: tx_simps createApiKey_def requireManagement_def unique_violation_def Let_def log_audit_def split: if_splits)
  then show ?thesis by (intro team_step_same) (simp_all add: revoked_def session_of_def)
next
  case (Act_revoke_key i)
  with assms(1) have "merchantUsers d' = merchantUsers d" "invitations d' = invitations d" "merchantSessions d' = merchantSessions d"
    by (auto simp: tx_simps revokeApiKey_def requireManagement_def log_audit_def split: if_splits option.splits)
  then show ?thesis by (intro team_step_same) (simp_all add: revoked_def session_of_def)
next
  case Act_read
  with assms team_step_refl show ?thesis by simp
qed

lemma team_step_trans:
  assumes "team_step d d1" and "team_step d1 d2"
  shows "members d \<subseteq> members d2" and "\<forall>h. revoked h d \<longrightarrow> revoked h d2"
  using assms by (auto simp: team_step_def)

text \<open>Every operation is a few such steps.\<close>

inductive team_steps :: "db \<Rightarrow> db \<Rightarrow> bool" where
  none: "team_steps d d"
| more: "team_steps d d1 \<Longrightarrow> team_step d1 d2 \<Longrightarrow> team_steps d d2"

lemma team_steps_one: "team_step d d1 \<Longrightarrow> team_steps d d1"
  by (rule team_steps.more [OF team_steps.none])

lemma team_steps_trans: "team_steps d1 d2 \<Longrightarrow> team_steps d d1 \<Longrightarrow> team_steps d d2"
  by (induction rule: team_steps.induct) (auto intro: team_steps.more)

lemma run_portal_steps: "team_steps (snd cd) (snd (run_portal au op cd))"
proof (cases op)
  case (Portal_login now email password slug ip token)
  obtain r c' where r: "portal_login au now email password slug ip token (fst cd) (snd cd) = (r, c')" by (metis surj_pair)
  with Portal_login login_effect show ?thesis
    by (cases cd; cases r) (auto intro: team_steps_one team_steps.none)
next
  case (Portal_accept now invitation name password token)
  with accept_effect show ?thesis
    by (cases cd; cases "acceptInvitation au now invitation name password token (snd cd)") (auto intro: team_steps_one team_steps.none)
next
  case (Portal_act now header action)
  show ?thesis
  proof (cases "portal_guard au now header (snd cd)")
    case (Inl e)
    with Portal_act show ?thesis by (cases cd) (simp add: team_steps.none)
  next
    case (Inr ad)
    obtain auth d1 where ad: "ad = (auth, d1)" by (cases ad)
    note g = guard_effect [OF Inr [unfolded ad]]
    then have one: "team_steps (snd cd) d1" by (blast intro: team_steps_one)
    have m: "(pa_user auth, pa_merchant auth, pa_email auth, pa_role auth) \<in> members d1" using g by (simp add: members_def)
    show ?thesis
    proof (cases "portal_act au now auth action d1")
      case (Inl e)
      with Portal_act Inr ad one show ?thesis by (cases cd) simp
    next
      case (Inr d2)
      with act_effect m have "team_steps d1 d2" by (blast intro: team_steps_one)
      with one have "team_steps (snd cd) d2" by (blast intro: team_steps_trans)
      with Portal_act \<open>portal_guard au now header (snd cd) = Inr ad\<close> ad Inr show ?thesis by (cases cd) simp
    qed
  qed
qed

lemma run_portal_all_steps: "team_steps (snd cd) (snd (run_portal_all au ops cd))"
proof (induction ops arbitrary: cd)
  case Nil
  then show ?case by (simp add: run_portal_all_def team_steps.none)
next
  case (Cons op ops)
  from team_steps_trans [OF Cons.IH run_portal_steps] show ?case by (simp add: run_portal_all_def)
qed

lemma revoked_stays: "team_steps d d' \<Longrightarrow> revoked h d \<Longrightarrow> revoked h d'"
  by (induction rule: team_steps.induct) (auto simp: team_step_def)

definition team_ok :: "id set \<Rightarrow> db \<Rightarrow> bool" where
  "team_ok old d \<longleftrightarrow> (\<forall>k \<in> invited d. may_invite (members d) k) \<and> accepted d \<subseteq> invited d \<and>
     (\<forall>k \<in> members d. fst k \<in> old \<or> (\<exists>by. (fst (snd k), fst (snd (snd k)), snd (snd (snd k)), by) \<in> accepted d))"

lemma may_invite_mono: "may_invite us k \<Longrightarrow> us \<subseteq> us' \<Longrightarrow> may_invite us' k"
  by (fastforce simp: may_invite_def split: prod.splits option.splits)

lemma accepted_invited: "accepted d \<subseteq> invited d"
  by (auto simp: accepted_def invited_def)

lemma team_ok_steps: "team_steps d d' \<Longrightarrow> team_ok old d \<Longrightarrow> team_ok old d'"
proof (induction rule: team_steps.induct)
  case none
  then show ?case .
next
  case (more d d1 d2)
  then have ok: "team_ok old d1" and step: "team_step d1 d2" by auto
  have mem: "members d1 \<subseteq> members d2" "accepted d1 \<subseteq> accepted d2" using step by (auto simp: team_step_def)
  have "may_invite (members d2) k" if "k \<in> invited d2" for k
  proof -
    from that step have "k \<in> invited d1 \<or> may_invite (members d1) k" by (auto simp: team_step_def)
    then have "may_invite (members d1) k" using ok by (auto simp: team_ok_def)
    then show ?thesis using mem(1) by (rule may_invite_mono)
  qed
  moreover have "fst k \<in> old \<or> (\<exists>by. (fst (snd k), fst (snd (snd k)), snd (snd (snd k)), by) \<in> accepted d2)" if "k \<in> members d2" for k
  proof (cases "k \<in> members d1")
    case True
    with ok mem(2) show ?thesis unfolding team_ok_def by blast
  next
    case False
    with step that show ?thesis unfolding team_step_def by blast
  qed
  ultimately show ?case using accepted_invited unfolding team_ok_def by blast
qed

text \<open>C38. Signing out is final: once a session was ended by its user, its token is refused, whatever
  anybody does in the portal afterwards.\<close>

theorem ended_session_is_refused:
  assumes "portal_guard au now header d = Inr (auth, d1)"
    and "(c', d2) = run_portal_all au ops (c, portal_logout now1 auth d1)"
  shows "portal_guard au now2 header d2 = Inl (ApiError ''unauthorized'' 401)"
proof -
  let ?h = "au_sha256 au (bearer_token header)"
  from assms(1) obtain s where s: "session_of ?h d = Some s" "pa_session auth = se_id s" "d1 = seen_session now s d"
    by (auto simp: portal_guard_def Let_def session_of_def split: if_splits option.splits)
  have "session_of ?h d1 = Some (if 60000 < now - se_lastSeenAt s then s\<lparr>se_lastSeenAt := now\<rparr> else s)"
    using s(1) by (simp add: s(3) seen_session_def session_of_def find_update_where)
  then obtain s1 where s1: "session_of ?h d1 = Some s1" "se_id s1 = se_id s" by (cases "60000 < now - se_lastSeenAt s") auto
  have "session_of ?h (portal_logout now1 auth d1) = Some (if se_revokedAt s1 = None then s1\<lparr>se_revokedAt := Some now1\<rparr> else s1)"
    using s1 by (simp add: portal_logout_def session_of_def find_update_where s(2))
  then have "revoked ?h (portal_logout now1 auth d1)" by (auto simp: revoked_def)
  then have "revoked ?h (snd (run_portal_all au ops (c, portal_logout now1 auth d1)))"
    using revoked_stays [OF run_portal_all_steps [of "(c, portal_logout now1 auth d1)" au ops]] by simp
  with assms(2) have "revoked ?h d2" by (metis snd_conv)
  then show ?thesis
    by (auto simp: portal_guard_def Let_def revoked_def session_of_def session_valid_def split: option.splits)
qed

text \<open>C39. A merchant's team grows by invitation only. After any portal requests, every user who was not
  there before holds the role, the merchant and the address of an invitation that was accepted, and
  that invitation came from the platform or from a user of the same merchant who may manage it: not
  from support, and for a new owner from an owner.\<close>

theorem team_grows_by_invitation:
  assumes "invitations d = []" and "(c', d') = run_portal_all au ops (c, d)"
  shows "list_all (\<lambda>u. us_id u \<in> us_id ` set (merchantUsers d) \<or>
    list_ex (\<lambda>v. iv_acceptedAt v \<noteq> None \<and> iv_merchant v = us_merchant u \<and> iv_email v = us_email u \<and> iv_role v = us_role u \<and>
      (iv_invitedBy v = None \<or> list_ex (\<lambda>w. iv_invitedBy v = Some (us_id w) \<and> us_merchant w = us_merchant u \<and>
         us_role w \<noteq> Role_support \<and> (us_role w = Role_owner \<or> \<not> us_role u = Role_owner)) (merchantUsers d')))
      (invitations d')) (merchantUsers d')"
proof -
  have "team_ok (us_id ` set (merchantUsers d)) d" using assms(1) by (force simp: team_ok_def invited_def accepted_def members_def member_key_def)
  from team_ok_steps [OF run_portal_all_steps [of "(c, d)" au ops]] this assms(2)
  have ok: "team_ok (us_id ` set (merchantUsers d)) d'" by (metis snd_conv)
  show ?thesis unfolding list_all_iff
  proof (intro ballI)
    fix u assume u: "u \<in> set (merchantUsers d')"
    then have "member_key u \<in> members d'" by (simp add: members_def)
    with ok have "us_id u \<in> us_id ` set (merchantUsers d) \<or> (\<exists>by. (us_merchant u, us_email u, us_role u, by) \<in> accepted d')"
      by (force simp: team_ok_def member_key_def)
    then show "us_id u \<in> us_id ` set (merchantUsers d) \<or>
    list_ex (\<lambda>v. iv_acceptedAt v \<noteq> None \<and> iv_merchant v = us_merchant u \<and> iv_email v = us_email u \<and> iv_role v = us_role u \<and>
      (iv_invitedBy v = None \<or> list_ex (\<lambda>w. iv_invitedBy v = Some (us_id w) \<and> us_merchant w = us_merchant u \<and>
         us_role w \<noteq> Role_support \<and> (us_role w = Role_owner \<or> \<not> us_role u = Role_owner)) (merchantUsers d')))
      (invitations d')"
    proof
      assume "\<exists>by. (us_merchant u, us_email u, us_role u, by) \<in> accepted d'"
      then obtain by' where inviter: "(us_merchant u, us_email u, us_role u, by') \<in> accepted d'" by blast
      from inviter obtain v where v: "v \<in> set (invitations d')" "iv_acceptedAt v \<noteq> None" "iv_merchant v = us_merchant u" "iv_email v = us_email u"
        "iv_role v = us_role u" "iv_invitedBy v = by'" by (auto simp: accepted_def invite_key_def)
      from inviter accepted_invited ok have "may_invite (members d') (us_merchant u, us_email u, us_role u, by')" by (auto simp: team_ok_def)
      then have "by' = None \<or> list_ex (\<lambda>w. by' = Some (us_id w) \<and> us_merchant w = us_merchant u \<and>
         us_role w \<noteq> Role_support \<and> (us_role w = Role_owner \<or> \<not> us_role u = Role_owner)) (merchantUsers d')"
        by (cases by') (auto simp: may_invite_def members_def member_key_def list_ex_iff)
      with v have "list_ex (\<lambda>v. iv_acceptedAt v \<noteq> None \<and> iv_merchant v = us_merchant u \<and> iv_email v = us_email u \<and> iv_role v = us_role u \<and>
      (iv_invitedBy v = None \<or> list_ex (\<lambda>w. iv_invitedBy v = Some (us_id w) \<and> us_merchant w = us_merchant u \<and>
         us_role w \<noteq> Role_support \<and> (us_role w = Role_owner \<or> \<not> us_role u = Role_owner)) (merchantUsers d'))) (invitations d')"
        by (auto simp: list_ex_iff [of _ "invitations d'"])
      then show ?thesis by (rule disjI2)
    qed simp
  qed
qed

definition demo_portal_crypto :: auth_crypto where
  "demo_portal_crypto = \<lparr>au_sha256 = (\<lambda>s. s), au_hash = (\<lambda>s. s), au_verify = (=)\<rparr>"

definition demo_portal_db :: db where
  "demo_portal_db = empty_db\<lparr>next_id := 9, merchants := [\<lparr>me_id = 7, me_slug = ''m'', me_name = ''M'', me_status = M_active, me_createdAt = 0\<rparr>],
     merchantUsers := [\<lparr>us_id = 4, us_merchant = 7, us_email = ''o@m'', us_name = ''O'', us_passwordHash = ''pw'', us_role = Role_owner,
       us_status = H_active, us_lastLoginAt = None, us_createdAt = 0\<rparr>]\<rparr>"

definition demo_portal_ops :: "portal_op list" where
  "demo_portal_ops = [Portal_login 1 ''O@m'' ''pw'' None None ''mps_1'',
     Portal_act 2 (Some ''Bearer mps_1'') (Act_invite ''a@m'' Role_admin ''mi_1''),
     Portal_accept 3 ''mi_1'' ''Ann'' ''secret'' ''mps_2'', Portal_accept 4 ''mi_1'' ''Eve'' ''secret'' ''mps_3'',
     Portal_act 5 (Some ''Bearer mps_2'') (Act_invite ''b@m'' Role_owner ''mi_2'')]"

theorem team_grows_by_invitation_witness:
  "case run_portal_all demo_portal_crypto demo_portal_ops (Map.empty, demo_portal_db) of (c, d) \<Rightarrow>
     map us_role (merchantUsers d) = [Role_owner, Role_admin] \<and>
     list_all (\<lambda>u. us_id u = 4 \<or> list_ex (\<lambda>v. iv_acceptedAt v \<noteq> None \<and> iv_role v = us_role u) (invitations d)) (merchantUsers d)"
proof -
  obtain c d where run: "(c, d) = run_portal_all demo_portal_crypto demo_portal_ops (Map.empty, demo_portal_db)" by (metis surj_pair)
  have none: "invitations demo_portal_db = []" and old: "us_id ` set (merchantUsers demo_portal_db) = {4}"
    by (simp_all add: demo_portal_db_def empty_db_def)
  have "map us_role (merchantUsers (snd (run_portal_all demo_portal_crypto demo_portal_ops (Map.empty, demo_portal_db)))) = [Role_owner, Role_admin]"
    by code_simp
  moreover have "list_all (\<lambda>u. us_id u = 4 \<or> list_ex (\<lambda>v. iv_acceptedAt v \<noteq> None \<and> iv_role v = us_role u) (invitations d)) (merchantUsers d)"
    using team_grows_by_invitation [OF none run] unfolding old list_all_iff list_ex_iff by blast
  ultimately show ?thesis unfolding run [symmetric] by simp
qed

theorem ended_session_is_refused_witness:
  "case run_portal_all demo_portal_crypto (take 1 demo_portal_ops) (Map.empty, demo_portal_db) of (c, d) \<Rightarrow>
     (case portal_guard demo_portal_crypto 2 (Some ''Bearer mps_1'') d of
        Inr (auth, d1) \<Rightarrow> portal_guard demo_portal_crypto 4 (Some ''Bearer mps_1'') (portal_logout 3 auth d1) = Inl (ApiError ''unauthorized'' 401)
      | Inl e \<Rightarrow> False)"
proof -
  define d where "d = snd (run_portal_all demo_portal_crypto (take 1 demo_portal_ops) (Map.empty, demo_portal_db))"
  have "\<not> isl (portal_guard demo_portal_crypto 2 (Some ''Bearer mps_1'') d)" unfolding d_def by code_simp
  then obtain auth d1 where g: "portal_guard demo_portal_crypto 2 (Some ''Bearer mps_1'') d = Inr (auth, d1)"
    by (cases "portal_guard demo_portal_crypto 2 (Some ''Bearer mps_1'') d") auto
  have run: "(Map.empty, portal_logout 3 auth d1) = run_portal_all demo_portal_crypto [] (Map.empty, portal_logout 3 auth d1)"
    by (simp add: run_portal_all_def)
  obtain c where cd: "run_portal_all demo_portal_crypto (take 1 demo_portal_ops) (Map.empty, demo_portal_db) = (c, d)"
    by (metis d_def surjective_pairing)
  show ?thesis unfolding cd using ended_session_is_refused [OF g run, of 4] g by simp
qed

end
