(* ===== verification/StaffAccess.thy ===== *)
theory StaffAccess
  imports Portal
begin

text \<open>
  Platform staff, from \<open>apps/api/src/admin/platform-auth.service.ts\<close> and the guards
  \<open>admin.guard.ts\<close>, \<open>password-reauth.guard.ts\<close> and \<open>platform-write.guard.ts\<close>: sessions,
  single-use tokens for sensitive actions, and the break-glass service token.
\<close>

declare split_paired_All [simp del] split_paired_Ex [simp del]

datatype staff_kind = By_session id id | By_service \<comment> \<open>session and staff member, or the break-glass token\<close>

record staff_auth =
  xa_kind :: staff_kind
  xa_email :: "string option"
  xa_name :: string
  xa_role :: staff_role

definition staff_id_text :: "staff_auth \<Rightarrow> string" where
  "staff_id_text auth = (case xa_kind auth of By_service \<Rightarrow> ''break-glass-service'' | By_session s i \<Rightarrow> nat_to_digits i)"

section \<open>Sessions\<close>

record staff_session_view =
  sw_token :: string
  sw_expiresAt :: time
  sw_staff :: "id \<times> string \<times> string \<times> staff_role"

definition staff_password_ok :: "auth_crypto \<Rightarrow> platform_staff option \<Rightarrow> string \<Rightarrow> platform_staff outcome" where
  "staff_password_ok au s password = (case s of
       None \<Rightarrow> Inl (ApiError ''invalid_credentials'' 401)
     | Some x \<Rightarrow> if sf_status x = H_active \<and> au_verify au (sf_passwordHash x) password then Inr x
         else Inl (ApiError ''invalid_credentials'' 401))"

definition staff_sign_in :: "auth_crypto \<Rightarrow> time \<Rightarrow> string \<Rightarrow> platform_staff \<Rightarrow> db \<Rightarrow> (staff_session_view \<times> db) outcome" where
  "staff_sign_in au now token x d =
     (if list_ex (\<lambda>s. ps_tokenHash s = au_sha256 au token) (staffSessions d) then unique_violation
      else let s = \<lparr>ps_id = next_id d, ps_staff = sf_id x, ps_tokenHash = au_sha256 au token,
                     ps_expiresAt = now + 12 * 60 * 60000, ps_lastSeenAt = now, ps_revokedAt = None\<rparr>
        in Inr (\<lparr>sw_token = token, sw_expiresAt = ps_expiresAt s, sw_staff = (sf_id x, sf_email x, sf_name x, sf_role x)\<rparr>,
             log_audit None ''platform_staff'' (nat_to_digits (sf_id x)) ''admin.login'' ''platform_session'' (ps_id s) None
               (d\<lparr>staffSessions := staffSessions d @ [s], next_id := Suc (next_id d),
                  staff := update_where (\<lambda>y. sf_id y = sf_id x) (\<lambda>y. y\<lparr>sf_lastLoginAt := Some now\<rparr>) (staff d)\<rparr>)))"

definition staff_login ::
  "auth_crypto \<Rightarrow> time \<Rightarrow> string \<Rightarrow> string \<Rightarrow> string option \<Rightarrow> string \<Rightarrow> cache \<Rightarrow> db \<Rightarrow> (staff_session_view \<times> db) outcome \<times> cache" where
  "staff_login au now rawEmail password ip token c d =
     (let email = normalizePortalEmail rawEmail;
          key = login_throttle au ''auth:platform:'' ip email;
          (n, c1) = cache_increment now key 600 c
      in if 8 < n then (Inl (ApiError ''too_many_attempts'' 429), c1)
         else case and_then (staff_password_ok au (find (\<lambda>x. sf_email x = email) (staff d)) password) (\<lambda>x. staff_sign_in au now token x d) of
             Inl e \<Rightarrow> (Inl e, c1)
           | Inr r \<Rightarrow> (Inr r, cache_delete key c1))"

definition staff_me :: "staff_auth \<Rightarrow> string \<times> string option \<times> string \<times> staff_role \<times> bool" where
  "staff_me auth = (staff_id_text auth, xa_email auth, xa_name auth, xa_role auth, xa_kind auth = By_service)"

definition staff_logout :: "time \<Rightarrow> staff_auth \<Rightarrow> db \<Rightarrow> db" where
  "staff_logout now auth d = (case xa_kind auth of
       By_service \<Rightarrow> d
     | By_session i _ \<Rightarrow> d\<lparr>staffSessions := update_where (\<lambda>s. ps_id s = i \<and> ps_revokedAt s = None)
         (\<lambda>s. s\<lparr>ps_revokedAt := Some now\<rparr>) (staffSessions d)\<rparr>)"

definition reauth_throttle :: "staff_auth \<Rightarrow> string" where
  "reauth_throttle auth = ''auth:reauth:'' @ staff_id_text auth"

definition create_reauth :: "auth_crypto \<Rightarrow> time \<Rightarrow> id \<Rightarrow> string \<Rightarrow> db \<Rightarrow> ((string \<times> time) \<times> db) outcome" where
  "create_reauth au now session token d =
     (if list_ex (\<lambda>t. rt_tokenHash t = au_sha256 au token) (reauthTokens d) then unique_violation
      else let t = \<lparr>rt_session = session, rt_tokenHash = au_sha256 au token, rt_expiresAt = now + 5 * 60000, rt_usedAt = None\<rparr>
        in Inr ((token, rt_expiresAt t), d\<lparr>reauthTokens := reauthTokens d @ [t]\<rparr>))"

definition reauthenticate ::
  "auth_crypto \<Rightarrow> time \<Rightarrow> staff_auth \<Rightarrow> string \<Rightarrow> string \<Rightarrow> cache \<Rightarrow> db \<Rightarrow> ((string \<times> time) \<times> db) outcome \<times> cache" where
  "reauthenticate au now auth password token c d = (case xa_kind auth of
       By_service \<Rightarrow> (Inl (ApiError ''reauth_not_applicable'' 409), c)
     | By_session session i \<Rightarrow>
         let key = reauth_throttle auth;
             (n, c1) = cache_increment now key 600 c
         in if 8 < n then (Inl (ApiError ''too_many_attempts'' 429), c1)
            else case and_then (staff_password_ok au (find (\<lambda>x. sf_id x = i) (staff d)) password)
                   (\<lambda>_. create_reauth au now session token d) of
                Inl e \<Rightarrow> (Inl e, c1)
              | Inr r \<Rightarrow> (Inr r, cache_delete key c1))"

section \<open>Guards\<close>

text \<open>The value of \<open>ADMIN_API_TOKEN\<close> is an argument; comparing in constant time is comparing.\<close>

definition admin_guard :: "auth_crypto \<Rightarrow> string \<Rightarrow> time \<Rightarrow> string option \<Rightarrow> db \<Rightarrow> (staff_auth \<times> db) outcome" where
  "admin_guard au expected now header d =
     (let provided = bearer_token header;
          refused = Inl (ApiError ''unauthorized'' 401)
      in if expected \<noteq> [] \<and> provided = expected
         then Inr (\<lparr>xa_kind = By_service, xa_email = None, xa_name = ''Break-glass service'', xa_role = Staff_admin\<rparr>, d)
         else if \<not> starts_with provided ''pas_'' then refused
         else case find (\<lambda>s. ps_tokenHash s = au_sha256 au provided) (staffSessions d) of
             None \<Rightarrow> refused
           | Some s \<Rightarrow> (case find (\<lambda>x. sf_id x = ps_staff s) (staff d) of
               None \<Rightarrow> refused
             | Some x \<Rightarrow>
                 if ps_revokedAt s = None \<and> now < ps_expiresAt s \<and> sf_status x = H_active
                 then Inr (\<lparr>xa_kind = By_session (ps_id s) (sf_id x), xa_email = Some (sf_email x), xa_name = sf_name x, xa_role = sf_role x\<rparr>,
                   if 60000 < now - ps_lastSeenAt s
                   then d\<lparr>staffSessions := update_where (\<lambda>y. ps_id y = ps_id s) (\<lambda>y. y\<lparr>ps_lastSeenAt := now\<rparr>) (staffSessions d)\<rparr> else d)
                 else refused))"

definition write_guard :: "string \<Rightarrow> staff_auth \<Rightarrow> unit outcome" where
  "write_guard method auth = (if method = ''GET'' \<or> xa_kind auth = By_service \<or> xa_role auth \<in> {Staff_admin, Staff_operator}
     then Inr () else Inl (ApiError ''forbidden'' 403))"

definition claims_token :: "auth_crypto \<Rightarrow> time \<Rightarrow> id \<Rightarrow> string \<Rightarrow> reauth_token \<Rightarrow> bool" where
  "claims_token au now session token t \<longleftrightarrow> rt_tokenHash t = au_sha256 au token \<and> rt_session t = session \<and>
     rt_usedAt t = None \<and> now < rt_expiresAt t"

text \<open>A break-glass request leaves an audit row with its reason; a session spends a token.\<close>

definition reauth_guard ::
  "auth_crypto \<Rightarrow> time \<Rightarrow> staff_auth \<Rightarrow> string option \<Rightarrow> string option \<Rightarrow> string \<Rightarrow> db \<Rightarrow> db outcome" where
  "reauth_guard au now auth reasonHeader tokenHeader url d = (case xa_kind auth of
       By_service \<Rightarrow>
         (let reason = (case reasonHeader of None \<Rightarrow> [] | Some r \<Rightarrow> trim r)
          in if length reason < 10 then Inl (ApiError ''break_glass_reason_required'' 403)
             else Inr (log_text_audit ''platform_service'' (staff_id_text auth) ''break_glass.sensitive_request'' ''admin_route''
                    (take 128 url) (Some (take 1000 reason)) d))
     | By_session session _ \<Rightarrow>
         (let token = or_else tokenHeader []
          in if \<not> starts_with token ''par_'' then Inl (ApiError ''reauthentication_required'' 403)
             else if length (filter (claims_token au now session token) (reauthTokens d)) \<noteq> 1
               then Inl (ApiError ''reauthentication_required'' 403)
             else Inr (d\<lparr>reauthTokens := update_where (claims_token au now session token) (\<lambda>t. t\<lparr>rt_usedAt := Some now\<rparr>) (reauthTokens d)\<rparr>)))"

end
