(* ===== verification/StaffSafety.thy ===== *)
theory StaffSafety
  imports StaffAccess
begin

text \<open>
  What re-authentication guarantees over any run of staff requests: a token exists only because a
  password was given, and it pays for one sensitive action.
\<close>

declare split_paired_All [simp del] split_paired_Ex [simp del]

section \<open>Any run of staff requests\<close>

datatype access_op =
    Staff_login time string string "string option" string
  | Staff_logout time staff_auth
  | Staff_reauth time staff_auth string string
  | Staff_request string time "string option"
  | Staff_sensitive time staff_auth "string option" "string option" string

definition keep_db :: "db \<Rightarrow> ('a \<times> db) outcome \<times> cache \<Rightarrow> cache \<times> db" where
  "keep_db d r = (snd r, case fst r of Inr (_, d') \<Rightarrow> d' | Inl _ \<Rightarrow> d)"

fun run_access :: "auth_crypto \<Rightarrow> access_op \<Rightarrow> cache \<times> db \<Rightarrow> cache \<times> db" where
  "run_access au (Staff_login now email password ip token) (c, d) = keep_db d (staff_login au now email password ip token c d)"
| "run_access au (Staff_logout now auth) (c, d) = (c, staff_logout now auth d)"
| "run_access au (Staff_reauth now auth password token) (c, d) = keep_db d (reauthenticate au now auth password token c d)"
| "run_access au (Staff_request expected now header) (c, d) = (c, case admin_guard au expected now header d of Inr (_, d') \<Rightarrow> d' | Inl _ \<Rightarrow> d)"
| "run_access au (Staff_sensitive now auth reason token url) (c, d) =
     (c, case reauth_guard au now auth reason token url d of Inr d' \<Rightarrow> d' | Inl _ \<Rightarrow> d)"

definition run_access_all :: "auth_crypto \<Rightarrow> access_op list \<Rightarrow> cache \<times> db \<Rightarrow> cache \<times> db" where
  "run_access_all au = fold (run_access au)"

text \<open>What an operation does to the tokens and to the staff.\<close>

definition staff_keys :: "db \<Rightarrow> (id \<times> string \<times> human_status) list" where
  "staff_keys d = map (\<lambda>x. (sf_id x, sf_passwordHash x, sf_status x)) (staff d)"

definition issued :: "auth_crypto \<Rightarrow> (id \<times> string \<times> human_status) list \<Rightarrow> reauth_token \<Rightarrow> access_op \<Rightarrow> bool" where
  "issued au keys t op \<longleftrightarrow> (case op of
       Staff_reauth now auth password token \<Rightarrow> (case xa_kind auth of By_session s i \<Rightarrow>
           s = rt_session t \<and> rt_tokenHash t = au_sha256 au token \<and> rt_expiresAt t = now + 300000 \<and>
           list_ex (\<lambda>(j, h, st). j = i \<and> st = H_active \<and> au_verify au h password) keys
         | By_service \<Rightarrow> False)
     | _ \<Rightarrow> False)"

definition spend :: "auth_crypto \<Rightarrow> time \<Rightarrow> id \<Rightarrow> string \<Rightarrow> reauth_token list \<Rightarrow> reauth_token list" where
  "spend au now s token = update_where (claims_token au now s token) (\<lambda>t. t\<lparr>rt_usedAt := Some now\<rparr>)"

lemma staff_login_frame:
  "reauthTokens (snd (keep_db d (staff_login au now email password ip token c d))) = reauthTokens d \<and>
   staff_keys (snd (keep_db d (staff_login au now email password ip token c d))) = staff_keys d"
proof -
  have "reauthTokens d' = reauthTokens d \<and> staff_keys d' = staff_keys d" if "staff_sign_in au now token x d = Inr (v, d')" for x v d'
    using that by (auto simp: staff_sign_in_def unique_violation_def Let_def log_audit_def staff_keys_def map_update_where_frame split: if_splits)
  then show ?thesis
    by (auto simp: keep_db_def staff_login_def Let_def tx_simps split: prod.split sum.split)
qed

lemma reauthenticate_effect:
  fixes au now auth password token c d
  defines "d' \<equiv> snd (keep_db d (reauthenticate au now auth password token c d))"
  shows "staff_keys d' = staff_keys d \<and> (reauthTokens d' = reauthTokens d \<or>
    (\<exists>t. reauthTokens d' = reauthTokens d @ [t] \<and> issued au (staff_keys d) t (Staff_reauth now auth password token) \<and>
       rt_usedAt t = None \<and> \<not> list_ex (\<lambda>x. rt_tokenHash x = rt_tokenHash t) (reauthTokens d)))"
proof (cases "xa_kind auth")
  case By_service
  then show ?thesis by (simp add: d'_def keep_db_def reauthenticate_def)
next
  case (By_session s i)
  show ?thesis
  proof (cases "fst (reauthenticate au now auth password token c d)")
    case (Inl e)
    then show ?thesis by (simp add: d'_def keep_db_def)
  next
    case (Inr r)
    with By_session obtain x where x: "staff_password_ok au (find (\<lambda>x. sf_id x = i) (staff d)) password = Inr x"
      and r: "create_reauth au now s token d = Inr r"
      by (auto simp: reauthenticate_def Let_def tx_simps split: prod.splits if_splits sum.splits)
    from x have "x \<in> set (staff d)" "sf_id x = i" "sf_status x = H_active" "au_verify au (sf_passwordHash x) password"
      by (auto simp: staff_password_ok_def split: option.splits if_splits dest: find_SomeD)
    then have keys: "list_ex (\<lambda>(j, h, st). j = i \<and> st = H_active \<and> au_verify au h password) (staff_keys d)"
      by (force simp: staff_keys_def list_ex_iff)
    from r have fresh: "\<not> list_ex (\<lambda>t. rt_tokenHash t = au_sha256 au token) (reauthTokens d)"
      and d': "snd r = d\<lparr>reauthTokens := reauthTokens d @ [\<lparr>rt_session = s, rt_tokenHash = au_sha256 au token,
          rt_expiresAt = now + 300000, rt_usedAt = None\<rparr>]\<rparr>"
      by (auto simp: create_reauth_def unique_violation_def Let_def split: if_splits)
    have "d' = snd r" using Inr by (simp add: d'_def keep_db_def split: prod.split)
    then have "reauthTokens d' = reauthTokens d @ [\<lparr>rt_session = s, rt_tokenHash = au_sha256 au token,
          rt_expiresAt = now + 300000, rt_usedAt = None\<rparr>]" and "staff_keys d' = staff_keys d"
      by (simp_all add: d' staff_keys_def)
    with keys fresh By_session show ?thesis by (simp add: issued_def)
  qed
qed

lemma reauth_guard_effect:
  assumes "reauth_guard au now auth reason token url d = Inr d'"
  shows "staff_keys d' = staff_keys d \<and> (reauthTokens d' = reauthTokens d \<or>
    (\<exists>s tok. reauthTokens d' = spend au now s tok (reauthTokens d)))"
proof (cases "xa_kind auth")
  case By_service
  with assms show ?thesis by (auto simp: reauth_guard_def Let_def log_text_audit_def staff_keys_def split: if_splits)
next
  case (By_session s i)
  with assms have "d' = d\<lparr>reauthTokens := spend au now s (or_else token []) (reauthTokens d)\<rparr>"
    by (simp add: reauth_guard_def spend_def Let_def split: if_splits)
  then show ?thesis by (auto simp: staff_keys_def)
qed

lemma admin_guard_frame:
  assumes "admin_guard au expected now header d = Inr (a, d')"
  shows "reauthTokens d' = reauthTokens d \<and> staff_keys d' = staff_keys d"
  using assms by (auto simp: admin_guard_def Let_def staff_keys_def split: if_splits option.splits)

text \<open>A token changes only by being issued or by being spent.\<close>

lemma run_access_effect:
  assumes "run_access au op (c, d) = (c', d')"
  shows "staff_keys d' = staff_keys d \<and> (reauthTokens d' = reauthTokens d \<or>
    (\<exists>now s tok. reauthTokens d' = spend au now s tok (reauthTokens d)) \<or>
    (\<exists>t. reauthTokens d' = reauthTokens d @ [t] \<and> issued au (staff_keys d) t op \<and>
       rt_usedAt t = None \<and> \<not> list_ex (\<lambda>x. rt_tokenHash x = rt_tokenHash t) (reauthTokens d)))"
proof (cases op)
  case (Staff_login now email password ip token)
  with assms have "d' = snd (keep_db d (staff_login au now email password ip token c d))" by (metis run_access.simps(1) snd_conv)
  then show ?thesis using staff_login_frame by simp
next
  case (Staff_logout now auth)
  with assms show ?thesis by (auto simp: staff_logout_def staff_keys_def split: staff_kind.split)
next
  case (Staff_reauth now auth password token)
  with assms have "d' = snd (keep_db d (reauthenticate au now auth password token c d))" by (metis run_access.simps(3) snd_conv)
  then show ?thesis using reauthenticate_effect [of d au now auth password token c] Staff_reauth by blast
next
  case (Staff_request expected now header)
  with assms admin_guard_frame [of au expected now header d] show ?thesis by (force split: sum.splits prod.splits)
next
  case (Staff_sensitive now auth reason token url)
  with assms reauth_guard_effect [of au now auth reason token url d] show ?thesis by (auto split: sum.splits)
qed

section \<open>A token is spent once\<close>

definition tokens_ok :: "auth_crypto \<Rightarrow> (id \<times> string \<times> human_status) list \<Rightarrow> access_op list \<Rightarrow> db \<Rightarrow> bool" where
  "tokens_ok au keys ops d \<longleftrightarrow> staff_keys d = keys \<and> distinct (map rt_tokenHash (reauthTokens d)) \<and>
     list_all (\<lambda>t. list_ex (issued au keys t) ops) (reauthTokens d)"

lemma spend_frame:
  "map rt_tokenHash (spend au now s tok ts) = map rt_tokenHash ts"
  "list_all (\<lambda>t. list_ex (issued au keys t) ops) (spend au now s tok ts) = list_all (\<lambda>t. list_ex (issued au keys t) ops) ts"
proof -
  have same: "issued au keys (if p t then t\<lparr>rt_usedAt := u\<rparr> else t) = issued au keys t" for p t u
  proof (rule ext)
    fix op show "issued au keys (if p t then t\<lparr>rt_usedAt := u\<rparr> else t) op = issued au keys t op"
      by (cases "p t"; cases op) (simp_all add: issued_def split: staff_kind.split)
  qed
  show "map rt_tokenHash (spend au now s tok ts) = map rt_tokenHash ts" by (simp add: spend_def map_update_where_frame)
  show "list_all (\<lambda>t. list_ex (issued au keys t) ops) (spend au now s tok ts) = list_all (\<lambda>t. list_ex (issued au keys t) ops) ts"
    by (induction ts) (simp_all add: spend_def same)
qed

lemma tokens_ok_step:
  assumes "tokens_ok au keys ops d" and "run_access au op (c, d) = (c', d')"
  shows "tokens_ok au keys (ops @ [op]) d'"
proof -
  have more: "list_all (\<lambda>t. list_ex (issued au keys t) ops) ts \<Longrightarrow> list_all (\<lambda>t. list_ex (issued au keys t) (ops @ [op])) ts" for ts
    by (simp add: list_all_iff)
  from assms(1) have ok: "staff_keys d = keys" "distinct (map rt_tokenHash (reauthTokens d))"
    "list_all (\<lambda>t. list_ex (issued au keys t) (ops @ [op])) (reauthTokens d)"
    using more unfolding tokens_ok_def by blast+
  from run_access_effect [OF assms(2)] consider "reauthTokens d' = reauthTokens d"
    | now s tok where "reauthTokens d' = spend au now s tok (reauthTokens d)"
    | t where "reauthTokens d' = reauthTokens d @ [t]" "issued au keys t op"
        "\<not> list_ex (\<lambda>x. rt_tokenHash x = rt_tokenHash t) (reauthTokens d)"
    unfolding ok(1) by blast
  moreover have "staff_keys d' = keys" using run_access_effect [OF assms(2)] ok(1) by simp
  ultimately show ?thesis
  proof cases
    case 1
    then show ?thesis using ok \<open>staff_keys d' = keys\<close> unfolding tokens_ok_def 1 by blast
  next
    case 2
    then show ?thesis using ok \<open>staff_keys d' = keys\<close> unfolding tokens_ok_def 2 spend_frame by blast
  next
    case 3
    have "rt_tokenHash t \<notin> set (map rt_tokenHash (reauthTokens d))" using 3(3) by (auto simp: list_ex_iff)
    moreover have "list_ex (issued au keys t) (ops @ [op])" using 3(2) by simp
    ultimately show ?thesis using ok \<open>staff_keys d' = keys\<close> unfolding tokens_ok_def 3(1) by simp
  qed
qed

lemma tokens_ok_run: "tokens_ok au keys ops0 (snd cd) \<Longrightarrow> tokens_ok au keys (ops0 @ ops) (snd (run_access_all au ops cd))"
proof (induction ops arbitrary: ops0 cd)
  case Nil
  then show ?case by (simp add: run_access_all_def)
next
  case (Cons op ops)
  have "tokens_ok au keys (ops0 @ [op]) (snd (run_access au op cd))"
    using tokens_ok_step [of au keys ops0 "snd cd" op "fst cd"] Cons.prems by (cases "run_access au op cd") simp
  from Cons.IH [OF this] show ?case by (simp add: run_access_all_def)
qed

definition spent :: "string \<Rightarrow> reauth_token list \<Rightarrow> bool" where
  "spent h ts \<longleftrightarrow> list_ex (\<lambda>t. rt_tokenHash t = h) ts \<and> list_all (\<lambda>t. rt_tokenHash t = h \<longrightarrow> rt_usedAt t \<noteq> None) ts"

lemma spent_step:
  assumes "spent h (reauthTokens d)" and "run_access au op (c, d) = (c', d')"
  shows "spent h (reauthTokens d')"
proof -
  have some: "list_ex (\<lambda>t. rt_tokenHash t = h) (spend au now s tok ts) = list_ex (\<lambda>t. rt_tokenHash t = h) ts" for now s tok ts
    by (induction ts) (simp_all add: spend_def)
  have all: "list_all (\<lambda>t. rt_tokenHash t = h \<longrightarrow> rt_usedAt t \<noteq> None) ts \<Longrightarrow>
      list_all (\<lambda>t. rt_tokenHash t = h \<longrightarrow> rt_usedAt t \<noteq> None) (spend au now s tok ts)" for now s tok ts
    unfolding spend_def by (rule list_all_update_where) simp_all
  have keep: "spent h (spend au now s tok ts)" if "spent h ts" for now s tok ts
    using that all unfolding spent_def some by blast
  from run_access_effect [OF assms(2)] consider "reauthTokens d' = reauthTokens d"
    | now s tok where "reauthTokens d' = spend au now s tok (reauthTokens d)"
    | t where "reauthTokens d' = reauthTokens d @ [t]" "\<not> list_ex (\<lambda>x. rt_tokenHash x = rt_tokenHash t) (reauthTokens d)"
    by blast
  then show ?thesis using assms(1) keep by cases (auto simp: spent_def)
qed

lemma spent_run: "spent h (reauthTokens (snd cd)) \<Longrightarrow> spent h (reauthTokens (snd (run_access_all au ops cd)))"
proof (induction ops arbitrary: cd)
  case Nil
  then show ?case by (simp add: run_access_all_def)
next
  case (Cons op ops)
  have "spent h (reauthTokens (snd (run_access au op cd)))"
    using spent_step [of h "snd cd" au op "fst cd"] Cons.prems by (cases "run_access au op cd") simp
  from Cons.IH [OF this] show ?case by (simp add: run_access_all_def)
qed

lemma spent_refused:
  assumes "spent (au_sha256 au token) (reauthTokens d)"
  shows "reauth_guard au now (auth\<lparr>xa_kind := By_session s i\<rparr>) reason (Some token) url d = Inl (ApiError ''reauthentication_required'' 403)"
proof -
  have "filter (claims_token au now s token) (reauthTokens d) = []"
    using assms by (auto simp: spent_def claims_token_def list_all_iff filter_empty_conv)
  then show ?thesis by (simp add: reauth_guard_def Let_def)
qed

lemma guard_claims:
  assumes "reauth_guard au now (auth\<lparr>xa_kind := By_session s i\<rparr>) reason (Some token) url d = Inr d'"
  obtains t where "t \<in> set (reauthTokens d)" "claims_token au now s token t" "reauthTokens d' = spend au now s token (reauthTokens d)"
proof -
  from assms have one: "length (filter (claims_token au now s token) (reauthTokens d)) = 1"
    and d': "reauthTokens d' = spend au now s token (reauthTokens d)"
    by (auto simp: reauth_guard_def spend_def Let_def split: if_splits)
  from one obtain t where "t \<in> set (filter (claims_token au now s token) (reauthTokens d))" by (cases "filter (claims_token au now s token) (reauthTokens d)") auto
  then show ?thesis using d' by (intro that [of t]) simp_all
qed

text \<open>C31. A sensitive action of a signed-in member of staff needs a password given for the same session
  less than five minutes before, and that password pays for one action only: whatever happens
  next, the same token is refused in every session.\<close>

theorem sensitive_action_needs_fresh_password:
  assumes "reauthTokens d = []" and "(c', d1) = run_access_all au ops (c, d)"
    and "reauth_guard au now (auth\<lparr>xa_kind := By_session s i\<rparr>) reason (Some token) url d1 = Inr d2"
  shows "list_ex (\<lambda>op. case op of
       Staff_reauth t a password tok \<Rightarrow> au_sha256 au tok = au_sha256 au token \<and> now < t + 300000 \<and>
         list_ex (\<lambda>x. xa_kind a = By_session s (sf_id x) \<and> sf_status x = H_active \<and> au_verify au (sf_passwordHash x) password) (staff d)
     | _ \<Rightarrow> False) ops \<and>
    reauth_guard au now' (auth'\<lparr>xa_kind := By_session s' i'\<rparr>) reason' (Some token) url' (snd (run_access_all au ops' (c'', d2))) =
      Inl (ApiError ''reauthentication_required'' 403)"
proof
  have "tokens_ok au (staff_keys d) [] d" using assms(1) by (simp add: tokens_ok_def)
  with tokens_ok_run [of au "staff_keys d" "[]" "(c, d)" ops] assms(2) have ok: "tokens_ok au (staff_keys d) ops d1"
    by (metis append_Nil snd_conv)
  from assms(3) obtain t where t: "t \<in> set (reauthTokens d1)" "claims_token au now s token t"
    and d2: "reauthTokens d2 = spend au now s token (reauthTokens d1)" by (rule guard_claims)
  from ok t(1) obtain op where op: "op \<in> set ops" "issued au (staff_keys d) t op"
    by (auto simp: tokens_ok_def list_all_iff list_ex_iff)
  from op(2) obtain t0 a password tok where a: "op = Staff_reauth t0 a password tok" by (auto simp: issued_def split: access_op.splits)
  with op(2) t(2) obtain x where "x \<in> set (staff d)" "xa_kind a = By_session s (sf_id x)" "sf_status x = H_active"
    "au_verify au (sf_passwordHash x) password" "au_sha256 au tok = au_sha256 au token" "now < t0 + 300000"
    by (auto simp: issued_def claims_token_def staff_keys_def list_ex_iff split: staff_kind.splits)
  with op(1) a show "list_ex (\<lambda>op. case op of
       Staff_reauth t a password tok \<Rightarrow> au_sha256 au tok = au_sha256 au token \<and> now < t + 300000 \<and>
         list_ex (\<lambda>x. xa_kind a = By_session s (sf_id x) \<and> sf_status x = H_active \<and> au_verify au (sf_passwordHash x) password) (staff d)
     | _ \<Rightarrow> False) ops" by (force simp: list_ex_iff)
  have "x = t" if "x \<in> set (reauthTokens d1)" "rt_tokenHash x = au_sha256 au token" for x
  proof (rule distinct_map_eq)
    show "distinct (map rt_tokenHash (reauthTokens d1))" using ok by (simp add: tokens_ok_def)
    show "rt_tokenHash x = rt_tokenHash t" using t(2) that(2) by (simp add: claims_token_def)
  qed (use that(1) t(1) in simp_all)
  then have claimed: "list_all (\<lambda>x. rt_tokenHash x = au_sha256 au token \<longrightarrow> claims_token au now s token x) (reauthTokens d1)"
    using t(2) by (auto simp: list_all_iff)
  have "list_all (\<lambda>x. rt_tokenHash x = au_sha256 au token \<longrightarrow> rt_usedAt x \<noteq> None) (spend au now s token ts)"
    if "list_all (\<lambda>x. rt_tokenHash x = au_sha256 au token \<longrightarrow> claims_token au now s token x) ts" for ts
    using that by (induction ts) (auto simp: spend_def)
  moreover have "au_sha256 au token \<in> set (map rt_tokenHash (spend au now s token (reauthTokens d1)))"
    using t unfolding spend_frame by (force simp: claims_token_def)
  ultimately have "spent (au_sha256 au token) (reauthTokens d2)"
    using claimed unfolding d2 spent_def by (auto simp: list_ex_iff)
  then have "spent (au_sha256 au token) (reauthTokens (snd (run_access_all au ops' (c'', d2))))" using spent_run [of _ "(c'', d2)"] by simp
  then show "reauth_guard au now' (auth'\<lparr>xa_kind := By_session s' i'\<rparr>) reason' (Some token) url' (snd (run_access_all au ops' (c'', d2))) =
      Inl (ApiError ''reauthentication_required'' 403)" by (rule spent_refused)
qed

definition demo_staff_crypto :: auth_crypto where
  "demo_staff_crypto = \<lparr>au_sha256 = (\<lambda>s. s), au_hash = (\<lambda>s. s), au_verify = (=)\<rparr>"

definition demo_staff_db :: db where
  "demo_staff_db = empty_db\<lparr>next_id := 9, staff := [\<lparr>sf_id = 4, sf_email = ''a@b'', sf_name = ''A'', sf_passwordHash = ''pw'',
     sf_role = Staff_operator, sf_status = H_active, sf_lastLoginAt = None\<rparr>]\<rparr>"

definition demo_staff_auth :: staff_auth where
  "demo_staff_auth = \<lparr>xa_kind = By_session 9 4, xa_email = Some ''a@b'', xa_name = ''A'', xa_role = Staff_operator\<rparr>"

definition demo_staff_ops :: "access_op list" where
  "demo_staff_ops = [Staff_login 1 '' A@b '' ''pw'' None ''pas_1'', Staff_reauth 2 demo_staff_auth ''bad'' ''par_1'',
     Staff_reauth 3 demo_staff_auth ''pw'' ''par_2'']"

theorem sensitive_action_needs_fresh_password_witness:
  "let cd = run_access_all demo_staff_crypto demo_staff_ops (Map.empty, demo_staff_db) in
   case reauth_guard demo_staff_crypto 4 demo_staff_auth None (Some ''par_2'') ''/x'' (snd cd) of
     Inr d2 \<Rightarrow> reauth_guard demo_staff_crypto 5 demo_staff_auth None (Some ''par_2'') ''/x'' d2 = Inl (ApiError ''reauthentication_required'' 403)
   | Inl e \<Rightarrow> False"
proof -
  define r where "r = run_access_all demo_staff_crypto demo_staff_ops (Map.empty, demo_staff_db)"
  have auth: "demo_staff_auth\<lparr>xa_kind := By_session 9 4\<rparr> = demo_staff_auth" by (simp add: demo_staff_auth_def)
  have "\<not> isl (reauth_guard demo_staff_crypto 4 demo_staff_auth None (Some ''par_2'') ''/x'' (snd r))" unfolding r_def by code_simp
  then obtain d2 where d2: "reauth_guard demo_staff_crypto 4 demo_staff_auth None (Some ''par_2'') ''/x'' (snd r) = Inr d2"
    by (cases "reauth_guard demo_staff_crypto 4 demo_staff_auth None (Some ''par_2'') ''/x'' (snd r)") auto
  have none: "reauthTokens demo_staff_db = []" by (simp add: demo_staff_db_def empty_db_def)
  have run: "(fst r, snd r) = run_access_all demo_staff_crypto demo_staff_ops (Map.empty, demo_staff_db)" by (simp add: r_def)
  have guard: "reauth_guard demo_staff_crypto 4 (demo_staff_auth\<lparr>xa_kind := By_session 9 4\<rparr>) None (Some ''par_2'') ''/x'' (snd r) = Inr d2"
    using d2 by (simp add: auth)
  have "reauth_guard demo_staff_crypto 5 (demo_staff_auth\<lparr>xa_kind := By_session 9 4\<rparr>) None (Some ''par_2'') ''/x''
      (snd (run_access_all demo_staff_crypto [] (Map.empty, d2))) = Inl (ApiError ''reauthentication_required'' 403)"
    using sensitive_action_needs_fresh_password [OF none run guard] by blast
  then show ?thesis unfolding Let_def r_def [symmetric] by (simp add: d2 auth run_access_all_def)
qed

end
