(* ===== verification/ApiAccess.thy ===== *)
theory ApiAccess
  imports Portal
begin

text \<open>
  The guards of the merchant API and of the device API, from
  \<open>apps/api/src/auth/merchant-auth.guard.ts\<close>, \<open>device-auth.guard.ts\<close> and
  \<open>device-ingress.guard.ts\<close>. What the process reads from its environment is an argument.
\<close>

declare split_paired_All [simp del] split_paired_Ex [simp del]

section \<open>Merchant API keys\<close>

record api_limits =
  al_attempts :: nat \<comment> \<open>\<open>MERCHANT_API_AUTH_ATTEMPTS_PER_MINUTE\<close>\<close>
  al_cacheSeconds :: int \<comment> \<open>\<open>MERCHANT_API_AUTH_CACHE_SECONDS\<close>\<close>
  al_rate :: nat \<comment> \<open>\<open>MERCHANT_API_RATE_LIMIT_PER_MINUTE\<close>\<close>

record api_auth =
  aa_merchant :: id
  aa_env :: environment
  aa_key :: id

definition unauthorized :: "'a outcome" where
  "unauthorized = Inl (ApiError ''unauthorized'' 401)"

definition key_prefix :: "string \<Rightarrow> string" where
  "key_prefix raw = takeWhile (\<lambda>c. c \<noteq> CHR ''.'') raw"

definition key_environment :: "string \<Rightarrow> environment option" where
  "key_environment prefix = (if starts_with prefix ''sk_test_'' then Some Test
     else if starts_with prefix ''sk_live_'' then Some Live else None)"

definition parse_key :: "string option \<Rightarrow> (string \<times> environment) outcome" where
  "parse_key header = (case header of
       None \<Rightarrow> unauthorized
     | Some h \<Rightarrow> if \<not> starts_with h ''Bearer '' then unauthorized
         else let raw = trim (drop 7 h) in
           (case key_environment (key_prefix raw) of
              None \<Rightarrow> unauthorized
            | Some env \<Rightarrow> if CHR ''.'' \<notin> set raw then unauthorized else Inr (raw, env)))"

definition find_key :: "string \<Rightarrow> environment \<Rightarrow> db \<Rightarrow> api_key outcome" where
  "find_key prefix env d = (case find (\<lambda>k. ak_prefix k = prefix) (apiKeys d) of
       None \<Rightarrow> unauthorized
     | Some k \<Rightarrow> (case find (\<lambda>m. me_id m = ak_merchant k) (merchants d) of
         None \<Rightarrow> unauthorized
       | Some m \<Rightarrow> if ak_revokedAt k = None \<and> ak_env k = env \<and> me_status m = M_active then Inr k else unauthorized))"

definition verification_key :: "auth_crypto \<Rightarrow> id \<Rightarrow> string \<Rightarrow> string" where
  "verification_key au i raw = nat_to_digits i @ '':'' @ au_sha256 au raw"

definition stamp_space :: string where "stamp_space = ''merchant-api-auth-ok:''"

text \<open>
  The secret is compared by \<open>argon2\<close>, unless the same credential is being compared for a request
  already in progress (\<open>active\<close> holds the key and the secret of each), whose result is shared. A
  comparison of one's own counts against the source and prefix first.
\<close>

definition verify_secret ::
  "auth_crypto \<Rightarrow> api_limits \<Rightarrow> (id \<times> string) list \<Rightarrow> time \<Rightarrow> string option \<Rightarrow> string \<Rightarrow> api_key \<Rightarrow> cache \<Rightarrow> bool outcome \<times> cache" where
  "verify_secret au lm active now ip raw k c =
     (case find (\<lambda>(i, r). verification_key au i r = verification_key au (ak_id k) raw) active of
        Some (i, r) \<Rightarrow> (Inr (au_verify au (ak_secretHash k) r), c)
      | None \<Rightarrow>
          let source = take 32 (au_sha256 au (or_else ip ''unknown'' @ [CHR 0x00] @ key_prefix raw));
              (n, c1) = cache_increment now (''merchant-api-auth-attempt:'' @ source @ '':'' @ int_text (now div 60000)) 120 c
          in if al_attempts lm < n then (Inl (ApiError ''rate_limited'' 429), c1)
             else (Inr (au_verify au (ak_secretHash k) raw), c1))"

definition authenticate_key ::
  "auth_crypto \<Rightarrow> api_limits \<Rightarrow> (id \<times> string) list \<Rightarrow> time \<Rightarrow> string option \<Rightarrow> string \<Rightarrow> api_key \<Rightarrow> cache \<Rightarrow> unit outcome \<times> cache" where
  "authenticate_key au lm active now ip raw k c =
     (let stamp_key = stamp_space @ verification_key au (ak_id k) raw;
          stamp = au_sha256 au (ak_secretHash k);
          (seen, c1) = cache_get now stamp_key c
      in if seen = Some stamp then (Inr (), c1)
         else case verify_secret au lm active now ip raw k c1 of
             (Inl e, c2) \<Rightarrow> (Inl e, c2)
           | (Inr ok, c2) \<Rightarrow> if ok then (Inr (), cache_set now stamp_key stamp (al_cacheSeconds lm) c2) else (unauthorized, c2))"

definition merchant_guard ::
  "auth_crypto \<Rightarrow> api_limits \<Rightarrow> (id \<times> string) list \<Rightarrow> time \<Rightarrow> string option \<Rightarrow> string option \<Rightarrow> cache \<Rightarrow> db \<Rightarrow>
   (api_auth \<times> db) outcome \<times> cache" where
  "merchant_guard au lm active now ip header c d =
     (case and_then (parse_key header) (\<lambda>(raw, env). map_outcome (\<lambda>k. (raw, k)) (find_key (key_prefix raw) env d)) of
        Inl e \<Rightarrow> (Inl e, c)
      | Inr (raw, k) \<Rightarrow> (case authenticate_key au lm active now ip raw k c of
            (Inl e, c1) \<Rightarrow> (Inl e, c1)
          | (Inr _, c1) \<Rightarrow>
              let (n, c2) = cache_increment now (''merchant-api-rate:'' @ nat_to_digits (ak_id k) @ '':'' @ int_text (now div 60000)) 120 c1
              in if al_rate lm < n then (Inl (ApiError ''rate_limited'' 429), c2)
                 else (Inr (\<lparr>aa_merchant = ak_merchant k, aa_env = ak_env k, aa_key = ak_id k\<rparr>,
                   d\<lparr>apiKeys := update_where (\<lambda>x. ak_id x = ak_id k) (\<lambda>x. x\<lparr>ak_lastUsedAt := Some now\<rparr>) (apiKeys d)\<rparr>), c2)))"

section \<open>Devices\<close>

record device_env =
  de_production :: bool
  de_mtlsRequired :: "string option" \<comment> \<open>\<open>DEVICE_MTLS_REQUIRED\<close>\<close>
  de_proxySecret :: "string option" \<comment> \<open>\<open>DEVICE_MTLS_PROXY_SECRET\<close>\<close>

record device_request =
  dr_ingressSecret :: "string option"
  dr_certVerified :: "string option"
  dr_certSha256 :: "string option"
  dr_deviceId :: "string option"
  dr_deviceToken :: "string option"
  dr_authorization :: "string option"

definition deviceMtlsRequired :: "device_env \<Rightarrow> bool" where
  "deviceMtlsRequired env \<longleftrightarrow> de_production env \<and> de_mtlsRequired env \<noteq> Some ''false''"

definition hex64 :: "string \<Rightarrow> bool" where
  "hex64 s \<longleftrightarrow> length s = 64 \<and> list_all (\<lambda>c. is_digit c \<or> c \<in> set ''abcdef'') s"

definition observed_cert :: "device_request \<Rightarrow> string" where
  "observed_cert r = map to_lower (or_else (dr_certSha256 r) [])"

definition assertTrustedDeviceIngress :: "device_env \<Rightarrow> device_request \<Rightarrow> unit outcome" where
  "assertTrustedDeviceIngress env r =
     (if \<not> deviceMtlsRequired env then Inr ()
      else let expected = or_else (de_proxySecret env) []; provided = or_else (dr_ingressSecret r) []
        in if expected = [] \<or> provided = [] \<or> provided \<noteq> expected then unauthorized
           else if dr_certVerified r \<noteq> Some ''SUCCESS'' \<or> \<not> hex64 (observed_cert r) then unauthorized
           else Inr ())"

definition device_credentials :: "device_request \<Rightarrow> (string \<times> string) option" where
  "device_credentials r =
     (let token = or_else_opt (dr_deviceToken r) (map_option (\<lambda>h. bearer_token (Some h)) (dr_authorization r))
      in case (dr_deviceId r, token) of (Some i, Some t) \<Rightarrow> if i = [] \<or> t = [] then None else Some (i, t) | _ \<Rightarrow> None)"

definition find_device_text :: "string \<Rightarrow> db \<Rightarrow> device option" where
  "find_device_text i d = find (\<lambda>x. nat_to_digits (dv_id x) = i) (devices d)"

definition check_token :: "auth_crypto \<Rightarrow> device_request \<Rightarrow> db \<Rightarrow> device outcome" where
  "check_token au r d = (case device_credentials r of
       None \<Rightarrow> unauthorized
     | Some (i, token) \<Rightarrow> (case find_device_text i d of
         None \<Rightarrow> unauthorized
       | Some dv \<Rightarrow> (case dv_authTokenHash dv of
           None \<Rightarrow> unauthorized
         | Some h \<Rightarrow> if h \<noteq> [] \<and> au_verify au h token then Inr dv else unauthorized)))"

definition has_cert :: "device \<Rightarrow> bool" where
  "has_cert dv \<longleftrightarrow> dv_certFingerprint dv \<noteq> None \<and> dv_certFingerprint dv \<noteq> Some []"

text \<open>The first certificate a device presents in production is pinned to it.\<close>

definition pin_cert :: "string \<Rightarrow> device \<Rightarrow> db \<Rightarrow> db outcome" where
  "pin_cert observed dv d =
     (if dv_certFingerprint dv = None \<and> list_ex (\<lambda>x. dv_id x \<noteq> dv_id dv \<and> dv_certFingerprint x = Some observed) (devices d) then unique_violation
      else let d1 = d\<lparr>devices := update_where (\<lambda>x. dv_id x = dv_id dv \<and> dv_certFingerprint x = None)
                       (\<lambda>x. x\<lparr>dv_certFingerprint := Some observed\<rparr>) (devices d)\<rparr>
        in Inr d1)"

definition pinned_matches :: "string \<Rightarrow> device option \<Rightarrow> bool" where
  "pinned_matches observed x = (case Option.bind x dv_certFingerprint of
       None \<Rightarrow> False | Some f \<Rightarrow> f \<noteq> [] \<and> observed = map to_lower f)"

definition require_cert :: "device_env \<Rightarrow> device_request \<Rightarrow> device \<Rightarrow> db \<Rightarrow> unit outcome \<times> db" where
  "require_cert env r dv d =
     (let observed = observed_cert r in
      if \<not> de_production env then (Inr (), d)
      else if dr_certVerified r \<noteq> Some ''SUCCESS'' \<or> \<not> hex64 observed then (unauthorized, d)
      else if has_cert dv then (Inr (), d)
      else case pin_cert observed dv d of
          Inl e \<Rightarrow> (Inl e, d)
        | Inr d1 \<Rightarrow> if pinned_matches observed (find (\<lambda>x. dv_id x = dv_id dv) (devices d1)) then (Inr (), d1) else (unauthorized, d1))"

definition device_guard :: "auth_crypto \<Rightarrow> device_env \<Rightarrow> device_request \<Rightarrow> db \<Rightarrow> id outcome \<times> db" where
  "device_guard au env r d =
     (case and_then (assertTrustedDeviceIngress env r) (\<lambda>_. check_token au r d) of
        Inl e \<Rightarrow> (Inl e, d)
      | Inr dv \<Rightarrow> (case require_cert env r dv d of
          (Inl e, d1) \<Rightarrow> (Inl e, d1)
        | (Inr _, d1) \<Rightarrow>
            if has_cert dv \<and> (observed_cert r = [] \<or> \<not> pinned_matches (observed_cert r) (Some dv)) then (unauthorized, d1)
            else if dv_status dv \<in> {Dev_quarantined, Dev_retired} then (Inl (ApiError ''forbidden'' 403), d1)
            else (Inr (dv_id dv), d1)))"

end
