(* ===== verification/ApiSafety.thy ===== *)
theory ApiSafety
  imports ApiAccess
begin

text \<open>
  What the guards of the merchant API and of the device API guarantee over any run of requests:
  cached verifications stand for real ones, and the certificate of a device stays pinned.
\<close>

declare split_paired_All [simp del] split_paired_Ex [simp del]

section \<open>Verified credentials\<close>

text \<open>A stamp in the cache stands for a comparison of the secret that succeeded.\<close>

definition verified :: "auth_crypto \<Rightarrow> string \<Rightarrow> string \<Rightarrow> bool" where
  "verified au raw hash \<longleftrightarrow> (\<exists>r h. au_sha256 au r = au_sha256 au raw \<and> au_sha256 au h = au_sha256 au hash \<and> au_verify au h r)"

definition stamps_ok :: "auth_crypto \<Rightarrow> cache \<Rightarrow> bool" where
  "stamps_ok au c \<longleftrightarrow> (\<forall>i raw hash v. c (stamp_space @ verification_key au i raw) = Some v \<longrightarrow>
     ca_value v = au_sha256 au hash \<longrightarrow> verified au raw hash)"

lemma digits_no_colon: "CHR '':'' \<notin> set (nat_to_digits n)"
  using nat_to_digits_digits [of n] by (auto simp: is_digit_def)

lemma split_at_first:
  assumes "xs @ c # ys = xs' @ c # ys'" and "c \<notin> set xs" and "c \<notin> set xs'"
  shows "xs = xs'" and "ys = ys'"
proof -
  have "takeWhile (\<lambda>x. x \<noteq> c) (xs @ c # ys) = xs" "takeWhile (\<lambda>x. x \<noteq> c) (xs' @ c # ys') = xs'"
    using assms(2,3) by (auto simp: takeWhile_append2 takeWhile_tail)
  with assms(1) show "xs = xs'" by simp
  with assms(1) show "ys = ys'" by simp
qed

lemma verification_key_eq:
  "verification_key au i raw = verification_key au j r \<longleftrightarrow> i = j \<and> au_sha256 au raw = au_sha256 au r"
proof
  assume "verification_key au i raw = verification_key au j r"
  then have "nat_to_digits i @ CHR '':'' # au_sha256 au raw = nat_to_digits j @ CHR '':'' # au_sha256 au r"
    by (simp add: verification_key_def)
  from split_at_first [OF this digits_no_colon digits_no_colon] show "i = j \<and> au_sha256 au raw = au_sha256 au r"
    by (metis nat_of_to_digits)
qed (simp add: verification_key_def)

lemma stamps_ok_increment:
  assumes "stamps_ok au c" and "\<not> starts_with k stamp_space"
  shows "stamps_ok au (snd (cache_increment now k ttl c))"
proof -
  have "stamp_space @ x \<noteq> k" for x using assms(2) by (auto simp: starts_with_iff)
  then show ?thesis using assms(1) by (simp add: stamps_ok_def cache_increment_def Let_def)
qed

lemma stamps_ok_get: "stamps_ok au c \<Longrightarrow> stamps_ok au (snd (cache_get now k c))"
  by (auto simp: stamps_ok_def cache_get_def split: option.split)

lemma stamps_ok_delete: "stamps_ok au c \<Longrightarrow> stamps_ok au (cache_delete k c)"
  by (auto simp: stamps_ok_def cache_delete_def)

lemma stamps_ok_set:
  assumes "stamps_ok au c" and "au_sha256 au r = au_sha256 au raw" and "au_verify au h r"
  shows "stamps_ok au (cache_set now (stamp_space @ verification_key au i raw) (au_sha256 au h) ttl c)"
  unfolding stamps_ok_def
proof (intro allI impI)
  fix j raw' hash v
  assume v: "cache_set now (stamp_space @ verification_key au i raw) (au_sha256 au h) ttl c (stamp_space @ verification_key au j raw') = Some v"
    and hash: "ca_value v = au_sha256 au hash"
  show "verified au raw' hash"
  proof (cases "verification_key au j raw' = verification_key au i raw")
    case True
    with v hash have "au_sha256 au raw' = au_sha256 au raw" "au_sha256 au h = au_sha256 au hash"
      by (auto simp: cache_set_def verification_key_eq)
    with assms(2,3) show ?thesis unfolding verified_def by metis
  next
    case False
    with v assms(1) hash show ?thesis by (auto simp: cache_set_def stamps_ok_def)
  qed
qed

lemma verify_secret_ok:
  assumes "verify_secret au ls active now ip raw k c = (b, c')" and "stamps_ok au c"
  shows "stamps_ok au c' \<and> (b = Inr True \<longrightarrow> (\<exists>r. au_sha256 au r = au_sha256 au raw \<and> au_verify au (ak_secretHash k) r))"
proof (cases "find (\<lambda>(i, r). verification_key au i r = verification_key au (ak_id k) raw) active")
  case None
  have "\<not> starts_with (''merchant-api-auth-attempt:'' @ x) stamp_space" for x by (simp add: stamp_space_def)
  with stamps_ok_increment [OF assms(2)] show ?thesis
    using assms(1) None by (auto simp: verify_secret_def Let_def split: prod.splits if_splits dest: arg_cong [where f = snd]) (metis snd_conv)+
next
  case (Some ir)
  then have "verification_key au (fst ir) (snd ir) = verification_key au (ak_id k) raw" by (auto dest: find_SomeD)
  then have "au_sha256 au (snd ir) = au_sha256 au raw" by (simp add: verification_key_eq)
  with Some assms show ?thesis by (cases ir) (auto simp: verify_secret_def)
qed

lemma authenticate_key_ok:
  assumes "authenticate_key au ls active now ip raw k c = (b, c')" and "stamps_ok au c"
  shows "stamps_ok au c' \<and> (b = Inr () \<longrightarrow> verified au raw (ak_secretHash k))"
proof -
  let ?sk = "stamp_space @ verification_key au (ak_id k) raw" and ?stamp = "au_sha256 au (ak_secretHash k)"
  obtain seen c1 where get: "cache_get now ?sk c = (seen, c1)" by fastforce
  with stamps_ok_get [OF assms(2), of now ?sk] have c1: "stamps_ok au c1" by simp
  show ?thesis
  proof (cases "seen = Some ?stamp")
    case True
    with get have "\<exists>v. c ?sk = Some v \<and> ca_value v = ?stamp" by (auto simp: cache_get_def split: option.splits if_splits)
    with assms(2) have "verified au raw (ak_secretHash k)" unfolding stamps_ok_def by blast
    with True get assms c1 show ?thesis by (simp add: authenticate_key_def)
  next
    case False
    obtain v c2 where v: "verify_secret au ls active now ip raw k c1 = (v, c2)" by fastforce
    note w = verify_secret_ok [OF v c1]
    show ?thesis
    proof (cases "v = Inr True")
      case True
      with w obtain r where r: "au_sha256 au r = au_sha256 au raw" "au_verify au (ak_secretHash k) r" by blast
      then have "verified au raw (ak_secretHash k)" unfolding verified_def by blast
      moreover have "c' = cache_set now ?sk ?stamp (al_cacheSeconds ls) c2"
        using assms(1) get False v True by (simp add: authenticate_key_def)
      ultimately show ?thesis using stamps_ok_set [OF conjunct1 [OF w] r] by simp
    next
      case other: False
      then have "c' = c2 \<and> b \<noteq> Inr ()"
        using assms(1) get False v by (auto simp: authenticate_key_def unauthorized_def split: sum.splits if_splits)
      with w show ?thesis by simp
    qed
  qed
qed

lemma merchant_guard_ok:
  assumes "merchant_guard au ls active now ip header c d = (b, c')" and "stamps_ok au c"
  shows "stamps_ok au c' \<and> (case b of Inl e \<Rightarrow> True | Inr (a, d') \<Rightarrow>
    (\<exists>raw k. parse_key header = Inr (raw, aa_env a) \<and> find_key (key_prefix raw) (aa_env a) d = Inr k \<and>
       aa_key a = ak_id k \<and> aa_merchant a = ak_merchant k \<and> verified au raw (ak_secretHash k)))"
proof (cases "and_then (parse_key header) (\<lambda>(raw, env). map_outcome (\<lambda>k. (raw, k)) (find_key (key_prefix raw) env d))")
  case (Inl e)
  with assms show ?thesis by (auto simp: merchant_guard_def)
next
  case (Inr rk)
  then obtain raw env k where rk: "rk = (raw, k)" "parse_key header = Inr (raw, env)" "find_key (key_prefix raw) env d = Inr k"
    by (auto simp: tx_simps)
  then have env: "ak_env k = env" by (auto simp: find_key_def unauthorized_def split: option.splits if_splits)
  obtain ok c1 where ok: "authenticate_key au ls active now ip raw k c = (ok, c1)" by fastforce
  note w = authenticate_key_ok [OF ok assms(2)]
  have "\<not> starts_with (''merchant-api-rate:'' @ x) stamp_space" for x by (simp add: stamp_space_def)
  note inc = stamps_ok_increment [OF conjunct1 [OF w] this]
  show ?thesis
  proof (cases ok)
    case (Inl e)
    with assms(1) Inr ok w show ?thesis by (auto simp: merchant_guard_def rk(1))
  next
    case r: (Inr u)
    obtain n c2 where n: "cache_increment now (''merchant-api-rate:'' @ nat_to_digits (ak_id k) @ '':'' @ int_text (now div 60000)) 120 c1 = (n, c2)" by fastforce
    have c2: "stamps_ok au c2" using inc [of now "nat_to_digits (ak_id k) @ '':'' @ int_text (now div 60000)" 120] n by simp
    from assms(1) Inr ok r n have b: "c' = c2" "b = (if al_rate ls < n then Inl (ApiError ''rate_limited'' 429)
        else Inr (\<lparr>aa_merchant = ak_merchant k, aa_env = ak_env k, aa_key = ak_id k\<rparr>,
                   d\<lparr>apiKeys := update_where (\<lambda>x. ak_id x = ak_id k) (\<lambda>x. x\<lparr>ak_lastUsedAt := Some now\<rparr>) (apiKeys d)\<rparr>))"
      by (auto simp: merchant_guard_def rk(1) Let_def split: if_splits)
    have "verified au raw (ak_secretHash k)" using w r by (cases u) simp
    then show ?thesis using rk env c2 unfolding b by (cases "al_rate ls < n") auto
  qed
qed

section \<open>Any run of requests and key changes\<close>

datatype api_op =
    Api_request "(id \<times> string) list" time "string option" "string option"
  | Api_issue time portal_auth environment string string string
  | Api_revoke time portal_auth id
  | Api_sign_in time string string "string option" "string option" string

definition commit_row :: "db \<Rightarrow> ('a \<times> db) outcome \<Rightarrow> db" where
  "commit_row d r = (case r of Inr (_, d') \<Rightarrow> d' | Inl _ \<Rightarrow> d)"

fun run_api :: "auth_crypto \<Rightarrow> api_limits \<Rightarrow> api_op \<Rightarrow> cache \<times> db \<Rightarrow> cache \<times> db" where
  "run_api au ls (Api_request active now ip header) (c, d) =
     (let (r, c') = merchant_guard au ls active now ip header c d in (c', commit_row d r))"
| "run_api au ls (Api_issue now auth env label r6 r32) (c, d) = (c, commit_row d (createApiKey au now auth env label r6 r32 d))"
| "run_api au ls (Api_revoke now auth i) (c, d) = (c, commit_row d (revokeApiKey now auth i d))"
| "run_api au ls (Api_sign_in now email password slug ip token) (c, d) =
     (let (r, c') = portal_login au now email password slug ip token c d in (c', commit_row d r))"

definition run_api_all :: "auth_crypto \<Rightarrow> api_limits \<Rightarrow> api_op list \<Rightarrow> cache \<times> db \<Rightarrow> cache \<times> db" where
  "run_api_all au ls = fold (run_api au ls)"

lemma portal_login_stamps:
  assumes "portal_login au now email password slug ip token c d = (r, c')" and "stamps_ok au c"
  shows "stamps_ok au c'"
proof -
  let ?key = "login_throttle au ''auth:merchant:'' ip (normalizePortalEmail email)"
  have "\<not> starts_with ?key stamp_space" by (simp add: login_throttle_def stamp_space_def)
  from stamps_ok_increment [OF assms(2) this, of now 600] have "stamps_ok au (snd (cache_increment now ?key 600 c))" .
  with assms(1) stamps_ok_delete show ?thesis
    by (auto simp: portal_login_def Let_def split: prod.splits if_splits sum.splits)
qed

lemma run_api_stamps: "stamps_ok au (fst cd) \<Longrightarrow> stamps_ok au (fst (run_api au ls op cd))"
proof (cases op)
  case (Api_request active now ip header)
  then show "stamps_ok au (fst cd) \<Longrightarrow> ?thesis"
    using merchant_guard_ok [of au ls active now ip header "fst cd" "snd cd"] by (cases cd) (simp split: prod.split)
next
  case (Api_sign_in now email password slug ip token)
  then show "stamps_ok au (fst cd) \<Longrightarrow> ?thesis"
    using portal_login_stamps [of au now email password slug ip token "fst cd" "snd cd"] by (cases cd) (simp split: prod.split)
qed (cases cd; simp)+

lemma run_api_all_stamps: "stamps_ok au (fst cd) \<Longrightarrow> stamps_ok au (fst (run_api_all au ls ops cd))"
  by (induction ops arbitrary: cd) (simp_all add: run_api_all_def run_api_stamps)


definition demo_api_crypto :: auth_crypto where
  "demo_api_crypto = \<lparr>au_sha256 = (\<lambda>s. s), au_hash = (\<lambda>s. s), au_verify = (=)\<rparr>"

definition demo_owner_auth :: portal_auth where
  "demo_owner_auth = \<lparr>pa_session = 5, pa_user = 6, pa_merchant = 7, pa_slug = ''m'', pa_name = ''M'', pa_email = ''o@m'',
     pa_display = ''O'', pa_role = Role_owner\<rparr>"

definition demo_api_db :: db where
  "demo_api_db = empty_db\<lparr>next_id := 9, merchants := [\<lparr>me_id = 7, me_slug = ''m'', me_name = ''M'', me_status = M_active, me_createdAt = 0\<rparr>]\<rparr>"

definition demo_limits :: api_limits where
  "demo_limits = \<lparr>al_attempts = 2, al_cacheSeconds = 300, al_rate = 9\<rparr>"

definition demo_api_ops :: "api_op list" where
  "demo_api_ops = [Api_issue 1 demo_owner_auth Test ''key'' ''a'' ''b'', Api_request [] 2 None (Some ''Bearer sk_test_a.c''),
     Api_request [] 3 None (Some ''Bearer sk_test_a.b'')]"


section \<open>Device certificates\<close>

definition device_row :: "id \<Rightarrow> db \<Rightarrow> device option" where
  "device_row i d = find (\<lambda>x. dv_id x = i) (devices d)"

lemma find_device_text_row: "find_device_text i d = Some dv \<Longrightarrow> device_row (dv_id dv) d = Some dv"
proof -
  assume dv: "find_device_text i d = Some dv"
  then have i: "nat_to_digits (dv_id dv) = i" by (auto simp: find_device_text_def dest: find_SomeD)
  have "(\<lambda>x. nat_to_digits (dv_id x) = i) = (\<lambda>x. dv_id x = dv_id dv)"
    unfolding i [symmetric] by (rule ext) (metis nat_of_to_digits)
  from dv [unfolded find_device_text_def this] show ?thesis unfolding device_row_def .
qed

lemma check_token_row:
  assumes "check_token au r d = Inr dv"
  shows "device_row (dv_id dv) d = Some dv \<and> (\<exists>t h. dv_authTokenHash dv = Some h \<and> au_verify au h t)"
  using assms by (auto simp: check_token_def unauthorized_def dest: find_device_text_row split: option.splits if_splits)

lemma pin_cert_row:
  assumes "pin_cert observed dv d = Inr d1"
  shows "device_row i d1 = map_option (\<lambda>x. if dv_id x = dv_id dv \<and> dv_certFingerprint x = None
     then x\<lparr>dv_certFingerprint := Some observed\<rparr> else x) (device_row i d)"
proof -
  from assms have "d1 = d\<lparr>devices := update_where (\<lambda>x. dv_id x = dv_id dv \<and> dv_certFingerprint x = None)
      (\<lambda>x. x\<lparr>dv_certFingerprint := Some observed\<rparr>) (devices d)\<rparr>" by (simp add: pin_cert_def unique_violation_def split: if_splits)
  then show ?thesis by (simp add: device_row_def find_update_where)
qed

text \<open>A row with a certificate is never changed by a guard.\<close>

lemma require_cert_keeps:
  assumes "require_cert env r dv d = (b, d1)" and "device_row i d = Some x" and "has_cert x"
  shows "device_row i d1 = Some x"
proof -
  have "device_row i d2 = Some x" if "pin_cert (observed_cert r) dv d = Inr d2" for d2
    using pin_cert_row [OF that, of i] assms(2,3) by (auto simp: has_cert_def)
  with assms(1,2) show ?thesis by (auto simp: require_cert_def Let_def split: if_splits sum.splits)
qed

lemma device_guard_keeps:
  assumes "device_row i d = Some x" and "has_cert x"
  shows "device_row i (snd (device_guard au env r d)) = Some x"
proof -
  have "device_row i (snd (require_cert env r dv d)) = Some x" for dv
    using require_cert_keeps [of env r dv d _ _ i x] assms by (cases "require_cert env r dv d") auto
  then show ?thesis
    using assms(1) by (auto simp: device_guard_def split: sum.split prod.split) (metis snd_conv)+
qed

definition run_devices :: "auth_crypto \<Rightarrow> (device_env \<times> device_request) list \<Rightarrow> db \<Rightarrow> db" where
  "run_devices au = fold (\<lambda>(env, r) d. snd (device_guard au env r d))"

lemma run_devices_keeps: "device_row i d = Some x \<Longrightarrow> has_cert x \<Longrightarrow> device_row i (run_devices au rs d) = Some x"
  by (induction rs arbitrary: d) (auto simp: run_devices_def device_guard_keeps)

lemma device_guard_accepts:
  assumes "device_guard au env r d = (Inr i, d1)"
  obtains dv where "device_row i d = Some dv" "dv_status dv \<notin> {Dev_quarantined, Dev_retired}"
    "\<exists>t h. dv_authTokenHash dv = Some h \<and> au_verify au h t"
    "has_cert dv \<longrightarrow> pinned_matches (observed_cert r) (Some dv)"
    "require_cert env r dv d = (Inr (), d1)"
proof -
  from assms obtain dv where dv: "and_then (assertTrustedDeviceIngress env r) (\<lambda>_. check_token au r d) = Inr dv"
    by (auto simp: device_guard_def split: sum.splits)
  then have tok: "check_token au r d = Inr dv" by (auto simp: tx_simps)
  obtain b d2 where b: "require_cert env r dv d = (b, d2)" by fastforce
  from assms dv b have "b = Inr () \<and> d2 = d1 \<and> dv_id dv = i \<and> dv_status dv \<notin> {Dev_quarantined, Dev_retired} \<and>
      (has_cert dv \<longrightarrow> pinned_matches (observed_cert r) (Some dv))"
    by (auto simp: device_guard_def unauthorized_def split: sum.splits if_splits)
  with check_token_row [OF tok] b that show ?thesis by metis
qed

lemma production_pins:
  assumes "device_guard au env r d = (Inr i, d1)" and "de_production env"
  shows "hex64 (observed_cert r) \<and> (\<exists>x f. device_row i d1 = Some x \<and> has_cert x \<and> dv_certFingerprint x = Some f \<and> map to_lower f = observed_cert r)"
proof -
  obtain dv where dv: "device_row i d = Some dv" "has_cert dv \<longrightarrow> pinned_matches (observed_cert r) (Some dv)"
    "require_cert env r dv d = (Inr (), d1)" by (rule device_guard_accepts [OF assms(1)])
  from dv(3) assms(2) have hex: "hex64 (observed_cert r)" by (auto simp: require_cert_def Let_def unauthorized_def split: if_splits)
  have id: "dv_id dv = i" using dv(1) by (auto simp: device_row_def dest: find_SomeD)
  have "\<exists>x. device_row i d1 = Some x \<and> pinned_matches (observed_cert r) (Some x)"
  proof (cases "has_cert dv")
    case True
    with dv require_cert_keeps [OF dv(3) dv(1)] show ?thesis by blast
  next
    case False
    with dv(3) assms(2) have "pinned_matches (observed_cert r) (device_row i d1)"
      by (auto simp: require_cert_def Let_def unauthorized_def device_row_def id split: if_splits sum.splits)
    then show ?thesis by (cases "device_row i d1") (auto simp: pinned_matches_def)
  qed
  with hex show ?thesis by (auto simp: pinned_matches_def has_cert_def split: option.splits)
qed


text \<open>The pilot setting does not reach the device guard: with \<open>DEVICE_MTLS_REQUIRED=false\<close> in production the
  ingress check lets a request without a client certificate pass, but the guard behind it refuses
  every such request, whatever its token.\<close>

theorem pilot_setting_ignored_by_guard:
  "assertTrustedDeviceIngress (env\<lparr>de_production := True, de_mtlsRequired := Some ''false''\<rparr>) (r\<lparr>dr_certVerified := None\<rparr>) = Inr () \<and>
   fst (device_guard au (env\<lparr>de_production := True, de_mtlsRequired := Some ''false''\<rparr>) (r\<lparr>dr_certVerified := None\<rparr>) d) =
     Inl (ApiError ''unauthorized'' 401)"
proof -
  have token: "check_token au q d = Inl e \<Longrightarrow> e = ApiError ''unauthorized'' 401" for q e
    by (auto simp: check_token_def unauthorized_def split: option.splits if_splits)
  show ?thesis
    by (cases "check_token au (r\<lparr>dr_certVerified := None\<rparr>) d")
      (auto simp: device_guard_def assertTrustedDeviceIngress_def deviceMtlsRequired_def require_cert_def unauthorized_def dest: token)
qed

definition demo_device_crypto :: auth_crypto where
  "demo_device_crypto = \<lparr>au_sha256 = (\<lambda>s. s), au_hash = (\<lambda>s. s), au_verify = (=)\<rparr>"

definition demo_device_env :: device_env where
  "demo_device_env = \<lparr>de_production = True, de_mtlsRequired = None, de_proxySecret = Some ''s''\<rparr>"

definition demo_device_request :: device_request where
  "demo_device_request = \<lparr>dr_ingressSecret = Some ''s'', dr_certVerified = Some ''SUCCESS'', dr_certSha256 = Some (replicate 64 (CHR ''a'')),
     dr_deviceId = Some ''7'', dr_deviceToken = Some ''tok'', dr_authorization = None\<rparr>"

definition demo_phone_db :: db where
  "demo_phone_db = empty_db\<lparr>devices := [\<lparr>dv_id = 7, dv_group = 3, dv_name = ''p'', dv_model = None, dv_serial = None, dv_status = Dev_online,
     dv_authTokenHash = Some ''tok'', dv_certFingerprint = None, dv_lastHeartbeatAt = None, dv_permissionsOk = True,
     dv_accessibilityOk = True, dv_activeJob = None\<rparr>]\<rparr>"


end
