(* ===== verification/WebhookProgress.thy ===== *)
theory WebhookProgress
  imports WebhookSafety
begin

text \<open>
  Progress of the webhook worker: the claims of its rounds reach every delivery that is due.
\<close>

declare split_paired_All [simp del] split_paired_Ex [simp del]

section \<open>No delivery waits for ever\<close>

text \<open>The claims of one round of \<open>deliverPending\<close>, and of several rounds in a row.\<close>

definition claim_round :: "(id \<Rightarrow> string) \<Rightarrow> time \<Rightarrow> db \<Rightarrow> db" where
  "claim_round token now d = snd (fold (claim_next token now) (delivery_candidates now d) ([], d))"

definition claim_rounds :: "(nat \<Rightarrow> id \<Rightarrow> string) \<Rightarrow> time \<Rightarrow> nat \<Rightarrow> db \<Rightarrow> db" where
  "claim_rounds token now k d = fold (\<lambda>n. claim_round (token n) now) [0..<k] d"

definition due_rows :: "time \<Rightarrow> db \<Rightarrow> webhook_delivery list" where
  "due_rows now d = filter (due_delivery now d) (deliveries d)"

text \<open>A claim takes its row out of the due ones and leaves the others as they are.\<close>

definition taken :: "time \<Rightarrow> webhook_delivery \<Rightarrow> webhook_delivery \<Rightarrow> bool" where
  "taken now w w' \<longleftrightarrow> wd_id w' = wd_id w \<and> (w' = w \<or> wd_status w' = W_processing \<and> wd_leaseExpiresAt w' = Some (now + DELIVERY_LEASE_MS))"

definition claims_only :: "time \<Rightarrow> db \<Rightarrow> db \<Rightarrow> bool" where
  "claims_only now d d' \<longleftrightarrow> endpoints d' = endpoints d \<and> list_all2 (taken now) (deliveries d) (deliveries d')"

lemma claims_only_refl: "claims_only now d d"
  by (simp add: claims_only_def list_all2_refl taken_def)

lemma claims_only_trans: "claims_only now d d1 \<Longrightarrow> claims_only now d1 d2 \<Longrightarrow> claims_only now d d2"
  by (auto simp: claims_only_def taken_def intro: list_all2_trans [where ?P1.0 = "taken now" and ?P2.0 = "taken now"])

lemma due_delivery_frame: "endpoints d' = endpoints d \<Longrightarrow> due_delivery now d' = due_delivery now d"
  by (rule ext) (simp add: due_delivery_def endpoint_enabled_def)

lemma claim_delivery_effect:
  fixes token now i d
  defines "d' \<equiv> snd (claim_delivery token now i d)"
  shows "claims_only now d d' \<and> due_rows now d' = filter (\<lambda>w. wd_id w \<noteq> i) (due_rows now d)"
proof -
  let ?p = "\<lambda>w. wd_id w = i \<and> due_delivery now d w"
  let ?f = "\<lambda>w. w\<lparr>wd_status := W_processing, wd_leaseToken := Some token, wd_leaseExpiresAt := Some (now + DELIVERY_LEASE_MS)\<rparr>"
  have d': "d' = d\<lparr>deliveries := update_where ?p ?f (deliveries d)\<rparr>"
    by (simp add: d'_def claim_delivery_def update_if_def)
  then have due: "due_delivery now d' = due_delivery now d" by (intro due_delivery_frame) simp
  have taken: "\<not> due_delivery now d (?f w)" for w
    by (simp add: due_delivery_def lease_over_def DELIVERY_LEASE_MS_def)
  have "list_all2 (taken now) ws (update_where ?p ?f ws)" for ws
    by (induction ws) (simp_all add: taken_def)
  moreover have "filter (due_delivery now d) (update_where ?p ?f ws) = filter (\<lambda>w. wd_id w \<noteq> i) (filter (due_delivery now d) ws)" for ws
    using taken by (induction ws) auto
  ultimately show ?thesis by (simp add: claims_only_def due_rows_def due) (simp add: d')
qed

lemma claimDelivery_snd: "snd (claimDelivery token now i d) = snd (claim_delivery token now i d)"
  by (auto simp: claimDelivery_def Let_def claim_delivery_def update_if_none update_if_fst update_if_def split: prod.split)

text \<open>The claims of a round: as long as fewer than fifty rows are held, every candidate is taken.\<close>

lemma claim_next_fold:
  assumes "fold (claim_next token now) is (cs, d) = (cs', d')" and "length cs \<le> 50"
  shows "claims_only now d d' \<and> (\<exists>n \<le> length is. due_rows now d' = filter (\<lambda>w. wd_id w \<notin> set (take n is)) (due_rows now d) \<and>
    (n = length is \<or> length cs' = 50) \<and> length cs' \<le> length cs + n \<and> length cs' \<le> 50)"
  using assms
proof (induction "is" arbitrary: cs d)
  case Nil
  then show ?case by (simp add: claims_only_refl)
next
  case (Cons i "is")
  show ?case
  proof (cases "50 \<le> length cs")
    case True
    have "fold (claim_next token now) js (cs, d) = (cs, d)" for js using True by (induction js) (simp_all add: claim_next_def)
    from this [of "i # is"] Cons.prems True have "cs' = cs" "d' = d" "length cs = 50" by simp_all
    then show ?thesis by (auto simp: claims_only_refl intro!: exI [of _ 0])
  next
    case False
    obtain cl d1 where cl: "claimDelivery (token i) now i d = (cl, d1)" by (metis surj_pair)
    then have d1: "d1 = snd (claim_delivery (token i) now i d)" using claimDelivery_snd [of "token i" now i d] by simp
    let ?cs = "case cl of Some c \<Rightarrow> cs @ [c] | None \<Rightarrow> cs"
    have "claim_next token now i (cs, d) = (?cs, d1)" using False cl by (cases cl) (simp_all add: claim_next_def)
    then have "fold (claim_next token now) is (?cs, d1) = (cs', d')" using Cons.prems(1) by simp
    moreover have len: "length ?cs \<le> 50" "length ?cs \<le> Suc (length cs)" using False by (cases cl; simp)+
    ultimately obtain n where rest: "claims_only now d1 d'" "n \<le> length is"
      "due_rows now d' = filter (\<lambda>w. wd_id w \<notin> set (take n is)) (due_rows now d1)"
      "n = length is \<or> length cs' = 50" "length cs' \<le> length ?cs + n" "length cs' \<le> 50" using Cons.IH [of ?cs d1] by blast
    note eff = claim_delivery_effect [where token = "token i" and now = now and i = i and d = d, folded d1]
    have "claims_only now d d'" using eff rest(1) claims_only_trans by blast
    moreover have "due_rows now d' = filter (\<lambda>w. wd_id w \<notin> set (take (Suc n) (i # is))) (due_rows now d)"
      unfolding rest(3) conjunct2 [OF eff] by (simp add: conj_commute)
    ultimately show ?thesis using rest len by (intro conjI exI [of _ "Suc n"]) auto
  qed
qed

lemma length_filter_ids:
  assumes "distinct (map wd_id ws)" and "set is \<subseteq> set (map wd_id ws)" and "distinct is"
  shows "length (filter (\<lambda>w. wd_id w \<notin> set is) ws) = length ws - length is"
proof -
  let ?in = "filter (\<lambda>w. wd_id w \<in> set is) ws"
  have "distinct (map wd_id ?in)" using assms(1) by (simp add: distinct_map_filter)
  moreover have "set (map wd_id ?in) = set is" using assms(2) by auto
  ultimately have "length ?in = length is" using assms(3) distinct_card by (metis length_map)
  then show ?thesis using sum_length_filter_compl [of "\<lambda>w. wd_id w \<in> set is" ws] by simp
qed

lemma candidates_due:
  assumes "delivery_ids d"
  shows "set (delivery_candidates now d) \<subseteq> set (map wd_id (due_rows now d))" "distinct (delivery_candidates now d)"
    "length (delivery_candidates now d) = min 100 (length (due_rows now d))" "distinct (map wd_id (due_rows now d))"
proof -
  show d: "distinct (map wd_id (due_rows now d))" using assms by (simp add: delivery_ids_def due_rows_def distinct_map_filter)
  let ?s = "sort_key wd_nextAttemptAt (due_rows now d)"
  have "mset (map wd_id ?s) = mset (map wd_id (due_rows now d))" by simp
  then have "distinct (map wd_id ?s)" using d by (metis mset_eq_imp_distinct_iff)
  then show "distinct (delivery_candidates now d)"
    by (simp add: delivery_candidates_def due_rows_def [symmetric] take_map [symmetric] distinct_take)
  show "set (delivery_candidates now d) \<subseteq> set (map wd_id (due_rows now d))"
    by (auto simp: delivery_candidates_def due_rows_def [symmetric] dest!: in_set_takeD)
  show "length (delivery_candidates now d) = min 100 (length (due_rows now d))"
    by (simp add: delivery_candidates_def due_rows_def min.commute)
qed

lemma taken_ids: "claims_only now d d' \<Longrightarrow> map wd_id (deliveries d') = map wd_id (deliveries d)"
proof -
  assume "claims_only now d d'"
  then have "list_all2 (taken now) (deliveries d) (deliveries d')" by (simp add: claims_only_def)
  then show ?thesis by (induction rule: list_all2_induct) (auto simp: taken_def)
qed

lemma claim_round_progress:
  assumes "delivery_ids d"
  shows "claims_only now d (claim_round token now d) \<and> delivery_ids (claim_round token now d) \<and>
    length (due_rows now (claim_round token now d)) \<le> length (due_rows now d) - 50"
proof -
  let ?is = "delivery_candidates now d"
  obtain cs d' where f: "fold (claim_next token now) ?is ([], d) = (cs, d')" by (metis surj_pair)
  then have r: "claim_round token now d = d'" by (simp add: claim_round_def)
  from claim_next_fold [OF f] obtain n where n: "claims_only now d d'" "n \<le> length ?is"
    "due_rows now d' = filter (\<lambda>w. wd_id w \<notin> set (take n ?is)) (due_rows now d)" "n = length ?is \<or> length cs = 50" "length cs \<le> n"
    by auto
  note c = candidates_due [OF assms, of now]
  have "length (due_rows now d') = length (due_rows now d) - length (take n ?is)"
    unfolding n(3) by (rule length_filter_ids) (use c in \<open>auto dest: in_set_takeD simp: distinct_take\<close>)
  moreover have "min 50 (length (due_rows now d)) \<le> length (take n ?is)" using n(2,4,5) c(3) by auto
  ultimately have "length (due_rows now d') \<le> length (due_rows now d) - 50" by linarith
  with n(1) taken_ids [OF n(1)] assms show ?thesis by (simp add: r delivery_ids_def)
qed

lemma claim_rounds_progress:
  assumes "delivery_ids d"
  shows "claims_only now d (claim_rounds token now k d) \<and> delivery_ids (claim_rounds token now k d) \<and>
    length (due_rows now (claim_rounds token now k d)) \<le> length (due_rows now d) - 50 * k"
proof (induction k)
  case 0
  with assms show ?case by (simp add: claim_rounds_def claims_only_refl)
next
  case (Suc k)
  let ?d = "claim_rounds token now k d"
  have "claim_rounds token now (Suc k) d = claim_round (token k) now ?d" by (simp add: claim_rounds_def)
  with Suc claim_round_progress [of ?d now "token k"] show ?case by (auto intro: claims_only_trans)
qed

text \<open>C40. No delivery waits for ever: when at most \<open>50 * k\<close> deliveries are due, \<open>k\<close> rounds of claims leave
  none of them due. Each one is then leased to a worker, however the candidates are ordered and
  even when rows of some claims have vanished.\<close>

theorem due_deliveries_are_claimed:
  assumes "delivery_ids d" and "length (filter (due_delivery now d) (deliveries d)) \<le> 50 * k"
  shows "list_all (\<lambda>w. \<not> due_delivery now d w \<or> list_ex (\<lambda>w'. wd_id w' = wd_id w \<and> wd_status w' = W_processing \<and>
    wd_leaseExpiresAt w' = Some (now + DELIVERY_LEASE_MS)) (deliveries (claim_rounds token now k d))) (deliveries d)"
proof -
  let ?d = "claim_rounds token now k d"
  from claim_rounds_progress [OF assms(1), of now token k] assms(2) have only: "claims_only now d ?d" and none: "due_rows now ?d = []"
    by (simp_all add: due_rows_def)
  have "due_delivery now ?d = due_delivery now d" using only by (intro due_delivery_frame) (simp add: claims_only_def)
  with none have idle: "\<not> due_delivery now d w" if "w \<in> set (deliveries ?d)" for w
    using that by (simp add: due_rows_def filter_empty_conv)
  have rows: "list_all2 (taken now) (deliveries d) (deliveries ?d)" using only by (simp add: claims_only_def)
  have "list_ex (\<lambda>w'. wd_id w' = wd_id w \<and> wd_status w' = W_processing \<and> wd_leaseExpiresAt w' = Some (now + DELIVERY_LEASE_MS)) (deliveries ?d)"
    if w: "w \<in> set (deliveries d)" "due_delivery now d w" for w
  proof -
    from rows w(1) obtain w' where "w' \<in> set (deliveries ?d)" "taken now w w'"
      by (metis in_set_conv_nth list_all2_conv_all_nth nth_mem)
    with idle w(2) show ?thesis by (auto simp: taken_def list_ex_iff)
  qed
  then show ?thesis by (auto simp: list_all_iff)
qed

definition demo_waiting :: db where
  "demo_waiting = empty_db\<lparr>endpoints := [\<lparr>we_id = 2, we_merchant = 1, we_env = Live, we_url = ''u'', we_secretHash = ''h'',
       we_encryptedSecret = ''c'', we_enabled = True, we_createdAt = 0, we_updatedAt = 0\<rparr>],
     deliveries := map (\<lambda>i. \<lparr>wd_id = i, wd_event = 9, wd_endpoint = 2, wd_attempt = 0, wd_status = W_pending, wd_nextAttemptAt = 5,
       wd_leaseToken = None, wd_leaseExpiresAt = None, wd_responseCode = None, wd_responseBody = None, wd_deliveredAt = None,
       wd_createdAt = 0\<rparr>) [3, 4]\<rparr>"

theorem due_deliveries_are_claimed_witness:
  "list_all (due_delivery 7 demo_waiting) (deliveries demo_waiting) \<and>
   list_all (\<lambda>w. \<not> due_delivery 7 demo_waiting w \<or> list_ex (\<lambda>w'. wd_id w' = wd_id w \<and> wd_status w' = W_processing \<and>
     wd_leaseExpiresAt w' = Some (7 + DELIVERY_LEASE_MS)) (deliveries (claim_rounds (\<lambda>n i. ''t'') 7 1 demo_waiting))) (deliveries demo_waiting)"
proof -
  have due: "list_all (due_delivery 7 demo_waiting) (deliveries demo_waiting)" by code_simp
  have ids: "delivery_ids demo_waiting" by code_simp
  have "length (filter (due_delivery 7 demo_waiting) (deliveries demo_waiting)) \<le> length (deliveries demo_waiting)" by (rule length_filter_le)
  also have "\<dots> \<le> 50 * 1" by (simp add: demo_waiting_def)
  finally show ?thesis using due_deliveries_are_claimed [OF ids] due by blast
qed
end
