(* ===== verification/CanonicalJson.thy ===== *)
theory CanonicalJson
  imports JsonText "HOL-Library.Multiset" "HOL-Library.List_Lexorder" "HOL-Library.Char_ord"
begin

text \<open>
  The canonical text of a JSON value, \<open>stableJson\<close> of \<open>apps/api/src/common/crypto.ts\<close>: object
  keys are sorted, so that the hash of a request or of a spooled event does not depend on the
  order in which a client wrote them. Keys are compared by character code, as \<open>sort()\<close> does on
  ASCII texts.
\<close>

function (sequential) stableJson :: "json_format \<Rightarrow> json \<Rightarrow> string" where
  "stableJson f (JArr vs) = ''['' @ join_with '','' (map (stableJson f) vs) @ '']''"
| "stableJson f (JObj fs) =
     ''{'' @ join_with '','' (map (\<lambda>(k, v). quoted k @ '':'' @ stableJson f v) (sort_key fst fs)) @ ''}''"
| "stableJson f v = stringifyJsonSafe f v"
  by pat_completeness auto
termination by (relation "measure (size \<circ> snd)") (auto simp: less_Suc_eq_le size_list_estimation' intro: order_trans)

section \<open>Values that differ in the order of their keys\<close>

text \<open>
  \<open>same_json\<close> relates two values with the same members at every depth, in any order; the keys of
  an object are distinct.
\<close>

inductive same_json :: "json \<Rightarrow> json \<Rightarrow> bool" where
  same_refl: "same_json v v"
| same_arr: "list_all2 same_json vs ws \<Longrightarrow> same_json (JArr vs) (JArr ws)"
| same_obj: "distinct (map fst fs) \<Longrightarrow> list_all2 (\<lambda>p q. fst p = fst q \<and> same_json (snd p) (snd q)) fs gs \<Longrightarrow>
     mset gs = mset hs \<Longrightarrow> same_json (JObj fs) (JObj hs)"

lemma sort_key_permuted:
  assumes "mset xs = mset ys" and "distinct (map k xs)"
  shows "sort_key k xs = sort_key k ys"
proof (rule map_sorted_distinct_set_unique)
  have sets: "set xs = set ys" using assms(1) by (metis set_mset_mset)
  then show "inj_on k (set (sort_key k xs) \<union> set (sort_key k ys))"
    using assms(2) by (simp add: distinct_map)
  have "mset (map k xs) = mset (map k ys)" using assms(1) by simp
  then have "distinct (map k ys)" using assms(2) by (metis mset_eq_imp_distinct_iff)
  moreover have "mset (map k (sort_key k zs)) = mset (map k zs)" for zs by simp
  ultimately show "distinct (map k (sort_key k xs))" "distinct (map k (sort_key k ys))"
    using assms(2) by (metis mset_eq_imp_distinct_iff)+
  show "set (sort_key k xs) = set (sort_key k ys)" using sets by simp
qed simp_all

lemma insort_related:
  assumes "\<And>x y. P x y \<Longrightarrow> fst x = fst y" and "list_all2 P xs ys" and "P x y"
  shows "list_all2 P (insort_key fst x xs) (insort_key fst y ys)"
  using assms(2)
proof (induction rule: list_all2_induct)
  case Nil
  show ?case using assms(3) by simp
next
  case (Cons a as b bs)
  with assms(1)[OF assms(3)] assms(1)[OF Cons(1)] assms(3) show ?case by auto
qed

lemma sort_related:
  assumes "\<And>x y. P x y \<Longrightarrow> fst x = fst y" and "list_all2 P xs ys"
  shows "list_all2 P (sort_key fst xs) (sort_key fst ys)"
  using assms(2)
proof (induction rule: list_all2_induct)
  case (Cons a as b bs)
  then show ?case using insort_related [of P, OF assms(1)] by simp
qed simp

lemma map_related: "list_all2 (\<lambda>x y. g x = h y) xs ys \<Longrightarrow> map g xs = map h ys"
  by (induction rule: list_all2_induct) simp_all

lemma stableJson_same: "same_json a b \<Longrightarrow> stableJson f a = stableJson f b"
proof (induction rule: same_json.induct)
  case (same_refl v)
  show ?case by simp
next
  case (same_arr vs ws)
  then have "map (stableJson f) vs = map (stableJson f) ws" by (intro map_related) (simp add: list_all2_mono)
  then show ?case by simp
next
  case (same_obj fs gs hs)
  let ?P = "\<lambda>p q. fst p = fst q \<and> stableJson f (snd p) = stableJson f (snd q)"
  have rel: "list_all2 ?P fs gs" using same_obj.IH by (rule list_all2_mono) auto
  then have "map fst fs = map fst gs" by (intro map_related) (erule list_all2_mono, simp)
  with same_obj.hyps have "sort_key fst hs = sort_key fst gs" by (metis sort_key_permuted)
  moreover have "list_all2 ?P (sort_key fst fs) (sort_key fst gs)" by (rule sort_related [OF _ rel]) simp
  then have "map (\<lambda>(k, v). quoted k @ '':'' @ stableJson f v) (sort_key fst fs) =
      map (\<lambda>(k, v). quoted k @ '':'' @ stableJson f v) (sort_key fst gs)"
    by (intro map_related) (erule list_all2_mono, auto simp: case_prod_beta)
  ultimately show ?case by simp
qed

text \<open>Two requests that differ only in the order of the keys of their objects, at any depth,
  have the same canonical text, and with it the same hash.\<close>

theorem hash_ignores_key_order:
  "same_json a b \<Longrightarrow> sha (stableJson f a) = sha (stableJson f b)"
  by (simp add: stableJson_same)

theorem hash_ignores_key_order_witness:
  "stableJson \<lparr>jf_uuid = nat_to_digits, jf_iso = int_text\<rparr>
     (JObj [(''b'', JInt 1), (''a'', JArr [JObj [(''y'', JNull), (''x'', JBool True)]])]) =
   stableJson \<lparr>jf_uuid = nat_to_digits, jf_iso = int_text\<rparr>
     (JObj [(''a'', JArr [JObj [(''x'', JBool True), (''y'', JNull)]]), (''b'', JInt 1)])"
proof (rule hash_ignores_key_order [where sha = "\<lambda>t. t"])
  have inner: "same_json (JObj [(''y'', JNull), (''x'', JBool True)]) (JObj [(''x'', JBool True), (''y'', JNull)])"
    by (rule same_obj [of _ "[(''y'', JNull), (''x'', JBool True)]"]) (simp_all add: same_refl)
  show "same_json (JObj [(''b'', JInt 1), (''a'', JArr [JObj [(''y'', JNull), (''x'', JBool True)]])])
      (JObj [(''a'', JArr [JObj [(''x'', JBool True), (''y'', JNull)]]), (''b'', JInt 1)])"
    by (rule same_obj [of _ "[(''b'', JInt 1), (''a'', JArr [JObj [(''x'', JBool True), (''y'', JNull)]])]"])
       (simp_all add: same_refl same_arr inner)
qed

end
