(* ===== verification/Profiles.thy ===== *)
theory Profiles
  imports Schema JsonText
begin

text \<open>
  The USSD flows a phone executes, from \<open>apps/api/src/devices/device-profiles.service.ts\<close> and
  \<open>device-profile-version.ts\<close>: one money profile per kind of transfer and the balance profile,
  signed (\<open>device-signing.service.ts\<close>) and sent to every phone. A phone walks a profile from its
  initial step along \<open>next_step_id\<close>, giving the response of each step.
\<close>

section \<open>Profiles\<close>

definition CURRENT_DEVICE_PROFILE_VERSION :: int where
  "CURRENT_DEVICE_PROFILE_VERSION = 2"

record flow_response =
  fr_type :: string
  fr_select :: "string option"
  fr_input :: "string option"
  fr_commit :: bool

record profile_step =
  fs_id :: string
  fs_requiredAny :: "string list"
  fs_forbiddenAny :: "string list"
  fs_response :: flow_response
  fs_next :: "string option"

record flow_profile =
  pf_id :: string
  pf_version :: int
  pf_operation :: string
  pf_initial :: string
  pf_aliases :: "(string \<times> string list) list"
  pf_namePatterns :: "string list"
  pf_terminals :: "(string \<times> string list) list"
  pf_steps :: "profile_step list"

fun job_type_text :: "job_type \<Rightarrow> string" where
  "job_type_text Customer_withdrawal = ''customer_withdrawal''"
| "job_type_text Unknown_reconciliation = ''unknown_reconciliation''"
| "job_type_text Merchant_settlement = ''merchant_settlement''"
| "job_type_text Emergency_liquidity_move = ''emergency_liquidity_move''"
| "job_type_text Automatic_sweep = ''automatic_sweep''"
| "job_type_text Balance_query = ''balance_query''"

definition profileId :: "job_type \<Rightarrow> string" where
  "profileId ty = (if ty = Balance_query then ''telebirr.balance-query.v1''
     else if ty = Customer_withdrawal then ''telebirr.send-money.v1''
     else ''telebirr.'' @ map (\<lambda>c. if c = CHR ''_'' then CHR ''-'' else c) (job_type_text ty) @ ''.v1'')"

definition flow_aliases :: "(string \<times> string list) list" where
  "flow_aliases = [(''next'', [''NEXT'', ''MORE'']), (''send_money'', [''SEND MONEY'', ''TRANSFER MONEY'']),
     (''my_account'', [''MY ACCOUNT'', ''ACCOUNT'']),
     (''query_balance'', [''QUERY BALANCE'', ''CHECK BALANCE'', ''BALANCE'']),
     (''confirm'', [''CONFIRM'', ''YES'', ''OK'']), (''cancel'', [''CANCEL'', ''NO'', ''BACK''])]"

definition terminals :: "(string \<times> string list) list" where
  "terminals = [(''success_any'', [''SUCCESSFUL'', ''COMPLETED'']),
     (''failure_any'', [''FAILED'', ''DECLINED'', ''INSUFFICIENT'', ''INVALID PIN''])]"

definition alias_of :: "string \<Rightarrow> string list" where
  "alias_of k = concat (map snd (filter (\<lambda>p. fst p = k) flow_aliases))"

definition response :: "string \<Rightarrow> string option \<Rightarrow> string option \<Rightarrow> bool \<Rightarrow> flow_response" where
  "response ty select input commit = \<lparr>fr_type = ty, fr_select = select, fr_input = input, fr_commit = commit\<rparr>"

definition step :: "string \<Rightarrow> string list \<Rightarrow> flow_response \<Rightarrow> string option \<Rightarrow> profile_step" where
  "step i required r follow = \<lparr>fs_id = i, fs_requiredAny = required, fs_forbiddenAny = [], fs_response = r, fs_next = follow\<rparr>"

text \<open>A regular expression the phone runs, with \<open>%\<close> for a backslash and \<open>&\<close> for an apostrophe.\<close>

definition phone_regex :: "string \<Rightarrow> string" where
  "phone_regex = map (\<lambda>c. if c = CHR ''%'' then CHR 0x5C else if c = CHR ''&'' then CHR 0x27 else c)"

definition name_patterns :: "string list" where
  "name_patterns = map phone_regex
     [''(?iu)%bto%s+[+0-9*() -]{8,24}%s+([%p{L}][%p{L}%p{M} .&%-]{1,80}?)(?=%s*(?:%n|confirm|[10][.)]|$))'',
      ''(?iu)%bfor%s+[+0-9*() -]{8,24}%s+([%p{L}][%p{L}%p{M} .&%-]{1,80}?)(?=%s*(?:%n|[10][.)]|confirm|$))'',
      ''(?iu)%bto%s+([%p{L}][%p{L}%p{M} .&%-]{1,80}?)(?:%s*%(|%n|,|$)'',
      ''(?iu)receiver(?: name)?%s*[:=%-]%s*([%p{L}][%p{L}%p{M} .&%-]{1,80}?)(?:%n|,|$)'']"

definition moneyProfile :: "job_type \<Rightarrow> string \<Rightarrow> flow_profile" where
  "moneyProfile ty operation = \<lparr>pf_id = profileId ty, pf_version = CURRENT_DEVICE_PROFILE_VERSION,
     pf_operation = operation, pf_initial = ''main-send-menu'',
     pf_aliases = [(''confirm'', alias_of ''confirm''), (''send_money'', alias_of ''send_money'')],
     pf_namePatterns = name_patterns, pf_terminals = terminals,
     pf_steps =
      [step ''main-send-menu'' [''SEND'', ''TRANSFER''] (response ''select_menu'' (Some ''send_money'') None False) (Some ''send-submenu''),
       step ''send-submenu'' [''SEND MONEY'', ''TRANSFER MONEY''] (response ''select_menu'' (Some ''send_money'') None False) (Some ''destination''),
       step ''destination'' [''MOBILE NUMBER'', ''RECEIVER'', ''PHONE NUMBER'']
         (response ''enter_value'' None (Some ''destination_phone'') False) (Some ''verify-recipient''),
       step ''verify-recipient'' [''CONFIRM'', ''RECEIVER'', ''NAME'']
         (response ''verify_recipient_and_select'' (Some ''confirm'') None False) (Some ''amount''),
       step ''amount'' [''ENTER AMOUNT'', ''AMOUNT''] (response ''enter_value'' None (Some ''amount_etb'') False) (Some ''comment''),
       step ''comment'' [''COMMENT'', ''REMARK'', ''REFERENCE''] (response ''enter_value'' None (Some ''empty_text'') False) (Some ''final-confirm''),
       step ''final-confirm'' [''CONFIRM'', ''TRANSFER'', ''SEND'']
         (response ''verify_transfer_and_select'' (Some ''confirm'') None False) (Some ''pin''),
       step ''pin'' [''ENTER PIN'', ''PIN''] (response ''submit_local_pin'' None None True) (Some ''provider-result''),
       step ''provider-result'' [''PROCESS'', ''WAIT'', ''REQUEST''] (response ''dismiss_and_wait_for_provider'' None None False) None]\<rparr>"

definition balanceProfile :: flow_profile where
  "balanceProfile = \<lparr>pf_id = profileId Balance_query, pf_version = CURRENT_DEVICE_PROFILE_VERSION,
     pf_operation = ''balance_query'', pf_initial = ''next'', pf_aliases = flow_aliases, pf_namePatterns = [],
     pf_terminals = terminals,
     pf_steps =
      [step ''next'' [''NEXT'', ''MORE''] (response ''select_menu'' (Some ''next'') None False) (Some ''my-account''),
       step ''my-account'' [''MY ACCOUNT'', ''ACCOUNT''] (response ''select_menu'' (Some ''my_account'') None False) (Some ''query-balance''),
       step ''query-balance'' [''BALANCE''] (response ''select_menu'' (Some ''query_balance'') None False) (Some ''pin''),
       step ''pin'' [''ENTER PIN'', ''PIN''] (response ''submit_local_pin'' None None False) (Some ''processing''),
       step ''processing'' [''PROCESS'', ''SMS'', ''REQUEST''] (response ''dismiss_and_wait_for_provider'' None None False) None]\<rparr>"

definition all_profiles :: "flow_profile list" where
  "all_profiles =
     map (\<lambda>(ty, operation). moneyProfile ty operation)
       [(Customer_withdrawal, ''withdrawal''), (Merchant_settlement, ''merchant_settlement''),
        (Automatic_sweep, ''automatic_sweep''), (Emergency_liquidity_move, ''emergency_liquidity_move'')] @
     [balanceProfile]"

section \<open>Signed envelopes\<close>

text \<open>
  \<open>signJson\<close> signs the exact text of a payload. The signature and the base64 texts are arguments.
\<close>

record signing =
  sg_keyId :: string
  sg_base64 :: "string \<Rightarrow> string"
  sg_sign :: "string \<Rightarrow> string"
  sg_format :: json_format

record signed_envelope =
  nv_keyId :: string
  nv_payload :: string
  nv_signature :: string

definition signJson :: "signing \<Rightarrow> json \<Rightarrow> signed_envelope" where
  "signJson sg payload =
     (let exact = stringifyJsonSafe (sg_format sg) payload
      in \<lparr>nv_keyId = sg_keyId sg, nv_payload = sg_base64 sg exact, nv_signature = sg_base64 sg (sg_sign sg exact)\<rparr>)"

definition texts_json :: "string list \<Rightarrow> json" where
  "texts_json ws = JArr (map JStr ws)"

definition opt_field :: "string \<Rightarrow> string option \<Rightarrow> json_object" where
  "opt_field k v = (case v of None \<Rightarrow> [] | Some s \<Rightarrow> if s = [] then [] else [(k, JStr s)])"

definition response_json :: "flow_response \<Rightarrow> json" where
  "response_json r = JObj ([(''type'', JStr (fr_type r))] @ opt_field ''select_action'' (fr_select r) @
     opt_field ''input_value'' (fr_input r) @ [(''financial_commit'', JBool (fr_commit r))])"

definition step_json :: "profile_step \<Rightarrow> json" where
  "step_json s = JObj ([(''id'', JStr (fs_id s)),
     (''expectation'', JObj [(''required_any'', texts_json (fs_requiredAny s)), (''forbidden_any'', texts_json (fs_forbiddenAny s))]),
     (''response'', response_json (fs_response s))] @ opt_field ''next_step_id'' (fs_next s))"

definition profile_json :: "flow_profile \<Rightarrow> json" where
  "profile_json p = JObj [(''profile_id'', JStr (pf_id p)), (''version'', JInt (pf_version p)),
     (''operation'', JStr (pf_operation p)), (''initial_step_id'', JStr (pf_initial p)),
     (''label_aliases'', JObj (map (\<lambda>(k, v). (k, texts_json v)) (pf_aliases p))),
     (''recipient_name_patterns'', texts_json (pf_namePatterns p)),
     (''terminal_markers'', JObj (map (\<lambda>(k, v). (k, texts_json v)) (pf_terminals p))),
     (''steps'', JArr (map step_json (pf_steps p)))]"

definition allSignedProfiles :: "signing \<Rightarrow> signed_envelope list" where
  "allSignedProfiles sg = map (\<lambda>p. signJson sg (profile_json p)) all_profiles"

section \<open>Walks\<close>

definition find_step :: "flow_profile \<Rightarrow> string \<Rightarrow> profile_step option" where
  "find_step p i = find (\<lambda>s. fs_id s = i) (pf_steps p)"

text \<open>The walks of a phone: the steps passed so far, the latest last.\<close>

inductive walk :: "flow_profile \<Rightarrow> profile_step list \<Rightarrow> bool" for p where
  walk_start: "find_step p (pf_initial p) = Some s \<Longrightarrow> walk p [s]"
| walk_next: "walk p (ss @ [s]) \<Longrightarrow> fs_next s = Some i \<Longrightarrow> find_step p i = Some t \<Longrightarrow> walk p (ss @ [s, t])"

text \<open>The steps in the order listed, each leading to the next.\<close>

fun chained :: "profile_step list \<Rightarrow> bool" where
  "chained [] = True"
| "chained [s] = (fs_next s = None)"
| "chained (s # t # ss) = (fs_next s = Some (fs_id t) \<and> chained (t # ss))"

definition linear_profile :: "flow_profile \<Rightarrow> bool" where
  "linear_profile p = (pf_steps p \<noteq> [] \<and> pf_initial p = fs_id (hd (pf_steps p)) \<and>
     distinct (map fs_id (pf_steps p)) \<and> chained (pf_steps p))"

lemma chained_next:
  "chained (xs @ s # ys) \<Longrightarrow> fs_next s = (case ys of [] \<Rightarrow> None | t # _ \<Rightarrow> Some (fs_id t))"
proof (induction xs)
  case Nil
  then show ?case by (cases ys) auto
next
  case (Cons x xs)
  then show ?case by (cases "xs @ s # ys") auto
qed

lemma find_step_listed:
  "distinct (map fs_id (pf_steps p)) \<Longrightarrow> pf_steps p = xs @ s # ys \<Longrightarrow> find_step p (fs_id s) = Some s"
  unfolding find_step_def by (rule find_key_unique) auto

lemma walk_is_prefix:
  assumes "walk p ss" and "linear_profile p"
  shows "\<exists>rest. pf_steps p = ss @ rest"
  using assms(1)
proof induction
  case (walk_start s)
  from assms(2) obtain x xs where xs: "pf_steps p = x # xs" "pf_initial p = fs_id x"
    by (auto simp: linear_profile_def neq_Nil_conv)
  then have "find_step p (fs_id x) = Some x"
    using assms(2) find_step_listed [of p "[]" x xs] by (simp add: linear_profile_def)
  with walk_start xs show ?case by simp
next
  case (walk_next ss s i t)
  then obtain rest where rest: "pf_steps p = ss @ s # rest" by auto
  with assms(2) have "fs_next s = (case rest of [] \<Rightarrow> None | r # _ \<Rightarrow> Some (fs_id r))"
    by (metis chained_next linear_profile_def)
  with walk_next.hyps(2) obtain r rs where r: "rest = r # rs" "i = fs_id r" by (cases rest) auto
  with rest have "pf_steps p = (ss @ [s]) @ r # rs" by simp
  then have "find_step p (fs_id r) = Some r"
    using assms(2) find_step_listed by (metis linear_profile_def)
  with walk_next.hyps(3) r rest show ?case by simp
qed

lemma moneyProfile_linear: "linear_profile (moneyProfile ty operation)"
  by (simp add: linear_profile_def moneyProfile_def step_def)

lemma balanceProfile_linear: "linear_profile balanceProfile"
  by (simp add: linear_profile_def balanceProfile_def step_def)

lemma prefix_is_walk:
  assumes "linear_profile p"
  shows "ss \<noteq> [] \<Longrightarrow> pf_steps p = ss @ rest \<Longrightarrow> walk p ss"
proof (induction ss arbitrary: rest rule: rev_induct)
  case (snoc t ss)
  have steps: "pf_steps p = ss @ t # rest" using snoc.prems by simp
  with assms have t: "find_step p (fs_id t) = Some t" by (metis find_step_listed linear_profile_def)
  show ?case
  proof (cases ss rule: rev_exhaust)
    case Nil
    with steps assms have "pf_initial p = fs_id t" by (simp add: linear_profile_def)
    with t Nil show ?thesis by (simp add: walk_start)
  next
    case (snoc us s)
    with steps have "pf_steps p = us @ s # t # rest" by simp
    then have "fs_next s = Some (fs_id t)" using assms chained_next [of us s "t # rest"] by (simp add: linear_profile_def)
    moreover have "walk p (us @ [s])" using snoc steps snoc.IH by simp
    ultimately show ?thesis using t snoc walk_next by simp
  qed
qed simp

text \<open>What a step must find done before it commits money.\<close>

abbreviation response_type :: "profile_step \<Rightarrow> string" where
  "response_type s \<equiv> fr_type (fs_response s)"

definition both_verified :: "string list \<Rightarrow> bool" where
  "both_verified seen = (''verify_recipient_and_select'' \<in> set seen \<and> ''verify_transfer_and_select'' \<in> set seen)"

fun commits_checked :: "string list \<Rightarrow> profile_step list \<Rightarrow> bool" where
  "commits_checked seen [] = True"
| "commits_checked seen (s # ss) =
     ((fr_commit (fs_response s) \<longrightarrow> both_verified seen) \<and> commits_checked (seen @ [response_type s]) ss)"

lemma commits_checked_at:
  "commits_checked seen (xs @ s # ys) \<Longrightarrow> fr_commit (fs_response s) \<Longrightarrow> both_verified (seen @ map response_type xs)"
  by (induction xs arbitrary: seen) fastforce+

lemma moneyProfile_checked: "commits_checked [] (pf_steps (moneyProfile ty operation))"
  by (simp add: moneyProfile_def step_def response_def both_verified_def)

lemma balanceProfile_checked: "commits_checked [] (pf_steps balanceProfile)"
  by (simp add: balanceProfile_def step_def response_def)

lemma listed_profile:
  assumes "p \<in> set all_profiles"
  shows "linear_profile p" and "commits_checked [] (pf_steps p)"
  using assms moneyProfile_linear balanceProfile_linear moneyProfile_checked balanceProfile_checked
  by (auto simp: all_profiles_def simp del: commits_checked.simps)



end
