(* ===== verification/Gateway.thy ===== *)
theory Gateway
  imports ApiAccess Sms Profiles CanonicalJson
begin

text \<open>
  The WebSocket connections of the phones, from
  \<open>apps/api/src/devices/device-websocket.gateway.ts\<close>: upgrades, one registered socket per phone,
  messages with their schemas, the spool of a phone and heartbeats; with the alerts that
  \<open>device-jobs.service.ts\<close> and \<open>sms-ingestion.service.ts\<close> raise after their transactions. A
  message handler that raises is logged by the caller, so it ends with what it has done so far.
\<close>

declare split_paired_All [simp del] split_paired_Ex [simp del]

section \<open>State\<close>

record unattributed_sms =
  ua_event :: id
  ua_device :: id
  ua_encryptedBody :: string
  ua_bodyHash :: string
  ua_reason :: string
  ua_receivedAt :: time

record ussd_row =
  ue_event :: id
  ue_device :: id
  ue_job :: id
  ue_step :: string
  ue_encryptedScreen :: string
  ue_screenHash :: string
  ue_capturedAt :: time

record ws_identity =
  wi_tokenHash :: string
  wi_cert :: string

datatype frame =
    Profile_install signed_envelope
  | Job_frame envelope_data
  | Spool_ack "id list"
  | Renewal_frame id int time

text \<open>A socket is open, closing with a code (the peer has not answered yet), or closed.\<close>

datatype socket_state = Sock_open | Sock_closing int | Sock_closed

record ws_socket =
  sk_id :: nat
  sk_device :: id
  sk_identity :: ws_identity
  sk_state :: socket_state
  sk_sent :: "frame list"

record gateway =
  gw_db :: db
  gw_unattributed :: "unattributed_sms list"
  gw_ussd :: "ussd_row list"
  gw_sockets :: "ws_socket list"
  gw_registered :: "id \<Rightarrow> nat option"

record gateway_env =
  ge_auth :: auth_crypto
  ge_device :: device_env
  ge_alerts :: alert_env
  ge_signing :: signing
  ge_encrypt :: "string \<Rightarrow> string" \<comment> \<open>\<open>encryptEvidence\<close>\<close>
  ge_system :: id \<comment> \<open>the merchant that holds unmatched receipts\<close>

definition on_db :: "(db \<Rightarrow> db) \<Rightarrow> gateway \<Rightarrow> gateway" where
  "on_db f g = g\<lparr>gw_db := f (gw_db g)\<rparr>"

definition sha :: "gateway_env \<Rightarrow> string \<Rightarrow> string" where
  "sha env = au_sha256 (ge_auth env)"

definition alert :: "gateway_env \<Rightarrow> time \<Rightarrow> string \<Rightarrow> string \<Rightarrow> json_object \<Rightarrow> db \<Rightarrow> db" where
  "alert env now ty message metadata d = snd (notify (ge_alerts env) now ty message metadata d)"

section \<open>Alerts after the transactions of the services\<close>

definition job_reported ::
  "gateway_env \<Rightarrow> time \<Rightarrow> id \<Rightarrow> id \<Rightarrow> string option \<Rightarrow> bool \<Rightarrow> db \<Rightarrow> db" where
  "job_reported env now dev j unknownReference invalidClock d =
     (let d1 = (case unknownReference of None \<Rightarrow> d
          | Some r \<Rightarrow> alert env now ''unknown_payout'' ''A post-commit payout requires manual reconciliation''
              [(''reference'', JStr r), (''device_id'', JId dev), (''job_id'', JId j)] d)
      in if invalidClock then alert env now ''reconciliation_drift''
             ''A device job reported an implausible timestamp and was quarantined''
             [(''device_id'', JId dev), (''job_id'', JId j)] d1
         else d1)"

definition job_leased :: "gateway_env \<Rightarrow> time \<Rightarrow> string option \<Rightarrow> db \<Rightarrow> db" where
  "job_leased env now unknownReference d = (case unknownReference of None \<Rightarrow> d
     | Some r \<Rightarrow> alert env now ''unknown_payout''
         ''A delivered payout lease expired; PIN submission is possible'' [(''reference'', JStr r)] d)"

fun correlation_json :: "correlation option \<Rightarrow> json" where
  "correlation_json None = JNull"
| "correlation_json (Some c) = JStr (correlation_text c)"

definition case_json :: "id option \<Rightarrow> json" where
  "case_json c = (case c of None \<Rightarrow> JNull | Some i \<Rightarrow> JId i)"

definition contradictory_case :: "string \<Rightarrow> db \<Rightarrow> recon_case option" where
  "contradictory_case reference d = find (\<lambda>c. rn_type c = ''late_success_after_manual_failure'' \<and>
     rn_refType c = ''transfer'' \<and>
     list_ex (\<lambda>t. tr_reference t = reference \<and> tr_id t = rn_refId c) (transfers d)) (cases d)"

definition sms_ingested ::
  "gateway_env \<Rightarrow> time \<Rightarrow> id \<Rightarrow> sms_event \<Rightarrow> ingest_result \<Rightarrow> bool \<Rightarrow> db \<Rightarrow> db" where
  "sms_ingested env now dev e r invalidClock d =
     (if ig_duplicate r then d
      else
        let event = (''event_id'', JStr (ev_eventId e));
            suffix = (''sim_iccid_suffix'', JStr (last_n 4 (ev_simIccid e)));
            future = now + DEVICE_RECEIPT_CLOCK_SKEW_MS < ev_receivedAt e;
            uncertain = [event, (''reconciliation_case_id'', case_json (ig_case r)),
              (''correlation_status'', correlation_json (ig_correlation r)), suffix];
            d1 = (if ig_type r = ''incoming_transfer'' \<and> \<not> truthy (ig_reference r)
              then alert env now ''unmatched_receipt'' ''An incoming Telebirr receipt could not be matched uniquely'' [event, suffix] d
              else d);
            d2 = (if invalidClock
              then alert env now ''reconciliation_drift'' ''An implausible device SMS timestamp was clamped and the SIM was quarantined''
                [event, (''device_id'', JId dev), suffix,
                 (''clock_direction'', JStr (if future then ''future'' else ''old_before_query''))] d1
              else d1);
            d3 = (if ig_type r = ''balance'' \<and> ig_correlation r \<noteq> Some Matched
              then alert env now ''reconciliation_drift''
                ''A balance SMS was retained but not applied because query correlation was not unique'' uncertain d2
              else d2)
        in if ig_type r \<noteq> ''outgoing_transfer'' then d3
           else if \<not> truthy (ig_reference r)
           then alert env now ''reconciliation_drift''
               ''An authenticated outgoing Telebirr receipt could not be matched uniquely; the SIM was quarantined'' uncertain d3
           else (case contradictory_case (the (ig_reference r)) d3 of None \<Rightarrow> d3
             | Some c \<Rightarrow> alert env now ''reconciliation_drift'' ''Late provider success contradicted a staff failure resolution''
                 [(''reference'', JStr (the (ig_reference r))), (''case_id'', JId (rn_id c))] d3))"

section \<open>Upgrades\<close>

record ws_upgrade =
  wu_path :: string
  wu_protocol :: "string option"
  wu_request :: device_request

definition trusted_ingress :: "device_env \<Rightarrow> device_request \<Rightarrow> bool" where
  "trusted_ingress env r =
     (let expected = or_else (de_proxySecret env) []; provided = or_else (dr_ingressSecret r) []
      in expected \<noteq> [] \<and> provided \<noteq> [] \<and> provided = expected)"

definition upgrade_device :: "gateway_env \<Rightarrow> ws_upgrade \<Rightarrow> db \<Rightarrow> (device \<times> string) outcome" where
  "upgrade_device env u d =
     (let r = wu_request u; mtls = deviceMtlsRequired (ge_device env) in
      if mtls \<and> \<not> trusted_ingress (ge_device env) r then Inl (RuntimeError ''untrusted_ingress'')
      else case find_device_text (or_else (dr_deviceId r) []) d of
        None \<Rightarrow> Inl (RuntimeError ''unauthorized'')
      | Some v \<Rightarrow> (case dv_authTokenHash v of
          None \<Rightarrow> Inl (RuntimeError ''unauthorized'')
        | Some h \<Rightarrow>
            if h = [] \<or> wu_protocol u \<noteq> Some ''1'' \<or>
               \<not> au_verify (ge_auth env) h (bearer_token (dr_authorization r))
            then Inl (RuntimeError ''unauthorized'')
            else if dv_status v = Dev_quarantined \<or> dv_status v = Dev_retired
            then Inl (RuntimeError ''device_disabled'')
            else if mtls \<and> (dr_certVerified r \<noteq> Some ''SUCCESS'' \<or> \<not> hex64 (observed_cert r))
            then Inl (RuntimeError ''mtls_required'')
            else if mtls \<and> has_cert v \<and> \<not> pinned_matches (observed_cert r) (Some v)
            then Inl (RuntimeError ''certificate_mismatch'')
            else Inr (v, h)))"

text \<open>In production without a pinned certificate the presented one is pinned.\<close>

definition upgrade_pinned :: "gateway_env \<Rightarrow> ws_upgrade \<Rightarrow> device \<Rightarrow> db \<Rightarrow> unit outcome \<times> db" where
  "upgrade_pinned env u v d =
     (let observed = observed_cert (wu_request u) in
      if \<not> deviceMtlsRequired (ge_device env) \<or> has_cert v then (Inr (), d)
      else case pin_cert observed v d of
          Inl e \<Rightarrow> (Inl e, d)
        | Inr d1 \<Rightarrow> if pinned_matches observed (find_device d1 (dv_id v)) then (Inr (), d1)
                    else (Inl (RuntimeError ''certificate_mismatch''), d1))"

definition upgrade :: "gateway_env \<Rightarrow> ws_upgrade \<Rightarrow> db \<Rightarrow> (id \<times> ws_identity) outcome \<times> db" where
  "upgrade env u d = (case upgrade_device env u d of
       Inl e \<Rightarrow> (Inl e, d)
     | Inr (v, h) \<Rightarrow> (case upgrade_pinned env u v d of
         (Inl e, d1) \<Rightarrow> (Inl e, d1)
       | (Inr _, d1) \<Rightarrow>
           (Inr (dv_id v, \<lparr>wi_tokenHash = h, wi_cert = observed_cert (wu_request u)\<rparr>), d1)))"

section \<open>Sockets\<close>

definition find_socket :: "gateway \<Rightarrow> nat \<Rightarrow> ws_socket option" where
  "find_socket g k = find (\<lambda>s. sk_id s = k) (gw_sockets g)"

definition set_socket :: "nat \<Rightarrow> (ws_socket \<Rightarrow> ws_socket) \<Rightarrow> gateway \<Rightarrow> gateway" where
  "set_socket k f g = g\<lparr>gw_sockets := update_where (\<lambda>s. sk_id s = k) f (gw_sockets g)\<rparr>"

definition closing :: "int \<Rightarrow> ws_socket \<Rightarrow> ws_socket" where
  "closing code s = (if sk_state s = Sock_open then s\<lparr>sk_state := Sock_closing code\<rparr> else s)"

definition close_socket :: "nat \<Rightarrow> int \<Rightarrow> gateway \<Rightarrow> gateway" where
  "close_socket k code = set_socket k (closing code)"

definition send :: "nat \<Rightarrow> frame \<Rightarrow> gateway \<Rightarrow> gateway" where
  "send k f = set_socket k (\<lambda>s. if sk_state s = Sock_open then s\<lparr>sk_sent := sk_sent s @ [f]\<rparr> else s)"

definition connected :: "id \<Rightarrow> ws_identity \<Rightarrow> gateway \<Rightarrow> gateway" where
  "connected dev identity g =
     (let k = length (gw_sockets g);
          g1 = (case gw_registered g dev of None \<Rightarrow> g | Some p \<Rightarrow> close_socket p 4001 g)
      in g1\<lparr>gw_sockets := gw_sockets g1 @ [\<lparr>sk_id = k, sk_device = dev, sk_identity = identity,
               sk_state = Sock_open, sk_sent = []\<rparr>],
            gw_registered := (gw_registered g1)(dev \<mapsto> k)\<rparr>)"

definition socket_closed :: "nat \<Rightarrow> gateway \<Rightarrow> gateway" where
  "socket_closed k g = (case find_socket g k of None \<Rightarrow> g
     | Some s \<Rightarrow>
         let g1 = set_socket k (\<lambda>x. x\<lparr>sk_state := Sock_closed\<rparr>) g
         in if gw_registered g (sk_device s) = Some k then g1\<lparr>gw_registered := (gw_registered g1)(sk_device s := None)\<rparr>
            else g1)"

definition connectionAuthorized :: "gateway_env \<Rightarrow> id \<Rightarrow> ws_identity \<Rightarrow> db \<Rightarrow> bool" where
  "connectionAuthorized env dev identity d = (case find_device d dev of
       None \<Rightarrow> False
     | Some v \<Rightarrow>
         dv_authTokenHash v = Some (wi_tokenHash identity) \<and> wi_tokenHash identity \<noteq> [] \<and>
         dv_status v \<noteq> Dev_retired \<and>
         (if deviceMtlsRequired (ge_device env) \<and> has_cert v
          then wi_cert identity \<noteq> [] \<and>
            map to_lower (the (dv_certFingerprint v)) = map to_lower (wi_cert identity)
          else True))"

definition authorization_tick :: "gateway_env \<Rightarrow> nat \<Rightarrow> gateway \<Rightarrow> gateway" where
  "authorization_tick env k g = (case find_socket g k of None \<Rightarrow> g
     | Some s \<Rightarrow> if connectionAuthorized env (sk_device s) (sk_identity s) (gw_db g) then g
         else close_socket k 4003 g)"

definition shutdown :: "gateway \<Rightarrow> gateway" where
  "shutdown g = fold (\<lambda>s. if gw_registered g (sk_device s) = Some (sk_id s) then close_socket (sk_id s) 1001 else id)
     (gw_sockets g) g"

section \<open>Heartbeats\<close>

record ws_sim =
  ws_iccid :: string
  ws_iccidHash :: string
  ws_number :: string
  ws_suffix :: string
  ws_name :: string
  ws_slot :: int
  ws_subscription :: int
  ws_state :: string
  ws_customer :: "int option"
  ws_incentive :: "int option"
  ws_fuel :: "int option"
  ws_pocket :: "int option"
  ws_balanceAt :: "int option"
  ws_balanceSource :: "string option"

record ws_heartbeat =
  wh_device :: id
  wh_sentAt :: time
  wh_agentVersion :: string
  wh_appVersion :: string
  wh_protocol :: string
  wh_sdk :: int
  wh_androidVersion :: string
  wh_fingerprint :: string
  wh_manufacturer :: string
  wh_model :: string
  wh_battery :: "int option"
  wh_charging :: bool
  wh_temperature :: "rat option"
  wh_network :: string
  wh_accessibilityOk :: bool
  wh_permissionsOk :: bool
  wh_openclaw :: bool
  wh_permissions :: "(string \<times> bool) list"
  wh_profileVersion :: string
  wh_profiles :: "(string \<times> int) list"
  wh_sims :: "ws_sim list"

definition opt_all :: "('a \<Rightarrow> bool) \<Rightarrow> 'a option \<Rightarrow> bool" where
  "opt_all p x = (case x of None \<Rightarrow> True | Some v \<Rightarrow> p v)"

definition at_most :: "nat \<Rightarrow> string \<Rightarrow> bool" where
  "at_most n s = (length s \<le> n)"

definition between :: "nat \<Rightarrow> nat \<Rightarrow> string \<Rightarrow> bool" where
  "between m n s = (m \<le> length s \<and> length s \<le> n)"

definition safe_minor :: "int \<Rightarrow> bool" where
  "safe_minor v = (0 \<le> v \<and> v \<le> 9007199254740991)"

definition ws_sim_valid :: "ws_sim \<Rightarrow> bool" where
  "ws_sim_valid s = (between 10 24 (ws_iccid s) \<and> list_all is_digit (ws_iccid s) \<and>
     between 8 128 (ws_iccidHash s) \<and> at_most 8 (ws_suffix s) \<and> between 1 200 (ws_name s) \<and>
     0 \<le> ws_slot s \<and> ws_slot s \<le> 1 \<and> at_most 32 (ws_state s) \<and>
     opt_all safe_minor (ws_customer s) \<and> opt_all safe_minor (ws_incentive s) \<and>
     opt_all safe_minor (ws_fuel s) \<and> opt_all safe_minor (ws_pocket s) \<and>
     opt_all (\<lambda>t. 0 < t) (ws_balanceAt s) \<and> opt_all (at_most 32) (ws_balanceSource s))"

definition ws_heartbeat_valid :: "ws_heartbeat \<Rightarrow> bool" where
  "ws_heartbeat_valid h = (0 < wh_sentAt h \<and> at_most 32 (wh_agentVersion h) \<and> at_most 32 (wh_appVersion h) \<and>
     wh_protocol h = ''1'' \<and> 26 \<le> wh_sdk h \<and> at_most 32 (wh_androidVersion h) \<and>
     at_most 255 (wh_fingerprint h) \<and> at_most 100 (wh_manufacturer h) \<and> at_most 100 (wh_model h) \<and>
     opt_all (\<lambda>b. 0 \<le> b \<and> b \<le> 100) (wh_battery h) \<and>
     opt_all (\<lambda>t. - 20 \<le> t \<and> t \<le> 100) (wh_temperature h) \<and> at_most 32 (wh_network h) \<and>
     at_most 500 (wh_profileVersion h) \<and> list_all (\<lambda>p. 0 < snd p) (wh_profiles h) \<and>
     list_all ws_sim_valid (wh_sims h) \<and> wh_sims h \<noteq> [] \<and> length (wh_sims h) \<le> 2)"

definition sim_quarantined :: "ws_sim \<Rightarrow> bool" where
  "sim_quarantined r = (map to_lower (ws_state r) = ''quarantined'')"

definition ws_identity_matches :: "ws_sim \<Rightarrow> sim_wallet \<Rightarrow> bool" where
  "ws_identity_matches r s = (sim_iccid s = ws_iccid r \<and> sim_slot s = ws_slot r \<and> sim_phone s = ws_number r \<and>
     nm_decision (comparePersonNames (sim_accountName s) (ws_name r)) = Match)"

text \<open>\<open>iccidHash\<close> is the hash of the ICCID: that is how enrolment fills the column.\<close>

definition enrolled_as :: "gateway_env \<Rightarrow> sim_wallet list \<Rightarrow> ws_sim \<Rightarrow> sim_wallet option" where
  "enrolled_as env enrolled r = find (\<lambda>s. sha env (sim_iccid s) = ws_iccidHash r) enrolled"

definition ws_sim_accepted :: "gateway_env \<Rightarrow> sim_wallet list \<Rightarrow> ws_sim \<Rightarrow> bool" where
  "ws_sim_accepted env enrolled r = opt_holds (ws_identity_matches r) (enrolled_as env enrolled r)"

definition apply_ws_sim :: "gateway_env \<Rightarrow> sim_wallet list \<Rightarrow> ws_sim \<Rightarrow> bool \<times> db \<Rightarrow> bool \<times> db" where
  "apply_ws_sim env enrolled r = (\<lambda>(quarantine, d). case enrolled_as env enrolled r of
       None \<Rightarrow> (True, d)
     | Some s \<Rightarrow>
         if \<not> ws_identity_matches r s
         then (True, set_sim (sim_id s) (\<lambda>x. x\<lparr>sim_status := Sim_quarantined\<rparr>) d)
         else (quarantine \<or> sim_quarantined r,
           set_sim (sim_id s) (\<lambda>x. x\<lparr>sim_subscription := Some (ws_subscription r),
             sim_status := (if sim_quarantined r then Sim_quarantined else sim_status x)\<rparr>) d))"

definition applyHeartbeat :: "gateway_env \<Rightarrow> time \<Rightarrow> id \<Rightarrow> ws_heartbeat \<Rightarrow> db \<Rightarrow> db outcome" where
  "applyHeartbeat env now dev h d = (case find_device d dev of
       None \<Rightarrow> Inl (RuntimeError ''device_disabled'')
     | Some v \<Rightarrow>
         if dv_status v = Dev_retired then Inl (RuntimeError ''device_disabled'')
         else
           let enrolled = filter (\<lambda>s. sim_device s = dev) (sims d);
               first = (dv_status v = Dev_quarantined \<or> length enrolled \<noteq> length (wh_sims h) \<or>
                 now + 60000 < wh_sentAt h);
               (quarantine, d1) = fold (apply_ws_sim env enrolled) (wh_sims h) (first, d)
           in Inr (set_device dev (\<lambda>x. x\<lparr>
                dv_status := operatorControlledDeviceStatus quarantine (dv_status v = Dev_online),
                dv_lastHeartbeatAt := Some now,
                dv_permissionsOk := (wh_permissionsOk h \<and> list_all snd (wh_permissions h)),
                dv_accessibilityOk := wh_accessibilityOk h\<rparr>) d1))"

definition required_profiles :: "string list" where
  "required_profiles = map (\<lambda>i. i @ '':'' @ int_text CURRENT_DEVICE_PROFILE_VERSION)
     [''telebirr.send-money.v1'', ''telebirr.merchant-settlement.v1'', ''telebirr.automatic-sweep.v1'',
      ''telebirr.emergency-liquidity-move.v1'', ''telebirr.balance-query.v1'']"

definition profiles_ready :: "ws_heartbeat \<Rightarrow> bool" where
  "profiles_ready h = list_all (\<lambda>p. p \<in> set (map (\<lambda>(i, v). i @ '':'' @ int_text v) (wh_profiles h))) required_profiles"

section \<open>Spool events\<close>

record status_event =
  te_job :: id
  te_operation :: id
  te_fence :: int
  te_state :: job_state
  te_observedAt :: int
  te_errorCode :: string
  te_attempt :: "int option"
  te_profileId :: "string option"
  te_profileVersion :: "int option"
  te_providerTx :: "string option option"
  te_expectedName :: "string option"
  te_providerName :: "string option"

fun agent_state_text :: "job_state \<Rightarrow> string" where
  "agent_state_text J_queued = ''queued''"
| "agent_state_text J_leased = ''leased''"
| "agent_state_text J_device_started = ''device_started''"
| "agent_state_text J_committed = ''committed''"
| "agent_state_text J_provider_pending = ''provider_pending''"
| "agent_state_text J_succeeded = ''succeeded''"
| "agent_state_text J_failed = ''failed''"
| "agent_state_text J_unknown = ''unknown''"
| "agent_state_text J_cancelled = ''cancelled''"

definition status_valid :: "status_event \<Rightarrow> bool" where
  "status_valid e = (0 < te_fence e \<and> te_fence e \<le> 9007199254740991 \<and> te_state e \<noteq> J_queued \<and>
     0 < te_observedAt e \<and> at_most 1000 (te_errorCode e) \<and> opt_all (\<lambda>n. 0 < n) (te_attempt e) \<and>
     opt_all (at_most 64) (te_profileId e) \<and> opt_all (\<lambda>n. 0 < n) (te_profileVersion e) \<and>
     opt_all (opt_all (at_most 64)) (te_providerTx e) \<and> opt_all (at_most 200) (te_expectedName e) \<and>
     opt_all (at_most 200) (te_providerName e))"

definition present :: "string \<Rightarrow> ('a \<Rightarrow> json) \<Rightarrow> 'a option \<Rightarrow> json_object" where
  "present k f v = (case v of None \<Rightarrow> [] | Some x \<Rightarrow> [(k, f x)])"

definition status_json :: "status_event \<Rightarrow> json" where
  "status_json e = JObj ([(''job_id'', JId (te_job e)), (''financial_operation_id'', JId (te_operation e)),
     (''fencing_token'', JInt (te_fence e)), (''state'', JStr (agent_state_text (te_state e))),
     (''observed_at_ms'', JInt (te_observedAt e)), (''error_code'', JStr (te_errorCode e))] @
     present ''attempt'' JInt (te_attempt e) @ present ''profile_id'' JStr (te_profileId e) @
     present ''profile_version'' JInt (te_profileVersion e) @
     present ''provider_transaction_id'' (\<lambda>x. case x of None \<Rightarrow> JNull | Some s \<Rightarrow> JStr s) (te_providerTx e) @
     present ''expected_receiver_name'' JStr (te_expectedName e) @
     present ''provider_receiver_name'' JStr (te_providerName e))"

datatype spool_payload =
    Job_status status_event
  | Job_acceptance
  | Sms_evidence string time int string string \<comment> \<open>sender, received, subscription, ICCID hash, text\<close>
  | Sms_attribution_failure time string string \<comment> \<open>received, reason, text\<close>
  | Ussd_screen_evidence id string string time \<comment> \<open>job, step, screen, captured\<close>
  | Unsupported_kind string
  | Malformed_payload string

record spool_event =
  se_event :: id
  se_payload :: spool_payload

definition event_text :: "spool_event \<Rightarrow> string" where
  "event_text e = nat_to_digits (se_event e)"

definition status_context :: "gateway_env \<Rightarrow> spool_event \<Rightarrow> status_event \<Rightarrow> spool_context" where
  "status_context env e s = \<lparr>sc_eventId = event_text e,
     sc_hash = sha env (stableJson (sg_format (ge_signing env)) (status_json s)),
     sc_operation = te_operation s, sc_errorCode = te_errorCode s,
     sc_expectedName = te_expectedName s, sc_providerName = te_providerName s\<rparr>"

definition process_status :: "gateway_env \<Rightarrow> time \<Rightarrow> id \<Rightarrow> spool_event \<Rightarrow> status_event \<Rightarrow> db \<Rightarrow> db outcome" where
  "process_status env now dev e s d =
     (if \<not> status_valid s then Inl (RuntimeError ''invalid payload'')
      else map_outcome (\<lambda>(unknownReference, invalidClock, d1). job_reported env now dev (te_job s) unknownReference invalidClock d1)
        (reportFromSpool now dev (te_job s) (te_fence s) (te_state s) (te_observedAt s) (status_context env e s) d))"

text \<open>The latest time \<open>Date\<close> can print.\<close>

definition MAX_DATE_MS :: int where
  "MAX_DATE_MS = 8640000000000000"

definition process_sms ::
  "gateway_env \<Rightarrow> time \<Rightarrow> id \<Rightarrow> spool_event \<Rightarrow> string \<Rightarrow> time \<Rightarrow> string \<Rightarrow> string \<Rightarrow> db \<Rightarrow> db outcome" where
  "process_sms env now dev e sender received iccidHash body d =
     (if \<not> between 1 32 sender \<or> received \<le> 0 \<or> \<not> hex64 iccidHash \<or> \<not> between 1 8000 body
      then Inl (RuntimeError ''invalid payload'')
      else case find (\<lambda>s. sha env (sim_iccid s) = iccidHash) (sims d) of
        None \<Rightarrow> Inl (RuntimeError ''sms_sim_mismatch'')
      | Some s \<Rightarrow>
          if sim_device s \<noteq> dev then Inl (RuntimeError ''sms_sim_mismatch'')
          else if MAX_DATE_MS < received then Inl (RuntimeError ''Invalid time value'')
          else
            let ev = \<lparr>ev_eventId = event_text e, ev_simIccid = sim_iccid s, ev_sender = sender, ev_body = body,
                  ev_receivedAt = received\<rparr>
            in map_outcome (\<lambda>(r, invalidClock, d1). sms_ingested env now dev ev r invalidClock d1)
                 (ingest now (ge_system env) (sha env body) dev ev d))"

definition attribution_json :: "time \<Rightarrow> string \<Rightarrow> string \<Rightarrow> json" where
  "attribution_json received reason body =
     JObj [(''received_at_ms'', JInt received), (''reason'', JStr reason), (''raw_message'', JStr body)]"

definition attribution_recorded ::
  "gateway_env \<Rightarrow> time \<Rightarrow> id \<Rightarrow> spool_event \<Rightarrow> time \<Rightarrow> string \<Rightarrow> string \<Rightarrow> bool \<Rightarrow> time \<Rightarrow> db \<Rightarrow> db" where
  "attribution_recorded env now dev e received reason body future receivedAt d =
     (let d1 = (if find_inbox d ''sms_attribution_failure'' (event_text e) \<noteq> None then d
            else add_inbox ''sms_attribution_failure'' (event_text e)
              (sha env (stringifyJsonSafe (sg_format (ge_signing env)) (attribution_json received reason body))) d);
          d2 = open_case now None ''sms_attribution_failure'' R_open ''unattributed_sms'' (se_event e)
            [(''reason'', JStr reason), (''received_at'', JDate receivedAt), (''device_id'', JId dev),
             (''future_clock'', JBool future)] d1;
          d3 = set_device dev (\<lambda>v. v\<lparr>dv_status := Dev_quarantined\<rparr>) d2
      in d3\<lparr>sims := update_where (\<lambda>s. sim_device s = dev) (\<lambda>s. s\<lparr>sim_status := Sim_quarantined\<rparr>) (sims d3)\<rparr>)"

definition process_attribution ::
  "gateway_env \<Rightarrow> time \<Rightarrow> id \<Rightarrow> spool_event \<Rightarrow> time \<Rightarrow> string \<Rightarrow> string \<Rightarrow> gateway \<Rightarrow> gateway outcome" where
  "process_attribution env now dev e received reason body g =
     (if received \<le> 0 \<or> \<not> between 1 120 reason \<or> \<not> between 1 8000 body then Inl (RuntimeError ''invalid payload'')
      else if list_ex (\<lambda>r. ua_event r = se_event e) (gw_unattributed g) then Inr g
      else if find_device (gw_db g) dev = None then Inl (RuntimeError ''No Device found'')
      else
        let future = now + 60000 < received; receivedAt = (if future then now else received)
        in Inr (on_db (alert env now ''reconciliation_drift''
              ''A device could not attribute a Telebirr SMS to a SIM and was quarantined''
              [(''device_id'', JId dev), (''reason'', JStr reason), (''future_clock'', JBool future)])
            (on_db (attribution_recorded env now dev e received reason body future receivedAt)
              (g\<lparr>gw_unattributed := gw_unattributed g @ [\<lparr>ua_event = se_event e, ua_device = dev,
                 ua_encryptedBody = ge_encrypt env body, ua_bodyHash = sha env body, ua_reason = reason,
                 ua_receivedAt = receivedAt\<rparr>]\<rparr>))))"

text \<open>\<open>sanitizeUssdEvidence\<close> of \<open>common/evidence-crypto.ts\<close>.\<close>

fun unify_newlines :: "string \<Rightarrow> string" where
  "unify_newlines [] = []"
| "unify_newlines (c # cs) =
     (if c = CHR 0x0D then CHR 0x0A # (case cs of [] \<Rightarrow> [] | x # xs \<Rightarrow>
        if x = CHR 0x0A then unify_newlines xs else unify_newlines cs)
      else c # unify_newlines cs)"

definition sanitizeUssdEvidence :: "string \<Rightarrow> string" where
  "sanitizeUssdEvidence value =
     (let normalized = take 8000 (trim (unify_newlines value)) in
      if has_word [[Alt [lit ''ENTER'', lit ''INPUT'', lit ''PROVIDE''], sp,
          Opt (lit ''YOUR'' @ [sp])] @ lit ''PIN''] None normalized
      then ''[PIN SCREEN REDACTED]'' else normalized)"

definition label_screen :: "id \<Rightarrow> string \<Rightarrow> db \<Rightarrow> db" where
  "label_screen j screen d = (case ussdDiagnosticLabel (Some screen) of
       None \<Rightarrow> d
     | Some label \<Rightarrow> set_job j (\<lambda>x. x\<lparr>jb_screen := Some label\<rparr>) d)"

definition process_ussd ::
  "gateway_env \<Rightarrow> time \<Rightarrow> id \<Rightarrow> spool_event \<Rightarrow> id \<Rightarrow> string \<Rightarrow> string \<Rightarrow> time \<Rightarrow> gateway \<Rightarrow> gateway outcome" where
  "process_ussd env now dev e jid stepId raw captured g =
     (if \<not> between 1 128 stepId \<or> \<not> between 1 8000 raw \<or> captured \<le> 0 then Inl (RuntimeError ''invalid payload'')
      else
        let screen = sanitizeUssdEvidence raw; future = now + 60000 < captured;
            capturedAt = (if future then now else captured)
        in case find (\<lambda>j. jb_id j = jid \<and> jb_device j = Some dev) (jobs (gw_db g)) of
          None \<Rightarrow> Inl (RuntimeError ''ussd_evidence_job_mismatch'')
        | Some j \<Rightarrow>
            let rows = (if list_ex (\<lambda>r. ue_event r = se_event e) (gw_ussd g) then gw_ussd g
                  else gw_ussd g @ [\<lparr>ue_event = se_event e, ue_device = dev, ue_job = jb_id j, ue_step = stepId,
                    ue_encryptedScreen = ge_encrypt env screen, ue_screenHash = sha env screen,
                    ue_capturedAt = capturedAt\<rparr>]);
                d1 = (if future then quarantine_both dev (jb_sim j) (gw_db g) else gw_db g);
                latest = first_by (\<lambda>r. - ue_capturedAt r) (filter (\<lambda>r. ue_job r = jb_id j) rows);
                d2 = (if opt_holds (\<lambda>r. ue_event r = se_event e) latest then label_screen (jb_id j) screen d1 else d1);
                d3 = (if future then alert env now ''reconciliation_drift''
                    ''A device reported a future USSD evidence timestamp and was quarantined''
                    [(''device_id'', JId dev), (''job_id'', JId jid)] d2
                  else d2)
            in Inr (g\<lparr>gw_db := d3, gw_ussd := rows\<rparr>))"

definition lift_db :: "(db \<Rightarrow> db outcome) \<Rightarrow> gateway \<Rightarrow> gateway outcome" where
  "lift_db f g = map_outcome (\<lambda>d. g\<lparr>gw_db := d\<rparr>) (f (gw_db g))"

definition processSpoolEvent :: "gateway_env \<Rightarrow> id \<Rightarrow> time \<times> spool_event \<Rightarrow> gateway \<Rightarrow> gateway outcome" where
  "processSpoolEvent env dev = (\<lambda>(now, e) g. case se_payload e of
       Job_status s \<Rightarrow> lift_db (process_status env now dev e s) g
     | Job_acceptance \<Rightarrow> Inr g
     | Sms_evidence sender received subscription iccidHash body \<Rightarrow>
         lift_db (process_sms env now dev e sender received iccidHash body) g
     | Sms_attribution_failure received reason body \<Rightarrow> process_attribution env now dev e received reason body g
     | Ussd_screen_evidence j stepId screen captured \<Rightarrow> process_ussd env now dev e j stepId screen captured g
     | Unsupported_kind k \<Rightarrow> Inl (RuntimeError (''unsupported_spool_event_kind:'' @ k))
     | Malformed_payload why \<Rightarrow> Inl (RuntimeError why))"

text \<open>Only the successfully processed prefix is acknowledged.\<close>

fun process_spool :: "('e \<Rightarrow> 's \<Rightarrow> 'x + 's) \<Rightarrow> 'e list \<Rightarrow> 's \<Rightarrow> 'e list \<times> 's" where
  "process_spool p [] s = ([], s)"
| "process_spool p (e # es) s = (case p e s of
     Inl _ \<Rightarrow> ([], s)
   | Inr s1 \<Rightarrow> (case process_spool p es s1 of (acknowledged, s2) \<Rightarrow> (e # acknowledged, s2)))"

section \<open>Messages\<close>

datatype ws_message =
    Ws_hello id string
  | Ws_heartbeat ws_heartbeat
  | Ws_spool id "(time \<times> spool_event) list" \<comment> \<open>each event with the time at which it is processed\<close>
  | Ws_renewal id int
  | Ws_other \<comment> \<open>another type: ignored\<close>
  | Ws_malformed \<comment> \<open>no JSON, or not of its schema\<close>

definition install_profiles :: "gateway_env \<Rightarrow> nat \<Rightarrow> gateway \<Rightarrow> gateway" where
  "install_profiles env k = fold (\<lambda>e. send k (Profile_install e)) (allSignedProfiles (ge_signing env))"

definition sendLeaseOrJob :: "gateway_env \<Rightarrow> time \<Rightarrow> id \<Rightarrow> nat \<Rightarrow> gateway \<Rightarrow> gateway" where
  "sendLeaseOrJob env now dev k g = (case find_device (gw_db g) dev of
       None \<Rightarrow> g
     | Some v \<Rightarrow>
         if dv_status v \<noteq> Dev_online \<or> dv_activeJob v \<noteq> None then g
         else case leaseNext now dev (gw_db g) of
           Inl e \<Rightarrow> g
         | Inr (job, unknownReference, d1) \<Rightarrow>
             let g1 = g\<lparr>gw_db := job_leased env now unknownReference d1\<rparr>
             in case job of None \<Rightarrow> g1 | Some envl \<Rightarrow> send k (Job_frame envl) g1)"

definition heartbeat_message :: "gateway_env \<Rightarrow> time \<Rightarrow> id \<Rightarrow> nat \<Rightarrow> ws_heartbeat \<Rightarrow> gateway \<Rightarrow> gateway" where
  "heartbeat_message env now dev k h g =
     (if \<not> ws_heartbeat_valid h \<or> wh_device h \<noteq> dev then g
      else case applyHeartbeat env now dev h (gw_db g) of
        Inl e \<Rightarrow> g
      | Inr d1 \<Rightarrow>
          let g1 = g\<lparr>gw_db := d1\<rparr>
          in if profiles_ready h then sendLeaseOrJob env now dev k g1 else install_profiles env k g1)"

definition spool_message ::
  "gateway_env \<Rightarrow> time \<Rightarrow> id \<Rightarrow> nat \<Rightarrow> id \<Rightarrow> (time \<times> spool_event) list \<Rightarrow> gateway \<Rightarrow> gateway" where
  "spool_message env now dev k claimed es g =
     (if 100 < length es \<or> claimed \<noteq> dev then g
      else case process_spool (processSpoolEvent env dev) es g of
        (acknowledged, g1) \<Rightarrow>
          sendLeaseOrJob env now dev k (send k (Spool_ack (map (se_event \<circ> snd) acknowledged)) g1))"

definition renewal_message :: "time \<Rightarrow> id \<Rightarrow> nat \<Rightarrow> id \<Rightarrow> int \<Rightarrow> gateway \<Rightarrow> gateway" where
  "renewal_message now dev k j fence g =
     (if fence \<le> 0 \<or> 9007199254740991 < fence then g
      else case renewActiveForConnection now dev (Some j) (Some fence) (gw_db g) of
        Inl e \<Rightarrow> g
      | Inr (renewal, d1) \<Rightarrow>
          let g1 = g\<lparr>gw_db := d1\<rparr>
          in case renewal of None \<Rightarrow> g1 | Some (i, f, until) \<Rightarrow> send k (Renewal_frame i f until) g1)"

definition message :: "gateway_env \<Rightarrow> time \<Rightarrow> id \<Rightarrow> nat \<Rightarrow> ws_message \<Rightarrow> gateway \<Rightarrow> gateway" where
  "message env now dev k m g = (case m of
       Ws_hello claimed protocol \<Rightarrow>
         if claimed \<noteq> dev \<or> protocol \<noteq> ''1'' then g else install_profiles env k g
     | Ws_heartbeat h \<Rightarrow> heartbeat_message env now dev k h g
     | Ws_spool claimed es \<Rightarrow> spool_message env now dev k claimed es g
     | Ws_renewal j fence \<Rightarrow> renewal_message now dev k j fence g
     | Ws_other \<Rightarrow> g
     | Ws_malformed \<Rightarrow> g)"

definition incoming :: "gateway_env \<Rightarrow> time \<Rightarrow> nat \<Rightarrow> ws_message \<Rightarrow> gateway \<Rightarrow> gateway" where
  "incoming env now k m g = (case find_socket g k of None \<Rightarrow> g
     | Some s \<Rightarrow>
         if sk_state s = Sock_closed then g
         else if \<not> connectionAuthorized env (sk_device s) (sk_identity s) (gw_db g) then close_socket k 4003 g
         else message env now (sk_device s) k m g)"

section \<open>Events\<close>

datatype ws_event =
    Upgraded ws_upgrade
  | Text_message time nat ws_message
  | Binary_message nat
  | Authorization_tick nat
  | Connection_closed nat
  | Shutdown
  | Other_service "db \<Rightarrow> db" \<comment> \<open>what the rest of the program does in between\<close>

definition upgraded :: "gateway_env \<Rightarrow> ws_upgrade \<Rightarrow> gateway \<Rightarrow> gateway" where
  "upgraded env u g =
     (if wu_path u \<noteq> ''/v1/device/connect'' then g
      else case upgrade env u (gw_db g) of
        (Inl e, d1) \<Rightarrow> g\<lparr>gw_db := d1\<rparr>
      | (Inr (dev, identity), d1) \<Rightarrow> connected dev identity (g\<lparr>gw_db := d1\<rparr>))"

fun gateway_step :: "gateway_env \<Rightarrow> ws_event \<Rightarrow> gateway \<Rightarrow> gateway" where
  "gateway_step env (Upgraded u) g = upgraded env u g"
| "gateway_step env (Text_message now k m) g = incoming env now k m g"
| "gateway_step env (Binary_message k) g = close_socket k 1003 g"
| "gateway_step env (Authorization_tick k) g = authorization_tick env k g"
| "gateway_step env (Connection_closed k) g = socket_closed k g"
| "gateway_step env Shutdown g = shutdown g"
| "gateway_step env (Other_service f) g = on_db f g"

definition start_gateway :: "db \<Rightarrow> gateway" where
  "start_gateway d = \<lparr>gw_db = d, gw_unattributed = [], gw_ussd = [], gw_sockets = [], gw_registered = (\<lambda>_. None)\<rparr>"

end
