(* ===== verification/GatewaySafety.thy ===== *)
theory GatewaySafety
  imports Gateway JobSafety
begin

text \<open>
  What the gateway promises the phones and the operators: the acknowledged events of a spool are
  the processed prefix, a heartbeat never promotes a phone, a phone has one open connection at
  most and is only sent its own jobs, and a connection whose credentials were replaced changes
  nothing.
\<close>

declare split_paired_All [simp del] split_paired_Ex [simp del]

section \<open>Spools\<close>

lemma process_spool_prefix:
  "process_spool p es s = (acknowledged, s') \<Longrightarrow>
   \<exists>rest. es = acknowledged @ rest \<and> foldM p acknowledged s = Inr s' \<and>
     (case rest of [] \<Rightarrow> True | e # _ \<Rightarrow> isl (p e s'))"
proof (induction es arbitrary: s acknowledged)
  case Nil
  then show ?case by simp
next
  case (Cons e es)
  show ?case
  proof (cases "p e s")
    case (Inl x)
    with Cons.prems show ?thesis by auto
  next
    case (Inr s1)
    obtain a s2 where r: "process_spool p es s1 = (a, s2)" by fastforce
    with Cons.prems Inr have eq: "acknowledged = e # a" "s2 = s'" by auto
    from Cons.IH [OF r [unfolded eq]] obtain rest where
      "es = a @ rest" "foldM p a s1 = Inr s'" "case rest of [] \<Rightarrow> True | e # _ \<Rightarrow> isl (p e s')" by auto
    with eq Inr show ?thesis by (intro exI [of _ rest]) simp
  qed
qed

text \<open>A gateway with one phone, its SIM and a job, for the examples.\<close>

definition example_env :: gateway_env where
  "example_env = \<lparr>
     ge_auth = \<lparr>au_sha256 = (\<lambda>_. replicate 64 (CHR ''a'')), au_hash = (\<lambda>s. s), au_verify = (\<lambda>h s. h = s)\<rparr>,
     ge_device = \<lparr>de_production = True, de_mtlsRequired = None, de_proxySecret = Some ''s''\<rparr>,
     ge_alerts = \<lparr>ae_botToken = None, ae_chatId = None, ae_alertTypes = None, ae_sha256 = (\<lambda>s. s),
       ae_format = \<lparr>jf_uuid = nat_to_digits, jf_iso = int_text\<rparr>\<rparr>,
     ge_signing = \<lparr>sg_keyId = ''k'', sg_base64 = (\<lambda>s. s), sg_sign = (\<lambda>s. s),
       sg_format = \<lparr>jf_uuid = nat_to_digits, jf_iso = int_text\<rparr>\<rparr>,
     ge_encrypt = (\<lambda>s. s), ge_system = 0\<rparr>"

definition example_phone :: device where
  "example_phone = \<lparr>dv_id = 1, dv_group = 1, dv_name = ''p'', dv_model = None, dv_serial = Some ''h'',
     dv_status = Dev_online, dv_authTokenHash = Some ''t'', dv_certFingerprint = None, dv_lastHeartbeatAt = None,
     dv_permissionsOk = True, dv_accessibilityOk = True, dv_activeJob = None\<rparr>"

definition example_sim :: sim_wallet where
  "example_sim = \<lparr>sim_id = 2, sim_device = 1, sim_slot = 0, sim_subscription = None, sim_iccid = ''8925100001'',
     sim_phone = ''+251911000001'', sim_accountName = ''Abebe Kebede'', sim_status = Sim_active, sim_main = 0,
     sim_incentive = 0, sim_fuel = 0, sim_pocket = 0, sim_reserved = 0, sim_sentToday = 0,
     sim_receivedToday = 0, sim_financialDay = None, sim_lastBalanceAt = None, sim_lastBalanceSource = None,
     sim_lastSmsAt = None, sim_nextFence = 1\<rparr>"

definition example_db :: db where
  "example_db = empty_db\<lparr>devices := [example_phone], sims := [example_sim], next_id := 10\<rparr>"

lemmas example_defs = example_env_def example_phone_def example_sim_def example_db_def empty_db_def start_gateway_def

text \<open>C34. A spool batch acknowledges a prefix of its events: exactly these were processed, one
  after the other, each successfully, and the first event left out fails on the state they led to.
  The acknowledgement is sent before anything else.\<close>

theorem spool_acknowledges_processed_prefix:
  assumes "length es \<le> 100"
  shows "\<exists>acknowledged rest g1. es = acknowledged @ rest \<and>
     foldM (processSpoolEvent env dev) acknowledged g = Inr g1 \<and>
     (case rest of [] \<Rightarrow> True | e # _ \<Rightarrow> isl (processSpoolEvent env dev e g1)) \<and>
     spool_message env now dev k dev es g =
       sendLeaseOrJob env now dev k (send k (Spool_ack (map (se_event \<circ> snd) acknowledged)) g1)"
proof -
  obtain a g1 where r: "process_spool (processSpoolEvent env dev) es g = (a, g1)" by fastforce
  from process_spool_prefix [OF r] obtain rest where
    "es = a @ rest" "foldM (processSpoolEvent env dev) a g = Inr g1"
    "case rest of [] \<Rightarrow> True | e # _ \<Rightarrow> isl (processSpoolEvent env dev e g1)" by auto
  then show ?thesis using assms r
    by (intro exI [of _ a] exI [of _ rest] exI [of _ g1]) (simp add: spool_message_def)
qed

theorem spool_acknowledges_processed_prefix_witness:
  "\<exists>acknowledged rest g1.
     [(5, \<lparr>se_event = 7, se_payload = Job_acceptance\<rparr>), (5, \<lparr>se_event = 8, se_payload = Unsupported_kind ''x''\<rparr>)] =
       acknowledged @ rest \<and>
     foldM (processSpoolEvent example_env 1) acknowledged (start_gateway example_db) = Inr g1 \<and>
     (case rest of [] \<Rightarrow> True | e # _ \<Rightarrow> isl (processSpoolEvent example_env 1 e g1)) \<and>
     spool_message example_env 9 1 0 1
       [(5, \<lparr>se_event = 7, se_payload = Job_acceptance\<rparr>), (5, \<lparr>se_event = 8, se_payload = Unsupported_kind ''x''\<rparr>)]
       (start_gateway example_db) =
       sendLeaseOrJob example_env 9 1 0 (send 0 (Spool_ack (map (se_event \<circ> snd) acknowledged)) g1)"
  by (rule spool_acknowledges_processed_prefix) simp

text \<open>A status event that names an older lease of its job.\<close>

definition stale_status :: "db \<Rightarrow> spool_event \<Rightarrow> bool" where
  "stale_status d e = (case se_payload e of Job_status s \<Rightarrow> (case find_job d (te_job s) of
       None \<Rightarrow> True | Some j \<Rightarrow> jb_fence j \<noteq> te_fence s) | _ \<Rightarrow> False)"

lemma stale_status_refused:
  "stale_status (gw_db g) e \<Longrightarrow> isl (processSpoolEvent env dev (now, e) g)"
  by (auto simp: stale_status_def processSpoolEvent_def lift_db_def process_status_def reportFromSpool_def report_def
      split: spool_payload.splits option.splits)

text \<open>A status event of an older lease is refused before its inbox entry is looked up, even
  if it was processed already and only its acknowledgement was lost: a batch that starts with it
  acknowledges nothing and processes none of the events behind it, however often it is sent.\<close>

theorem stale_status_blocks_spool:
  assumes "stale_status (gw_db g) e"
  shows "process_spool (processSpoolEvent env dev) ((now, e) # es) g = ([], g)"
  using stale_status_refused [OF assms, of env dev now] by (auto simp: isl_def)

theorem stale_status_blocks_spool_witness:
  "process_spool (processSpoolEvent example_env 1)
     [(5, \<lparr>se_event = 7, se_payload = Job_status \<lparr>te_job = 4, te_operation = 4, te_fence = 1, te_state = J_failed,
        te_observedAt = 3, te_errorCode = [], te_attempt = None, te_profileId = None, te_profileVersion = None,
        te_providerTx = None, te_expectedName = None, te_providerName = None\<rparr>\<rparr>),
      (6, \<lparr>se_event = 8, se_payload = Job_acceptance\<rparr>)] (start_gateway example_db) = ([], start_gateway example_db)"
  by (rule stale_status_blocks_spool) (simp add: stale_status_def example_defs find_job_def)

section \<open>Heartbeats\<close>

lemma apply_ws_sim_flag:
  "fst (apply_ws_sim env enrolled r (q, d)) = (q \<or> \<not> ws_sim_accepted env enrolled r \<or> sim_quarantined r)"
  by (auto simp: apply_ws_sim_def ws_sim_accepted_def split: option.split)

lemma apply_ws_sims_flag:
  "fst (fold (apply_ws_sim env enrolled) rs (q, d)) =
   (q \<or> \<not> list_all (\<lambda>r. ws_sim_accepted env enrolled r \<and> \<not> sim_quarantined r) rs)"
proof (induction rs arbitrary: q d)
  case (Cons r rs)
  obtain q1 d1 where r: "apply_ws_sim env enrolled r (q, d) = (q1, d1)" by fastforce
  with apply_ws_sim_flag [of env enrolled r q d] Cons.IH [of q1 d1] show ?case by auto
qed simp

lemma apply_ws_sims_devices:
  "devices (snd (fold (apply_ws_sim env enrolled) rs (q, d))) = devices d"
proof (induction rs arbitrary: q d)
  case (Cons r rs)
  obtain q1 d1 where r: "apply_ws_sim env enrolled r (q, d) = (q1, d1)" by fastforce
  then have "devices d1 = devices d"
    by (auto simp: apply_ws_sim_def set_sim_def split: option.splits if_splits)
  with r Cons.IH show ?case by simp
qed simp

definition sims_promoted :: "db \<Rightarrow> db \<Rightarrow> bool" where
  "sims_promoted d d' = (\<not> list_all2 (\<lambda>s s'. sim_id s' = sim_id s \<and> sim_device s' = sim_device s \<and>
     (sim_status s' = sim_status s \<or> sim_status s' = Sim_quarantined)) (sims d) (sims d'))"

lemma list_all2_trans_on:
  "list_all2 P xs ys \<Longrightarrow> list_all2 P ys zs \<Longrightarrow> (\<And>x y z. P x y \<Longrightarrow> P y z \<Longrightarrow> P x z) \<Longrightarrow> list_all2 P xs zs"
  by (rule list_all2_trans)

lemma apply_ws_sims_sims:
  "\<not> sims_promoted d (snd (fold (apply_ws_sim env enrolled) rs (q, d)))"
proof (induction rs arbitrary: q d)
  case Nil
  show ?case by (simp add: sims_promoted_def list_all2_same)
next
  case (Cons r rs)
  obtain q1 d1 where r: "apply_ws_sim env enrolled r (q, d) = (q1, d1)" by fastforce
  then have "\<not> sims_promoted d d1"
    by (auto simp: apply_ws_sim_def set_sim_def sims_promoted_def update_where_def list_all2_map2 list_all2_same
        split: option.splits if_splits)
  moreover have "\<not> sims_promoted d1 (snd (fold (apply_ws_sim env enrolled) rs (q1, d1)))" by (rule Cons.IH)
  ultimately have "\<not> sims_promoted d (snd (fold (apply_ws_sim env enrolled) rs (q1, d1)))"
    unfolding sims_promoted_def not_not by (rule list_all2_trans_on) auto
  with r show ?case by simp
qed

lemma find_written_device:
  "(\<And>v. dv_id (f v) = dv_id v) \<Longrightarrow> find_device (set_device i f d) i = map_option f (find_device d i)"
  unfolding find_device_def set_device_def by (auto simp: find_update_where dest!: find_SomeD intro!: option.map_cong0)

lemma other_devices_kept:
  "(\<And>v. dv_id (f v) = dv_id v) \<Longrightarrow>
   filter (\<lambda>x. dv_id x \<noteq> i) (update_where (\<lambda>v. dv_id v = i) f vs) = filter (\<lambda>x. dv_id x \<noteq> i) vs"
  by (induction vs) auto

text \<open>What a heartbeat must report for its phone not to be quarantined.\<close>

definition heartbeat_clean :: "gateway_env \<Rightarrow> time \<Rightarrow> id \<Rightarrow> ws_heartbeat \<Rightarrow> db \<Rightarrow> bool" where
  "heartbeat_clean env now dev h d =
     (let enrolled = filter (\<lambda>s. sim_device s = dev) (sims d) in
      length enrolled = length (wh_sims h) \<and> wh_sentAt h \<le> now + 60000 \<and>
      list_all (\<lambda>r. ws_sim_accepted env enrolled r \<and> \<not> sim_quarantined r) (wh_sims h))"

text \<open>C35. After a heartbeat a phone is online exactly if it was online and the heartbeat is clean:
  its clock is plausible, it reports as many SIMs as are enrolled on it, and each is enrolled on it
  with the same ICCID, slot, number and a matching name. A phone that was quarantined, or whose
  heartbeat is not clean, is quarantined; no SIM leaves quarantine and no other phone changes.\<close>

theorem heartbeat_never_promotes:
  assumes "applyHeartbeat env now dev h d = Inr d'" and "find_device d dev = Some v"
  shows "map_option dv_status (find_device d' dev) = Some
       (if dv_status v = Dev_quarantined \<or> \<not> heartbeat_clean env now dev h d then Dev_quarantined
        else if dv_status v = Dev_online then Dev_online else Dev_offline) \<and>
     \<not> sims_promoted d d' \<and> filter (\<lambda>x. dv_id x \<noteq> dev) (devices d') = filter (\<lambda>x. dv_id x \<noteq> dev) (devices d)"
proof -
  let ?enrolled = "filter (\<lambda>s. sim_device s = dev) (sims d)"
  let ?first = "dv_status v = Dev_quarantined \<or> length ?enrolled \<noteq> length (wh_sims h) \<or> now + 60000 < wh_sentAt h"
  obtain q d1 where r: "fold (apply_ws_sim env ?enrolled) (wh_sims h) (?first, d) = (q, d1)" by fastforce
  have q: "q = (dv_status v = Dev_quarantined \<or> \<not> heartbeat_clean env now dev h d)"
    using apply_ws_sims_flag [of env ?enrolled "wh_sims h" ?first d] r by (auto simp: heartbeat_clean_def Let_def)
  have dev1: "devices d1 = devices d" using apply_ws_sims_devices [of env ?enrolled "wh_sims h" ?first d] r by simp
  have sims1: "\<not> sims_promoted d d1" using apply_ws_sims_sims [of d env ?enrolled "wh_sims h" ?first] r by simp
  let ?f = "\<lambda>x. x\<lparr>dv_status := operatorControlledDeviceStatus q (dv_status v = Dev_online),
      dv_lastHeartbeatAt := Some now, dv_permissionsOk := (wh_permissionsOk h \<and> list_all snd (wh_permissions h)),
      dv_accessibilityOk := wh_accessibilityOk h\<rparr>"
  have d': "d' = set_device dev ?f d1"
    using assms r by (auto simp: applyHeartbeat_def Let_def split: if_splits)
  have "find_device d' dev = map_option ?f (find_device d1 dev)" unfolding d' by (rule find_written_device) simp
  then have "find_device d' dev = Some (?f v)" using assms(2) by (simp add: find_device_def dev1)
  moreover have "filter (\<lambda>x. dv_id x \<noteq> dev) (devices d') = filter (\<lambda>x. dv_id x \<noteq> dev) (devices d)"
    by (simp add: d' set_device_def dev1 other_devices_kept)
  moreover have "sims d' = sims d1" by (simp add: d' set_device_def)
  ultimately show ?thesis using sims1 q assms(2)
    by (simp add: operatorControlledDeviceStatus_def sims_promoted_def)
qed

lemma applyHeartbeat_accepts:
  "find_device d dev = Some v \<Longrightarrow> dv_status v \<noteq> Dev_retired \<Longrightarrow> \<not> isl (applyHeartbeat env now dev h d)"
  by (simp add: applyHeartbeat_def Let_def split: prod.split)

definition example_heartbeat :: ws_heartbeat where
  "example_heartbeat = \<lparr>wh_device = 1, wh_sentAt = 100, wh_agentVersion = ''1'', wh_appVersion = ''1'', wh_protocol = ''1'',
     wh_sdk = 30, wh_androidVersion = ''11'', wh_fingerprint = ''f'', wh_manufacturer = ''m'', wh_model = ''m'',
     wh_battery = None, wh_charging = True, wh_temperature = None, wh_network = ''lte'', wh_accessibilityOk = True,
     wh_permissionsOk = True, wh_openclaw = True, wh_permissions = [], wh_profileVersion = ''2'', wh_profiles = [],
     wh_sims = [\<lparr>ws_iccid = ''8925100001'', ws_iccidHash = replicate 64 (CHR ''a''), ws_number = ''+251911000001'',
       ws_suffix = ''0001'', ws_name = ''Abebe Kebede'', ws_slot = 1, ws_subscription = 1, ws_state = ''active'',
       ws_customer = None, ws_incentive = None, ws_fuel = None, ws_pocket = None, ws_balanceAt = None,
       ws_balanceSource = None\<rparr>]\<rparr>"

theorem heartbeat_never_promotes_witness:
  "map_option dv_status (find_device (projr (applyHeartbeat example_env 100 1 example_heartbeat example_db)) 1) =
     Some Dev_quarantined"
proof -
  have phone: "find_device example_db 1 = Some example_phone" by (simp add: example_defs find_device_def)
  from applyHeartbeat_accepts [OF phone]
  have "\<not> isl (applyHeartbeat example_env 100 1 example_heartbeat example_db)" by (simp add: example_phone_def)
  then have run: "applyHeartbeat example_env 100 1 example_heartbeat example_db =
      Inr (projr (applyHeartbeat example_env 100 1 example_heartbeat example_db))"
    by (cases "applyHeartbeat example_env 100 1 example_heartbeat example_db") simp_all
  have "\<not> heartbeat_clean example_env 100 1 example_heartbeat example_db"
    by (simp add: heartbeat_clean_def example_heartbeat_def example_defs ws_sim_accepted_def enrolled_as_def
        ws_identity_matches_def sha_def)
  with heartbeat_never_promotes [OF run phone] show ?thesis by simp
qed

section \<open>Connections\<close>

definition is_open :: "ws_socket \<Rightarrow> bool" where
  "is_open s = (sk_state s = Sock_open)"

text \<open>A job goes to the phone it is leased to.\<close>

definition frame_for :: "id \<Rightarrow> frame \<Rightarrow> bool" where
  "frame_for dev f = (case f of Job_frame e \<Rightarrow> ev_device e = Some dev | _ \<Rightarrow> True)"

definition socket_ok :: "(id \<Rightarrow> nat option) \<Rightarrow> ws_socket \<Rightarrow> bool" where
  "socket_ok registered s =
     ((is_open s \<longrightarrow> registered (sk_device s) = Some (sk_id s)) \<and> list_all (frame_for (sk_device s)) (sk_sent s))"

definition connections_ok :: "gateway \<Rightarrow> bool" where
  "connections_ok g = (map sk_id (gw_sockets g) = [0..<length (gw_sockets g)] \<and>
     list_all (socket_ok (gw_registered g)) (gw_sockets g))"

definition socket_of :: "gateway \<Rightarrow> nat \<Rightarrow> id \<Rightarrow> bool" where
  "socket_of g k dev = list_all (\<lambda>s. sk_id s = k \<longrightarrow> sk_device s = dev) (gw_sockets g)"

abbreviation same_sockets :: "gateway \<Rightarrow> gateway \<Rightarrow> bool" where
  "same_sockets g g' \<equiv> gw_sockets g' = gw_sockets g \<and> gw_registered g' = gw_registered g"

lemma same_sockets_ok: "connections_ok g \<Longrightarrow> same_sockets g g' \<Longrightarrow> connections_ok g'"
  by (simp add: connections_ok_def)

lemma same_sockets_of: "socket_of g k dev \<Longrightarrow> same_sockets g g' \<Longrightarrow> socket_of g' k dev"
  by (simp add: socket_of_def)

lemma set_socket_ok:
  assumes "connections_ok g" and "\<And>s. sk_id (f s) = sk_id s"
    and "\<And>s. s \<in> set (gw_sockets g) \<Longrightarrow> sk_id s = k \<Longrightarrow> socket_ok (gw_registered g) s \<Longrightarrow> socket_ok (gw_registered g) (f s)"
  shows "connections_ok (set_socket k f g)"
  using assms unfolding connections_ok_def set_socket_def
  by (auto simp: list_all_iff set_update_where map_update_where_frame)

lemma close_socket_ok: "connections_ok g \<Longrightarrow> connections_ok (close_socket k code g)"
  unfolding close_socket_def
  by (rule set_socket_ok) (auto simp: closing_def socket_ok_def is_open_def)

lemma send_ok: "connections_ok g \<Longrightarrow> socket_of g k dev \<Longrightarrow> frame_for dev f \<Longrightarrow> connections_ok (send k f g)"
  unfolding send_def
  by (rule set_socket_ok) (auto simp: socket_ok_def is_open_def socket_of_def list_all_iff)

lemma send_socket_of: "socket_of g k dev \<Longrightarrow> socket_of (send j f g) k dev"
  unfolding send_def set_socket_def socket_of_def by simp (erule list_all_update_where, simp)

lemma written_socket:
  assumes "s \<in> set (gw_sockets (set_socket k f g))" and "sk_id s = k"
  shows "\<exists>x. s = f x"
proof -
  from assms(1) have "s \<in> (\<lambda>x. if sk_id x = k then f x else x) ` set (gw_sockets g)"
    by (simp add: set_socket_def set_update_where)
  then obtain x where "s = (if sk_id x = k then f x else x)" by (rule imageE)
  with assms(2) show ?thesis by metis
qed

lemma closing_not_open: "\<not> is_open (closing code x)"
  by (simp add: closing_def is_open_def)

lemma connected_ok:
  assumes "connections_ok g"
  shows "connections_ok (connected dev identity g)"
proof -
  let ?k = "length (gw_sockets g)"
  define g1 where "g1 = (case gw_registered g dev of None \<Rightarrow> g | Some p \<Rightarrow> close_socket p 4001 g)"
  have ok1: "connections_ok g1" using assms close_socket_ok by (auto simp: g1_def split: option.split)
  have reg1: "gw_registered g1 = gw_registered g" and len1: "length (gw_sockets g1) = ?k"
    by (auto simp: g1_def close_socket_def set_socket_def split: option.split)
  have shut: "\<not> is_open s" if s: "s \<in> set (gw_sockets g1)" "sk_device s = dev" for s
  proof
    assume "is_open s"
    with ok1 s have reg: "gw_registered g dev = Some (sk_id s)"
      by (auto simp: connections_ok_def list_all_iff socket_ok_def reg1)
    then have "g1 = close_socket (sk_id s) 4001 g" by (simp add: g1_def)
    with s(1) have "\<exists>x. s = closing 4001 x" unfolding close_socket_def by (metis written_socket)
    with \<open>is_open s\<close> show False by (metis closing_not_open)
  qed
  have "socket_ok ((gw_registered g)(dev \<mapsto> ?k)) s" if "s \<in> set (gw_sockets g1)" for s
    using ok1 shut [OF that] that by (auto simp: connections_ok_def list_all_iff socket_ok_def reg1)
  moreover have "map sk_id (gw_sockets g1) = [0..<?k]" using ok1 len1 by (simp add: connections_ok_def)
  ultimately show ?thesis
    unfolding connected_def Let_def g1_def [symmetric] connections_ok_def
    by (simp add: list_all_iff len1 reg1 socket_ok_def)
qed

lemma socket_closed_ok:
  assumes "connections_ok g"
  shows "connections_ok (socket_closed k g)"
proof (cases "find_socket g k")
  case None
  then show ?thesis using assms by (simp add: socket_closed_def)
next
  case (Some s)
  define g1 where "g1 = set_socket k (\<lambda>x. x\<lparr>sk_state := Sock_closed\<rparr>) g"
  have ok1: "connections_ok g1" unfolding g1_def
    by (rule set_socket_ok [OF assms]) (auto simp: socket_ok_def is_open_def)
  have shut: "\<not> is_open x" if "x \<in> set (gw_sockets g1)" "sk_id x = k" for x
    using written_socket [OF that(1) [unfolded g1_def] that(2)] by (auto simp: is_open_def)
  have reg1: "gw_registered g1 = gw_registered g" by (simp add: g1_def set_socket_def)
  have "connections_ok (g1\<lparr>gw_registered := (gw_registered g1)(sk_device s := None)\<rparr>)"
    if reg: "gw_registered g (sk_device s) = Some k"
  proof -
    have "socket_ok ((gw_registered g)(sk_device s := None)) x" if "x \<in> set (gw_sockets g1)" for x
      using ok1 shut [OF that] reg that by (auto simp: connections_ok_def list_all_iff socket_ok_def reg1)
    then show ?thesis using ok1 by (simp add: connections_ok_def list_all_iff reg1)
  qed
  with Some ok1 show ?thesis by (simp add: socket_closed_def Let_def g1_def [symmetric])
qed

lemma shutdown_ok: "connections_ok g \<Longrightarrow> connections_ok (shutdown g)"
  unfolding shutdown_def by (rule fold_invariant [where P = connections_ok]) (auto intro: close_socket_ok)

section \<open>What a message sends\<close>

lemma processSpoolEvent_sockets: "processSpoolEvent env dev e g = Inr g' \<Longrightarrow> same_sockets g g'"
  by (cases e) (auto simp: processSpoolEvent_def lift_db_def process_attribution_def process_ussd_def on_db_def
      Let_def tx_simps split: spool_payload.splits if_splits option.splits)

lemma process_spool_sockets: "process_spool (processSpoolEvent env dev) es g = (a, g') \<Longrightarrow> same_sockets g g'"
proof (induction es arbitrary: g a)
  case (Cons e es)
  then show ?case
    by (auto split: sum.splits prod.splits dest!: processSpoolEvent_sockets)
qed simp

lemma envelope_device: "envelope now j = Inr e \<Longrightarrow> ev_device e = jb_device j"
  by (auto simp: envelope_def Let_def split: option.splits if_splits)

lemma lease_queued_device: "lease_queued now dev d = Inr (Some e, d') \<Longrightarrow> ev_device e = Some dev"
  by (auto simp: lease_queued_def tx_simps leased_job_def dest!: envelope_device split: option.splits)

lemma leaseNext_device:
  "leaseNext now dev d = Inr (Some e, r, d') \<Longrightarrow> find_device d dev = Some v \<Longrightarrow> dv_activeJob v = None \<Longrightarrow>
   ev_device e = Some dev"
  by (auto simp: leaseNext_def tx_simps dest!: lease_queued_device split: if_splits)

lemma sendLeaseOrJob_ok:
  assumes "connections_ok g" and "socket_of g k dev"
  shows "connections_ok (sendLeaseOrJob env now dev k g)"
proof -
  have "connections_ok (send k (Job_frame e) (g\<lparr>gw_db := d\<rparr>))" if "ev_device e = Some dev" for e d
    by (rule send_ok [where dev = dev]) (use assms that in \<open>auto simp: connections_ok_def socket_of_def frame_for_def\<close>)
  moreover have "connections_ok (g\<lparr>gw_db := d\<rparr>)" for d using assms by (simp add: connections_ok_def)
  ultimately show ?thesis using assms(1)
    by (auto simp: sendLeaseOrJob_def Let_def split: option.splits sum.splits prod.splits dest: leaseNext_device)
qed

lemma install_profiles_ok:
  assumes "connections_ok g" and "socket_of g k dev"
  shows "connections_ok (install_profiles env k g)"
proof -
  have "connections_ok (install_profiles env k g) \<and> socket_of (install_profiles env k g) k dev"
    unfolding install_profiles_def
    by (rule fold_invariant [where P = "\<lambda>g. connections_ok g \<and> socket_of g k dev"])
       (use assms in \<open>auto intro: send_ok send_socket_of simp: frame_for_def\<close>)
  then show ?thesis ..
qed

lemma message_ok:
  assumes ok: "connections_ok g" and so: "socket_of g k dev"
  shows "connections_ok (message env now dev k m g)"
proof -
  have db: "connections_ok (g\<lparr>gw_db := d\<rparr>)" "socket_of (g\<lparr>gw_db := d\<rparr>) k dev" for d
    using ok so by (simp_all add: connections_ok_def socket_of_def)
  have hb: "connections_ok (heartbeat_message env now dev k h g)" for h
    using ok db by (auto simp: heartbeat_message_def Let_def split: sum.split intro: sendLeaseOrJob_ok install_profiles_ok)
  have sp: "connections_ok (spool_message env now dev k claimed es g)" for claimed es
  proof -
    obtain a g1 where r: "process_spool (processSpoolEvent env dev) es g = (a, g1)" by fastforce
    note same = process_spool_sockets [OF r]
    have "connections_ok (send k (Spool_ack xs) g1)" for xs
      using send_ok [OF same_sockets_ok [OF ok same] same_sockets_of [OF so same]] by (simp add: frame_for_def)
    then show ?thesis using ok r same_sockets_of [OF so same]
      by (auto simp: spool_message_def intro: sendLeaseOrJob_ok send_socket_of)
  qed
  have rn: "connections_ok (renewal_message now dev k j fence g)" for j fence
    using ok db by (auto simp: renewal_message_def Let_def frame_for_def split: sum.split option.split prod.split intro!: send_ok)
  show ?thesis using ok hb sp rn install_profiles_ok [OF ok so] by (auto simp: message_def split: ws_message.split)
qed

lemma incoming_ok:
  assumes ok: "connections_ok g"
  shows "connections_ok (incoming env now k m g)"
proof (cases "find_socket g k")
  case None
  then show ?thesis using ok by (simp add: incoming_def)
next
  case (Some s)
  have "distinct (map sk_id (gw_sockets g))" using ok by (simp add: connections_ok_def)
  then have "socket_of g k (sk_device s)"
    using Some by (auto simp: socket_of_def list_all_iff find_socket_def dest!: find_SomeD dest: distinct_map_eq)
  then show ?thesis using Some ok message_ok close_socket_ok by (simp add: incoming_def)
qed

lemma upgraded_ok:
  assumes "connections_ok g"
  shows "connections_ok (upgraded env u g)"
proof -
  have "connections_ok (g\<lparr>gw_db := d\<rparr>)" for d using assms by (simp add: connections_ok_def)
  then show ?thesis using assms by (simp add: upgraded_def connected_ok split: prod.split sum.split)
qed

lemma gateway_step_ok: "connections_ok g \<Longrightarrow> connections_ok (gateway_step env e g)"
  using same_sockets_ok [of g "on_db f g" for f]
  by (cases e) (simp_all add: authorization_tick_def on_db_def upgraded_ok incoming_ok close_socket_ok socket_closed_ok
      shutdown_ok split: option.split)

lemma start_gateway_ok: "connections_ok (start_gateway d)"
  by (simp add: connections_ok_def start_gateway_def)

lemma gateway_run_ok: "connections_ok (fold (gateway_step env) es (start_gateway d))"
  by (rule fold_invariant [where P = connections_ok]) (auto intro: gateway_step_ok simp: start_gateway_ok)

lemma open_socket_registered:
  "connections_ok g \<Longrightarrow> s \<in> set (gw_sockets g) \<Longrightarrow> is_open s \<Longrightarrow> gw_registered g (sk_device s) = Some (sk_id s)"
  by (simp add: connections_ok_def list_all_iff socket_ok_def)

lemma open_sockets_distinct:
  assumes "connections_ok g"
  shows "distinct (map sk_device (filter is_open (gw_sockets g)))"
proof -
  have ids: "distinct (map sk_id (gw_sockets g))" using assms by (simp add: connections_ok_def)
  then have "distinct (filter is_open (gw_sockets g))" by (simp add: distinct_map)
  moreover have "inj_on sk_device (set (filter is_open (gw_sockets g)))"
  proof (rule inj_onI)
    fix s t
    assume st: "s \<in> set (filter is_open (gw_sockets g))" "t \<in> set (filter is_open (gw_sockets g))"
      and same: "sk_device s = sk_device t"
    then have "gw_registered g (sk_device s) = Some (sk_id s)" by (intro open_socket_registered [OF assms]) simp_all
    moreover from st have "gw_registered g (sk_device t) = Some (sk_id t)"
      by (intro open_socket_registered [OF assms]) simp_all
    ultimately have "sk_id s = sk_id t" using same by simp
    with ids st show "s = t" by (auto dest: distinct_map_eq)
  qed
  ultimately show ?thesis by (simp add: distinct_map)
qed

text \<open>C36. Whatever upgrades, messages, closures, checks and changes by the rest of the program
  happened, a phone has one open connection at most, and every job ever sent on a connection was
  leased to the phone of that connection.\<close>

theorem one_connection_per_phone:
  "distinct (map sk_device (filter is_open (gw_sockets (fold (gateway_step env) es (start_gateway d))))) \<and>
   list_all (\<lambda>s. list_all (frame_for (sk_device s)) (sk_sent s)) (gw_sockets (fold (gateway_step env) es (start_gateway d)))"
  using gateway_run_ok [of env es d] open_sockets_distinct [OF gateway_run_ok]
  by (simp add: connections_ok_def socket_ok_def list_all_iff)

end
