(* ===== verification/GatewayReplay.thy ===== *)
theory GatewayReplay
  imports GatewaySafety
begin

text \<open>
  A phone that gets no acknowledgement sends its spool again. Every transaction of the services
  keeps the keys by which an event finds its job and its SIM, and the inbox entry an event leaves,
  so the second delivery of a job status or of an SMS changes nothing.
\<close>

declare split_paired_All [simp del] split_paired_Ex [simp del]

section \<open>What the services keep\<close>

definition lease_key :: "device_job \<Rightarrow> id \<times> id option \<times> int" where
  "lease_key j = (jb_id j, jb_device j, jb_fence j)"

definition phone_key :: "sim_wallet \<Rightarrow> id \<times> string \<times> id" where
  "phone_key s = (sim_id s, sim_iccid s, sim_device s)"

definition keys :: "db \<Rightarrow> inbox_event list \<times> (id \<times> id option \<times> int) list \<times> (id \<times> string \<times> id) list" where
  "keys d = (inbox d, map lease_key (jobs d), map phone_key (sims d))"

lemma keys_same: "inbox d' = inbox d \<Longrightarrow> jobs d' = jobs d \<Longrightarrow> sims d' = sims d \<Longrightarrow> keys d' = keys d"
  by (simp add: keys_def)

lemma keys_fields [simp]:
  "keys (d\<lparr>accounts := x0\<rparr>) = keys d" "keys (d\<lparr>journals := x1\<rparr>) = keys d"
  "keys (d\<lparr>entries := x2\<rparr>) = keys d" "keys (d\<lparr>deposits := x3\<rparr>) = keys d"
  "keys (d\<lparr>receipts := x4\<rparr>) = keys d" "keys (d\<lparr>transfers := x5\<rparr>) = keys d"
  "keys (d\<lparr>attempts := x6\<rparr>) = keys d" "keys (d\<lparr>devices := x7\<rparr>) = keys d"
  "keys (d\<lparr>cases := x8\<rparr>) = keys d" "keys (d\<lparr>snapshots := x9\<rparr>) = keys d"
  "keys (d\<lparr>configs := x10\<rparr>) = keys d" "keys (d\<lparr>treasuries := x11\<rparr>) = keys d"
  "keys (d\<lparr>sweepExecutions := x12\<rparr>) = keys d" "keys (d\<lparr>settlements := x13\<rparr>) = keys d"
  "keys (d\<lparr>alerts := x14\<rparr>) = keys d" "keys (d\<lparr>alertDeliveries := x15\<rparr>) = keys d"
  "keys (d\<lparr>audit := x16\<rparr>) = keys d" "keys (d\<lparr>outbox := x17\<rparr>) = keys d"
  "keys (d\<lparr>next_id := x18\<rparr>) = keys d"
  by (simp_all add: keys_def)

lemma keys_writes [simp]:
  "keys (open_case now m ty st rt ri e d) = keys d" "keys (emit now at' ai et p d) = keys d"
  "keys (emit_transfer now t c p2p d) = keys d" "keys (set_transfer i ft d) = keys d"
  "keys (set_attempt i fa d) = keys d" "keys (set_device i fd d) = keys d"
  "keys (log_audit m aty aid ac tt ti r d) = keys d" "keys (credit_treasury t d) = keys d"
  "keys (set_settlement i fs d) = keys d" "keys (set_sweep i fx d) = keys d"
  "keys (snd (upsert_config mi d)) = keys d" "keys (snd (receipt_case now m ty ri e d)) = keys d"
  by (auto simp: open_case_def emit_def emit_transfer_def set_transfer_def set_attempt_def set_device_def
      log_audit_def credit_treasury_def set_settlement_def set_sweep_def upsert_config_def receipt_case_def keys_def
      split: option.split)

lemma keys_set_sim [simp]: "(\<And>s. phone_key (f s) = phone_key s) \<Longrightarrow> keys (set_sim i f d) = keys d"
  by (simp add: keys_def set_sim_def map_update_where_frame)

lemma keys_set_job [simp]: "(\<And>j. lease_key (f j) = lease_key j) \<Longrightarrow> keys (set_job i f d) = keys d"
  by (simp add: keys_def set_job_def map_update_where_frame)

lemma keys_notify [simp]: "keys (snd (notify env now ty msg m d)) = keys d"
  by (simp add: notify_def Let_def split: prod.split)

lemma keys_alert [simp]: "keys (alert env now ty msg m d) = keys d"
  by (simp add: alert_def)

section \<open>The ledger\<close>

lemma keys_post: "post a st i desc ps d = Inr d' \<Longrightarrow> keys d' = keys d"
proof -
  have "keys (fold (post_entry jid) ps e) = keys e" for jid e
    by (rule fold_frame) (simp add: post_entry_def)
  then show "post a st i desc ps d = Inr d' \<Longrightarrow> keys d' = keys d"
    by (auto simp: post_def Let_def split: if_splits)
qed

lemma keys_ensureAccounts: "ensureAccounts auth d = (acct, d') \<Longrightarrow> keys d' = keys d"
proof -
  have "keys (fold (upsert_account auth) cs e) = keys e" for cs e
    by (rule fold_frame) (simp add: upsert_account_def Let_def split: option.split)
  then show "ensureAccounts auth d = (acct, d') \<Longrightarrow> keys d' = keys d"
    by (auto simp: ensureAccounts_def Let_def)
qed

lemmas ledger_defs = release_reservation_def releaseWithdrawalReservation_def releaseInternalMoveFee_def
  restore_reservation_def restoreReleasedWithdrawalForLateSuccess_def restoreReleasedInternalMoveFeeForLateSuccess_def
  creditDeposit_def moveReceiptToSuspense_def settle_transfer_def settleWithdrawal_def settleInternalMoveFee_def

lemma keys_ledger:
  "release_reservation t d = Inr d1 \<Longrightarrow> keys d1 = keys d"
  "restore_reservation t d = Inr d2 \<Longrightarrow> keys d2 = keys d"
  "creditDeposit auth i m d = Inr d3 \<Longrightarrow> keys d3 = keys d"
  "moveReceiptToSuspense auth i m d = Inr d4 \<Longrightarrow> keys d4 = keys d"
  "settle_transfer now t fee d = Inr d5 \<Longrightarrow> keys d5 = keys d"
  by (auto simp: ledger_defs recordFeeOverrun_def Let_def tx_simps
      split: if_splits prod.splits dest!: keys_post keys_ensureAccounts)

section \<open>Job reports\<close>

lemma keys_updateTransferForReport:
  assumes "updateTransferForReport now j a t r st ob p d = Inr d'"
  shows "keys d' = keys d"
proof -
  have rows: "keys (report_rows now j a t r st ob p e) = keys e" for e
    by (simp add: report_rows_def report_linked_def Let_def)
  have "keys (report_cases now j t r st p e) = keys e" for e by (simp add: report_cases_def)
  with rows show ?thesis using assms
    by (auto simp: updateTransferForReport_def Let_def tx_simps phone_key_def split: if_splits dest!: keys_ledger)
qed

lemma keys_open_name_review: "keys (open_name_review now j t e nd d) = keys d"
  by (simp add: open_name_review_def Let_def split: name_disposition.split)

text \<open>After the transaction the only new inbox entry is the one of the event.\<close>

definition with_inbox :: "string \<Rightarrow> string \<Rightarrow> string \<Rightarrow> db \<Rightarrow> db \<Rightarrow> bool" where
  "with_inbox source ext hash d d' = (keys d' = keys (add_inbox source ext hash d))"

abbreviation status_recorded :: "spool_context \<Rightarrow> db \<Rightarrow> db \<Rightarrow> bool" where
  "status_recorded c \<equiv> with_inbox ''device_job_status'' (sc_eventId c) (sc_hash c)"

lemma keys_add_inbox: "keys d = keys e \<Longrightarrow> keys (add_inbox s x h d) = keys (add_inbox s x h e)"
  by (simp add: keys_def add_inbox_def)

lemma persist_recorded:
  "keys e = keys d \<Longrightarrow> status_recorded c d (persistSpoolStatusOutcome now j link (Some c) nd e)"
  by (auto simp: persistSpoolStatusOutcome_def with_inbox_def keys_open_name_review intro!: keys_add_inbox split: option.split)

lemma keys_report_late: "keys (report_late j a t r ob d) = keys d"
  by (simp add: report_late_def Let_def lease_key_def)

lemma report_apply_recorded:
  assumes "keys d = keys d0" and "report_apply now dev j link r (Some c) nd ob d = Inr (ref, d')"
  shows "status_recorded c d0 d'"
proof -
  let ?st = "effective_state j (rp_state r) nd"
  let ?p = "if money_moving (jb_type j) \<and> ?st = J_unknown \<and> jb_state j \<noteq> J_leased
      then Some (or_else (jb_committedAt j) (or_else (jb_startedAt j) ob))
      else if ?st = J_committed then Some ob else jb_committedAt j"
  let ?f = "\<lambda>x. x\<lparr>jb_state := ?st, jb_startedAt := (if ?st = J_device_started then Some ob else jb_startedAt j),
      jb_committedAt := ?p,
      jb_completedAt := (if ?st \<in> {J_succeeded, J_failed, J_unknown, J_cancelled} then Some ob else jb_completedAt x),
      jb_screen := or_else_opt (ussdDiagnosticLabel (rp_screen r)) (jb_screen x),
      jb_errorCode := or_else_opt (rp_errorCode r) (jb_errorCode x)\<rparr>"
  define d1 where "d1 = set_job (jb_id j) ?f d"
  let ?unlock = "\<lambda>d2. if shouldReleaseDeviceLockAfterReport ?st then
      d2\<lparr>devices := update_where (\<lambda>v. dv_id v = dev \<and> dv_activeJob v = Some (jb_id j))
        (\<lambda>v. v\<lparr>dv_activeJob := None\<rparr>) (devices d2)\<rparr> else d2"
  from assms(2) obtain d2
    where d2: "(case link of None \<Rightarrow> Inr d1 | Some (a, t) \<Rightarrow> updateTransferForReport now j a t r ?st ob ?p d1) = Inr d2"
      and d3: "d' = persistSpoolStatusOutcome now j link (Some c) nd (?unlock d2)"
    unfolding report_apply_def Let_def and_then_Inr_iff d1_def [symmetric]
    by (elim exE conjE) (rule that, assumption, simp only: sum.inject prod.inject)
  have "keys d2 = keys d1" using d2 keys_updateTransferForReport by (auto split: option.splits)
  moreover have "keys d1 = keys d" unfolding d1_def by (rule keys_set_job) (simp add: lease_key_def)
  ultimately have "keys (?unlock d2) = keys d0" using assms(1) by simp
  then show ?thesis unfolding d3 by (rule persist_recorded)
qed

lemma keys_quarantine_both [simp]: "keys (quarantine_both dev sim d) = keys d"
  by (simp add: quarantine_both_def phone_key_def)

lemma report_job_recorded:
  assumes "report_job now dev j r (Some c) d = Inr (ref, invalid, d')"
  shows "status_recorded c d d'"
proof -
  obtain ob b where b: "boundedJobObservedAt (rp_observedAt r) now (jb_createdAt j) = (ob, b)" by fastforce
  define d1 where "d1 = (if b then quarantine_both dev (jb_sim j) d else d)"
  have k: "keys d1 = keys d" by (simp add: d1_def)
  from assms show ?thesis
    unfolding report_job_def Let_def b split d1_def [symmetric]
    by (auto simp: tx_simps k keys_report_late split: if_splits option.splits intro!: persist_recorded
        dest: report_apply_recorded [OF k])
qed

section \<open>What only grows\<close>

definition db_grows :: "db \<Rightarrow> db \<Rightarrow> bool" where
  "db_grows d d' = ((\<exists>xs. inbox d' = inbox d @ xs) \<and> map lease_key (jobs d') = map lease_key (jobs d) \<and>
     map phone_key (sims d') = map phone_key (sims d))"

lemma db_grows_keys: "keys d' = keys d \<Longrightarrow> db_grows d d'"
  by (simp add: db_grows_def keys_def)

lemma db_grows_recorded: "with_inbox s x h d d' \<Longrightarrow> db_grows d d'"
  by (simp add: db_grows_def with_inbox_def keys_def add_inbox_def)

lemma find_lease:
  "map lease_key xs = map lease_key ys \<Longrightarrow>
   map_option lease_key (find (\<lambda>j. jb_id j = i) xs) = map_option lease_key (find (\<lambda>j. jb_id j = i) ys)"
proof (induction xs arbitrary: ys)
  case (Cons x xs)
  then show ?case by (cases ys) (auto simp: lease_key_def)
qed simp

lemma lease_still_there:
  assumes "db_grows d d'" and "find_job d i = Some j"
  shows "\<exists>j'. find_job d' i = Some j' \<and> jb_device j' = jb_device j \<and> jb_fence j' = jb_fence j"
proof -
  from assms(1) have "map lease_key (jobs d') = map lease_key (jobs d)" by (simp add: db_grows_def)
  from find_lease [OF this, of i] assms(2) show ?thesis
    by (auto simp: find_job_def lease_key_def)
qed

lemma event_still_there: "db_grows d d' \<Longrightarrow> find_inbox d s x = Some i \<Longrightarrow> find_inbox d' s x = Some i"
  by (auto simp: db_grows_def find_inbox_def find_append)

lemma event_recorded:
  assumes "with_inbox s x h d d'" and "find_inbox d s x = None"
  shows "find_inbox d' s x = Some \<lparr>ib_source = s, ib_externalId = x, ib_hash = h\<rparr>"
  using assms by (simp add: with_inbox_def keys_def add_inbox_def find_inbox_def find_append)

lemma find_phone:
  "map phone_key xs = map phone_key ys \<Longrightarrow>
   map_option phone_key (find (\<lambda>s. p (sim_iccid s)) xs) = map_option phone_key (find (\<lambda>s. p (sim_iccid s)) ys)"
proof (induction xs arbitrary: ys)
  case (Cons x xs)
  then show ?case by (cases ys) (auto simp: phone_key_def)
qed simp

lemma phone_still_there:
  assumes "db_grows d d'" and "find (\<lambda>w. p (sim_iccid w)) (sims d) = Some w"
  shows "\<exists>w'. find (\<lambda>w. p (sim_iccid w)) (sims d') = Some w' \<and> sim_device w' = sim_device w"
proof -
  from assms(1) have "map phone_key (sims d') = map phone_key (sims d)" by (simp add: db_grows_def)
  from find_phone [OF this, of p] assms(2) show ?thesis by (auto simp: phone_key_def)
qed

lemma with_inbox_keys: "with_inbox s x h d d1 \<Longrightarrow> keys d2 = keys d1 \<Longrightarrow> with_inbox s x h d d2"
  by (simp add: with_inbox_def)

section \<open>A status delivered again\<close>

definition status_seen :: "gateway_env \<Rightarrow> id \<Rightarrow> spool_event \<Rightarrow> status_event \<Rightarrow> db \<Rightarrow> bool" where
  "status_seen env dev e s d = (status_valid s \<and>
     (\<exists>j. find_job d (te_job s) = Some j \<and> jb_device j = Some dev \<and> jb_fence j = te_fence s) \<and>
     (\<exists>i. find_inbox d ''device_job_status'' (event_text e) = Some i \<and> ib_hash i = sc_hash (status_context env e s)))"

lemma status_seen_grows:
  assumes "status_seen env dev e s d" and g: "db_grows d d'"
  shows "status_seen env dev e s d'"
proof -
  from assms(1) obtain j i where j: "find_job d (te_job s) = Some j" "jb_device j = Some dev" "jb_fence j = te_fence s"
    and i: "find_inbox d ''device_job_status'' (event_text e) = Some i" "ib_hash i = sc_hash (status_context env e s)"
    and v: "status_valid s"
    unfolding status_seen_def by (elim conjE exE)
  from lease_still_there [OF g j(1)] j obtain j' where
    "find_job d' (te_job s) = Some j'" "jb_device j' = Some dev" "jb_fence j' = te_fence s" by auto
  moreover note event_still_there [OF g i(1)] i(2) v
  ultimately show ?thesis by (simp add: status_seen_def)
qed

lemma status_seen_again: "status_seen env dev e s d \<Longrightarrow> process_status env now dev e s d = Inr d"
  by (auto simp: status_seen_def process_status_def reportFromSpool_def report_def jobStatusInboxDisposition_def
      job_reported_def status_context_def)

lemma keys_job_reported [simp]: "keys (job_reported env now dev j r b d) = keys d"
  by (simp add: job_reported_def Let_def split: option.split)

lemma process_status_seen:
  assumes "process_status env now dev e s d = Inr d'"
  shows "status_seen env dev e s d' \<and> db_grows d d'"
proof -
  let ?c = "status_context env e s"
  let ?r = "\<lparr>rp_fence = te_fence s, rp_state = te_state s, rp_observedAt = te_observedAt s,
      rp_screen = None, rp_errorCode = Some (take 80 (sc_errorCode ?c))\<rparr>"
  have ev: "sc_eventId ?c = event_text e" by (simp add: status_context_def)
  from assms obtain ref invalid d1 where v: "status_valid s"
    and run: "report now dev (te_job s) ?r (Some ?c) d = Inr (ref, invalid, d1)"
    and d': "d' = job_reported env now dev (te_job s) ref invalid d1"
    by (auto simp: process_status_def reportFromSpool_def tx_simps split: if_splits)
  from run obtain j where j: "find_job d (te_job s) = Some j" "jb_device j = Some dev" "jb_fence j = te_fence s"
    and disp: "(ref, invalid, d1) = (None, False, d) \<and>
        (\<exists>i. find_inbox d ''device_job_status'' (event_text e) = Some i \<and> ib_hash i = sc_hash ?c) \<or>
      find_inbox d ''device_job_status'' (event_text e) = None \<and> report_job now dev j ?r (Some ?c) d = Inr (ref, invalid, d1)"
    by (auto simp: report_def jobStatusInboxDisposition_def ev split: option.splits if_splits)
  from disp show ?thesis
  proof (elim disjE conjE)
    assume "(ref, invalid, d1) = (None, False, d)"
      and "\<exists>i. find_inbox d ''device_job_status'' (event_text e) = Some i \<and> ib_hash i = sc_hash ?c"
    then show ?thesis using j d' v by (simp add: job_reported_def status_seen_def db_grows_keys)
  next
    assume new: "find_inbox d ''device_job_status'' (event_text e) = None"
      and "report_job now dev j ?r (Some ?c) d = Inr (ref, invalid, d1)"
    then have rec: "status_recorded ?c d d'"
      unfolding d' using with_inbox_keys [OF report_job_recorded keys_job_reported] by blast
    note g = db_grows_recorded [OF rec]
    from lease_still_there [OF g j(1)] event_recorded [OF rec [unfolded ev] new] j v g show ?thesis
      by (auto simp: status_seen_def)
  qed
qed

section \<open>An SMS delivered again\<close>

lemma phone_key_mutation [simp]: "phone_key (apply_mutation m s) = phone_key s"
  by (simp add: apply_mutation_def phone_key_def split: option.split prod.split)

lemma keys_updateWalletCounters [simp]:
  "(\<And>s. phone_key (f s) = phone_key s) \<Longrightarrow> keys (updateWalletCounters now sim x y f d) = keys d"
  unfolding updateWalletCounters_def by (rule keys_set_sim) (simp add: phone_key_def)

lemma keys_count_received: "count_received now sim t prov m d = Inr d' \<Longrightarrow> keys d' = keys d"
  by (auto simp: count_received_def split: option.splits)

lemma keys_suspend_incoming:
  "suspend_incoming now system sim receipt p t cs ss d = Inr d' \<Longrightarrow> keys d' = keys d"
  by (auto simp: suspend_incoming_def Let_def tx_simps split: if_splits dest!: keys_ledger keys_count_received)

lemma keys_credit_incoming:
  "credit_incoming now sim receipt p t x d = Inr d' \<Longrightarrow> keys d' = keys d"
  by (auto simp: credit_incoming_def Let_def tx_simps split: if_splits dest!: keys_ledger keys_count_received)

lemma keys_matchIncoming:
  "matchIncoming now system sim receipt p t d = Inr (m, d') \<Longrightarrow> keys d' = keys d"
  by (auto simp: matchIncoming_def Let_def tx_simps split: list.splits dest: keys_suspend_incoming keys_credit_incoming)

lemma keys_receipt_case: "receipt_case now m ty ri e d = (c, d') \<Longrightarrow> keys d' = keys d"
  by (auto simp: receipt_case_def)

lemma keys_unmatched_payout:
  "unmatched_payout now sim receipt p t cs ms d = Inr (st, c, d') \<Longrightarrow> keys d' = keys d"
  by (auto simp: unmatched_payout_def Let_def phone_key_def split: option.splits prod.splits
      dest!: keys_receipt_case intro!: keys_updateWalletCounters)
     (simp_all add: apply_mutation_def split: option.split prod.split)

lemma keys_late_success_case [simp]: "keys (late_success_case now receipt p t d) = keys d"
  by (simp add: late_success_case_def)

lemma keys_close_payout_job [simp]: "keys (close_payout_job now tid d) = keys d"
  by (simp add: close_payout_job_def Let_def lease_key_def split: option.split)

lemma keys_linked [simp]:
  "keys (update_linked_sweep now i r oc d) = keys d" "keys (update_linked_settlement now i oc d) = keys d"
  by (simp_all add: update_linked_sweep_def update_linked_settlement_def split: option.split)

lemma keys_settled_wallet [simp]:
  "keys (updateWalletCounters now sim x y (\<lambda>w. apply_mutation m (w\<lparr>sim_reserved := sim_reserved w - n\<rparr>)) d) = keys d"
  by (rule keys_updateWalletCounters) (simp only: phone_key_mutation, simp add: phone_key_def)

lemma keys_matched_payout:
  assumes "matched_payout now sim receipt p t x d = Inr d'"
  shows "keys d' = keys d"
  using assms
  by (auto simp: matched_payout_def Let_def tx_simps split: if_splits option.splits dest!: keys_ledger)

lemma keys_matchOutgoing:
  "matchOutgoing now sim receipt p t d = Inr (r, d') \<Longrightarrow> keys d' = keys d"
  by (auto simp: matchOutgoing_def Let_def tx_simps split: list.splits if_splits
      dest: keys_unmatched_payout keys_matched_payout)

lemma keys_finish_balance_job [simp]: "keys (finish_balance_job t j d) = keys d"
  by (simp add: finish_balance_job_def Let_def lease_key_def split: option.split)

lemma keys_applyBalance:
  "applyBalance now sim receipt sender p t d = Inr (st, c, d') \<Longrightarrow> keys d' = keys d"
  by (auto simp: applyBalance_def Let_def uncorrelated_balance_def stale_balance_def refreshed_wallet_def phone_key_def
      split: list.splits option.splits if_splits prod.splits dest!: keys_receipt_case)

lemma keys_dispatch_message:
  "dispatch_message now dev system hash sim receipt e old t parsed d = Inr (r, d') \<Longrightarrow> keys d' = keys d"
  by (auto simp: dispatch_message_def Let_def tx_simps split: parsed_sms.splits if_splits prod.splits
      dest!: keys_receipt_case keys_applyBalance keys_matchIncoming keys_matchOutgoing)

lemma ingest_known:
  "find_inbox d ''device_sms'' (ev_eventId e) \<noteq> None \<Longrightarrow>
   ingest now system hash dev e d =
     Inr (plain_result True ''already_processed'', now + DEVICE_RECEIPT_CLOCK_SKEW_MS < ev_receivedAt e, d)"
  by (simp add: ingest_def)

lemma record_receipt_recorded:
  assumes "record_receipt now dev system hash sim e old t parsed d = Inr (r, d')"
  shows "with_inbox ''device_sms'' (ev_eventId e) hash d d'"
  using assms
  by (auto simp: record_receipt_def Let_def with_inbox_def phone_key_def split: if_splits dest!: keys_dispatch_message)

lemma ingest_recorded:
  assumes "ingest now system hash dev e d = Inr (r, b, d')" and "find_inbox d ''device_sms'' (ev_eventId e) = None"
  shows "with_inbox ''device_sms'' (ev_eventId e) hash d d'"
proof -
  from assms obtain s where s: "find (\<lambda>s. sim_iccid s = ev_simIccid e) (sims d) = Some s" "sim_device s = dev"
    by (auto simp: ingest_def Let_def split: option.splits if_splits)
  let ?future = "now + DEVICE_RECEIPT_CLOCK_SKEW_MS < ev_receivedAt e"
  let ?d1 = "if ?future then quarantine_both dev (sim_id s) d else d"
  let ?parsed = "\<lambda>c. if isTrustedTelebirrSmsSender (ev_sender e) then c else Unknown_sms ''untrusted_sender''"
  let ?old = "\<lambda>c. parsed_type (?parsed c) = ''balance'' \<and> \<not> ?future \<and> balance_clock_invalid (ev_receivedAt e) (sim_id s) ?d1"
  let ?d2 = "\<lambda>c. if ?old c then quarantine_both dev (sim_id s) ?d1 else ?d1"
  let ?t = "\<lambda>c. if ?future \<or> ?old c then now else ev_receivedAt e"
  from assms(1) obtain c x
    where r: "record_receipt now dev system hash (sim_id s) e (?old c) (?t c) (?parsed c) (?d2 c) = Inr x"
      and x: "(r, b, d') = (case x of (r, y) \<Rightarrow> (r, ?future \<or> ?old c, y))"
    unfolding ingest_def Let_def s option.simps assms(2) simp_thms if_True if_False not_not
      and_then_Inr_iff map_outcome_Inr_iff
    by (elim exE conjE) (rule that)
  from x have "x = (r, d')" by (cases x) simp
  note r = r [unfolded this]
  have "keys (?d2 c) = keys d" by simp
  from keys_add_inbox [OF this] record_receipt_recorded [OF r] show ?thesis by (simp add: with_inbox_def)
qed

lemma keys_sms_ingested [simp]: "keys (sms_ingested env now dev e r b d) = keys d"
  by (simp add: sms_ingested_def Let_def split: option.split)

definition sms_seen ::
  "gateway_env \<Rightarrow> id \<Rightarrow> spool_event \<Rightarrow> string \<Rightarrow> time \<Rightarrow> string \<Rightarrow> string \<Rightarrow> db \<Rightarrow> bool" where
  "sms_seen env dev e sender received hash body d =
     (between 1 32 sender \<and> 0 < received \<and> hex64 hash \<and> between 1 8000 body \<and> received \<le> MAX_DATE_MS \<and>
      (\<exists>w. find (\<lambda>s. sha env (sim_iccid s) = hash) (sims d) = Some w \<and> sim_device w = dev) \<and>
      (\<exists>i. find_inbox d ''device_sms'' (event_text e) = Some i))"

lemma sms_seen_grows:
  assumes "sms_seen env dev e sender received hash body d" and "db_grows d d'"
  shows "sms_seen env dev e sender received hash body d'"
proof -
  from assms(1) obtain w i where w: "find (\<lambda>s. sha env (sim_iccid s) = hash) (sims d) = Some w" "sim_device w = dev"
    and i: "find_inbox d ''device_sms'' (event_text e) = Some i"
    unfolding sms_seen_def by (elim conjE exE)
  from phone_still_there [OF assms(2) w(1)] w(2) obtain w' where
    "find (\<lambda>s. sha env (sim_iccid s) = hash) (sims d') = Some w'" "sim_device w' = dev" by auto
  with event_still_there [OF assms(2) i] assms(1) show ?thesis by (simp add: sms_seen_def)
qed

lemma sms_seen_again:
  "sms_seen env dev e sender received hash body d \<Longrightarrow> process_sms env now dev e sender received hash body d = Inr d"
  by (auto simp: sms_seen_def process_sms_def Let_def ingest_known sms_ingested_def plain_result_def)

lemma process_sms_seen:
  assumes "process_sms env now dev e sender received hash body d = Inr d'"
  shows "sms_seen env dev e sender received hash body d' \<and> db_grows d d'"
proof -
  from assms obtain w r b d1 where valid: "between 1 32 sender" "0 < received" "hex64 hash" "between 1 8000 body"
      "received \<le> MAX_DATE_MS"
    and w: "find (\<lambda>s. sha env (sim_iccid s) = hash) (sims d) = Some w" "sim_device w = dev"
    and run: "ingest now (ge_system env) (sha env body) dev \<lparr>ev_eventId = event_text e, ev_simIccid = sim_iccid w,
        ev_sender = sender, ev_body = body, ev_receivedAt = received\<rparr> d = Inr (r, b, d1)"
    and d': "d' = sms_ingested env now dev \<lparr>ev_eventId = event_text e, ev_simIccid = sim_iccid w,
        ev_sender = sender, ev_body = body, ev_receivedAt = received\<rparr> r b d1"
    by (auto simp: process_sms_def Let_def tx_simps not_less not_le split: if_splits option.splits)
  show ?thesis
  proof (cases "find_inbox d ''device_sms'' (event_text e)")
    case None
    then have rec: "with_inbox ''device_sms'' (event_text e) (sha env body) d d'"
      unfolding d' using with_inbox_keys [OF ingest_recorded [OF run] keys_sms_ingested] by simp
    note g = db_grows_recorded [OF rec]
    from phone_still_there [OF g w(1)] event_recorded [OF rec None] valid w(2) g show ?thesis
      by (auto simp: sms_seen_def)
  next
    case (Some i)
    then have "d' = d" using run unfolding d' by (auto simp: ingest_known sms_ingested_def plain_result_def)
    with Some w valid show ?thesis by (simp add: sms_seen_def db_grows_keys)
  qed
qed

section \<open>The spool\<close>

text \<open>The screens of USSD sessions, kept as evidence only, are left aside: their label follows the
  latest screen.\<close>

definition is_screen :: "spool_event \<Rightarrow> bool" where
  "is_screen e = (case se_payload e of Ussd_screen_evidence _ _ _ _ \<Rightarrow> True | _ \<Rightarrow> False)"

definition grows :: "gateway \<Rightarrow> gateway \<Rightarrow> bool" where
  "grows g g' = (db_grows (gw_db g) (gw_db g') \<and> set (gw_unattributed g) \<subseteq> set (gw_unattributed g'))"

definition seen :: "gateway_env \<Rightarrow> id \<Rightarrow> spool_event \<Rightarrow> gateway \<Rightarrow> bool" where
  "seen env dev e g = (case se_payload e of
       Job_status s \<Rightarrow> status_seen env dev e s (gw_db g)
     | Job_acceptance \<Rightarrow> True
     | Sms_evidence sender received subscription hash body \<Rightarrow> sms_seen env dev e sender received hash body (gw_db g)
     | Sms_attribution_failure received reason body \<Rightarrow> 0 < received \<and> between 1 120 reason \<and> between 1 8000 body \<and>
         list_ex (\<lambda>r. ua_event r = se_event e) (gw_unattributed g)
     | _ \<Rightarrow> False)"

lemma seen_grows:
  assumes "seen env dev e g" and "grows g g'"
  shows "seen env dev e g'"
  using assms unfolding seen_def grows_def
  by (auto simp: list_ex_iff split: spool_payload.splits intro: status_seen_grows sms_seen_grows)

lemma seen_again: "seen env dev e g \<Longrightarrow> processSpoolEvent env dev (now, e) g = Inr g"
  by (auto simp: seen_def processSpoolEvent_def lift_db_def status_seen_again sms_seen_again process_attribution_def
      split: spool_payload.splits)

lemma keys_attribution_recorded:
  "db_grows d (attribution_recorded env now dev e received reason body future t d)"
  by (auto simp: attribution_recorded_def Let_def db_grows_def add_inbox_def open_case_def set_device_def
      map_update_where_frame phone_key_def)

lemma keys_label_screen [simp]: "keys (label_screen j screen d) = keys d"
  by (simp add: label_screen_def lease_key_def split: option.split)

lemma process_attribution_seen:
  assumes "process_attribution env now dev e received reason body g = Inr g'"
  shows "0 < received \<and> between 1 120 reason \<and> between 1 8000 body \<and>
    list_ex (\<lambda>r. ua_event r = se_event e) (gw_unattributed g') \<and> grows g g'"
proof -
  have "db_grows d (alert env n ty m x (attribution_recorded env now dev e received reason body future t d))"
    for d n ty m x future t
    using keys_attribution_recorded keys_alert by (simp add: db_grows_def keys_def)
  then show ?thesis using assms
    by (auto simp: process_attribution_def on_db_def Let_def grows_def db_grows_keys not_le split: if_splits)
qed

lemma process_ussd_grows: "process_ussd env now dev e j st raw t g = Inr g' \<Longrightarrow> grows g g'"
  by (auto simp: process_ussd_def Let_def grows_def split: if_splits option.splits intro!: db_grows_keys)

lemma processSpoolEvent_grows:
  assumes "processSpoolEvent env dev (now, e) g = Inr g'"
  shows "grows g g' \<and> (is_screen e \<or> seen env dev e g')"
  using assms process_status_seen process_sms_seen process_attribution_seen process_ussd_grows
  by (cases "se_payload e") (auto simp: processSpoolEvent_def lift_db_def tx_simps grows_def seen_def is_screen_def db_grows_keys)

lemma grows_trans: "grows g g1 \<Longrightarrow> grows g1 g2 \<Longrightarrow> grows g g2"
  by (auto simp: grows_def db_grows_def)

lemma grows_refl: "grows g g"
  by (simp add: grows_def db_grows_keys)

lemma spool_grows: "foldM (processSpoolEvent env dev) es g = Inr g' \<Longrightarrow> grows g g'"
proof (induction es arbitrary: g)
  case (Cons e es)
  then obtain g1 where "processSpoolEvent env dev e g = Inr g1" "foldM (processSpoolEvent env dev) es g1 = Inr g'"
    by (auto simp: tx_simps)
  with Cons.IH processSpoolEvent_grows [of env dev "fst e" "snd e" g g1] show ?case
    by (auto intro: grows_trans)
qed (simp add: grows_refl)

lemma spool_seen:
  "foldM (processSpoolEvent env dev) es g = Inr g' \<Longrightarrow> \<not> list_ex (is_screen \<circ> snd) es \<Longrightarrow>
   list_all (\<lambda>e. seen env dev (snd e) g') es"
proof (induction es arbitrary: g)
  case (Cons e es)
  then obtain g1 where g1: "processSpoolEvent env dev e g = Inr g1" "foldM (processSpoolEvent env dev) es g1 = Inr g'"
    by (auto simp: tx_simps)
  then have "seen env dev (snd e) g1"
    using Cons.prems(2) processSpoolEvent_grows [of env dev "fst e" "snd e" g g1] by simp
  with g1 Cons show ?case by (auto intro: seen_grows spool_grows)
qed simp

lemma seen_spool:
  "list_all (\<lambda>e. seen env dev (snd e) g) es \<Longrightarrow> process_spool (processSpoolEvent env dev) es g = (es, g)"
proof (induction es)
  case (Cons e es)
  then show ?case using seen_again [of env dev "snd e" g "fst e"] by simp
qed simp



end
