(* ===== verification/GatewaySystem.thy ===== *)
theory GatewaySystem
  imports GatewayReplay System
begin

text \<open>
  The whole program: phones on their WebSocket connections in any interleaving with the requests,
  reports, staff decisions and worker rounds of \<open>System\<close>. Every gateway event keeps the invariant of
  the money and the dispatch.
\<close>

declare split_paired_All [simp del] split_paired_Ex [simp del]

section \<open>Alerts and quarantines\<close>

lemma same_core_alert [simp]: "same_core d (alert env now ty msg m d)"
  by (simp add: alert_def notify_def Let_def log_audit_def same_core_def same_ledger_def split: prod.split)

lemma alert_ok: "system_ok d \<Longrightarrow> system_ok (alert env now ty msg m d)"
  by (erule system_ok_same_core) (rule same_core_alert)

lemma job_reported_ok: "system_ok d \<Longrightarrow> system_ok (job_reported env now dev j r b d)"
  by (simp add: job_reported_def Let_def alert_ok split: option.split)

lemma job_leased_ok: "system_ok d \<Longrightarrow> system_ok (job_leased env now r d)"
  by (simp add: job_leased_def alert_ok split: option.split)

lemma sms_ingested_ok: "system_ok d \<Longrightarrow> system_ok (sms_ingested env now dev e r b d)"
  by (simp add: sms_ingested_def Let_def alert_ok split: option.split)

lemma quarantine_sims_ok:
  "system_ok d \<Longrightarrow> system_ok (d\<lparr>sims := update_where p (\<lambda>s. s\<lparr>sim_status := Sim_quarantined\<rparr>) (sims d)\<rparr>)"
  by (rule system_ok_sims) (simp_all add: same_holds_update)

section \<open>Spool events\<close>

lemma process_status_ok: "system_ok d \<Longrightarrow> process_status env now dev e s d = Inr d' \<Longrightarrow> system_ok d'"
  by (auto simp: process_status_def tx_simps split: if_splits intro: job_reported_ok reportFromSpool_ok)

lemma process_sms_ok:
  "system_ok d \<Longrightarrow> process_sms env now dev e sender received hash body d = Inr d' \<Longrightarrow> system_ok d'"
  by (auto simp: process_sms_def Let_def tx_simps split: if_splits option.splits intro!: sms_ingested_ok intro: ingest_ok)

lemma attribution_recorded_ok:
  assumes "system_ok d"
  shows "system_ok (attribution_recorded env now dev e received reason body future t d)"
proof -
  have "system_ok (open_case now None ty R_open rt ri ev (if c then d else add_inbox s x h d))" for ty rt ri ev c s x h
    by (rule system_ok_same_core [OF assms]) simp
  then have "system_ok (set_device dev (\<lambda>v. v\<lparr>dv_status := Dev_quarantined\<rparr>)
      (open_case now None ty R_open rt ri ev (if c then d else add_inbox s x h d)))" for ty rt ri ev c s x h
    by (rule set_device_ok) simp_all
  then show ?thesis unfolding attribution_recorded_def Let_def by (rule quarantine_sims_ok)
qed

lemma process_attribution_ok:
  "system_ok (gw_db g) \<Longrightarrow> process_attribution env now dev e received reason body g = Inr g' \<Longrightarrow> system_ok (gw_db g')"
  by (auto simp: process_attribution_def on_db_def Let_def split: if_splits intro!: alert_ok attribution_recorded_ok)

lemma label_screen_ok:
  assumes ok: "system_ok d"
  shows "system_ok (label_screen j screen d)"
proof -
  have "system_ok (set_job j (\<lambda>x. x\<lparr>jb_screen := l\<rparr>) d)" for l
  proof -
    have "frame_step d (set_job j (\<lambda>x. x\<lparr>jb_screen := l\<rparr>) d)"
      by (rule keep_frame [where p = "\<lambda>x. jb_id x = j" and h = "\<lambda>x. x\<lparr>jb_screen := l\<rparr>"])
        (simp_all add: unfinished_job_def dev_step_def list_all2_same)
    then show ?thesis by (intro system_ok_idle [OF ok]) simp_all
  qed
  then show ?thesis using ok by (simp add: label_screen_def split: option.split)
qed

lemma process_ussd_ok:
  "system_ok (gw_db g) \<Longrightarrow> process_ussd env now dev e j st raw t g = Inr g' \<Longrightarrow> system_ok (gw_db g')"
  by (auto simp: process_ussd_def Let_def split: if_splits option.splits
      intro!: alert_ok label_screen_ok quarantine_both_ok)

lemma processSpoolEvent_ok:
  assumes "system_ok (gw_db g)" and "processSpoolEvent env dev e g = Inr g'"
  shows "system_ok (gw_db g')"
  using assms
  by (cases e) (auto simp: processSpoolEvent_def lift_db_def tx_simps split: spool_payload.splits
      intro: process_status_ok process_sms_ok process_attribution_ok process_ussd_ok)

lemma process_spool_ok:
  assumes "system_ok (gw_db g)" and "process_spool (processSpoolEvent env dev) es g = (a, g')"
  shows "system_ok (gw_db g')"
proof -
  from process_spool_prefix [OF assms(2)] have "foldM (processSpoolEvent env dev) a g = Inr g'" by blast
  from foldM_invariant [where P = "\<lambda>g. system_ok (gw_db g)", OF _ assms(1) this] processSpoolEvent_ok
  show ?thesis by blast
qed

section \<open>Heartbeats and leases\<close>

lemma apply_ws_sims_ok: "system_ok d \<Longrightarrow> system_ok (snd (fold (apply_ws_sim env enrolled) rs (q, d)))"
proof (induction rs arbitrary: q d)
  case (Cons r rs)
  obtain q1 d1 where r: "apply_ws_sim env enrolled r (q, d) = (q1, d1)" by fastforce
  then have "system_ok d1" using Cons.prems
    by (auto simp: apply_ws_sim_def split: option.splits if_splits intro!: set_sim_ok)
  with r Cons.IH show ?case by simp
qed simp

lemma applyHeartbeat_ok:
  assumes ok: "system_ok d" and run: "applyHeartbeat env now dev h d = Inr d'"
  shows "system_ok d'"
proof -
  have "system_ok (set_device dev (\<lambda>x. x\<lparr>dv_status := st, dv_lastHeartbeatAt := t, dv_permissionsOk := p,
      dv_accessibilityOk := a\<rparr>) e)" if "system_ok e" for st t p a e
    by (rule set_device_ok [OF that]) simp_all
  moreover have "system_ok e" if "fold (apply_ws_sim env enrolled) rs (q, d) = (b, e)" for enrolled rs q b e
    using apply_ws_sims_ok [OF ok, of env enrolled rs q] that by simp
  ultimately show ?thesis using run
    by (auto simp: applyHeartbeat_def Let_def split: option.splits if_splits prod.splits)
qed

lemma gw_db_send [simp]: "gw_db (send k f g) = gw_db g"
  by (simp add: send_def set_socket_def)

lemma gw_db_close [simp]: "gw_db (close_socket k c g) = gw_db g"
  by (simp add: close_socket_def set_socket_def)

lemma gw_db_install [simp]: "gw_db (install_profiles env k g) = gw_db g"
  unfolding install_profiles_def by (rule fold_frame) simp

lemma sendLeaseOrJob_keeps_ok: "system_ok (gw_db g) \<Longrightarrow> system_ok (gw_db (sendLeaseOrJob env now dev k g))"
  by (auto simp: sendLeaseOrJob_def Let_def split: option.splits sum.splits prod.splits intro!: job_leased_ok
      intro: leaseNext_ok)

lemma message_keeps_ok:
  assumes ok: "system_ok (gw_db g)"
  shows "system_ok (gw_db (message env now dev k m g))"
proof -
  have hb: "system_ok (gw_db (heartbeat_message env now dev k h g))" for h
    using ok by (auto simp: heartbeat_message_def Let_def split: sum.split
        intro!: sendLeaseOrJob_keeps_ok intro: applyHeartbeat_ok)
  have sp: "system_ok (gw_db (spool_message env now dev k claimed es g))" for claimed es
    using ok by (auto simp: spool_message_def split: prod.split intro!: sendLeaseOrJob_keeps_ok intro: process_spool_ok)
  have rn: "system_ok (gw_db (renewal_message now dev k j fence g))" for j fence
    using ok by (auto simp: renewal_message_def Let_def split: sum.split option.split prod.split
        intro: renewActiveForConnection_ok)
  show ?thesis using ok hb sp rn by (auto simp: message_def split: ws_message.split)
qed

section \<open>Upgrades\<close>

lemma upgrade_ok:
  assumes "system_ok d" and "upgrade env u d = (r, d')"
  shows "system_ok d'"
proof -
  have pin: "system_ok (d\<lparr>devices := update_where p (\<lambda>x. x\<lparr>dv_certFingerprint := f\<rparr>) (devices d)\<rparr>)" for p f
    by (rule system_ok_devices [OF assms(1)]) (rule list_all2_update_where, simp_all add: dev_step_def)
  have "system_ok d1" if "upgrade_pinned env u v d = (x, d1)" for v x d1
    using that assms(1) pin
    by (auto simp: upgrade_pinned_def pin_cert_def unique_violation_def Let_def split: if_splits sum.splits)
  with assms show ?thesis
    by (auto simp: upgrade_def split: sum.splits prod.splits)
qed

lemma gateway_step_keeps_ok:
  assumes ok: "system_ok (gw_db g)" and "\<And>f. e = Other_service f \<Longrightarrow> system_ok (f (gw_db g))"
  shows "system_ok (gw_db (gateway_step env e g))"
proof (cases e)
  case (Upgraded u)
  obtain r d' where u: "upgrade env u (gw_db g) = (r, d')" by fastforce
  have "gw_db (connected dev i h) = gw_db h" for dev i h
    by (simp add: connected_def Let_def split: option.split)
  with Upgraded u ok upgrade_ok [OF ok u] show ?thesis by (auto simp: upgraded_def split: sum.split prod.split)
next
  case (Text_message now k m)
  then show ?thesis using ok by (auto simp: incoming_def message_keeps_ok split: option.split)
next
  case Shutdown
  have "gw_db (shutdown g) = gw_db g" unfolding shutdown_def by (rule fold_frame) simp
  with Shutdown ok show ?thesis by simp
qed (use assms in \<open>auto simp: authorization_tick_def socket_closed_def set_socket_def on_db_def Let_def split: option.split\<close>)

section \<open>The program\<close>

text \<open>One step of the whole program: a gateway event, or an operation of the services in a
  transaction of its own.\<close>

fun live_step :: "gateway_env \<Rightarrow> ws_event + system_op \<Rightarrow> gateway \<Rightarrow> gateway" where
  "live_step env (Inl e) g = (case e of Other_service f \<Rightarrow> g | _ \<Rightarrow> gateway_step env e g)"
| "live_step env (Inr op) g = on_db (run_all run_system [op]) g"

lemma live_step_ok: "system_ok (gw_db g) \<Longrightarrow> system_ok (gw_db (live_step env x g))"
proof (cases x)
  case (Inl e)
  assume "system_ok (gw_db g)"
  then show ?thesis using Inl gateway_step_keeps_ok [of g e env] by (cases e) auto
next
  case (Inr op)
  assume "system_ok (gw_db g)"
  then show ?thesis using Inr sys.run_all_inv [of "gw_db g" "[op]"] by (simp add: on_db_def)
qed

lemma live_run_ok: "system_ok (gw_db (fold (live_step env) xs (start_gateway empty_db)))"
  by (rule fold_invariant [where P = "\<lambda>g. system_ok (gw_db g)"])
     (simp_all add: live_step_ok start_gateway_def system_ok_empty)

text \<open>C4. Phones on their connections do not disturb the money: in any interleaving of upgrades,
  messages with their spools and heartbeats, closures and shutdowns with the operations of the
  services, every journal balances, the reserved balance of every merchant is the sum over that
  merchant's open transfers, and the reserved amount of every SIM is the sum over its own.\<close>

theorem live_traffic_keeps_the_books:
  "let d = gw_db (fold (live_step env) xs (start_gateway empty_db)) in
     ledger_ok d \<and> class_total d True = class_total d False \<and>
     balance_of d (key_of a Reserved) = ledger_held d a \<and>
     list_all (\<lambda>s. sim_reserved s = sim_held d (sim_id s)) (sims d)"
  using system_ok_parts(1,2) [OF live_run_ok, of env xs]
  by (simp add: Let_def holds_ok_def list_all_iff ledger_ok_trial_balance)

end
