(* ===== verification/Spec2Isabelle.thy ===== *)
theory Spec2Isabelle
  imports Prelude Contracts Money Schema Ledger LedgerLaws Names Patterns Parsers Fleet
    Withdrawals DeviceJobs Sms Requests Settlements Sweeps Reservations Transactions JobSafety
    SmsSafety Admin SystemSafety System UrlPolicy Replays Leases JsonText Alerts Webhooks WebhookSafety Support
    Configuration ConfigurationSafety Cache Portal PortalSafety StaffAccess StaffSafety ApiAccess ApiSafety WebhookProgress
    CanonicalJson Profiles Gateway GatewaySafety GatewayReplay GatewaySystem
begin

text \<open>
  A peer-to-peer payment gateway over a fleet of phones with mobile-money SIM wallets.

  Work in progress.
\<close>

declare split_paired_All [simp del] split_paired_Ex [simp del]

section \<open>What holds after any sequence of operations\<close>

text \<open>C1. The books balance. Start from the empty database and run any sequence of requests,
  phone messages, staff decisions and worker rounds, each in its own transaction and rolled
  back when it raises: afterwards every journal balances, every account's balance is the sum of
  its entries, and assets and expenses equal liabilities and revenues.\<close>

theorem any_run_balances_the_books:
  "let d = run_all run_system ops empty_db in ledger_ok d \<and> class_total d True = class_total d False"
  using system_ok_parts(1) [OF sys.run_all_inv [OF system_ok_empty]]
  by (simp add: Let_def ledger_ok_trial_balance)

text \<open>C2. Nothing stays reserved without an open transfer, and no open transfer is without its
  reservation: after any sequence of operations the reserved balance of every merchant in the
  ledger is the sum over that merchant's open transfers, and the reserved amount of every SIM
  is the sum over the open transfers that SIM was chosen for.\<close>

theorem any_run_reserves_open_transfers:
  "let d = run_all run_system ops empty_db in
     balance_of d (key_of a Reserved) = ledger_held d a \<and>
     list_all (\<lambda>s. sim_reserved s = sim_held d (sim_id s)) (sims d)"
  using system_ok_parts(2) [OF sys.run_all_inv [OF system_ok_empty, of ops]]
  by (simp add: Let_def holds_ok_def list_all_iff)

text \<open>C3. The dispatch stays consistent: after any sequence of operations a job that may still
  run belongs to the latest attempt of a transfer that is still open, a phone's lock names only
  a job it holds a lease on, a released transfer is closed, and a settled one succeeded.\<close>

theorem any_run_keeps_dispatch_consistent:
  "let d = run_all run_system ops empty_db in jobs_ok d \<and> locks_ok d \<and> attempts_ok d \<and> posts_ok d \<and> rows_ok d"
  using system_ok_parts [OF sys.run_all_inv [OF system_ok_empty, of ops]] by (simp add: Let_def)

end
